(* ===== verification/Js_Prelude.thy ===== *)
theory Js_Prelude
  imports Complex_Main "HOL-Library.Sublist"
begin

text \<open>
  The prelude of the development: the JavaScript values and the few operations of the
  language that the desktop host (\<^verbatim>\<open>desktop/src/main\<close>) uses on them, the result
  type of code that may throw, and the generic lemmas the components share.

  \<^item> A JavaScript string is a sequence of UTF-16 code units, so \<open>jstr\<close> is a list of
    natural numbers; \<open>lit\<close> turns an ASCII literal into one. \<open>length\<close> is therefore
    JavaScript's \<open>length\<close>, and \<open>utf8_len\<close> is \<^verbatim>\<open>Buffer.byteLength(s, "utf8")\<close>,
    which counts a surrogate pair as four bytes and a lone surrogate as three.
  \<^item> A JavaScript value that crosses a trust boundary (\<^verbatim>\<open>unknown\<close> in the sources)
    is a \<open>js\<close>; numbers are IEEE values seen as rationals plus the three non-finite ones.
  \<^item> Throwing code returns \<open>jstr + 'a\<close>, \<open>Inl\<close> carrying the message of the error.
\<close>

named_theorems js_eval \<open>unfolding rules that evaluate the value-level helpers on literals\<close>
named_theorems js_valid \<open>unfolding rules of the validators, for case analyses of acceptance\<close>

section \<open>Strings\<close>

type_synonym jstr = "nat list"

definition lit :: "string \<Rightarrow> jstr" where
  "lit s = map of_char s"

lemma lit_eq_iff [simp]: "lit a = lit b \<longleftrightarrow> a = b"
  by (simp add: lit_def inj_map_eq_map inj_def)

lemma lit_Nil [simp]: "lit [] = []"
  by (simp add: lit_def)

lemma lit_eq_Nil [simp]: "lit s = [] \<longleftrightarrow> s = []"
  by (simp add: lit_def)

lemma length_lit [simp]: "length (lit s) = length s"
  by (simp add: lit_def)

lemma lit_append: "lit (a @ b) = lit a @ lit b"
  by (simp add: lit_def)

lemma lit_in_map_lit [simp]: "lit a \<in> set (map lit xs) \<longleftrightarrow> a \<in> set xs"
  by auto

lemma lit_image_iff [simp]: "lit a \<in> lit ` A \<longleftrightarrow> a \<in> A"
  by auto

text \<open>The value that a text names in a table of literals.\<close>

definition named :: "(string \<times> 'a) list \<Rightarrow> jstr \<Rightarrow> 'a option" where
  "named table s = map_option snd (find (\<lambda>kv. lit (fst kv) = s) table)"

lemma named_mem: "named table s = Some x \<Longrightarrow> \<exists>k. (k, x) \<in> set table \<and> s = lit k"
  by (auto simp: named_def find_Some_iff) (metis fst_conv nth_mem)

subsection \<open>Character classes\<close>

text \<open>The classes of the regular expressions in the sources, as predicates on code units.\<close>

definition between :: "nat \<Rightarrow> nat \<Rightarrow> nat \<Rightarrow> bool" where
  "between lo hi c \<longleftrightarrow> lo \<le> c \<and> c \<le> hi"

definition is_digit :: "nat \<Rightarrow> bool" where
  "is_digit c \<longleftrightarrow> between 48 57 c"

definition is_lower :: "nat \<Rightarrow> bool" where
  "is_lower c \<longleftrightarrow> between 97 122 c"

definition is_upper :: "nat \<Rightarrow> bool" where
  "is_upper c \<longleftrightarrow> between 65 90 c"

definition is_alnum :: "nat \<Rightarrow> bool" where
  "is_alnum c \<longleftrightarrow> is_digit c \<or> is_lower c \<or> is_upper c"

text \<open>\<^verbatim>\<open>[0-9a-f]\<close> under the flag \<^verbatim>\<open>i\<close>.\<close>

definition is_hex :: "nat \<Rightarrow> bool" where
  "is_hex c \<longleftrightarrow> is_digit c \<or> between 97 102 c \<or> between 65 70 c"

text \<open>\<^verbatim>\<open>[\u0000-\u001f\u007f]\<close>: the control characters.\<close>

definition is_control :: "nat \<Rightarrow> bool" where
  "is_control c \<longleftrightarrow> c \<le> 31 \<or> c = 127"

text \<open>\<^verbatim>\<open>[A-Za-z0-9._-]\<close>: the alphabet of workspace and operation ids.\<close>

definition is_id_char :: "nat \<Rightarrow> bool" where
  "is_id_char c \<longleftrightarrow> is_alnum c \<or> c = 46 \<or> c = 95 \<or> c = 45"

text \<open>\<^verbatim>\<open>[a-z0-9_-]\<close>: the alphabet of extension ids.\<close>

definition is_slug_char :: "nat \<Rightarrow> bool" where
  "is_slug_char c \<longleftrightarrow> is_lower c \<or> is_digit c \<or> c = 95 \<or> c = 45"

text \<open>\<^verbatim>\<open>\w\<close>\<close>

definition is_word_char :: "nat \<Rightarrow> bool" where
  "is_word_char c \<longleftrightarrow> is_alnum c \<or> c = 95"

text \<open>White space and line terminators of ECMAScript, what \<^verbatim>\<open>trim\<close> and \<^verbatim>\<open>\s\<close> take.\<close>

definition is_space :: "nat \<Rightarrow> bool" where
  "is_space c \<longleftrightarrow> between 9 13 c \<or> c = 32 \<or> c = 160 \<or> c = 5760 \<or> between 8192 8202 c
     \<or> c = 8232 \<or> c = 8233 \<or> c = 8239 \<or> c = 8287 \<or> c = 12288 \<or> c = 65279"

definition is_line_end :: "nat \<Rightarrow> bool" where
  "is_line_end c \<longleftrightarrow> c = 10 \<or> c = 13 \<or> c = 8232 \<or> c = 8233"

lemmas char_classes = between_def is_digit_def is_lower_def is_upper_def is_alnum_def is_hex_def
  is_control_def is_id_char_def is_slug_char_def is_space_def is_line_end_def

declare char_classes [js_eval]

lemma id_char_not_control [simp]: "is_id_char c \<Longrightarrow> \<not> is_control c"
  by (auto simp: char_classes)

lemma slug_char_is_id_char [simp]: "is_slug_char c \<Longrightarrow> is_id_char c"
  by (auto simp: char_classes)

lemma line_end_is_space [simp]: "is_line_end c \<Longrightarrow> is_space c"
  by (auto simp: char_classes)

subsection \<open>String operations\<close>

definition has_control :: "jstr \<Rightarrow> bool" where
  "has_control s \<longleftrightarrow> list_ex is_control s"

definition has_nul :: "jstr \<Rightarrow> bool" where
  "has_nul s \<longleftrightarrow> list_ex (\<lambda>c. c = 0) s"

lemma has_nul_has_control: "has_nul s \<Longrightarrow> has_control s"
  by (auto simp: has_nul_def has_control_def list_ex_iff is_control_def)

definition trim :: "jstr \<Rightarrow> jstr" where
  "trim s = rev (dropWhile is_space (rev (dropWhile is_space s)))"

lemma dropWhile_rev_id: "s = [] \<or> \<not> P (last s) \<Longrightarrow> rev (dropWhile P (rev s)) = s"
  by (cases s rule: rev_cases) auto

lemma trim_hd: "trim s \<noteq> [] \<Longrightarrow> \<not> is_space (hd (trim s))"
proof -
  assume ne: "trim s \<noteq> []"
  let ?d = "dropWhile is_space s"
  have pre: "prefix (trim s) ?d"
    by (metis trim_def suffix_dropWhile suffix_to_prefix rev_rev_ident)
  then have "?d \<noteq> []" using ne by (metis prefix_Nil)
  moreover have "hd (trim s) = hd ?d"
    using pre ne by (auto simp: prefix_def)
  ultimately show ?thesis by (metis hd_dropWhile)
qed

lemma trim_last: "trim s \<noteq> [] \<Longrightarrow> \<not> is_space (last (trim s))"
  by (metis trim_def hd_dropWhile last_rev rev.simps(1))

lemma trim_idem [simp]: "trim (trim s) = trim s"
proof (cases "trim s = []")
  case True
  have "trim [] = []" by (simp add: trim_def)
  with True show ?thesis by simp
next
  case False
  then have "dropWhile is_space (trim s) = trim s"
    using trim_hd [OF False] by (cases "trim s") auto
  then have "trim (trim s) = rev (dropWhile is_space (rev (trim s)))"
    by (simp add: trim_def)
  then show ?thesis
    using trim_last [OF False] by (simp add: dropWhile_rev_id)
qed

lemma sublist_trim: "sublist (trim s) s"
proof -
  have "prefix (trim s) (dropWhile is_space s)"
    by (metis trim_def suffix_dropWhile suffix_to_prefix rev_rev_ident)
  moreover have "suffix (dropWhile is_space s) s"
    by (rule suffix_dropWhile)
  ultimately show ?thesis
    by (metis prefix_imp_sublist suffix_imp_sublist sublist_order.order.trans)
qed

lemma set_trim: "set (trim s) \<subseteq> set s"
  using sublist_trim by (rule set_mono_sublist)

text \<open>\<^verbatim>\<open>s.replace(/\s+/g, " ")\<close>\<close>

function collapse_spaces :: "jstr \<Rightarrow> jstr" where
  "collapse_spaces [] = []"
| "collapse_spaces (c # cs) =
     (if is_space c then 32 # collapse_spaces (dropWhile is_space cs) else c # collapse_spaces cs)"
  by pat_completeness auto
termination
  by (relation "measure length") (auto simp: less_Suc_eq_le length_dropWhile_le)

definition starts_with :: "jstr \<Rightarrow> jstr \<Rightarrow> bool" where
  "starts_with p s \<longleftrightarrow> take (length p) s = p"

definition ends_with :: "jstr \<Rightarrow> jstr \<Rightarrow> bool" where
  "ends_with p s \<longleftrightarrow> length p \<le> length s \<and> drop (length s - length p) s = p"

fun str_includes :: "jstr \<Rightarrow> jstr \<Rightarrow> bool" where
  "str_includes p [] \<longleftrightarrow> p = []"
| "str_includes p (c # cs) \<longleftrightarrow> starts_with p (c # cs) \<or> str_includes p cs"

lemma starts_with_prefix: "starts_with p s \<longleftrightarrow> prefix p s"
  by (metis append_eq_conv_conj prefix_def starts_with_def append_take_drop_id)

lemma includes_sublist: "str_includes p s \<longleftrightarrow> sublist p s"
  by (induction s) (auto simp: starts_with_prefix sublist_Cons_right)

text \<open>The case folding of a regular expression with the flag \<^verbatim>\<open>i\<close>, on the letters the code uses.\<close>

definition to_lower :: "nat \<Rightarrow> nat" where
  "to_lower c = (if is_upper c then c + 32 else c)"

text \<open>\<^verbatim>\<open>s.toLowerCase()\<close> on the characters whose lower case has an ASCII letter.\<close>

definition lower_units :: "nat \<Rightarrow> jstr" where
  "lower_units c = (if is_upper c then [c + 32] else if c = 8490 then [107] else if c = 304 then [105, 775] else [c])"

definition lower_text :: "jstr \<Rightarrow> jstr" where
  "lower_text s = concat (map lower_units s)"

text \<open>\<^verbatim>\<open>s.split(d)\<close> for a one-character separator.\<close>

fun split_on :: "nat \<Rightarrow> jstr \<Rightarrow> jstr list" where
  "split_on d [] = [[]]"
| "split_on d (c # cs) =
     (if c = d then [] # split_on d cs
      else (case split_on d cs of [] \<Rightarrow> [[c]] | p # ps \<Rightarrow> (c # p) # ps))"

text \<open>\<^verbatim>\<open>parts.join(d)\<close>, for any separator string.\<close>

fun join :: "jstr \<Rightarrow> jstr list \<Rightarrow> jstr" where
  "join d [] = []"
| "join d [p] = p"
| "join d (p # q # ps) = p @ d @ join d (q # ps)"

lemma split_on_ne [simp]: "split_on d s \<noteq> []"
  by (cases s) (auto split: list.splits)

lemma split_on_no_sep: "p \<in> set (split_on d s) \<Longrightarrow> d \<notin> set p"
proof (induction s arbitrary: p)
  case (Cons c cs)
  then show ?case
    by (cases "split_on d cs") (auto split: if_splits)
qed simp

lemma join_split_on: "join [d] (split_on d s) = s"
proof (induction s)
  case (Cons c cs)
  then show ?case
    by (cases "split_on d cs"; cases "tl (split_on d cs)") auto
qed simp

subsection \<open>UTF-8 length\<close>

definition is_high :: "nat \<Rightarrow> bool" where
  "is_high c \<longleftrightarrow> between 55296 56319 c"

definition is_low :: "nat \<Rightarrow> bool" where
  "is_low c \<longleftrightarrow> between 56320 57343 c"

definition unit_bytes :: "nat \<Rightarrow> nat" where
  "unit_bytes c = (if c < 128 then 1 else if c < 2048 then 2 else 3)"

fun utf8_len :: "jstr \<Rightarrow> nat" where
  "utf8_len [] = 0"
| "utf8_len [c] = unit_bytes c"
| "utf8_len (c # d # cs) =
     (if is_high c \<and> is_low d then 4 + utf8_len cs else unit_bytes c + utf8_len (d # cs))"

lemma unit_bytes_bounds: "1 \<le> unit_bytes c" "unit_bytes c \<le> 3"
  by (auto simp: unit_bytes_def)

lemma unit_bytes_surrogate: "is_high c \<or> is_low c \<Longrightarrow> unit_bytes c = 3"
  by (auto simp: unit_bytes_def is_high_def is_low_def between_def)

lemma length_le_utf8_len: "length s \<le> utf8_len s"
proof (induction s rule: utf8_len.induct)
  case (2 c)
  then show ?case using unit_bytes_bounds(1) [of c] by simp
next
  case (3 c d cs)
  then show ?case using unit_bytes_bounds(1) [of c] by (cases "is_high c \<and> is_low d") auto
qed simp

lemma utf8_len_le: "utf8_len s \<le> 3 * length s"
proof (induction s rule: utf8_len.induct)
  case (2 c)
  then show ?case using unit_bytes_bounds(2) [of c] by simp
next
  case (3 c d cs)
  then show ?case using unit_bytes_bounds(2) [of c] by (cases "is_high c \<and> is_low d") auto
qed simp

lemma utf8_len_0 [simp]: "utf8_len s = 0 \<longleftrightarrow> s = []"
  using length_le_utf8_len [of s] by auto

lemma utf8_len_ascii: "list_all (\<lambda>c. c < 128) s \<Longrightarrow> utf8_len s = length s"
  by (induction s rule: utf8_len.induct)
    (auto simp: unit_bytes_def is_high_def between_def)

text \<open>Dropping the last code unit always shortens the encoding, also inside a surrogate pair.\<close>

lemma utf8_len_snoc_less: "utf8_len s < utf8_len (s @ [c])"
proof (induction s rule: utf8_len.induct)
  case 1
  then show ?case using unit_bytes_bounds(1) [of c] by simp
next
  case (2 a)
  then show ?case
    using unit_bytes_bounds(1) [of c] unit_bytes_surrogate [of a] by auto
next
  case (3 a b cs)
  then show ?case by auto
qed

lemma utf8_len_snoc_le: "utf8_len (s @ [c]) \<le> utf8_len s + 3"
proof (induction s rule: utf8_len.induct)
  case 1
  then show ?case using unit_bytes_bounds(2) [of c] by simp
next
  case (2 a)
  then show ?case
    using unit_bytes_bounds(2) [of c] unit_bytes_bounds(1) [of a] unit_bytes_surrogate [of a] by auto
next
  case (3 a b cs)
  then show ?case by auto
qed

lemma utf8_len_take_less:
  assumes "m < n" "n \<le> length s"
  shows "utf8_len (take m s) < utf8_len (take n s)"
  using assms
proof (induction n)
  case (Suc n)
  have step: "utf8_len (take n s) < utf8_len (take (Suc n) s)"
    using Suc.prems(2) by (simp add: take_Suc_conv_app_nth utf8_len_snoc_less)
  then show ?case
    using Suc by (cases "m = n") auto
qed simp

lemma utf8_len_tl: "utf8_len cs \<le> utf8_len (c # cs)"
proof (cases cs)
  case (Cons d ds)
  have "utf8_len (d # ds) \<le> 4 + utf8_len ds" if "is_low d"
    using that by (cases ds) (auto simp: is_low_def is_high_def between_def unit_bytes_def)
  with Cons show ?thesis by auto
qed simp

lemma utf8_len_drop: "utf8_len (drop n s) \<le> utf8_len s"
proof (induction n arbitrary: s)
  case (Suc n)
  show ?case using Suc [of "tl s"] utf8_len_tl [of "tl s" "hd s"] by (cases s) auto
qed simp

lemma utf8_len_take_mono:
  assumes "m \<le> n" shows "utf8_len (take m s) \<le> utf8_len (take n s)"
proof (cases "m < n \<and> n \<le> length s")
  case True
  then show ?thesis using utf8_len_take_less [of m n s] by simp
next
  case False
  show ?thesis
  proof (cases "m < length s")
    case True
    then show ?thesis
      using False assms utf8_len_take_less [of m "length s" s] by (cases "m = n") auto
  next
    case False
    then show ?thesis using assms by simp
  qed
qed

text \<open>
  The truncation loop that several components of the host share
  (\<^verbatim>\<open>while (byteLength(result) > max) result = result.slice(0, -1)\<close>).
\<close>

function bound_text :: "jstr \<Rightarrow> nat \<Rightarrow> jstr" where
  "bound_text s maxBytes =
     (if utf8_len s > maxBytes then bound_text (butlast s) maxBytes else s)"
  by pat_completeness auto
termination
  by (relation "measure (\<lambda>(s, m). length s)") (auto intro!: diff_less)

declare bound_text.simps [simp del]

lemma bound_text_le: "utf8_len (bound_text s m) \<le> m"
proof (induction s m rule: bound_text.induct)
  case (1 s m)
  then show ?case by (subst bound_text.simps) auto
qed

lemma bound_text_prefix: "prefix (bound_text s m) s"
proof (induction s m rule: bound_text.induct)
  case (1 s m)
  then show ?case
    by (subst bound_text.simps) (auto intro: prefix_order.trans prefixeq_butlast)
qed

lemma bound_text_longest:
  "prefix p s \<Longrightarrow> utf8_len p \<le> m \<Longrightarrow> prefix p (bound_text s m)"
proof (induction s m rule: bound_text.induct)
  case (1 s m)
  show ?case
  proof (cases "utf8_len s > m")
    case True
    with "1.prems" have "p \<noteq> s" by auto
    with "1.prems"(1) have "prefix p (butlast s)"
      by (metis append_butlast_last_id prefix_bot.extremum_unique prefix_snoc butlast.simps(1))
    with "1.IH" True "1.prems"(2) show ?thesis
      by (subst bound_text.simps) simp
  next
    case False
    with "1.prems" show ?thesis by (subst bound_text.simps) simp
  qed
qed

lemma bound_text_id: "utf8_len s \<le> m \<Longrightarrow> bound_text s m = s"
  by (subst bound_text.simps) simp

section \<open>Values\<close>

datatype jnum = Fin rat | PosInf | NegInf | NaN

datatype js =
    JUndef
  | JNull
  | JBool bool
  | JNum jnum
  | JStr jstr
  | JArr "js list"
  | JObj "(jstr \<times> js) list"

abbreviation jint :: "int \<Rightarrow> js" where
  "jint i \<equiv> JNum (Fin (of_int i))"

abbreviation jtext :: "string \<Rightarrow> js" where
  "jtext s \<equiv> JStr (lit s)"

definition max_safe :: int where
  "max_safe = 2 ^ 53 - 1"

text \<open>\<^verbatim>\<open>value.key\<close>: a missing key and a property of a non-object are \<^verbatim>\<open>undefined\<close>.\<close>

definition jget :: "js \<Rightarrow> string \<Rightarrow> js" where
  "jget v k = (case v of
      JObj kvs \<Rightarrow> (case map_of kvs (lit k) of Some x \<Rightarrow> x | None \<Rightarrow> JUndef)
    | _ \<Rightarrow> JUndef)"

definition obj_keys :: "js \<Rightarrow> jstr list" where
  "obj_keys v = (case v of JObj kvs \<Rightarrow> map fst kvs | _ \<Rightarrow> [])"

definition is_record :: "js \<Rightarrow> bool" where
  "is_record v \<longleftrightarrow> (case v of JObj _ \<Rightarrow> True | _ \<Rightarrow> False)"

definition is_array :: "js \<Rightarrow> bool" where
  "is_array v \<longleftrightarrow> (case v of JArr _ \<Rightarrow> True | _ \<Rightarrow> False)"

definition is_boolean :: "js \<Rightarrow> bool" where
  "is_boolean v \<longleftrightarrow> (case v of JBool _ \<Rightarrow> True | _ \<Rightarrow> False)"

text \<open>\<^verbatim>\<open>value == null\<close>.\<close>

definition is_nullish :: "js \<Rightarrow> bool" where
  "is_nullish v \<longleftrightarrow> v = JUndef \<or> v = JNull"

definition str_sat :: "(jstr \<Rightarrow> bool) \<Rightarrow> js \<Rightarrow> bool" where
  "str_sat P v \<longleftrightarrow> (case v of JStr s \<Rightarrow> P s | _ \<Rightarrow> False)"

definition arr_sat :: "(js list \<Rightarrow> bool) \<Rightarrow> js \<Rightarrow> bool" where
  "arr_sat P v \<longleftrightarrow> (case v of JArr xs \<Rightarrow> P xs | _ \<Rightarrow> False)"

definition rat_int :: "rat \<Rightarrow> int option" where
  "rat_int r = (if of_int \<lfloor>r\<rfloor> = r then Some \<lfloor>r\<rfloor> else None)"

text \<open>\<^verbatim>\<open>Number.isSafeInteger(value)\<close>, with the integer it is.\<close>

definition safe_int :: "js \<Rightarrow> int option" where
  "safe_int v = (case v of
      JNum (Fin r) \<Rightarrow> (case rat_int r of
          Some i \<Rightarrow> if \<bar>i\<bar> \<le> max_safe then Some i else None
        | None \<Rightarrow> None)
    | _ \<Rightarrow> None)"

definition int_sat :: "int \<Rightarrow> int \<Rightarrow> js \<Rightarrow> bool" where
  "int_sat lo hi v \<longleftrightarrow> (case safe_int v of Some i \<Rightarrow> lo \<le> i \<and> i \<le> hi | None \<Rightarrow> False)"

definition opt_sat :: "(js \<Rightarrow> bool) \<Rightarrow> js \<Rightarrow> bool" where
  "opt_sat P v \<longleftrightarrow> v = JUndef \<or> P v"

text \<open>\<^verbatim>\<open>Object.keys(value).every((key) => allowed.includes(key))\<close>.\<close>

definition exact_keys :: "js \<Rightarrow> string list \<Rightarrow> bool" where
  "exact_keys v allowed \<longleftrightarrow> list_all (\<lambda>k. k \<in> set (map lit allowed)) (obj_keys v)"

lemma rat_int_of_int [simp]: "rat_int (of_int i) = Some i"
  by (simp add: rat_int_def)

lemma rat_int_numeral [simp]: "rat_int (numeral n) = Some (numeral n)"
  by (simp add: rat_int_def)

lemma rat_int_01 [simp]: "rat_int 0 = Some 0" "rat_int 1 = Some 1"
  by (simp_all add: rat_int_def)

lemma rat_int_neg_numeral [simp]: "rat_int (- numeral n) = Some (- numeral n)"
  by (simp add: rat_int_def)

lemma rat_int_Some: "rat_int r = Some i \<longleftrightarrow> r = of_int i"
  by (auto simp: rat_int_def)

lemma safe_int_Some: "safe_int v = Some i \<longleftrightarrow> v = jint i \<and> \<bar>i\<bar> \<le> max_safe"
  by (auto simp: safe_int_def rat_int_Some split: js.splits jnum.splits option.splits if_splits)

lemma int_sat_iff: "int_sat lo hi v \<longleftrightarrow> (\<exists>i. v = jint i \<and> \<bar>i\<bar> \<le> max_safe \<and> lo \<le> i \<and> i \<le> hi)"
  by (auto simp: int_sat_def safe_int_Some split: option.splits)
    (metis option.distinct(1) safe_int_Some)

lemma str_sat_iff: "str_sat P v \<longleftrightarrow> (\<exists>s. v = JStr s \<and> P s)"
  by (auto simp: str_sat_def split: js.splits)

lemma arr_sat_iff: "arr_sat P v \<longleftrightarrow> (\<exists>xs. v = JArr xs \<and> P xs)"
  by (auto simp: arr_sat_def split: js.splits)

lemma is_record_iff: "is_record v \<longleftrightarrow> (\<exists>kvs. v = JObj kvs)"
  by (auto simp: is_record_def split: js.splits)

lemma exact_keys_iff: "exact_keys v allowed \<longleftrightarrow> set (obj_keys v) \<subseteq> lit ` set allowed"
  by (auto simp: exact_keys_def list_all_iff)

lemma jget_not_allowed: "exact_keys v allowed \<Longrightarrow> k \<notin> set allowed \<Longrightarrow> jget v k = JUndef"
  by (cases v) (auto simp: exact_keys_iff obj_keys_def jget_def split: option.splits
      dest!: map_of_SomeD)

declare jget_def [js_eval] obj_keys_def [js_eval] is_record_def [js_eval] is_array_def [js_eval]
  is_boolean_def [js_eval] is_nullish_def [js_eval] str_sat_def [js_eval] arr_sat_def [js_eval]
  safe_int_def [js_eval] int_sat_def [js_eval] opt_sat_def [js_eval] exact_keys_def [js_eval]
  max_safe_def [js_eval] has_control_def [js_eval] has_nul_def [js_eval]

text \<open>Strings satisfying the bounds that the id and text validators check.\<close>

definition length_within :: "nat \<Rightarrow> nat \<Rightarrow> jstr \<Rightarrow> bool" where
  "length_within lo hi s \<longleftrightarrow> lo \<le> length s \<and> length s \<le> hi"

text \<open>A fixed sequence of character classes: what a regular expression without repetition matches.\<close>

definition matches_seq :: "(nat \<Rightarrow> bool) list \<Rightarrow> jstr \<Rightarrow> bool" where
  "matches_seq ps s \<longleftrightarrow> list_all2 (\<lambda>p c. p c) ps s"

lemma matches_seq_length: "matches_seq ps s \<Longrightarrow> length s = length ps"
  by (simp add: matches_seq_def list_all2_lengthD)

lemma matches_seq_nth: "matches_seq ps s \<Longrightarrow> i < length s \<Longrightarrow> (ps ! i) (s ! i)"
  by (simp add: matches_seq_def list_all2_conv_all_nth)

declare length_within_def [js_eval] matches_seq_def [js_eval] unit_bytes_def [js_eval]
  is_high_def [js_eval] is_low_def [js_eval]

lemma is_record_JObj [simp]: "is_record (JObj kvs)"
  by (simp add: is_record_def)

text \<open>The members every object inherits, which a lookup by a computed key also finds.\<close>

definition object_prototype_members :: "jstr list" where
  "object_prototype_members = map lit
     [''constructor'', ''__defineGetter__'', ''__defineSetter__'', ''hasOwnProperty'',
      ''__lookupGetter__'', ''__lookupSetter__'', ''isPrototypeOf'', ''propertyIsEnumerable'',
      ''toString'', ''valueOf'', ''__proto__'', ''toLocaleString'']"

section \<open>Results\<close>

type_synonym 'a res = "jstr + 'a"

definition throw :: "string \<Rightarrow> 'a res" where
  "throw m = Inl (lit m)"

fun and_then :: "'e + 'a \<Rightarrow> ('a \<Rightarrow> 'e + 'b) \<Rightarrow> 'e + 'b" where
  "and_then (Inl e) f = Inl e"
| "and_then (Inr a) f = f a"

fun map_res :: "('a \<Rightarrow> 'e + 'b) \<Rightarrow> 'a list \<Rightarrow> 'e + 'b list" where
  "map_res f [] = Inr []"
| "map_res f (x # xs) = and_then (f x) (\<lambda>y. and_then (map_res f xs) (\<lambda>ys. Inr (y # ys)))"

lemma and_then_Inr [simp]: "and_then m f = Inr b \<longleftrightarrow> (\<exists>a. m = Inr a \<and> f a = Inr b)"
  by (cases m) auto

lemma and_thenE:
  assumes "and_then m f = Inr b"
  obtains a where "m = Inr a" "f a = Inr b"
  using assms by auto

lemma and_then_Inl: "and_then m f = Inl e \<longleftrightarrow> m = Inl e \<or> (\<exists>a. m = Inr a \<and> f a = Inl e)"
  by (cases m) auto

lemma throw_not_Inr [simp]: "throw m \<noteq> Inr a" "(Inr a = throw m) \<longleftrightarrow> False"
  by (auto simp: throw_def)

lemma map_res_Inr: "map_res f xs = Inr ys \<longleftrightarrow> list_all2 (\<lambda>x y. f x = Inr y) xs ys"
  by (induction xs arbitrary: ys) (auto simp: list_all2_Cons1)

lemma map_res_length: "map_res f xs = Inr ys \<Longrightarrow> length ys = length xs"
  by (auto simp: map_res_Inr dest: list_all2_lengthD)

lemma map_res_in: "map_res f xs = Inr ys \<Longrightarrow> y \<in> set ys \<Longrightarrow> \<exists>x\<in>set xs. f x = Inr y"
  by (auto simp: map_res_Inr list_all2_conv_all_nth in_set_conv_nth) (metis nth_mem)

lemma map_res_all:
  assumes "map_res f xs = Inr ys" "\<And>x y. f x = Inr y \<Longrightarrow> P y"
  shows "length ys = length xs \<and> list_all P ys"
  using map_res_length [OF assms(1)] map_res_in [OF assms(1)] assms(2) by (fastforce simp: list_all_iff)

lemma map_res_total: "(\<And>x. x \<in> set xs \<Longrightarrow> \<exists>y. f x = Inr y) \<Longrightarrow> \<exists>ys. map_res f xs = Inr ys"
  by (induction xs) fastforce+

section \<open>Effects\<close>

text \<open>
  Code that talks to its environment (an awaited request, a callback) threads a state
  \<open>'w\<close> of that environment, which the components leave abstract. A computation returns the
  value or the error it throws, with the environment it leaves behind: effects made before a
  throw stay made.
\<close>

type_synonym ('w, 'a) io = "'w \<Rightarrow> 'a res \<times> 'w"

definition io_return :: "'a \<Rightarrow> ('w, 'a) io" where
  "io_return a w = (Inr a, w)"

definition io_lift :: "'a res \<Rightarrow> ('w, 'a) io" where
  "io_lift r w = (r, w)"

definition io_bind :: "('w, 'a) io \<Rightarrow> ('a \<Rightarrow> ('w, 'b) io) \<Rightarrow> ('w, 'b) io" where
  "io_bind m f w = (case m w of (Inl e, w') \<Rightarrow> (Inl e, w') | (Inr a, w') \<Rightarrow> f a w')"

text \<open>An environment that also keeps the list of the calls made to it.\<close>

definition logged :: "('i \<Rightarrow> 'c) \<Rightarrow> ('i \<Rightarrow> ('w, 'a) io) \<Rightarrow> 'i \<Rightarrow> ('w \<times> 'c list, 'a) io" where
  "logged tag f i wl = (case f i (fst wl) of (r, w') \<Rightarrow> (r, (w', snd wl @ [tag i])))"

text \<open>An environment call that leaves the list of calls alone.\<close>

definition unlogged :: "('i \<Rightarrow> ('w, 'a) io) \<Rightarrow> 'i \<Rightarrow> ('w \<times> 'c list, 'a) io" where
  "unlogged f i wl = (case f i (fst wl) of (r, w') \<Rightarrow> (r, (w', snd wl)))"

text \<open>\<^verbatim>\<open>try { m } catch (error) { h }\<close>, where the handler rethrows.\<close>

definition io_on_error :: "('w, 'a) io \<Rightarrow> (jstr \<Rightarrow> ('w, unit) io) \<Rightarrow> ('w, 'a) io" where
  "io_on_error m h w =
     (case m w of
        (Inl e, w') \<Rightarrow> (Inl e, snd (h e w'))
      | (Inr a, w') \<Rightarrow> (Inr a, w'))"

text \<open>A computation adds to the list of calls only calls that satisfy \<open>P\<close>.\<close>

definition adds :: "('c \<Rightarrow> bool) \<Rightarrow> ('w \<times> 'c list, 'a) io \<Rightarrow> bool" where
  "adds P m \<longleftrightarrow> (\<forall>wl. \<exists>new. snd (snd (m wl)) = snd wl @ new \<and> list_all P new)"

lemma io_lift_simps [simp]: "io_lift r w = (r, w)" "io_return a w = (Inr a, w)"
  by (simp_all add: io_lift_def io_return_def)

lemma adds_lift [simp]: "adds P (io_lift r)" "adds P (io_return a)"
  by (simp_all add: adds_def)

lemma adds_logged: "P (tag i) \<Longrightarrow> adds P (logged tag f i)"
  by (auto simp: adds_def logged_def split: prod.splits)

lemma adds_unlogged [simp]: "adds P (unlogged f i)"
  by (auto simp: adds_def unlogged_def split: prod.splits)

lemma adds_bind:
  assumes "adds P m" "\<And>a. adds P (f a)" shows "adds P (io_bind m f)"
  unfolding adds_def
proof
  fix wl
  obtain r w' where m: "m wl = (r, w')" by (metis surj_pair)
  with assms(1) obtain new where new: "snd w' = snd wl @ new" "list_all P new"
    unfolding adds_def by (metis snd_conv)
  show "\<exists>new. snd (snd (io_bind m f wl)) = snd wl @ new \<and> list_all P new"
  proof (cases r)
    case (Inl e)
    with m new show ?thesis by (simp add: io_bind_def)
  next
    case (Inr a)
    from assms(2) obtain new' where "snd (snd (f a w')) = snd w' @ new'" "list_all P new'"
      unfolding adds_def by blast
    with m Inr new show ?thesis by (auto simp: io_bind_def intro!: exI [of _ "new @ new'"])
  qed
qed

lemma addsD: "adds P m \<Longrightarrow> m (w, l) = (r, (w', l')) \<Longrightarrow> \<exists>new. l' = l @ new \<and> list_all P new"
  unfolding adds_def by (metis snd_conv)

lemma io_bind_Inr:
  "io_bind m f w = (Inr b, w'') \<longleftrightarrow> (\<exists>a w'. m w = (Inr a, w') \<and> f a w' = (Inr b, w''))"
  by (auto simp: io_bind_def split: prod.splits sum.splits)

lemma io_bindE:
  assumes "io_bind m f w = (Inr b, w'')"
  obtains a w' where "m w = (Inr a, w')" "f a w' = (Inr b, w'')"
  using assms by (auto simp: io_bind_Inr)

lemma io_bind_lift_Inr [simp]: "io_bind (io_lift (Inr a)) f w = f a w"
  by (simp add: io_bind_def)

lemma io_bind_lift_Inl [simp]: "io_bind (io_lift (Inl e)) f w = (Inl e, w)"
  by (simp add: io_bind_def)

section \<open>Numbers\<close>

text \<open>Decimal rendering in a template literal.\<close>

fun show_nat :: "nat \<Rightarrow> jstr" where
  "show_nat n = (if n < 10 then [48 + n] else show_nat (n div 10) @ [48 + n mod 10])"

declare show_nat.simps [simp del]

definition show_int :: "int \<Rightarrow> jstr" where
  "show_int i = (if i < 0 then 45 # show_nat (nat (- i)) else show_nat (nat i))"

lemma show_nat_digits: "c \<in> set (show_nat n) \<Longrightarrow> is_digit c"
proof (induction n rule: show_nat.induct)
  case (1 n)
  then show ?case
    by (subst (asm) (2) show_nat.simps) (auto simp: is_digit_def between_def split: if_splits)
qed

lemma show_nat_ne [simp]: "show_nat n \<noteq> []"
  by (subst show_nat.simps) simp

text \<open>The number a run of decimal digits denotes.\<close>

definition digits_value :: "jstr \<Rightarrow> nat" where
  "digits_value ds = foldl (\<lambda>n c. 10 * n + (c - 48)) 0 ds"

lemma digits_value_show_nat: "digits_value (show_nat n) = n"
proof (induction n rule: show_nat.induct)
  case (1 n)
  then show ?case by (subst show_nat.simps) (auto simp: digits_value_def)
qed

lemma digit_not_space: "is_digit c \<Longrightarrow> \<not> is_space c"
  by (auto simp: char_classes)

text \<open>
  Adding two non-negative integers as JavaScript numbers: exact up to \<open>2 ^ 53\<close>, beyond it
  rounded to the nearest of the representable multiples of a power of two, ties to even.
\<close>

fun double_shift :: "nat \<Rightarrow> nat" where
  "double_shift n = (if n < 2 ^ 53 then 0 else Suc (double_shift (n div 2)))"

declare double_shift.simps [simp del]

definition round_double :: "nat \<Rightarrow> nat" where
  "round_double n =
     (let k = double_shift n; q = n div 2 ^ k; r = n mod 2 ^ k
      in if 2 ^ k < 2 * r \<or> (2 ^ k = 2 * r \<and> odd q) then Suc q * 2 ^ k else q * 2 ^ k)"

definition add_numbers :: "nat \<Rightarrow> nat \<Rightarrow> nat" where
  "add_numbers a b = round_double (a + b)"

lemma round_double_exact: "n < 2 ^ 53 \<Longrightarrow> round_double n = n"
  by (simp add: round_double_def double_shift.simps)

lemma add_numbers_exact: "a + b < 2 ^ 53 \<Longrightarrow> add_numbers a b = a + b"
  by (simp add: add_numbers_def round_double_exact)

section \<open>Lists\<close>

text \<open>\<^verbatim>\<open>[...new Set(values)]\<close>: the first occurrence of each value, in order.\<close>

fun unique :: "'a list \<Rightarrow> 'a list" where
  "unique [] = []"
| "unique (x # xs) = x # unique (removeAll x xs)"

lemma set_unique [simp]: "set (unique xs) = set xs"
  by (induction xs rule: unique.induct) auto

lemma distinct_unique [simp]: "distinct (unique xs)"
  by (induction xs rule: unique.induct) auto

lemma unique_distinct_id: "distinct xs \<Longrightarrow> unique xs = xs"
  by (induction xs) (auto simp: removeAll_id)

lemma length_unique_le: "length (unique xs) \<le> length xs"
  by (metis card_length distinct_card distinct_unique set_unique)

lemma find_append: "find P (xs @ ys) = (case find P xs of None \<Rightarrow> find P ys | Some x \<Rightarrow> Some x)"
  by (induction xs) auto

text \<open>\<^verbatim>\<open>xs.slice(-n)\<close> for a positive \<^verbatim>\<open>n\<close>: the last \<open>n\<close> elements.\<close>

definition last_n :: "nat \<Rightarrow> 'a list \<Rightarrow> 'a list" where
  "last_n n xs = drop (length xs - n) xs"

lemma length_last_n [simp]: "length (last_n n xs) = min n (length xs)"
  by (simp add: last_n_def)

lemma set_last_n: "set (last_n n xs) \<subseteq> set xs"
  by (simp add: last_n_def set_drop_subset)

lemma last_n_snoc: "0 < n \<Longrightarrow> \<exists>ys. last_n n (xs @ [x]) = ys @ [x] \<and> suffix ys xs"
  by (auto simp: last_n_def suffix_drop intro!: exI [of _ "drop (Suc (length xs) - n) xs"])

lemma distinct_map_last_n: "distinct (map f xs) \<Longrightarrow> distinct (map f (last_n n xs))"
  by (simp add: last_n_def drop_map [symmetric])

text \<open>
  \<^verbatim>\<open>xs.sort(compare)\<close>: a stable sort, so that for a comparator that orders the elements
  consistently the result is determined; \<open>le x y\<close> is \<^verbatim>\<open>compare(x, y) <= 0\<close>.
\<close>

fun insert_by :: "('a \<Rightarrow> 'a \<Rightarrow> bool) \<Rightarrow> 'a \<Rightarrow> 'a list \<Rightarrow> 'a list" where
  "insert_by le x [] = [x]"
| "insert_by le x (y # ys) = (if le x y then x # y # ys else y # insert_by le x ys)"

fun sort_by :: "('a \<Rightarrow> 'a \<Rightarrow> bool) \<Rightarrow> 'a list \<Rightarrow> 'a list" where
  "sort_by le [] = []"
| "sort_by le (x # xs) = insert_by le x (sort_by le xs)"

lemma set_insert_by [simp]: "set (insert_by le x xs) = insert x (set xs)"
  by (induction xs) auto

lemma set_sort_by [simp]: "set (sort_by le xs) = set xs"
  by (induction xs) auto

lemma sort_by_sorted: "sorted_wrt le xs \<Longrightarrow> sort_by le xs = xs"
proof (induction xs)
  case (Cons x xs)
  then show ?case by (cases xs) auto
qed simp

lemma length_insert_by [simp]: "length (insert_by le x xs) = Suc (length xs)"
  by (induction xs) auto

lemma length_sort_by [simp]: "length (sort_by le xs) = length xs"
  by (induction xs) auto

lemma distinct_map_insert_by:
  "distinct (map f (insert_by le x xs)) \<longleftrightarrow> f x \<notin> f ` set xs \<and> distinct (map f xs)"
  by (induction xs) auto

lemma distinct_map_sort_by [simp]: "distinct (map f (sort_by le xs)) \<longleftrightarrow> distinct (map f xs)"
  by (induction xs) (auto simp: distinct_map_insert_by)

lemma sorted_insert_by:
  assumes "\<And>a b. le a b \<or> le b a" "\<And>a b c. le a b \<Longrightarrow> le b c \<Longrightarrow> le a c"
  shows "sorted_wrt le xs \<Longrightarrow> sorted_wrt le (insert_by le x xs)"
proof (induction xs)
  case (Cons y ys)
  then show ?case using assms by (auto split: if_splits)
qed simp

lemma sorted_sort_by:
  assumes "\<And>a b. le a b \<or> le b a" "\<And>a b c. le a b \<Longrightarrow> le b c \<Longrightarrow> le a c"
  shows "sorted_wrt le (sort_by le xs)"
  by (induction xs) (simp_all add: sorted_insert_by [OF assms])

text \<open>\<^verbatim>\<open>[...new Set(xs)].sort()\<close>: by UTF-16 code units.\<close>

fun code_unit_le :: "jstr \<Rightarrow> jstr \<Rightarrow> bool" where
  "code_unit_le [] _ = True"
| "code_unit_le (_ # _) [] = False"
| "code_unit_le (a # as) (b # bs) = (a < b \<or> (a = b \<and> code_unit_le as bs))"

definition sorted_unique :: "jstr list \<Rightarrow> jstr list" where
  "sorted_unique xs = sort_by code_unit_le (unique xs)"

lemma code_unit_le_total: "code_unit_le a b \<or> code_unit_le b a"
  by (induction a b rule: code_unit_le.induct) auto

lemma code_unit_le_trans: "code_unit_le a b \<Longrightarrow> code_unit_le b c \<Longrightarrow> code_unit_le a c"
proof (induction a b arbitrary: c rule: code_unit_le.induct)
  case (3 a as b bs)
  then show ?case by (cases c) auto
qed auto

lemma sorted_unique_ok [simp]:
  "set (sorted_unique xs) = set xs" "distinct (sorted_unique xs)" "sorted_wrt code_unit_le (sorted_unique xs)"
  using sorted_sort_by [where le = code_unit_le and xs = "unique xs", OF code_unit_le_total code_unit_le_trans]
    distinct_map_sort_by [where f = "\<lambda>x. x" and le = code_unit_le and xs = "unique xs"]
  by (simp_all add: sorted_unique_def)

section \<open>Files\<close>

text \<open>\<^verbatim>\<open>value ? { key: value } : {}\<close> for an optional text.\<close>

definition truthy_text :: "jstr option \<Rightarrow> jstr option" where
  "truthy_text v = (if v = Some [] then None else v)"

text \<open>What reading a file of the user data directory gives: \<^verbatim>\<open>ENOENT\<close>, another error, or its text.\<close>

datatype file_read = FileMissing | FileError | FileText jstr

lemma find_SomeD: "find P xs = Some x \<Longrightarrow> P x \<and> x \<in> set xs"
  by (auto simp: find_Some_iff)

end
