(* ===== verification/Contracts.thy ===== *)
theory Contracts
  imports Js_Prelude
begin

text \<open>
  The interfaces between the components, as locales. Each is interpreted on the model's own
  definitions in the theory of the component that provides it.

  \<^item> \<open>machine\<close>: a state machine with an invariant that every event keeps; the invariant then
    holds after every sequence of events. Its extension \<open>simulation\<close> adds an abstract machine
    that every event of the concrete one follows.
  \<^item> \<open>keyed_store\<close> and its extension \<open>bounded_store\<close>: a list of entries, at most one per key,
    into which an entry is put by replacing the one of the same key and appending; the bounded
    one forgets the entries beyond its capacity.
  \<^item> \<open>ipc_policy\<close>: a validator of the invocations of a set of IPC channels; a channel outside
    the set is rejected whatever its arguments are.
\<close>

section \<open>State machines with an invariant\<close>

locale machine =
  fixes start :: "'s \<Rightarrow> bool"
    and step :: "'s \<Rightarrow> 'e \<Rightarrow> 's"
    and inv :: "'s \<Rightarrow> bool"
  assumes inv_start: "start s \<Longrightarrow> inv s"
    and inv_step: "inv s \<Longrightarrow> inv (step s e)"
begin

lemma inv_run: "inv s \<Longrightarrow> inv (foldl step s es)"
  by (induction es arbitrary: s) (auto intro: inv_step)

lemma inv_reachable: "start s \<Longrightarrow> inv (foldl step s es)"
  by (simp add: inv_run inv_start)

end

text \<open>A machine that implements an abstract one: every event has the same effect on the abstraction.\<close>

locale simulation = machine start step inv
  for start :: "'s \<Rightarrow> bool" and step :: "'s \<Rightarrow> 'e \<Rightarrow> 's" and inv :: "'s \<Rightarrow> bool" +
  fixes abstr :: "'s \<Rightarrow> 'a"
    and astep :: "'a \<Rightarrow> 'e \<Rightarrow> 'a"
  assumes sim_step: "inv s \<Longrightarrow> abstr (step s e) = astep (abstr s) e"
begin

lemma sim_run: "inv s \<Longrightarrow> abstr (foldl step s es) = foldl astep (abstr s) es"
  by (induction es arbitrary: s) (simp_all add: sim_step [symmetric] inv_step)

lemma sim_reachable: "start s \<Longrightarrow> abstr (foldl step s es) = foldl astep (abstr s) es"
  by (simp add: sim_run inv_start)

end

section \<open>Keyed stores\<close>

locale keyed_store =
  fixes entries :: "'s \<Rightarrow> 'v list"
    and key :: "'v \<Rightarrow> 'k"
    and put :: "'v \<Rightarrow> 's \<Rightarrow> 's"
  assumes put_mem: "v \<in> set (entries (put v s))"
    and put_only: "x \<in> set (entries (put v s)) \<Longrightarrow> x = v \<or> (x \<in> set (entries s) \<and> key x \<noteq> key v)"
    and put_distinct: "distinct (map key (entries s)) \<Longrightarrow> distinct (map key (entries (put v s)))"
begin

definition lookup :: "'s \<Rightarrow> 'k \<Rightarrow> 'v option" where
  "lookup s k = find (\<lambda>x. key x = k) (entries s)"

lemma lookup_put_same: "lookup (put v s) (key v) = Some v"
proof -
  obtain x where x: "lookup (put v s) (key v) = Some x"
    using put_mem [of v s] by (cases "lookup (put v s) (key v)") (auto simp: lookup_def find_None_iff)
  then have "x \<in> set (entries (put v s))" "key x = key v"
    by (auto simp: lookup_def find_Some_iff)
  with put_only have "x = v" by blast
  with x show ?thesis by simp
qed

lemma lookup_put_other_None: "lookup s k = None \<Longrightarrow> key v \<noteq> k \<Longrightarrow> lookup (put v s) k = None"
  by (auto simp: lookup_def find_None_iff dest: put_only)

lemma lookup_in: "distinct (map key (entries s)) \<Longrightarrow> x \<in> set (entries s) \<Longrightarrow> lookup s (key x) = Some x"
proof -
  assume d: "distinct (map key (entries s))" and m: "x \<in> set (entries s)"
  then obtain y where y: "lookup s (key x) = Some y"
    by (cases "lookup s (key x)") (auto simp: lookup_def find_None_iff)
  then have "y \<in> set (entries s)" "key y = key x"
    by (auto simp: lookup_def find_Some_iff)
  with d m have "y = x" by (auto simp: distinct_map inj_on_def)
  with y show ?thesis by simp
qed

lemma distinct_puts: "distinct (map key (entries s)) \<Longrightarrow> distinct (map key (entries (fold put vs s)))"
  by (induction vs arbitrary: s) (auto intro: put_distinct)

lemma entries_of_puts: "x \<in> set (entries (fold put vs s)) \<Longrightarrow> x \<in> set vs \<or> x \<in> set (entries s)"
  by (induction vs arbitrary: s) (auto dest: put_only)

end

locale bounded_store = keyed_store +
  fixes cap :: nat
  assumes put_bounded: "length (entries (put v s)) \<le> cap"
begin

lemma puts_bounded: "vs \<noteq> [] \<Longrightarrow> length (entries (fold put vs s)) \<le> cap"
  by (induction vs arbitrary: s) (metis fold.simps(2) comp_apply fold_Nil id_apply put_bounded)+

lemma puts_distinct_bounded:
  "vs \<noteq> [] \<Longrightarrow> distinct (map key (entries s)) \<Longrightarrow>
     distinct (map key (entries (fold put vs s))) \<and> length (entries (fold put vs s)) \<le> cap"
  by (simp add: distinct_puts puts_bounded)

end

text \<open>The list operation behind every one of these stores: drop the key, then append.\<close>

definition upsert :: "('v \<Rightarrow> 'k) \<Rightarrow> 'v \<Rightarrow> 'v list \<Rightarrow> 'v list" where
  "upsert key v xs = filter (\<lambda>x. key x \<noteq> key v) xs @ [v]"

lemma upsert_mem: "v \<in> set (upsert key v xs)"
  by (simp add: upsert_def)

lemma upsert_only: "x \<in> set (upsert key v xs) \<Longrightarrow> x = v \<or> (x \<in> set xs \<and> key x \<noteq> key v)"
  by (auto simp: upsert_def)

lemma upsert_distinct: "distinct (map key xs) \<Longrightarrow> distinct (map key (upsert key v xs))"
  by (auto simp: upsert_def distinct_map_filter)

lemmas upsert_laws = upsert_mem upsert_only upsert_distinct

section \<open>IPC policies\<close>

text \<open>
  The shapes every validator uses: \<^verbatim>\<open>condition ? null : message\<close> and
  \<^verbatim>\<open>args.length === 1 && p(args[0])\<close>.
\<close>

definition accept_if :: "bool \<Rightarrow> string \<Rightarrow> string option" where
  "accept_if b message = (if b then None else Some message)"

definition one_arg :: "(js \<Rightarrow> bool) \<Rightarrow> js list \<Rightarrow> bool" where
  "one_arg p args \<longleftrightarrow> (case args of [a] \<Rightarrow> p a | _ \<Rightarrow> False)"

lemma accept_if_None [simp]: "accept_if b m = None \<longleftrightarrow> b"
  by (simp add: accept_if_def)

lemma one_arg_iff: "one_arg p args \<longleftrightarrow> (\<exists>a. args = [a] \<and> p a)"
  by (auto simp: one_arg_def split: list.splits)

text \<open>\<^verbatim>\<open>isRecord(value) && exactKeys(value, keys)\<close>.\<close>

definition record_of :: "string list \<Rightarrow> js \<Rightarrow> bool" where
  "record_of keys v \<longleftrightarrow> is_record v \<and> exact_keys v keys"

definition is_lit :: "string list \<Rightarrow> js \<Rightarrow> bool" where
  "is_lit names v \<longleftrightarrow> str_sat (\<lambda>s. s \<in> set (map lit names)) v"

declare accept_if_def [js_eval] one_arg_def [js_eval] record_of_def [js_eval] is_lit_def [js_eval]

locale ipc_policy =
  fixes channels :: "jstr list"
    and validate :: "jstr \<Rightarrow> js list \<Rightarrow> string option"
  assumes unlisted_rejected: "c \<notin> set channels \<Longrightarrow> validate c args \<noteq> None"
begin

lemma accepted_listed: "validate c args = None \<Longrightarrow> c \<in> set channels"
  using unlisted_rejected by blast

end

end
