(* ===== verification/Agent_Session.thy ===== *)
theory Agent_Session
  imports Contracts
begin

text \<open>
  The in-memory working context of one agent turn (\<^verbatim>\<open>agent-session.ts\<close>) and the message
  types of the model boundary (\<^verbatim>\<open>agent-model-adapter.ts\<close>). The session is a list of messages
  under a byte budget; every operation checks the text it is given and the budget before it
  changes anything. \<^verbatim>\<open>JSON.stringify\<close> is the parameter \<open>stringify\<close>: \<open>Inl ()\<close> when it
  throws, \<open>Inr None\<close> when it returns \<^verbatim>\<open>undefined\<close>.
\<close>

section \<open>Data\<close>

datatype message_role = RoleUser | RoleContext | RoleTool

fun role_name :: "message_role \<Rightarrow> string" where
  "role_name RoleUser = ''user''"
| "role_name RoleContext = ''context''"
| "role_name RoleTool = ''tool''"

record model_message =
  msg_role :: message_role
  msg_content :: jstr
  msg_tool_name :: "jstr option"

record agent_session =
  messages :: "model_message list"
  used_bytes :: nat
  max_bytes :: nat

record session_seed =
  seed_user_message :: jstr
  seed_context :: "jstr list"
  seed_max_bytes :: js

definition DEFAULT_MAX_SESSION_BYTES :: nat where
  "DEFAULT_MAX_SESSION_BYTES = 128 * 1024"

definition MAX_MESSAGE_BYTES :: nat where
  "MAX_MESSAGE_BYTES = 32 * 1024"

section \<open>Operations\<close>

definition bounded_text :: "jstr \<Rightarrow> nat \<Rightarrow> string \<Rightarrow> jstr res" where
  "bounded_text value maxBytes label =
     (if value = [] \<or> has_nul value then Inl (lit label @ lit '' is invalid'')
      else if utf8_len value > maxBytes
        then Inl (lit label @ lit '' exceeds '' @ show_nat maxBytes @ lit '' bytes'')
      else Inr value)"

definition bounded_positive :: "js \<Rightarrow> nat \<Rightarrow> nat \<Rightarrow> jstr \<Rightarrow> nat res" where
  "bounded_positive value lo hi label =
     (case safe_int value of
        Some i \<Rightarrow> if i < int lo \<or> i > int hi
          then Inl (label @ lit '' must be '' @ show_nat lo @ lit ''-'' @ show_nat hi)
          else Inr (nat i)
      | None \<Rightarrow> Inl (label @ lit '' must be '' @ show_nat lo @ lit ''-'' @ show_nat hi))"

definition tool_name_bytes :: "jstr option \<Rightarrow> nat" where
  "tool_name_bytes t = (case t of None \<Rightarrow> 0 | Some n \<Rightarrow> utf8_len n)"

definition session_append ::
    "agent_session \<Rightarrow> message_role \<Rightarrow> jstr \<Rightarrow> jstr option \<Rightarrow> agent_session res" where
  "session_append s role content toolName =
     and_then (bounded_text content MAX_MESSAGE_BYTES (''agent '' @ role_name role @ '' message''))
       (\<lambda>bounded.
          let bytes = utf8_len bounded + tool_name_bytes toolName
          in if used_bytes s + bytes > max_bytes s
             then throw ''Agent working context exceeded its bounded session budget''
             else Inr (s\<lparr>messages := messages s @
                           [\<lparr>msg_role = role, msg_content = bounded,
                             msg_tool_name = (if toolName = Some [] then None else toolName)\<rparr>],
                         used_bytes := used_bytes s + bytes\<rparr>))"

fun append_contexts :: "agent_session \<Rightarrow> jstr list \<Rightarrow> agent_session res" where
  "append_contexts s [] = Inr s"
| "append_contexts s (c # cs) =
     and_then (session_append s RoleContext c None) (\<lambda>s'. append_contexts s' cs)"

definition new_session :: "session_seed \<Rightarrow> agent_session res" where
  "new_session seed =
     and_then (bounded_positive
         (if is_nullish (seed_max_bytes seed) then jint (int DEFAULT_MAX_SESSION_BYTES)
          else seed_max_bytes seed) 1024 (512 * 1024) (lit ''agent session maxBytes''))
       (\<lambda>maxBytes.
          and_then (session_append \<lparr>messages = [], used_bytes = 0, max_bytes = maxBytes\<rparr>
              RoleUser (seed_user_message seed) None)
            (\<lambda>s. append_contexts s (seed_context seed)))"

definition stable_observation :: "(js \<Rightarrow> unit + jstr option) \<Rightarrow> js \<Rightarrow> jstr res" where
  "stable_observation stringify value =
     (case value of
        JStr s \<Rightarrow> bounded_text s MAX_MESSAGE_BYTES ''agent tool observation''
      | _ \<Rightarrow> (case stringify value of
            Inl _ \<Rightarrow> throw ''Agent tool observation is not JSON serializable''
          | Inr serialized \<Rightarrow>
              bounded_text (case serialized of None \<Rightarrow> lit ''null'' | Some s \<Rightarrow> s)
                MAX_MESSAGE_BYTES ''agent tool observation''))"

definition append_tool_observation ::
    "(js \<Rightarrow> unit + jstr option) \<Rightarrow> agent_session \<Rightarrow> jstr \<Rightarrow> js \<Rightarrow> agent_session res" where
  "append_tool_observation stringify s toolName value =
     and_then (bounded_text toolName 128 ''agent tool name'') (\<lambda>safeName.
     and_then (stable_observation stringify value) (\<lambda>content.
       session_append s RoleTool content (Some safeName)))"

definition append_context :: "agent_session \<Rightarrow> jstr \<Rightarrow> agent_session res" where
  "append_context s content = session_append s RoleContext content None"

section \<open>Invariant\<close>

definition message_bytes :: "model_message \<Rightarrow> nat" where
  "message_bytes m = utf8_len (msg_content m) + tool_name_bytes (msg_tool_name m)"

definition message_ok :: "model_message \<Rightarrow> bool" where
  "message_ok m \<longleftrightarrow> msg_content m \<noteq> [] \<and> \<not> has_nul (msg_content m)
     \<and> utf8_len (msg_content m) \<le> MAX_MESSAGE_BYTES
     \<and> (case msg_tool_name m of None \<Rightarrow> True
        | Some n \<Rightarrow> n \<noteq> [])"

text \<open>The byte count of a session is that of its messages, and it never passes the budget.\<close>

definition session_inv :: "agent_session \<Rightarrow> bool" where
  "session_inv s \<longleftrightarrow> used_bytes s = sum_list (map message_bytes (messages s))
     \<and> used_bytes s \<le> max_bytes s
     \<and> 1024 \<le> max_bytes s \<and> max_bytes s \<le> 512 * 1024
     \<and> list_all message_ok (messages s)"

lemma bounded_text_Inr:
  "bounded_text v m l = Inr x \<longleftrightarrow> x = v \<and> v \<noteq> [] \<and> \<not> has_nul v \<and> utf8_len v \<le> m"
  by (auto simp: bounded_text_def)

lemma bounded_positive_Inr:
  "bounded_positive v lo hi l = Inr n \<longleftrightarrow> safe_int v = Some (int n) \<and> lo \<le> n \<and> n \<le> hi"
  by (auto simp: bounded_positive_def split: option.splits if_splits)

text \<open>What a successful append does: one message at the end, and its bytes.\<close>

lemma session_append_Inr:
  "session_append s role content t = Inr s' \<longleftrightarrow>
     content \<noteq> [] \<and> \<not> has_nul content \<and> utf8_len content \<le> MAX_MESSAGE_BYTES
     \<and> used_bytes s + (utf8_len content + tool_name_bytes t) \<le> max_bytes s
     \<and> s' = s\<lparr>messages := messages s @ [\<lparr>msg_role = role, msg_content = content,
                 msg_tool_name = (if t = Some [] then None else t)\<rparr>],
              used_bytes := used_bytes s + (utf8_len content + tool_name_bytes t)\<rparr>"
  by (auto simp: session_append_def bounded_text_Inr Let_def split: if_splits)

lemma session_append_inv: "session_inv s \<Longrightarrow> session_append s role content t = Inr s' \<Longrightarrow> session_inv s'"
  by (auto simp: session_append_Inr session_inv_def message_ok_def message_bytes_def
      tool_name_bytes_def split: option.splits)

lemma append_contexts_inv: "session_inv s \<Longrightarrow> append_contexts s cs = Inr s' \<Longrightarrow> session_inv s'"
  by (induction cs arbitrary: s) (auto dest: session_append_inv)

lemma append_contexts_messages:
  "append_contexts s cs = Inr s' \<Longrightarrow>
     messages s' = messages s @ map (\<lambda>c. \<lparr>msg_role = RoleContext, msg_content = c, msg_tool_name = None\<rparr>) cs"
  by (induction cs arbitrary: s) (auto simp: session_append_Inr)

lemma new_session_inv:
  assumes "new_session seed = Inr s" shows "session_inv s"
proof -
  from assms obtain m s0 where m: "1024 \<le> m" "m \<le> 512 * 1024"
    and s0: "session_append \<lparr>messages = [], used_bytes = 0, max_bytes = m\<rparr> RoleUser (seed_user_message seed) None = Inr s0"
    and s: "append_contexts s0 (seed_context seed) = Inr s"
    by (auto simp: new_session_def bounded_positive_Inr)
  have "session_inv \<lparr>messages = [], used_bytes = 0, max_bytes = m\<rparr>"
    using m by (simp add: session_inv_def)
  with s0 s show ?thesis
    by (blast intro: session_append_inv append_contexts_inv)
qed

lemma append_tool_observation_inv:
  "session_inv s \<Longrightarrow> append_tool_observation f s n v = Inr s' \<Longrightarrow> session_inv s'"
  by (auto simp: append_tool_observation_def intro: session_append_inv)

section \<open>Sequences of operations\<close>

text \<open>
  The session's two public mutators as events. An operation that throws leaves the session as
  it was, since both check before they write.
\<close>

datatype session_event = EvContext jstr | EvObservation jstr js

definition session_step ::
    "(js \<Rightarrow> unit + jstr option) \<Rightarrow> agent_session \<Rightarrow> session_event \<Rightarrow> agent_session" where
  "session_step stringify s ev =
     (case (case ev of EvContext c \<Rightarrow> append_context s c
            | EvObservation n v \<Rightarrow> append_tool_observation stringify s n v) of
        Inl _ \<Rightarrow> s | Inr s' \<Rightarrow> s')"

lemma session_step_inv: "session_inv s \<Longrightarrow> session_inv (session_step f s ev)"
  by (auto simp: session_step_def append_context_def split: sum.splits session_event.splits
      dest: session_append_inv append_tool_observation_inv)

interpretation session: machine "\<lambda>s. \<exists>seed. new_session seed = Inr s" "session_step stringify" session_inv
  for stringify :: "js \<Rightarrow> unit + jstr option"
  by unfold_locales (auto intro: new_session_inv session_step_inv)

section \<open>Properties\<close>



text \<open>
  An operation of a session that throws changes nothing, and one that returns adds exactly
  one message at the end: the context message as given, or the observation under its tool's
  name, serialised when it is not a string.
\<close>

theorem session_step_appends:
  "(case append_tool_observation stringify s n v of
      Inl _ \<Rightarrow> session_step stringify s (EvObservation n v) = s
    | Inr s' \<Rightarrow> session_step stringify s (EvObservation n v) = s'
        \<and> (\<exists>c. stable_observation stringify v = Inr c \<and> max_bytes s' = max_bytes s
            \<and> messages s' = messages s @ [\<lparr>msg_role = RoleTool, msg_content = c, msg_tool_name = Some n\<rparr>]))"
proof (cases "append_tool_observation stringify s n v")
  case (Inl e)
  then show ?thesis by (simp add: session_step_def)
next
  case (Inr s')
  then have "\<exists>c. stable_observation stringify v = Inr c \<and> max_bytes s' = max_bytes s
      \<and> messages s' = messages s @ [\<lparr>msg_role = RoleTool, msg_content = c, msg_tool_name = Some n\<rparr>]"
    by (auto simp: append_tool_observation_def bounded_text_Inr session_append_Inr)
  with Inr show ?thesis by (simp add: session_step_def)
qed

end
