(* ===== verification/Agent_Loop.thy ===== *)
theory Agent_Loop
  imports Agent_Session
begin

text \<open>
  The bounded agent loop (\<^verbatim>\<open>agent-loop.ts\<close>, with the decision types of
  \<^verbatim>\<open>agent-model-adapter.ts\<close>). The model, the governed tool executor and the event listener
  are parameters that act on an abstract environment \<open>'w\<close> and may throw. The \<^verbatim>\<open>for\<close> loop is a
  recursion on the number of iterations left.
\<close>

section \<open>Data\<close>

record token_usage =
  input_tokens :: nat
  output_tokens :: nat

text \<open>Usage as the model adapter reports it: two numbers that have not been checked yet.\<close>

record raw_usage =
  raw_input_tokens :: jnum
  raw_output_tokens :: jnum

datatype model_decision =
    DReply jstr "raw_usage option"
  | DTool jstr js "raw_usage option"
  | DStop "raw_usage option"

fun decision_usage :: "model_decision \<Rightarrow> raw_usage option" where
  "decision_usage (DReply _ u) = u"
| "decision_usage (DTool _ _ u) = u"
| "decision_usage (DStop u) = u"

record model_input =
  in_messages :: "model_message list"
  in_iteration :: nat
  in_max_iterations :: nat

record tool_call =
  call_run_id :: jstr
  call_name :: jstr
  call_arguments :: js

datatype decision_kind = KReply | KTool | KStop

datatype loop_event =
    LIteration nat
  | LDecision nat decision_kind "jstr option"
  | LToolResult nat jstr

datatype loop_status = LoopCompleted | LoopIterationLimit

datatype loop_stop_reason = StopModelReply | StopNoTool | StopIterationLimit

record loop_result =
  loop_status :: loop_status
  loop_stop_reason :: loop_stop_reason
  loop_reply :: "jstr option"
  loop_iterations :: nat
  loop_usage :: token_usage

definition MAX_TOOL_NAME_BYTES :: nat where
  "MAX_TOOL_NAME_BYTES = 128"

section \<open>Checks\<close>

definition bounded_iterations :: "js \<Rightarrow> nat res" where
  "bounded_iterations value =
     (case safe_int value of
        Some i \<Rightarrow> if i < 1 \<or> i > 64 then throw ''Agent maxIterations must be 1-64'' else Inr (nat i)
      | None \<Rightarrow> throw ''Agent maxIterations must be 1-64'')"

definition bounded_tool_name :: "jstr \<Rightarrow> jstr res" where
  "bounded_tool_name value =
     (if value = [] \<or> utf8_len value > MAX_TOOL_NAME_BYTES \<or> has_control value
      then throw ''Agent model returned an invalid tool name'' else Inr value)"

definition bounded_reply :: "jstr \<Rightarrow> jstr res" where
  "bounded_reply value =
     (if utf8_len value > 128 * 1024 \<or> has_nul value
      then throw ''Agent model returned an invalid reply'' else Inr value)"

definition token_count :: "jnum \<Rightarrow> nat res" where
  "token_count n =
     (case safe_int (JNum n) of
        Some i \<Rightarrow> if i < 0 then throw ''Agent model returned invalid token usage'' else Inr (nat i)
      | None \<Rightarrow> throw ''Agent model returned invalid token usage'')"

definition add_usage :: "token_usage \<Rightarrow> raw_usage option \<Rightarrow> token_usage res" where
  "add_usage current next =
     (case next of
        None \<Rightarrow> Inr current
      | Some u \<Rightarrow>
          and_then (token_count (raw_input_tokens u)) (\<lambda>i.
          and_then (token_count (raw_output_tokens u)) (\<lambda>j.
            Inr \<lparr>input_tokens = add_numbers (input_tokens current) i,
                 output_tokens = add_numbers (output_tokens current) j\<rparr>)))"

section \<open>The loop\<close>

record 'w loop_env =
  env_run_id :: jstr
  env_decide :: "model_input \<Rightarrow> ('w, model_decision) io"
  env_execute :: "tool_call \<Rightarrow> ('w, js) io"
  env_on_event :: "loop_event \<Rightarrow> ('w, unit) io"
  env_stringify :: "js \<Rightarrow> unit + jstr option"

text \<open>
  One pass through the loop's body: \<open>Inl\<close> the result it returns with, or \<open>Inr\<close> the
  session and usage it goes on with.
\<close>

definition loop_iteration ::
    "'w loop_env \<Rightarrow> nat \<Rightarrow> nat \<Rightarrow> agent_session \<Rightarrow> token_usage
      \<Rightarrow> ('w, loop_result + agent_session \<times> token_usage) io" where
  "loop_iteration env maxIterations iteration session usage =
     io_bind (env_on_event env (LIteration iteration)) (\<lambda>_.
     io_bind (env_decide env \<lparr>in_messages = messages session, in_iteration = iteration,
                              in_max_iterations = maxIterations\<rparr>) (\<lambda>decision.
     io_bind (io_lift (add_usage usage (decision_usage decision))) (\<lambda>usage'.
       (case decision of
          DReply text _ \<Rightarrow>
            io_bind (io_lift (bounded_reply text)) (\<lambda>reply.
            io_bind (env_on_event env (LDecision iteration KReply None)) (\<lambda>_.
              io_return (Inl \<lparr>loop_status = LoopCompleted, loop_stop_reason = StopModelReply,
                loop_reply = Some reply, loop_iterations = iteration, loop_usage = usage'\<rparr>)))
        | DStop _ \<Rightarrow>
            io_bind (env_on_event env (LDecision iteration KStop None)) (\<lambda>_.
              io_return (Inl \<lparr>loop_status = LoopCompleted, loop_stop_reason = StopNoTool,
                loop_reply = None, loop_iterations = iteration, loop_usage = usage'\<rparr>))
        | DTool name arguments _ \<Rightarrow>
            io_bind (io_lift (bounded_tool_name name)) (\<lambda>toolName.
            io_bind (env_on_event env (LDecision iteration KTool (Some toolName))) (\<lambda>_.
            io_bind (env_execute env \<lparr>call_run_id = env_run_id env, call_name = toolName,
                                      call_arguments = arguments\<rparr>) (\<lambda>observed.
            io_bind (io_lift (append_tool_observation (env_stringify env) session toolName observed)) (\<lambda>session'.
            io_bind (env_on_event env (LToolResult iteration toolName)) (\<lambda>_.
              io_return (Inr (session', usage')))))))))))"

fun loop_from ::
    "'w loop_env \<Rightarrow> nat \<Rightarrow> nat \<Rightarrow> nat \<Rightarrow> agent_session \<Rightarrow> token_usage \<Rightarrow> ('w, loop_result \<times> agent_session) io" where
  "loop_from env maxIterations 0 iteration session usage =
     io_return (\<lparr>loop_status = LoopIterationLimit, loop_stop_reason = StopIterationLimit,
        loop_reply = None, loop_iterations = maxIterations, loop_usage = usage\<rparr>, session)"
| "loop_from env maxIterations (Suc left) iteration session usage =
     io_bind (loop_iteration env maxIterations iteration session usage) (\<lambda>outcome.
       (case outcome of
          Inl result \<Rightarrow> io_return (result, session)
        | Inr (session', usage') \<Rightarrow> loop_from env maxIterations left (Suc iteration) session' usage'))"

definition run_agent_loop ::
    "'w loop_env \<Rightarrow> js \<Rightarrow> agent_session \<Rightarrow> ('w, loop_result \<times> agent_session) io" where
  "run_agent_loop env maxIter session =
     io_bind (io_lift (bounded_iterations maxIter)) (\<lambda>maxIterations.
       loop_from env maxIterations maxIterations 1 session \<lparr>input_tokens = 0, output_tokens = 0\<rparr>)"

section \<open>What the loop guarantees\<close>

lemma bounded_iterations_Inr:
  "bounded_iterations v = Inr n \<longleftrightarrow> safe_int v = Some (int n) \<and> 1 \<le> n \<and> n \<le> 64"
  by (auto simp: bounded_iterations_def split: option.splits if_splits)

lemma bounded_tool_name_Inr:
  "bounded_tool_name v = Inr x \<longleftrightarrow> x = v \<and> v \<noteq> [] \<and> utf8_len v \<le> MAX_TOOL_NAME_BYTES \<and> \<not> has_control v"
  by (auto simp: bounded_tool_name_def)

definition result_ok :: "nat \<Rightarrow> loop_result \<Rightarrow> bool" where
  "result_ok maxIterations r \<longleftrightarrow>
     1 \<le> loop_iterations r \<and> loop_iterations r \<le> maxIterations
     \<and> (loop_status r = LoopIterationLimit \<longleftrightarrow> loop_stop_reason r = StopIterationLimit)
     \<and> (loop_stop_reason r = StopIterationLimit \<longrightarrow> loop_iterations r = maxIterations)
     \<and> (loop_reply r \<noteq> None \<longleftrightarrow> loop_stop_reason r = StopModelReply)
     \<and> (\<forall>t. loop_reply r = Some t \<longrightarrow> utf8_len t \<le> 128 * 1024 \<and> \<not> has_nul t)"

lemma loop_iteration_result:
  assumes "loop_iteration env m i session u w = (Inr (Inl r), w')" "1 \<le> i" "i \<le> m"
  shows "result_ok m r"
  using assms
  unfolding loop_iteration_def
  by (auto elim!: io_bindE simp: result_ok_def bounded_reply_def
      split: model_decision.split_asm if_splits)

lemma loop_iteration_session:
  assumes "loop_iteration env m i session u w = (Inr (Inr (s', u')), w')" "session_inv session"
  shows "session_inv s'"
  using assms
  unfolding loop_iteration_def
  by (auto elim!: io_bindE split: model_decision.split_asm) (erule append_tool_observation_inv, assumption)

lemma loop_from_result:
  assumes "loop_from env m left i session u w = (Inr (r, session'), w')"
    and "1 \<le> i" "i + left = Suc m" "1 \<le> m" "session_inv session"
  shows "result_ok m r \<and> session_inv session'"
  using assms
proof (induction left arbitrary: i session u w)
  case 0
  then show ?case by (auto simp: result_ok_def)
next
  case (Suc left)
  from Suc.prems(1) obtain out w1 where it: "loop_iteration env m i session u w = (Inr out, w1)"
    and rest: "(case out of Inl result \<Rightarrow> io_return (result, session)
      | Inr (s1, u1) \<Rightarrow> loop_from env m left (Suc i) s1 u1) w1 = (Inr (r, session'), w')"
    by (auto elim!: io_bindE)
  show ?case
  proof (cases out)
    case (Inl r1)
    with it rest Suc.prems loop_iteration_result show ?thesis by fastforce
  next
    case (Inr su)
    then obtain s1 u1 where su: "out = Inr (s1, u1)" by (cases su) auto
    with it have "loop_iteration env m i session u w = (Inr (Inr (s1, u1)), w1)" by simp
    then have "session_inv s1" using Suc.prems(5) by (rule loop_iteration_session)
    moreover from su rest have "loop_from env m left (Suc i) s1 u1 w1 = (Inr (r, session'), w')" by simp
    ultimately show ?thesis using Suc.IH [of "Suc i" s1 u1 w1] Suc.prems by simp
  qed
qed

lemma run_agent_loop_result:
  assumes "run_agent_loop env maxIter session w = (Inr (r, session'), w')" "session_inv session"
  shows "\<exists>m. safe_int maxIter = Some (int m) \<and> m \<le> 64 \<and> result_ok m r \<and> session_inv session'"
proof -
  from assms(1) obtain m where m: "bounded_iterations maxIter = Inr m"
    and l: "loop_from env m m 1 session \<lparr>input_tokens = 0, output_tokens = 0\<rparr> w = (Inr (r, session'), w')"
    by (auto simp: run_agent_loop_def io_bind_Inr)
  from m have "1 \<le> m" "m \<le> 64" "safe_int maxIter = Some (int m)"
    by (auto simp: bounded_iterations_Inr)
  with loop_from_result [OF l] assms(2) show ?thesis by auto
qed

section \<open>What the loop does to its environment\<close>

text \<open>
  The loop on an environment that keeps the calls it receives: whether the loop returns or
  throws, it has asked the model at most \<open>maxIterations\<close> times, executed at most as many
  tools, and every tool it executed had a checked name, belonged to the turn's run and was
  announced by the decision event just before.
\<close>

datatype env_call = CallEvent loop_event | CallDecide model_input | CallExecute tool_call

definition logged_env :: "'w loop_env \<Rightarrow> ('w \<times> env_call list) loop_env" where
  "logged_env env =
     \<lparr>env_run_id = env_run_id env,
      env_decide = logged CallDecide (env_decide env),
      env_execute = logged CallExecute (env_execute env),
      env_on_event = logged CallEvent (env_on_event env),
      env_stringify = env_stringify env\<rparr>"

fun is_decide :: "env_call \<Rightarrow> bool" where
  "is_decide (CallDecide _) = True"
| "is_decide _ = False"

fun is_execute :: "env_call \<Rightarrow> bool" where
  "is_execute (CallExecute _) = True"
| "is_execute _ = False"

text \<open>Every execution directly follows the event that announced it.\<close>

definition governed :: "jstr \<Rightarrow> env_call list \<Rightarrow> bool" where
  "governed run calls \<longleftrightarrow> (\<forall>k < length calls. case calls ! k of
       CallExecute c \<Rightarrow> call_run_id c = run \<and> bounded_tool_name (call_name c) = Inr (call_name c)
         \<and> 0 < k \<and> (\<exists>i. calls ! (k - 1) = CallEvent (LDecision i KTool (Some (call_name c))))
     | _ \<Rightarrow> True)"

definition calls_within :: "jstr \<Rightarrow> nat \<Rightarrow> env_call list \<Rightarrow> bool" where
  "calls_within run n calls \<longleftrightarrow> governed run calls
     \<and> length (filter is_decide calls) \<le> n \<and> length (filter is_execute calls) \<le> n"

lemma governed_Nil [simp]: "governed run []"
  by (simp add: governed_def)

lemma governed_append:
  assumes "governed run xs" "governed run ys" shows "governed run (xs @ ys)"
  unfolding governed_def
proof (intro allI impI)
  fix k assume k: "k < length (xs @ ys)"
  show "case (xs @ ys) ! k of
       CallExecute c \<Rightarrow> call_run_id c = run \<and> bounded_tool_name (call_name c) = Inr (call_name c)
         \<and> 0 < k \<and> (\<exists>i. (xs @ ys) ! (k - 1) = CallEvent (LDecision i KTool (Some (call_name c))))
     | _ \<Rightarrow> True"
  proof (cases "k < length xs")
    case True
    with assms(1) show ?thesis
      by (auto simp: governed_def nth_append split: env_call.splits)
  next
    case False
    with k have "k - length xs < length ys" by auto
    with assms(2) False show ?thesis
      by (fastforce simp: governed_def nth_append split: env_call.splits)
  qed
qed

lemma calls_within_append:
  "calls_within run m xs \<Longrightarrow> calls_within run n ys \<Longrightarrow> calls_within run (m + n) (xs @ ys)"
  by (simp add: calls_within_def governed_append)

lemma loop_iteration_calls:
  "\<exists>new. snd (snd (loop_iteration (logged_env env) m i s u (w, l))) = l @ new
     \<and> calls_within (env_run_id env) 1 new"
  unfolding loop_iteration_def
  by (auto simp: io_bind_def logged_env_def logged_def calls_within_def governed_def
      bounded_tool_name_Inr less_Suc_eq nth_Cons
      split: prod.splits sum.splits model_decision.splits nat.splits)

lemma loop_from_calls:
  "\<exists>new. snd (snd (loop_from (logged_env env) m left i s u (w, l))) = l @ new
     \<and> calls_within (env_run_id env) left new"
proof (induction left arbitrary: i s u w l)
  case 0
  show ?case by (simp add: calls_within_def)
next
  case (Suc left)
  obtain out w1 l1 where it: "loop_iteration (logged_env env) m i s u (w, l) = (out, (w1, l1))"
    by (metis prod.collapse)
  with loop_iteration_calls [of env m i s u w l] obtain new
    where new: "l1 = l @ new" "calls_within (env_run_id env) 1 new" by auto
  show ?case
  proof (cases "\<exists>s1 u1. out = Inr (Inr (s1, u1))")
    case True
    then obtain s1 u1 where out: "out = Inr (Inr (s1, u1))" by blast
    from Suc.IH [of "Suc i" s1 u1 w1 l1] obtain new' where
      "snd (snd (loop_from (logged_env env) m left (Suc i) s1 u1 (w1, l1))) = l1 @ new'"
      "calls_within (env_run_id env) left new'" by blast
    with new it out calls_within_append [OF new(2), of left new'] show ?thesis
      by (simp add: io_bind_def)
  next
    case False
    then have "snd (snd (loop_from (logged_env env) m (Suc left) i s u (w, l))) = l1"
      using it by (auto simp: io_bind_def split: sum.splits)
    moreover have "calls_within (env_run_id env) (Suc left) new"
      using new(2) by (auto simp: calls_within_def)
    ultimately show ?thesis using new(1) by blast
  qed
qed

section \<open>Properties\<close>


definition demo_env :: "unit loop_env" where
  "demo_env = \<lparr>env_run_id = lit ''run'',
     env_decide = (\<lambda>i. if in_iteration i = 1 then io_return (DTool (lit ''read'') JNull None)
                       else io_return (DReply (lit ''done'') None)),
     env_execute = (\<lambda>_. io_return (JStr (lit ''seen''))),
     env_on_event = (\<lambda>_. io_return ()),
     env_stringify = (\<lambda>_. Inr None)\<rparr>"

definition demo_session :: agent_session where
  "demo_session = \<lparr>messages = [], used_bytes = 0, max_bytes = 2048\<rparr>"


text \<open>
  Whether the loop returns or throws, the model has been asked at most the checked limit of
  times, at most as many tools have been executed, and every executed tool call carries the
  turn's run id and a checked name and directly follows the decision event that announced it.
  With a limit that is not an integer from 1 to 64 the environment is not called at all.
\<close>

theorem run_agent_loop_governed:
  "(case bounded_iterations maxIter of
      Inl _ \<Rightarrow> snd (run_agent_loop (logged_env env) maxIter session (w, [])) = (w, [])
    | Inr m \<Rightarrow> calls_within (env_run_id env) m
        (snd (snd (run_agent_loop (logged_env env) maxIter session (w, [])))))"
  using loop_from_calls [of env _ _ 1 session "\<lparr>input_tokens = 0, output_tokens = 0\<rparr>" w "[]"]
  by (cases "bounded_iterations maxIter") (auto simp: run_agent_loop_def)

end
