(* ===== verification/Agent_Records.thy ===== *)
theory Agent_Records
  imports Contracts
begin

text \<open>
  The parsers of what the Harness core answers about agent turns, evaluations and memory
  (\<^verbatim>\<open>agent-parser.ts\<close>, \<^verbatim>\<open>agent-eval.ts\<close>, \<^verbatim>\<open>agent-memory.ts\<close>), and the rendering of a
  memory bundle into context messages. A parser reads an untrusted value field by field, in the
  order of the source, and throws at the first field that is not as it must be.
\<close>

section \<open>Field readers\<close>

definition invalid :: "string \<Rightarrow> 'a res" where
  "invalid label = throw (''SourceNerve '' @ label @ '' is invalid'')"

definition record_field :: "js \<Rightarrow> string \<Rightarrow> js res" where
  "record_field value label = (if is_record value then Inr value else invalid label)"

definition array_field :: "js \<Rightarrow> string \<Rightarrow> js list res" where
  "array_field value label = (case value of JArr xs \<Rightarrow> Inr xs | _ \<Rightarrow> invalid label)"

definition boolean_field :: "js \<Rightarrow> string \<Rightarrow> bool res" where
  "boolean_field value label = (case value of JBool b \<Rightarrow> Inr b | _ \<Rightarrow> invalid label)"

definition integer_field :: "js \<Rightarrow> int \<Rightarrow> int \<Rightarrow> string \<Rightarrow> int res" where
  "integer_field value lo hi label =
     (case safe_int value of
        Some i \<Rightarrow> if i < lo \<or> i > hi then invalid label else Inr i
      | None \<Rightarrow> invalid label)"

text \<open>\<^verbatim>\<open>text\<close> of the turn parser: no control character.\<close>

definition turn_text :: "js \<Rightarrow> nat \<Rightarrow> string \<Rightarrow> jstr res" where
  "turn_text value maxBytes label =
     (case value of
        JStr s \<Rightarrow> if s = [] \<or> utf8_len s > maxBytes \<or> has_control s then invalid label else Inr s
      | _ \<Rightarrow> invalid label)"

text \<open>\<^verbatim>\<open>text\<close> of the evaluation and memory parsers: no NUL, possibly empty.\<close>

definition free_text :: "bool \<Rightarrow> js \<Rightarrow> nat \<Rightarrow> string \<Rightarrow> jstr res" where
  "free_text allowEmpty value maxBytes label =
     (case value of
        JStr s \<Rightarrow> if (\<not> allowEmpty \<and> s = []) \<or> utf8_len s > maxBytes \<or> has_nul s then invalid label else Inr s
      | _ \<Rightarrow> invalid label)"

text \<open>\<^verbatim>\<open>...(row.key == null ? {} : { field: read(row.key) })\<close>.\<close>

definition optional_field :: "js \<Rightarrow> (js \<Rightarrow> 'a res) \<Rightarrow> 'a option res" where
  "optional_field value reader =
     (if is_nullish value then Inr None else and_then (reader value) (\<lambda>a. Inr (Some a)))"

section \<open>Agent turns\<close>

datatype turn_status = TurnRunning | TurnCompleted | TurnFailed | TurnCancelled | TurnIterationLimit

datatype turn_stop_reason = TSModelReply | TSNoTool | TSIterationLimit | TSCancelled | TSError

record agent_turn =
  turn_id :: jstr
  turn_run_id :: jstr
  turn_client_request_id :: "jstr option"
  turn_status :: turn_status
  turn_max_iterations :: int
  turn_iteration_count :: int
  turn_provider_id :: "jstr option"
  turn_model_id :: "jstr option"
  turn_stop_reason :: "turn_stop_reason option"
  turn_input_tokens :: int
  turn_output_tokens :: int
  turn_started_at :: int
  turn_updated_at :: int
  turn_completed_at :: "int option"

definition turn_status_names :: "(turn_status \<times> string) list" where
  "turn_status_names = [(TurnRunning, ''running''), (TurnCompleted, ''completed''), (TurnFailed, ''failed''),
     (TurnCancelled, ''cancelled''), (TurnIterationLimit, ''iteration-limit'')]"

definition stop_reason_names :: "(turn_stop_reason \<times> string) list" where
  "stop_reason_names = [(TSModelReply, ''model-reply''), (TSNoTool, ''no-tool''),
     (TSIterationLimit, ''iteration-limit''), (TSCancelled, ''cancelled''), (TSError, ''error'')]"

text \<open>Reading one of a list of string constants.\<close>

definition enum_field :: "('a \<times> string) list \<Rightarrow> js \<Rightarrow> string \<Rightarrow> 'a res" where
  "enum_field names value message =
     (case find (\<lambda>p. value = jtext (snd p)) names of Some p \<Rightarrow> Inr (fst p) | None \<Rightarrow> throw message)"

definition parse_turn_status :: "js \<Rightarrow> turn_status res" where
  "parse_turn_status value = enum_field turn_status_names value ''SourceNerve agent turn status is invalid''"

definition parse_stop_reason :: "js \<Rightarrow> turn_stop_reason res" where
  "parse_stop_reason value = enum_field stop_reason_names value ''SourceNerve agent stop reason is invalid''"

definition parse_agent_turn :: "js \<Rightarrow> agent_turn res" where
  "parse_agent_turn value =
     and_then (record_field value ''agent turn'') (\<lambda>row.
     and_then (turn_text (jget row ''id'') 128 ''agent turn id'') (\<lambda>i.
     and_then (turn_text (jget row ''run_id'') 128 ''agent run id'') (\<lambda>runId.
     and_then (optional_field (jget row ''client_request_id'') (\<lambda>v. turn_text v 128 ''agent request id'')) (\<lambda>request.
     and_then (parse_turn_status (jget row ''status'')) (\<lambda>st.
     and_then (integer_field (jget row ''max_iterations'') 1 64 ''agent max iterations'') (\<lambda>maxIterations.
     and_then (integer_field (jget row ''iteration_count'') 0 64 ''agent iteration count'') (\<lambda>count.
     and_then (optional_field (jget row ''provider_id'') (\<lambda>v. turn_text v 128 ''agent provider id'')) (\<lambda>provider.
     and_then (optional_field (jget row ''model_id'') (\<lambda>v. turn_text v 128 ''agent model id'')) (\<lambda>model.
     and_then (optional_field (jget row ''stop_reason'') parse_stop_reason) (\<lambda>stop.
     and_then (integer_field (jget row ''input_tokens'') 0 max_safe ''agent input tokens'') (\<lambda>inp.
     and_then (integer_field (jget row ''output_tokens'') 0 max_safe ''agent output tokens'') (\<lambda>out.
     and_then (integer_field (jget row ''started_at'') 0 max_safe ''agent started at'') (\<lambda>started.
     and_then (integer_field (jget row ''updated_at'') 0 max_safe ''agent updated at'') (\<lambda>updated.
     and_then (optional_field (jget row ''completed_at'') (\<lambda>v. integer_field v 0 max_safe ''agent completed at'')) (\<lambda>completed.
       Inr \<lparr>turn_id = i, turn_run_id = runId, turn_client_request_id = request, turn_status = st,
            turn_max_iterations = maxIterations, turn_iteration_count = count, turn_provider_id = provider,
            turn_model_id = model, turn_stop_reason = stop, turn_input_tokens = inp, turn_output_tokens = out,
            turn_started_at = started, turn_updated_at = updated, turn_completed_at = completed\<rparr>)))))))))))))))"

definition parse_agent_turn_begin :: "js \<Rightarrow> (agent_turn \<times> bool) res" where
  "parse_agent_turn_begin value =
     and_then (record_field value ''agent turn begin'') (\<lambda>row.
       case jget row ''replayed'' of
         JBool replayed \<Rightarrow> and_then (parse_agent_turn (jget row ''turn'')) (\<lambda>turn. Inr (turn, replayed))
       | _ \<Rightarrow> throw ''SourceNerve agent replay flag is invalid'')"

definition parse_agent_turn_list :: "js \<Rightarrow> agent_turn list res" where
  "parse_agent_turn_list value =
     and_then (record_field value ''agent turn list'') (\<lambda>row.
       case jget row ''turns'' of
         JArr turns \<Rightarrow> map_res parse_agent_turn turns
       | _ \<Rightarrow> throw ''SourceNerve agent turn list is invalid'')"

definition parse_agent_iteration :: "js \<Rightarrow> (agent_turn \<times> bool) res" where
  "parse_agent_iteration value =
     and_then (record_field value ''agent iteration'') (\<lambda>row.
       case jget row ''iteration_limit_reached'' of
         JBool reached \<Rightarrow> and_then (parse_agent_turn (jget row ''turn'')) (\<lambda>turn. Inr (turn, reached))
       | _ \<Rightarrow> throw ''SourceNerve agent iteration limit flag is invalid'')"

section \<open>Evaluations\<close>

datatype verdict = Pass | Fail

record evaluation_check =
  check_name :: jstr
  check_passed :: bool
  check_detail :: jstr

record evaluation_metrics =
  m_iterations :: int
  m_max_iterations :: int
  m_context_reads :: int
  m_executions :: int
  m_failure_count :: int
  m_learning_count :: int
  m_satisfied_proofs :: int
  m_input_tokens :: int
  m_output_tokens :: int

record agent_evaluation =
  eval_id :: jstr
  eval_turn_id :: jstr
  evaluator_version :: int
  deterministic_verdict :: verdict
  eval_checks :: "evaluation_check list"
  eval_metrics :: evaluation_metrics
  judge_verdict :: "verdict option"
  judge_provider_id :: "jstr option"
  judge_model_id :: "jstr option"
  final_verdict :: verdict
  eval_created_at :: int

definition parse_verdict :: "js \<Rightarrow> string \<Rightarrow> verdict res" where
  "parse_verdict value label =
     enum_field [(Pass, ''pass''), (Fail, ''fail'')] value (''SourceNerve agent '' @ label @ '' is invalid'')"

definition non_negative :: "js \<Rightarrow> string \<Rightarrow> int res" where
  "non_negative value label = integer_field value 0 max_safe (''agent evaluation '' @ label)"

definition parse_evaluation_check :: "js \<Rightarrow> evaluation_check res" where
  "parse_evaluation_check item =
     and_then (record_field item ''agent evaluation check'') (\<lambda>check.
     and_then (free_text False (jget check ''name'') 128 ''agent evaluation check name'') (\<lambda>name.
     and_then (boolean_field (jget check ''passed'') ''agent evaluation check passed'') (\<lambda>passed.
     and_then (free_text False (jget check ''detail'') 1024 ''agent evaluation check detail'') (\<lambda>detail.
       Inr \<lparr>check_name = name, check_passed = passed, check_detail = detail\<rparr>))))"

definition parse_evaluation_metrics :: "js \<Rightarrow> evaluation_metrics res" where
  "parse_evaluation_metrics metrics =
     and_then (non_negative (jget metrics ''iterations'') ''iterations'') (\<lambda>a.
     and_then (non_negative (jget metrics ''max_iterations'') ''max iterations'') (\<lambda>b.
     and_then (non_negative (jget metrics ''context_reads'') ''context reads'') (\<lambda>c.
     and_then (non_negative (jget metrics ''executions'') ''executions'') (\<lambda>d.
     and_then (non_negative (jget metrics ''failure_count'') ''failure count'') (\<lambda>e.
     and_then (non_negative (jget metrics ''learning_count'') ''learning count'') (\<lambda>f.
     and_then (non_negative (jget metrics ''satisfied_proofs'') ''satisfied proofs'') (\<lambda>g.
     and_then (non_negative (jget metrics ''input_tokens'') ''input tokens'') (\<lambda>h.
     and_then (non_negative (jget metrics ''output_tokens'') ''output tokens'') (\<lambda>i.
       Inr \<lparr>m_iterations = a, m_max_iterations = b, m_context_reads = c, m_executions = d,
            m_failure_count = e, m_learning_count = f, m_satisfied_proofs = g,
            m_input_tokens = h, m_output_tokens = i\<rparr>)))))))))"

definition parse_agent_evaluation :: "js \<Rightarrow> agent_evaluation res" where
  "parse_agent_evaluation value =
     and_then (record_field value ''agent evaluation'') (\<lambda>row.
     and_then (record_field (jget row ''metrics'') ''agent evaluation metrics'') (\<lambda>metrics.
     and_then (and_then (array_field (jget row ''checks'') ''agent evaluation checks'') (map_res parse_evaluation_check)) (\<lambda>checks.
     and_then (free_text False (jget row ''id'') 128 ''agent evaluation id'') (\<lambda>i.
     and_then (free_text False (jget row ''turn_id'') 128 ''agent evaluation turn id'') (\<lambda>turnId.
     and_then (integer_field (jget row ''evaluator_version'') 1 max_safe ''agent evaluator version'') (\<lambda>version.
     and_then (parse_verdict (jget row ''deterministic_verdict'') ''deterministic verdict'') (\<lambda>det.
     and_then (parse_evaluation_metrics metrics) (\<lambda>ms.
     and_then (optional_field (jget row ''judge_verdict'') (\<lambda>v. parse_verdict v ''judge verdict'')) (\<lambda>jv.
     and_then (optional_field (jget row ''judge_provider_id'') (\<lambda>v. free_text False v 128 ''judge provider id'')) (\<lambda>jp.
     and_then (optional_field (jget row ''judge_model_id'') (\<lambda>v. free_text False v 128 ''judge model id'')) (\<lambda>jm.
     and_then (parse_verdict (jget row ''final_verdict'') ''final verdict'') (\<lambda>fin.
     and_then (non_negative (jget row ''created_at'') ''created at'') (\<lambda>created.
       Inr \<lparr>eval_id = i, eval_turn_id = turnId, evaluator_version = version, deterministic_verdict = det,
            eval_checks = checks, eval_metrics = ms, judge_verdict = jv, judge_provider_id = jp,
            judge_model_id = jm, final_verdict = fin, eval_created_at = created\<rparr>)))))))))))))"

section \<open>Memory\<close>

record semantic_item =
  sem_path :: jstr
  sem_start_line :: int
  sem_end_line :: int
  sem_content :: jstr
  sem_score :: int

record memory_episode =
  ep_seq :: int
  ep_event_type :: jstr
  ep_created_at :: int
  ep_tool :: "jstr option"
  ep_state :: "jstr option"
  ep_decision :: "jstr option"
  ep_route :: "jstr option"
  ep_result_category :: "jstr option"
  ep_error_category :: "jstr option"
  ep_proof_type :: "jstr option"

record learning_hint =
  hint_tool :: jstr
  hint_error_category :: jstr
  hint_suggestion :: jstr
  hint_state :: jstr

record procedural_memory =
  entrypoints :: "jstr list"
  guidance :: "jstr list"
  active_plans :: "jstr list"
  validation_owners :: "jstr list"
  closed_loop_phase :: jstr
  verification_status :: jstr
  recovery_status :: jstr
  selected_proof_type :: "jstr option"
  learning_hints :: "learning_hint list"

record memory_bundle =
  memory_run_id :: jstr
  semantic :: "semantic_item list"
  episodic :: "memory_episode list"
  procedural :: procedural_memory

definition parse_semantic_item :: "js \<Rightarrow> semantic_item res" where
  "parse_semantic_item item =
     and_then (record_field item ''agent semantic item'') (\<lambda>row.
     and_then (free_text False (jget row ''path'') 4096 ''agent semantic path'') (\<lambda>path.
     and_then (integer_field (jget row ''start_line'') 1 max_safe ''agent semantic start line'') (\<lambda>startLine.
     and_then (integer_field (jget row ''end_line'') 1 max_safe ''agent semantic end line'') (\<lambda>endLine.
     and_then (free_text True (jget row ''content'') (128 * 1024) ''agent semantic content'') (\<lambda>content.
     and_then (integer_field (jget row ''score'') (- max_safe) max_safe ''agent semantic score'') (\<lambda>score.
       Inr \<lparr>sem_path = path, sem_start_line = startLine, sem_end_line = endLine,
            sem_content = content, sem_score = score\<rparr>))))))"

definition parse_episode :: "js \<Rightarrow> memory_episode res" where
  "parse_episode item =
     and_then (record_field item ''agent episodic item'') (\<lambda>row.
     and_then (integer_field (jget row ''seq'') 0 max_safe ''agent episode seq'') (\<lambda>seq.
     and_then (free_text False (jget row ''event_type'') 128 ''agent episode type'') (\<lambda>eventType.
     and_then (integer_field (jget row ''created_at'') 0 max_safe ''agent episode timestamp'') (\<lambda>createdAt.
     and_then (optional_field (jget row ''tool'') (\<lambda>v. free_text False v 128 ''agent episode tool'')) (\<lambda>tool.
     and_then (optional_field (jget row ''state'') (\<lambda>v. free_text False v 64 ''agent episode state'')) (\<lambda>st.
     and_then (optional_field (jget row ''decision'') (\<lambda>v. free_text False v 32 ''agent episode decision'')) (\<lambda>decision.
     and_then (optional_field (jget row ''route'') (\<lambda>v. free_text False v 64 ''agent episode route'')) (\<lambda>route.
     and_then (optional_field (jget row ''result_category'') (\<lambda>v. free_text False v 64 ''agent episode result_category'')) (\<lambda>rc.
     and_then (optional_field (jget row ''error_category'') (\<lambda>v. free_text False v 64 ''agent episode error_category'')) (\<lambda>ec.
     and_then (optional_field (jget row ''proof_type'') (\<lambda>v. free_text False v 64 ''agent episode proof_type'')) (\<lambda>pt.
       Inr \<lparr>ep_seq = seq, ep_event_type = eventType, ep_created_at = createdAt, ep_tool = tool, ep_state = st,
            ep_decision = decision, ep_route = route, ep_result_category = rc, ep_error_category = ec,
            ep_proof_type = pt\<rparr>)))))))))))"

definition string_array :: "js \<Rightarrow> string \<Rightarrow> jstr list res" where
  "string_array value label =
     and_then (array_field value label) (map_res (\<lambda>item. free_text False item 4096 label))"

definition parse_learning_hint :: "js \<Rightarrow> learning_hint res" where
  "parse_learning_hint item =
     and_then (record_field item ''agent learning hint'') (\<lambda>row.
     and_then (free_text False (jget row ''tool'') 128 ''agent learning tool'') (\<lambda>tool.
     and_then (free_text False (jget row ''error_category'') 128 ''agent learning error category'') (\<lambda>ec.
     and_then (free_text True (jget row ''suggestion'') 1024 ''agent learning suggestion'') (\<lambda>suggestion.
     and_then (free_text False (jget row ''state'') 64 ''agent learning state'') (\<lambda>st.
       Inr \<lparr>hint_tool = tool, hint_error_category = ec, hint_suggestion = suggestion, hint_state = st\<rparr>)))))"

definition parse_agent_memory :: "js \<Rightarrow> memory_bundle res" where
  "parse_agent_memory value =
     and_then (record_field value ''agent memory'') (\<lambda>root.
     and_then (record_field (jget root ''semantic'') ''agent semantic memory'') (\<lambda>semanticRoot.
     and_then (record_field (jget root ''procedural'') ''agent procedural memory'') (\<lambda>proceduralRoot.
     and_then (record_field (jget proceduralRoot ''repository_context'') ''agent repository context'') (\<lambda>repository.
     and_then (free_text False (jget root ''run_id'') 128 ''agent memory run id'') (\<lambda>runId.
     and_then (and_then (array_field (jget semanticRoot ''items'') ''agent semantic items'') (map_res parse_semantic_item)) (\<lambda>sem.
     and_then (and_then (array_field (jget root ''episodic'') ''agent episodic memory'') (map_res parse_episode)) (\<lambda>eps.
     and_then (string_array (jget repository ''entrypoints'') ''agent entrypoints'') (\<lambda>entry.
     and_then (string_array (jget repository ''guidance'') ''agent guidance'') (\<lambda>guide.
     and_then (string_array (jget repository ''active_plans'') ''agent active plans'') (\<lambda>plans.
     and_then (string_array (jget repository ''validation_owners'') ''agent validation owners'') (\<lambda>owners.
     and_then (free_text False (jget proceduralRoot ''closed_loop_phase'') 64 ''agent closed loop phase'') (\<lambda>phase.
     and_then (free_text False (jget proceduralRoot ''verification_status'') 64 ''agent verification status'') (\<lambda>verification.
     and_then (free_text False (jget proceduralRoot ''recovery_status'') 64 ''agent recovery status'') (\<lambda>recovery.
     and_then (optional_field (jget proceduralRoot ''selected_proof_type'') (\<lambda>v. free_text False v 64 ''agent proof type'')) (\<lambda>proof_type.
     and_then (and_then (array_field (jget proceduralRoot ''learning_hints'') ''agent learning hints'') (map_res parse_learning_hint)) (\<lambda>hints.
       Inr \<lparr>memory_run_id = runId, semantic = sem, episodic = eps,
            procedural = \<lparr>entrypoints = entry, guidance = guide, active_plans = plans, validation_owners = owners,
              closed_loop_phase = phase, verification_status = verification, recovery_status = recovery,
              selected_proof_type = proof_type, learning_hints = hints\<rparr>\<rparr>))))))))))))))))"

section \<open>Context messages\<close>

definition newline :: jstr where
  "newline = [10]"

definition semantic_message :: "semantic_item \<Rightarrow> jstr" where
  "semantic_message item =
     lit ''[repository:'' @ sem_path item @ lit '':'' @ show_int (sem_start_line item) @ lit ''-''
       @ show_int (sem_end_line item) @ lit '' score='' @ show_int (sem_score item) @ lit '']'' @ newline
       @ sem_content item"

text \<open>\<^verbatim>\<open>[...].filter(Boolean)\<close> on optional strings: the absent and the empty are dropped.\<close>

definition present :: "jstr option list \<Rightarrow> jstr list" where
  "present xs = filter (\<lambda>s. s \<noteq> []) (map (\<lambda>x. case x of None \<Rightarrow> [] | Some s \<Rightarrow> s) xs)"

definition episode_line :: "memory_episode \<Rightarrow> jstr" where
  "episode_line e =
     lit ''#'' @ show_int (ep_seq e) @ lit '' '' @
       join (lit '' | '') (present [Some (ep_event_type e), ep_tool e, ep_decision e, ep_route e,
         ep_result_category e, ep_error_category e, ep_proof_type e])"

definition listing :: "string \<Rightarrow> string \<Rightarrow> jstr list \<Rightarrow> jstr" where
  "listing label sep xs = (if xs = [] then [] else lit label @ join (lit sep) xs)"

definition procedure_message :: "procedural_memory \<Rightarrow> jstr" where
  "procedure_message p =
     join newline (filter (\<lambda>s. s \<noteq> [])
       [lit ''[procedural] phase='' @ closed_loop_phase p @ lit '' verification='' @ verification_status p
          @ lit '' recovery='' @ recovery_status p,
        listing ''entrypoints: '' '', '' (entrypoints p),
        listing ''guidance: '' '', '' (guidance p),
        listing ''active plans: '' '', '' (active_plans p),
        listing ''learning: '' ''; ''
          (map (\<lambda>h. hint_tool h @ lit ''/'' @ hint_error_category h @ lit '': '' @ hint_suggestion h) (learning_hints p))])"

definition memory_context_messages :: "memory_bundle \<Rightarrow> jstr list" where
  "memory_context_messages memory =
     filter (\<lambda>s. 0 < length s)
       (map semantic_message (semantic memory)
        @ (if episodic memory = [] then []
           else [lit ''[episodic]'' @ newline @ join newline (map episode_line (episodic memory))])
        @ [procedure_message (procedural memory)])"

section \<open>What a parsed turn satisfies\<close>

lemma invalid_not_Inr [simp]: "invalid l \<noteq> Inr a"
  by (simp add: invalid_def)

lemma record_field_Inr [simp]: "record_field v l = Inr r \<longleftrightarrow> r = v \<and> is_record v"
  by (auto simp: record_field_def)

lemma integer_field_Inr [simp]:
  "integer_field v lo hi l = Inr i \<longleftrightarrow> v = jint i \<and> \<bar>i\<bar> \<le> max_safe \<and> lo \<le> i \<and> i \<le> hi"
  by (auto simp: integer_field_def safe_int_Some split: option.splits if_splits)
    (metis option.distinct(1) safe_int_Some)

lemma turn_text_Inr [simp]:
  "turn_text v m l = Inr s \<longleftrightarrow> v = JStr s \<and> s \<noteq> [] \<and> utf8_len s \<le> m \<and> \<not> has_control s"
  by (auto simp: turn_text_def split: js.splits if_splits)

lemma free_text_Inr [simp]:
  "free_text e v m l = Inr s \<longleftrightarrow> v = JStr s \<and> (e \<or> s \<noteq> []) \<and> utf8_len s \<le> m \<and> \<not> has_nul s"
  by (auto simp: free_text_def split: js.splits if_splits)

lemma boolean_field_Inr [simp]: "boolean_field v l = Inr b \<longleftrightarrow> v = JBool b"
  by (auto simp: boolean_field_def split: js.splits)

lemma array_field_Inr [simp]: "array_field v l = Inr xs \<longleftrightarrow> v = JArr xs"
  by (auto simp: array_field_def split: js.splits)

lemma optional_field_None [simp]: "optional_field v rd = Inr None \<longleftrightarrow> is_nullish v"
  by (auto simp: optional_field_def)

lemma optional_field_Some [simp]: "optional_field v rd = Inr (Some a) \<longleftrightarrow> \<not> is_nullish v \<and> rd v = Inr a"
  by (auto simp: optional_field_def)

lemma enum_field_sound: "enum_field names v m = Inr a \<Longrightarrow> \<exists>n. (a, n) \<in> set names \<and> v = jtext n"
  by (auto simp: enum_field_def find_Some_iff split: option.splits)

definition text_ok :: "nat \<Rightarrow> jstr \<Rightarrow> bool" where
  "text_ok m s \<longleftrightarrow> s \<noteq> [] \<and> utf8_len s \<le> m \<and> \<not> has_control s"

definition count_ok :: "int \<Rightarrow> bool" where
  "count_ok i \<longleftrightarrow> 0 \<le> i \<and> i \<le> max_safe"

definition turn_ok :: "agent_turn \<Rightarrow> bool" where
  "turn_ok t \<longleftrightarrow> text_ok 128 (turn_id t) \<and> text_ok 128 (turn_run_id t)
     \<and> pred_option (text_ok 128) (turn_client_request_id t)
     \<and> 1 \<le> turn_max_iterations t \<and> turn_max_iterations t \<le> 64
     \<and> 0 \<le> turn_iteration_count t \<and> turn_iteration_count t \<le> 64
     \<and> pred_option (text_ok 128) (turn_provider_id t) \<and> pred_option (text_ok 128) (turn_model_id t)
     \<and> count_ok (turn_input_tokens t) \<and> count_ok (turn_output_tokens t)
     \<and> count_ok (turn_started_at t) \<and> count_ok (turn_updated_at t)
     \<and> pred_option count_ok (turn_completed_at t)"

lemma optional_field_pred:
  "optional_field v rd = Inr x \<Longrightarrow> (\<And>a. rd v = Inr a \<Longrightarrow> P a) \<Longrightarrow> pred_option P x"
  by (cases x) auto

text \<open>The wire form of a turn, as the Harness core sends it.\<close>

definition opt_js :: "('a \<Rightarrow> js) \<Rightarrow> 'a option \<Rightarrow> js" where
  "opt_js f x = (case x of None \<Rightarrow> JNull | Some a \<Rightarrow> f a)"

definition name_of :: "('a \<times> string) list \<Rightarrow> 'a \<Rightarrow> js" where
  "name_of names a = (case map_of names a of Some n \<Rightarrow> jtext n | None \<Rightarrow> JNull)"

definition turn_wire :: "agent_turn \<Rightarrow> js" where
  "turn_wire t = JObj
     [(lit ''id'', JStr (turn_id t)), (lit ''run_id'', JStr (turn_run_id t)),
      (lit ''client_request_id'', opt_js JStr (turn_client_request_id t)),
      (lit ''status'', name_of turn_status_names (turn_status t)),
      (lit ''max_iterations'', jint (turn_max_iterations t)),
      (lit ''iteration_count'', jint (turn_iteration_count t)),
      (lit ''provider_id'', opt_js JStr (turn_provider_id t)),
      (lit ''model_id'', opt_js JStr (turn_model_id t)),
      (lit ''stop_reason'', opt_js (name_of stop_reason_names) (turn_stop_reason t)),
      (lit ''input_tokens'', jint (turn_input_tokens t)), (lit ''output_tokens'', jint (turn_output_tokens t)),
      (lit ''started_at'', jint (turn_started_at t)), (lit ''updated_at'', jint (turn_updated_at t)),
      (lit ''completed_at'', opt_js jint (turn_completed_at t))]"

lemma parse_turn_status_name: "parse_turn_status (name_of turn_status_names s) = Inr s"
  by (cases s) (simp_all add: parse_turn_status_def enum_field_def name_of_def turn_status_names_def)

lemma parse_stop_reason_name:
  "parse_stop_reason (name_of stop_reason_names s) = Inr s" "\<not> is_nullish (name_of stop_reason_names s)"
  by (cases s; simp add: parse_stop_reason_def enum_field_def name_of_def stop_reason_names_def is_nullish_def)+

lemma optional_field_opt_js:
  "(\<And>a. x = Some a \<Longrightarrow> rd (f a) = Inr a \<and> \<not> is_nullish (f a)) \<Longrightarrow> optional_field (opt_js f x) rd = Inr x"
  by (cases x) (auto simp: opt_js_def is_nullish_def optional_field_def)

lemma optional_field_text:
  "pred_option (text_ok m) x \<Longrightarrow> optional_field (opt_js JStr x) (\<lambda>v. turn_text v m l) = Inr x"
  by (rule optional_field_opt_js) (auto simp: is_nullish_def text_ok_def)

lemma optional_field_count:
  "pred_option count_ok x \<Longrightarrow> optional_field (opt_js jint x) (\<lambda>v. integer_field v 0 max_safe l) = Inr x"
  by (rule optional_field_opt_js) (auto simp: is_nullish_def count_ok_def)

lemma optional_field_stop_reason:
  "optional_field (opt_js (name_of stop_reason_names) x) parse_stop_reason = Inr x"
  by (rule optional_field_opt_js) (auto simp: parse_stop_reason_name)

lemma jget_row [simp]: "jget (JObj ((lit k, v) # kvs)) k' = (if k = k' then v else jget (JObj kvs) k')"
  by (simp add: jget_def)

section \<open>Properties\<close>

text \<open>
  whatever value the core answers, a turn that \<open>parse_agent_turn\<close> returns has non-empty
  ids of at most 128 bytes without control characters, an iteration budget of 1 to 64, an
  iteration count of 0 to 64, and token counts and timestamps that are safe non-negative integers.
\<close>
theorem parse_agent_turn_sound:
  assumes "parse_agent_turn value = Inr t"
  shows "turn_ok t"
  using assms unfolding parse_agent_turn_def turn_ok_def
  by (auto simp: text_ok_def count_ok_def elim!: optional_field_pred)

theorem parse_agent_turn_sound_witness:
  "turn_ok \<lparr>turn_id = lit ''t1'', turn_run_id = lit ''r1'', turn_client_request_id = None,
     turn_status = TurnRunning, turn_max_iterations = 12, turn_iteration_count = 3, turn_provider_id = None,
     turn_model_id = None, turn_stop_reason = None, turn_input_tokens = 5, turn_output_tokens = 6,
     turn_started_at = 1, turn_updated_at = 2, turn_completed_at = None\<rparr>"
  by (rule parse_agent_turn_sound [of "JObj
     [(lit ''id'', jtext ''t1''), (lit ''run_id'', jtext ''r1''), (lit ''status'', jtext ''running''),
      (lit ''max_iterations'', jint 12), (lit ''iteration_count'', jint 3),
      (lit ''input_tokens'', jint 5), (lit ''output_tokens'', jint 6),
      (lit ''started_at'', jint 1), (lit ''updated_at'', jint 2)]"])
    (simp add: parse_agent_turn_def record_field_def turn_text_def integer_field_def optional_field_def
      parse_turn_status_def enum_field_def turn_status_names_def js_eval lit_def)

text \<open>
  parsing inverts the wire form: every well-formed turn, sent with its absent fields as
  \<^verbatim>\<open>null\<close>, is read back exactly. So the parser rejects no well-formed turn and keeps every field.
\<close>
theorem parse_agent_turn_roundtrip:
  assumes "turn_ok t"
  shows "parse_agent_turn (turn_wire t) = Inr t"
  using assms unfolding parse_agent_turn_def turn_wire_def turn_ok_def
  by (simp add: optional_field_text optional_field_count optional_field_stop_reason
      parse_turn_status_name) (simp add: text_ok_def count_ok_def max_safe_def)

theorem parse_agent_turn_roundtrip_witness:
  "parse_agent_turn (turn_wire \<lparr>turn_id = lit ''t1'', turn_run_id = lit ''r1'', turn_client_request_id = Some (lit ''q''),
     turn_status = TurnCompleted, turn_max_iterations = 12, turn_iteration_count = 3, turn_provider_id = None,
     turn_model_id = None, turn_stop_reason = Some TSNoTool, turn_input_tokens = 5, turn_output_tokens = 6,
     turn_started_at = 1, turn_updated_at = 2, turn_completed_at = Some 9\<rparr>)
   = Inr \<lparr>turn_id = lit ''t1'', turn_run_id = lit ''r1'', turn_client_request_id = Some (lit ''q''),
     turn_status = TurnCompleted, turn_max_iterations = 12, turn_iteration_count = 3, turn_provider_id = None,
     turn_model_id = None, turn_stop_reason = Some TSNoTool, turn_input_tokens = 5, turn_output_tokens = 6,
     turn_started_at = 1, turn_updated_at = 2, turn_completed_at = Some 9\<rparr>"
  by (rule parse_agent_turn_roundtrip)
    (simp add: turn_ok_def text_ok_def count_ok_def has_control_def lit_def is_control_def unit_bytes_def
      max_safe_def is_high_def is_low_def between_def)

end
