(* ===== verification/Agent_Orchestrator.thy ===== *)
theory Agent_Orchestrator
  imports Agent_Loop Agent_Records
begin

text \<open>
  The desktop agent host (\<^verbatim>\<open>agent-orchestrator.ts\<close>) over the clients of the Harness core
  (\<^verbatim>\<open>agent-memory.ts\<close>, \<^verbatim>\<open>agent-eval.ts\<close>) and the manager the IPC layer calls
  (\<^verbatim>\<open>agent-manager.ts\<close>). \<^verbatim>\<open>harnessRequest\<close>, the model and the tools are parameters acting on an
  abstract environment; the properties of the request protocol are about an environment that
  keeps the list of the requests it gets.
\<close>

section \<open>Dependencies\<close>

type_synonym request = "jstr \<times> js"

record 'w agent_deps =
  dep_request :: "request \<Rightarrow> ('w, js) io"
  dep_provider_id :: jstr
  dep_model_id :: jstr
  dep_decide :: "model_input \<Rightarrow> ('w, model_decision) io"
  dep_execute :: "tool_call \<Rightarrow> ('w, js) io"
  dep_stringify :: "js \<Rightarrow> unit + jstr option"

definition obj :: "(string \<times> js) list \<Rightarrow> js" where
  "obj kvs = JObj (map (\<lambda>kv. (lit (fst kv), snd kv)) kvs)"

section \<open>Clients\<close>

definition memory_request :: "jstr \<Rightarrow> jstr \<Rightarrow> int \<Rightarrow> int \<Rightarrow> int \<Rightarrow> request" where
  "memory_request runId query maxItems maxBytes maxEpisodes =
     (lit ''/api/v1/harness/agent/memory'',
      obj [(''run_id'', JStr runId), (''query'', JStr query), (''max_items'', jint maxItems),
           (''max_bytes'', jint maxBytes), (''max_episodes'', jint maxEpisodes)])"

definition retrieve_memory ::
    "'w agent_deps \<Rightarrow> jstr \<Rightarrow> jstr \<Rightarrow> int option \<Rightarrow> int option \<Rightarrow> int option \<Rightarrow> ('w, memory_bundle) io" where
  "retrieve_memory deps runId query maxItems maxBytes maxEpisodes =
     io_bind (dep_request deps (memory_request runId query (case maxItems of Some n \<Rightarrow> n | None \<Rightarrow> 12)
         (case maxBytes of Some n \<Rightarrow> n | None \<Rightarrow> 48 * 1024) (case maxEpisodes of Some n \<Rightarrow> n | None \<Rightarrow> 20)))
       (\<lambda>raw. io_lift (parse_agent_memory raw))"

definition evaluate_request :: "jstr \<Rightarrow> request" where
  "evaluate_request turnId =
     (lit ''/api/v1/harness/agent/evaluations/run'', obj [(''turn_id'', JStr turnId)])"

definition evaluate_turn :: "'w agent_deps \<Rightarrow> jstr \<Rightarrow> ('w, agent_evaluation) io" where
  "evaluate_turn deps turnId =
     io_bind (dep_request deps (evaluate_request turnId)) (\<lambda>raw. io_lift (parse_agent_evaluation raw))"

definition list_evaluations :: "'w agent_deps \<Rightarrow> jstr \<Rightarrow> int \<Rightarrow> ('w, agent_evaluation list) io" where
  "list_evaluations deps turnId limit =
     io_bind (dep_request deps (lit ''/api/v1/harness/agent/evaluations/list'',
         obj [(''turn_id'', JStr turnId), (''limit'', jint limit)]))
       (\<lambda>answer. io_lift (and_then (record_field answer ''agent evaluation list'') (\<lambda>raw.
          case jget raw ''evaluations'' of
            JArr xs \<Rightarrow> map_res parse_agent_evaluation xs
          | _ \<Rightarrow> throw ''SourceNerve agent evaluation list is invalid'')))"

definition verdict_name :: "verdict \<Rightarrow> string" where
  "verdict_name v = (case v of Pass \<Rightarrow> ''pass'' | Fail \<Rightarrow> ''fail'')"

definition record_judge ::
    "'w agent_deps \<Rightarrow> jstr \<Rightarrow> verdict \<Rightarrow> jstr \<Rightarrow> jstr \<Rightarrow> ('w, agent_evaluation) io" where
  "record_judge deps evaluationId v providerId modelId =
     io_bind (dep_request deps (lit ''/api/v1/harness/agent/evaluations/judge'',
         obj [(''evaluation_id'', JStr evaluationId), (''verdict'', jtext (verdict_name v)),
              (''provider_id'', JStr providerId), (''model_id'', JStr modelId)]))
       (\<lambda>raw. io_lift (parse_agent_evaluation raw))"

definition list_turns :: "'w agent_deps \<Rightarrow> jstr \<Rightarrow> int \<Rightarrow> ('w, agent_turn list) io" where
  "list_turns deps runId limit =
     io_bind (dep_request deps (lit ''/api/v1/harness/agent/turns/list'',
         obj [(''run_id'', JStr runId), (''limit'', jint limit)]))
       (\<lambda>raw. io_lift (parse_agent_turn_list raw))"

section \<open>The manager\<close>

record semantic_preview =
  prev_path :: jstr
  prev_start_line :: int
  prev_end_line :: int
  prev_score :: int

record episode_preview =
  prev_seq :: int
  prev_event_type :: jstr
  prev_facts :: "jstr option list"

record memory_preview =
  preview_semantic :: "semantic_preview list"
  preview_episodic :: "episode_preview list"
  preview_procedural :: procedural_memory

text \<open>
  The preview drops the content of the semantic items and the timestamps of the episodes; the
  optional fields of an episode are kept in the order tool, state, decision, route, result
  category, error category, proof type.
\<close>

definition preview_memory :: "'w agent_deps \<Rightarrow> jstr \<Rightarrow> jstr \<Rightarrow> ('w, memory_preview) io" where
  "preview_memory deps runId query =
     io_bind (retrieve_memory deps runId query (Some 8) (Some (32 * 1024)) (Some 20)) (\<lambda>memory.
       io_return \<lparr>preview_semantic = map (\<lambda>s. \<lparr>prev_path = sem_path s, prev_start_line = sem_start_line s,
                    prev_end_line = sem_end_line s, prev_score = sem_score s\<rparr>) (semantic memory),
                  preview_episodic = map (\<lambda>e. \<lparr>prev_seq = ep_seq e, prev_event_type = ep_event_type e,
                    prev_facts = [ep_tool e, ep_state e, ep_decision e, ep_route e, ep_result_category e,
                      ep_error_category e, ep_proof_type e]\<rparr>) (episodic memory),
                  preview_procedural = procedural memory\<rparr>)"

definition manager_list_turns :: "'w agent_deps \<Rightarrow> jstr \<Rightarrow> int option \<Rightarrow> ('w, agent_turn list) io" where
  "manager_list_turns deps runId limit = list_turns deps runId (case limit of Some n \<Rightarrow> n | None \<Rightarrow> 25)"

definition manager_list_evaluations :: "'w agent_deps \<Rightarrow> jstr \<Rightarrow> int option \<Rightarrow> ('w, agent_evaluation list) io" where
  "manager_list_evaluations deps turnId limit =
     list_evaluations deps turnId (case limit of Some n \<Rightarrow> n | None \<Rightarrow> 20)"

section \<open>The orchestrator\<close>

record agent_run_input =
  in_run_id :: jstr
  in_user_message :: jstr
  in_max :: js
  in_client_request_id :: "jstr option"

record orchestration_result =
  res_turn :: agent_turn
  res_reply :: "jstr option"
  res_evaluation :: agent_evaluation

definition status_name :: "loop_status \<Rightarrow> string" where
  "status_name s = (case s of LoopCompleted \<Rightarrow> ''completed'' | LoopIterationLimit \<Rightarrow> ''iteration-limit'')"

definition stop_name :: "loop_stop_reason \<Rightarrow> string" where
  "stop_name s = (case s of StopModelReply \<Rightarrow> ''model-reply'' | StopNoTool \<Rightarrow> ''no-tool''
     | StopIterationLimit \<Rightarrow> ''iteration-limit'')"

definition decision_name :: "decision_kind \<Rightarrow> string" where
  "decision_name k = (case k of KReply \<Rightarrow> ''reply'' | KTool \<Rightarrow> ''tool'' | KStop \<Rightarrow> ''stop'')"

definition begin_request :: "'w agent_deps \<Rightarrow> agent_run_input \<Rightarrow> js \<Rightarrow> jstr \<Rightarrow> request" where
  "begin_request deps inp maxIterations uuid =
     (lit ''/api/v1/harness/agent/turns/begin'',
      obj [(''run_id'', JStr (in_run_id inp)),
           (''client_request_id'', JStr (case in_client_request_id inp of Some r \<Rightarrow> r
                                         | None \<Rightarrow> lit ''desktop:agent:'' @ uuid)),
           (''max_iterations'', maxIterations), (''provider_id'', JStr (dep_provider_id deps)),
           (''model_id'', JStr (dep_model_id deps))])"

definition iteration_request :: "jstr \<Rightarrow> nat \<Rightarrow> decision_kind \<Rightarrow> jstr option \<Rightarrow> request" where
  "iteration_request turnId iteration decision toolName =
     (lit ''/api/v1/harness/agent/turns/iteration'',
      obj ([(''turn_id'', JStr turnId), (''iteration'', jint (int iteration)),
            (''decision'', jtext (decision_name decision))]
           @ (case toolName of Some n \<Rightarrow> (if n = [] then [] else [(''tool_name'', JStr n)]) | None \<Rightarrow> [])))"

definition complete_request :: "jstr \<Rightarrow> string \<Rightarrow> string \<Rightarrow> nat \<Rightarrow> nat \<Rightarrow> request" where
  "complete_request turnId st stop inputTokens outputTokens =
     (lit ''/api/v1/harness/agent/turns/complete'',
      obj [(''turn_id'', JStr turnId), (''status'', jtext st), (''stop_reason'', jtext stop),
           (''input_tokens'', jint (int inputTokens)), (''output_tokens'', jint (int outputTokens))])"

definition failed_request :: "jstr \<Rightarrow> request" where
  "failed_request turnId = complete_request turnId ''failed'' ''error'' 0 0"

text \<open>The event listener of the loop: decisions become durable iterations, other events are ignored.\<close>

definition on_loop_event :: "'w agent_deps \<Rightarrow> jstr \<Rightarrow> loop_event \<Rightarrow> ('w, unit) io" where
  "on_loop_event deps turnId event =
     (case event of
        LDecision iteration decision toolName \<Rightarrow>
          io_bind (dep_request deps (iteration_request turnId iteration decision toolName)) (\<lambda>raw.
          io_bind (io_lift (parse_agent_iteration raw)) (\<lambda>_. io_return ()))
      | _ \<Rightarrow> io_return ())"

definition loop_env_of :: "'w agent_deps \<Rightarrow> jstr \<Rightarrow> jstr \<Rightarrow> 'w loop_env" where
  "loop_env_of deps runId turnId =
     \<lparr>env_run_id = runId, env_decide = dep_decide deps, env_execute = dep_execute deps,
      env_on_event = on_loop_event deps turnId, env_stringify = dep_stringify deps\<rparr>"

definition drive_turn ::
    "'w agent_deps \<Rightarrow> jstr \<Rightarrow> js \<Rightarrow> jstr \<Rightarrow> agent_session \<Rightarrow> ('w, orchestration_result) io" where
  "drive_turn deps runId maxIterations turnId session =
     io_bind (run_agent_loop (loop_env_of deps runId turnId) maxIterations session) (\<lambda>(loop, _).
     io_bind (dep_request deps (complete_request turnId (status_name (loop_status loop))
         (stop_name (loop_stop_reason loop)) (input_tokens (loop_usage loop)) (output_tokens (loop_usage loop)))) (\<lambda>raw.
     io_bind (io_lift (parse_agent_turn raw)) (\<lambda>turn.
     io_bind (evaluate_turn deps (turn_id turn)) (\<lambda>evaluation.
       io_return \<lparr>res_turn = turn, res_reply = loop_reply loop, res_evaluation = evaluation\<rparr>))))"

definition report_failure :: "'w agent_deps \<Rightarrow> jstr \<Rightarrow> jstr \<Rightarrow> ('w, unit) io" where
  "report_failure deps turnId e =
     io_bind (dep_request deps (failed_request turnId)) (\<lambda>_. io_return ())"

definition run_agent :: "'w agent_deps \<Rightarrow> agent_run_input \<Rightarrow> jstr \<Rightarrow> ('w, orchestration_result) io" where
  "run_agent deps inp uuid =
     (let maxIterations = (if is_nullish (in_max inp) then jint 12 else in_max inp) in
      io_bind (dep_request deps (begin_request deps inp maxIterations uuid)) (\<lambda>raw.
      io_bind (io_lift (parse_agent_turn_begin raw)) (\<lambda>(turn, replayed).
        if turn_status turn \<noteq> TurnRunning then
          io_bind (evaluate_turn deps (turn_id turn)) (\<lambda>evaluation.
            io_return \<lparr>res_turn = turn, res_reply = None, res_evaluation = evaluation\<rparr>)
        else if replayed \<and> turn_iteration_count turn > 0 then
          io_lift (throw ''Agent turn already has durable iterations; reload the turn instead of replaying its non-durable model session'')
        else
          io_bind (retrieve_memory deps (in_run_id inp) (in_user_message inp) None None None) (\<lambda>memory.
          io_bind (io_lift (new_session \<lparr>seed_user_message = in_user_message inp,
              seed_context = memory_context_messages memory, seed_max_bytes = JUndef\<rparr>)) (\<lambda>session.
            io_on_error (drive_turn deps (in_run_id inp) maxIterations (turn_id turn) session)
              (report_failure deps (turn_id turn)))))))"

section \<open>The requests a run makes\<close>

definition logged_deps :: "'w agent_deps \<Rightarrow> ('w \<times> request list) agent_deps" where
  "logged_deps deps =
     \<lparr>dep_request = logged id (dep_request deps), dep_provider_id = dep_provider_id deps,
      dep_model_id = dep_model_id deps, dep_decide = unlogged (dep_decide deps),
      dep_execute = unlogged (dep_execute deps), dep_stringify = dep_stringify deps\<rparr>"

lemma logged_deps_simps [simp]:
  "dep_request (logged_deps deps) = logged id (dep_request deps)"
  "dep_provider_id (logged_deps deps) = dep_provider_id deps"
  "dep_model_id (logged_deps deps) = dep_model_id deps"
  "dep_decide (logged_deps deps) = unlogged (dep_decide deps)"
  "dep_execute (logged_deps deps) = unlogged (dep_execute deps)"
  by (simp_all add: logged_deps_def)

definition is_iteration_request :: "jstr \<Rightarrow> request \<Rightarrow> bool" where
  "is_iteration_request turnId r \<longleftrightarrow> (\<exists>i d t. r = iteration_request turnId i d t)"

lemma is_iteration_requestI [simp]: "is_iteration_request t (iteration_request t i d n)"
  unfolding is_iteration_request_def by blast

lemma on_loop_event_adds: "adds (is_iteration_request t) (on_loop_event (logged_deps deps) t ev)"
proof (cases ev)
  case (LDecision i d n)
  then show ?thesis
    by (auto simp: on_loop_event_def intro!: adds_bind adds_logged)
qed (simp_all add: on_loop_event_def)

lemma loop_iteration_adds:
  "adds (is_iteration_request t) (loop_iteration (loop_env_of (logged_deps deps) run t) m i s u)"
  unfolding loop_iteration_def
  by (intro adds_bind) (auto simp: loop_env_of_def on_loop_event_adds intro!: adds_bind split: model_decision.splits)

lemma loop_from_adds:
  "adds (is_iteration_request t) (loop_from (loop_env_of (logged_deps deps) run t) m left i s u)"
  by (induction left arbitrary: i s u)
    (auto intro!: adds_bind loop_iteration_adds split: sum.splits)

lemma run_agent_loop_adds:
  "adds (is_iteration_request t) (run_agent_loop (loop_env_of (logged_deps deps) run t) m s)"
  by (auto simp: run_agent_loop_def intro!: adds_bind loop_from_adds)

text \<open>What \<open>drive_turn\<close> sends: iterations, then on success one completion and one evaluation.\<close>

definition is_completion :: "jstr \<Rightarrow> request \<Rightarrow> bool" where
  "is_completion t r \<longleftrightarrow> (\<exists>st stop a b. st \<noteq> ''failed'' \<and> r = complete_request t st stop a b)"

definition finish_turn :: "'w agent_deps \<Rightarrow> request \<Rightarrow> jstr option \<Rightarrow> ('w, orchestration_result) io" where
  "finish_turn deps c reply =
     io_bind (dep_request deps c) (\<lambda>raw.
     io_bind (io_lift (parse_agent_turn raw)) (\<lambda>turn.
     io_bind (evaluate_turn deps (turn_id turn)) (\<lambda>evaluation.
       io_return \<lparr>res_turn = turn, res_reply = reply, res_evaluation = evaluation\<rparr>)))"

lemma finish_turn_requests:
  assumes "finish_turn (logged_deps deps) c reply (w, l) = (r, (w', l'))"
  shows "case r of Inr x \<Rightarrow> l' = l @ [c, evaluate_request (turn_id (res_turn x))]
    | Inl _ \<Rightarrow> l' = l @ [c] \<or> (\<exists>u. l' = l @ [c, evaluate_request u])"
  using assms
  by (auto simp: finish_turn_def io_bind_def logged_def evaluate_turn_def
      split: sum.splits prod.splits)

lemma drive_turn_requests:
  assumes "drive_turn (logged_deps deps) run m t s (w, l) = (r, (w', l'))"
  shows "\<exists>its c. list_all (is_iteration_request t) its \<and> is_completion t c
    \<and> (case r of Inr x \<Rightarrow> l' = l @ its @ [c, evaluate_request (turn_id (res_turn x))]
        | Inl _ \<Rightarrow> l' = l @ its \<or> l' = l @ its @ [c] \<or> (\<exists>u. l' = l @ its @ [c, evaluate_request u]))"
proof -
  obtain lr w1 l1 where loop: "run_agent_loop (loop_env_of (logged_deps deps) run t) m s (w, l) = (lr, (w1, l1))"
    by (metis prod.collapse)
  from addsD [OF run_agent_loop_adds loop] obtain its where its: "l1 = l @ its" "list_all (is_iteration_request t) its"
    by blast
  show ?thesis
  proof (cases lr)
    case (Inl e)
    with assms loop have "r = Inl e" "l' = l1"
      by (simp_all add: drive_turn_def io_bind_def)
    moreover have "is_completion t (complete_request t ''completed'' [] 0 0)"
      unfolding is_completion_def by (intro exI conjI) (auto intro: refl)
    ultimately show ?thesis
      using its by (intro exI [of _ its] exI [of _ "complete_request t ''completed'' [] 0 0"]) simp
  next
    case (Inr p)
    obtain lp s' where p: "p = (lp, s')" by fastforce
    define c where "c = complete_request t (status_name (loop_status lp))
         (stop_name (loop_stop_reason lp)) (input_tokens (loop_usage lp)) (output_tokens (loop_usage lp))"
    have c: "is_completion t c"
      unfolding is_completion_def c_def
      by (intro exI conjI) (auto simp: status_name_def split: loop_status.splits)
    have "finish_turn (logged_deps deps) c (loop_reply lp) (w1, l1) = (r, (w', l'))"
      using assms loop Inr p by (simp add: drive_turn_def finish_turn_def io_bind_def c_def)
    from finish_turn_requests [OF this] show ?thesis
      using its c by (intro exI [of _ its] exI [of _ c]) (auto split: sum.splits)
  qed
qed

text \<open>The trace of a driven turn: what follows the begin and the memory requests.\<close>

definition driven_ok :: "jstr \<Rightarrow> request list \<Rightarrow> bool" where
  "driven_ok t l \<longleftrightarrow> (\<exists>its c u. l = its @ [c, evaluate_request u]
     \<and> list_all (is_iteration_request t) its \<and> is_completion t c)"

definition driven_failed :: "jstr \<Rightarrow> request list \<Rightarrow> bool" where
  "driven_failed t l \<longleftrightarrow> (\<exists>its rest. l = its @ rest @ [failed_request t]
     \<and> list_all (is_iteration_request t) its
     \<and> (rest = [] \<or> (\<exists>c. is_completion t c \<and> (rest = [c] \<or> (\<exists>u. rest = [c, evaluate_request u])))))"

lemma driven_requests:
  assumes "io_on_error (drive_turn (logged_deps deps) run m t s) (report_failure (logged_deps deps) t) (w, l)
      = (r, (w', l'))"
  shows "\<exists>new. l' = l @ new \<and> (case r of Inr _ \<Rightarrow> driven_ok t new | Inl _ \<Rightarrow> driven_failed t new)"
proof -
  obtain r1 w1 l1 where d: "drive_turn (logged_deps deps) run m t s (w, l) = (r1, (w1, l1))"
    by (metis prod.collapse)
  from drive_turn_requests [OF d] obtain its c where its: "list_all (is_iteration_request t) its"
    and c: "is_completion t c"
    and shape: "case r1 of Inr x \<Rightarrow> l1 = l @ its @ [c, evaluate_request (turn_id (res_turn x))]
        | Inl _ \<Rightarrow> l1 = l @ its \<or> l1 = l @ its @ [c] \<or> (\<exists>u. l1 = l @ its @ [c, evaluate_request u])"
    by blast
  show ?thesis
  proof (cases r1)
    case (Inr x)
    with assms d have "r = Inr x" "l' = l1" by (simp_all add: io_on_error_def)
    moreover from Inr shape its c
    have "driven_ok t (its @ [c, evaluate_request (turn_id (res_turn x))])"
      unfolding driven_ok_def by blast
    ultimately show ?thesis using Inr shape by auto
  next
    case (Inl e)
    with assms d have r: "r = Inl e" and l': "l' = l1 @ [failed_request t]"
      by (auto simp: io_on_error_def report_failure_def io_bind_def logged_def split: prod.splits sum.splits)
    from Inl shape obtain rest where "l1 = l @ its @ rest"
      "rest = [] \<or> rest = [c] \<or> (\<exists>u. rest = [c, evaluate_request u])" by auto
    moreover from this its c have "driven_failed t (its @ rest @ [failed_request t])"
      unfolding driven_failed_def by blast
    ultimately show ?thesis using r l' by auto
  qed
qed

lemma evaluate_turn_requests:
  "evaluate_turn (logged_deps deps) t (w, l) = (r, (w', l')) \<Longrightarrow> l' = l @ [evaluate_request t]"
  by (auto simp: evaluate_turn_def io_bind_def logged_def split: sum.splits prod.splits)

definition begin_request_of :: "'w agent_deps \<Rightarrow> agent_run_input \<Rightarrow> jstr \<Rightarrow> request" where
  "begin_request_of deps inp uuid =
     begin_request deps inp (if is_nullish (in_max inp) then jint 12 else in_max inp) uuid"

definition memory_request_of :: "agent_run_input \<Rightarrow> request" where
  "memory_request_of inp = memory_request (in_run_id inp) (in_user_message inp) 12 (48 * 1024) 20"

definition trace_ok :: "request \<Rightarrow> request \<Rightarrow> 'a res \<Rightarrow> request list \<Rightarrow> bool" where
  "trace_ok b mem r l \<longleftrightarrow>
     (case r of
        Inr _ \<Rightarrow> (\<exists>u. l = [b, evaluate_request u]) \<or> (\<exists>t new. l = b # mem # new \<and> driven_ok t new)
      | Inl _ \<Rightarrow> l = [b] \<or> (\<exists>u. l = [b, evaluate_request u]) \<or> l = [b, mem]
          \<or> (\<exists>t new. l = b # mem # new \<and> driven_failed t new))"

definition turn_after_memory ::
    "'w agent_deps \<Rightarrow> agent_run_input \<Rightarrow> js \<Rightarrow> jstr \<Rightarrow> ('w, orchestration_result) io" where
  "turn_after_memory deps inp maxIterations t =
     io_bind (retrieve_memory deps (in_run_id inp) (in_user_message inp) None None None) (\<lambda>memory.
     io_bind (io_lift (new_session \<lparr>seed_user_message = in_user_message inp,
         seed_context = memory_context_messages memory, seed_max_bytes = JUndef\<rparr>)) (\<lambda>session.
       io_on_error (drive_turn deps (in_run_id inp) maxIterations t session) (report_failure deps t)))"

lemma turn_after_memory_requests:
  assumes "turn_after_memory (logged_deps deps) inp m t (w, [b]) = (r, (w', l'))"
  shows "trace_ok b (memory_request_of inp) r l'"
proof -
  let ?mem = "memory_request_of inp"
  obtain mr w1 l1 where mem1: "retrieve_memory (logged_deps deps) (in_run_id inp) (in_user_message inp)
      None None None (w, [b]) = (mr, (w1, l1))"
    by (metis prod.collapse)
  then have "l1 = [b, ?mem]"
    by (auto simp: retrieve_memory_def io_bind_def logged_def memory_request_of_def
        split: sum.splits prod.splits)
  with mem1 have mem: "retrieve_memory (logged_deps deps) (in_run_id inp) (in_user_message inp)
      None None None (w, [b]) = (mr, (w1, [b, ?mem]))" by simp
  show ?thesis
  proof (cases "\<exists>mb s. mr = Inr mb \<and> new_session \<lparr>seed_user_message = in_user_message inp,
      seed_context = memory_context_messages mb, seed_max_bytes = JUndef\<rparr> = Inr s")
    case True
    then obtain s where "io_on_error (drive_turn (logged_deps deps) (in_run_id inp) m t s)
        (report_failure (logged_deps deps) t) (w1, [b, ?mem]) = (r, (w', l'))"
      using assms mem by (auto simp: turn_after_memory_def io_bind_def)
    from driven_requests [OF this] obtain new where "l' = b # ?mem # new"
      "case r of Inr _ \<Rightarrow> driven_ok t new | Inl _ \<Rightarrow> driven_failed t new" by auto
    then show ?thesis by (cases r) (auto simp: trace_ok_def)
  next
    case False
    then have "l' = [b, ?mem] \<and> (\<exists>e. r = Inl e)"
      using assms mem by (auto simp: turn_after_memory_def io_bind_def split: sum.splits)
    then show ?thesis by (auto simp: trace_ok_def)
  qed
qed


end
