(* ===== verification/Agent_Graph.thy ===== *)
theory Agent_Graph
  imports Agent_Session "HOL-Library.Multiset"
begin

text \<open>
  The deterministic graph runtime (\<^verbatim>\<open>agent-graph.ts\<close>). A run executes waves: every ready node
  reads the same frozen snapshot of the state, the patches of a wave are merged if they write
  different keys, and the routers of the wave's nodes give the next ready set.

  The nodes and routers are parameters: \<open>node_run t\<close> and the result of \<open>routes\<close> are
  what they return when \<open>t\<close> steps have been made before the wave, so that a node may answer
  differently each time. Of several nodes of a wave that fail, the model reports the first in
  wave order, where \<^verbatim>\<open>Promise.all\<close> reports the first in time; the checks made before a node's
  first \<^verbatim>\<open>await\<close> come first in both. The event listener is not modelled.

  \<^verbatim>\<open>visits\<close> is a plain object, so a node named like a member of \<^verbatim>\<open>Object.prototype\<close> does not
  start from 0: \<^verbatim>\<open>(visits["constructor"] ?? 0) + 1\<close> is a string, which no comparison with
  \<^verbatim>\<open>maxVisits\<close> finds greater. Such a visit is \<open>None\<close>, a counted one \<open>Some n\<close>.
\<close>

section \<open>Data\<close>

type_synonym graph_state = "jstr \<rightharpoonup> js"

record graph_node =
  node_id :: jstr
  node_max_visits :: js
  node_run :: "nat \<Rightarrow> graph_state \<Rightarrow> js res"

type_synonym graph_router = "graph_state \<Rightarrow> jstr list res"

record graph_definition =
  graph_nodes :: "graph_node list"
  graph_start :: "jstr list"
  graph_routes :: "nat \<Rightarrow> jstr \<Rightarrow> graph_router option"
  graph_max_steps :: js

type_synonym visits = "jstr \<rightharpoonup> nat option"

record graph_run =
  run_state :: graph_state
  run_visits :: visits
  run_steps :: nat
  run_ready :: "jstr list"

record wave_result =
  wave_node :: jstr
  wave_visit :: "nat option"
  wave_patch :: "(jstr \<times> js) list"

section \<open>Checks\<close>

definition validate_node_id :: "jstr \<Rightarrow> unit res" where
  "validate_node_id v =
     (if v = [] \<or> length v > 128 \<or> has_control v then throw ''Agent graph node id is invalid'' else Inr ())"

definition validate_state_key :: "jstr \<Rightarrow> unit res" where
  "validate_state_key v =
     (if v = [] \<or> length v > 128 \<or> has_control v then throw ''Agent graph state key is invalid'' else Inr ())"

fun build_node_map :: "(jstr \<rightharpoonup> graph_node) \<Rightarrow> graph_node list \<Rightarrow> (jstr \<rightharpoonup> graph_node) res" where
  "build_node_map m [] = Inr m"
| "build_node_map m (n # ns) =
     and_then (validate_node_id (node_id n)) (\<lambda>_.
       if m (node_id n) \<noteq> None
       then Inl (lit ''Agent graph has duplicate node: '' @ node_id n)
       else build_node_map (m(node_id n \<mapsto> n)) ns)"

fun validate_targets :: "(jstr \<rightharpoonup> graph_node) \<Rightarrow> jstr list \<Rightarrow> unit res" where
  "validate_targets nodes [] = Inr ()"
| "validate_targets nodes (t # ts) =
     and_then (validate_node_id t) (\<lambda>_.
       if nodes t = None
       then Inl (lit ''Agent graph route targets unknown node: '' @ t)
       else validate_targets nodes ts)"

section \<open>One wave\<close>

text \<open>\<^verbatim>\<open>(visits[nodeId] ?? 0) + 1\<close>.\<close>

definition next_visit :: "visits \<Rightarrow> jstr \<Rightarrow> nat option" where
  "next_visit visits nodeId =
     (case visits nodeId of
        Some (Some n) \<Rightarrow> Some (Suc n)
      | Some None \<Rightarrow> None
      | None \<Rightarrow> if nodeId \<in> set object_prototype_members then None else Some 1)"

definition node_max :: "graph_node \<Rightarrow> nat res" where
  "node_max node =
     bounded_positive (if is_nullish (node_max_visits node) then jint 1 else node_max_visits node)
       1 1024 (lit ''Agent graph maxVisits for '' @ node_id node)"

text \<open>The part of a node's execution before its first \<^verbatim>\<open>await\<close>.\<close>

definition admit_node :: "(jstr \<rightharpoonup> graph_node) \<Rightarrow> visits \<Rightarrow> jstr \<Rightarrow> (graph_node \<times> nat option) res" where
  "admit_node nodes visits nodeId =
     (case nodes nodeId of
        None \<Rightarrow> throw ''TypeError''
      | Some node \<Rightarrow>
          let visit = next_visit visits nodeId in
          and_then (node_max node) (\<lambda>maxVisits.
            if (case visit of Some n \<Rightarrow> n > maxVisits | None \<Rightarrow> False)
            then Inl (lit ''Agent graph node '' @ nodeId @ lit '' exceeded maxVisits'')
            else Inr (node, visit)))"

definition patch_entries :: "jstr \<Rightarrow> js \<Rightarrow> (jstr \<times> js) list res" where
  "patch_entries nodeId patch =
     (case patch of
        JObj kvs \<Rightarrow> and_then (map_res validate_state_key (map fst kvs)) (\<lambda>_. Inr kvs)
      | _ \<Rightarrow> Inl (lit ''Agent graph node '' @ nodeId @ lit '' returned an invalid state patch''))"

definition execute_node :: "nat \<Rightarrow> graph_state \<Rightarrow> graph_node \<times> nat option \<Rightarrow> wave_result res" where
  "execute_node steps snapshot nv =
     (case nv of (node, visit) \<Rightarrow>
        and_then (node_run node steps snapshot) (\<lambda>patch.
        and_then (patch_entries (node_id node) patch) (\<lambda>entries.
          Inr \<lparr>wave_node = node_id node, wave_visit = visit, wave_patch = entries\<rparr>)))"

text \<open>\<^verbatim>\<open>written\<close>: the first node of the wave to write each key.\<close>

fun check_writes :: "(jstr \<rightharpoonup> jstr) \<Rightarrow> (jstr \<times> jstr) list \<Rightarrow> unit res" where
  "check_writes written [] = Inr ()"
| "check_writes written ((nodeId, k) # rest) =
     (case written k of
        Some prior \<Rightarrow> Inl (lit ''Agent graph parallel state collision on '' @ k @ lit '': '' @ prior @ lit '' and '' @ nodeId)
      | None \<Rightarrow> check_writes (written(k \<mapsto> nodeId)) rest)"

definition wave_writes :: "wave_result list \<Rightarrow> (jstr \<times> jstr) list" where
  "wave_writes wave = concat (map (\<lambda>r. map (\<lambda>kv. (wave_node r, fst kv)) (wave_patch r)) wave)"

definition apply_patch :: "graph_state \<Rightarrow> (jstr \<times> js) list \<Rightarrow> graph_state" where
  "apply_patch state patch = state ++ map_of (rev patch)"

definition merge_patches :: "graph_state \<Rightarrow> wave_result list \<Rightarrow> graph_state" where
  "merge_patches state wave = foldl (\<lambda>s r. apply_patch s (wave_patch r)) state wave"

definition record_visits :: "visits \<Rightarrow> wave_result list \<Rightarrow> visits" where
  "record_visits visits wave = foldl (\<lambda>v r. v(wave_node r \<mapsto> wave_visit r)) visits wave"

definition route_of ::
    "(jstr \<rightharpoonup> graph_node) \<Rightarrow> (jstr \<Rightarrow> graph_router option) \<Rightarrow> graph_state \<Rightarrow> wave_result \<Rightarrow> jstr list res" where
  "route_of nodes routes state r =
     and_then (case routes (wave_node r) of Some router \<Rightarrow> router state | None \<Rightarrow> Inr []) (\<lambda>targets.
     and_then (validate_targets nodes targets) (\<lambda>_. Inr targets))"

definition graph_wave ::
    "(jstr \<rightharpoonup> graph_node) \<Rightarrow> (nat \<Rightarrow> jstr \<Rightarrow> graph_router option) \<Rightarrow> graph_run \<Rightarrow> graph_run res" where
  "graph_wave nodes routes g =
     and_then (map_res (admit_node nodes (run_visits g)) (run_ready g)) (\<lambda>admitted.
     and_then (map_res (execute_node (run_steps g) (run_state g)) admitted) (\<lambda>wave.
     and_then (check_writes Map.empty (wave_writes wave)) (\<lambda>_.
       let state = merge_patches (run_state g) wave
       in and_then (map_res (route_of nodes (routes (run_steps g)) state) wave) (\<lambda>next.
            Inr \<lparr>run_state = state, run_visits = record_visits (run_visits g) wave,
                 run_steps = run_steps g + length wave, run_ready = unique (concat next)\<rparr>))))"

lemma graph_wave_steps: "graph_wave nodes routes g = Inr g' \<Longrightarrow> run_steps g' = run_steps g + length (run_ready g)"
  by (auto simp: graph_wave_def Let_def dest!: map_res_length)

section \<open>The run\<close>

function graph_loop ::
    "(jstr \<rightharpoonup> graph_node) \<Rightarrow> (nat \<Rightarrow> jstr \<Rightarrow> graph_router option) \<Rightarrow> nat \<Rightarrow> graph_run \<Rightarrow> graph_run res" where
  "graph_loop nodes routes maxSteps g =
     (if run_ready g = [] then Inr g
      else if run_steps g + length (run_ready g) > maxSteps then throw ''Agent graph exceeded maxSteps''
      else (case graph_wave nodes routes g of
              Inl e \<Rightarrow> Inl e
            | Inr g' \<Rightarrow> graph_loop nodes routes maxSteps g'))"
  by pat_completeness auto
termination
  by (relation "measure (\<lambda>(nodes, routes, maxSteps, g). maxSteps - run_steps g)")
    (auto simp: neq_Nil_conv dest!: graph_wave_steps)

declare graph_loop.simps [simp del]

definition run_agent_graph :: "graph_definition \<Rightarrow> graph_state \<Rightarrow> graph_run res" where
  "run_agent_graph d initialState =
     and_then (build_node_map Map.empty (graph_nodes d)) (\<lambda>nodes.
       if graph_nodes d = [] then throw ''Agent graph requires at least one node''
       else let ready = unique (graph_start d) in
         and_then (validate_targets nodes ready) (\<lambda>_.
         and_then (bounded_positive (if is_nullish (graph_max_steps d) then jint 128 else graph_max_steps d)
             1 4096 (lit ''Agent graph maxSteps'')) (\<lambda>maxSteps.
           graph_loop nodes (graph_routes d) maxSteps
             \<lparr>run_state = initialState, run_visits = Map.empty, run_steps = 0, run_ready = ready\<rparr>)))"

section \<open>Invariant of a run\<close>

lemma validate_targets_Inr: "validate_targets nodes ts = Inr () \<longleftrightarrow> (\<forall>t\<in>set ts. validate_node_id t = Inr () \<and> nodes t \<noteq> None)"
  by (induction ts) auto

lemma build_node_map_Inr:
  assumes "build_node_map m ns = Inr m'" "\<forall>i n. m i = Some n \<longrightarrow> node_id n = i"
  shows "(\<forall>i n. m' i = Some n \<longrightarrow> node_id n = i) \<and> dom m' = dom m \<union> node_id ` set ns"
  using assms
proof (induction ns arbitrary: m)
  case (Cons n ns)
  have b: "build_node_map (m(node_id n \<mapsto> n)) ns = Inr m'"
    using Cons.prems(1) by (simp split: if_splits)
  have i: "\<forall>i x. (m(node_id n \<mapsto> n)) i = Some x \<longrightarrow> node_id x = i"
    using Cons.prems(2) by simp
  from Cons.IH [OF b i] have "\<forall>i n. m' i = Some n \<longrightarrow> node_id n = i"
    and "dom m' = dom (m(node_id n \<mapsto> n)) \<union> node_id ` set ns" by blast+
  then show ?case by (simp only: dom_fun_upd) auto
qed simp

text \<open>The number of counted visits, and the bound each counted visit respects.\<close>

definition counted :: "jstr \<Rightarrow> bool" where
  "counted i \<longleftrightarrow> i \<notin> set object_prototype_members"

definition graph_inv :: "(jstr \<rightharpoonup> graph_node) \<Rightarrow> nat \<Rightarrow> graph_run \<Rightarrow> bool" where
  "graph_inv nodes maxSteps g \<longleftrightarrow>
     run_steps g \<le> maxSteps \<and> distinct (run_ready g) \<and> set (run_ready g) \<subseteq> dom nodes
     \<and> (\<forall>i v. run_visits g i = Some v \<longrightarrow> (\<exists>node. nodes i = Some node
          \<and> (case v of None \<Rightarrow> \<not> counted i
             | Some n \<Rightarrow> counted i \<and> 1 \<le> n \<and> (\<exists>m. node_max node = Inr m \<and> n \<le> m))))"

lemma admit_node_Inr:
  "admit_node nodes visits i = Inr (node, visit) \<longleftrightarrow>
     nodes i = Some node \<and> visit = next_visit visits i
     \<and> (\<exists>m. node_max node = Inr m \<and> (\<forall>n. visit = Some n \<longrightarrow> n \<le> m))"
  by (auto simp: admit_node_def Let_def split: option.splits if_splits)

lemma execute_node_Inr:
  "execute_node t s (node, visit) = Inr r \<Longrightarrow> wave_node r = node_id node \<and> wave_visit r = visit"
  by (auto simp: execute_node_def)

lemma wave_nodes:
  assumes "map_res (admit_node nodes v) ready = Inr admitted"
    and "map_res (execute_node t s) admitted = Inr wave"
    and ids: "\<forall>i n. nodes i = Some n \<longrightarrow> node_id n = i"
  shows "map wave_node wave = ready"
    and "\<forall>r\<in>set wave. \<exists>node m. nodes (wave_node r) = Some node \<and> wave_visit r = next_visit v (wave_node r)
          \<and> node_max node = Inr m \<and> (\<forall>n. wave_visit r = Some n \<longrightarrow> n \<le> m)"
proof -
  have l: "length admitted = length ready" "length wave = length admitted"
    using assms(1,2) by (auto dest: map_res_length)
  have step: "wave_node (wave ! k) = ready ! k
      \<and> (\<exists>node m. nodes (wave_node (wave ! k)) = Some node \<and> wave_visit (wave ! k) = next_visit v (wave_node (wave ! k))
          \<and> node_max node = Inr m \<and> (\<forall>n. wave_visit (wave ! k) = Some n \<longrightarrow> n \<le> m))"
    if k: "k < length wave" for k
  proof -
    obtain node visit where nv: "admitted ! k = (node, visit)" by fastforce
    have "admit_node nodes v (ready ! k) = Inr (node, visit)"
      using assms(1) k l nv by (auto simp: map_res_Inr list_all2_conv_all_nth)
    moreover have "execute_node t s (node, visit) = Inr (wave ! k)"
      using assms(2) k l nv by (auto simp: map_res_Inr list_all2_conv_all_nth)
    ultimately show ?thesis
      using ids by (auto simp: admit_node_Inr dest!: execute_node_Inr)
  qed
  then show "map wave_node wave = ready"
    using l by (auto intro!: nth_equalityI)
  show "\<forall>r\<in>set wave. \<exists>node m. nodes (wave_node r) = Some node \<and> wave_visit r = next_visit v (wave_node r)
          \<and> node_max node = Inr m \<and> (\<forall>n. wave_visit r = Some n \<longrightarrow> n \<le> m)"
    using step by (metis in_set_conv_nth)
qed

lemma record_visits_lookup:
  "record_visits v wave i = Some x \<Longrightarrow> v i = Some x \<or> (\<exists>r\<in>set wave. wave_node r = i \<and> wave_visit r = x)"
proof (induction wave arbitrary: v)
  case (Cons r wave)
  from Cons.prems have "record_visits (v(wave_node r \<mapsto> wave_visit r)) wave i = Some x"
    by (simp add: record_visits_def)
  from Cons.IH [OF this] show ?case by (auto split: if_splits)
qed (simp add: record_visits_def)

lemma next_visit_counted:
  assumes "\<forall>x. v i = Some x \<longrightarrow> (case x of None \<Rightarrow> \<not> counted i | Some n \<Rightarrow> counted i \<and> 1 \<le> n)"
  shows "case next_visit v i of None \<Rightarrow> \<not> counted i | Some n \<Rightarrow> counted i \<and> 1 \<le> n"
  using assms by (auto simp: next_visit_def counted_def split: option.splits)

lemma route_of_targets: "route_of nodes routes s r = Inr ts \<Longrightarrow> set ts \<subseteq> dom nodes"
  by (auto simp: route_of_def validate_targets_Inr)

lemma graph_wave_inv:
  assumes "graph_wave nodes routes g = Inr g'" "graph_inv nodes maxSteps g"
    and "run_steps g + length (run_ready g) \<le> maxSteps"
    and ids: "\<forall>i n. nodes i = Some n \<longrightarrow> node_id n = i"
  shows "graph_inv nodes maxSteps g'"
proof -
  from assms(1) obtain admitted wave nxt where
    ad: "map_res (admit_node nodes (run_visits g)) (run_ready g) = Inr admitted"
    and wv: "map_res (execute_node (run_steps g) (run_state g)) admitted = Inr wave"
    and nx: "map_res (route_of nodes (routes (run_steps g)) (merge_patches (run_state g) wave)) wave = Inr nxt"
    and g': "g' = \<lparr>run_state = merge_patches (run_state g) wave, run_visits = record_visits (run_visits g) wave,
                 run_steps = run_steps g + length wave, run_ready = unique (concat nxt)\<rparr>"
    by (auto simp: graph_wave_def Let_def)
  note wn = wave_nodes [OF ad wv ids]
  have "length wave = length (run_ready g)"
    using wn(1) by (metis length_map)
  moreover have "set (concat nxt) \<subseteq> dom nodes"
    using route_of_targets by (fastforce dest: map_res_in [OF nx])
  moreover have "\<exists>node. nodes i = Some node \<and> (case x of None \<Rightarrow> \<not> counted i
             | Some n \<Rightarrow> counted i \<and> 1 \<le> n \<and> (\<exists>m. node_max node = Inr m \<and> n \<le> m))"
    if "record_visits (run_visits g) wave i = Some x" for i x
    using record_visits_lookup [OF that]
  proof
    assume "run_visits g i = Some x"
    with assms(2) show ?thesis unfolding graph_inv_def by blast
  next
    assume "\<exists>r\<in>set wave. wave_node r = i \<and> wave_visit r = x"
    with wn(2) obtain node m where *: "nodes i = Some node" "x = next_visit (run_visits g) i"
      "node_max node = Inr m" "\<forall>n. x = Some n \<longrightarrow> n \<le> m" by blast
    have "case next_visit (run_visits g) i of None \<Rightarrow> \<not> counted i | Some n \<Rightarrow> counted i \<and> 1 \<le> n"
      using assms(2) by (intro next_visit_counted) (fastforce simp: graph_inv_def split: option.splits)
    with * show ?thesis by (auto split: option.splits)
  qed
  ultimately show ?thesis
    using assms(3) g' by (auto simp: graph_inv_def)
qed

lemma graph_loop_inv:
  assumes "graph_loop nodes routes maxSteps g = Inr g'" "graph_inv nodes maxSteps g"
    and "\<forall>i n. nodes i = Some n \<longrightarrow> node_id n = i"
  shows "graph_inv nodes maxSteps g' \<and> run_ready g' = []"
  using assms
proof (induction nodes routes maxSteps g rule: graph_loop.induct)
  case (1 nodes routes maxSteps g)
  show ?case
  proof (cases "run_ready g = []")
    case True
    with "1.prems" show ?thesis by (simp add: graph_loop.simps [of _ _ _ g])
  next
    case False
    with "1.prems"(1) obtain h where le: "\<not> run_steps g + length (run_ready g) > maxSteps"
      and h: "graph_wave nodes routes g = Inr h" and rest: "graph_loop nodes routes maxSteps h = Inr g'"
      by (auto simp: graph_loop.simps [of _ _ _ g] split: if_splits sum.splits)
    with "1.prems" have "graph_inv nodes maxSteps h" by (intro graph_wave_inv [OF h]) auto
    with "1.IH" [OF False le h rest] "1.prems"(3) show ?thesis by blast
  qed
qed

section \<open>Order of the patches of a wave\<close>

definition patch_keys :: "wave_result \<Rightarrow> jstr set" where
  "patch_keys r = fst ` set (wave_patch r)"

lemma check_writes_Inr:
  "check_writes written ps = Inr () \<longleftrightarrow> distinct (map snd ps) \<and> (\<forall>p\<in>set ps. written (snd p) = None)"
proof (induction written ps rule: check_writes.induct)
  case (2 written nodeId k rest)
  show ?case
  proof (cases "written k")
    case None
    note IH = "2.IH" [OF None]
    have "(\<forall>p\<in>set rest. (written(k \<mapsto> nodeId)) (snd p) = None)
        \<longleftrightarrow> k \<notin> snd ` set rest \<and> (\<forall>p\<in>set rest. written (snd p) = None)"
      by auto
    with None IH show ?thesis by (simp only: check_writes.simps option.case) auto
  qed auto
qed simp

lemma wave_writes_keys: "map snd (wave_writes wave) = concat (map (\<lambda>r. map fst (wave_patch r)) wave)"
  by (induction wave) (auto simp: wave_writes_def comp_def)

lemma check_wave_Inr:
  "check_writes Map.empty (wave_writes wave) = Inr () \<longleftrightarrow> distinct (concat (map (\<lambda>r. map fst (wave_patch r)) wave))"
  by (simp add: check_writes_Inr wave_writes_keys)

lemma apply_patch_commute:
  assumes "patch_keys a \<inter> patch_keys b = {}"
  shows "apply_patch (apply_patch s (wave_patch a)) (wave_patch b)
       = apply_patch (apply_patch s (wave_patch b)) (wave_patch a)"
proof -
  have "dom (map_of (rev (wave_patch a))) \<inter> dom (map_of (rev (wave_patch b))) = {}"
    using assms by (simp add: dom_map_of_conv_image_fst patch_keys_def)
  then have "map_of (rev (wave_patch a)) ++ map_of (rev (wave_patch b))
           = map_of (rev (wave_patch b)) ++ map_of (rev (wave_patch a))"
    by (rule map_add_comm)
  then show ?thesis
    unfolding apply_patch_def by (metis map_add_assoc)
qed

lemma distinct_concat_disjoint:
  assumes "distinct (concat (map f xs))" "a \<in> set xs" "b \<in> set xs" "a \<noteq> b"
  shows "set (f a) \<inter> set (f b) = {}"
  using assms by (induction xs) auto

lemma merge_patches_perm:
  assumes d: "distinct (concat (map (\<lambda>r. map fst (wave_patch r)) wave))"
    and "mset wave = mset wave'"
  shows "merge_patches s wave = merge_patches s wave'"
proof -
  have "fold (\<lambda>r s. apply_patch s (wave_patch r)) wave = fold (\<lambda>r s. apply_patch s (wave_patch r)) wave'"
  proof (rule fold_multiset_equiv)
    fix a b assume ab: "a \<in> set wave" "b \<in> set wave"
    have "a \<noteq> b \<Longrightarrow> patch_keys b \<inter> patch_keys a = {}"
      using distinct_concat_disjoint [OF d ab(2) ab(1)] by (auto simp: patch_keys_def)
    then show "(\<lambda>s. apply_patch s (wave_patch a)) \<circ> (\<lambda>s. apply_patch s (wave_patch b))
             = (\<lambda>s. apply_patch s (wave_patch b)) \<circ> (\<lambda>s. apply_patch s (wave_patch a))"
      by (cases "a = b") (auto simp: fun_eq_iff apply_patch_commute)
  qed (fact assms(2))
  then show ?thesis by (simp add: merge_patches_def foldl_conv_fold)
qed

section \<open>Properties\<close>

lemma build_node_map_range:
  "build_node_map m ns = Inr m' \<Longrightarrow> m' i = Some n \<Longrightarrow> m i = Some n \<or> n \<in> set ns"
proof (induction ns arbitrary: m)
  case (Cons x ns)
  have b: "build_node_map (m(node_id x \<mapsto> x)) ns = Inr m'"
    using Cons.prems(1) by (simp split: if_splits)
  from Cons.IH [OF b Cons.prems(2)] show ?case by (auto split: if_splits)
qed simp


text \<open>A graph of one node that routes to itself until three steps have been made.\<close>

definition looping_graph :: "string \<Rightarrow> int \<Rightarrow> graph_definition" where
  "looping_graph name maxVisits =
     \<lparr>graph_nodes = [\<lparr>node_id = lit name, node_max_visits = jint maxVisits, node_run = (\<lambda>_ _. Inr (JObj []))\<rparr>],
      graph_start = [lit name],
      graph_routes = (\<lambda>steps _. Some (\<lambda>_. Inr (if steps < 2 then [lit name] else []))),
      graph_max_steps = JUndef\<rparr>"

lemmas graph_eval = run_agent_graph_def looping_graph_def graph_loop.simps graph_wave_def admit_node_def
  execute_node_def patch_entries_def wave_writes_def merge_patches_def record_visits_def route_of_def
  apply_patch_def next_visit_def node_max_def bounded_positive_def validate_node_id_def
  object_prototype_members_def lit_def


lemma constructor_id_valid: "validate_node_id (lit ''constructor'') = Inr ()"
  by (simp add: validate_node_id_def lit_def js_eval)

lemma constructor_visit_uncounted:
  "visits (lit ''constructor'') \<in> {None, Some None} \<Longrightarrow> next_visit visits (lit ''constructor'') = None"
  by (auto simp: next_visit_def object_prototype_members_def)

text \<open>
  The bound on visits does not hold for a node named like a member of
  \<^verbatim>\<open>Object.prototype\<close>: the same one-node graph with \<^verbatim>\<open>maxVisits\<close> 1 is refused at its second visit
  when the node is called \<^verbatim>\<open>a\<close>, and executes it three times when it is called
  \<^verbatim>\<open>constructor\<close>, because \<^verbatim>\<open>visits["constructor"]\<close> is inherited and never compares as greater.
\<close>

theorem constructor_node_exceeds_max_visits:
  "run_agent_graph (looping_graph ''a'' 1) Map.empty
      = Inl (lit ''Agent graph node a exceeded maxVisits'')
   \<and> (\<exists>g. run_agent_graph (looping_graph ''constructor'' 1) Map.empty = Inr g \<and> run_steps g = 3)"
proof
  show "run_agent_graph (looping_graph ''a'' 1) Map.empty
      = Inl (lit ''Agent graph node a exceeded maxVisits'')"
    by (simp add: graph_eval js_eval)
  show "\<exists>g. run_agent_graph (looping_graph ''constructor'' 1) Map.empty = Inr g \<and> run_steps g = 3"
    by (simp add: run_agent_graph_def looping_graph_def graph_loop.simps graph_wave_def admit_node_def
        execute_node_def patch_entries_def wave_writes_def merge_patches_def record_visits_def
        route_of_def apply_patch_def node_max_def bounded_positive_def constructor_id_valid
        constructor_visit_uncounted js_eval)
qed

text \<open>
  The merge of a wave does not depend on the order in which its nodes finished: when a wave
  is accepted no key is written twice, and every order of the same results is accepted and
  leaves the same state.
\<close>

theorem wave_merge_order:
  assumes "mset wave = mset wave'" "check_writes Map.empty (wave_writes wave) = Inr ()"
  shows "distinct (concat (map (\<lambda>r. map fst (wave_patch r)) wave))
    \<and> check_writes Map.empty (wave_writes wave') = Inr () \<and> merge_patches s wave = merge_patches s wave'"
proof -
  from assms(2) have d: "distinct (concat (map (\<lambda>r. map fst (wave_patch r)) wave))" by (simp add: check_wave_Inr)
  have "mset (concat (map g w)) = sum_mset (image_mset (\<lambda>r. mset (g r)) (mset w))"
    for g :: "wave_result \<Rightarrow> jstr list" and w
    by (induction w) auto
  then have "mset (concat (map (\<lambda>r. map fst (wave_patch r)) wave))
      = mset (concat (map (\<lambda>r. map fst (wave_patch r)) wave'))"
    using assms(1) by (simp only:)
  with d have "distinct (concat (map (\<lambda>r. map fst (wave_patch r)) wave'))"
    by (metis mset_eq_imp_distinct_iff)
  then show ?thesis
    using d merge_patches_perm [OF d assms(1)] by (simp add: check_wave_Inr)
qed

theorem wave_merge_order_witness:
  "let a = \<lparr>wave_node = lit ''a'', wave_visit = Some 1, wave_patch = [(lit ''x'', jint 1)]\<rparr>;
       b = \<lparr>wave_node = lit ''b'', wave_visit = Some 1, wave_patch = [(lit ''y'', jint 2)]\<rparr>
   in merge_patches Map.empty [a, b] = merge_patches Map.empty [b, a]"
  using wave_merge_order
    [of "[\<lparr>wave_node = lit ''a'', wave_visit = Some 1, wave_patch = [(lit ''x'', jint 1)]\<rparr>,
          \<lparr>wave_node = lit ''b'', wave_visit = Some 1, wave_patch = [(lit ''y'', jint 2)]\<rparr>]"
        "[\<lparr>wave_node = lit ''b'', wave_visit = Some 1, wave_patch = [(lit ''y'', jint 2)]\<rparr>,
          \<lparr>wave_node = lit ''a'', wave_visit = Some 1, wave_patch = [(lit ''x'', jint 1)]\<rparr>]" Map.empty]
  by (simp add: check_wave_Inr Let_def)

end
