(* ===== verification/Agent_Worker_Family.thy ===== *)
theory Agent_Worker_Family
  imports Contracts
begin

text \<open>
  The registry of agent worker families and their lease protocol
  (\<^verbatim>\<open>agent-worker-family.ts\<close>). The registry is a map from family ids to families; a method
  returns its result or the error it throws together with the registry it leaves, because
  \<^verbatim>\<open>claim\<close> writes the status before it has checked the lease. The hexadecimal parts of fresh
  ids (\<^verbatim>\<open>randomUUID\<close>) are arguments of \<open>create\<close>.
\<close>

section \<open>Data\<close>

datatype worker_status = Sleeping | Claimed | Running | Reported | Retired

record agent_worker =
  worker_run_id :: jstr
  ordinal :: nat
  worker_workspace :: jstr
  status :: worker_status
  lease_id :: "jstr option"
  last_report :: "jstr option"
  last_child_run_id :: "jstr option"

record worker_family =
  family_id :: jstr
  prime_run_id :: jstr
  incarnation :: nat
  workers :: "agent_worker list"

type_synonym family_registry = "jstr \<rightharpoonup> worker_family"

section \<open>Checks\<close>

definition bound_id :: "jstr \<Rightarrow> string \<Rightarrow> jstr res" where
  "bound_id value label =
     (if length value < 1 \<or> length value > 128 \<or> has_control value
      then throw (label @ '' is invalid'') else Inr value)"

definition bound_worker_count :: "js \<Rightarrow> nat res" where
  "bound_worker_count value =
     (case safe_int value of
        Some i \<Rightarrow> if i < 1 \<or> i > 8 then throw ''Agent worker count must be 1-8'' else Inr (nat i)
      | None \<Rightarrow> throw ''Agent worker count must be 1-8'')"

definition require_family :: "family_registry \<Rightarrow> jstr \<Rightarrow> worker_family res" where
  "require_family fs familyId =
     and_then (bound_id familyId ''family id'') (\<lambda>fid.
       case fs fid of
         None \<Rightarrow> throw ''Agent worker family is not found''
       | Some family \<Rightarrow> Inr family)"

definition require_worker :: "family_registry \<Rightarrow> jstr \<Rightarrow> jstr \<Rightarrow> agent_worker res" where
  "require_worker fs familyId workerRunId =
     and_then (require_family fs familyId) (\<lambda>family.
       case find (\<lambda>w. worker_run_id w = workerRunId) (workers family) of
         None \<Rightarrow> throw ''Agent worker does not belong to this family/incarnation''
       | Some worker \<Rightarrow> Inr worker)"

section \<open>Operations\<close>

text \<open>Writing a field of the worker object that \<^verbatim>\<open>requireWorker\<close> found: the first with the id.\<close>

fun update_first :: "jstr \<Rightarrow> (agent_worker \<Rightarrow> agent_worker) \<Rightarrow> agent_worker list \<Rightarrow> agent_worker list" where
  "update_first i f [] = []"
| "update_first i f (w # ws) = (if worker_run_id w = i then f w # ws else w # update_first i f ws)"

definition update_worker ::
    "family_registry \<Rightarrow> jstr \<Rightarrow> jstr \<Rightarrow> (agent_worker \<Rightarrow> agent_worker) \<Rightarrow> family_registry" where
  "update_worker fs familyId workerRunId f =
     (case fs familyId of
        None \<Rightarrow> fs
      | Some family \<Rightarrow> fs(familyId \<mapsto> family\<lparr>workers := update_first workerRunId f (workers family)\<rparr>))"

definition create_family ::
    "family_registry \<Rightarrow> jstr \<Rightarrow> (nat \<Rightarrow> jstr) \<Rightarrow> jstr \<Rightarrow> jstr \<Rightarrow> js \<Rightarrow> worker_family res \<times> family_registry" where
  "create_family fs familyHex workerHex primeRunId workspace workerCount =
     (let familyId = lit ''family_'' @ familyHex in
      case and_then (bound_id workspace ''workspace'') (\<lambda>ws.
           and_then (bound_worker_count workerCount) (\<lambda>count.
           and_then (bound_id primeRunId ''prime run id'') (\<lambda>prime.
             Inr \<lparr>family_id = familyId, prime_run_id = prime, incarnation = 1,
                  workers = map (\<lambda>index. \<lparr>worker_run_id = lit ''worker_'' @ workerHex index,
                     ordinal = index + 1, worker_workspace = ws, status = Sleeping,
                     lease_id = None, last_report = None, last_child_run_id = None\<rparr>) [0..<count]\<rparr>))) of
        Inl e \<Rightarrow> (Inl e, fs)
      | Inr family \<Rightarrow> (Inr family, fs(familyId \<mapsto> family)))"

definition claim ::
    "family_registry \<Rightarrow> jstr \<Rightarrow> jstr \<Rightarrow> jstr \<Rightarrow> jstr \<Rightarrow> agent_worker res \<times> family_registry" where
  "claim fs familyId workerRunId leaseId childRunId =
     (case require_worker fs familyId workerRunId of
        Inl e \<Rightarrow> (Inl e, fs)
      | Inr worker \<Rightarrow>
          if status worker \<noteq> Sleeping \<and> status worker \<noteq> Reported
          then (throw ''Agent worker is not claimable'', fs)
          else
            let w1 = worker\<lparr>status := Claimed\<rparr>;
                fs1 = update_worker fs familyId workerRunId (\<lambda>_. w1)
            in case bound_id leaseId ''worker lease id'' of
                 Inl e \<Rightarrow> (Inl e, fs1)
               | Inr lease \<Rightarrow>
                   let w2 = w1\<lparr>lease_id := Some lease\<rparr>;
                       fs2 = update_worker fs familyId workerRunId (\<lambda>_. w2)
                   in case bound_id childRunId ''worker child run id'' of
                        Inl e \<Rightarrow> (Inl e, fs2)
                      | Inr child \<Rightarrow>
                          let w3 = w2\<lparr>last_child_run_id := Some child\<rparr>
                          in (Inr w3, update_worker fs familyId workerRunId (\<lambda>_. w3)))"

definition mark_running ::
    "family_registry \<Rightarrow> jstr \<Rightarrow> jstr \<Rightarrow> jstr \<Rightarrow> agent_worker res \<times> family_registry" where
  "mark_running fs familyId workerRunId leaseId =
     (case require_worker fs familyId workerRunId of
        Inl e \<Rightarrow> (Inl e, fs)
      | Inr worker \<Rightarrow>
          if lease_id worker \<noteq> Some leaseId
          then (throw ''Agent worker lease does not match this family/incarnation'', fs)
          else if status worker \<noteq> Claimed then (throw ''Agent worker must be claimed before running'', fs)
          else let w = worker\<lparr>status := Running\<rparr>
               in (Inr w, update_worker fs familyId workerRunId (\<lambda>_. w)))"

definition report ::
    "family_registry \<Rightarrow> jstr \<Rightarrow> jstr \<Rightarrow> jstr \<Rightarrow> jstr \<Rightarrow> agent_worker res \<times> family_registry" where
  "report fs familyId workerRunId leaseId text =
     (case require_worker fs familyId workerRunId of
        Inl e \<Rightarrow> (Inl e, fs)
      | Inr worker \<Rightarrow>
          if lease_id worker \<noteq> Some leaseId
          then (throw ''Agent worker lease does not match this family/incarnation'', fs)
          else if status worker \<noteq> Claimed \<and> status worker \<noteq> Running
          then (throw ''Agent worker is not running under this lease'', fs)
          else let w = worker\<lparr>status := Reported, last_report := Some (bound_text text (32 * 1024))\<rparr>
               in (Inr w, update_worker fs familyId workerRunId (\<lambda>_. w)))"

definition retire :: "family_registry \<Rightarrow> jstr \<Rightarrow> jstr \<Rightarrow> agent_worker res \<times> family_registry" where
  "retire fs familyId workerRunId =
     (case require_worker fs familyId workerRunId of
        Inl e \<Rightarrow> (Inl e, fs)
      | Inr worker \<Rightarrow>
          let w = worker\<lparr>status := Retired\<rparr>
          in (Inr w, update_worker fs familyId workerRunId (\<lambda>_. w)))"

definition get_family :: "family_registry \<Rightarrow> jstr \<Rightarrow> worker_family res" where
  "get_family fs familyId = require_family fs familyId"

section \<open>Lookup after update\<close>

lemma bound_id_Inr: "bound_id v l = Inr x \<longleftrightarrow> x = v \<and> v \<noteq> [] \<and> length v \<le> 128 \<and> \<not> has_control v"
  by (cases v) (auto simp: bound_id_def)

lemma bound_worker_count_Inr: "bound_worker_count v = Inr n \<longleftrightarrow> safe_int v = Some (int n) \<and> 1 \<le> n \<and> n \<le> 8"
  by (auto simp: bound_worker_count_def split: option.splits if_splits)

lemma require_family_Inr: "require_family fs f = Inr fam \<longleftrightarrow> bound_id f ''family id'' = Inr f \<and> fs f = Some fam"
  by (auto simp: require_family_def bound_id_Inr split: option.splits)

lemma require_worker_Inr:
  "require_worker fs f i = Inr w \<longleftrightarrow> (\<exists>fam. bound_id f ''family id'' = Inr f \<and> fs f = Some fam
     \<and> find (\<lambda>w. worker_run_id w = i) (workers fam) = Some w)"
  by (auto simp: require_worker_def require_family_Inr split: option.splits)

lemma require_worker_id: "require_worker fs f i = Inr w \<Longrightarrow> worker_run_id w = i"
  by (auto simp: require_worker_Inr find_Some_iff)

lemma find_update_first_same:
  "find (\<lambda>w. worker_run_id w = i) ws = Some w \<Longrightarrow> worker_run_id w' = i \<Longrightarrow>
     find (\<lambda>w. worker_run_id w = i) (update_first i (\<lambda>_. w') ws) = Some w'"
  by (induction ws) (auto split: if_splits)

lemma find_update_first_other:
  "i \<noteq> j \<Longrightarrow> worker_run_id w' = i \<Longrightarrow>
     find (\<lambda>w. worker_run_id w = j) (update_first i (\<lambda>_. w') ws) = find (\<lambda>w. worker_run_id w = j) ws"
  by (induction ws) auto

lemma require_update_same:
  assumes "require_worker fs f i = Inr w" "worker_run_id w' = i"
  shows "require_worker (update_worker fs f i (\<lambda>_. w')) f i = Inr w'"
  using assms find_update_first_same [of i _ w w']
  by (auto simp: require_worker_Inr update_worker_def)

lemma require_update_other:
  assumes "(g, j) \<noteq> (f, i)" "worker_run_id w' = i"
  shows "require_worker (update_worker fs f i (\<lambda>_. w')) g j = require_worker fs g j"
  using assms find_update_first_other [of i j w']
  by (cases "bound_id g ''family id''")
    (auto simp: require_worker_def require_family_def update_worker_def bound_id_def split: option.splits if_splits)

section \<open>The lease protocol as a state machine\<close>

datatype family_event =
    Claim jstr jstr jstr jstr
  | MarkRunning jstr jstr jstr
  | Report jstr jstr jstr jstr
  | Retire jstr jstr

fun family_step :: "family_registry \<Rightarrow> family_event \<Rightarrow> family_registry" where
  "family_step fs (Claim f w l c) = snd (claim fs f w l c)"
| "family_step fs (MarkRunning f w l) = snd (mark_running fs f w l)"
| "family_step fs (Report f w l t) = snd (report fs f w l t)"
| "family_step fs (Retire f w) = snd (retire fs f w)"

text \<open>The moves of one worker, with the lease before and after.\<close>

inductive worker_move :: "agent_worker \<Rightarrow> agent_worker \<Rightarrow> bool" where
  move_claim: "status w \<in> {Sleeping, Reported} \<Longrightarrow> status w' = Claimed \<Longrightarrow> worker_move w w'"
| move_run: "status w = Claimed \<Longrightarrow> lease_id w \<noteq> None \<Longrightarrow> w' = w\<lparr>status := Running\<rparr> \<Longrightarrow> worker_move w w'"
| move_report: "status w \<in> {Claimed, Running} \<Longrightarrow> lease_id w \<noteq> None \<Longrightarrow> status w' = Reported \<Longrightarrow>
     lease_id w' = lease_id w \<Longrightarrow> worker_move w w'"
| move_retire: "w' = w\<lparr>status := Retired\<rparr> \<Longrightarrow> worker_move w w'"

inductive_cases retired_moveE: "worker_move w w'"

lemma retired_is_final: "worker_move w w' \<Longrightarrow> status w = Retired \<Longrightarrow> w' = w"
  by (auto elim!: retired_moveE)

text \<open>A step leaves every other worker alone and moves the one it names along the protocol.\<close>

lemma family_step_move:
  assumes w: "require_worker fs f i = Inr w"
  shows "\<exists>w'. require_worker (family_step fs e) f i = Inr w' \<and> (w' = w \<or> worker_move w w')"
proof -
  have upd: "\<exists>w'. require_worker (update_worker fs g j (\<lambda>_. v')) f i = Inr w' \<and> (w' = w \<or> worker_move w w')"
    if "require_worker fs g j = Inr v" "worker_run_id v' = worker_run_id v" "worker_move v v'" for g j v v'
  proof (cases "(f, i) = (g, j)")
    case True
    with that w require_update_same [OF that(1), of v'] require_worker_id [OF that(1)] show ?thesis by auto
  next
    case False
    then show ?thesis
      using w that(2) require_worker_id [OF that(1)] require_update_other [of f i g j v' fs] by simp
  qed
  show ?thesis
  proof (cases e)
    case (Claim g j l c)
    then show ?thesis
      by (auto simp: claim_def Let_def w intro!: upd move_claim split: sum.splits)
  next
    case (MarkRunning g j l)
    then show ?thesis
      by (auto simp: mark_running_def Let_def w intro!: upd move_run split: sum.splits)
  next
    case (Report g j l t)
    then show ?thesis
      by (auto simp: report_def Let_def w intro!: upd move_report split: sum.splits)
  next
    case (Retire g j)
    then show ?thesis
      by (auto simp: retire_def Let_def w intro!: upd move_retire split: sum.splits)
  qed
qed

lemma family_steps_keep_worker:
  "require_worker fs f i = Inr w \<Longrightarrow> \<exists>w'. require_worker (foldl family_step fs es) f i = Inr w'"
proof (induction es arbitrary: fs w)
  case (Cons e es)
  then show ?case using family_step_move by fastforce
qed auto

section \<open>Well-formed registries\<close>

definition family_ok :: "jstr \<Rightarrow> worker_family \<Rightarrow> bool" where
  "family_ok fid fam \<longleftrightarrow> family_id fam = fid \<and> incarnation fam = 1
     \<and> 1 \<le> length (workers fam) \<and> length (workers fam) \<le> 8
     \<and> map ordinal (workers fam) = [1..<Suc (length (workers fam))]
     \<and> (\<forall>w\<in>set (workers fam). \<forall>t. last_report w = Some t \<longrightarrow> utf8_len t \<le> 32 * 1024)"

definition registry_ok :: "family_registry \<Rightarrow> bool" where
  "registry_ok fs \<longleftrightarrow> (\<forall>fid fam. fs fid = Some fam \<longrightarrow> family_ok fid fam)"

lemma update_first_preserves:
  assumes "find (\<lambda>w. worker_run_id w = i) ws = Some w" "ordinal w' = ordinal w"
  shows "length (update_first i (\<lambda>_. w') ws) = length ws"
    and "map ordinal (update_first i (\<lambda>_. w') ws) = map ordinal ws"
    and "set (update_first i (\<lambda>_. w') ws) \<subseteq> insert w' (set ws)"
  using assms by (induction ws) (auto split: if_splits)

lemma update_worker_ok:
  assumes "registry_ok fs" "require_worker fs f i = Inr w" "ordinal w' = ordinal w"
    and "\<forall>t. last_report w' = Some t \<longrightarrow> last_report w = Some t \<or> utf8_len t \<le> 32 * 1024"
  shows "registry_ok (update_worker fs f i (\<lambda>_. w'))"
proof -
  from assms(2) obtain fam where fam: "fs f = Some fam"
    and fnd: "find (\<lambda>w. worker_run_id w = i) (workers fam) = Some w"
    by (auto simp: require_worker_Inr)
  note pres = update_first_preserves [OF fnd assms(3)]
  have ok: "family_ok f fam" using assms(1) fam by (simp add: registry_ok_def)
  have "w \<in> set (workers fam)" using fnd by (auto simp: find_Some_iff)
  with ok assms(4) pres have "family_ok f (fam\<lparr>workers := update_first i (\<lambda>_. w') (workers fam)\<rparr>)"
    by (auto simp: family_ok_def dest!: subsetD)
  with assms(1) fam show ?thesis
    by (auto simp: registry_ok_def update_worker_def)
qed

lemma family_step_ok: "registry_ok fs \<Longrightarrow> registry_ok (family_step fs e)"
  by (cases e) (auto simp: claim_def mark_running_def report_def retire_def Let_def bound_text_le
      intro!: update_worker_ok split: sum.splits)

lemma create_family_ok: "registry_ok fs \<Longrightarrow> registry_ok (snd (create_family fs fh wh p ws n))"
  by (auto simp: create_family_def Let_def registry_ok_def family_ok_def bound_worker_count_Inr
      comp_def map_Suc_upt simp del: upt_Suc split: sum.splits)

text \<open>All calls of the registry, the creation of families with their fresh ids included.\<close>

datatype registry_event =
    CreateFamily jstr "jstr list" jstr jstr js
  | OnFamily family_event

fun registry_step :: "family_registry \<Rightarrow> registry_event \<Rightarrow> family_registry" where
  "registry_step fs (CreateFamily familyHex workerHex prime workspace count) =
     snd (create_family fs familyHex (\<lambda>i. if i < length workerHex then workerHex ! i else []) prime workspace count)"
| "registry_step fs (OnFamily e) = family_step fs e"

lemma registry_step_ok: "registry_ok fs \<Longrightarrow> registry_ok (registry_step fs e)"
  by (cases e) (auto intro: family_step_ok create_family_ok)

interpretation families: machine "\<lambda>fs. fs = Map.empty" registry_step registry_ok
  by unfold_locales (auto simp: registry_ok_def [of Map.empty] intro: registry_step_ok)

section \<open>Properties\<close>

text \<open>
  C26: After any sequence of calls, every family of the registry is stored under its own id, has
  one to eight workers numbered from 1 in order, and no worker keeps a report over 32 KiB.
\<close>

theorem families_well_formed:
  "registry_ok (foldl registry_step Map.empty es)"
  by (rule families.inv_reachable) (rule refl)

text \<open>A call that neither uses the lease of the worker nor retires it.\<close>

fun foreign_call :: "jstr \<Rightarrow> jstr \<Rightarrow> jstr \<Rightarrow> family_event \<Rightarrow> bool" where
  "foreign_call f i l (Claim _ _ _ _) = True"
| "foreign_call f i l (MarkRunning g j k) \<longleftrightarrow> (g, j, k) \<noteq> (f, i, l)"
| "foreign_call f i l (Report g j k _) \<longleftrightarrow> (g, j, k) \<noteq> (f, i, l)"
| "foreign_call f i l (Retire g j) \<longleftrightarrow> (g, j) \<noteq> (f, i)"

lemma foreign_call_keeps:
  assumes w: "require_worker fs f i = Inr w" and st: "status w \<in> {Claimed, Running}"
    and l: "lease_id w = Some l" and e: "foreign_call f i l e"
  shows "require_worker (family_step fs e) f i = Inr w"
proof -
  have upd: "require_worker (update_worker fs g j (\<lambda>_. v')) f i = Inr w"
    if "(f, i) \<noteq> (g, j)" "require_worker fs g j = Inr v" "worker_run_id v' = worker_run_id v" for g j v v'
    using w that require_worker_id [OF that(2)] require_update_other [of f i g j v' fs] by simp
  show ?thesis
  proof (cases e)
    case (Claim g j k c)
    then show ?thesis
      using w st by (cases "(f, i) = (g, j)")
        (auto simp: claim_def Let_def intro!: upd split: sum.splits)
  next
    case (MarkRunning g j k)
    then show ?thesis
      using w l e by (cases "(f, i) = (g, j)")
        (auto simp: mark_running_def Let_def intro!: upd split: sum.splits)
  next
    case (Report g j k t)
    then show ?thesis
      using w l e by (cases "(f, i) = (g, j)")
        (auto simp: report_def Let_def intro!: upd split: sum.splits)
  next
    case (Retire g j)
    then show ?thesis
      using w e by (auto simp: retire_def Let_def intro!: upd split: sum.splits)
  qed
qed

lemma foreign_calls_keep:
  "require_worker fs f i = Inr w \<Longrightarrow> status w \<in> {Claimed, Running} \<Longrightarrow> lease_id w = Some l \<Longrightarrow>
     list_all (foreign_call f i l) es \<Longrightarrow> require_worker (foldl family_step fs es) f i = Inr w"
  by (induction es arbitrary: fs) (auto intro: foreign_call_keeps)

lemma claim_Inr:
  assumes "claim fs f i l c = (Inr w, fs')"
  shows "require_worker fs' f i = Inr w \<and> status w = Claimed \<and> lease_id w = Some l \<and> last_child_run_id w = Some c"
proof -
  from assms obtain v where v: "require_worker fs f i = Inr v" "worker_run_id w = worker_run_id v"
    and w: "w = v\<lparr>status := Claimed, lease_id := Some l, last_child_run_id := Some c\<rparr>"
    and fs': "fs' = update_worker fs f i (\<lambda>_. w)"
    by (auto simp: claim_def Let_def bound_id_Inr split: sum.splits if_splits)
  with require_update_same [OF v(1), of w] require_worker_id [OF v(1)] show ?thesis by simp
qed

text \<open>
  C25: A lease is exclusive. After a claim that returns, no sequence of calls by others (claims
  of any worker with any lease, running marks and reports under another lease, and anything on
  other workers) changes the claimed worker: until its own lease is used or it is retired, it
  is still claimed under that lease for that child run.
\<close>

theorem lease_exclusive:
  assumes "claim fs f i l c = (Inr w, fs')" "list_all (foreign_call f i l) es"
  shows "require_worker (foldl family_step fs' es) f i = Inr w
    \<and> status w = Claimed \<and> lease_id w = Some l \<and> last_child_run_id w = Some c"
  using claim_Inr [OF assms(1)] assms(2) by (auto intro: foreign_calls_keep)

definition demo_registry :: family_registry where
  "demo_registry = registry_step Map.empty
     (CreateFamily (lit ''1'') [lit ''a'', lit ''b''] (lit ''prime'') (lit ''ws'') (jint 2))"

lemmas family_eval = demo_registry_def create_family_def Let_def bound_id_def bound_worker_count_def
  require_worker_def require_family_def claim_def update_worker_def lit_def upt_rec

theorem lease_exclusive_witness:
  "\<exists>w fs'. claim demo_registry (lit ''family_1'') (lit ''worker_a'') (lit ''L'') (lit ''c'') = (Inr w, fs')
     \<and> require_worker (foldl family_step fs'
          [Claim (lit ''family_1'') (lit ''worker_a'') (lit ''M'') (lit ''d''),
           Report (lit ''family_1'') (lit ''worker_a'') (lit ''M'') (lit ''stolen'')])
         (lit ''family_1'') (lit ''worker_a'') = Inr w"
proof -
  obtain w fs' where c: "claim demo_registry (lit ''family_1'') (lit ''worker_a'') (lit ''L'') (lit ''c'') = (Inr w, fs')"
    by (simp add: family_eval js_eval)
  have "list_all (foreign_call (lit ''family_1'') (lit ''worker_a'') (lit ''L''))
      [Claim (lit ''family_1'') (lit ''worker_a'') (lit ''M'') (lit ''d''),
       Report (lit ''family_1'') (lit ''worker_a'') (lit ''M'') (lit ''stolen'')]"
    by simp
  from lease_exclusive [OF c this] c show ?thesis by blast
qed

text \<open>
  Retirement is final: once a worker is retired, no sequence of claims, running marks,
  reports and retirements changes anything of it.
\<close>

theorem retired_forever:
  assumes "require_worker fs f i = Inr w" "status w = Retired"
  shows "require_worker (foldl family_step fs es) f i = Inr w"
  using assms
proof (induction es arbitrary: fs)
  case (Cons e es)
  from family_step_move [OF Cons.prems(1), of e] retired_is_final Cons.prems(2)
  have "require_worker (family_step fs e) f i = Inr w" by blast
  with Cons show ?case by simp
qed simp

theorem retired_forever_witness:
  "\<exists>w fs'. retire demo_registry (lit ''family_1'') (lit ''worker_b'') = (Inr w, fs')
     \<and> require_worker (foldl family_step fs' [Claim (lit ''family_1'') (lit ''worker_b'') (lit ''M'') (lit ''d'')])
         (lit ''family_1'') (lit ''worker_b'') = Inr w"
proof -
  obtain w fs' where c: "retire demo_registry (lit ''family_1'') (lit ''worker_b'') = (Inr w, fs')"
    and w: "require_worker fs' (lit ''family_1'') (lit ''worker_b'') = Inr w" "status w = Retired"
    by (simp add: retire_def family_eval js_eval)
  from retired_forever [OF w] c show ?thesis by blast
qed

text \<open>
  A claim with an invalid lease id throws, but the worker is left claimed without a lease;
  from then on no claim, running mark or report of it succeeds and only retirement changes it.
\<close>

theorem failed_claim_wedges_worker:
  assumes "require_worker fs f i = Inr w" "status w = Sleeping" "lease_id w = None"
    and "bound_id l ''worker lease id'' = Inl e"
    and "list_all (\<lambda>ev. \<forall>g j. ev \<noteq> Retire g j) es"
  shows "fst (claim fs f i l c) = Inl e
    \<and> require_worker (foldl family_step (snd (claim fs f i l c)) es) f i = Inr (w\<lparr>status := Claimed\<rparr>)"
proof -
  let ?w = "w\<lparr>status := Claimed\<rparr>"
  have c: "claim fs f i l c = (Inl e, update_worker fs f i (\<lambda>_. ?w))"
    using assms by (simp add: claim_def Let_def)
  have "require_worker (update_worker fs f i (\<lambda>_. ?w)) f i = Inr ?w"
    using require_update_same [OF assms(1), of ?w] require_worker_id [OF assms(1)] by simp
  moreover have "require_worker (foldl family_step gs es) f i = Inr ?w" if "require_worker gs f i = Inr ?w" for gs
    using that assms(5)
  proof (induction es arbitrary: gs)
    case (Cons ev es)
    have upd: "require_worker (update_worker gs g j (\<lambda>_. v')) f i = Inr ?w"
      if "(f, i) \<noteq> (g, j)" "require_worker gs g j = Inr v" "worker_run_id v' = worker_run_id v" for g j v v'
      using Cons.prems(1) that require_worker_id [OF that(2)] require_update_other [of f i g j v' gs] by simp
    have "require_worker (family_step gs ev) f i = Inr ?w"
      using Cons.prems assms(3)
      by (cases ev; cases "\<exists>k. ev = Claim f i k c")
        (auto simp: claim_def mark_running_def report_def Let_def intro!: upd split: sum.splits if_splits)
    with Cons show ?case by simp
  qed simp
  ultimately show ?thesis using c by simp
qed

theorem failed_claim_wedges_worker_witness:
  "\<exists>w. require_worker (foldl family_step
         (snd (claim demo_registry (lit ''family_1'') (lit ''worker_a'') [] (lit ''c'')))
         [Claim (lit ''family_1'') (lit ''worker_a'') (lit ''L'') (lit ''c'')])
       (lit ''family_1'') (lit ''worker_a'') = Inr w \<and> status w = Claimed \<and> lease_id w = None"
proof -
  obtain w where w: "require_worker demo_registry (lit ''family_1'') (lit ''worker_a'') = Inr w"
    "status w = Sleeping" "lease_id w = None"
    by (simp add: family_eval js_eval)
  obtain e where e: "bound_id [] ''worker lease id'' = Inl e"
    by (simp add: bound_id_def throw_def)
  from failed_claim_wedges_worker [OF w e, of "[Claim (lit ''family_1'') (lit ''worker_a'') (lit ''L'') (lit ''c'')]"]
    w show ?thesis by auto
qed

end
