(* ===== verification/Task_Policy.thy ===== *)
theory Task_Policy
  imports Contracts
begin

text \<open>
  The validation of task invocations (\<^verbatim>\<open>task-policy.ts\<close>) and the registry of known tasks
  (\<^verbatim>\<open>task-registry.ts\<close>). \<^verbatim>\<open>Date.parse\<close>, \<^verbatim>\<open>localeCompare\<close> and \<^verbatim>\<open>JSON.parse\<close> are parameters: the
  first two are implementation defined, the last is the boundary to the bytes of the file.
\<close>

section \<open>Ids\<close>

definition dash :: "nat \<Rightarrow> bool" where
  "dash c \<longleftrightarrow> c = 45"

text \<open>\<^verbatim>\<open>[89ab]\<close> under the flag \<^verbatim>\<open>i\<close>.\<close>

definition uuid_variant :: "nat \<Rightarrow> bool" where
  "uuid_variant c \<longleftrightarrow> c = 56 \<or> c = 57 \<or> c = 97 \<or> c = 98 \<or> c = 65 \<or> c = 66"

definition uuid_classes :: "(nat \<Rightarrow> bool) list" where
  "uuid_classes = replicate 8 is_hex @ [dash] @ replicate 4 is_hex @ [dash, \<lambda>c. c = 52]
     @ replicate 3 is_hex @ [dash, uuid_variant] @ replicate 3 is_hex @ [dash] @ replicate 12 is_hex"

definition is_uuid :: "js \<Rightarrow> bool" where
  "is_uuid v = str_sat (matches_seq uuid_classes) v"

definition id_text :: "jstr \<Rightarrow> bool" where
  "id_text s \<longleftrightarrow> length_within 1 128 s \<and> list_all is_id_char s"

definition is_workspace_id :: "js \<Rightarrow> bool" where
  "is_workspace_id v = str_sat id_text v"

section \<open>Paths, branches and texts\<close>

definition MAX_CONTEXT_QUERY_BYTES :: nat where "MAX_CONTEXT_QUERY_BYTES = 4096"
definition MAX_PATCH_BYTES :: nat where "MAX_PATCH_BYTES = 1000000"
definition MAX_COMMIT_MESSAGE_BYTES :: nat where "MAX_COMMIT_MESSAGE_BYTES = 16 * 1024"
definition MAX_EXPECTATIONS :: nat where "MAX_EXPECTATIONS = 128"
definition MAX_REPOSITORY_PATH :: nat where "MAX_REPOSITORY_PATH = 1024"
definition MAX_BRANCH :: nat where "MAX_BRANCH = 240"

text \<open>\<^verbatim>\<open>value.replaceAll("\\", "/")\<close>.\<close>

definition forward_slashes :: "jstr \<Rightarrow> jstr" where
  "forward_slashes s = map (\<lambda>c. if c = 92 then 47 else c) s"

text \<open>\<^verbatim>\<open>/^[A-Za-z]:\//\<close>.\<close>

definition drive_prefix :: "jstr \<Rightarrow> bool" where
  "drive_prefix s \<longleftrightarrow> (case s of a # b # c # _ \<Rightarrow> (is_lower a \<or> is_upper a) \<and> b = 58 \<and> c = 47 | _ \<Rightarrow> False)"

definition plain_segment :: "jstr \<Rightarrow> bool" where
  "plain_segment p \<longleftrightarrow> p \<noteq> [] \<and> p \<noteq> lit ''.'' \<and> p \<noteq> lit ''..''"

definition relative_path :: "jstr \<Rightarrow> bool" where
  "relative_path s \<longleftrightarrow> length_within 1 MAX_REPOSITORY_PATH s
     \<and> \<not> starts_with (lit ''/'') s \<and> \<not> starts_with [92] s \<and> \<not> has_control s
     \<and> \<not> drive_prefix (forward_slashes s)
     \<and> list_all plain_segment (split_on 47 (forward_slashes s))"

definition is_relative_repository_path :: "js \<Rightarrow> bool" where
  "is_relative_repository_path v = str_sat relative_path v"

text \<open>\<^verbatim>\<open>[\u0000-\u0020~^:?*\[]\<close>.\<close>

definition branch_forbidden :: "nat \<Rightarrow> bool" where
  "branch_forbidden c \<longleftrightarrow> c \<le> 32 \<or> c = 126 \<or> c = 94 \<or> c = 58 \<or> c = 63 \<or> c = 42 \<or> c = 91"

definition safe_branch :: "jstr \<Rightarrow> bool" where
  "safe_branch s \<longleftrightarrow> length_within 1 MAX_BRANCH s
     \<and> \<not> starts_with (lit ''-'') s \<and> \<not> starts_with (lit ''/'') s
     \<and> \<not> ends_with (lit ''/'') s \<and> \<not> ends_with (lit ''.'') s
     \<and> \<not> str_includes (lit ''..'') s \<and> \<not> str_includes ([64, 123]) s \<and> \<not> str_includes [92] s
     \<and> \<not> list_ex branch_forbidden s
     \<and> list_all (\<lambda>p. plain_segment p \<and> \<not> ends_with (lit ''.lock'') p) (split_on 47 s)"

definition is_safe_branch :: "js \<Rightarrow> bool" where
  "is_safe_branch v = str_sat safe_branch v"

definition is_sha256 :: "js \<Rightarrow> bool" where
  "is_sha256 v = str_sat (\<lambda>s. length s = 64 \<and> list_all is_hex s) v"

definition bounded_utf8 :: "js \<Rightarrow> nat \<Rightarrow> nat \<Rightarrow> bool" where
  "bounded_utf8 v lo hi = str_sat (\<lambda>s. trim s \<noteq> [] \<and> \<not> has_nul s \<and> lo \<le> utf8_len s \<and> utf8_len s \<le> hi) v"

section \<open>Inputs\<close>

definition is_begin_input :: "js \<Rightarrow> bool" where
  "is_begin_input v \<longleftrightarrow> record_of [''workspace'', ''contextQuery''] v
     \<and> is_workspace_id (jget v ''workspace'')
     \<and> opt_sat (\<lambda>q. bounded_utf8 q 1 MAX_CONTEXT_QUERY_BYTES) (jget v ''contextQuery'')"

definition is_file_read_input :: "js \<Rightarrow> bool" where
  "is_file_read_input v \<longleftrightarrow> record_of [''taskId'', ''path''] v
     \<and> is_uuid (jget v ''taskId'') \<and> is_relative_repository_path (jget v ''path'')"

definition is_branch_input :: "js \<Rightarrow> bool" where
  "is_branch_input v \<longleftrightarrow> record_of [''taskId'', ''branch''] v
     \<and> is_uuid (jget v ''taskId'') \<and> is_safe_branch (jget v ''branch'')"

definition is_expectation :: "js \<Rightarrow> bool" where
  "is_expectation v \<longleftrightarrow> record_of [''path'', ''sha256''] v
     \<and> is_relative_repository_path (jget v ''path'') \<and> opt_sat is_sha256 (jget v ''sha256'')"

text \<open>The loop over \<^verbatim>\<open>expectedFiles\<close> with the set of the paths seen so far.\<close>

fun expectations_ok :: "js list \<Rightarrow> js list \<Rightarrow> bool" where
  "expectations_ok paths [] = True"
| "expectations_ok paths (item # rest) \<longleftrightarrow> is_expectation item \<and> jget item ''path'' \<notin> set paths
     \<and> expectations_ok (jget item ''path'' # paths) rest"

definition is_propose_input :: "js \<Rightarrow> bool" where
  "is_propose_input v \<longleftrightarrow> record_of [''taskId'', ''expectedFiles'', ''patch''] v
     \<and> is_uuid (jget v ''taskId'')
     \<and> str_sat (\<lambda>s. 1 \<le> utf8_len s \<and> utf8_len s \<le> MAX_PATCH_BYTES \<and> \<not> has_nul s) (jget v ''patch'')
     \<and> arr_sat (\<lambda>xs. 1 \<le> length xs \<and> length xs \<le> MAX_EXPECTATIONS \<and> expectations_ok [] xs)
         (jget v ''expectedFiles'')"

definition is_apply_input :: "js \<Rightarrow> bool" where
  "is_apply_input v \<longleftrightarrow> record_of [''taskId'', ''proposalId''] v
     \<and> is_uuid (jget v ''taskId'') \<and> is_uuid (jget v ''proposalId'')"

definition is_commit_input :: "js \<Rightarrow> bool" where
  "is_commit_input v \<longleftrightarrow> record_of [''taskId'', ''message''] v
     \<and> is_uuid (jget v ''taskId'') \<and> bounded_utf8 (jget v ''message'') 1 MAX_COMMIT_MESSAGE_BYTES"

section \<open>The validator\<close>

definition TASK_INBOUND_IPC_CHANNELS :: "string list" where
  "TASK_INBOUND_IPC_CHANNELS =
     [''desktop:tasks-list'', ''desktop:tasks-begin'', ''desktop:tasks-remember'', ''desktop:tasks-get'',
      ''desktop:tasks-cancel'', ''desktop:tasks-branch'', ''desktop:tasks-propose'', ''desktop:tasks-apply'',
      ''desktop:tasks-review'', ''desktop:tasks-commit'', ''desktop:tasks-push'', ''desktop:tasks-file-read'']"

definition validate_task_ipc_invocation :: "jstr \<Rightarrow> js list \<Rightarrow> string option" where
  "validate_task_ipc_invocation channel args =
     (if channel = lit ''desktop:tasks-list'' then accept_if (args = []) ''task operation does not accept arguments''
      else if channel = lit ''desktop:tasks-begin'' then accept_if (one_arg is_begin_input args) ''task begin input is invalid''
      else if channel = lit ''desktop:tasks-file-read'' then accept_if (one_arg is_file_read_input args) ''task file read input is invalid''
      else if channel \<in> set (map lit [''desktop:tasks-remember'', ''desktop:tasks-get'', ''desktop:tasks-cancel'',
                                       ''desktop:tasks-review'', ''desktop:tasks-push''])
        then accept_if (one_arg is_uuid args) ''task ID must be a SourceNerve task UUID''
      else if channel = lit ''desktop:tasks-branch'' then accept_if (one_arg is_branch_input args) ''task branch input is invalid''
      else if channel = lit ''desktop:tasks-propose'' then accept_if (one_arg is_propose_input args) ''task proposal input is invalid''
      else if channel = lit ''desktop:tasks-apply'' then accept_if (one_arg is_apply_input args) ''task apply input is invalid''
      else if channel = lit ''desktop:tasks-commit'' then accept_if (one_arg is_commit_input args) ''task commit input is invalid''
      else Some ''task IPC channel is not allowlisted'')"

interpretation task_ipc: ipc_policy "map lit TASK_INBOUND_IPC_CHANNELS" validate_task_ipc_invocation
  by unfold_locales (simp add: validate_task_ipc_invocation_def TASK_INBOUND_IPC_CHANNELS_def)

section \<open>Accepted paths\<close>

text \<open>
  How a path relative to a directory is resolved, one segment at a time: an empty segment and
  \<^verbatim>\<open>.\<close> stay, \<^verbatim>\<open>..\<close> goes up, any other name goes down.
\<close>

definition walk_step :: "jstr list \<Rightarrow> jstr \<Rightarrow> jstr list" where
  "walk_step dir seg = (if seg = [] \<or> seg = lit ''.'' then dir
     else if seg = lit ''..'' then butlast dir else dir @ [seg])"

definition resolve_in :: "jstr list \<Rightarrow> jstr \<Rightarrow> jstr list" where
  "resolve_in base path = foldl walk_step base (split_on 47 (forward_slashes path))"

lemma walk_plain: "list_all plain_segment segs \<Longrightarrow> foldl walk_step base segs = base @ segs"
  by (induction segs arbitrary: base) (auto simp: walk_step_def plain_segment_def)



section \<open>Accepted proposals\<close>

lemma expectations_ok_iff:
  "expectations_ok paths xs \<longleftrightarrow> list_all is_expectation xs \<and> distinct (map (\<lambda>x. jget x ''path'') xs)
     \<and> (\<forall>x\<in>set xs. jget x ''path'' \<notin> set paths)"
proof (induction paths xs rule: expectations_ok.induct)
  case (2 paths item rest)
  show ?case by (simp only: expectations_ok.simps "2.IH") (auto simp: image_iff)
qed simp

text \<open>
  What reaches the handler of a patch proposal. The invocation is accepted exactly when it
  has one argument, a record with only the three known keys, whose task id is a version 4 UUID,
  whose patch has 1 to 1,000,000 bytes and no NUL, and whose 1 to 128 file expectations are
  each valid and name pairwise different paths.
\<close>

theorem propose_accepted_iff:
  "validate_task_ipc_invocation (lit ''desktop:tasks-propose'') args = None \<longleftrightarrow>
     (\<exists>kvs files patch. args = [JObj kvs] \<and> exact_keys (JObj kvs) [''taskId'', ''expectedFiles'', ''patch'']
       \<and> is_uuid (jget (JObj kvs) ''taskId'') \<and> jget (JObj kvs) ''patch'' = JStr patch
       \<and> 1 \<le> utf8_len patch \<and> utf8_len patch \<le> 1000000 \<and> \<not> has_nul patch
       \<and> jget (JObj kvs) ''expectedFiles'' = JArr files \<and> 1 \<le> length files \<and> length files \<le> 128
       \<and> list_all is_expectation files \<and> distinct (map (\<lambda>f. jget f ''path'') files))"
  by (auto simp: validate_task_ipc_invocation_def one_arg_iff is_propose_input_def record_of_def
      is_record_iff str_sat_iff arr_sat_iff expectations_ok_iff MAX_PATCH_BYTES_def
      MAX_EXPECTATIONS_def)

section \<open>The registry of tasks\<close>

record task_reference =
  ref_task_id :: jstr
  ref_workspace :: jstr
  ref_created_at :: jstr

definition MAX_REFERENCES :: nat where "MAX_REFERENCES = 200"

text \<open>\<^verbatim>\<open>validateReference\<close>; \<open>date_ok s\<close> is \<^verbatim>\<open>Number.isFinite(Date.parse(s))\<close>.\<close>

definition validate_reference :: "(jstr \<Rightarrow> bool) \<Rightarrow> js \<Rightarrow> task_reference res" where
  "validate_reference date_ok v =
     (if \<not> is_record v then throw ''Desktop task reference is invalid''
      else if \<not> exact_keys v [''taskId'', ''workspace'', ''createdAt'']
        then throw ''Desktop task reference contains unknown fields''
      else if \<not> is_uuid (jget v ''taskId'') then throw ''Desktop task ID is invalid''
      else if \<not> is_workspace_id (jget v ''workspace'') then throw ''Desktop task workspace is invalid''
      else (case (jget v ''taskId'', jget v ''workspace'', jget v ''createdAt'') of
          (JStr i, JStr w, JStr c) \<Rightarrow>
            if date_ok c then Inr \<lparr>ref_task_id = i, ref_workspace = w, ref_created_at = c\<rparr>
            else throw ''Desktop task timestamp is invalid''
        | _ \<Rightarrow> throw ''Desktop task timestamp is invalid''))"

definition parse_registry :: "(jstr \<Rightarrow> bool) \<Rightarrow> js \<Rightarrow> task_reference list res" where
  "parse_registry date_ok v =
     (case jget v ''tasks'' of
        JArr items \<Rightarrow>
          if \<not> is_record v \<or> jget v ''schemaVersion'' \<noteq> jint 1 \<or> length items > MAX_REFERENCES
          then throw ''unsupported Desktop task registry schema''
          else map_res (validate_reference date_ok) items
      | _ \<Rightarrow> throw ''unsupported Desktop task registry schema'')"

definition registry_initialize ::
    "(jstr \<Rightarrow> js option) \<Rightarrow> (jstr \<Rightarrow> bool) \<Rightarrow> task_reference list \<Rightarrow> file_read \<Rightarrow> task_reference list" where
  "registry_initialize json_parse date_ok tasks file =
     (case file of
        FileMissing \<Rightarrow> tasks
      | FileError \<Rightarrow> []
      | FileText raw \<Rightarrow>
          if utf8_len raw > 256 * 1024 then []
          else (case json_parse raw of
              None \<Rightarrow> []
            | Some v \<Rightarrow> (case parse_registry date_ok v of Inl _ \<Rightarrow> [] | Inr ts \<Rightarrow> ts)))"

text \<open>
  \<open>compare a b\<close> is \<^verbatim>\<open>a.localeCompare(b)\<close>; the list is sorted by
  \<^verbatim>\<open>right.createdAt.localeCompare(left.createdAt)\<close>. A write that fails throws before the
  registry changes.
\<close>

definition newer :: "(jstr \<Rightarrow> jstr \<Rightarrow> int) \<Rightarrow> task_reference \<Rightarrow> task_reference \<Rightarrow> bool" where
  "newer compare l r \<longleftrightarrow> compare (ref_created_at r) (ref_created_at l) \<le> 0"

definition remember ::
    "(jstr \<Rightarrow> bool) \<Rightarrow> (jstr \<Rightarrow> jstr \<Rightarrow> int) \<Rightarrow> bool \<Rightarrow> task_reference list \<Rightarrow> js
      \<Rightarrow> task_reference list res \<times> task_reference list" where
  "remember date_ok compare write_ok tasks reference =
     (case validate_reference date_ok reference of
        Inl e \<Rightarrow> (Inl e, tasks)
      | Inr r \<Rightarrow>
          let nxt = take MAX_REFERENCES (sort_by (newer compare)
                      (filter (\<lambda>item. ref_task_id item \<noteq> ref_task_id r) tasks @ [r]))
          in if write_ok then (Inr nxt, nxt) else (throw ''write failed'', tasks))"

definition reference_ok :: "(jstr \<Rightarrow> bool) \<Rightarrow> task_reference \<Rightarrow> bool" where
  "reference_ok date_ok r \<longleftrightarrow> matches_seq uuid_classes (ref_task_id r) \<and> id_text (ref_workspace r)
     \<and> date_ok (ref_created_at r)"

definition task_registry_ok :: "(jstr \<Rightarrow> bool) \<Rightarrow> task_reference list \<Rightarrow> bool" where
  "task_registry_ok date_ok ts \<longleftrightarrow> length ts \<le> MAX_REFERENCES \<and> list_all (reference_ok date_ok) ts"

lemma validate_reference_ok: "validate_reference date_ok v = Inr r \<Longrightarrow> reference_ok date_ok r"
  by (auto simp: validate_reference_def reference_ok_def is_uuid_def is_workspace_id_def str_sat_def
      split: if_splits js.splits)

datatype task_registry_event = Initialize file_read | Remember bool js

fun task_registry_step ::
    "(jstr \<Rightarrow> js option) \<Rightarrow> (jstr \<Rightarrow> bool) \<Rightarrow> (jstr \<Rightarrow> jstr \<Rightarrow> int) \<Rightarrow> task_reference list
      \<Rightarrow> task_registry_event \<Rightarrow> task_reference list" where
  "task_registry_step json_parse date_ok compare ts (Initialize f) = registry_initialize json_parse date_ok ts f"
| "task_registry_step json_parse date_ok compare ts (Remember w v) = snd (remember date_ok compare w ts v)"

lemma registry_initialize_ok:
  "task_registry_ok date_ok ts \<Longrightarrow> task_registry_ok date_ok (registry_initialize p date_ok ts f)"
proof -
  have "task_registry_ok date_ok ys" if "parse_registry date_ok v = Inr ys" for v ys
  proof -
    from that obtain items where m: "map_res (validate_reference date_ok) items = Inr ys"
      and l: "length items \<le> MAX_REFERENCES"
      by (auto simp: parse_registry_def split: js.splits if_splits)
    with map_res_length [OF m] map_res_in [OF m] show ?thesis
      by (auto simp: task_registry_ok_def list_all_iff intro: validate_reference_ok)
  qed
  moreover have "task_registry_ok date_ok []" by (simp add: task_registry_ok_def)
  moreover assume "task_registry_ok date_ok ts"
  ultimately show ?thesis
    by (auto simp: registry_initialize_def split: file_read.splits option.splits sum.splits)
qed

lemma remember_ok:
  assumes "task_registry_ok date_ok ts" shows "task_registry_ok date_ok (snd (remember date_ok compare w ts v))"
proof (cases "validate_reference date_ok v")
  case (Inl e)
  with assms show ?thesis by (simp add: remember_def)
next
  case (Inr r)
  with assms validate_reference_ok [OF Inr] show ?thesis
    by (auto simp: remember_def Let_def task_registry_ok_def list_all_iff dest!: in_set_takeD)
qed

interpretation task_registry: machine "\<lambda>ts. ts = []" "task_registry_step json_parse date_ok compare" "task_registry_ok date_ok"
  for json_parse :: "jstr \<Rightarrow> js option" and date_ok :: "jstr \<Rightarrow> bool" and compare :: "jstr \<Rightarrow> jstr \<Rightarrow> int"
proof unfold_locales
  fix ts e
  show "task_registry_ok date_ok ts \<Longrightarrow> task_registry_ok date_ok (task_registry_step json_parse date_ok compare ts e)"
    by (cases e) (auto intro: registry_initialize_ok remember_ok)
qed (auto simp: task_registry_ok_def)

text \<open>
  Whatever the registry file contains and whatever is remembered, the task registry holds at
  most 200 references, each with a version 4 UUID, a well-formed workspace id and a parseable
  timestamp.
\<close>

theorem task_registry_bounded:
  "length (foldl (task_registry_step json_parse date_ok compare) [] es) \<le> 200
   \<and> list_all (reference_ok date_ok) (foldl (task_registry_step json_parse date_ok compare) [] es)"
  using task_registry.inv_reachable [of "[]" date_ok json_parse compare es]
  by (auto simp: task_registry_ok_def MAX_REFERENCES_def)

text \<open>
  Remembering a task keeps the newest references. With a comparison of timestamps that is
  total and transitive, the new registry is sorted from newest to oldest, has the remembered
  task at most once, keeps distinct task ids distinct, and every candidate it drops is no newer
  than every reference it keeps. In particular the remembered task itself is dropped when 200
  newer ones are known.
\<close>

theorem remember_keeps_newest:
  assumes v: "validate_reference date_ok v = Inr r"
    and total: "\<forall>a b. compare a b \<le> 0 \<or> compare b a \<le> 0"
    and trans: "\<forall>a b c. compare a b \<le> 0 \<longrightarrow> compare b c \<le> 0 \<longrightarrow> compare a c \<le> 0"
    and d: "distinct (map ref_task_id tasks)"
  shows "\<exists>nxt. remember date_ok compare True tasks v = (Inr nxt, nxt)
    \<and> sorted_wrt (newer compare) nxt \<and> distinct (map ref_task_id nxt) \<and> length nxt \<le> 200
    \<and> set nxt \<subseteq> insert r {t \<in> set tasks. ref_task_id t \<noteq> ref_task_id r}
    \<and> (\<forall>x \<in> insert r {t \<in> set tasks. ref_task_id t \<noteq> ref_task_id r} - set nxt.
         length nxt = 200 \<and> (\<forall>k\<in>set nxt. newer compare k x))"
proof -
  let ?c = "filter (\<lambda>item. ref_task_id item \<noteq> ref_task_id r) tasks @ [r]"
  let ?s = "sort_by (newer compare) ?c"
  have sorted: "sorted_wrt (newer compare) ?s"
    by (rule sorted_sort_by) (use total trans in \<open>unfold newer_def, blast+\<close>)
  have "distinct (map ref_task_id ?c)"
    using d by (auto simp: distinct_map_filter)
  then have ds: "distinct (map ref_task_id (take 200 ?s))"
    by (metis distinct_map_sort_by distinct_take take_map)
  have split: "sorted_wrt (newer compare) (take 200 ?s @ drop 200 ?s)" using sorted by simp
  have "length (take 200 ?s) = 200 \<and> newer compare k x"
    if "x \<in> set ?c" "x \<notin> set (take 200 ?s)" "k \<in> set (take 200 ?s)" for x k
  proof -
    from that(1) have "x \<in> set (take 200 ?s @ drop 200 ?s)" by simp
    with that(2) have x: "x \<in> set (drop 200 ?s)" by (simp only: set_append) blast
    then have "200 \<le> length ?s" by (metis drop_all empty_iff le_cases list.set(1))
    with x that(3) split show ?thesis by (simp only: sorted_wrt_append length_take) auto
  qed
  moreover have "length (take 200 ?s) = 200" if "x \<in> set ?c" "x \<notin> set (take 200 ?s)" for x
  proof -
    from that have "take 200 ?s \<noteq> ?s" by (metis set_sort_by)
    then show ?thesis by (metis length_take min_def take_all)
  qed
  moreover have "set ?c = insert r {t \<in> set tasks. ref_task_id t \<noteq> ref_task_id r}" by auto
  moreover have "set (take 200 ?s) \<subseteq> set ?c" by (metis set_sort_by set_take_subset)
  moreover have "remember date_ok compare True tasks v = (Inr (take 200 ?s), take 200 ?s)"
    using v by (simp add: remember_def MAX_REFERENCES_def Let_def)
  moreover have "sorted_wrt (newer compare) (take 200 ?s)" using sorted by (rule sorted_wrt_take)
  ultimately show ?thesis using ds by (intro exI [of _ "take 200 ?s"]) auto
qed

definition demo_uuid :: jstr where
  "demo_uuid = lit ''01234567-89ab-4def-8123-456789abcdef''"

lemma uuid_classes_list:
  "uuid_classes =
     [is_hex, is_hex, is_hex, is_hex, is_hex, is_hex, is_hex, is_hex, dash, is_hex, is_hex, is_hex, is_hex,
      dash, \<lambda>c. c = 52, is_hex, is_hex, is_hex, dash, uuid_variant, is_hex, is_hex, is_hex, dash, is_hex, is_hex,
      is_hex, is_hex, is_hex, is_hex, is_hex, is_hex, is_hex, is_hex, is_hex, is_hex]"
  unfolding uuid_classes_def by (simp add: numeral_eq_Suc)

lemma demo_uuid_ok: "is_uuid (JStr demo_uuid)"
  by (simp add: is_uuid_def demo_uuid_def uuid_classes_list dash_def uuid_variant_def lit_def js_eval)

theorem remember_keeps_newest_witness:
  "\<exists>nxt. remember (\<lambda>_. True) (\<lambda>a b. int (length a) - int (length b)) True []
      (JObj [(lit ''taskId'', JStr demo_uuid), (lit ''workspace'', JStr (lit ''ws'')), (lit ''createdAt'', JStr (lit ''t''))])
      = (Inr nxt, nxt) \<and> length nxt \<le> 200"
proof -
  let ?v = "JObj [(lit ''taskId'', JStr demo_uuid), (lit ''workspace'', JStr (lit ''ws'')), (lit ''createdAt'', JStr (lit ''t''))]"
  have g: "jget ?v ''taskId'' = JStr demo_uuid" "jget ?v ''workspace'' = JStr (lit ''ws'')"
    "jget ?v ''createdAt'' = JStr (lit ''t'')" by (simp_all add: jget_def)
  have "is_workspace_id (JStr (lit ''ws''))"
    by (simp add: is_workspace_id_def id_text_def lit_def js_eval)
  then have v: "validate_reference (\<lambda>_. True) ?v
      = Inr \<lparr>ref_task_id = demo_uuid, ref_workspace = lit ''ws'', ref_created_at = lit ''t''\<rparr>"
    by (simp add: validate_reference_def g demo_uuid_ok exact_keys_def obj_keys_def)
  let ?cmp = "\<lambda>a b :: jstr. int (length a) - int (length b)"
  have tot: "\<forall>a b. ?cmp a b \<le> 0 \<or> ?cmp b a \<le> 0" by auto
  have tr: "\<forall>a b c. ?cmp a b \<le> 0 \<longrightarrow> ?cmp b c \<le> 0 \<longrightarrow> ?cmp a c \<le> 0" by simp
  show ?thesis
    using remember_keeps_newest [OF v tot tr, of "[]"] by auto
qed

end
