(* ===== verification/Harness_Policy.thy ===== *)
theory Harness_Policy
  imports Task_Policy
begin

text \<open>
  The validation of Harness invocations (\<^verbatim>\<open>harness-policy.ts\<close>): runs, jobs, commands, Codex
  turns and agent workers. The bounded texts defined first are shared by the other policies,
  which declare the same functions under the same names.
\<close>

section \<open>Bounded texts\<close>

definition bounded_id :: "js \<Rightarrow> bool" where
  "bounded_id v = str_sat (\<lambda>s. length_within 1 128 s \<and> \<not> has_control s) v"

definition bounded_query :: "js \<Rightarrow> bool" where
  "bounded_query v = str_sat (\<lambda>s. trim s \<noteq> [] \<and> length s \<le> 16 * 1024 \<and> \<not> has_control s) v"

definition bounded_model :: "js \<Rightarrow> bool" where
  "bounded_model v = str_sat (\<lambda>s. trim s \<noteq> [] \<and> length s \<le> 128 \<and> \<not> has_control s) v"

definition bounded_prompt :: "js \<Rightarrow> bool" where
  "bounded_prompt v = str_sat (\<lambda>s. trim s \<noteq> [] \<and> utf8_len s \<le> 128 * 1024 \<and> \<not> has_nul s) v"

definition bounded_command :: "js \<Rightarrow> bool" where
  "bounded_command v = str_sat (\<lambda>s. trim s \<noteq> [] \<and> utf8_len s \<le> 32 * 1024 \<and> \<not> has_nul s) v"

text \<open>
  \<^verbatim>\<open>value.split(/[\\/]+/)\<close> merges runs of slashes; the empty parts that \<open>split_on\<close> leaves
  there are not \<^verbatim>\<open>..\<close>, so the check is the same.
\<close>

definition workdir_text :: "jstr \<Rightarrow> bool" where
  "workdir_text s \<longleftrightarrow> length_within 1 512 s \<and> \<not> has_control s \<and> \<not> starts_with (lit ''/'') s
     \<and> \<not> drive_prefix (forward_slashes s)
     \<and> \<not> list_ex (\<lambda>p. p = lit ''..'') (split_on 47 (forward_slashes s))"

definition bounded_workdir :: "js \<Rightarrow> bool" where
  "bounded_workdir v = str_sat workdir_text v"

definition is_limit :: "js \<Rightarrow> int \<Rightarrow> bool" where
  "is_limit v hi = int_sat 1 hi v"

definition bounded_optional_conversation_token :: "js \<Rightarrow> bool" where
  "bounded_optional_conversation_token v = str_sat (\<lambda>s. length_within 1 256 s \<and> \<not> has_control s) v"

definition HARNESS_PROFILES :: "string list" where
  "HARNESS_PROFILES = [''read-only-analysis'', ''interactive-local'', ''guarded-durable'',
     ''background-job'', ''webhook-automation'']"

definition HARNESS_SANDBOXES :: "string list" where
  "HARNESS_SANDBOXES = [''read-only'', ''workspace-write'', ''workspace-gui'', ''danger-full-access'']"

definition is_harness_profile :: "js \<Rightarrow> bool" where
  "is_harness_profile v = is_lit HARNESS_PROFILES v"

definition is_harness_sandbox :: "js \<Rightarrow> bool" where
  "is_harness_sandbox v = is_lit HARNESS_SANDBOXES v"

section \<open>Inputs\<close>

definition is_context_route :: "js \<Rightarrow> bool" where
  "is_context_route v \<longleftrightarrow> record_of [''workspace'', ''runId'', ''query'', ''startCycle''] v
     \<and> bounded_id (jget v ''workspace'') \<and> opt_sat bounded_id (jget v ''runId'')
     \<and> bounded_query (jget v ''query'') \<and> opt_sat is_boolean (jget v ''startCycle'')"

definition is_run_begin :: "js \<Rightarrow> bool" where
  "is_run_begin v \<longleftrightarrow> record_of [''workspace'', ''profile'', ''sandbox''] v
     \<and> bounded_id (jget v ''workspace'') \<and> is_harness_profile (jget v ''profile'')
     \<and> opt_sat is_harness_sandbox (jget v ''sandbox'')"

definition is_run_list :: "js \<Rightarrow> bool" where
  "is_run_list v \<longleftrightarrow> record_of [''limit''] v \<and> opt_sat (\<lambda>l. is_limit l 100) (jget v ''limit'')"

definition is_run_id :: "js \<Rightarrow> bool" where
  "is_run_id v \<longleftrightarrow> record_of [''runId''] v \<and> bounded_id (jget v ''runId'')"

definition is_events :: "js \<Rightarrow> bool" where
  "is_events v \<longleftrightarrow> record_of [''runId'', ''afterSeq'', ''limit''] v \<and> bounded_id (jget v ''runId'')
     \<and> opt_sat (int_sat (-1) max_safe) (jget v ''afterSeq'')
     \<and> opt_sat (\<lambda>l. is_limit l 200) (jget v ''limit'')"

definition is_job_list :: "js \<Rightarrow> bool" where
  "is_job_list v \<longleftrightarrow> record_of [''runId'', ''limit''] v \<and> bounded_id (jget v ''runId'')
     \<and> opt_sat (\<lambda>l. is_limit l 100) (jget v ''limit'')"

definition is_job_cancel :: "js \<Rightarrow> bool" where
  "is_job_cancel v \<longleftrightarrow> record_of [''runId'', ''jobId''] v
     \<and> bounded_id (jget v ''runId'') \<and> bounded_id (jget v ''jobId'')"

definition is_command :: "js \<Rightarrow> bool" where
  "is_command v \<longleftrightarrow> record_of [''workspace'', ''command'', ''requestId'', ''timeoutMs'', ''workdir''] v
     \<and> bounded_id (jget v ''workspace'') \<and> bounded_command (jget v ''command'')
     \<and> bounded_id (jget v ''requestId'') \<and> opt_sat bounded_workdir (jget v ''workdir'')
     \<and> opt_sat (int_sat 100 600000) (jget v ''timeoutMs'')"

definition is_codex_account :: "js \<Rightarrow> bool" where
  "is_codex_account v \<longleftrightarrow> record_of [''workspace''] v \<and> bounded_id (jget v ''workspace'')"

definition is_codex_usage :: "js \<Rightarrow> bool" where
  "is_codex_usage v \<longleftrightarrow> record_of [''workspace'', ''runId''] v
     \<and> bounded_id (jget v ''workspace'') \<and> opt_sat bounded_id (jget v ''runId'')"

definition is_codex_conversation :: "js \<Rightarrow> bool" where
  "is_codex_conversation v \<longleftrightarrow> record_of [''runId'', ''conversationId'', ''includeNative''] v
     \<and> bounded_id (jget v ''runId'') \<and> opt_sat bounded_id (jget v ''conversationId'')
     \<and> opt_sat is_boolean (jget v ''includeNative'')"

definition is_codex_workspace_conversation :: "js \<Rightarrow> bool" where
  "is_codex_workspace_conversation v \<longleftrightarrow> record_of [''workspace''] v \<and> bounded_id (jget v ''workspace'')"

definition is_codex_conversation_resume :: "js \<Rightarrow> bool" where
  "is_codex_conversation_resume v \<longleftrightarrow>
     record_of [''workspace'', ''threadId'', ''conversationId'', ''profile'', ''sandbox''] v
     \<and> (let hasThreadId = bounded_optional_conversation_token (jget v ''threadId'');
             hasConversationId = bounded_optional_conversation_token (jget v ''conversationId'')
         in bounded_id (jget v ''workspace'') \<and> (hasThreadId \<or> hasConversationId)
           \<and> (jget v ''threadId'' = JUndef \<or> hasThreadId)
           \<and> (jget v ''conversationId'' = JUndef \<or> hasConversationId)
           \<and> opt_sat is_harness_profile (jget v ''profile'')
           \<and> opt_sat is_harness_sandbox (jget v ''sandbox''))"

definition is_codex_turn_prepare :: "js \<Rightarrow> bool" where
  "is_codex_turn_prepare v \<longleftrightarrow> record_of [''runId'', ''prompt''] v
     \<and> bounded_id (jget v ''runId'') \<and> bounded_prompt (jget v ''prompt'')"

definition is_codex_turn :: "js \<Rightarrow> bool" where
  "is_codex_turn v \<longleftrightarrow> record_of [''runId'', ''prompt'', ''preparationId'', ''model''] v
     \<and> bounded_id (jget v ''runId'') \<and> bounded_prompt (jget v ''prompt'')
     \<and> opt_sat bounded_id (jget v ''preparationId'') \<and> opt_sat bounded_model (jget v ''model'')"

definition is_codex_review_loop :: "js \<Rightarrow> bool" where
  "is_codex_review_loop v \<longleftrightarrow>
     record_of [''runId'', ''prompt'', ''maxIterations'', ''mode'', ''model'', ''conversationId''] v
     \<and> bounded_id (jget v ''runId'') \<and> bounded_prompt (jget v ''prompt'')
     \<and> opt_sat (is_lit [''review'', ''goal'', ''loop'']) (jget v ''mode'')
     \<and> opt_sat bounded_model (jget v ''model'') \<and> opt_sat bounded_id (jget v ''conversationId'')
     \<and> opt_sat (int_sat 1 12) (jget v ''maxIterations'')"

definition is_agent_worker_family_create :: "js \<Rightarrow> bool" where
  "is_agent_worker_family_create v \<longleftrightarrow> record_of [''primeRunId'', ''workspace'', ''workerCount''] v
     \<and> bounded_id (jget v ''primeRunId'') \<and> bounded_id (jget v ''workspace'')
     \<and> int_sat 1 8 (jget v ''workerCount'')"

definition is_agent_worker_family_get :: "js \<Rightarrow> bool" where
  "is_agent_worker_family_get v \<longleftrightarrow> record_of [''familyId''] v \<and> bounded_id (jget v ''familyId'')"

definition is_agent_worker_run :: "js \<Rightarrow> bool" where
  "is_agent_worker_run v \<longleftrightarrow> record_of [''familyId'', ''workerRunId'', ''prompt''] v
     \<and> bounded_id (jget v ''familyId'') \<and> bounded_id (jget v ''workerRunId'')
     \<and> bounded_prompt (jget v ''prompt'')"

section \<open>The validator\<close>

definition HARNESS_INBOUND_IPC_CHANNELS :: "string list" where
  "HARNESS_INBOUND_IPC_CHANNELS = map (\<lambda>s. ''desktop:harness-'' @ s)
     [''context-route'', ''run-begin'', ''runs-list'', ''run-get'', ''run-events'', ''jobs-list'', ''run-cancel'',
      ''job-cancel'', ''command-execute'', ''codex-setup-status'', ''codex-install'', ''codex-login'',
      ''codex-account'', ''codex-status'', ''codex-usage'', ''codex-conversation'', ''codex-conversations-list'',
      ''codex-conversations-clear'', ''codex-conversation-resume'', ''codex-turn-prepare'', ''codex-turn'',
      ''codex-review-loop'', ''agent-worker-family-create'', ''agent-worker-family-get'', ''agent-worker-run'']"

definition validate_harness_ipc_invocation :: "jstr \<Rightarrow> js list \<Rightarrow> string option" where
  "validate_harness_ipc_invocation channel args =
     (let ch = (\<lambda>s. channel = lit (''desktop:harness-'' @ s)) in
      if ch ''context-route'' then accept_if (one_arg is_context_route args) ''Harness context route input is invalid''
      else if ch ''run-begin'' then accept_if (one_arg is_run_begin args) ''Harness run begin input is invalid''
      else if ch ''runs-list'' then accept_if (args = [] \<or> one_arg is_run_list args) ''Harness run list input is invalid''
      else if ch ''run-get'' \<or> ch ''run-cancel'' then accept_if (one_arg is_run_id args) ''Harness run input is invalid''
      else if ch ''run-events'' then accept_if (one_arg is_events args) ''Harness event input is invalid''
      else if ch ''jobs-list'' then accept_if (one_arg is_job_list args) ''Harness job list input is invalid''
      else if ch ''job-cancel'' then accept_if (one_arg is_job_cancel args) ''Harness job cancel input is invalid''
      else if ch ''command-execute'' then accept_if (one_arg is_command args) ''Harness command input is invalid''
      else if ch ''codex-setup-status'' \<or> ch ''codex-install'' \<or> ch ''codex-login''
        then accept_if (args = []) ''Harness Codex setup input is invalid''
      else if ch ''codex-account'' \<or> ch ''codex-status''
        then accept_if (one_arg is_codex_account args) ''Harness Codex account input is invalid''
      else if ch ''codex-usage'' then accept_if (one_arg is_codex_usage args) ''Harness Codex usage input is invalid''
      else if ch ''codex-conversation''
        then accept_if (one_arg is_codex_conversation args) ''Harness Codex conversation input is invalid''
      else if ch ''codex-conversations-list'' \<or> ch ''codex-conversations-clear''
        then accept_if (one_arg is_codex_workspace_conversation args) ''Harness Codex workspace conversation input is invalid''
      else if ch ''codex-conversation-resume''
        then accept_if (one_arg is_codex_conversation_resume args) ''Harness Codex conversation resume input is invalid''
      else if ch ''codex-turn-prepare''
        then accept_if (one_arg is_codex_turn_prepare args) ''Harness Codex turn prepare input is invalid''
      else if ch ''codex-turn'' then accept_if (one_arg is_codex_turn args) ''Harness Codex turn input is invalid''
      else if ch ''codex-review-loop''
        then accept_if (one_arg is_codex_review_loop args) ''Harness ChatGPT review loop input is invalid''
      else if ch ''agent-worker-family-create''
        then accept_if (one_arg is_agent_worker_family_create args) ''Harness agent worker family create input is invalid''
      else if ch ''agent-worker-family-get''
        then accept_if (one_arg is_agent_worker_family_get args) ''Harness agent worker family get input is invalid''
      else if ch ''agent-worker-run''
        then accept_if (one_arg is_agent_worker_run args) ''Harness agent worker run input is invalid''
      else Some ''Harness IPC channel is not allowlisted'')"

interpretation harness_ipc: ipc_policy "map lit HARNESS_INBOUND_IPC_CHANNELS" validate_harness_ipc_invocation
  by unfold_locales (simp add: validate_harness_ipc_invocation_def HARNESS_INBOUND_IPC_CHANNELS_def Let_def)

section \<open>Working directories\<close>

lemma walk_no_up:
  "list_all (\<lambda>p. p \<noteq> lit ''..'') segs \<Longrightarrow> prefix base (foldl walk_step base segs)"
proof (induction segs arbitrary: base)
  case (Cons s segs)
  then have "prefix (walk_step base s) (foldl walk_step (walk_step base s) segs)" by simp
  moreover have "prefix base (walk_step base s)" using Cons.prems by (simp add: walk_step_def)
  ultimately show ?case by (metis foldl_Cons prefix_order.trans)
qed simp

text \<open>
  The command channel. An accepted command names its workspace and request by ids of 1 to
  128 characters without control characters, has a non-blank command of at most 32 KiB, a
  timeout from 100 ms to 10 minutes if any, and a working directory, if any, that resolved
  segment by segment from the workspace never leaves it.
\<close>

theorem accepted_command:
  assumes "validate_harness_ipc_invocation (lit ''desktop:harness-command-execute'') args = None"
  shows "\<exists>v c. args = [v] \<and> jget v ''command'' = JStr c \<and> trim c \<noteq> [] \<and> utf8_len c \<le> 32 * 1024
    \<and> bounded_id (jget v ''workspace'') \<and> bounded_id (jget v ''requestId'')
    \<and> (jget v ''workdir'' = JUndef \<or> (\<exists>d. jget v ''workdir'' = JStr d \<and> prefix base (resolve_in base d)))
    \<and> (jget v ''timeoutMs'' = JUndef \<or> (\<exists>i. jget v ''timeoutMs'' = jint i \<and> 100 \<le> i \<and> i \<le> 600000))"
proof -
  from assms obtain v where v: "args = [v]" "is_command v"
    by (auto simp: validate_harness_ipc_invocation_def one_arg_iff)
  then obtain c where "jget v ''command'' = JStr c" "trim c \<noteq> []" "utf8_len c \<le> 32 * 1024"
    by (auto simp: is_command_def bounded_command_def str_sat_iff)
  moreover from v have "jget v ''workdir'' = JUndef
      \<or> (\<exists>d. jget v ''workdir'' = JStr d \<and> prefix base (resolve_in base d))"
    by (auto simp: is_command_def opt_sat_def bounded_workdir_def str_sat_iff workdir_text_def
        resolve_in_def list_ex_iff list_all_iff intro!: walk_no_up)
  moreover from v have "jget v ''timeoutMs'' = JUndef
      \<or> (\<exists>i. jget v ''timeoutMs'' = jint i \<and> 100 \<le> i \<and> i \<le> 600000)"
    by (auto simp: is_command_def opt_sat_def int_sat_iff)
  ultimately show ?thesis using v by (auto simp: is_command_def)
qed

definition demo_command :: js where
  "demo_command = JObj [(lit ''workspace'', JStr (lit ''ws'')), (lit ''command'', JStr (lit ''ls'')),
     (lit ''requestId'', JStr (lit ''r'')), (lit ''timeoutMs'', jint 100), (lit ''workdir'', JStr (lit ''a/b''))]"

theorem accepted_command_witness:
  "validate_harness_ipc_invocation (lit ''desktop:harness-command-execute'') [demo_command] = None
   \<and> (\<exists>d. jget demo_command ''workdir'' = JStr d \<and> prefix [lit ''ws''] (resolve_in [lit ''ws''] d))"
proof -
  have "is_command demo_command"
    by (simp add: is_command_def demo_command_def bounded_id_def bounded_command_def bounded_workdir_def
        workdir_text_def trim_def forward_slashes_def drive_prefix_def starts_with_def lit_def js_eval)
  then have a: "validate_harness_ipc_invocation (lit ''desktop:harness-command-execute'') [demo_command] = None"
    by (simp add: validate_harness_ipc_invocation_def one_arg_def)
  have "jget demo_command ''workdir'' \<noteq> JUndef" by (simp add: demo_command_def jget_def)
  with accepted_command [OF a, of "[lit ''ws'']"] a show ?thesis by auto
qed

text \<open>
  The check of the working directory looks for a leading slash and for a drive letter, not
  for a leading backslash: the UNC path \<^verbatim>\<open>\\h\s\<close>, which is absolute on Windows, is accepted as a
  working directory, whereas a task may not name it as a repository path.
\<close>

theorem unc_workdir_accepted:
  "bounded_workdir (JStr [92, 92, 104, 92, 115]) \<and> \<not> is_relative_repository_path (JStr [92, 92, 104, 92, 115])"
  by (simp add: bounded_workdir_def workdir_text_def is_relative_repository_path_def relative_path_def
      forward_slashes_def drive_prefix_def starts_with_def lit_def js_eval)

end
