(* ===== verification/Host_Policies.thy ===== *)
theory Host_Policies
  imports Harness_Policy
begin

text \<open>
  Four small IPC policies: agent views (\<^verbatim>\<open>agent-policy.ts\<close>), Harness approvals
  (\<^verbatim>\<open>harness-approval-policy.ts\<close>), plugin verification (\<^verbatim>\<open>plugin-verification-policy.ts\<close>) and
  provider workflow (\<^verbatim>\<open>provider-workflow-policy.ts\<close>). The URL parser of the platform
  (\<^verbatim>\<open>new URL(text)\<close>) is the parameter \<open>parse_url\<close>, \<open>None\<close> where it throws.
\<close>

section \<open>URLs\<close>

record url =
  url_protocol :: jstr
  url_username :: jstr
  url_password :: jstr
  url_hostname :: jstr
  url_port :: jstr
  url_pathname :: jstr
  url_search :: jstr
  url_hash :: jstr

type_synonym url_parser = "jstr \<Rightarrow> url option"

section \<open>Agent views\<close>

definition is_turn_list :: "js \<Rightarrow> bool" where
  "is_turn_list v \<longleftrightarrow> record_of [''runId'', ''limit''] v \<and> bounded_id (jget v ''runId'')
     \<and> opt_sat (\<lambda>l. is_limit l 100) (jget v ''limit'')"

definition is_memory_preview :: "js \<Rightarrow> bool" where
  "is_memory_preview v \<longleftrightarrow> record_of [''runId'', ''query''] v \<and> bounded_id (jget v ''runId'')
     \<and> bounded_query (jget v ''query'')"

definition is_evaluate :: "js \<Rightarrow> bool" where
  "is_evaluate v \<longleftrightarrow> record_of [''turnId''] v \<and> bounded_id (jget v ''turnId'')"

definition is_evaluation_list :: "js \<Rightarrow> bool" where
  "is_evaluation_list v \<longleftrightarrow> record_of [''turnId'', ''limit''] v \<and> bounded_id (jget v ''turnId'')
     \<and> opt_sat (\<lambda>l. is_limit l 100) (jget v ''limit'')"

definition AGENT_INBOUND_IPC_CHANNELS :: "string list" where
  "AGENT_INBOUND_IPC_CHANNELS =
     [''desktop:agent-turns-list'', ''desktop:agent-memory-preview'', ''desktop:agent-evaluate'',
      ''desktop:agent-evaluations-list'']"

definition validate_agent_ipc_invocation :: "jstr \<Rightarrow> js list \<Rightarrow> string option" where
  "validate_agent_ipc_invocation channel args =
     (if channel = lit ''desktop:agent-turns-list''
        then accept_if (one_arg is_turn_list args) ''Agent turn list input is invalid''
      else if channel = lit ''desktop:agent-memory-preview''
        then accept_if (one_arg is_memory_preview args) ''Agent memory preview input is invalid''
      else if channel = lit ''desktop:agent-evaluate''
        then accept_if (one_arg is_evaluate args) ''Agent evaluate input is invalid''
      else if channel = lit ''desktop:agent-evaluations-list''
        then accept_if (one_arg is_evaluation_list args) ''Agent evaluation list input is invalid''
      else Some ''Agent IPC channel is not allowlisted'')"

interpretation agent_ipc: ipc_policy "map lit AGENT_INBOUND_IPC_CHANNELS" validate_agent_ipc_invocation
  by unfold_locales (simp add: validate_agent_ipc_invocation_def AGENT_INBOUND_IPC_CHANNELS_def)

section \<open>Approvals\<close>

definition approval_statuses :: "string list" where
  "approval_statuses = [''pending'', ''allowed'', ''denied'', ''consumed'', ''expired'']"

text \<open>
  \<^verbatim>\<open>statuses.includes(String(value))\<close>. An array is converted by joining the conversions of its
  elements with commas, \<^verbatim>\<open>null\<close> and \<^verbatim>\<open>undefined\<close> inside it giving the empty string; an object
  whose own \<^verbatim>\<open>toString\<close> is not a function has no conversion and \<^verbatim>\<open>String\<close> throws, here
  \<open>None\<close>. No conversion of another kind of value, and none that contains a comma, is a status.
\<close>

fun string_throws :: "js \<Rightarrow> bool" where
  "string_throws (JObj kvs) \<longleftrightarrow> lit ''toString'' \<in> set (map fst kvs)"
| "string_throws (JArr xs) \<longleftrightarrow> list_ex string_throws xs"
| "string_throws _ \<longleftrightarrow> False"

fun names_status :: "js \<Rightarrow> bool" where
  "names_status (JStr s) \<longleftrightarrow> s \<in> set (map lit approval_statuses)"
| "names_status (JArr [x]) \<longleftrightarrow> names_status x"
| "names_status _ \<longleftrightarrow> False"

definition status_included :: "js \<Rightarrow> bool option" where
  "status_included v = (if string_throws v then None else Some (names_status v))"

text \<open>The input check, \<open>None\<close> when the conversion of the status throws.\<close>

definition is_approval_list_input :: "js \<Rightarrow> bool option" where
  "is_approval_list_input v =
     (if \<not> record_of [''runId'', ''status'', ''limit''] v then Some False
      else if \<not> bounded_id (jget v ''runId'') then Some False
      else (case (if jget v ''status'' = JUndef then Some True else status_included (jget v ''status'')) of
          None \<Rightarrow> None
        | Some False \<Rightarrow> Some False
        | Some True \<Rightarrow> Some (opt_sat (int_sat 1 200) (jget v ''limit''))))"

definition is_respond_input :: "js \<Rightarrow> bool" where
  "is_respond_input v \<longleftrightarrow> record_of [''approvalId'', ''decision''] v
     \<and> bounded_id (jget v ''approvalId'') \<and> is_lit [''allow'', ''deny''] (jget v ''decision'')"

definition HARNESS_APPROVAL_INBOUND_IPC_CHANNELS :: "string list" where
  "HARNESS_APPROVAL_INBOUND_IPC_CHANNELS = [''desktop:harness-approvals-list'', ''desktop:harness-approvals-respond'']"

definition validate_harness_approval_ipc_invocation :: "jstr \<Rightarrow> js list \<Rightarrow> string option" where
  "validate_harness_approval_ipc_invocation channel args =
     (if channel = lit ''desktop:harness-approvals-list'' then
        (case args of
           [a] \<Rightarrow> (case is_approval_list_input a of
               None \<Rightarrow> Some ''TypeError''
             | Some b \<Rightarrow> accept_if b ''Harness approval list input is invalid'')
         | _ \<Rightarrow> Some ''Harness approval list input is invalid'')
      else if channel = lit ''desktop:harness-approvals-respond''
        then accept_if (one_arg is_respond_input args) ''Harness approval response input is invalid''
      else Some ''Harness approval IPC channel is not allowlisted'')"

interpretation approval_ipc:
  ipc_policy "map lit HARNESS_APPROVAL_INBOUND_IPC_CHANNELS" validate_harness_approval_ipc_invocation
  by unfold_locales (simp add: validate_harness_approval_ipc_invocation_def HARNESS_APPROVAL_INBOUND_IPC_CHANNELS_def)

text \<open>
  An approval is answered only by the two decisions: the respond channel accepts exactly
  one record with the keys \<^verbatim>\<open>approvalId\<close> and \<^verbatim>\<open>decision\<close>, whose id has 1 to 128 characters without
  control characters and whose decision is the string \<^verbatim>\<open>allow\<close> or the string \<^verbatim>\<open>deny\<close>.
\<close>

theorem approval_response_accepted_iff:
  "validate_harness_approval_ipc_invocation (lit ''desktop:harness-approvals-respond'') args = None \<longleftrightarrow>
     (\<exists>kvs i d. args = [JObj kvs] \<and> exact_keys (JObj kvs) [''approvalId'', ''decision'']
        \<and> jget (JObj kvs) ''approvalId'' = JStr i \<and> 1 \<le> length i \<and> length i \<le> 128 \<and> \<not> has_control i
        \<and> jget (JObj kvs) ''decision'' = JStr (lit d) \<and> (d = ''allow'' \<or> d = ''deny''))"
  by (auto simp: validate_harness_approval_ipc_invocation_def one_arg_iff is_respond_input_def record_of_def
      is_record_iff bounded_id_def str_sat_iff is_lit_def length_within_def)

text \<open>
  The status filter of the approval list is compared after conversion to a string, so that
  the array \<^verbatim>\<open>["pending"]\<close>, which is not a status, passes the check.
\<close>

theorem array_status_accepted:
  "validate_harness_approval_ipc_invocation (lit ''desktop:harness-approvals-list'')
     [JObj [(lit ''runId'', JStr (lit ''r'')), (lit ''status'', JArr [JStr (lit ''pending'')])]] = None"
  by (simp add: validate_harness_approval_ipc_invocation_def is_approval_list_input_def bounded_id_def
      status_included_def approval_statuses_def jget_def record_of_def exact_keys_def obj_keys_def
      str_sat_def opt_sat_def length_within_def has_control_def lit_def is_control_def)

section \<open>Plugin verification\<close>

definition PLUGIN_VERIFICATION_NO_ARGUMENT_CHANNELS :: "string list" where
  "PLUGIN_VERIFICATION_NO_ARGUMENT_CHANNELS =
     [''desktop:plugin-verification-state'', ''desktop:plugin-verification-run'',
      ''desktop:plugin-verification-copy-fields'', ''desktop:plugin-verification-open-chatgpt'',
      ''desktop:plugin-verification-export-icon'', ''desktop:plugin-domain-challenge-verify'',
      ''desktop:plugin-domain-challenge-remove'']"

definition PLUGIN_VERIFICATION_INBOUND_IPC_CHANNELS :: "string list" where
  "PLUGIN_VERIFICATION_INBOUND_IPC_CHANNELS =
     [''desktop:plugin-verification-state'', ''desktop:plugin-verification-run'',
      ''desktop:plugin-verification-copy-fields'', ''desktop:plugin-verification-open-chatgpt'',
      ''desktop:plugin-verification-export-icon'', ''desktop:plugin-domain-challenge-set'',
      ''desktop:plugin-domain-challenge-verify'', ''desktop:plugin-domain-challenge-remove'']"

definition is_challenge_input :: "js \<Rightarrow> bool" where
  "is_challenge_input v \<longleftrightarrow> record_of [''token''] v
     \<and> str_sat (\<lambda>s. 1 \<le> utf8_len s \<and> utf8_len s \<le> 1024 \<and> s \<noteq> [] \<and> list_all (between 33 126) s) (jget v ''token'')"

definition validate_plugin_verification_ipc_invocation :: "jstr \<Rightarrow> js list \<Rightarrow> string option" where
  "validate_plugin_verification_ipc_invocation channel args =
     (if channel \<in> set (map lit PLUGIN_VERIFICATION_NO_ARGUMENT_CHANNELS)
        then accept_if (args = []) ''plugin verification operation does not accept arguments''
      else if channel = lit ''desktop:plugin-domain-challenge-set''
        then accept_if (one_arg is_challenge_input args) ''domain challenge input is invalid''
      else Some ''plugin verification IPC channel is not allowlisted'')"

interpretation plugin_ipc:
  ipc_policy "map lit PLUGIN_VERIFICATION_INBOUND_IPC_CHANNELS" validate_plugin_verification_ipc_invocation
  by unfold_locales (simp add: validate_plugin_verification_ipc_invocation_def
      PLUGIN_VERIFICATION_INBOUND_IPC_CHANNELS_def PLUGIN_VERIFICATION_NO_ARGUMENT_CHANNELS_def)

section \<open>Provider workflow\<close>

definition valid_workspace :: "js \<Rightarrow> bool" where
  "valid_workspace v = str_sat id_text v"

definition valid_pull_number :: "js \<Rightarrow> bool" where
  "valid_pull_number v = int_sat 1 max_safe v"

definition is_pull_list_input :: "js \<Rightarrow> bool" where
  "is_pull_list_input v \<longleftrightarrow> record_of [''workspace'', ''state'', ''limit''] v
     \<and> valid_workspace (jget v ''workspace'') \<and> is_lit [''open'', ''closed'', ''all''] (jget v ''state'')
     \<and> opt_sat (int_sat 1 100) (jget v ''limit'')"

text \<open>\<^verbatim>\<open>/marker\d+\/?$/\<close>: a pathname that ends with the marker, digits and at most one slash.\<close>

definition ends_with_number :: "jstr \<Rightarrow> jstr \<Rightarrow> bool" where
  "ends_with_number marker p \<longleftrightarrow>
     (let q = (if p \<noteq> [] \<and> last p = 47 then butlast p else p);
          digits = takeWhile is_digit (rev q)
      in digits \<noteq> [] \<and> ends_with marker (rev (dropWhile is_digit (rev q))))"

definition is_pull_open_input :: "url_parser \<Rightarrow> js \<Rightarrow> bool" where
  "is_pull_open_input parse_url v \<longleftrightarrow> record_of [''url''] v
     \<and> str_sat (\<lambda>s. case parse_url s of
          None \<Rightarrow> False
        | Some u \<Rightarrow>
            if url_protocol u \<noteq> lit ''https:'' \<or> url_username u \<noteq> [] \<or> url_password u \<noteq> []
               \<or> url_hash u \<noteq> [] \<or> url_search u \<noteq> [] then False
            else if url_hostname u = lit ''github.com'' then ends_with_number (lit ''/pull/'') (url_pathname u)
            else if url_hostname u = lit ''gitlab.com''
              then ends_with_number (lit ''/-/merge_requests/'') (url_pathname u)
            else False) (jget v ''url'')"

definition is_pull_merge_input :: "js \<Rightarrow> bool" where
  "is_pull_merge_input v \<longleftrightarrow> record_of [''workspace'', ''pullNumber'', ''expectedHeadSha''] v
     \<and> valid_workspace (jget v ''workspace'') \<and> valid_pull_number (jget v ''pullNumber'')
     \<and> str_sat (\<lambda>s. length s = 40 \<and> list_all is_hex s) (jget v ''expectedHeadSha'')"

definition is_pull_close_input :: "js \<Rightarrow> bool" where
  "is_pull_close_input v \<longleftrightarrow> record_of [''workspace'', ''pullNumber''] v
     \<and> valid_workspace (jget v ''workspace'') \<and> valid_pull_number (jget v ''pullNumber'')"

definition is_pull_comment_input :: "js \<Rightarrow> bool" where
  "is_pull_comment_input v \<longleftrightarrow> record_of [''workspace'', ''pullNumber'', ''body''] v
     \<and> valid_workspace (jget v ''workspace'') \<and> valid_pull_number (jget v ''pullNumber'')
     \<and> str_sat (\<lambda>s. trim s \<noteq> [] \<and> length s \<le> 10000 \<and> \<not> has_nul s) (jget v ''body'')"

definition PROVIDER_WORKFLOW_INBOUND_IPC_CHANNELS :: "string list" where
  "PROVIDER_WORKFLOW_INBOUND_IPC_CHANNELS =
     [''desktop:provider-workflow-pull-list'', ''desktop:provider-workflow-pull-open'',
      ''desktop:provider-pull-merge'', ''desktop:provider-pull-close'', ''desktop:provider-pull-comment'']"

definition validate_provider_workflow_ipc_invocation :: "url_parser \<Rightarrow> jstr \<Rightarrow> js list \<Rightarrow> string option" where
  "validate_provider_workflow_ipc_invocation parse_url channel args =
     (if channel = lit ''desktop:provider-workflow-pull-list''
        then accept_if (one_arg is_pull_list_input args) ''provider pull list input is invalid''
      else if channel = lit ''desktop:provider-workflow-pull-open''
        then accept_if (one_arg (is_pull_open_input parse_url) args) ''provider pull URL is invalid''
      else if channel = lit ''desktop:provider-pull-merge''
        then accept_if (one_arg is_pull_merge_input args) ''provider pull merge input is invalid''
      else if channel = lit ''desktop:provider-pull-close''
        then accept_if (one_arg is_pull_close_input args) ''provider pull close input is invalid''
      else if channel = lit ''desktop:provider-pull-comment''
        then accept_if (one_arg is_pull_comment_input args) ''provider pull comment input is invalid''
      else Some ''provider workflow IPC channel is not allowlisted'')"

interpretation provider_ipc:
  ipc_policy "map lit PROVIDER_WORKFLOW_INBOUND_IPC_CHANNELS" "validate_provider_workflow_ipc_invocation parse_url"
  for parse_url :: url_parser
  by unfold_locales (simp add: validate_provider_workflow_ipc_invocation_def PROVIDER_WORKFLOW_INBOUND_IPC_CHANNELS_def)

text \<open>
  A pull request link that the host opens in the browser is, whatever the URL parser does,
  one that it parsed as an \<^verbatim>\<open>https\<close> URL without credentials, query or fragment, on exactly
  \<^verbatim>\<open>github.com\<close> or \<^verbatim>\<open>gitlab.com\<close>.
\<close>

theorem pull_open_accepted:
  assumes "validate_provider_workflow_ipc_invocation parse_url (lit ''desktop:provider-workflow-pull-open'') args = None"
  shows "\<exists>v s u. args = [v] \<and> jget v ''url'' = JStr s \<and> parse_url s = Some u \<and> url_protocol u = lit ''https:''
     \<and> url_username u = [] \<and> url_password u = [] \<and> url_search u = [] \<and> url_hash u = []
     \<and> (url_hostname u = lit ''github.com'' \<or> url_hostname u = lit ''gitlab.com'')"
  using assms
  by (auto simp: validate_provider_workflow_ipc_invocation_def one_arg_iff is_pull_open_input_def str_sat_iff
      split: option.splits if_splits)

theorem pull_open_accepted_witness:
  "validate_provider_workflow_ipc_invocation
     (\<lambda>s. Some \<lparr>url_protocol = lit ''https:'', url_username = [], url_password = [], url_hostname = lit ''github.com'',
        url_port = [], url_pathname = lit ''/o/r/pull/7'', url_search = [], url_hash = []\<rparr>)
     (lit ''desktop:provider-workflow-pull-open'') [JObj [(lit ''url'', JStr (lit ''u''))]] = None
   \<and> (\<exists>v s. [JObj [(lit ''url'', JStr (lit ''u''))]] = [v] \<and> jget v ''url'' = JStr s)"
proof -
  let ?p = "\<lambda>s :: jstr. Some \<lparr>url_protocol = lit ''https:'', url_username = [], url_password = [], url_hostname = lit ''github.com'',
        url_port = [], url_pathname = lit ''/o/r/pull/7'', url_search = [], url_hash = []\<rparr>"
  have "ends_with_number (lit ''/pull/'') (lit ''/o/r/pull/7'')"
    by (simp add: ends_with_number_def ends_with_def lit_def char_classes)
  then have a: "validate_provider_workflow_ipc_invocation ?p (lit ''desktop:provider-workflow-pull-open'')
      [JObj [(lit ''url'', JStr (lit ''u''))]] = None"
    by (simp add: validate_provider_workflow_ipc_invocation_def one_arg_def is_pull_open_input_def record_of_def
        exact_keys_def obj_keys_def jget_def str_sat_def)
  from pull_open_accepted [OF a] a show ?thesis by blast
qed

end
