(* ===== verification/Mcp_Extension_Policy.thy ===== *)
theory Mcp_Extension_Policy
  imports Host_Policies
begin

text \<open>
  The validation of the invocations that install, configure and approve MCP extensions
  (\<^verbatim>\<open>mcp-extension-policy.ts\<close>), over the same URL parser parameter as the provider policy.
\<close>

section \<open>Fields\<close>

definition slug_text :: "nat \<Rightarrow> jstr \<Rightarrow> bool" where
  "slug_text hi s \<longleftrightarrow> length_within 1 hi s \<and> list_all is_slug_char s"

definition is_extension_id :: "js \<Rightarrow> bool" where
  "is_extension_id v = str_sat (slug_text 64) v"

definition is_namespace :: "js \<Rightarrow> bool" where
  "is_namespace v = str_sat (\<lambda>s. s \<noteq> lit ''sourcenerve'' \<and> slug_text 48 s) v"

text \<open>\<^verbatim>\<open>/^[A-Za-z0-9.-]+\/[A-Za-z0-9._-]+$/\<close>: neither class contains the slash.\<close>

definition is_registry_server_name :: "js \<Rightarrow> bool" where
  "is_registry_server_name v = str_sat (\<lambda>s. length_within 3 200 s \<and>
     (case split_on 47 s of
        [a, b] \<Rightarrow> a \<noteq> [] \<and> list_all (\<lambda>c. is_alnum c \<or> c = 46 \<or> c = 45) a \<and> b \<noteq> [] \<and> list_all is_id_char b
      | _ \<Rightarrow> False)) v"

definition is_public_tool_name :: "js \<Rightarrow> bool" where
  "is_public_tool_name v = str_sat (\<lambda>s. length_within 1 120 s \<and> \<not> has_control s) v"

definition is_credential :: "js \<Rightarrow> bool" where
  "is_credential v = str_sat (\<lambda>s. length_within 1 (32 * 1024) s \<and> \<not> has_nul s) v"

definition mcp_bounded_text :: "js \<Rightarrow> nat \<Rightarrow> nat \<Rightarrow> bool" where
  "mcp_bounded_text v lo hi = str_sat (\<lambda>s. length_within lo hi s \<and> trim s \<noteq> [] \<and> \<not> has_control s) v"

definition plain_url :: "url \<Rightarrow> bool" where
  "plain_url u \<longleftrightarrow> url_username u = [] \<and> url_password u = [] \<and> url_hash u = []"

definition is_https_url :: "url_parser \<Rightarrow> js \<Rightarrow> bool" where
  "is_https_url parse_url v = str_sat (\<lambda>s. length s \<le> 2048 \<and>
     (case parse_url s of None \<Rightarrow> False | Some u \<Rightarrow> url_protocol u = lit ''https:'' \<and> plain_url u)) v"

definition is_auth_type :: "js \<Rightarrow> bool" where
  "is_auth_type v = is_lit [''none'', ''bearer'', ''oauth''] v"

definition is_approval :: "js \<Rightarrow> bool" where
  "is_approval v = is_lit [''automatic'', ''ask'', ''blocked''] v"

text \<open>\<^verbatim>\<open>/^[A-Z_][A-Z0-9_]{0,127}$/\<close>.\<close>

definition env_name :: "jstr \<Rightarrow> bool" where
  "env_name s \<longleftrightarrow> length_within 1 128 s \<and> (is_upper (hd s) \<or> hd s = 95)
     \<and> list_all (\<lambda>c. is_upper c \<or> is_digit c \<or> c = 95) (tl s)"

text \<open>A set of strings has as many elements as the list exactly when they are distinct.\<close>

definition is_environment_names :: "js \<Rightarrow> bool" where
  "is_environment_names v = arr_sat (\<lambda>xs. length xs \<le> 32 \<and> distinct xs \<and> list_all (str_sat env_name) xs) v"

definition is_environment_value :: "js \<Rightarrow> bool" where
  "is_environment_value item \<longleftrightarrow> record_of [''name'', ''value'', ''secret''] item
     \<and> str_sat env_name (jget item ''name'')
     \<and> str_sat (\<lambda>s. length s \<le> 32 * 1024 \<and> \<not> has_nul s) (jget item ''value'')
     \<and> is_boolean (jget item ''secret'')"

definition is_environment_values :: "js \<Rightarrow> bool" where
  "is_environment_values v = arr_sat (\<lambda>xs. length xs \<le> 32 \<and> list_all is_environment_value xs) v"

section \<open>Inputs\<close>

definition is_transport :: "url_parser \<Rightarrow> js \<Rightarrow> bool" where
  "is_transport parse_url v \<longleftrightarrow> is_record v \<and>
     (if jget v ''transport'' = jtext ''stdio'' then
        exact_keys v [''transport'', ''command'', ''args'', ''environment'']
        \<and> str_sat (\<lambda>s. length_within 1 1024 s \<and> list_all (between 32 126) s) (jget v ''command'')
        \<and> arr_sat (\<lambda>xs. length xs \<le> 64 \<and> list_all (str_sat (\<lambda>s. length s \<le> 1024 \<and> \<not> has_control s)) xs) (jget v ''args'')
        \<and> opt_sat is_environment_names (jget v ''environment'')
      else if jget v ''transport'' = jtext ''streamable-http'' then
        exact_keys v [''transport'', ''url'']
        \<and> str_sat (\<lambda>s. length s \<le> 2048 \<and>
             (case parse_url s of None \<Rightarrow> False
              | Some u \<Rightarrow> (url_protocol u = lit ''https:'' \<or> url_protocol u = lit ''http:'') \<and> plain_url u)) (jget v ''url'')
      else False)"

definition oauth_scope :: "jstr \<Rightarrow> bool" where
  "oauth_scope s \<longleftrightarrow> length_within 1 128 s
     \<and> list_all (\<lambda>c. is_alnum c \<or> c = 58 \<or> c = 46 \<or> c = 95 \<or> c = 47 \<or> c = 45) s"

definition is_oauth_config :: "url_parser \<Rightarrow> js \<Rightarrow> bool" where
  "is_oauth_config parse_url v \<longleftrightarrow>
     record_of [''authorizationEndpoint'', ''tokenEndpoint'', ''clientId'', ''registrationEndpoint'', ''scopes'',
                ''revokeEndpoint'', ''resource'', ''issuer''] v
     \<and> is_https_url parse_url (jget v ''authorizationEndpoint'') \<and> is_https_url parse_url (jget v ''tokenEndpoint'')
     \<and> opt_sat (\<lambda>c. mcp_bounded_text c 1 512) (jget v ''clientId'')
     \<and> opt_sat (is_https_url parse_url) (jget v ''registrationEndpoint'')
     \<and> \<not> (jget v ''clientId'' = JUndef \<and> jget v ''registrationEndpoint'' = JUndef)
     \<and> arr_sat (\<lambda>xs. length xs \<le> 32 \<and> list_all (str_sat oauth_scope) xs) (jget v ''scopes'')
     \<and> opt_sat (is_https_url parse_url) (jget v ''revokeEndpoint'')
     \<and> opt_sat (is_https_url parse_url) (jget v ''resource'')
     \<and> opt_sat (is_https_url parse_url) (jget v ''issuer'')"

definition is_install_input :: "url_parser \<Rightarrow> js \<Rightarrow> bool" where
  "is_install_input parse_url v \<longleftrightarrow>
     record_of [''id'', ''name'', ''version'', ''namespace'', ''source'', ''transport'', ''authType'', ''credential'',
                ''oauth'', ''environment'', ''required'', ''updateChannel''] v
     \<and> is_extension_id (jget v ''id'') \<and> mcp_bounded_text (jget v ''name'') 1 128
     \<and> mcp_bounded_text (jget v ''version'') 1 64 \<and> is_namespace (jget v ''namespace'')
     \<and> mcp_bounded_text (jget v ''source'') 1 2048 \<and> is_transport parse_url (jget v ''transport'')
     \<and> is_auth_type (jget v ''authType'') \<and> opt_sat is_credential (jget v ''credential'')
     \<and> \<not> (jget v ''authType'' = jtext ''bearer'' \<and> \<not> is_credential (jget v ''credential''))
     \<and> \<not> (jget v ''authType'' = jtext ''oauth'' \<and> \<not> is_oauth_config parse_url (jget v ''oauth''))
     \<and> \<not> (jget v ''authType'' \<noteq> jtext ''oauth'' \<and> jget v ''oauth'' \<noteq> JUndef)
     \<and> opt_sat is_environment_values (jget v ''environment'') \<and> opt_sat is_boolean (jget v ''required'')
     \<and> opt_sat (str_sat (slug_text 32)) (jget v ''updateChannel'')"

definition is_marketplace_install_request :: "js \<Rightarrow> bool" where
  "is_marketplace_install_request v \<longleftrightarrow> record_of [''serverName'', ''environment''] v
     \<and> is_registry_server_name (jget v ''serverName'') \<and> opt_sat is_environment_values (jget v ''environment'')"

definition is_marketplace_search_input :: "js \<Rightarrow> bool" where
  "is_marketplace_search_input v \<longleftrightarrow> record_of [''query'', ''limit''] v
     \<and> str_sat (\<lambda>s. length s \<le> 200 \<and> \<not> has_control s) (jget v ''query'')
     \<and> opt_sat (int_sat 1 50) (jget v ''limit'')"

definition is_activity_query :: "js \<Rightarrow> bool" where
  "is_activity_query v \<longleftrightarrow> record_of [''extensionId'', ''limit''] v
     \<and> opt_sat is_extension_id (jget v ''extensionId'') \<and> opt_sat (int_sat 1 500) (jget v ''limit'')"

definition is_tool_policy_input :: "js \<Rightarrow> bool" where
  "is_tool_policy_input v \<longleftrightarrow> record_of [''extensionId'', ''toolName'', ''enabled'', ''approval''] v
     \<and> is_extension_id (jget v ''extensionId'') \<and> mcp_bounded_text (jget v ''toolName'') 1 128
     \<and> is_boolean (jget v ''enabled'') \<and> is_approval (jget v ''approval'')"

definition is_credential_input :: "js \<Rightarrow> bool" where
  "is_credential_input v \<longleftrightarrow> record_of [''extensionId'', ''credential''] v
     \<and> is_extension_id (jget v ''extensionId'') \<and> is_credential (jget v ''credential'')"

section \<open>The validator\<close>

definition MCP_EXTENSION_INBOUND_IPC_CHANNELS :: "string list" where
  "MCP_EXTENSION_INBOUND_IPC_CHANNELS =
     map (\<lambda>s. ''desktop:mcp-extensions-'' @ s)
       [''list'', ''install'', ''enable'', ''disable'', ''restart'', ''remove'', ''tools'', ''tool-policy'',
        ''credential-set'', ''credential-clear'', ''approve-next'', ''activity'', ''oauth-connect'',
        ''oauth-refresh'', ''oauth-revoke'']
     @ map (\<lambda>s. ''desktop:mcp-marketplace-'' @ s) [''search'', ''plan'', ''install'', ''update'', ''rollback'']"

definition EXTENSION_ID_CHANNELS :: "string list" where
  "EXTENSION_ID_CHANNELS =
     map (\<lambda>s. ''desktop:mcp-extensions-'' @ s)
       [''enable'', ''disable'', ''restart'', ''remove'', ''tools'', ''credential-clear'', ''oauth-connect'',
        ''oauth-refresh'', ''oauth-revoke'']
     @ map (\<lambda>s. ''desktop:mcp-marketplace-'' @ s) [''update'', ''rollback'']"

definition validate_mcp_extension_ipc_invocation :: "url_parser \<Rightarrow> jstr \<Rightarrow> js list \<Rightarrow> string option" where
  "validate_mcp_extension_ipc_invocation parse_url channel args =
     (let ch = (\<lambda>s. channel = lit (''desktop:mcp-'' @ s)) in
      if ch ''extensions-list'' then accept_if (args = []) ''MCP extension operation does not accept arguments''
      else if ch ''extensions-install''
        then accept_if (one_arg (is_install_input parse_url) args) ''MCP extension install payload is invalid''
      else if ch ''marketplace-install''
        then accept_if (one_arg is_marketplace_install_request args) ''MCP marketplace install payload is invalid''
      else if ch ''marketplace-search''
        then accept_if (one_arg is_marketplace_search_input args) ''MCP marketplace search payload is invalid''
      else if ch ''marketplace-plan''
        then accept_if (one_arg is_registry_server_name args) ''MCP marketplace server name is invalid''
      else if channel \<in> set (map lit EXTENSION_ID_CHANNELS)
        then accept_if (one_arg is_extension_id args) ''MCP extension id is invalid''
      else if ch ''extensions-tool-policy''
        then accept_if (one_arg is_tool_policy_input args) ''MCP extension tool policy payload is invalid''
      else if ch ''extensions-credential-set''
        then accept_if (one_arg is_credential_input args) ''MCP extension credential payload is invalid''
      else if ch ''extensions-approve-next''
        then accept_if (one_arg is_public_tool_name args) ''MCP extension public tool name is invalid''
      else if ch ''extensions-activity''
        then accept_if (one_arg is_activity_query args) ''MCP extension activity query is invalid''
      else Some ''MCP extension IPC channel is not allowlisted'')"

interpretation mcp_ipc:
  ipc_policy "map lit MCP_EXTENSION_INBOUND_IPC_CHANNELS" "validate_mcp_extension_ipc_invocation parse_url"
  for parse_url :: url_parser
  by unfold_locales (simp add: validate_mcp_extension_ipc_invocation_def MCP_EXTENSION_INBOUND_IPC_CHANNELS_def
      EXTENSION_ID_CHANNELS_def Let_def)

section \<open>Accepted installations\<close>

lemma slug_text_safe: "slug_text hi s \<Longrightarrow> s \<noteq> [] \<and> 47 \<notin> set s \<and> 92 \<notin> set s \<and> 46 \<notin> set s \<and> \<not> has_control s"
  by (auto simp: slug_text_def length_within_def list_all_iff has_control_def list_ex_iff char_classes)

text \<open>
  What an accepted extension installation guarantees, for every URL parser. Its id and its
  namespace are non-empty and contain no slash, backslash, dot or control character, the
  namespace is not the product's own, a bearer installation carries a credential, OAuth
  settings are present exactly for an OAuth installation and their two endpoints are
  credential-free \<^verbatim>\<open>https\<close> URLs.
\<close>

theorem accepted_install:
  assumes "validate_mcp_extension_ipc_invocation parse_url (lit ''desktop:mcp-extensions-install'') args = None"
  shows "\<exists>v i n. args = [v] \<and> jget v ''id'' = JStr i \<and> jget v ''namespace'' = JStr n
     \<and> i \<noteq> [] \<and> 47 \<notin> set i \<and> 92 \<notin> set i \<and> 46 \<notin> set i \<and> \<not> has_control i
     \<and> n \<noteq> [] \<and> 47 \<notin> set n \<and> 92 \<notin> set n \<and> 46 \<notin> set n \<and> \<not> has_control n \<and> n \<noteq> lit ''sourcenerve''
     \<and> (jget v ''authType'' = jtext ''bearer'' \<longrightarrow> is_credential (jget v ''credential''))
     \<and> (jget v ''oauth'' \<noteq> JUndef \<longleftrightarrow> jget v ''authType'' = jtext ''oauth'')
     \<and> (jget v ''authType'' = jtext ''oauth'' \<longrightarrow>
          (\<forall>k. k = ''authorizationEndpoint'' \<or> k = ''tokenEndpoint'' \<longrightarrow>
             is_https_url parse_url (jget (jget v ''oauth'') k)))"
proof -
  from assms obtain v where v: "args = [v]" "is_install_input parse_url v"
    by (auto simp: validate_mcp_extension_ipc_invocation_def one_arg_iff Let_def EXTENSION_ID_CHANNELS_def)
  then obtain i n where i: "jget v ''id'' = JStr i" "slug_text 64 i"
    and n: "jget v ''namespace'' = JStr n" "slug_text 48 n" "n \<noteq> lit ''sourcenerve''"
    by (auto simp: is_install_input_def is_extension_id_def is_namespace_def str_sat_iff)
  have "jget v ''oauth'' \<noteq> JUndef" if "is_oauth_config parse_url (jget v ''oauth'')"
    using that by (auto simp: is_oauth_config_def record_of_def is_record_def)
  with v i n slug_text_safe [OF i(2)] slug_text_safe [OF n(2)] show ?thesis
    unfolding is_install_input_def by (auto simp: is_oauth_config_def)
qed

definition demo_install :: js where
  "demo_install = JObj [(lit ''id'', JStr (lit ''x'')), (lit ''name'', JStr (lit ''X'')), (lit ''version'', JStr (lit ''1'')),
     (lit ''namespace'', JStr (lit ''x'')), (lit ''source'', JStr (lit ''s'')), (lit ''authType'', jtext ''none''),
     (lit ''transport'', JObj [(lit ''transport'', jtext ''stdio''), (lit ''command'', JStr (lit ''c'')), (lit ''args'', JArr [])])]"

theorem accepted_install_witness:
  "validate_mcp_extension_ipc_invocation (\<lambda>_. None) (lit ''desktop:mcp-extensions-install'') [demo_install] = None
   \<and> (\<exists>n. jget demo_install ''namespace'' = JStr n \<and> n \<noteq> lit ''sourcenerve'')"
proof -
  have t: "is_transport (\<lambda>_. None) (jget demo_install ''transport'')"
    by (simp add: is_transport_def demo_install_def jget_def exact_keys_def obj_keys_def str_sat_def
        arr_sat_def opt_sat_def length_within_def lit_def between_def)
  have "is_install_input (\<lambda>_. None) demo_install"
    using t by (simp add: is_install_input_def demo_install_def jget_def record_of_def exact_keys_def obj_keys_def
        is_extension_id_def is_namespace_def slug_text_def mcp_bounded_text_def is_auth_type_def is_lit_def
        str_sat_def opt_sat_def length_within_def lit_def trim_def has_control_def char_classes)
  then have a: "validate_mcp_extension_ipc_invocation (\<lambda>_. None) (lit ''desktop:mcp-extensions-install'') [demo_install] = None"
    by (simp add: validate_mcp_extension_ipc_invocation_def one_arg_def)
  from accepted_install [OF a] a show ?thesis by auto
qed

end
