(* ===== verification/Desktop_Preferences.thy ===== *)
theory Desktop_Preferences
  imports Contracts
begin

text \<open>
  The desktop behaviour preferences (\<^verbatim>\<open>desktop-preferences.ts\<close>): their validation, the store that
  keeps them in a file, and the product policy that limits them. The store's state is the
  current preferences; reading the file gives a \<open>file_read\<close>, \<^verbatim>\<open>JSON.parse\<close> is a parameter and
  the value that is serialised to the file is \<open>stored_value\<close>.
\<close>

section \<open>Data\<close>

datatype close_behavior = Quit | Tray

record preferences =
  background_mode :: bool
  close_behavior :: close_behavior
  launch_at_login :: bool
  notifications_enabled :: bool

record behavior_policy =
  allow_background_mode :: bool
  allow_launch_at_login :: bool
  allow_notifications :: bool

fun close_name :: "close_behavior \<Rightarrow> string" where
  "close_name Quit = ''quit''"
| "close_name Tray = ''tray''"

section \<open>Validation\<close>

definition default_preferences :: "jstr \<Rightarrow> preferences" where
  "default_preferences platform =
     (let nativeBackground = (platform = lit ''darwin'')
      in \<lparr>background_mode = nativeBackground, close_behavior = (if nativeBackground then Tray else Quit),
          launch_at_login = False, notifications_enabled = True\<rparr>)"

definition parse_close_behavior :: "js \<Rightarrow> close_behavior option" where
  "parse_close_behavior v =
     (if v = jtext ''quit'' then Some Quit else if v = jtext ''tray'' then Some Tray else None)"

definition validate_preferences :: "js \<Rightarrow> preferences res" where
  "validate_preferences v =
     (if \<not> is_record v then throw ''Desktop preferences must be an object''
      else if \<not> exact_keys v [''schemaVersion'', ''backgroundMode'', ''closeBehavior'', ''launchAtLogin'', ''notificationsEnabled'']
        then throw ''Desktop preferences contain unknown fields''
      else (case jget v ''backgroundMode'' of
          JBool background \<Rightarrow>
            (case parse_close_behavior (jget v ''closeBehavior'') of
               None \<Rightarrow> throw ''closeBehavior must be quit or tray''
             | Some close \<Rightarrow>
                 (case jget v ''launchAtLogin'' of
                    JBool launch \<Rightarrow>
                      (case jget v ''notificationsEnabled'' of
                         JBool notify \<Rightarrow>
                           if \<not> background \<and> close = Tray then throw ''tray close behavior requires background mode''
                           else Inr \<lparr>background_mode = background, close_behavior = close,
                                     launch_at_login = launch, notifications_enabled = notify\<rparr>
                       | _ \<Rightarrow> throw ''notificationsEnabled must be boolean'')
                  | _ \<Rightarrow> throw ''launchAtLogin must be boolean''))
        | _ \<Rightarrow> throw ''backgroundMode must be boolean''))"

definition validate_stored_preferences :: "js \<Rightarrow> jstr \<Rightarrow> preferences res" where
  "validate_stored_preferences v platform =
     (if \<not> is_record v \<or> jget v ''schemaVersion'' \<noteq> jint 1 then Inr (default_preferences platform)
      else validate_preferences v)"

definition validate_preferences_input :: "js \<Rightarrow> bool" where
  "validate_preferences_input v = (case validate_preferences v of Inl _ \<Rightarrow> False | Inr _ \<Rightarrow> True)"

section \<open>Policy\<close>

definition effective_preferences :: "preferences \<Rightarrow> behavior_policy \<Rightarrow> preferences" where
  "effective_preferences p policy =
     (let backgroundMode = (allow_background_mode policy \<and> background_mode p)
      in \<lparr>background_mode = backgroundMode,
          close_behavior = (if backgroundMode then close_behavior p else Quit),
          launch_at_login = (allow_launch_at_login policy \<and> launch_at_login p),
          notifications_enabled = (allow_notifications policy \<and> notifications_enabled p)\<rparr>)"

definition assert_preferences_allowed :: "preferences \<Rightarrow> behavior_policy \<Rightarrow> unit res" where
  "assert_preferences_allowed p policy =
     (if background_mode p \<and> \<not> allow_background_mode policy
        then throw ''Background mode is disabled by the SourceNerve product policy''
      else if launch_at_login p \<and> \<not> allow_launch_at_login policy
        then throw ''Launch at login is disabled by the SourceNerve product policy''
      else if notifications_enabled p \<and> \<not> allow_notifications policy
        then throw ''Native notifications are disabled by the SourceNerve product policy''
      else Inr ())"

section \<open>The store\<close>

definition stored_value :: "preferences \<Rightarrow> js" where
  "stored_value p = JObj [(lit ''schemaVersion'', jint 1), (lit ''backgroundMode'', JBool (background_mode p)),
     (lit ''closeBehavior'', jtext (close_name (close_behavior p))), (lit ''launchAtLogin'', JBool (launch_at_login p)),
     (lit ''notificationsEnabled'', JBool (notifications_enabled p))]"

definition preferences_initialize ::
    "(jstr \<Rightarrow> js option) \<Rightarrow> jstr \<Rightarrow> preferences \<Rightarrow> file_read \<Rightarrow> preferences res \<times> preferences" where
  "preferences_initialize json_parse platform current file =
     (case file of
        FileError \<Rightarrow> (throw ''read failed'', current)
      | FileMissing \<Rightarrow> (Inr (default_preferences platform), default_preferences platform)
      | FileText raw \<Rightarrow>
          let p = (case json_parse raw of
              None \<Rightarrow> default_preferences platform
            | Some v \<Rightarrow> (case validate_stored_preferences v platform of
                  Inl _ \<Rightarrow> default_preferences platform
                | Inr p \<Rightarrow> p))
          in (Inr p, p))"

text \<open>The result, the new current preferences, and the value written to the file if any.\<close>

definition preferences_update ::
    "bool \<Rightarrow> preferences \<Rightarrow> js \<Rightarrow> preferences res \<times> preferences \<times> js option" where
  "preferences_update write_ok current nxt =
     (case validate_preferences nxt of
        Inl e \<Rightarrow> (Inl e, current, None)
      | Inr p \<Rightarrow> if write_ok then (Inr p, p, Some (stored_value p)) else (throw ''write failed'', current, None))"

definition preferences_reset :: "jstr \<Rightarrow> bool \<Rightarrow> preferences \<Rightarrow> preferences res \<times> preferences \<times> js option" where
  "preferences_reset platform write_ok current =
     (let p = default_preferences platform
      in if write_ok then (Inr p, p, Some (stored_value p)) else (throw ''write failed'', current, None))"

section \<open>Invariant\<close>

text \<open>Closing to the tray requires background mode.\<close>

definition preferences_ok :: "preferences \<Rightarrow> bool" where
  "preferences_ok p \<longleftrightarrow> \<not> (close_behavior p = Tray \<and> \<not> background_mode p)"

datatype preferences_event = PrefInit file_read | PrefUpdate bool js | PrefReset bool

fun preferences_step :: "(jstr \<Rightarrow> js option) \<Rightarrow> jstr \<Rightarrow> preferences \<Rightarrow> preferences_event \<Rightarrow> preferences" where
  "preferences_step json_parse platform p (PrefInit f) = snd (preferences_initialize json_parse platform p f)"
| "preferences_step json_parse platform p (PrefUpdate w v) = fst (snd (preferences_update w p v))"
| "preferences_step json_parse platform p (PrefReset w) = fst (snd (preferences_reset platform w p))"

lemma default_preferences_ok [simp]: "preferences_ok (default_preferences platform)"
  by (simp add: default_preferences_def preferences_ok_def Let_def)

lemma validate_preferences_ok: "validate_preferences v = Inr p \<Longrightarrow> preferences_ok p"
  by (auto simp: validate_preferences_def preferences_ok_def split: if_splits js.splits option.splits)

lemma validate_stored_preferences_ok: "validate_stored_preferences v platform = Inr p \<Longrightarrow> preferences_ok p"
  by (auto simp: validate_stored_preferences_def dest: validate_preferences_ok split: if_splits)

interpretation preferences_store:
  machine "\<lambda>p. p = default_preferences platform" "preferences_step json_parse platform" preferences_ok
  for json_parse :: "jstr \<Rightarrow> js option" and platform :: jstr
proof unfold_locales
  fix p e
  show "preferences_ok p \<Longrightarrow> preferences_ok (preferences_step json_parse platform p e)"
    by (cases e) (auto simp: preferences_initialize_def preferences_update_def preferences_reset_def Let_def
        dest: validate_preferences_ok validate_stored_preferences_ok
        split: file_read.splits option.splits sum.splits)
qed simp

section \<open>Properties\<close>

text \<open>
  However the store is initialised, updated and reset, and whatever its file contains, the
  current preferences never close to the tray without background mode; and the preferences in
  effect under any product policy keep that rule and are always allowed by the policy.
\<close>

theorem preferences_always_valid:
  "let p = foldl (preferences_step json_parse platform) (default_preferences platform) es
   in preferences_ok p \<and> preferences_ok (effective_preferences p policy)
      \<and> assert_preferences_allowed (effective_preferences p policy) policy = Inr ()"
  using preferences_store.inv_reachable [of "default_preferences platform" platform json_parse es]
  by (auto simp: Let_def effective_preferences_def preferences_ok_def assert_preferences_allowed_def)

text \<open>
  What an update writes is what the next start reads: if the update is accepted and written,
  then initialising from a file that parses to the written value restores the same preferences,
  whatever the current ones and the platform are.
\<close>

theorem preferences_roundtrip:
  assumes "preferences_update True current v = (Inr p, p', Some written)" "json_parse raw = Some written"
  shows "p' = p \<and> preferences_initialize json_parse platform q (FileText raw) = (Inr p, p)"
proof -
  from assms(1) have v: "validate_preferences v = Inr p" and w: "written = stored_value p" "p' = p"
    by (auto simp: preferences_update_def split: sum.splits)
  have "close_behavior p = Quit \<or> close_behavior p = Tray" by (cases "close_behavior p") auto
  with validate_preferences_ok [OF v] have "validate_stored_preferences (stored_value p) platform = Inr p"
    by (auto simp: validate_stored_preferences_def validate_preferences_def stored_value_def jget_def
        exact_keys_def obj_keys_def parse_close_behavior_def preferences_ok_def)
  with assms(2) w show ?thesis by (simp add: preferences_initialize_def)
qed

definition demo_preferences :: preferences where
  "demo_preferences = \<lparr>background_mode = True, close_behavior = Tray, launch_at_login = True, notifications_enabled = False\<rparr>"

theorem preferences_roundtrip_witness:
  "preferences_initialize (\<lambda>_. Some (stored_value demo_preferences)) (lit ''linux'') (default_preferences (lit ''linux''))
     (FileText (lit ''...'')) = (Inr demo_preferences, demo_preferences)"
proof -
  have u: "preferences_update True (default_preferences (lit ''linux'')) (stored_value demo_preferences)
      = (Inr demo_preferences, demo_preferences, Some (stored_value demo_preferences))"
    by (simp add: preferences_update_def validate_preferences_def stored_value_def jget_def exact_keys_def
        obj_keys_def parse_close_behavior_def demo_preferences_def)
  show ?thesis
    using preferences_roundtrip [OF u, of "\<lambda>_. Some (stored_value demo_preferences)"] by simp
qed

end
