(* ===== verification/Ipc_Policy.thy ===== *)
theory Ipc_Policy
  imports Mcp_Extension_Policy Desktop_Preferences
begin

text \<open>
  The gate every renderer invocation passes (\<^verbatim>\<open>ipc-policy.ts\<close>): the list of inbound channels and
  the dispatcher that sends a channel to the policy that owns it or checks it itself. An
  invocation reaches a handler only when the dispatcher returns \<open>None\<close>.
\<close>

section \<open>Inputs of the host's own channels\<close>

definition is_desktop_control_permissions :: "js \<Rightarrow> bool" where
  "is_desktop_control_permissions v \<longleftrightarrow> record_of [''screen'', ''mouse'', ''keyboard'', ''clipboard''] v
     \<and> is_boolean (jget v ''screen'') \<and> is_boolean (jget v ''mouse'')
     \<and> is_boolean (jget v ''keyboard'') \<and> is_boolean (jget v ''clipboard'')"

definition is_desktop_control_observe_input :: "js \<Rightarrow> bool" where
  "is_desktop_control_observe_input v \<longleftrightarrow> record_of [''includeScreenshot'', ''maxSources''] v
     \<and> opt_sat is_boolean (jget v ''includeScreenshot'') \<and> opt_sat (int_sat 1 20) (jget v ''maxSources'')"

definition is_desktop_control_action :: "js \<Rightarrow> bool" where
  "is_desktop_control_action v = is_lit [''screenshot'', ''mouse-click'', ''mouse-move'', ''key-press'',
     ''type-text'', ''clipboard-read'', ''clipboard-write''] v"

text \<open>\<^verbatim>\<open>[A-Za-z0-9_+:. -]\<close>.\<close>

definition is_key_char :: "nat \<Rightarrow> bool" where
  "is_key_char c \<longleftrightarrow> is_alnum c \<or> c = 95 \<or> c = 43 \<or> c = 58 \<or> c = 46 \<or> c = 32 \<or> c = 45"

definition is_desktop_control_run_input :: "js \<Rightarrow> bool" where
  "is_desktop_control_run_input v \<longleftrightarrow> record_of [''action'', ''text'', ''key'', ''x'', ''y''] v
     \<and> is_desktop_control_action (jget v ''action'')
     \<and> opt_sat (str_sat (\<lambda>s. utf8_len s \<le> 16 * 1024 \<and> \<not> has_nul s)) (jget v ''text'')
     \<and> opt_sat (str_sat (\<lambda>s. length_within 1 64 s \<and> list_all is_key_char s)) (jget v ''key'')
     \<and> opt_sat (int_sat 0 100000) (jget v ''x'') \<and> opt_sat (int_sat 0 100000) (jget v ''y'')
     \<and> \<not> (is_lit [''mouse-click'', ''mouse-move''] (jget v ''action'')
           \<and> (jget v ''x'' = JUndef \<or> jget v ''y'' = JUndef))
     \<and> \<not> (jget v ''action'' = jtext ''key-press'' \<and> jget v ''key'' = JUndef)
     \<and> \<not> (is_lit [''type-text'', ''clipboard-write''] (jget v ''action'') \<and> jget v ''text'' = JUndef)"

definition is_git_provider :: "js \<Rightarrow> bool" where
  "is_git_provider v = is_lit [''github'', ''gitlab''] v"

definition is_repository_slug :: "js \<Rightarrow> bool" where
  "is_repository_slug v = str_sat (\<lambda>s. length_within 3 512 s \<and> \<not> starts_with (lit ''/'') s \<and> \<not> ends_with (lit ''/'') s
     \<and> 2 \<le> length (split_on 47 s)
     \<and> list_all (\<lambda>p. p \<noteq> [] \<and> list_all is_id_char p \<and> p \<noteq> lit ''.'' \<and> p \<noteq> lit ''..'') (split_on 47 s)) v"

definition is_valid_operation_id :: "js \<Rightarrow> bool" where
  "is_valid_operation_id v = str_sat id_text v"

definition is_valid_workspace_id :: "js \<Rightarrow> bool" where
  "is_valid_workspace_id v = is_valid_operation_id v"

definition is_valid_selection_id :: "js \<Rightarrow> bool" where
  "is_valid_selection_id v = str_sat (\<lambda>s. length s = 36 \<and> matches_seq uuid_classes s) v"

definition is_valid_remote_name :: "js \<Rightarrow> bool" where
  "is_valid_remote_name v = str_sat (\<lambda>s. length_within 1 128 s \<and> is_alnum (hd s)
     \<and> list_all (\<lambda>c. is_id_char c \<or> c = 47) (tl s)) v"

definition ipc_bounded_text :: "js \<Rightarrow> nat \<Rightarrow> nat \<Rightarrow> bool" where
  "ipc_bounded_text v lo hi = str_sat (\<lambda>s. length_within lo hi s \<and> \<not> has_control s \<and> trim s \<noteq> []) v"

definition is_workspace_save_input :: "js \<Rightarrow> bool" where
  "is_workspace_save_input v \<longleftrightarrow>
     record_of [''originalId'', ''selectionId'', ''id'', ''name'', ''access'', ''remote'', ''defaultBranch''] v
     \<and> opt_sat is_valid_workspace_id (jget v ''originalId'') \<and> opt_sat is_valid_selection_id (jget v ''selectionId'')
     \<and> is_valid_workspace_id (jget v ''id'') \<and> ipc_bounded_text (jget v ''name'') 1 128
     \<and> is_lit [''read-only'', ''read-write''] (jget v ''access'') \<and> is_valid_remote_name (jget v ''remote'')
     \<and> ipc_bounded_text (jget v ''defaultBranch'') 1 256
     \<and> str_sat (\<lambda>s. \<not> starts_with (lit ''-'') s) (jget v ''defaultBranch'')"

definition is_legacy_import_apply_input :: "js \<Rightarrow> bool" where
  "is_legacy_import_apply_input v \<longleftrightarrow> record_of [''selectionId'', ''stateStrategy''] v
     \<and> is_valid_selection_id (jget v ''selectionId'')
     \<and> is_lit [''copy'', ''move'', ''reference'', ''fresh''] (jget v ''stateStrategy'')"

section \<open>Channels\<close>

definition NO_ARGUMENT_CHANNELS :: "string list" where
  "NO_ARGUMENT_CHANNELS = map (\<lambda>s. ''desktop:'' @ s)
     [''runtime-info'', ''daemon-state'', ''daemon-start'', ''daemon-stop'', ''daemon-restart'',
      ''daemon-attach-external'', ''daemon-health'', ''service-status'', ''readiness'', ''list-workspaces'',
      ''workspace-pick-repository'', ''workspace-list-managed'', ''legacy-import-pick'', ''provider-states'',
      ''public-mcp-state'', ''public-mcp-enroll'', ''public-mcp-retry'', ''public-mcp-rotate'', ''public-mcp-revoke'',
      ''public-mcp-re-enroll'', ''runtime-logs'', ''diagnostics-copy'', ''support-bundle-preview'',
      ''recovery-state'', ''recovery-backup-create-validate'', ''recovery-backup-validate-latest'',
      ''recovery-open-state-directory'', ''recovery-open-logs-directory'', ''recovery-reset-ui-settings'',
      ''recovery-readiness'', ''control-state'', ''chrome-extension-bridge-state'',
      ''chrome-extension-bridge-rotate-token'', ''behavior-state'']"

definition OWN_ARGUMENT_CHANNELS :: "string list" where
  "OWN_ARGUMENT_CHANNELS = map (\<lambda>s. ''desktop:'' @ s)
     [''workspace-save'', ''workspace-remove'', ''legacy-import-apply'', ''provider-connect'', ''provider-disconnect'',
      ''provider-repositories'', ''provider-validate-repository'', ''provider-validate-transport'',
      ''support-bundle-export'', ''behavior-update'', ''control-permissions-update'', ''control-observe'',
      ''control-run'', ''cancel-operation'']"

definition DESKTOP_INBOUND_IPC_CHANNELS :: "string list" where
  "DESKTOP_INBOUND_IPC_CHANNELS = NO_ARGUMENT_CHANNELS @ OWN_ARGUMENT_CHANNELS
     @ HARNESS_INBOUND_IPC_CHANNELS @ HARNESS_APPROVAL_INBOUND_IPC_CHANNELS @ MCP_EXTENSION_INBOUND_IPC_CHANNELS
     @ PLUGIN_VERIFICATION_INBOUND_IPC_CHANNELS @ PROVIDER_WORKFLOW_INBOUND_IPC_CHANNELS
     @ TASK_INBOUND_IPC_CHANNELS @ AGENT_INBOUND_IPC_CHANNELS"

section \<open>The dispatcher\<close>

definition quoted :: "string \<Rightarrow> string" where
  "quoted s = CHR 0x27 # s @ [CHR 0x27]"

definition id_rule :: string where
  "id_rule = '' must be 1-128 letters, numbers, '' @ quoted ''.'' @ '', '' @ quoted ''_'' @ '' or '' @ quoted ''-''"

text \<open>The branches of the dispatcher after the channels that other policies own.\<close>

definition validate_own_channel :: "jstr \<Rightarrow> js list \<Rightarrow> string option" where
  "validate_own_channel channel args =
     (let ch = (\<lambda>s. channel = lit (''desktop:'' @ s)) in
      if ch ''runtime-event'' \<or> ch ''runtime-log-event'' then Some ''runtime event channel is outbound-only''
      else if channel \<in> set (map lit NO_ARGUMENT_CHANNELS) then accept_if (args = []) ''IPC operation does not accept arguments''
      else if ch ''workspace-save'' then accept_if (one_arg is_workspace_save_input args) ''workspace save payload is invalid''
      else if ch ''legacy-import-apply''
        then accept_if (one_arg is_legacy_import_apply_input args) ''legacy import payload is invalid''
      else if ch ''workspace-remove'' \<or> ch ''provider-validate-transport''
        then accept_if (one_arg is_valid_workspace_id args) (''workspaceId'' @ id_rule)
      else if ch ''provider-connect'' \<or> ch ''provider-disconnect'' \<or> ch ''provider-repositories''
        then accept_if (one_arg is_git_provider args) ''provider must be github or gitlab''
      else if ch ''provider-validate-repository''
        then accept_if (case args of [p, s] \<Rightarrow> is_git_provider p \<and> is_repository_slug s | _ \<Rightarrow> False)
          ''provider repository validation input is invalid''
      else if ch ''support-bundle-export''
        then accept_if (case args of [i, f] \<Rightarrow> is_valid_selection_id i \<and> is_lit [''text'', ''zip''] f | _ \<Rightarrow> False)
          ''support bundle export input is invalid''
      else if ch ''behavior-update''
        then accept_if (one_arg validate_preferences_input args) ''Desktop behavior preferences are invalid''
      else if ch ''control-permissions-update''
        then accept_if (one_arg is_desktop_control_permissions args) ''Desktop control permissions are invalid''
      else if ch ''control-observe''
        then accept_if (args = [] \<or> one_arg is_desktop_control_observe_input args) ''Desktop control observe input is invalid''
      else if ch ''control-run''
        then accept_if (one_arg is_desktop_control_run_input args) ''Desktop control command input is invalid''
      else if ch ''cancel-operation''
        then accept_if (one_arg is_valid_operation_id args) (''operationId'' @ id_rule)
      else Some ''IPC channel is not allowlisted'')"

definition validate_desktop_ipc_invocation :: "url_parser \<Rightarrow> jstr \<Rightarrow> js list \<Rightarrow> string option" where
  "validate_desktop_ipc_invocation parse_url channel args =
     (let owned = (\<lambda>cs. channel \<in> set (map lit cs)) in
      if owned AGENT_INBOUND_IPC_CHANNELS then validate_agent_ipc_invocation channel args
      else if owned HARNESS_INBOUND_IPC_CHANNELS then validate_harness_ipc_invocation channel args
      else if owned HARNESS_APPROVAL_INBOUND_IPC_CHANNELS then validate_harness_approval_ipc_invocation channel args
      else if owned MCP_EXTENSION_INBOUND_IPC_CHANNELS then validate_mcp_extension_ipc_invocation parse_url channel args
      else if owned PLUGIN_VERIFICATION_INBOUND_IPC_CHANNELS then validate_plugin_verification_ipc_invocation channel args
      else if owned PROVIDER_WORKFLOW_INBOUND_IPC_CHANNELS then validate_provider_workflow_ipc_invocation parse_url channel args
      else if owned TASK_INBOUND_IPC_CHANNELS then validate_task_ipc_invocation channel args
      else validate_own_channel channel args)"

interpretation own_ipc: ipc_policy "map lit (NO_ARGUMENT_CHANNELS @ OWN_ARGUMENT_CHANNELS)" validate_own_channel
  by unfold_locales (simp add: validate_own_channel_def OWN_ARGUMENT_CHANNELS_def Let_def)

interpretation desktop_ipc: ipc_policy "map lit DESKTOP_INBOUND_IPC_CHANNELS" "validate_desktop_ipc_invocation parse_url"
  for parse_url :: url_parser
proof unfold_locales
  fix c args
  assume "c \<notin> set (map lit DESKTOP_INBOUND_IPC_CHANNELS)"
  then show "validate_desktop_ipc_invocation parse_url c args \<noteq> None"
    using own_ipc.unlisted_rejected [of c args]
    by (auto simp: validate_desktop_ipc_invocation_def DESKTOP_INBOUND_IPC_CHANNELS_def)
qed

section \<open>Properties\<close>



lemmas channel_lists = NO_ARGUMENT_CHANNELS_def OWN_ARGUMENT_CHANNELS_def HARNESS_INBOUND_IPC_CHANNELS_def
  HARNESS_APPROVAL_INBOUND_IPC_CHANNELS_def MCP_EXTENSION_INBOUND_IPC_CHANNELS_def
  PLUGIN_VERIFICATION_INBOUND_IPC_CHANNELS_def PROVIDER_WORKFLOW_INBOUND_IPC_CHANNELS_def
  TASK_INBOUND_IPC_CHANNELS_def AGENT_INBOUND_IPC_CHANNELS_def

text \<open>Most families of channels are told apart by the four characters after \<^verbatim>\<open>desktop:\<close>.\<close>

definition channel_family :: "string \<Rightarrow> string" where
  "channel_family s = take 4 (drop 8 s)"

lemma channel_families:
  "list_all (\<lambda>c. channel_family c = ''agen'') AGENT_INBOUND_IPC_CHANNELS"
  "list_all (\<lambda>c. channel_family c = ''harn'') HARNESS_INBOUND_IPC_CHANNELS"
  "list_all (\<lambda>c. channel_family c = ''harn'') HARNESS_APPROVAL_INBOUND_IPC_CHANNELS"
  "list_all (\<lambda>c. channel_family c = ''mcp-'') MCP_EXTENSION_INBOUND_IPC_CHANNELS"
  "list_all (\<lambda>c. channel_family c = ''plug'') PLUGIN_VERIFICATION_INBOUND_IPC_CHANNELS"
  "list_all (\<lambda>c. channel_family c = ''prov'') PROVIDER_WORKFLOW_INBOUND_IPC_CHANNELS"
  "list_all (\<lambda>c. channel_family c = ''task'') TASK_INBOUND_IPC_CHANNELS"
  "list_all (\<lambda>c. channel_family c \<notin> {''agen'', ''harn'', ''mcp-'', ''plug'', ''task''})
     (NO_ARGUMENT_CHANNELS @ OWN_ARGUMENT_CHANNELS)"
  by (simp_all add: channel_lists channel_family_def)

lemma channel_overlaps:
  "list_all (\<lambda>c. c \<notin> set HARNESS_INBOUND_IPC_CHANNELS) HARNESS_APPROVAL_INBOUND_IPC_CHANNELS"
  "list_all (\<lambda>c. c \<notin> set PROVIDER_WORKFLOW_INBOUND_IPC_CHANNELS) (NO_ARGUMENT_CHANNELS @ OWN_ARGUMENT_CHANNELS)"
  by (simp_all add: channel_lists)

lemmas channel_separation = channel_families [unfolded list_all_iff] channel_overlaps [unfolded list_all_iff]

text \<open>
  No policy shadows another: on every channel that a policy declares, the gate decides by
  that policy, although it asks the policies one after the other.
\<close>

theorem ipc_gate_delegates:
  "list_all (\<lambda>c. validate_desktop_ipc_invocation parse_url (lit c) args = validate_agent_ipc_invocation (lit c) args)
     AGENT_INBOUND_IPC_CHANNELS
   \<and> list_all (\<lambda>c. validate_desktop_ipc_invocation parse_url (lit c) args = validate_harness_ipc_invocation (lit c) args)
     HARNESS_INBOUND_IPC_CHANNELS
   \<and> list_all (\<lambda>c. validate_desktop_ipc_invocation parse_url (lit c) args = validate_harness_approval_ipc_invocation (lit c) args)
     HARNESS_APPROVAL_INBOUND_IPC_CHANNELS
   \<and> list_all (\<lambda>c. validate_desktop_ipc_invocation parse_url (lit c) args = validate_mcp_extension_ipc_invocation parse_url (lit c) args)
     MCP_EXTENSION_INBOUND_IPC_CHANNELS
   \<and> list_all (\<lambda>c. validate_desktop_ipc_invocation parse_url (lit c) args = validate_plugin_verification_ipc_invocation (lit c) args)
     PLUGIN_VERIFICATION_INBOUND_IPC_CHANNELS
   \<and> list_all (\<lambda>c. validate_desktop_ipc_invocation parse_url (lit c) args = validate_provider_workflow_ipc_invocation parse_url (lit c) args)
     PROVIDER_WORKFLOW_INBOUND_IPC_CHANNELS
   \<and> list_all (\<lambda>c. validate_desktop_ipc_invocation parse_url (lit c) args = validate_task_ipc_invocation (lit c) args)
     TASK_INBOUND_IPC_CHANNELS
   \<and> list_all (\<lambda>c. validate_desktop_ipc_invocation parse_url (lit c) args = validate_own_channel (lit c) args)
     (NO_ARGUMENT_CHANNELS @ OWN_ARGUMENT_CHANNELS)"
  unfolding list_all_iff validate_desktop_ipc_invocation_def Let_def lit_in_map_lit
  using channel_separation by (intro conjI ballI) (fastforce split: if_splits)+

lemma control_run_decides:
  "validate_own_channel (lit ''desktop:control-run'') args =
     accept_if (one_arg is_desktop_control_run_input args) ''Desktop control command input is invalid''"
  by (simp add: validate_own_channel_def NO_ARGUMENT_CHANNELS_def)

lemma control_run_needs:
  assumes "is_desktop_control_run_input v"
  shows "is_lit [''mouse-click'', ''mouse-move''] (jget v ''action'') \<longrightarrow>
          (\<exists>x y. jget v ''x'' = jint x \<and> jget v ''y'' = jint y \<and> 0 \<le> x \<and> x \<le> 100000 \<and> 0 \<le> y \<and> y \<le> 100000)"
    and "jget v ''action'' = jtext ''key-press'' \<longrightarrow> (\<exists>k. jget v ''key'' = JStr k \<and> k \<noteq> [] \<and> list_all is_key_char k)"
    and "is_lit [''type-text'', ''clipboard-write''] (jget v ''action'') \<longrightarrow>
          (\<exists>t. jget v ''text'' = JStr t \<and> utf8_len t \<le> 16 * 1024 \<and> \<not> has_nul t)"
    and "\<exists>a. jget v ''action'' = JStr (lit a)"
proof -
  note d = assms [unfolded is_desktop_control_run_input_def opt_sat_def]
  from d show "is_lit [''mouse-click'', ''mouse-move''] (jget v ''action'') \<longrightarrow>
          (\<exists>x y. jget v ''x'' = jint x \<and> jget v ''y'' = jint y \<and> 0 \<le> x \<and> x \<le> 100000 \<and> 0 \<le> y \<and> y \<le> 100000)"
    unfolding int_sat_iff by blast
  from d show "jget v ''action'' = jtext ''key-press'' \<longrightarrow> (\<exists>k. jget v ''key'' = JStr k \<and> k \<noteq> [] \<and> list_all is_key_char k)"
    unfolding str_sat_iff length_within_def by fastforce
  from d show "is_lit [''type-text'', ''clipboard-write''] (jget v ''action'') \<longrightarrow>
          (\<exists>t. jget v ''text'' = JStr t \<and> utf8_len t \<le> 16 * 1024 \<and> \<not> has_nul t)"
    unfolding str_sat_iff by blast
  from d show "\<exists>a. jget v ''action'' = JStr (lit a)"
    unfolding is_desktop_control_action_def is_lit_def str_sat_iff by auto
qed

text \<open>
  A desktop control command that the gate accepts carries what its action needs: a mouse
  action has both coordinates, each from 0 to 100000, a key press has a key of the restricted
  alphabet, and typing or writing the clipboard has a text of at most 16 KiB without NUL.
\<close>

theorem accepted_control_run:
  assumes "validate_own_channel (lit ''desktop:control-run'') args = None"
  shows "\<exists>v a. args = [v] \<and> jget v ''action'' = JStr (lit a)
     \<and> (a = ''mouse-click'' \<or> a = ''mouse-move'' \<longrightarrow>
          (\<exists>x y. jget v ''x'' = jint x \<and> jget v ''y'' = jint y \<and> 0 \<le> x \<and> x \<le> 100000 \<and> 0 \<le> y \<and> y \<le> 100000))
     \<and> (a = ''key-press'' \<longrightarrow> (\<exists>k. jget v ''key'' = JStr k \<and> k \<noteq> [] \<and> list_all is_key_char k))
     \<and> (a = ''type-text'' \<or> a = ''clipboard-write'' \<longrightarrow>
          (\<exists>t. jget v ''text'' = JStr t \<and> utf8_len t \<le> 16 * 1024 \<and> \<not> has_nul t))"
proof -
  from assms obtain v where v: "args = [v]" "is_desktop_control_run_input v"
    by (auto simp: control_run_decides one_arg_iff)
  note needs = control_run_needs [OF v(2)]
  from needs(4) obtain a where a: "jget v ''action'' = JStr (lit a)" by blast
  have lits: "is_lit names (jget v ''action'') \<longleftrightarrow> a \<in> set names" for names
    by (simp only: a is_lit_def str_sat_def js.case lit_in_map_lit)
  show ?thesis
    using needs(1-3) [unfolded lits] v(1) a by (intro exI [of _ v] exI [of _ a]) simp
qed

definition demo_click :: js where
  "demo_click = JObj [(lit ''action'', jtext ''mouse-click''), (lit ''x'', jint 5), (lit ''y'', jint 7)]"

theorem accepted_control_run_witness:
  "validate_own_channel (lit ''desktop:control-run'') [demo_click] = None
   \<and> (\<exists>x y. jget demo_click ''x'' = jint x \<and> jget demo_click ''y'' = jint y \<and> x \<le> 100000 \<and> y \<le> 100000)"
proof -
  have "is_desktop_control_run_input demo_click"
    by (simp add: is_desktop_control_run_input_def demo_click_def is_desktop_control_action_def is_lit_def
        record_of_def exact_keys_def obj_keys_def jget_def str_sat_def opt_sat_def int_sat_def safe_int_def max_safe_def)
  then have a: "validate_own_channel (lit ''desktop:control-run'') [demo_click] = None"
    by (simp add: control_run_decides one_arg_def)
  have "jget demo_click ''action'' = jtext ''mouse-click''" by (simp add: demo_click_def jget_def)
  with accepted_control_run [OF a] a show ?thesis by auto
qed

end
