(* ===== verification/Thread_Store.thy ===== *)
theory Thread_Store
  imports Contracts
begin

text \<open>
  The persistent map from Harness runs to native Codex threads (\<^verbatim>\<open>codex-thread-store.ts\<close>). The
  map of the code iterates in insertion order and is keyed by the run id each binding
  carries, so it is a list of bindings. \<^verbatim>\<open>path.isAbsolute\<close>, \<^verbatim>\<open>path.resolve\<close>, \<^verbatim>\<open>Date.parse\<close>,
  \<^verbatim>\<open>JSON.parse\<close>, the clock and the outcome of writing the file are parameters. A write that
  fails rejects the call after the map has changed, as in the code.
\<close>

section \<open>Data\<close>

record thread_binding =
  tb_run_id :: jstr
  tb_workspace_id :: jstr
  tb_cwd :: jstr
  tb_thread_id :: jstr
  tb_created_at :: jstr
  tb_updated_at :: jstr

record thread_store =
  ts_bindings :: "thread_binding list"
  ts_initialized :: bool

record path_ops =
  is_absolute :: "jstr \<Rightarrow> bool"
  resolve_path :: "jstr \<Rightarrow> jstr"

record bind_input =
  bi_run_id :: jstr
  bi_workspace_id :: jstr
  bi_cwd :: jstr
  bi_thread_id :: jstr

definition MAX_FILE_BYTES :: nat where "MAX_FILE_BYTES = 512 * 1024"
definition MAX_BINDINGS :: nat where "MAX_BINDINGS = 2000"

definition empty_store :: thread_store where
  "empty_store = \<lparr>ts_bindings = [], ts_initialized = False\<rparr>"

section \<open>The map\<close>

text \<open>\<^verbatim>\<open>map.set(v.runId, v)\<close>: in place if the key is there, at the end otherwise.\<close>

definition map_set :: "thread_binding \<Rightarrow> thread_binding list \<Rightarrow> thread_binding list" where
  "map_set v xs =
     (if list_ex (\<lambda>x. tb_run_id x = tb_run_id v) xs
      then map (\<lambda>x. if tb_run_id x = tb_run_id v then v else x) xs
      else xs @ [v])"

definition map_get :: "thread_binding list \<Rightarrow> jstr \<Rightarrow> thread_binding option" where
  "map_get xs runId = find (\<lambda>x. tb_run_id x = runId) xs"

definition map_delete :: "jstr \<Rightarrow> thread_binding list \<Rightarrow> thread_binding list" where
  "map_delete runId xs = filter (\<lambda>x. tb_run_id x \<noteq> runId) xs"

lemma map_set_keys:
  "map tb_run_id (map_set v xs) =
     (if tb_run_id v \<in> set (map tb_run_id xs) then map tb_run_id xs else map tb_run_id xs @ [tb_run_id v])"
proof (cases "list_ex (\<lambda>x. tb_run_id x = tb_run_id v) xs")
  case True
  then have "map tb_run_id (map (\<lambda>x. if tb_run_id x = tb_run_id v then v else x) xs) = map tb_run_id xs"
    by simp
  moreover from True have "tb_run_id v \<in> set (map tb_run_id xs)" by (auto simp: list_ex_iff) (metis imageI)
  ultimately show ?thesis using True by (simp only: map_set_def if_True)
next
  case False
  then show ?thesis by (auto simp: map_set_def list_ex_iff)
qed

interpretation thread_map: keyed_store "\<lambda>xs. xs" "tb_run_id :: thread_binding \<Rightarrow> jstr" map_set
proof unfold_locales
  fix v :: thread_binding and s
  show "v \<in> set (map_set v s)" by (auto simp: map_set_def list_ex_iff)
next
  fix x v :: thread_binding and s
  assume "x \<in> set (map_set v s)"
  then show "x = v \<or> x \<in> set s \<and> tb_run_id x \<noteq> tb_run_id v"
    by (auto simp: map_set_def list_ex_iff split: if_splits)
next
  fix s :: "thread_binding list" and v
  assume "distinct (map tb_run_id s)"
  then show "distinct (map tb_run_id (map_set v s))" unfolding map_set_keys by auto
qed

lemma map_get_lookup: "map_get xs r = thread_map.lookup xs r"
  by (simp add: map_get_def thread_map.lookup_def)

lemma map_get_set_same [simp]: "map_get (map_set v xs) (tb_run_id v) = Some v"
  by (simp add: map_get_lookup thread_map.lookup_put_same)

lemma find_map_other:
  "r \<noteq> tb_run_id v \<Longrightarrow> find (\<lambda>x. tb_run_id x = r) (map (\<lambda>x. if tb_run_id x = tb_run_id v then v else x) xs)
     = find (\<lambda>x. tb_run_id x = r) xs"
  by (induction xs) auto

lemma map_get_set_other: "r \<noteq> tb_run_id v \<Longrightarrow> map_get (map_set v xs) r = map_get xs r"
  by (auto simp: map_get_def map_set_def find_map_other find_append split: option.splits)

lemma map_get_Some: "map_get xs r = Some b \<Longrightarrow> b \<in> set xs \<and> tb_run_id b = r"
  by (auto simp: map_get_def find_Some_iff)

lemma map_get_filter:
  "(\<And>x. x \<in> set xs \<Longrightarrow> tb_run_id x = r \<Longrightarrow> P x) \<Longrightarrow> map_get (filter P xs) r = map_get xs r"
  by (induction xs) (auto simp: map_get_def)

lemma map_get_delete: "map_get (map_delete d xs) r = (if r = d then None else map_get xs r)"
proof (cases "r = d")
  case True
  then show ?thesis by (auto simp: map_get_def map_delete_def find_None_iff)
next
  case False
  then show ?thesis by (simp add: map_delete_def map_get_filter)
qed

section \<open>Validation\<close>

definition id_forbidden :: "nat \<Rightarrow> bool" where
  "id_forbidden c \<longleftrightarrow> c = 13 \<or> c = 10 \<or> c = 0"

definition valid_identifier :: "nat \<Rightarrow> jstr \<Rightarrow> bool" where
  "valid_identifier hi s \<longleftrightarrow> s \<noteq> [] \<and> length s \<le> hi \<and> \<not> list_ex id_forbidden s"

definition validate_identifier :: "js \<Rightarrow> string \<Rightarrow> jstr res" where
  "validate_identifier v label =
     (case v of
        JStr s \<Rightarrow> if valid_identifier 128 s then Inr s else throw (label @ '' is invalid'')
      | _ \<Rightarrow> throw (label @ '' is invalid''))"

definition timestamp_field :: "(jstr \<Rightarrow> bool) \<Rightarrow> js \<Rightarrow> string \<Rightarrow> jstr res" where
  "timestamp_field date_ok v message = (case v of
       JStr s \<Rightarrow> if date_ok s then Inr s else throw message
     | _ \<Rightarrow> throw message)"

definition validate_binding :: "path_ops \<Rightarrow> (jstr \<Rightarrow> bool) \<Rightarrow> js \<Rightarrow> thread_binding res" where
  "validate_binding paths date_ok v =
     (if \<not> is_record v then throw ''invalid Codex thread binding''
      else and_then (validate_identifier (jget v ''runId'') ''Codex run id'') (\<lambda>r.
        and_then (validate_identifier (jget v ''workspaceId'') ''Codex workspace id'') (\<lambda>w.
        and_then (validate_identifier (jget v ''threadId'') ''Codex thread id'') (\<lambda>t.
        and_then (case jget v ''cwd'' of
            JStr s \<Rightarrow> if is_absolute paths s then Inr s else throw ''invalid Codex binding cwd''
          | _ \<Rightarrow> throw ''invalid Codex binding cwd'') (\<lambda>cwd.
        and_then (timestamp_field date_ok (jget v ''createdAt'') ''invalid Codex binding createdAt'') (\<lambda>c.
        and_then (timestamp_field date_ok (jget v ''updatedAt'') ''invalid Codex binding updatedAt'') (\<lambda>u.
          Inr \<lparr>tb_run_id = r, tb_workspace_id = w, tb_cwd = resolve_path paths cwd, tb_thread_id = t,
               tb_created_at = c, tb_updated_at = u\<rparr>)))))))"

fun reject_duplicates :: "jstr list \<Rightarrow> thread_binding list \<Rightarrow> unit res" where
  "reject_duplicates seen [] = Inr ()"
| "reject_duplicates seen (b # bs) =
     (if tb_run_id b \<in> set seen then throw ''duplicate Codex run binding''
      else reject_duplicates (tb_run_id b # seen) bs)"

definition read_registry ::
    "(jstr \<Rightarrow> js option) \<Rightarrow> path_ops \<Rightarrow> (jstr \<Rightarrow> bool) \<Rightarrow> file_read \<Rightarrow> thread_binding list res" where
  "read_registry json_parse paths date_ok file =
     (case file of
        FileMissing \<Rightarrow> Inr []
      | FileError \<Rightarrow> throw ''read failed''
      | FileText raw \<Rightarrow>
          if utf8_len raw > MAX_FILE_BYTES then throw ''Codex thread registry exceeds 512 KiB''
          else (case json_parse raw of
              None \<Rightarrow> throw ''SyntaxError''
            | Some parsed \<Rightarrow>
                if is_nullish parsed then throw ''TypeError''
                else (case jget parsed ''bindings'' of
                    JArr items \<Rightarrow>
                      if jget parsed ''schemaVersion'' \<noteq> jint 1 \<or> length items > MAX_BINDINGS
                      then throw ''unsupported Codex thread registry schema''
                      else and_then (map_res (validate_binding paths date_ok) items) (\<lambda>bs.
                           and_then (reject_duplicates [] bs) (\<lambda>_. Inr bs))
                  | _ \<Rightarrow> throw ''unsupported Codex thread registry schema'')))"

section \<open>Operations\<close>

definition store_initialize ::
    "(jstr \<Rightarrow> js option) \<Rightarrow> path_ops \<Rightarrow> (jstr \<Rightarrow> bool) \<Rightarrow> thread_store \<Rightarrow> file_read \<Rightarrow> unit res \<times> thread_store" where
  "store_initialize json_parse paths date_ok s file =
     (if ts_initialized s then (Inr (), s)
      else (case read_registry json_parse paths date_ok file of
          Inl e \<Rightarrow> (Inl e, s)
        | Inr bs \<Rightarrow> (Inr (), \<lparr>ts_bindings = bs, ts_initialized = True\<rparr>)))"

definition assert_store_initialized :: "thread_store \<Rightarrow> unit res" where
  "assert_store_initialized s = (if ts_initialized s then Inr () else throw ''Codex thread store is not initialized'')"

definition store_get :: "thread_store \<Rightarrow> jstr \<Rightarrow> thread_binding option res" where
  "store_get s runId = and_then (assert_store_initialized s) (\<lambda>_. Inr (map_get (ts_bindings s) runId))"

text \<open>\<open>compare a b\<close> is \<^verbatim>\<open>a.localeCompare(b)\<close>.\<close>

definition store_list :: "(jstr \<Rightarrow> jstr \<Rightarrow> int) \<Rightarrow> thread_store \<Rightarrow> thread_binding list res" where
  "store_list compare s = and_then (assert_store_initialized s) (\<lambda>_.
     Inr (sort_by (\<lambda>l r. compare (tb_updated_at l) (tb_updated_at r) \<le> 0) (ts_bindings s)))"

text \<open>\<open>persist bs\<close> is the outcome of writing the registry of \<open>bs\<close>.\<close>

type_synonym registry_writer = "thread_binding list \<Rightarrow> unit res"

definition enqueue_write :: "registry_writer \<Rightarrow> thread_store \<Rightarrow> unit res" where
  "enqueue_write persist s = persist (ts_bindings s)"

definition check_bind_ids :: "path_ops \<Rightarrow> bind_input \<Rightarrow> unit res" where
  "check_bind_ids paths inp =
     and_then (validate_identifier (JStr (bi_run_id inp)) ''Codex run id'') (\<lambda>_.
     and_then (validate_identifier (JStr (bi_workspace_id inp)) ''Codex workspace id'') (\<lambda>_.
     and_then (validate_identifier (JStr (bi_thread_id inp)) ''Codex thread id'') (\<lambda>_.
       if is_absolute paths (bi_cwd inp) then Inr () else throw ''Codex binding cwd must be absolute'')))"

definition check_same_scope :: "path_ops \<Rightarrow> thread_binding option \<Rightarrow> bind_input \<Rightarrow> unit res" where
  "check_same_scope paths existing inp =
     (case existing of
        None \<Rightarrow> Inr ()
      | Some b \<Rightarrow> if tb_workspace_id b \<noteq> bi_workspace_id inp \<or> tb_cwd b \<noteq> resolve_path paths (bi_cwd inp)
          then throw ''Codex Harness run is already bound to a different workspace'' else Inr ())"

definition store_bind ::
    "path_ops \<Rightarrow> registry_writer \<Rightarrow> jstr \<Rightarrow> thread_store \<Rightarrow> bind_input \<Rightarrow> thread_binding res \<times> thread_store" where
  "store_bind paths persist timestamp s inp =
     (let existing = map_get (ts_bindings s) (bi_run_id inp) in
      case and_then (assert_store_initialized s) (\<lambda>_.
           and_then (check_same_scope paths existing inp) (\<lambda>_.
           and_then (case existing of
               Some b \<Rightarrow> if tb_thread_id b \<noteq> bi_thread_id inp
                 then throw ''Codex Harness run is already bound to a different Codex thread'' else Inr ()
             | None \<Rightarrow> Inr ()) (\<lambda>_.
             check_bind_ids paths inp))) of
        Inl e \<Rightarrow> (Inl e, s)
      | Inr _ \<Rightarrow>
          let binding = (case existing of
                Some b \<Rightarrow> b\<lparr>tb_updated_at := timestamp\<rparr>
              | None \<Rightarrow> \<lparr>tb_run_id = bi_run_id inp, tb_workspace_id = bi_workspace_id inp,
                          tb_cwd = resolve_path paths (bi_cwd inp), tb_thread_id = bi_thread_id inp,
                          tb_created_at = timestamp, tb_updated_at = timestamp\<rparr>);
              s' = s\<lparr>ts_bindings := map_set binding (ts_bindings s)\<rparr>
          in (and_then (enqueue_write persist s') (\<lambda>_. Inr binding), s'))"

definition same_conversation :: "jstr \<Rightarrow> bind_input \<Rightarrow> thread_binding \<Rightarrow> bool" where
  "same_conversation cwd inp b \<longleftrightarrow> tb_workspace_id b = bi_workspace_id inp \<and> tb_cwd b = cwd
     \<and> tb_thread_id b = bi_thread_id inp"

definition store_rebind ::
    "path_ops \<Rightarrow> registry_writer \<Rightarrow> jstr \<Rightarrow> thread_store \<Rightarrow> bind_input \<Rightarrow> thread_binding res \<times> thread_store" where
  "store_rebind paths persist timestamp s inp =
     (let existing = map_get (ts_bindings s) (bi_run_id inp) in
      case and_then (assert_store_initialized s) (\<lambda>_.
           and_then (check_bind_ids paths inp) (\<lambda>_. check_same_scope paths existing inp)) of
        Inl e \<Rightarrow> (Inl e, s)
      | Inr _ \<Rightarrow>
          let cwd = resolve_path paths (bi_cwd inp);
              kept = filter (\<lambda>b. tb_run_id b = bi_run_id inp \<or> \<not> same_conversation cwd inp b) (ts_bindings s);
              binding = \<lparr>tb_run_id = bi_run_id inp, tb_workspace_id = bi_workspace_id inp, tb_cwd = cwd,
                 tb_thread_id = bi_thread_id inp,
                 tb_created_at = (case existing of Some b \<Rightarrow> tb_created_at b | None \<Rightarrow> timestamp),
                 tb_updated_at = timestamp\<rparr>;
              s' = s\<lparr>ts_bindings := map_set binding kept\<rparr>
          in (and_then (enqueue_write persist s') (\<lambda>_. Inr binding), s'))"

definition store_remove :: "registry_writer \<Rightarrow> thread_store \<Rightarrow> jstr \<Rightarrow> bool res \<times> thread_store" where
  "store_remove persist s runId =
     (case assert_store_initialized s of
        Inl e \<Rightarrow> (Inl e, s)
      | Inr _ \<Rightarrow>
          let removed = (map_get (ts_bindings s) runId \<noteq> None);
              s' = s\<lparr>ts_bindings := map_delete runId (ts_bindings s)\<rparr>
          in (if removed then and_then (enqueue_write persist s') (\<lambda>_. Inr True) else Inr False, s'))"

definition store_remove_workspace :: "registry_writer \<Rightarrow> thread_store \<Rightarrow> jstr \<Rightarrow> jstr list res \<times> thread_store" where
  "store_remove_workspace persist s workspaceId =
     (case and_then (assert_store_initialized s) (\<lambda>_. validate_identifier (JStr workspaceId) ''Codex workspace id'') of
        Inl e \<Rightarrow> (Inl e, s)
      | Inr _ \<Rightarrow>
          let removed = map tb_run_id (filter (\<lambda>b. tb_workspace_id b = workspaceId) (ts_bindings s));
              s' = s\<lparr>ts_bindings := filter (\<lambda>b. tb_workspace_id b \<noteq> workspaceId) (ts_bindings s)\<rparr>
          in (if removed \<noteq> [] then and_then (enqueue_write persist s') (\<lambda>_. Inr removed) else Inr [], s'))"

section \<open>Invariant\<close>

definition binding_ok :: "thread_binding \<Rightarrow> bool" where
  "binding_ok b \<longleftrightarrow> valid_identifier 128 (tb_run_id b) \<and> valid_identifier 128 (tb_workspace_id b)
     \<and> valid_identifier 128 (tb_thread_id b)"

definition store_ok :: "thread_store \<Rightarrow> bool" where
  "store_ok s \<longleftrightarrow> distinct (map tb_run_id (ts_bindings s)) \<and> list_all binding_ok (ts_bindings s)"

lemma validate_identifier_Inr: "validate_identifier v l = Inr s \<longleftrightarrow> v = JStr s \<and> valid_identifier 128 s"
  by (auto simp: validate_identifier_def split: js.splits if_splits)

lemma check_bind_ids_Inr:
  "check_bind_ids paths inp = Inr () \<longleftrightarrow> valid_identifier 128 (bi_run_id inp)
     \<and> valid_identifier 128 (bi_workspace_id inp) \<and> valid_identifier 128 (bi_thread_id inp)
     \<and> is_absolute paths (bi_cwd inp)"
  by (auto simp: check_bind_ids_def validate_identifier_Inr)

lemma validate_binding_ok: "validate_binding paths d v = Inr b \<Longrightarrow> binding_ok b"
  by (auto simp: validate_binding_def binding_ok_def validate_identifier_Inr split: if_splits)

lemma reject_duplicates_Inr:
  "reject_duplicates seen bs = Inr () \<longleftrightarrow> distinct (map tb_run_id bs) \<and> (\<forall>b\<in>set bs. tb_run_id b \<notin> set seen)"
proof (induction seen bs rule: reject_duplicates.induct)
  case (2 seen b bs)
  show ?case
  proof (cases "tb_run_id b \<in> set seen")
    case False
    with "2.IH" [OF False] show ?thesis by (simp only: reject_duplicates.simps if_False) (auto simp: image_iff)
  qed simp
qed simp

lemma read_registry_ok:
  assumes "read_registry p paths d f = Inr bs"
  shows "distinct (map tb_run_id bs) \<and> list_all binding_ok bs \<and> length bs \<le> MAX_BINDINGS"
proof (cases "bs = []")
  case False
  with assms obtain items where m: "map_res (validate_binding paths d) items = Inr bs"
    and l: "length items \<le> MAX_BINDINGS" and r: "reject_duplicates [] bs = Inr ()"
    by (auto simp: read_registry_def split: file_read.splits if_splits option.splits js.splits)
  from map_res_length [OF m] l r map_res_in [OF m] show ?thesis
    by (auto simp: reject_duplicates_Inr list_all_iff intro: validate_binding_ok)
qed simp

lemma map_set_ok:
  "distinct (map tb_run_id bs) \<Longrightarrow> list_all binding_ok bs \<Longrightarrow> binding_ok b \<Longrightarrow>
     distinct (map tb_run_id (map_set b bs)) \<and> list_all binding_ok (map_set b bs)"
  using thread_map.put_only [of _ b bs] thread_map.put_distinct [of bs b] by (auto simp: list_all_iff)

lemma filter_ok:
  "distinct (map tb_run_id bs) \<Longrightarrow> list_all binding_ok bs \<Longrightarrow>
     distinct (map tb_run_id (filter P bs)) \<and> list_all binding_ok (filter P bs)"
  by (auto simp: list_all_iff distinct_map_filter)

datatype store_event =
    StInit file_read
  | StBind jstr bind_input
  | StRebind jstr bind_input
  | StRemove jstr
  | StRemoveWorkspace jstr

fun store_step ::
    "(jstr \<Rightarrow> js option) \<Rightarrow> path_ops \<Rightarrow> (jstr \<Rightarrow> bool) \<Rightarrow> registry_writer \<Rightarrow> thread_store \<Rightarrow> store_event \<Rightarrow> thread_store" where
  "store_step jp paths d persist s (StInit f) = snd (store_initialize jp paths d s f)"
| "store_step jp paths d persist s (StBind t inp) = snd (store_bind paths persist t s inp)"
| "store_step jp paths d persist s (StRebind t inp) = snd (store_rebind paths persist t s inp)"
| "store_step jp paths d persist s (StRemove r) = snd (store_remove persist s r)"
| "store_step jp paths d persist s (StRemoveWorkspace w) = snd (store_remove_workspace persist s w)"

text \<open>What a call of \<^verbatim>\<open>bind\<close> or \<^verbatim>\<open>rebind\<close> does to the map.\<close>

lemma store_bind_cases:
  obtains (unchanged) e where "store_bind paths persist t s inp = (Inl e, s)"
  | (new) b where "map_get (ts_bindings s) (bi_run_id inp) = None" "ts_initialized s"
      "check_bind_ids paths inp = Inr ()"
      "b = \<lparr>tb_run_id = bi_run_id inp, tb_workspace_id = bi_workspace_id inp, tb_cwd = resolve_path paths (bi_cwd inp),
            tb_thread_id = bi_thread_id inp, tb_created_at = t, tb_updated_at = t\<rparr>"
      "store_bind paths persist t s inp = (and_then (persist (map_set b (ts_bindings s))) (\<lambda>_. Inr b),
         s\<lparr>ts_bindings := map_set b (ts_bindings s)\<rparr>)"
  | (touched) b where "map_get (ts_bindings s) (bi_run_id inp) = Some b" "ts_initialized s"
      "tb_workspace_id b = bi_workspace_id inp" "tb_cwd b = resolve_path paths (bi_cwd inp)"
      "tb_thread_id b = bi_thread_id inp"
      "store_bind paths persist t s inp = (and_then (persist (map_set (b\<lparr>tb_updated_at := t\<rparr>) (ts_bindings s)))
           (\<lambda>_. Inr (b\<lparr>tb_updated_at := t\<rparr>)),
         s\<lparr>ts_bindings := map_set (b\<lparr>tb_updated_at := t\<rparr>) (ts_bindings s)\<rparr>)"
proof (cases "map_get (ts_bindings s) (bi_run_id inp)")
  case None
  then show ?thesis
    using unchanged new
    by (cases "ts_initialized s"; cases "check_bind_ids paths inp")
      (auto simp: store_bind_def Let_def assert_store_initialized_def throw_def check_same_scope_def enqueue_write_def)
next
  case (Some b)
  then show ?thesis
    using unchanged touched
    by (cases "ts_initialized s"; cases "check_bind_ids paths inp"; cases "check_same_scope paths (Some b) inp";
        cases "tb_thread_id b = bi_thread_id inp")
      (auto simp: store_bind_def Let_def assert_store_initialized_def throw_def check_same_scope_def [of _ "Some b"]
        enqueue_write_def split: if_splits)
qed

lemma store_rebind_cases:
  obtains (unchanged) e where "store_rebind paths persist t s inp = (Inl e, s)"
  | (bound) b kept where "ts_initialized s" "check_bind_ids paths inp = Inr ()"
      "check_same_scope paths (map_get (ts_bindings s) (bi_run_id inp)) inp = Inr ()"
      "b = \<lparr>tb_run_id = bi_run_id inp, tb_workspace_id = bi_workspace_id inp, tb_cwd = resolve_path paths (bi_cwd inp),
            tb_thread_id = bi_thread_id inp,
            tb_created_at = (case map_get (ts_bindings s) (bi_run_id inp) of Some b \<Rightarrow> tb_created_at b | None \<Rightarrow> t),
            tb_updated_at = t\<rparr>"
      "kept = filter (\<lambda>x. tb_run_id x = bi_run_id inp \<or> \<not> same_conversation (resolve_path paths (bi_cwd inp)) inp x) (ts_bindings s)"
      "store_rebind paths persist t s inp = (and_then (persist (map_set b kept)) (\<lambda>_. Inr b), s\<lparr>ts_bindings := map_set b kept\<rparr>)"
  by (cases "ts_initialized s"; cases "check_bind_ids paths inp";
      cases "check_same_scope paths (map_get (ts_bindings s) (bi_run_id inp)) inp")
    (auto simp: store_rebind_def Let_def assert_store_initialized_def throw_def enqueue_write_def)

lemma store_bind_ok:
  assumes "store_ok s" shows "store_ok (snd (store_bind paths persist t s inp))"
proof (cases rule: store_bind_cases [of paths persist t s inp])
  case (new b)
  then have "binding_ok b" by (simp add: binding_ok_def check_bind_ids_Inr)
  with new(5) assms map_set_ok show ?thesis by (simp add: store_ok_def)
next
  case (touched b)
  with assms have "binding_ok (b\<lparr>tb_updated_at := t\<rparr>)"
    by (auto simp: store_ok_def list_all_iff binding_ok_def dest!: map_get_Some)
  with touched(6) assms map_set_ok show ?thesis by (simp add: store_ok_def)
qed (use assms in simp)

lemma store_rebind_ok:
  assumes "store_ok s" shows "store_ok (snd (store_rebind paths persist t s inp))"
proof (cases rule: store_rebind_cases [of paths persist t s inp])
  case (bound b kept)
  then have "binding_ok b" by (simp add: binding_ok_def check_bind_ids_Inr)
  moreover from assms bound(5) have "distinct (map tb_run_id kept) \<and> list_all binding_ok kept"
    by (simp add: store_ok_def filter_ok)
  ultimately show ?thesis using bound(6) map_set_ok by (simp add: store_ok_def)
qed (use assms in simp)

lemma store_remove_ok: "store_ok s \<Longrightarrow> store_ok (snd (store_remove persist s r))"
  by (auto simp: store_remove_def map_delete_def Let_def store_ok_def filter_ok split: sum.splits)

lemma store_remove_workspace_ok: "store_ok s \<Longrightarrow> store_ok (snd (store_remove_workspace persist s w))"
  by (auto simp: store_remove_workspace_def Let_def store_ok_def filter_ok split: sum.splits)

lemma store_initialize_ok: "store_ok s \<Longrightarrow> store_ok (snd (store_initialize jp paths d s f))"
  using read_registry_ok [of jp paths d f] by (auto simp: store_initialize_def store_ok_def split: sum.splits)

lemma store_step_ok: "store_ok s \<Longrightarrow> store_ok (store_step jp paths d persist s e)"
  by (cases e) (simp_all add: store_initialize_ok store_bind_ok store_rebind_ok store_remove_ok store_remove_workspace_ok)

interpretation thread_store: machine "\<lambda>s. s = empty_store" "store_step jp paths d persist" store_ok
  for jp :: "jstr \<Rightarrow> js option" and paths :: path_ops and d :: "jstr \<Rightarrow> bool" and persist :: registry_writer
  by unfold_locales (auto intro: store_step_ok simp: empty_store_def store_ok_def [of "\<lparr>ts_bindings = [], ts_initialized = False\<rparr>"])

subsection \<open>Refinement of a map\<close>

text \<open>
  What the store promises, without lists, order or files: a partial map from runs to bindings
  and whether it has been read.
\<close>

type_synonym run_map = "bool \<times> (jstr \<rightharpoonup> thread_binding)"

definition may_bind :: "path_ops \<Rightarrow> bind_input \<Rightarrow> thread_binding \<Rightarrow> bool" where
  "may_bind paths inp b \<longleftrightarrow> tb_workspace_id b = bi_workspace_id inp \<and> tb_cwd b = resolve_path paths (bi_cwd inp)"

definition fresh_binding :: "path_ops \<Rightarrow> bind_input \<Rightarrow> jstr \<Rightarrow> jstr \<Rightarrow> thread_binding" where
  "fresh_binding paths inp created updated =
     \<lparr>tb_run_id = bi_run_id inp, tb_workspace_id = bi_workspace_id inp, tb_cwd = resolve_path paths (bi_cwd inp),
      tb_thread_id = bi_thread_id inp, tb_created_at = created, tb_updated_at = updated\<rparr>"

fun spec_step :: "(jstr \<Rightarrow> js option) \<Rightarrow> path_ops \<Rightarrow> (jstr \<Rightarrow> bool) \<Rightarrow> run_map \<Rightarrow> store_event \<Rightarrow> run_map" where
  "spec_step jp paths d (i, m) (StInit f) =
     (if i then (i, m)
      else case read_registry jp paths d f of
          Inl e \<Rightarrow> (i, m)
        | Inr bs \<Rightarrow> (True, map_of (map (\<lambda>b. (tb_run_id b, b)) bs)))"
| "spec_step jp paths d (i, m) (StBind t inp) =
     (if \<not> i \<or> check_bind_ids paths inp \<noteq> Inr () then (i, m)
      else case m (bi_run_id inp) of
          None \<Rightarrow> (i, m(bi_run_id inp \<mapsto> fresh_binding paths inp t t))
        | Some b \<Rightarrow> if may_bind paths inp b \<and> tb_thread_id b = bi_thread_id inp
            then (i, m(bi_run_id inp \<mapsto> b\<lparr>tb_updated_at := t\<rparr>)) else (i, m))"
| "spec_step jp paths d (i, m) (StRebind t inp) =
     (if \<not> i \<or> check_bind_ids paths inp \<noteq> Inr () \<or> \<not> pred_option (may_bind paths inp) (m (bi_run_id inp)) then (i, m)
      else (i, (\<lambda>r. if pred_option (same_conversation (resolve_path paths (bi_cwd inp)) inp) (m r) then None else m r)
             (bi_run_id inp \<mapsto> fresh_binding paths inp
               (case m (bi_run_id inp) of Some b \<Rightarrow> tb_created_at b | None \<Rightarrow> t) t)))"
| "spec_step jp paths d (i, m) (StRemove r) = (i, if i then m(r := None) else m)"
| "spec_step jp paths d (i, m) (StRemoveWorkspace w) =
     (i, if i \<and> valid_identifier 128 w then (\<lambda>r. if pred_option (\<lambda>b. tb_workspace_id b = w) (m r) then None else m r) else m)"

definition abstract_store :: "thread_store \<Rightarrow> run_map" where
  "abstract_store s = (ts_initialized s, map_get (ts_bindings s))"

lemma map_get_filter_distinct:
  "distinct (map tb_run_id xs) \<Longrightarrow> map_get (filter P xs) r = (case map_get xs r of Some b \<Rightarrow> if P b then Some b else None | None \<Rightarrow> None)"
proof (induction xs)
  case (Cons x xs)
  have "map_get xs (tb_run_id x) = None"
    using Cons.prems by (auto simp: map_get_def find_None_iff image_iff)
  with Cons show ?case by (auto simp: map_get_def)
qed (simp add: map_get_def)

lemma map_get_map_set: "map_get (map_set v xs) = (map_get xs)(tb_run_id v \<mapsto> v)"
  by (rule ext) (simp add: map_get_set_other)

lemma map_get_map_of: "map_get bs = map_of (map (\<lambda>b. (tb_run_id b, b)) bs)"
  by (rule ext, induction bs) (simp_all add: map_get_def)

lemma check_same_scope_iff: "check_same_scope paths x inp = Inr () \<longleftrightarrow> pred_option (may_bind paths inp) x"
  by (cases x) (auto simp: check_same_scope_def may_bind_def)

lemma sim_bind:
  "abstract_store (snd (store_bind paths persist t s inp)) = spec_step jp paths d (abstract_store s) (StBind t inp)"
proof (cases "map_get (ts_bindings s) (bi_run_id inp)")
  case None
  then show ?thesis
    by (cases "ts_initialized s"; cases "check_bind_ids paths inp")
      (auto simp: store_bind_def Let_def assert_store_initialized_def throw_def check_same_scope_def abstract_store_def
        map_get_map_set fresh_binding_def)
next
  case (Some b)
  then have [simp]: "tb_run_id b = bi_run_id inp" by (auto dest: map_get_Some)
  from Some show ?thesis
    by (cases "ts_initialized s"; cases "check_bind_ids paths inp"; cases "may_bind paths inp b";
        cases "tb_thread_id b = bi_thread_id inp")
      (auto simp: store_bind_def Let_def assert_store_initialized_def throw_def check_same_scope_def abstract_store_def
        map_get_map_set may_bind_def)
qed

lemma sim_rebind:
  assumes "store_ok s"
  shows "abstract_store (snd (store_rebind paths persist t s inp)) = spec_step jp paths d (abstract_store s) (StRebind t inp)"
proof -
  let ?cwd = "resolve_path paths (bi_cwd inp)"
  let ?kept = "filter (\<lambda>b. tb_run_id b = bi_run_id inp \<or> \<not> same_conversation ?cwd inp b) (ts_bindings s)"
  from assms have d: "distinct (map tb_run_id (ts_bindings s))" by (simp add: store_ok_def)
  have k: "(map_get ?kept)(bi_run_id inp \<mapsto> v)
      = (\<lambda>r. if pred_option (same_conversation ?cwd inp) (map_get (ts_bindings s) r) then None
             else map_get (ts_bindings s) r)(bi_run_id inp \<mapsto> v)" for v
    by (rule ext) (auto simp: map_get_filter_distinct [OF d] dest: map_get_Some split: option.splits)
  show ?thesis
  proof (cases "ts_initialized s \<and> check_bind_ids paths inp = Inr ()
      \<and> check_same_scope paths (map_get (ts_bindings s) (bi_run_id inp)) inp = Inr ()")
    case True
    then have "pred_option (may_bind paths inp) (map_get (ts_bindings s) (bi_run_id inp))"
      by (simp add: check_same_scope_iff)
    with True show ?thesis
      by (simp add: store_rebind_def Let_def assert_store_initialized_def abstract_store_def map_get_map_set fresh_binding_def k)
  next
    case False
    then have "snd (store_rebind paths persist t s inp) = s"
      by (cases rule: store_rebind_cases [of paths persist t s inp]) auto
    with False show ?thesis by (auto simp: abstract_store_def check_same_scope_iff)
  qed
qed

lemma sim_remove:
  "abstract_store (snd (store_remove persist s r)) = spec_step jp paths d (abstract_store s) (StRemove r)"
  by (auto simp: store_remove_def assert_store_initialized_def Let_def abstract_store_def map_get_delete throw_def fun_eq_iff)

lemma sim_remove_workspace:
  assumes "store_ok s"
  shows "abstract_store (snd (store_remove_workspace persist s w)) = spec_step jp paths d (abstract_store s) (StRemoveWorkspace w)"
proof -
  from assms have d: "distinct (map tb_run_id (ts_bindings s))" by (simp add: store_ok_def)
  show ?thesis
    by (auto simp: store_remove_workspace_def assert_store_initialized_def validate_identifier_def Let_def abstract_store_def
        throw_def fun_eq_iff map_get_filter_distinct [OF d] split: option.splits)
qed

lemma sim_init:
  "abstract_store (snd (store_initialize jp paths d s f)) = spec_step jp paths d (abstract_store s) (StInit f)"
  by (auto simp: store_initialize_def abstract_store_def map_get_map_of split: sum.splits)

interpretation thread_refinement:
  simulation "\<lambda>s. s = empty_store" "store_step jp paths d persist" store_ok abstract_store "spec_step jp paths d"
  for jp :: "jstr \<Rightarrow> js option" and paths :: path_ops and d :: "jstr \<Rightarrow> bool" and persist :: registry_writer
proof unfold_locales
  fix s e
  assume "store_ok s"
  then show "abstract_store (store_step jp paths d persist s e) = spec_step jp paths d (abstract_store s) e"
    by (cases e) (simp_all only: store_step.simps sim_init sim_bind sim_rebind sim_remove sim_remove_workspace)
qed

section \<open>Properties\<close>

text \<open>
  C27: After any sequence of operations, whatever the file contained and whichever writes failed,
  a run has at most one binding and every binding has a run, workspace and thread id of 1 to
  128 characters without line breaks or NUL.
\<close>

theorem thread_bindings_unique:
  "distinct (map tb_run_id (ts_bindings (foldl (store_step jp paths d persist) empty_store es)))
   \<and> list_all binding_ok (ts_bindings (foldl (store_step jp paths d persist) empty_store es))"
  using thread_store.inv_reachable [of empty_store jp paths d persist es] by (simp add: store_ok_def)

text \<open>
  C28: The store implements its specification: after any sequence of operations, whichever writes of the
  file failed, looking up a run gives what the abstract map holds after the same sequence.
\<close>

theorem thread_store_refines_map:
  "store_get (foldl (store_step jp paths d persist) empty_store es) r =
     (case foldl (spec_step jp paths d) (False, Map.empty) es of
        (i, m) \<Rightarrow> if i then Inr (m r) else throw ''Codex thread store is not initialized'')"
proof -
  have "abstract_store empty_store = (False, Map.empty)"
    by (auto simp: abstract_store_def empty_store_def map_get_def)
  with thread_refinement.sim_reachable [of empty_store jp paths d persist es]
  have "abstract_store (foldl (store_step jp paths d persist) empty_store es) = foldl (spec_step jp paths d) (False, Map.empty) es"
    by simp
  then show ?thesis by (auto simp: abstract_store_def store_get_def assert_store_initialized_def throw_def split: prod.splits)
qed

text \<open>
  Binding is conservative: whatever a call of \<^verbatim>\<open>bind\<close> asks for and however it ends, every run
  that was bound before is still bound to the same workspace, directory and thread with the
  same creation time; only \<^verbatim>\<open>rebind\<close> and the removals change what a run is bound to.
\<close>

theorem bind_is_conservative:
  assumes "map_get (ts_bindings s) r = Some b"
  shows "\<exists>b'. map_get (ts_bindings (snd (store_bind paths persist t s inp))) r = Some b'
    \<and> tb_workspace_id b' = tb_workspace_id b \<and> tb_cwd b' = tb_cwd b \<and> tb_thread_id b' = tb_thread_id b
    \<and> tb_created_at b' = tb_created_at b"
proof (cases rule: store_bind_cases [of paths persist t s inp])
  case (new v)
  then have "r \<noteq> tb_run_id v" using assms by auto
  with new(5) assms show ?thesis by (simp add: map_get_set_other)
next
  case (touched v)
  then have id: "tb_run_id v = bi_run_id inp" by (auto dest: map_get_Some)
  show ?thesis
  proof (cases "r = bi_run_id inp")
    case True
    with touched(1) assms have "v = b" by simp
    with touched(6) id True map_get_set_same [of "v\<lparr>tb_updated_at := t\<rparr>" "ts_bindings s"] show ?thesis by simp
  next
    case False
    with touched(6) id assms show ?thesis by (simp add: map_get_set_other)
  qed
qed (use assms in simp)

definition demo_paths :: path_ops where
  "demo_paths = \<lparr>is_absolute = starts_with (lit ''/''), resolve_path = id\<rparr>"

definition demo_binding :: thread_binding where
  "demo_binding = \<lparr>tb_run_id = lit ''r'', tb_workspace_id = lit ''w'', tb_cwd = lit ''/d'', tb_thread_id = lit ''t'',
     tb_created_at = lit ''0'', tb_updated_at = lit ''0''\<rparr>"

theorem bind_is_conservative_witness:
  "\<exists>b'. map_get (ts_bindings (snd (store_bind demo_paths (\<lambda>_. Inr ()) (lit ''1'')
       \<lparr>ts_bindings = [demo_binding], ts_initialized = True\<rparr>
       \<lparr>bi_run_id = lit ''r'', bi_workspace_id = lit ''w'', bi_cwd = lit ''/d'', bi_thread_id = lit ''other''\<rparr>))) (lit ''r'') = Some b'
     \<and> tb_thread_id b' = lit ''t''"
proof -
  have "map_get (ts_bindings \<lparr>ts_bindings = [demo_binding], ts_initialized = True\<rparr>) (lit ''r'') = Some demo_binding"
    by (simp add: map_get_def demo_binding_def)
  from bind_is_conservative [OF this, of demo_paths "\<lambda>_. Inr ()" "lit ''1''"
      "\<lparr>bi_run_id = lit ''r'', bi_workspace_id = lit ''w'', bi_cwd = lit ''/d'', bi_thread_id = lit ''other''\<rparr>"]
  show ?thesis by (auto simp: demo_binding_def)
qed

text \<open>
  Rebinding makes the run the only owner of the conversation: after a successful rebind the
  run is bound to exactly the requested workspace, directory and thread, no other run is bound
  to the same three, its first creation time is kept, and all other bindings are as before.
\<close>

theorem rebind_is_exclusive:
  assumes "store_rebind paths persist t s inp = (Inr b, s')"
  shows "map_get (ts_bindings s') (bi_run_id inp) = Some b
    \<and> same_conversation (resolve_path paths (bi_cwd inp)) inp b
    \<and> list_all (\<lambda>x. same_conversation (resolve_path paths (bi_cwd inp)) inp x \<longrightarrow> x = b) (ts_bindings s')
    \<and> (\<forall>b0. map_get (ts_bindings s) (bi_run_id inp) = Some b0 \<longrightarrow> tb_created_at b = tb_created_at b0)
    \<and> (\<forall>x. tb_run_id x \<noteq> bi_run_id inp \<longrightarrow> \<not> same_conversation (resolve_path paths (bi_cwd inp)) inp x \<longrightarrow>
          (x \<in> set (ts_bindings s') \<longleftrightarrow> x \<in> set (ts_bindings s)))"
proof (cases rule: store_rebind_cases [of paths persist t s inp])
  case (unchanged e)
  with assms show ?thesis by simp
next
  case (bound c kept)
  with assms have [simp]: "c = b" and s': "ts_bindings s' = map_set b kept" by auto
  from bound(4) have id: "tb_run_id b = bi_run_id inp" and same: "same_conversation (resolve_path paths (bi_cwd inp)) inp b"
    by (auto simp: same_conversation_def)
  have sub: "x = b \<or> (x \<in> set kept \<and> tb_run_id x \<noteq> bi_run_id inp)" if "x \<in> set (map_set b kept)" for x
    using thread_map.put_only [OF that] id by simp
  have keep: "x \<in> set (map_set b kept)" if "x \<in> set kept" "tb_run_id x \<noteq> bi_run_id inp" for x
    using that id by (auto simp: map_set_def)
  show ?thesis
    using s' id same sub keep bound(4,5) map_get_set_same [of b kept]
    by (auto simp: list_all_iff)
qed

theorem rebind_is_exclusive_witness:
  "\<exists>b s'. store_rebind demo_paths (\<lambda>_. Inr ()) (lit ''1'') \<lparr>ts_bindings = [demo_binding], ts_initialized = True\<rparr>
       \<lparr>bi_run_id = lit ''q'', bi_workspace_id = lit ''w'', bi_cwd = lit ''/d'', bi_thread_id = lit ''t''\<rparr> = (Inr b, s')
     \<and> map_get (ts_bindings s') (lit ''q'') = Some b"
proof -
  let ?inp = "\<lparr>bi_run_id = lit ''q'', bi_workspace_id = lit ''w'', bi_cwd = lit ''/d'', bi_thread_id = lit ''t''\<rparr>"
  obtain b s' where r: "store_rebind demo_paths (\<lambda>_. Inr ()) (lit ''1'')
      \<lparr>ts_bindings = [demo_binding], ts_initialized = True\<rparr> ?inp = (Inr b, s')"
    by (simp add: store_rebind_def Let_def assert_store_initialized_def check_bind_ids_def validate_identifier_def
        valid_identifier_def id_forbidden_def demo_paths_def starts_with_def check_same_scope_def map_get_def
        demo_binding_def enqueue_write_def lit_def)
  from rebind_is_exclusive [OF r] r show ?thesis by auto
qed

end
