(* ===== verification/Runtime_Pool.thy ===== *)
theory Runtime_Pool
  imports Thread_Store
begin

text \<open>
  The bounded pool of native Codex app-server runtimes (\<^verbatim>\<open>codex-runtime-pool.ts\<close>) over the thread
  store. An entry of the pool is a JavaScript object that a running turn keeps hold of after it
  has left the map, so entries live in a list, never removed, and the map is a list of indices
  into it in insertion order. A host is a parameter: what its methods answer is a
  \<open>host_answers\<close> record, and the thread a host is attached to is kept with its entry.

  The public methods are modelled as the sequence of their steps without interleaving; the
  two waiting loops (\<^verbatim>\<open>waitForThreadWriter\<close>, \<^verbatim>\<open>resumeThreadWhenWritable\<close>) do not change the pool and
  appear as the state and the answer they end with. The sections between two \<^verbatim>\<open>await\<close>s of a turn
  are functions of their own, and the last part of the theory interleaves them.
\<close>

section \<open>Data\<close>

record runtime_entry =
  re_run_id :: jstr
  re_workspace_id :: jstr
  re_cwd :: jstr
  re_thread :: "jstr option"
  re_busy :: bool
  re_last_used :: nat

record pool =
  po_entries :: "runtime_entry list"
  po_runtimes :: "nat list"
  po_writers :: "jstr \<rightharpoonup> jstr"
  po_clock :: nat
  po_max :: nat
  po_initialized :: bool

record skill_invocation =
  sk_name :: jstr
  sk_path :: jstr

record catalog_skill =
  cs_name :: jstr
  cs_path :: jstr
  cs_enabled :: bool

record turn_input =
  ti_run_id :: jstr
  ti_workspace_id :: jstr
  ti_cwd :: jstr
  ti_prompt :: jstr
  ti_skill_roots :: "jstr list option"
  ti_skills :: "skill_invocation list"

record host_answers =
  ha_start :: "unit res"
  ha_resume :: "unit res"
  ha_attached :: "jstr option"
  ha_history :: "js list res"
  ha_catalog :: "catalog_skill list list res"
  ha_turn :: "js res"
  ha_threads :: "jstr list res"
  ha_delete :: "jstr \<Rightarrow> unit res"
  ha_shutdown :: "unit res"

definition DEFAULT_MAX_RUNTIMES :: nat where "DEFAULT_MAX_RUNTIMES = 4"
definition MAX_ACTIVE_SKILLS :: nat where "MAX_ACTIVE_SKILLS = 2"

section \<open>Checks\<close>

definition bounded_integer :: "js \<Rightarrow> nat \<Rightarrow> nat \<Rightarrow> nat \<Rightarrow> nat res" where
  "bounded_integer value fallback minimum maximum =
     (if value = JUndef then Inr fallback
      else (case safe_int value of
          Some i \<Rightarrow> if i < int minimum \<or> i > int maximum then throw ''Codex runtime pool limit is invalid'' else Inr (nat i)
        | None \<Rightarrow> throw ''Codex runtime pool limit is invalid''))"

definition new_pool :: "js \<Rightarrow> pool res" where
  "new_pool maxRuntimes = and_then (bounded_integer maxRuntimes DEFAULT_MAX_RUNTIMES 1 16) (\<lambda>m.
     Inr \<lparr>po_entries = [], po_runtimes = [], po_writers = Map.empty, po_clock = 0, po_max = m, po_initialized = False\<rparr>)"

definition pool_guard :: "pool \<Rightarrow> unit res" where
  "pool_guard p = (if po_initialized p then Inr () else throw ''Codex runtime pool is not initialized'')"

definition pool_initialize ::
    "(jstr \<Rightarrow> js option) \<Rightarrow> path_ops \<Rightarrow> (jstr \<Rightarrow> bool) \<Rightarrow> file_read \<Rightarrow> pool \<Rightarrow> thread_store \<Rightarrow> unit res \<times> pool \<times> thread_store" where
  "pool_initialize json_parse paths date_ok file p s =
     (if po_initialized p then (Inr (), p, s)
      else (case store_initialize json_parse paths date_ok s file of
          (Inl e, s1) \<Rightarrow> (Inl e, p, s1)
        | (Inr _, s1) \<Rightarrow> (Inr (), p\<lparr>po_initialized := True\<rparr>, s1)))"

definition validate_run_id :: "jstr \<Rightarrow> unit res" where
  "validate_run_id r = (if valid_identifier 128 r then Inr () else throw ''Codex run id is invalid'')"

definition validate_workspace_scope :: "path_ops \<Rightarrow> jstr \<Rightarrow> jstr \<Rightarrow> unit res" where
  "validate_workspace_scope paths workspaceId cwd =
     (if \<not> valid_identifier 128 workspaceId then throw ''Codex workspace id is invalid''
      else if \<not> is_absolute paths cwd then throw ''Codex workspace cwd must be absolute'' else Inr ())"

definition validate_turn_input :: "path_ops \<Rightarrow> turn_input \<Rightarrow> unit res" where
  "validate_turn_input paths inp =
     and_then (validate_run_id (ti_run_id inp)) (\<lambda>_.
     and_then (validate_workspace_scope paths (ti_workspace_id inp) (ti_cwd inp)) (\<lambda>_.
       if ti_prompt inp = [] then throw ''Codex prompt must not be empty''
       else if length (ti_skills inp) > MAX_ACTIVE_SKILLS then throw ''Codex P2 supports at most 2 active skills''
       else if ti_skills inp \<noteq> [] \<and> ti_skill_roots inp = None
         then throw ''Codex skill invocations require projected skill roots''
       else if list_ex (\<lambda>r. \<not> is_absolute paths r) (case ti_skill_roots inp of Some rs \<Rightarrow> rs | None \<Rightarrow> [])
         then throw ''Codex skill root must be absolute''
       else if list_ex (\<lambda>k. sk_name k = [] \<or> \<not> is_absolute paths (sk_path k)) (ti_skills inp)
         then throw ''Codex skill invocation is invalid''
       else Inr ()))"

definition validate_resume_input :: "path_ops \<Rightarrow> jstr \<Rightarrow> jstr \<Rightarrow> jstr \<Rightarrow> jstr \<Rightarrow> unit res" where
  "validate_resume_input paths runId workspaceId cwd threadId =
     and_then (validate_run_id runId) (\<lambda>_.
     and_then (validate_workspace_scope paths workspaceId cwd) (\<lambda>_.
       if valid_identifier 256 threadId then Inr () else throw ''Codex thread id is invalid''))"

fun assert_each_skill :: "path_ops \<Rightarrow> catalog_skill list \<Rightarrow> skill_invocation list \<Rightarrow> unit res" where
  "assert_each_skill paths discovered [] = Inr ()"
| "assert_each_skill paths discovered (k # ks) =
     (if list_ex (\<lambda>d. cs_name d = sk_name k \<and> resolve_path paths (cs_path d) = resolve_path paths (sk_path k)) discovered
      then assert_each_skill paths discovered ks
      else Inl (lit ''Codex did not discover requested skill '' @ sk_name k))"

definition assert_skills_available :: "path_ops \<Rightarrow> skill_invocation list \<Rightarrow> catalog_skill list list \<Rightarrow> unit res" where
  "assert_skills_available paths skills response =
     assert_each_skill paths (filter cs_enabled (concat response)) skills"

section \<open>Recognising errors\<close>

text \<open>The text after the first occurrence of \<open>a\<close>.\<close>

fun after :: "jstr \<Rightarrow> jstr \<Rightarrow> jstr option" where
  "after a [] = (if a = [] then Some [] else None)"
| "after a (c # cs) = (if starts_with a (c # cs) then Some (drop (length a) (c # cs)) else after a cs)"

definition precedes :: "jstr \<Rightarrow> jstr \<Rightarrow> jstr \<Rightarrow> bool" where
  "precedes a b s \<longleftrightarrow> (case after a s of Some rest \<Rightarrow> str_includes b rest | None \<Rightarrow> False)"

fun split_lines :: "jstr \<Rightarrow> jstr list" where
  "split_lines [] = [[]]"
| "split_lines (c # cs) =
     (if is_line_end c then [] # split_lines cs
      else (case split_lines cs of [] \<Rightarrow> [[c]] | l # ls \<Rightarrow> (c # l) # ls))"

text \<open>\<^verbatim>\<open>/(?:as).*(?:bs)|(?:bs).*(?:as)/i\<close>, the dot not matching line ends.\<close>

definition mentions_both :: "string list \<Rightarrow> string list \<Rightarrow> jstr \<Rightarrow> bool" where
  "mentions_both as bs message \<longleftrightarrow>
     list_ex (\<lambda>line. list_ex (\<lambda>a. list_ex (\<lambda>b. precedes (lit a) (lit b) line \<or> precedes (lit b) (lit a) line) bs) as)
       (split_lines (map to_lower message))"

definition is_missing_native_thread_error :: "jstr \<Rightarrow> bool" where
  "is_missing_native_thread_error m =
     mentions_both [''thread'', ''conversation''] [''not loaded'', ''not found'', ''does not exist'', ''unknown''] m"

definition is_active_writer_error :: "jstr \<Rightarrow> bool" where
  "is_active_writer_error m = mentions_both [''thread'', ''conversation''] [''active writer''] m"

section \<open>The map of runtimes and the writers\<close>

definition entry_of :: "pool \<Rightarrow> nat \<Rightarrow> runtime_entry" where
  "entry_of p i = po_entries p ! i"

definition runtime_get :: "pool \<Rightarrow> jstr \<Rightarrow> nat option" where
  "runtime_get p runId = find (\<lambda>i. re_run_id (entry_of p i) = runId) (po_runtimes p)"

definition runtime_delete :: "pool \<Rightarrow> nat \<Rightarrow> pool" where
  "runtime_delete p i = p\<lparr>po_runtimes := filter (\<lambda>j. re_run_id (entry_of p j) \<noteq> re_run_id (entry_of p i)) (po_runtimes p)\<rparr>"

definition acquire_thread_writer :: "pool \<Rightarrow> jstr \<Rightarrow> jstr \<Rightarrow> unit res \<times> pool" where
  "acquire_thread_writer p threadId runId =
     (case po_writers p threadId of
        Some _ \<Rightarrow> (throw ''This Codex conversation already has an active turn in another Harness run'', p)
      | None \<Rightarrow> (Inr (), p\<lparr>po_writers := (po_writers p)(threadId \<mapsto> runId)\<rparr>))"

definition release_thread_writer :: "pool \<Rightarrow> jstr \<Rightarrow> jstr \<Rightarrow> pool" where
  "release_thread_writer p threadId runId =
     (if po_writers p threadId = Some runId then p\<lparr>po_writers := (po_writers p)(threadId := None)\<rparr> else p)"

text \<open>
  Deleting an entry from the map and releasing the writer of its thread, as \<^verbatim>\<open>release\<close>,
  \<^verbatim>\<open>cancel\<close>, \<^verbatim>\<open>clearWorkspace\<close>, \<^verbatim>\<open>discardMissingBinding\<close> and \<^verbatim>\<open>makeCapacity\<close> do.
\<close>

definition drop_runtime :: "pool \<Rightarrow> nat \<Rightarrow> pool" where
  "drop_runtime p i =
     (case re_thread (entry_of p i) of
        Some t \<Rightarrow> if t = [] then runtime_delete p i
          else release_thread_writer (runtime_delete p i) t (re_run_id (entry_of p i))
      | None \<Rightarrow> runtime_delete p i)"

text \<open>\<^verbatim>\<open>runtimes.set(runId, \<dots>)\<close> with a fresh entry: the index of an older entry of the run is replaced in place.\<close>

definition register_runtime :: "pool \<Rightarrow> jstr \<Rightarrow> jstr \<Rightarrow> jstr \<Rightarrow> jstr option \<Rightarrow> nat \<times> pool" where
  "register_runtime p runId workspaceId cwd thread =
     (let i = length (po_entries p);
          e = \<lparr>re_run_id = runId, re_workspace_id = workspaceId, re_cwd = cwd, re_thread = thread,
               re_busy = False, re_last_used = Suc (po_clock p)\<rparr>
      in (i, p\<lparr>po_entries := po_entries p @ [e], po_clock := Suc (po_clock p),
               po_runtimes := (case runtime_get p runId of
                   Some old \<Rightarrow> map (\<lambda>j. if j = old then i else j) (po_runtimes p)
                 | None \<Rightarrow> po_runtimes p @ [i])\<rparr>))"

definition least_recent_idle :: "pool \<Rightarrow> nat option" where
  "least_recent_idle p =
     (case sort_by (\<lambda>i j. re_last_used (entry_of p i) \<le> re_last_used (entry_of p j))
         (filter (\<lambda>i. \<not> re_busy (entry_of p i)) (po_runtimes p)) of
        [] \<Rightarrow> None | i # _ \<Rightarrow> Some i)"

text \<open>\<open>shutdown\<close> is the outcome of shutting the evicted host down.\<close>

definition make_capacity :: "unit res \<Rightarrow> pool \<Rightarrow> unit res \<times> pool" where
  "make_capacity shutdown p =
     (if length (po_runtimes p) < po_max p then (Inr (), p)
      else (case least_recent_idle p of
          None \<Rightarrow> (throw ''Codex runtime pool is at capacity with active turns'', p)
        | Some i \<Rightarrow> (shutdown, drop_runtime p i)))"

section \<open>Turns\<close>

text \<open>From the checks before the turn to its first \<^verbatim>\<open>await\<close>, and the \<^verbatim>\<open>finally\<close> block.\<close>

definition set_entry :: "pool \<Rightarrow> nat \<Rightarrow> bool \<Rightarrow> pool" where
  "set_entry p i busy = p\<lparr>po_entries := (po_entries p)[i := (entry_of p i)\<lparr>re_busy := busy, re_last_used := Suc (po_clock p)\<rparr>],
     po_clock := Suc (po_clock p)\<rparr>"

definition begin_turn :: "pool \<Rightarrow> nat \<Rightarrow> jstr \<Rightarrow> jstr \<Rightarrow> unit res \<times> pool" where
  "begin_turn p i threadId runId =
     (if re_busy (entry_of p i) then (throw ''Codex Harness run already has an active turn'', p)
      else (case acquire_thread_writer p threadId runId of
          (Inl e, p') \<Rightarrow> (Inl e, p')
        | (Inr _, p') \<Rightarrow> (Inr (), set_entry p' i True)))"

definition end_turn :: "pool \<Rightarrow> nat \<Rightarrow> jstr \<Rightarrow> jstr \<Rightarrow> pool" where
  "end_turn p i threadId runId = set_entry (release_thread_writer p threadId runId) i False"

definition check_bound_scope :: "path_ops \<Rightarrow> thread_binding option \<Rightarrow> jstr \<Rightarrow> jstr \<Rightarrow> unit res" where
  "check_bound_scope paths stored workspaceId cwd =
     (case stored of
        None \<Rightarrow> Inr ()
      | Some b \<Rightarrow> if tb_workspace_id b \<noteq> workspaceId \<or> tb_cwd b \<noteq> cwd
          then throw ''Codex Harness run is bound to a different workspace'' else Inr ())"

text \<open>\<^verbatim>\<open>runtimeFor\<close>: the entry, whether the thread was resumed, and the binding.\<close>

definition runtime_for ::
    "path_ops \<Rightarrow> registry_writer \<Rightarrow> jstr \<Rightarrow> host_answers \<Rightarrow> pool \<Rightarrow> thread_store \<Rightarrow> turn_input \<Rightarrow> thread_binding option
      \<Rightarrow> (nat \<times> bool \<times> thread_binding) res \<times> pool \<times> thread_store" where
  "runtime_for paths persist timestamp ha p s inp stored =
     (let cwd = resolve_path paths (ti_cwd inp) in
      case runtime_get p (ti_run_id inp) of
        Some i \<Rightarrow>
          if re_workspace_id (entry_of p i) \<noteq> ti_workspace_id inp \<or> re_cwd (entry_of p i) \<noteq> cwd
          then (throw ''Codex runtime scope changed for the same Harness run'', p, s)
          else (case (case stored of Some b \<Rightarrow> Some b | None \<Rightarrow> map_get (ts_bindings s) (ti_run_id inp)) of
              None \<Rightarrow> (throw ''Codex runtime is missing its persisted thread binding'', p, s)
            | Some b \<Rightarrow> (Inr (i, stored \<noteq> None, b), p, s))
      | None \<Rightarrow>
          (case make_capacity (ha_shutdown ha) p of
             (Inl e, p1) \<Rightarrow> (Inl e, p1, s)
           | (Inr _, p1) \<Rightarrow>
               (case (case stored of
                   Some b \<Rightarrow> (and_then (ha_resume ha) (\<lambda>_. Inr b), s)
                 | None \<Rightarrow>
                     (case and_then (ha_start ha) (\<lambda>_. case ha_attached ha of
                          None \<Rightarrow> throw ''Codex runtime started without an attached thread''
                        | Some t \<Rightarrow> if t = [] then throw ''Codex runtime started without an attached thread'' else Inr t) of
                        Inl e \<Rightarrow> (Inl e, s)
                      | Inr t \<Rightarrow> store_bind paths persist timestamp s
                          \<lparr>bi_run_id = ti_run_id inp, bi_workspace_id = ti_workspace_id inp, bi_cwd = cwd, bi_thread_id = t\<rparr>)) of
                  (Inl e, s1) \<Rightarrow> (Inl e, p1, s1)
                | (Inr b, s1) \<Rightarrow>
                    (case register_runtime p1 (ti_run_id inp) (ti_workspace_id inp) cwd (ha_attached ha) of
                       (i, p2) \<Rightarrow> (Inr (i, stored \<noteq> None, b), p2, s1)))))"

definition run_turn ::
    "path_ops \<Rightarrow> registry_writer \<Rightarrow> jstr \<Rightarrow> host_answers \<Rightarrow> pool \<Rightarrow> thread_store \<Rightarrow> turn_input
      \<Rightarrow> (js \<times> thread_binding \<times> bool) res \<times> pool \<times> thread_store" where
  "run_turn paths persist timestamp ha p s inp =
     (case and_then (pool_guard p) (\<lambda>_.
           and_then (validate_turn_input paths inp) (\<lambda>_.
           and_then (store_get s (ti_run_id inp)) (\<lambda>stored.
           and_then (check_bound_scope paths stored (ti_workspace_id inp) (resolve_path paths (ti_cwd inp))) (\<lambda>_. Inr stored)))) of
        Inl e \<Rightarrow> (Inl e, p, s)
      | Inr stored \<Rightarrow>
          (case runtime_for paths persist timestamp ha p s inp stored of
             (Inl e, p1, s1) \<Rightarrow> (Inl e, p1, s1)
           | (Inr (i, resumed, b), p1, s1) \<Rightarrow>
               (case begin_turn p1 i (tb_thread_id b) (ti_run_id inp) of
                  (Inl e, p2) \<Rightarrow> (Inl e, p2, s1)
                | (Inr _, p2) \<Rightarrow>
                    (and_then (ha_catalog ha) (\<lambda>catalog.
                     and_then (assert_skills_available paths (ti_skills inp) catalog) (\<lambda>_.
                     and_then (ha_turn ha) (\<lambda>result.
                       if ha_attached ha \<noteq> Some (tb_thread_id b)
                       then throw ''Codex runtime completed a turn on an unexpected thread''
                       else Inr (result, b, resumed)))),
                     end_turn p2 i (tb_thread_id b) (ti_run_id inp), s1))))"

section \<open>The other methods\<close>

definition release_run :: "unit res \<Rightarrow> pool \<Rightarrow> jstr \<Rightarrow> bool res \<times> pool" where
  "release_run shutdown p runId =
     (case and_then (pool_guard p) (\<lambda>_. Inr (runtime_get p runId)) of
        Inl e \<Rightarrow> (Inl e, p)
      | Inr None \<Rightarrow> (Inr False, p)
      | Inr (Some i) \<Rightarrow>
          if re_busy (entry_of p i) then (throw ''Cannot release Codex runtime while a turn is active'', p)
          else (and_then shutdown (\<lambda>_. Inr True), drop_runtime p i))"

definition cancel_run :: "unit res \<Rightarrow> pool \<Rightarrow> jstr \<Rightarrow> bool res \<times> pool" where
  "cancel_run shutdown p runId =
     (case and_then (pool_guard p) (\<lambda>_. Inr (runtime_get p runId)) of
        Inl e \<Rightarrow> (Inl e, p)
      | Inr None \<Rightarrow> (Inr False, p)
      | Inr (Some i) \<Rightarrow> (and_then shutdown (\<lambda>_. Inr True), drop_runtime p i))"

definition recover_run :: "bool res \<Rightarrow> pool \<Rightarrow> jstr \<Rightarrow> bool res" where
  "recover_run recovered p runId =
     and_then (pool_guard p) (\<lambda>_. case runtime_get p runId of
        None \<Rightarrow> Inr False
      | Some i \<Rightarrow> if re_busy (entry_of p i) then throw ''Cannot recover Codex runtime while a turn is active'' else recovered)"

definition is_workspace_busy :: "pool \<Rightarrow> jstr \<Rightarrow> bool res" where
  "is_workspace_busy p workspaceId =
     and_then (pool_guard p) (\<lambda>_. if \<not> valid_identifier 128 workspaceId then throw ''Codex workspace id is invalid''
      else Inr (list_ex (\<lambda>i. re_workspace_id (entry_of p i) = workspaceId \<and> re_busy (entry_of p i)) (po_runtimes p)))"

fun delete_threads :: "(jstr \<Rightarrow> unit res) \<Rightarrow> jstr list \<Rightarrow> unit res" where
  "delete_threads del [] = Inr ()"
| "delete_threads del (t # ts) = and_then (del t) (\<lambda>_. delete_threads del ts)"

definition clear_workspace ::
    "path_ops \<Rightarrow> registry_writer \<Rightarrow> host_answers \<Rightarrow> pool \<Rightarrow> thread_store \<Rightarrow> jstr \<Rightarrow> jstr
      \<Rightarrow> jstr list res \<times> pool \<times> thread_store" where
  "clear_workspace paths persist ha p s workspaceId cwd =
     (case and_then (pool_guard p) (\<lambda>_. validate_workspace_scope paths workspaceId cwd) of
        Inl e \<Rightarrow> (Inl e, p, s)
      | Inr _ \<Rightarrow>
          let entries = filter (\<lambda>i. re_workspace_id (entry_of p i) = workspaceId) (po_runtimes p)
          in if list_ex (\<lambda>i. re_busy (entry_of p i)) entries
             then (throw ''Cannot clear Codex conversations while a workspace turn is active'', p, s)
             else let p1 = foldl drop_runtime p entries
                  in (case and_then (ha_threads ha) (delete_threads (ha_delete ha)) of
                        Inl e \<Rightarrow> (Inl e, p1, s)
                      | Inr _ \<Rightarrow> (case store_remove_workspace persist s workspaceId of (r, s1) \<Rightarrow> (r, p1, s1))))"

definition shutdown_pool :: "pool \<Rightarrow> pool" where
  "shutdown_pool p = p\<lparr>po_runtimes := [], po_writers := Map.empty\<rparr>"

definition discard_missing_binding ::
    "registry_writer \<Rightarrow> pool \<Rightarrow> thread_store \<Rightarrow> jstr \<Rightarrow> bool res \<times> pool \<times> thread_store" where
  "discard_missing_binding persist p s runId =
     (case runtime_get p runId of
        Some i \<Rightarrow>
          if re_busy (entry_of p i) then (Inr False, p, s)
          else (case store_remove persist s runId of (r, s1) \<Rightarrow> (and_then r (\<lambda>_. Inr True), drop_runtime p i, s1))
      | None \<Rightarrow> (case store_remove persist s runId of (r, s1) \<Rightarrow> (and_then r (\<lambda>_. Inr True), p, s1)))"

text \<open>
  The methods that only ask. \<open>probe\<close> is what a fresh host answers; the host is shut down again
  whatever it answers. \<open>supported\<close> says whether the host has the optional method.
\<close>

definition pool_account :: "path_ops \<Rightarrow> js res \<Rightarrow> pool \<Rightarrow> jstr \<Rightarrow> js res" where
  "pool_account paths probe p cwd = and_then (pool_guard p) (\<lambda>_.
     if \<not> is_absolute paths cwd then throw ''Codex account probe cwd must be absolute'' else probe)"

definition pool_status :: "path_ops \<Rightarrow> bool \<Rightarrow> js res \<Rightarrow> js res \<Rightarrow> pool \<Rightarrow> jstr \<Rightarrow> (js \<times> js) res" where
  "pool_status paths supported account limits p cwd = and_then (pool_guard p) (\<lambda>_.
     if \<not> is_absolute paths cwd then throw ''Codex status cwd must be absolute''
     else if \<not> supported then throw ''Installed Codex app-server does not expose native rate-limit status''
     else and_then account (\<lambda>a. and_then limits (\<lambda>l. Inr (a, l))))"

definition pool_usage ::
    "path_ops \<Rightarrow> bool \<Rightarrow> (jstr option \<Rightarrow> js res) \<Rightarrow> pool \<Rightarrow> thread_store \<Rightarrow> jstr \<Rightarrow> jstr \<Rightarrow> jstr option \<Rightarrow> js res" where
  "pool_usage paths supported probe p s workspaceId cwd runId =
     and_then (pool_guard p) (\<lambda>_.
     and_then (validate_workspace_scope paths workspaceId cwd) (\<lambda>_.
     and_then (case runId of
         None \<Rightarrow> Inr None
       | Some r \<Rightarrow> if r = [] then Inr None
           else and_then (validate_run_id r) (\<lambda>_.
                and_then (store_get s r) (\<lambda>stored.
                and_then (check_bound_scope paths stored workspaceId (resolve_path paths cwd)) (\<lambda>_.
                  Inr (map_option tb_thread_id stored))))) (\<lambda>threadId.
       if \<not> supported then throw ''Installed Codex app-server does not expose native token usage''
       else probe threadId)))"

definition pool_binding :: "pool \<Rightarrow> thread_store \<Rightarrow> jstr \<Rightarrow> thread_binding option res" where
  "pool_binding p s runId = and_then (pool_guard p) (\<lambda>_. store_get s runId)"

definition pool_bindings :: "(jstr \<Rightarrow> jstr \<Rightarrow> int) \<Rightarrow> pool \<Rightarrow> thread_store \<Rightarrow> jstr \<Rightarrow> thread_binding list res" where
  "pool_bindings compare p s workspaceId = and_then (pool_guard p) (\<lambda>_.
     if \<not> valid_identifier 128 workspaceId then throw ''Codex workspace id is invalid''
     else and_then (store_list compare s) (\<lambda>bs. Inr (filter (\<lambda>b. tb_workspace_id b = workspaceId) bs)))"

text \<open>The run of the most recently updated binding of a thread in the same scope, unless its id is empty.\<close>

definition run_of_thread :: "(jstr \<Rightarrow> jstr \<Rightarrow> int) \<Rightarrow> thread_binding list \<Rightarrow> jstr \<Rightarrow> jstr \<Rightarrow> jstr \<Rightarrow> jstr option" where
  "run_of_thread compare bs workspaceId cwd threadId =
     (case find (\<lambda>b. tb_thread_id b = threadId)
         (sort_by (\<lambda>l r. compare (tb_updated_at r) (tb_updated_at l) \<le> 0)
           (filter (\<lambda>b. tb_workspace_id b = workspaceId \<and> tb_cwd b = cwd) bs)) of
        None \<Rightarrow> None
      | Some b \<Rightarrow> if tb_run_id b = [] then None else Some (tb_run_id b))"

definition list_conversations ::
    "(jstr \<Rightarrow> jstr \<Rightarrow> int) \<Rightarrow> path_ops \<Rightarrow> (jstr \<Rightarrow> nat \<Rightarrow> (jstr \<times> js) list res) \<Rightarrow> pool \<Rightarrow> thread_store
      \<Rightarrow> jstr \<Rightarrow> jstr \<Rightarrow> nat option \<Rightarrow> (jstr \<times> js \<times> jstr option) list res" where
  "list_conversations compare paths list_threads p s workspaceId cwd0 limit =
     (let cwd = resolve_path paths cwd0 in
      and_then (pool_guard p) (\<lambda>_.
      and_then (validate_workspace_scope paths workspaceId cwd0) (\<lambda>_.
      and_then (list_threads cwd (case limit of None \<Rightarrow> 100 | Some n \<Rightarrow> n)) (\<lambda>threads.
      and_then (store_list compare s) (\<lambda>bs.
        Inr (map (\<lambda>(t, v). (t, v, run_of_thread compare bs workspaceId cwd t)) threads))))))"

record conversation_view =
  cv_thread_id :: "jstr option"
  cv_messages :: "js list"
  cv_busy :: bool

definition no_conversation :: conversation_view where
  "no_conversation = \<lparr>cv_thread_id = None, cv_messages = [], cv_busy = False\<rparr>"

text \<open>\<^verbatim>\<open>conversation\<close>: \<open>warm\<close> answers for the registered host, \<open>ha\<close> for a fresh one.\<close>

definition pool_conversation ::
    "path_ops \<Rightarrow> registry_writer \<Rightarrow> host_answers \<Rightarrow> host_answers \<Rightarrow> pool \<Rightarrow> thread_store \<Rightarrow> jstr \<Rightarrow> jstr \<Rightarrow> jstr
      \<Rightarrow> conversation_view res \<times> pool \<times> thread_store" where
  "pool_conversation paths persist warm ha p s runId workspaceId cwd0 =
     (let cwd = resolve_path paths cwd0 in
      case and_then (pool_guard p) (\<lambda>_.
           and_then (validate_workspace_scope paths workspaceId cwd0) (\<lambda>_.
           and_then (validate_run_id runId) (\<lambda>_. store_get s runId))) of
        Inl e \<Rightarrow> (Inl e, p, s)
      | Inr None \<Rightarrow> (Inr no_conversation, p, s)
      | Inr (Some b) \<Rightarrow>
          if tb_workspace_id b \<noteq> workspaceId \<or> tb_cwd b \<noteq> cwd
          then (throw ''Codex Harness run is bound to a different workspace'', p, s)
          else (case runtime_get p runId of
              Some i \<Rightarrow>
                if re_workspace_id (entry_of p i) \<noteq> workspaceId \<or> re_cwd (entry_of p i) \<noteq> cwd
                then (throw ''Codex runtime scope changed for the same Harness run'', p, s)
                else if re_thread (entry_of p i) \<noteq> Some (tb_thread_id b)
                then (throw ''Codex runtime is attached to a different thread than its persisted binding'', p, s)
                else (case ha_history warm of
                    Inr ms \<Rightarrow> (Inr \<lparr>cv_thread_id = Some (tb_thread_id b), cv_messages = ms,
                                    cv_busy = (po_writers p (tb_thread_id b) \<noteq> None)\<rparr>, p, s)
                  | Inl e \<Rightarrow>
                      (case (if is_missing_native_thread_error e then discard_missing_binding persist p s runId else (Inr False, p, s)) of
                         (Inl e', p1, s1) \<Rightarrow> (Inl e', p1, s1)
                       | (Inr True, p1, s1) \<Rightarrow> (Inr no_conversation, p1, s1)
                       | (Inr False, p1, s1) \<Rightarrow>
                           (if is_active_writer_error e
                            then Inr \<lparr>cv_thread_id = Some (tb_thread_id b), cv_messages = [], cv_busy = True\<rparr>
                            else Inl e, p1, s1)))
            | None \<Rightarrow>
                (case and_then (ha_resume ha) (\<lambda>_.
                      if ha_attached ha \<noteq> Some (tb_thread_id b) then throw ''Codex resumed a different thread than requested''
                      else ha_history ha) of
                   Inr ms \<Rightarrow> (Inr \<lparr>cv_thread_id = Some (tb_thread_id b), cv_messages = ms, cv_busy = False\<rparr>, p, s)
                 | Inl e \<Rightarrow>
                     if is_missing_native_thread_error e
                     then (case store_remove persist s runId of (r, s1) \<Rightarrow> (and_then r (\<lambda>_. Inr no_conversation), p, s1))
                     else if is_active_writer_error e
                     then (Inr \<lparr>cv_thread_id = Some (tb_thread_id b), cv_messages = [], cv_busy = True\<rparr>, p, s)
                     else (Inl e, p, s))))"

text \<open>
  \<^verbatim>\<open>resumeConversation\<close>. \<open>sd\<close> and \<open>sd'\<close> are the outcomes of shutting down the run's current
  runtime and another runtime attached to the same thread.
\<close>

definition rebind_busy ::
    "path_ops \<Rightarrow> registry_writer \<Rightarrow> jstr \<Rightarrow> pool \<Rightarrow> thread_store \<Rightarrow> bind_input
      \<Rightarrow> (thread_binding \<times> js list \<times> bool) res \<times> pool \<times> thread_store" where
  "rebind_busy paths persist timestamp p s inp =
     (case store_rebind paths persist timestamp s inp of
        (r, s1) \<Rightarrow> (and_then r (\<lambda>b. Inr (b, [], True)), p, s1))"

definition attach_resumed ::
    "path_ops \<Rightarrow> registry_writer \<Rightarrow> jstr \<Rightarrow> host_answers \<Rightarrow> pool \<Rightarrow> thread_store \<Rightarrow> bind_input
      \<Rightarrow> (thread_binding \<times> js list \<times> bool) res \<times> pool \<times> thread_store" where
  "attach_resumed paths persist timestamp ha p s inp =
     (case make_capacity (ha_shutdown ha) p of
        (Inl e, p1) \<Rightarrow> (Inl e, p1, s)
      | (Inr _, p1) \<Rightarrow>
          (case (case and_then (ha_resume ha) (\<lambda>_.
                 if ha_attached ha \<noteq> Some (bi_thread_id inp) then throw ''Codex resumed a different thread than requested''
                 else ha_history ha) of
               Inl e \<Rightarrow> (Inl e, s)
             | Inr ms \<Rightarrow> (case store_rebind paths persist timestamp s inp of
                   (Inl e, s1) \<Rightarrow> (Inl e, s1) | (Inr b, s1) \<Rightarrow> (Inr (b, ms), s1))) of
             (Inr (b, ms), s1) \<Rightarrow>
               (Inr (b, ms, False),
                snd (register_runtime p1 (bi_run_id inp) (bi_workspace_id inp) (bi_cwd inp) (ha_attached ha)), s1)
           | (Inl e, s1) \<Rightarrow>
               if is_active_writer_error e then rebind_busy paths persist timestamp p1 s1 inp else (Inl e, p1, s1)))"

definition resume_conversation ::
    "path_ops \<Rightarrow> registry_writer \<Rightarrow> jstr \<Rightarrow> unit res \<Rightarrow> unit res \<Rightarrow> host_answers \<Rightarrow> pool \<Rightarrow> thread_store \<Rightarrow> jstr \<Rightarrow> jstr \<Rightarrow> jstr \<Rightarrow> jstr
      \<Rightarrow> (thread_binding \<times> js list \<times> bool) res \<times> pool \<times> thread_store" where
  "resume_conversation paths persist timestamp sd sd' ha p s runId workspaceId cwd0 threadId =
     (case and_then (pool_guard p) (\<lambda>_. validate_resume_input paths runId workspaceId cwd0 threadId) of
        Inl e \<Rightarrow> (Inl e, p, s)
      | Inr _ \<Rightarrow>
          let cwd = resolve_path paths cwd0;
              inp = \<lparr>bi_run_id = runId, bi_workspace_id = workspaceId, bi_cwd = cwd, bi_thread_id = threadId\<rparr>;
              rest = (\<lambda>p1.
                if po_writers p1 threadId \<noteq> None then rebind_busy paths persist timestamp p1 s inp
                else (case find (\<lambda>i. re_thread (entry_of p1 i) = Some threadId) (po_runtimes p1) of
                    None \<Rightarrow> attach_resumed paths persist timestamp ha p1 s inp
                  | Some d \<Rightarrow>
                      if re_busy (entry_of p1 d) then rebind_busy paths persist timestamp p1 s inp
                      else (case sd' of
                          Inl e \<Rightarrow> (Inl e, runtime_delete p1 d, s)
                        | Inr _ \<Rightarrow> attach_resumed paths persist timestamp ha (runtime_delete p1 d) s inp)))
          in (case runtime_get p runId of
                None \<Rightarrow> rest p
              | Some i \<Rightarrow>
                  if re_busy (entry_of p i)
                  then rebind_busy paths persist timestamp p s
                         (inp\<lparr>bi_thread_id := (case re_thread (entry_of p i) of Some t \<Rightarrow> t | None \<Rightarrow> threadId)\<rparr>)
                  else (case sd of
                      Inl e \<Rightarrow> (Inl e, runtime_delete p i, s)
                    | Inr _ \<Rightarrow> rest (runtime_delete p i))))"

section \<open>Capacity\<close>

definition runs_of :: "pool \<Rightarrow> jstr list" where
  "runs_of p = map (\<lambda>i. re_run_id (entry_of p i)) (po_runtimes p)"

text \<open>A well-formed pool: the map points to existing entries, one per run, and respects the limit.\<close>

definition pool_shape :: "pool \<Rightarrow> bool" where
  "pool_shape p \<longleftrightarrow> list_all (\<lambda>i. i < length (po_entries p)) (po_runtimes p) \<and> distinct (runs_of p)"

definition pool_ok :: "pool \<Rightarrow> bool" where
  "pool_ok p \<longleftrightarrow> pool_shape p \<and> length (po_runtimes p) \<le> po_max p \<and> 1 \<le> po_max p \<and> po_max p \<le> 16"

lemma runtime_delete_fields [simp]:
  "po_entries (runtime_delete p i) = po_entries p" "po_writers (runtime_delete p i) = po_writers p"
  "po_max (runtime_delete p i) = po_max p" "entry_of (runtime_delete p i) j = entry_of p j"
  by (simp_all add: runtime_delete_def entry_of_def)

lemma release_thread_writer_fields [simp]:
  "po_entries (release_thread_writer p t r) = po_entries p" "po_runtimes (release_thread_writer p t r) = po_runtimes p"
  "po_max (release_thread_writer p t r) = po_max p" "entry_of (release_thread_writer p t r) j = entry_of p j"
  by (simp_all add: release_thread_writer_def entry_of_def)

lemma drop_runtime_fields [simp]:
  "po_entries (drop_runtime p i) = po_entries p" "po_max (drop_runtime p i) = po_max p"
  "entry_of (drop_runtime p i) j = entry_of p j"
  by (simp_all add: drop_runtime_def entry_of_def split: option.splits)

lemma drop_runtime_map:
  "po_runtimes (drop_runtime p i) = filter (\<lambda>j. re_run_id (entry_of p j) \<noteq> re_run_id (entry_of p i)) (po_runtimes p)"
  by (simp add: drop_runtime_def runtime_delete_def split: option.splits)

lemma drop_runtime_writers:
  "po_writers (drop_runtime p i) t = Some r \<longleftrightarrow> po_writers p t = Some r
     \<and> \<not> (re_thread (entry_of p i) = Some t \<and> t \<noteq> [] \<and> r = re_run_id (entry_of p i))"
  by (auto simp: drop_runtime_def release_thread_writer_def split: option.splits)

lemma filter_shape:
  assumes "pool_shape p" "po_entries p' = po_entries p" "po_runtimes p' = filter P (po_runtimes p)"
  shows "pool_shape p'"
  using assms by (auto simp: pool_shape_def runs_of_def entry_of_def list_all_iff distinct_map_filter)

lemma drop_runtime_shape: "pool_shape p \<Longrightarrow> pool_shape (drop_runtime p i)"
  by (rule filter_shape [of p]) (simp_all add: drop_runtime_map)

lemma runtime_delete_shape: "pool_shape p \<Longrightarrow> pool_shape (runtime_delete p i)"
  by (rule filter_shape [of p]) (simp_all add: runtime_delete_def)

lemma runtime_get_Some: "runtime_get p r = Some i \<Longrightarrow> i \<in> set (po_runtimes p) \<and> re_run_id (entry_of p i) = r"
  by (auto simp: runtime_get_def find_Some_iff)

lemma runtime_get_None: "runtime_get p r = None \<longleftrightarrow> r \<notin> set (runs_of p)"
  by (auto simp: runtime_get_def runs_of_def find_None_iff)

lemma least_recent_idle_Some:
  assumes "least_recent_idle p = Some i"
  shows "i \<in> set (po_runtimes p)" "\<not> re_busy (entry_of p i)"
    "\<And>j. j \<in> set (po_runtimes p) \<Longrightarrow> \<not> re_busy (entry_of p j) \<Longrightarrow> re_last_used (entry_of p i) \<le> re_last_used (entry_of p j)"
proof -
  let ?le = "\<lambda>i j. re_last_used (entry_of p i) \<le> re_last_used (entry_of p j)"
  let ?idle = "filter (\<lambda>i. \<not> re_busy (entry_of p i)) (po_runtimes p)"
  from assms obtain rest where s: "sort_by ?le ?idle = i # rest"
    by (auto simp: least_recent_idle_def split: list.splits)
  have set: "set (i # rest) = set ?idle" using s by (metis set_sort_by)
  then have i: "i \<in> set ?idle" by auto
  then show "i \<in> set (po_runtimes p)" "\<not> re_busy (entry_of p i)" by auto
  fix j assume "j \<in> set (po_runtimes p)" "\<not> re_busy (entry_of p j)"
  then have "j \<in> set (i # rest)" unfolding set by simp
  moreover have "sorted_wrt ?le (i # rest)" unfolding s [symmetric] by (rule sorted_sort_by) auto
  ultimately show "?le i j" by auto
qed

lemma least_recent_idle_None: "least_recent_idle p = None \<Longrightarrow> j \<in> set (po_runtimes p) \<Longrightarrow> re_busy (entry_of p j)"
proof (rule ccontr)
  assume n: "least_recent_idle p = None" and j: "j \<in> set (po_runtimes p)" "\<not> re_busy (entry_of p j)"
  have "sort_by (\<lambda>i j. re_last_used (entry_of p i) \<le> re_last_used (entry_of p j))
      (filter (\<lambda>i. \<not> re_busy (entry_of p i)) (po_runtimes p)) = []"
    using n by (simp add: least_recent_idle_def split: list.splits)
  then have "set (filter (\<lambda>i. \<not> re_busy (entry_of p i)) (po_runtimes p)) = {}" by (metis empty_set set_sort_by)
  with j show False by auto
qed

lemma drop_registered_length:
  assumes "pool_shape p" "i \<in> set (po_runtimes p)"
  shows "Suc (length (po_runtimes (drop_runtime p i))) = length (po_runtimes p)"
proof -
  have d: "distinct (runs_of p)" using assms(1) by (simp add: pool_shape_def)
  have "length (filter (\<lambda>j. re_run_id (entry_of p j) \<noteq> re_run_id (entry_of p i)) xs) + 1 = length xs"
    if "distinct (map (\<lambda>j. re_run_id (entry_of p j)) xs)" "i \<in> set xs" for xs
    using that
  proof (induction xs)
    case (Cons x xs)
    show ?case
    proof (cases "re_run_id (entry_of p x) = re_run_id (entry_of p i)")
      case True
      from Cons.prems(1) have "re_run_id (entry_of p x) \<notin> (\<lambda>j. re_run_id (entry_of p j)) ` set xs" by simp
      with True have "\<forall>j\<in>set xs. re_run_id (entry_of p j) \<noteq> re_run_id (entry_of p i)" by (metis imageI)
      with True show ?thesis by simp
    next
      case False
      with Cons.prems have "i \<in> set xs" by auto
      with False Cons show ?thesis by simp
    qed
  qed simp
  with d assms(2) show ?thesis by (simp add: runs_of_def drop_runtime_map)
qed

lemma make_capacity_room:
  assumes "pool_ok p" "make_capacity sd p = (r, p')"
  shows "pool_ok p'" "r = Inr () \<Longrightarrow> length (po_runtimes p') < po_max p'"
proof -
  have "pool_ok p' \<and> (r = Inr () \<longrightarrow> length (po_runtimes p') < po_max p')"
  proof (cases "length (po_runtimes p) < po_max p")
    case True
    with assms show ?thesis by (auto simp: make_capacity_def)
  next
    case full: False
    show ?thesis
    proof (cases "least_recent_idle p")
      case None
      with full assms show ?thesis by (auto simp: make_capacity_def throw_def)
    next
      case (Some i)
      note l = least_recent_idle_Some [OF Some]
      from assms(1) have sh: "pool_shape p" by (simp add: pool_ok_def)
      from full Some assms(2) have p': "p' = drop_runtime p i" by (simp add: make_capacity_def)
      from drop_registered_length [OF sh l(1)] drop_runtime_shape [OF sh] assms(1) show ?thesis
        by (auto simp: p' pool_ok_def)
    qed
  qed
  then show "pool_ok p'" "r = Inr () \<Longrightarrow> length (po_runtimes p') < po_max p'" by auto
qed

lemma register_shape:
  assumes "pool_shape p" shows "pool_shape (snd (register_runtime p r w c t))"
proof -
  let ?n = "length (po_entries p)"
  let ?p = "snd (register_runtime p r w c t)"
  have old: "entry_of ?p j = entry_of p j" if "j < ?n" for j
    using that by (simp add: register_runtime_def Let_def entry_of_def nth_append)
  have new: "re_run_id (entry_of ?p ?n) = r"
    by (simp add: register_runtime_def Let_def entry_of_def)
  have lt: "\<forall>j\<in>set (po_runtimes p). j < ?n" using assms by (simp add: pool_shape_def list_all_iff)
  show ?thesis
  proof (cases "runtime_get p r")
    case None
    then have ids: "po_runtimes ?p = po_runtimes p @ [?n]" by (simp add: register_runtime_def Let_def)
    have "runs_of ?p = runs_of p @ [r]"
      using lt old new by (simp add: runs_of_def ids)
    moreover have "length (po_entries ?p) = Suc ?n" by (simp add: register_runtime_def Let_def)
    ultimately show ?thesis
      using assms None lt by (auto simp: pool_shape_def ids list_all_iff runtime_get_None)
  next
    case (Some i)
    then have ids: "po_runtimes ?p = map (\<lambda>j. if j = i then ?n else j) (po_runtimes p)"
      by (simp add: register_runtime_def Let_def)
    from runtime_get_Some [OF Some] have ri: "re_run_id (entry_of p i) = r" by simp
    have "runs_of ?p = runs_of p"
      using lt old new ri by (auto simp: runs_of_def ids)
    moreover have "length (po_entries ?p) = Suc ?n" by (simp add: register_runtime_def Let_def)
    ultimately show ?thesis
      using assms lt by (auto simp: pool_shape_def ids list_all_iff)
  qed
qed

lemma register_ok:
  assumes "pool_ok p" "length (po_runtimes p) < po_max p"
  shows "pool_ok (snd (register_runtime p r w c t))"
  using assms register_shape [of p r w c t]
  by (auto simp: pool_ok_def register_runtime_def Let_def split: option.splits)

lemma set_entry_fields [simp]:
  "po_runtimes (set_entry p i b) = po_runtimes p" "po_writers (set_entry p i b) = po_writers p"
  "po_max (set_entry p i b) = po_max p" "length (po_entries (set_entry p i b)) = length (po_entries p)"
  by (simp_all add: set_entry_def)

lemma set_entry_entry:
  "i < length (po_entries p) \<Longrightarrow> entry_of (set_entry p i b) j =
     (if j = i then (entry_of p i)\<lparr>re_busy := b, re_last_used := Suc (po_clock p)\<rparr> else entry_of p j)"
  by (simp add: set_entry_def entry_of_def nth_list_update)

lemma set_entry_run: "re_run_id (entry_of (set_entry p i b) j) = re_run_id (entry_of p j)"
  by (cases "i < length (po_entries p)") (auto simp: set_entry_entry, simp add: set_entry_def entry_of_def list_update_beyond)

lemma set_entry_ok: "pool_ok p \<Longrightarrow> pool_ok (set_entry p i b)"
  by (simp add: pool_ok_def pool_shape_def runs_of_def set_entry_run)

lemma release_thread_writer_ok: "pool_ok p \<Longrightarrow> pool_ok (release_thread_writer p t r)"
  by (simp add: pool_ok_def pool_shape_def runs_of_def)

lemma filtered_ok: "pool_ok p \<Longrightarrow> pool_shape p' \<Longrightarrow> po_max p' = po_max p \<Longrightarrow>
    length (po_runtimes p') \<le> length (po_runtimes p) \<Longrightarrow> pool_ok p'"
  by (simp add: pool_ok_def)

lemma drop_runtime_ok: "pool_ok p \<Longrightarrow> pool_ok (drop_runtime p i)"
  by (rule filtered_ok [of p]) (auto simp: pool_ok_def drop_runtime_shape drop_runtime_map)

lemma runtime_delete_ok: "pool_ok p \<Longrightarrow> pool_ok (runtime_delete p i)"
  by (rule filtered_ok [of p]) (auto simp: pool_ok_def runtime_delete_shape, simp add: runtime_delete_def)

lemma acquire_ok: "pool_ok p \<Longrightarrow> pool_ok (snd (acquire_thread_writer p t r))"
  by (auto simp: acquire_thread_writer_def pool_ok_def pool_shape_def runs_of_def entry_of_def split: option.splits)

lemma begin_turn_ok: "pool_ok p \<Longrightarrow> pool_ok (snd (begin_turn p i t r))"
  using acquire_ok [of p t r] by (auto simp: begin_turn_def intro: set_entry_ok split: prod.splits sum.splits)

lemma end_turn_ok: "pool_ok p \<Longrightarrow> pool_ok (end_turn p i t r)"
  by (simp add: end_turn_def set_entry_ok release_thread_writer_ok)

lemma runtime_for_ok:
  assumes "pool_ok p" shows "pool_ok (fst (snd (runtime_for paths persist ts ha p s inp stored)))"
proof (cases "runtime_get p (ti_run_id inp)")
  case (Some i)
  with assms show ?thesis by (simp add: runtime_for_def Let_def split: option.splits)
next
  case None
  obtain r p1 where m: "make_capacity (ha_shutdown ha) p = (r, p1)" by (metis surj_pair)
  note room = make_capacity_room [OF assms m]
  show ?thesis
  proof (cases r)
    case (Inl e)
    with None m room(1) show ?thesis by (simp add: runtime_for_def Let_def)
  next
    case (Inr u)
    with room(2) have "length (po_runtimes p1) < po_max p1" by simp
    then have reg: "register_runtime p1 r w c t = (i, p2) \<Longrightarrow> pool_ok p2" for r w c t i p2
      using register_ok [OF room(1)] by (metis snd_conv)
    from None m Inr room(1) show ?thesis
      by (auto simp: runtime_for_def Let_def dest: reg split: option.splits prod.splits sum.splits)
  qed
qed

lemma run_turn_ok:
  assumes "pool_ok p" shows "pool_ok (fst (snd (run_turn paths persist ts ha p s inp)))"
proof -
  have "pool_ok p1 \<Longrightarrow> pool_ok (snd (begin_turn p1 i t r))" for p1 i t r by (rule begin_turn_ok)
  moreover have "pool_ok (fst (snd (runtime_for paths persist ts ha p s inp stored)))" for stored
    using assms by (rule runtime_for_ok)
  ultimately show ?thesis
    using assms
    by (auto simp: run_turn_def end_turn_ok split: sum.splits prod.splits) (metis fst_conv snd_conv end_turn_ok)+
qed

lemma foldl_drop_ok: "pool_ok p \<Longrightarrow> pool_ok (foldl drop_runtime p is)"
  by (induction "is" arbitrary: p) (auto intro: drop_runtime_ok)

lemma attach_resumed_ok:
  assumes "pool_ok p" shows "pool_ok (fst (snd (attach_resumed paths persist ts ha p s inp)))"
proof -
  obtain r p1 where m: "make_capacity (ha_shutdown ha) p = (r, p1)" by (metis surj_pair)
  note room = make_capacity_room [OF assms m]
  show ?thesis
  proof (cases r)
    case (Inl e)
    with m room(1) show ?thesis by (simp add: attach_resumed_def)
  next
    case (Inr u)
    with room(2) have "length (po_runtimes p1) < po_max p1" by simp
    from register_ok [OF room(1) this] m Inr room(1) show ?thesis
      by (auto simp: attach_resumed_def rebind_busy_def split: prod.splits sum.splits)
  qed
qed

lemma resume_conversation_ok:
  assumes "pool_ok p"
  shows "pool_ok (fst (snd (resume_conversation paths persist ts sd sd' ha p s r w c t)))"
  using assms
  by (auto simp: resume_conversation_def Let_def rebind_busy_def runtime_delete_ok attach_resumed_ok
      split: sum.splits option.splits prod.splits)

section \<open>Sequences of calls\<close>

text \<open>The methods of the pool one after the other, each with the answers it gets.\<close>

datatype pool_call =
    CallInitialize "jstr \<Rightarrow> js option" "jstr \<Rightarrow> bool" file_read
  | CallTurn jstr host_answers turn_input
  | CallResume jstr "unit res" "unit res" host_answers jstr jstr jstr jstr
  | CallConversation host_answers host_answers jstr jstr jstr
  | CallRelease "unit res" jstr
  | CallCancel "unit res" jstr
  | CallClear host_answers jstr jstr
  | CallShutdown

fun pool_step :: "path_ops \<Rightarrow> registry_writer \<Rightarrow> pool \<times> thread_store \<Rightarrow> pool_call \<Rightarrow> pool \<times> thread_store" where
  "pool_step paths persist (p, s) (CallInitialize jp date_ok file) = snd (pool_initialize jp paths date_ok file p s)"
| "pool_step paths persist (p, s) (CallTurn ts ha inp) = snd (run_turn paths persist ts ha p s inp)"
| "pool_step paths persist (p, s) (CallResume ts sd sd' ha r w c t) =
     snd (resume_conversation paths persist ts sd sd' ha p s r w c t)"
| "pool_step paths persist (p, s) (CallConversation warm ha r w c) = snd (pool_conversation paths persist warm ha p s r w c)"
| "pool_step paths persist (p, s) (CallRelease sd r) = (snd (release_run sd p r), s)"
| "pool_step paths persist (p, s) (CallCancel sd r) = (snd (cancel_run sd p r), s)"
| "pool_step paths persist (p, s) (CallClear ha w c) = snd (clear_workspace paths persist ha p s w c)"
| "pool_step paths persist (p, s) CallShutdown = (shutdown_pool p, s)"

lemma discard_missing_binding_ok:
  "pool_ok p \<Longrightarrow> pool_ok (fst (snd (discard_missing_binding persist p s r)))"
  by (auto simp: discard_missing_binding_def drop_runtime_ok split: option.splits prod.splits)

lemma pool_conversation_ok:
  assumes "pool_ok p"
  shows "pool_ok (fst (snd (pool_conversation paths persist warm ha p s r w c)))"
  using assms discard_missing_binding_ok [OF assms, of persist s r]
  by (auto simp: pool_conversation_def Let_def split: sum.splits option.splits prod.splits if_splits bool.splits)

lemma pool_initialize_ok: "pool_ok p \<Longrightarrow> pool_ok (fst (snd (pool_initialize jp paths d f p s)))"
  by (auto simp: pool_initialize_def pool_ok_def pool_shape_def runs_of_def entry_of_def split: prod.splits sum.splits)

lemma pool_step_ok: "pool_ok (fst ps) \<Longrightarrow> pool_ok (fst (pool_step paths persist ps e))"
proof -
  assume ok: "pool_ok (fst ps)"
  obtain p s where ps: "ps = (p, s)" by fastforce
  with ok have p: "pool_ok p" by simp
  show ?thesis
  proof (cases e)
    case (CallClear ha w c)
    with p ps foldl_drop_ok [OF p] show ?thesis
      by (auto simp: clear_workspace_def Let_def split: sum.splits prod.splits)
  next
    case CallShutdown
    with p ps show ?thesis by (simp add: shutdown_pool_def pool_ok_def pool_shape_def runs_of_def)
  qed (use p ps in \<open>auto simp: run_turn_ok resume_conversation_ok pool_conversation_ok release_run_def cancel_run_def
      drop_runtime_ok pool_initialize_ok split: option.splits sum.splits\<close>)
qed

interpretation runtime_pool:
  machine "\<lambda>ps. \<exists>m p. new_pool m = Inr p \<and> ps = (p, s0)" "pool_step paths persist" "\<lambda>ps. pool_ok (fst ps)"
  for s0 :: thread_store and paths :: path_ops and persist :: registry_writer
proof unfold_locales
  fix ps
  assume "\<exists>m p. new_pool m = Inr p \<and> ps = (p, s0)"
  then show "pool_ok (fst ps)"
    by (auto simp: new_pool_def bounded_integer_def DEFAULT_MAX_RUNTIMES_def pool_ok_def pool_shape_def runs_of_def
        split: option.splits if_splits)
qed (rule pool_step_ok)

section \<open>Properties of sequential use\<close>



text \<open>
  Eviction is least recently used and never takes a running turn. When the pool is full,
  making room either fails, with every registered runtime busy and nothing changed, or removes
  exactly one runtime: an idle one whose last use is not later than that of any idle runtime.
\<close>

theorem eviction_spares_busy:
  assumes "pool_shape p" "length (po_runtimes p) \<ge> po_max p" "make_capacity sd p = (r, p')"
  shows "(p' = p \<and> r = throw ''Codex runtime pool is at capacity with active turns''
          \<and> list_all (\<lambda>j. re_busy (entry_of p j)) (po_runtimes p))
    \<or> (\<exists>i. i \<in> set (po_runtimes p) \<and> \<not> re_busy (entry_of p i) \<and> r = sd
          \<and> (\<forall>j\<in>set (po_runtimes p). \<not> re_busy (entry_of p j) \<longrightarrow> re_last_used (entry_of p i) \<le> re_last_used (entry_of p j))
          \<and> set (po_runtimes p') = set (po_runtimes p) - {i}
          \<and> Suc (length (po_runtimes p')) = length (po_runtimes p))"
proof (cases "least_recent_idle p")
  case None
  with assms least_recent_idle_None [OF None] show ?thesis by (auto simp: make_capacity_def list_all_iff)
next
  case (Some i)
  note l = least_recent_idle_Some [OF Some]
  from assms Some have p': "p' = drop_runtime p i" "r = sd" by (auto simp: make_capacity_def)
  have "inj_on (\<lambda>j. re_run_id (entry_of p j)) (set (po_runtimes p))"
    using assms(1) by (simp add: pool_shape_def runs_of_def distinct_map)
  then have "set (po_runtimes p') = set (po_runtimes p) - {i}"
    using l(1) by (auto simp: p' drop_runtime_map inj_on_def)
  with l p' drop_registered_length [OF assms(1) l(1)] show ?thesis by auto
qed

definition demo_entry :: "string \<Rightarrow> bool \<Rightarrow> nat \<Rightarrow> runtime_entry" where
  "demo_entry r b n = \<lparr>re_run_id = lit r, re_workspace_id = lit ''w'', re_cwd = lit ''/d'', re_thread = Some (lit ''t''),
     re_busy = b, re_last_used = n\<rparr>"

definition demo_pool :: pool where
  "demo_pool = \<lparr>po_entries = [demo_entry ''a'' True 1, demo_entry ''b'' False 3, demo_entry ''c'' False 2],
     po_runtimes = [0, 1, 2], po_writers = Map.empty, po_clock = 3, po_max = 3, po_initialized = True\<rparr>"

theorem eviction_spares_busy_witness:
  "\<exists>i. i \<in> set (po_runtimes demo_pool) \<and> \<not> re_busy (entry_of demo_pool i)
     \<and> set (po_runtimes (snd (make_capacity (Inr ()) demo_pool))) = set (po_runtimes demo_pool) - {i}"
proof -
  have s: "pool_shape demo_pool"
    by (simp add: pool_shape_def runs_of_def demo_pool_def entry_of_def demo_entry_def)
  have f: "length (po_runtimes demo_pool) \<ge> po_max demo_pool" by (simp add: demo_pool_def)
  have idle: "\<not> list_all (\<lambda>j. re_busy (entry_of demo_pool j)) (po_runtimes demo_pool)"
    by (simp add: demo_pool_def entry_of_def demo_entry_def)
  from eviction_spares_busy [OF s f, of "Inr ()"] idle show ?thesis
    by (metis prod.collapse)
qed

section \<open>Interleaved turns\<close>

text \<open>
  The sections of concurrent turns as steps of a relation: initialising the pool, making room,
  registering the runtime of a run that has none, starting a turn on the runtime that is
  registered for its run, finishing a turn and releasing a run. A state is a pool with the turns
  in flight, each with the entry, the thread and the run it holds.
\<close>

type_synonym turn_ref = "nat \<times> jstr \<times> jstr"

inductive turns :: "pool \<Rightarrow> turn_ref list \<Rightarrow> bool" where
  turns_new: "new_pool m = Inr p \<Longrightarrow> turns p []"
| turns_initialize: "turns p fl \<Longrightarrow> pool_initialize jp paths d f p s = (r, p', s') \<Longrightarrow> turns p' fl"
| turns_room: "turns p fl \<Longrightarrow> make_capacity sd p = (r, p') \<Longrightarrow> turns p' fl"
| turns_register: "turns p fl \<Longrightarrow> runtime_get p r = None \<Longrightarrow> turns (snd (register_runtime p r w c t)) fl"
| turns_begin: "turns p fl \<Longrightarrow> runtime_get p r = Some i \<Longrightarrow> begin_turn p i t r = (Inr (), p') \<Longrightarrow>
     turns p' ((i, t, r) # fl)"
| turns_end: "turns p fl \<Longrightarrow> (i, t, r) \<in> set fl \<Longrightarrow> turns (end_turn p i t r) (remove1 (i, t, r) fl)"
| turns_release: "turns p fl \<Longrightarrow> release_run sd p r = (a, p') \<Longrightarrow> turns p' fl"

definition turns_inv :: "pool \<Rightarrow> turn_ref list \<Rightarrow> bool" where
  "turns_inv p fl \<longleftrightarrow> pool_shape p \<and> distinct (map (\<lambda>(i, t, r). t) fl) \<and> distinct (map (\<lambda>(i, t, r). i) fl)
     \<and> (\<forall>(i, t, r)\<in>set fl. po_writers p t = Some r \<and> i \<in> set (po_runtimes p)
          \<and> re_busy (entry_of p i) \<and> re_run_id (entry_of p i) = r)"

lemma drop_idle_inv:
  assumes inv: "turns_inv p fl" and i: "i \<in> set (po_runtimes p)" "\<not> re_busy (entry_of p i)"
  shows "turns_inv (drop_runtime p i) fl"
proof -
  have inj: "inj_on (\<lambda>j. re_run_id (entry_of p j)) (set (po_runtimes p))"
    using inv by (simp add: turns_inv_def pool_shape_def runs_of_def distinct_map)
  have "po_writers (drop_runtime p i) t = Some r \<and> j \<in> set (po_runtimes (drop_runtime p i))
      \<and> re_busy (entry_of (drop_runtime p i) j) \<and> re_run_id (entry_of (drop_runtime p i) j) = r"
    if "(j, t, r) \<in> set fl" for j t r
  proof -
    from inv that have j: "po_writers p t = Some r" "j \<in> set (po_runtimes p)" "re_busy (entry_of p j)"
      "re_run_id (entry_of p j) = r" by (auto simp: turns_inv_def)
    with i have "re_run_id (entry_of p i) \<noteq> r" using inj by (metis inj_on_def)
    with j show ?thesis by (simp add: drop_runtime_writers drop_runtime_map)
  qed
  with inv show ?thesis by (auto simp: turns_inv_def drop_runtime_shape)
qed

lemma register_fresh_inv:
  assumes inv: "turns_inv p fl" and r: "runtime_get p r = None"
  shows "turns_inv (snd (register_runtime p r w c t)) fl"
proof -
  have "\<forall>j\<in>set (po_runtimes p). j < length (po_entries p)"
    using inv by (simp add: turns_inv_def pool_shape_def list_all_iff)
  then have "entry_of (snd (register_runtime p r w c t)) j = entry_of p j" if "j \<in> set (po_runtimes p)" for j
    using that by (simp add: register_runtime_def Let_def entry_of_def nth_append)
  moreover have "po_runtimes (snd (register_runtime p r w c t)) = po_runtimes p @ [length (po_entries p)]"
    "po_writers (snd (register_runtime p r w c t)) = po_writers p"
    using r by (simp_all add: register_runtime_def Let_def)
  moreover have "pool_shape (snd (register_runtime p r w c t))"
    using inv by (simp add: turns_inv_def register_shape)
  ultimately show ?thesis using inv by (auto simp: turns_inv_def)
qed

lemma begin_turn_Inr:
  "begin_turn p i t r = (Inr (), p') \<longleftrightarrow> \<not> re_busy (entry_of p i) \<and> po_writers p t = None
     \<and> p' = set_entry (p\<lparr>po_writers := (po_writers p)(t \<mapsto> r)\<rparr>) i True"
  by (auto simp: begin_turn_def acquire_thread_writer_def throw_def split: option.splits)

lemma begin_turn_inv:
  assumes inv: "turns_inv p fl" and g: "runtime_get p r = Some i" and b: "begin_turn p i t r = (Inr (), p')"
  shows "turns_inv p' ((i, t, r) # fl)"
proof -
  let ?q = "p\<lparr>po_writers := (po_writers p)(t \<mapsto> r)\<rparr>"
  from inv have sh: "pool_shape p" and dt: "distinct (map (\<lambda>(i, t, r). t) fl)" and di: "distinct (map (\<lambda>(i, t, r). i) fl)"
    and each: "\<And>j t' r'. (j, t', r') \<in> set fl \<Longrightarrow> po_writers p t' = Some r' \<and> j \<in> set (po_runtimes p)
        \<and> re_busy (entry_of p j) \<and> re_run_id (entry_of p j) = r'"
    by (auto simp: turns_inv_def)
  from b have idle: "\<not> re_busy (entry_of p i)" and free: "po_writers p t = None" and p': "p' = set_entry ?q i True"
    by (simp_all add: begin_turn_Inr)
  from runtime_get_Some [OF g] have i: "i \<in> set (po_runtimes p)" "re_run_id (entry_of p i) = r" by auto
  with sh have lt: "i < length (po_entries ?q)" by (auto simp: pool_shape_def list_all_iff)
  have e: "entry_of p' j = (if j = i then (entry_of p i)\<lparr>re_busy := True, re_last_used := Suc (po_clock p)\<rparr> else entry_of p j)" for j
    using set_entry_entry [OF lt, of True j] by (simp add: p' entry_of_def)
  have w: "po_writers p' = (po_writers p)(t \<mapsto> r)" and rt: "po_runtimes p' = po_runtimes p" by (simp_all add: p')
  have fresh: "t' \<noteq> t \<and> j \<noteq> i" if "(j, t', r') \<in> set fl" for j t' r'
    using each [OF that] free idle by auto
  have "pool_shape p'"
    using sh set_entry_run [of ?q i True] by (simp add: pool_shape_def runs_of_def p' entry_of_def)
  moreover have "distinct (map (\<lambda>(i, t, r). t) ((i, t, r) # fl))" "distinct (map (\<lambda>(i, t, r). i) ((i, t, r) # fl))"
    using dt di fresh by auto
  moreover have "po_writers p' t' = Some r' \<and> j \<in> set (po_runtimes p') \<and> re_busy (entry_of p' j) \<and> re_run_id (entry_of p' j) = r'"
    if "(j, t', r') \<in> set ((i, t, r) # fl)" for j t' r'
  proof (cases "(j, t', r') = (i, t, r)")
    case True
    then show ?thesis using i w rt e by simp
  next
    case False
    with that have m: "(j, t', r') \<in> set fl" by auto
    from each [OF m] fresh [OF m] show ?thesis using w rt e by simp
  qed
  ultimately show ?thesis unfolding turns_inv_def by blast
qed

lemma distinct_map_remove1: "distinct (map f xs) \<Longrightarrow> distinct (map f (remove1 x xs))"
  by (induction xs) (auto dest: notin_set_remove1 set_mp [OF set_remove1_subset])

lemma end_turn_inv:
  assumes inv: "turns_inv p fl" and m: "(i, t, r) \<in> set fl"
  shows "turns_inv (end_turn p i t r) (remove1 (i, t, r) fl)"
proof -
  from inv have sh: "pool_shape p" and dt: "distinct (map (\<lambda>(i, t, r). t) fl)" and di: "distinct (map (\<lambda>(i, t, r). i) fl)"
    and each: "\<And>j t' r'. (j, t', r') \<in> set fl \<Longrightarrow> po_writers p t' = Some r' \<and> j \<in> set (po_runtimes p)
        \<and> re_busy (entry_of p j) \<and> re_run_id (entry_of p j) = r'"
    by (auto simp: turns_inv_def)
  have d: "distinct fl" using dt by (simp add: distinct_map)
  from each [OF m] sh have lt: "i < length (po_entries (release_thread_writer p t r))"
    by (auto simp: pool_shape_def list_all_iff)
  have e: "j \<noteq> i \<Longrightarrow> entry_of (end_turn p i t r) j = entry_of p j" for j
    using set_entry_entry [OF lt, of False j] by (simp add: end_turn_def)
  have w: "t' \<noteq> t \<Longrightarrow> po_writers (end_turn p i t r) t' = po_writers p t'" for t'
    by (simp add: end_turn_def release_thread_writer_def)
  have "pool_shape (end_turn p i t r)"
    using sh by (simp add: end_turn_def pool_shape_def runs_of_def set_entry_run)
  moreover have "po_writers (end_turn p i t r) t' = Some r' \<and> j \<in> set (po_runtimes (end_turn p i t r))
      \<and> re_busy (entry_of (end_turn p i t r) j) \<and> re_run_id (entry_of (end_turn p i t r) j) = r'"
    if "(j, t', r') \<in> set (remove1 (i, t, r) fl)" for j t' r'
  proof -
    from that d have mem: "(j, t', r') \<in> set fl" "(j, t', r') \<noteq> (i, t, r)" by (auto simp: set_remove1_eq)
    have "t' \<noteq> t" using dt mem m inj_onD [of "\<lambda>(i, t, r). t" "set fl" "(j, t', r')" "(i, t, r)"] by (simp add: distinct_map) blast
    moreover have "j \<noteq> i" using di mem m inj_onD [of "\<lambda>(i, t, r). i" "set fl" "(j, t', r')" "(i, t, r)"] by (simp add: distinct_map) blast
    ultimately show ?thesis using each [OF mem(1)] e w by (simp add: end_turn_def)
  qed
  ultimately show ?thesis
    using distinct_map_remove1 [OF dt] distinct_map_remove1 [OF di] unfolding turns_inv_def by blast
qed

lemma turns_keep_inv: "turns p fl \<Longrightarrow> turns_inv p fl"
proof (induction rule: turns.induct)
  case (turns_new m p)
  then show ?case by (auto simp: new_pool_def turns_inv_def pool_shape_def runs_of_def)
next
  case (turns_initialize p fl jp paths d f s r p' s')
  then show ?case
    by (auto simp: pool_initialize_def turns_inv_def pool_shape_def runs_of_def entry_of_def split: if_splits prod.splits sum.splits)
next
  case (turns_room p fl sd r p')
  show ?case
  proof (cases "least_recent_idle p")
    case None
    with turns_room show ?thesis by (auto simp: make_capacity_def split: if_splits)
  next
    case (Some i)
    with turns_room drop_idle_inv [OF turns_room.IH, of i] least_recent_idle_Some [OF Some] show ?thesis
      by (auto simp: make_capacity_def split: if_splits)
  qed
next
  case (turns_register p fl r w c t)
  then show ?case by (simp add: register_fresh_inv)
next
  case (turns_begin p fl r i t p')
  then show ?case by (simp add: begin_turn_inv)
next
  case (turns_end p fl i t r)
  then show ?case by (simp add: end_turn_inv)
next
  case (turns_release p fl sd r a p')
  show ?case
  proof (cases "runtime_get p r")
    case (Some i)
    with turns_release drop_idle_inv [OF turns_release.IH, of i] runtime_get_Some [OF Some] show ?thesis
      by (auto simp: release_run_def pool_guard_def throw_def split: if_splits sum.splits)
  qed (use turns_release in \<open>auto simp: release_run_def split: sum.splits option.splits\<close>)
qed


definition two_turns :: "pool \<times> turn_ref list" where
  "two_turns =
     (let p1 = snd (register_runtime \<lparr>po_entries = [], po_runtimes = [], po_writers = Map.empty, po_clock = 0, po_max = 4, po_initialized = False\<rparr>
                 (lit ''r'') (lit ''w'') (lit ''/d'') (Some (lit ''t'')));
          p2 = snd (begin_turn p1 0 (lit ''t'') (lit ''r''))
      in (p2, [(0, lit ''t'', lit ''r'')]))"


text \<open>
  Cancelling breaks the exclusion. A cancelled turn is still in flight when its run starts a
  new turn on the same thread, and when it then ends it releases the writer of the new turn,
  because the writer is recognised by its run alone; a third turn, of another run, then starts
  on the same thread while the second is still running.
\<close>

theorem cancelled_turn_frees_new_writer:
  "let t = lit ''t''; r = lit ''r''; q = lit ''q''; reg = (\<lambda>p x. snd (register_runtime p x (lit ''w'') (lit ''/d'') (Some t)));
       p1 = reg \<lparr>po_entries = [], po_runtimes = [], po_writers = Map.empty, po_clock = 0, po_max = 4, po_initialized = True\<rparr> r;
       p2 = snd (begin_turn p1 0 t r);
       p3 = reg (snd (cancel_run (Inr ()) p2 r)) r;
       p4 = snd (begin_turn p3 1 t r);
       p5 = reg (end_turn p4 0 t r) q
   in fst (begin_turn p1 0 t r) = Inr () \<and> fst (begin_turn p3 1 t r) = Inr () \<and> re_busy (entry_of p5 1)
      \<and> po_writers p4 t = Some r \<and> po_writers p5 t = None \<and> fst (begin_turn p5 2 t q) = Inr ()"
proof -
  let ?e = "\<lambda>b n x. \<lparr>re_run_id = lit x, re_workspace_id = lit ''w'', re_cwd = lit ''/d'', re_thread = Some (lit ''t''),
     re_busy = b, re_last_used = n\<rparr>"
  let ?P = "\<lambda>es rs ws n. \<lparr>po_entries = es, po_runtimes = rs, po_writers = ws, po_clock = n, po_max = 4, po_initialized = True\<rparr>"
  let ?reg = "\<lambda>p x. snd (register_runtime p (lit x) (lit ''w'') (lit ''/d'') (Some (lit ''t'')))"
  let ?none = "Map.empty(lit ''t'' := None)" and ?some = "Map.empty(lit ''t'' \<mapsto> lit ''r'')"
  note race = register_runtime_def runtime_get_def entry_of_def Let_def begin_turn_def acquire_thread_writer_def
    set_entry_def cancel_run_def pool_guard_def drop_runtime_def runtime_delete_def release_thread_writer_def end_turn_def
  have 1: "?reg (?P [] [] Map.empty 0) ''r'' = ?P [?e False 1 ''r''] [0] Map.empty 1"
    by (simp add: race)
  have 2: "begin_turn (?P [?e False 1 ''r''] [0] Map.empty 1) 0 (lit ''t'') (lit ''r'')
      = (Inr (), ?P [?e True 2 ''r''] [0] ?some 2)"
    by (simp add: race)
  have 3: "snd (cancel_run (Inr ()) (?P [?e True 2 ''r''] [0] ?some 2) (lit ''r'')) = ?P [?e True 2 ''r''] [] ?none 2"
    by (simp add: race)
  have 4: "?reg (?P [?e True 2 ''r''] [] ?none 2) ''r'' = ?P [?e True 2 ''r'', ?e False 3 ''r''] [1] ?none 3"
    by (simp add: race)
  have 5: "begin_turn (?P [?e True 2 ''r'', ?e False 3 ''r''] [1] ?none 3) 1 (lit ''t'') (lit ''r'')
      = (Inr (), ?P [?e True 2 ''r'', ?e True 4 ''r''] [1] ?some 4)"
    by (simp add: race)
  have 6: "end_turn (?P [?e True 2 ''r'', ?e True 4 ''r''] [1] ?some 4) 0 (lit ''t'') (lit ''r'')
      = ?P [?e False 5 ''r'', ?e True 4 ''r''] [1] ?none 5"
    by (simp add: race)
  have 7: "?reg (?P [?e False 5 ''r'', ?e True 4 ''r''] [1] ?none 5) ''q''
      = ?P [?e False 5 ''r'', ?e True 4 ''r'', ?e False 6 ''q''] [1, 2] ?none 6"
    by (simp add: race)
  have 8: "fst (begin_turn (?P [?e False 5 ''r'', ?e True 4 ''r'', ?e False 6 ''q''] [1, 2] ?none 6) 2 (lit ''t'') (lit ''q''))
      = Inr ()"
    by (simp add: race)
  show ?thesis
    unfolding Let_def 1 2 snd_conv 3 4 5 6 7 8 by (simp add: entry_of_def)
qed

text \<open>
  The limit can be passed by interleaving. Two turns of different runs may both make room in
  a pool of one runtime before either of them registers its own, which leaves two registered
  runtimes, since nothing checks the limit again after the host has been started.
\<close>

theorem concurrent_admission_exceeds_limit:
  "let p0 = \<lparr>po_entries = [], po_runtimes = [], po_writers = Map.empty, po_clock = 0, po_max = 1, po_initialized = False\<rparr>;
       p1 = snd (make_capacity (Inr ()) (snd (make_capacity (Inr ()) p0)));
       p2 = snd (register_runtime p1 (lit ''a'') (lit ''w'') (lit ''/d'') None);
       p3 = snd (register_runtime p2 (lit ''b'') (lit ''w'') (lit ''/d'') None)
   in new_pool (jint 1) = Inr p0 \<and> turns p3 [] \<and> length (po_runtimes p3) = 2 \<and> po_max p3 = 1"
proof -
  let ?p0 = "\<lparr>po_entries = [], po_runtimes = [], po_writers = Map.empty, po_clock = 0, po_max = 1, po_initialized = False\<rparr>"
  let ?p2 = "snd (register_runtime ?p0 (lit ''a'') (lit ''w'') (lit ''/d'') None)"
  let ?p3 = "snd (register_runtime ?p2 (lit ''b'') (lit ''w'') (lit ''/d'') None)"
  have n: "new_pool (jint 1) = Inr ?p0" by (simp add: new_pool_def bounded_integer_def js_eval)
  have "runtime_get ?p0 (lit ''a'') = None" "runtime_get ?p2 (lit ''b'') = None"
    by (simp_all add: runtime_get_def register_runtime_def Let_def entry_of_def)
  with n have "turns ?p3 []" by (blast intro: turns_new turns_register)
  with n show ?thesis
    by (simp add: Let_def make_capacity_def register_runtime_def runtime_get_def entry_of_def)
qed

end
