(* ===== verification/Json_Rpc.thy ===== *)
theory Json_Rpc
  imports Contracts
begin

text \<open>
  The line-based JSON-RPC connection to the Codex app-server (\<^verbatim>\<open>codex-jsonrpc.ts\<close>).
  \<^verbatim>\<open>JSON.parse\<close> and \<^verbatim>\<open>JSON.stringify\<close> are parameters. What the connection does to the outside (a
  promise settled, a notification or a request delivered, a line written) is a list of effects
  kept with its state. The handler of server requests runs outside; its answer comes back
  through \<open>answer_request\<close>.
\<close>

section \<open>Data\<close>

datatype outcome =
    Resolved js
  | RpcError jstr int js
  | Failed jstr

datatype rpc_effect =
    Settle nat outcome
  | Notification jstr js
  | ServerRequest js jstr js
  | WriteLine js

record rpc =
  rpc_pending :: "(nat \<times> jstr) list"
  rpc_next_id :: nat
  rpc_buffer :: jstr
  rpc_closed :: bool
  rpc_failure :: "jstr option"
  rpc_log :: "rpc_effect list"

definition MAX_JSON_LINE_BYTES :: nat where
  "MAX_JSON_LINE_BYTES = 4 * 1024 * 1024"

definition new_rpc :: rpc where
  "new_rpc = \<lparr>rpc_pending = [], rpc_next_id = 1, rpc_buffer = [], rpc_closed = False, rpc_failure = None, rpc_log = []\<rparr>"

definition emit :: "rpc_effect \<Rightarrow> rpc \<Rightarrow> rpc" where
  "emit e c = c\<lparr>rpc_log := rpc_log c @ [e]\<rparr>"

section \<open>Failure\<close>

definition rpc_fail :: "jstr \<Rightarrow> rpc \<Rightarrow> rpc" where
  "rpc_fail e c =
     (if rpc_closed c then c
      else c\<lparr>rpc_closed := True, rpc_failure := Some e, rpc_pending := [],
             rpc_log := rpc_log c @ map (\<lambda>p. Settle (fst p) (Failed e)) (rpc_pending c)\<rparr>)"

definition assert_open :: "rpc \<Rightarrow> unit res" where
  "assert_open c =
     (case rpc_failure c of
        Some e \<Rightarrow> Inl e
      | None \<Rightarrow> if rpc_closed c then throw ''Codex app-server JSON-RPC connection is closed'' else Inr ())"

section \<open>Writing\<close>

definition rpc_write :: "(js \<Rightarrow> jstr) \<Rightarrow> js \<Rightarrow> rpc \<Rightarrow> unit res \<times> rpc" where
  "rpc_write stringify message c =
     (case assert_open c of
        Inl e \<Rightarrow> (Inl e, c)
      | Inr _ \<Rightarrow>
          if utf8_len (stringify message @ [10]) > MAX_JSON_LINE_BYTES
          then (throw ''Codex app-server JSON-RPC request exceeds 4 MiB'', c)
          else (Inr (), emit (WriteLine message) c))"

definition params_field :: "js \<Rightarrow> (jstr \<times> js) list" where
  "params_field params = (if params = JUndef then [] else [(lit ''params'', params)])"

text \<open>
  \<^verbatim>\<open>request\<close>: the id it takes; the promise it returns is settled by the effect \<open>Settle\<close> with
  that id, here at once when writing throws. A call on a closed connection takes no id.
\<close>

definition rpc_request :: "(js \<Rightarrow> jstr) \<Rightarrow> jstr \<Rightarrow> js \<Rightarrow> rpc \<Rightarrow> nat res \<times> rpc" where
  "rpc_request stringify meth params c =
     (case assert_open c of
        Inl e \<Rightarrow> (Inl e, c)
      | Inr _ \<Rightarrow>
          let i = rpc_next_id c;
              c1 = c\<lparr>rpc_next_id := Suc i, rpc_pending := rpc_pending c @ [(i, meth)]\<rparr>
          in (case rpc_write stringify (JObj ([(lit ''jsonrpc'', jtext ''2.0''), (lit ''id'', jint (int i)), (lit ''method'', JStr meth)]
                  @ params_field params)) c1 of
                (Inr _, c2) \<Rightarrow> (Inr i, c2)
              | (Inl e, c2) \<Rightarrow> (Inl e, emit (Settle i (Failed e)) (c2\<lparr>rpc_pending := filter (\<lambda>p. fst p \<noteq> i) (rpc_pending c2)\<rparr>))))"

definition rpc_notify :: "(js \<Rightarrow> jstr) \<Rightarrow> jstr \<Rightarrow> js \<Rightarrow> rpc \<Rightarrow> unit res \<times> rpc" where
  "rpc_notify stringify meth params c =
     (case assert_open c of
        Inl e \<Rightarrow> (Inl e, c)
      | Inr _ \<Rightarrow> rpc_write stringify (JObj ([(lit ''jsonrpc'', jtext ''2.0''), (lit ''method'', JStr meth)] @ params_field params)) c)"

definition rpc_close :: "jstr \<Rightarrow> rpc \<Rightarrow> rpc" where
  "rpc_close reason c = rpc_fail reason c"

section \<open>Reading\<close>

definition as_rpc_error :: "js \<Rightarrow> jstr \<Rightarrow> outcome" where
  "as_rpc_error value meth =
     (let fallback = lit ''Codex app-server '' @ meth @ lit '' failed'' in
      if \<not> is_record value then RpcError fallback (-32603) value
      else RpcError (case jget value ''message'' of JStr s \<Rightarrow> if s = [] then fallback else s | _ \<Rightarrow> fallback)
             (case safe_int (jget value ''code'') of Some i \<Rightarrow> i | None \<Rightarrow> -32603)
             (jget value ''data''))"

text \<open>The pending request whose id is the number \<open>v\<close>.\<close>

definition pending_of :: "rpc \<Rightarrow> js \<Rightarrow> (nat \<times> jstr) option" where
  "pending_of c v = find (\<lambda>p. v = jint (int (fst p))) (rpc_pending c)"

definition handle_response :: "js \<Rightarrow> js \<Rightarrow> rpc \<Rightarrow> rpc" where
  "handle_response i message c =
     (case pending_of c i of
        None \<Rightarrow> c
      | Some (n, meth) \<Rightarrow>
          emit (Settle n (if jget message ''error'' \<noteq> JUndef then as_rpc_error (jget message ''error'') meth
                          else Resolved (jget message ''result'')))
            (c\<lparr>rpc_pending := filter (\<lambda>p. fst p \<noteq> n) (rpc_pending c)\<rparr>))"

definition error_answer :: "js \<Rightarrow> int \<Rightarrow> jstr \<Rightarrow> js" where
  "error_answer i code message =
     JObj [(lit ''jsonrpc'', jtext ''2.0''), (lit ''id'', i),
           (lit ''error'', JObj [(lit ''code'', jint code), (lit ''message'', JStr message)])]"

text \<open>A request of the server: refused when there is no handler, handed out otherwise.\<close>

definition handle_server_request :: "(js \<Rightarrow> jstr) \<Rightarrow> bool \<Rightarrow> js \<Rightarrow> jstr \<Rightarrow> js \<Rightarrow> rpc \<Rightarrow> rpc" where
  "handle_server_request stringify has_handler i meth params c =
     (if rpc_closed c then c
      else if has_handler then emit (ServerRequest i meth params) c
      else snd (rpc_write stringify
             (error_answer i (-32601) (lit ''SourceNerve P1 does not implement app-server request '' @ meth)) c))"

text \<open>The rest of \<^verbatim>\<open>handleServerRequest\<close> when the handler has answered or thrown.\<close>

definition answer_request :: "(js \<Rightarrow> jstr) \<Rightarrow> js \<Rightarrow> js res \<Rightarrow> rpc \<Rightarrow> rpc" where
  "answer_request stringify i answer c =
     (if rpc_closed c then c
      else (case answer of
          Inr result \<Rightarrow>
            (case rpc_write stringify (JObj [(lit ''jsonrpc'', jtext ''2.0''), (lit ''id'', i), (lit ''result'', result)]) c of
               (Inr _, c1) \<Rightarrow> c1
             | (Inl e, c1) \<Rightarrow> snd (rpc_write stringify (error_answer i (-32603) e) c1))
        | Inl e \<Rightarrow> snd (rpc_write stringify (error_answer i (-32603) e) c)))"

definition is_id :: "js \<Rightarrow> bool" where
  "is_id v \<longleftrightarrow> (case v of JNum _ \<Rightarrow> True | JStr _ \<Rightarrow> True | _ \<Rightarrow> False)"

definition has_key :: "js \<Rightarrow> string \<Rightarrow> bool" where
  "has_key v k \<longleftrightarrow> lit k \<in> set (obj_keys v)"

definition handle_line :: "(jstr \<Rightarrow> js option) \<Rightarrow> (js \<Rightarrow> jstr) \<Rightarrow> bool \<Rightarrow> jstr \<Rightarrow> rpc \<Rightarrow> rpc" where
  "handle_line json_parse stringify has_handler line c =
     (case json_parse line of
        None \<Rightarrow> rpc_fail (lit ''Codex app-server emitted invalid JSON-RPC'') c
      | Some message \<Rightarrow>
          if \<not> is_record message then rpc_fail (lit ''Codex app-server emitted invalid JSON-RPC envelope'') c
          else if jget message ''jsonrpc'' \<noteq> JUndef \<and> jget message ''jsonrpc'' \<noteq> jtext ''2.0''
            then rpc_fail (lit ''Codex app-server emitted unsupported JSON-RPC version'') c
          else if is_id (jget message ''id'') \<and> (has_key message ''result'' \<or> has_key message ''error'')
              \<and> jget message ''method'' = JUndef
            then handle_response (jget message ''id'') message c
          else (case jget message ''method'' of
              JStr meth \<Rightarrow>
                if is_id (jget message ''id'')
                then handle_server_request stringify has_handler (jget message ''id'') meth (jget message ''params'') c
                else emit (Notification meth (jget message ''params'')) c
            | _ \<Rightarrow> rpc_fail (lit ''Codex app-server emitted unknown JSON-RPC envelope'') c))"

lemma rpc_fail_buffer [simp]: "rpc_buffer (rpc_fail e c) = rpc_buffer c"
  by (simp add: rpc_fail_def)

lemma rpc_write_buffer [simp]: "rpc_buffer (snd (rpc_write f m c)) = rpc_buffer c"
  by (auto simp: rpc_write_def emit_def split: sum.splits)

lemma handle_line_buffer [simp]: "rpc_buffer (handle_line jp sf h l c) = rpc_buffer c"
  by (auto simp: handle_line_def handle_response_def handle_server_request_def emit_def
      split: option.splits js.splits prod.splits)

text \<open>The loop of \<^verbatim>\<open>handleData\<close>: one complete line at a time while the connection is open.\<close>

function drain :: "(jstr \<Rightarrow> js option) \<Rightarrow> (js \<Rightarrow> jstr) \<Rightarrow> bool \<Rightarrow> rpc \<Rightarrow> rpc" where
  "drain jp sf h c =
     (if rpc_closed c \<or> 10 \<notin> set (rpc_buffer c) then c
      else let raw = takeWhile (\<lambda>x. x \<noteq> 10) (rpc_buffer c);
               line = trim raw;
               c1 = c\<lparr>rpc_buffer := drop (Suc (length raw)) (rpc_buffer c)\<rparr>
           in if line = [] then drain jp sf h c1
              else if utf8_len line > MAX_JSON_LINE_BYTES
                then rpc_fail (lit ''Codex app-server JSON-RPC line exceeds 4 MiB'') c1
              else drain jp sf h (handle_line jp sf h line c1))"
  by pat_completeness auto
termination
  by (relation "measure (\<lambda>(jp, sf, h, c). length (rpc_buffer c))")
    (auto intro!: diff_less length_pos_if_in_set)

declare drain.simps [simp del]

definition handle_data :: "(jstr \<Rightarrow> js option) \<Rightarrow> (js \<Rightarrow> jstr) \<Rightarrow> bool \<Rightarrow> jstr \<Rightarrow> rpc \<Rightarrow> rpc" where
  "handle_data jp sf h chunk c =
     (if rpc_closed c then c
      else let c1 = c\<lparr>rpc_buffer := rpc_buffer c @ chunk\<rparr>
           in if utf8_len (rpc_buffer c1) > MAX_JSON_LINE_BYTES \<and> 10 \<notin> set (rpc_buffer c1)
              then rpc_fail (lit ''Codex app-server JSON-RPC line exceeds 4 MiB'') c1
              else drain jp sf h c1)"

section \<open>Every call is settled once\<close>

fun settled_id :: "rpc_effect \<Rightarrow> nat list" where
  "settled_id (Settle i _) = [i]"
| "settled_id _ = []"

definition settled :: "rpc \<Rightarrow> nat list" where
  "settled c = concat (map settled_id (rpc_log c))"

definition rpc_ok :: "rpc \<Rightarrow> bool" where
  "rpc_ok c \<longleftrightarrow> distinct (settled c @ map fst (rpc_pending c))
     \<and> set (settled c) \<union> set (map fst (rpc_pending c)) = {1..<rpc_next_id c} \<and> 1 \<le> rpc_next_id c
     \<and> (rpc_closed c \<longrightarrow> rpc_pending c = []) \<and> (rpc_closed c \<longleftrightarrow> rpc_failure c \<noteq> None)"

lemma settled_emit: "settled (emit e c) = settled c @ settled_id e"
  by (simp add: settled_def emit_def)

lemma emit_fields [simp]:
  "rpc_pending (emit e c) = rpc_pending c" "rpc_next_id (emit e c) = rpc_next_id c" "rpc_closed (emit e c) = rpc_closed c"
  "rpc_failure (emit e c) = rpc_failure c" "rpc_buffer (emit e c) = rpc_buffer c"
  by (simp_all add: emit_def)

lemma settled_upd [simp]:
  "settled (c\<lparr>rpc_pending := ps\<rparr>) = settled c" "settled (c\<lparr>rpc_next_id := n\<rparr>) = settled c"
  "settled (c\<lparr>rpc_buffer := b\<rparr>) = settled c"
  by (simp_all add: settled_def)

lemma rpc_ok_buffer [simp]: "rpc_ok (c\<lparr>rpc_buffer := b\<rparr>) = rpc_ok c"
  by (simp add: rpc_ok_def)

lemma rpc_ok_emit: "settled_id e = [] \<Longrightarrow> rpc_ok (emit e c) = rpc_ok c"
  by (simp add: rpc_ok_def settled_emit)

lemma rpc_fail_ok:
  assumes "rpc_ok c" shows "rpc_ok (rpc_fail e c)"
proof (cases "rpc_closed c")
  case False
  have "concat (map settled_id (map (\<lambda>p. Settle (fst p) (Failed e)) ps)) = map fst ps" for ps :: "(nat \<times> jstr) list"
    by (induction ps) auto
  with False assms show ?thesis by (simp add: rpc_fail_def rpc_ok_def settled_def)
qed (simp add: rpc_fail_def assms)

lemma rpc_write_effects:
  "rpc_write sf m c = (r, c') \<Longrightarrow> c' = c \<and> r \<noteq> Inr () \<or> c' = emit (WriteLine m) c \<and> r = Inr ()"
  by (auto simp: rpc_write_def throw_def split: sum.splits if_splits)

lemma rpc_write_ok: "rpc_ok c \<Longrightarrow> rpc_ok (snd (rpc_write sf m c))"
  using rpc_write_effects [of sf m c "fst (rpc_write sf m c)" "snd (rpc_write sf m c)"]
  by (auto simp: rpc_ok_emit)

lemma settle_pending_ok:
  assumes "rpc_ok c" "(n, m) \<in> set (rpc_pending c)"
  shows "rpc_ok (emit (Settle n out) (c\<lparr>rpc_pending := filter (\<lambda>p. fst p \<noteq> n) (rpc_pending c)\<rparr>))"
proof -
  let ?P = "map fst (rpc_pending c)" and ?F = "map fst (filter (\<lambda>p. fst p \<noteq> n) (rpc_pending c))"
  have n: "n \<in> set ?P" using assms(2) by force
  have F: "set ?F = set ?P - {n}" by auto
  have ok: "distinct (settled c)" "distinct ?P" "set (settled c) \<inter> set ?P = {}"
    "set (settled c) \<union> set ?P = {1..<rpc_next_id c}" "1 \<le> rpc_next_id c" "\<not> rpc_closed c" "rpc_failure c = None"
    using assms by (auto simp: rpc_ok_def simp del: set_map)
  have "distinct ((settled c @ [n]) @ ?F)"
    unfolding distinct_append F using ok(1-3) n by (simp add: distinct_map_filter del: set_map) blast
  moreover have "set (settled c @ [n]) \<union> set ?F = {1..<rpc_next_id c}"
    unfolding F ok(4) [symmetric] using n by (simp del: set_map) blast
  ultimately show ?thesis
    using ok(5-7) by (simp add: rpc_ok_def settled_emit del: set_map set_append distinct_append append_assoc)
qed

lemma handle_response_ok:
  assumes "rpc_ok c" shows "rpc_ok (handle_response i m c)"
proof (cases "pending_of c i")
  case (Some q)
  then have "(fst q, snd q) \<in> set (rpc_pending c)"
    using nth_mem by (fastforce simp: pending_of_def find_Some_iff)
  with settle_pending_ok [OF assms this] Some show ?thesis
    by (simp add: handle_response_def split_beta)
qed (simp add: handle_response_def assms)

lemma handle_line_ok: "rpc_ok c \<Longrightarrow> rpc_ok (handle_line jp sf h l c)"
  by (auto simp: handle_line_def handle_server_request_def rpc_fail_ok rpc_ok_emit rpc_write_ok handle_response_ok
      split: option.splits js.splits)

lemma drain_ok: "rpc_ok c \<Longrightarrow> rpc_ok (drain jp sf h c)"
proof (induction jp sf h c rule: drain.induct)
  case (1 jp sf h c)
  show ?case
    by (subst drain.simps) (auto simp: Let_def "1.prems" rpc_fail_ok handle_line_ok intro!: "1.IH" [OF _ refl refl refl])
qed

lemma handle_data_ok: "rpc_ok c \<Longrightarrow> rpc_ok (handle_data jp sf h chunk c)"
  by (simp add: handle_data_def Let_def rpc_fail_ok drain_ok)

lemma rpc_request_ok:
  assumes "rpc_ok c" shows "rpc_ok (snd (rpc_request sf m ps c))"
proof (cases "assert_open c")
  case (Inl e)
  with assms show ?thesis by (simp add: rpc_request_def)
next
  case (Inr u)
  then have "\<not> rpc_closed c" by (auto simp: assert_open_def throw_def split: option.splits if_splits)
  define c1 where "c1 = c\<lparr>rpc_next_id := Suc (rpc_next_id c), rpc_pending := rpc_pending c @ [(rpc_next_id c, m)]\<rparr>"
  have ok1: "rpc_ok c1"
    using assms \<open>\<not> rpc_closed c\<close> by (auto simp: rpc_ok_def c1_def)
  define msg where "msg = JObj ([(lit ''jsonrpc'', jtext ''2.0''), (lit ''id'', jint (int (rpc_next_id c))), (lit ''method'', JStr m)] @ params_field ps)"
  obtain r c2 where w: "rpc_write sf msg c1 = (r, c2)" by fastforce
  show ?thesis
  proof (cases r)
    case (Inr v)
    with w ok1 rpc_write_ok [OF ok1, of sf msg] \<open>assert_open c = Inr u\<close> show ?thesis
      by (simp add: rpc_request_def Let_def c1_def msg_def)
  next
    case (Inl e)
    with rpc_write_effects [OF w] have "c2 = c1" by auto
    with Inl w \<open>assert_open c = Inr u\<close> settle_pending_ok [OF ok1, of "rpc_next_id c" m "Failed e"] show ?thesis
      by (simp add: rpc_request_def Let_def c1_def msg_def)
  qed
qed

lemma answer_request_ok: "rpc_ok c \<Longrightarrow> rpc_ok (answer_request sf i a c)"
  using rpc_write_ok [of c sf]
  by (auto simp: answer_request_def split: sum.splits prod.splits) (metis rpc_write_ok snd_conv)+

datatype rpc_event =
    RpcRequest jstr js
  | RpcNotify jstr js
  | RpcData jstr
  | RpcAnswer js "js res"
  | RpcTransportError jstr
  | RpcClose jstr

fun rpc_step :: "(jstr \<Rightarrow> js option) \<Rightarrow> (js \<Rightarrow> jstr) \<Rightarrow> bool \<Rightarrow> rpc \<Rightarrow> rpc_event \<Rightarrow> rpc" where
  "rpc_step jp sf h c (RpcRequest m ps) = snd (rpc_request sf m ps c)"
| "rpc_step jp sf h c (RpcNotify m ps) = snd (rpc_notify sf m ps c)"
| "rpc_step jp sf h c (RpcData chunk) = handle_data jp sf h chunk c"
| "rpc_step jp sf h c (RpcAnswer i a) = answer_request sf i a c"
| "rpc_step jp sf h c (RpcTransportError e) = rpc_fail e c"
| "rpc_step jp sf h c (RpcClose e) = rpc_close e c"

lemma rpc_step_ok: "rpc_ok c \<Longrightarrow> rpc_ok (rpc_step jp sf h c e)"
  by (cases e) (auto simp: rpc_request_ok rpc_notify_def rpc_write_ok handle_data_ok answer_request_ok rpc_fail_ok
      rpc_close_def split: sum.splits)

interpretation rpc: machine "\<lambda>c. c = new_rpc" "rpc_step jp sf h" rpc_ok
  for jp :: "jstr \<Rightarrow> js option" and sf :: "js \<Rightarrow> jstr" and h :: bool
  by unfold_locales (auto intro: rpc_step_ok simp: new_rpc_def rpc_ok_def [of "\<lparr>rpc_pending = _, rpc_next_id = _, rpc_buffer = _, rpc_closed = _, rpc_failure = _, rpc_log = _\<rparr>"] settled_def)

text \<open>
  C30: Every call is settled exactly once or is still pending. After any sequence of requests,
  chunks of any content, handler answers, transport errors and closes, the ids handed out are
  1, 2, 3 and so on; each of them is settled at most once and is settled or pending, never both;
  and once the connection is closed none is pending, so that every call made has been settled.
\<close>

theorem rpc_calls_settled_once:
  "let c = foldl (rpc_step jp sf h) new_rpc es in
   distinct (settled c @ map fst (rpc_pending c))
   \<and> set (settled c) \<union> set (map fst (rpc_pending c)) = {1..<rpc_next_id c}
   \<and> (if rpc_closed c then set (settled c) = {1..<rpc_next_id c} else True)"
  using rpc.inv_reachable [of new_rpc jp sf h es] by (auto simp: Let_def rpc_ok_def)

section \<open>Chunks\<close>

lemma set_buffer_commutes:
  "rpc_write sf m (c\<lparr>rpc_buffer := b\<rparr>) = (fst (rpc_write sf m c), (snd (rpc_write sf m c))\<lparr>rpc_buffer := b\<rparr>)"
  "rpc_fail e (c\<lparr>rpc_buffer := b\<rparr>) = (rpc_fail e c)\<lparr>rpc_buffer := b\<rparr>"
  "emit f (c\<lparr>rpc_buffer := b\<rparr>) = (emit f c)\<lparr>rpc_buffer := b\<rparr>"
  by (simp_all add: rpc_write_def assert_open_def emit_def rpc_fail_def split: sum.splits option.splits)

lemma handle_response_set_buffer: "handle_response i m (c\<lparr>rpc_buffer := b\<rparr>) = (handle_response i m c)\<lparr>rpc_buffer := b\<rparr>"
  by (cases "pending_of c i") (auto simp: handle_response_def pending_of_def emit_def)

lemma handle_server_request_set_buffer:
  "handle_server_request sf h i m ps (c\<lparr>rpc_buffer := b\<rparr>) = (handle_server_request sf h i m ps c)\<lparr>rpc_buffer := b\<rparr>"
  by (simp add: handle_server_request_def set_buffer_commutes)

lemma handle_line_set_buffer:
  "handle_line jp sf h l (c\<lparr>rpc_buffer := b\<rparr>) = (handle_line jp sf h l c)\<lparr>rpc_buffer := b\<rparr>"
proof (cases "jp l")
  case (Some m)
  note commutes = handle_line_def Some set_buffer_commutes handle_response_set_buffer handle_server_request_set_buffer
  show ?thesis by (cases "jget m ''method''") (auto simp: commutes)
qed (simp add: handle_line_def set_buffer_commutes)

text \<open>Draining a longer buffer is draining its first part and then what is left with the rest.\<close>

lemma drain_append:
  "\<not> rpc_closed c \<Longrightarrow> rpc_buffer c = a @ b \<Longrightarrow>
   (let d = drain jp sf h (c\<lparr>rpc_buffer := a\<rparr>) in
    drain jp sf h c = (if rpc_closed d then d\<lparr>rpc_buffer := rpc_buffer d @ b\<rparr> else drain jp sf h (d\<lparr>rpc_buffer := rpc_buffer d @ b\<rparr>)))"
proof (induction "length a" arbitrary: a c rule: less_induct)
  case less
  let ?raw = "takeWhile (\<lambda>x. x \<noteq> 10) a"
  show ?case
  proof (cases "10 \<in> set a")
    case False
    then have "drain jp sf h (c\<lparr>rpc_buffer := a\<rparr>) = c\<lparr>rpc_buffer := a\<rparr>" by (subst drain.simps) simp
    moreover have "c\<lparr>rpc_buffer := a @ b\<rparr> = c" using less.prems(2) by (metis rpc.surjective rpc.update_convs(3))
    ultimately show ?thesis using less.prems(1) by (simp add: Let_def)
  next
    case True
    define a' where "a' = drop (Suc (length ?raw)) a"
    have raw: "takeWhile (\<lambda>x. x \<noteq> 10) (a @ b) = ?raw" using True by (induction a) auto
    have len: "length ?raw < length a" using True by (induction a) auto
    then have dr: "drop (Suc (length ?raw)) (a @ b) = a' @ b" and sm: "length a' < length a" by (auto simp: a'_def)
    let ?c = "c\<lparr>rpc_buffer := a' @ b\<rparr>"
    have big: "drain jp sf h c = (if trim ?raw = [] then drain jp sf h ?c
        else if utf8_len (trim ?raw) > MAX_JSON_LINE_BYTES then rpc_fail (lit ''Codex app-server JSON-RPC line exceeds 4 MiB'') ?c
        else drain jp sf h (handle_line jp sf h (trim ?raw) ?c))"
      using True less.prems by (subst drain.simps) (simp add: Let_def raw dr del: drop_append)
    have small: "drain jp sf h (c\<lparr>rpc_buffer := a\<rparr>) = (if trim ?raw = [] then drain jp sf h (c\<lparr>rpc_buffer := a'\<rparr>)
        else if utf8_len (trim ?raw) > MAX_JSON_LINE_BYTES then rpc_fail (lit ''Codex app-server JSON-RPC line exceeds 4 MiB'') (c\<lparr>rpc_buffer := a'\<rparr>)
        else drain jp sf h (handle_line jp sf h (trim ?raw) (c\<lparr>rpc_buffer := a'\<rparr>)))"
      using True less.prems by (subst drain.simps) (simp add: Let_def a'_def)
    consider "trim ?raw = []" | "trim ?raw \<noteq> []" "utf8_len (trim ?raw) > MAX_JSON_LINE_BYTES"
      | "trim ?raw \<noteq> []" "\<not> utf8_len (trim ?raw) > MAX_JSON_LINE_BYTES" by blast
    then show ?thesis
    proof cases
      case 1
      with less.hyps [OF sm, of ?c] less.prems big small show ?thesis by simp
    next
      case 2
      with less.prems big small show ?thesis by (simp add: Let_def rpc_fail_def)
    next
      case 3
      let ?d = "handle_line jp sf h (trim ?raw) ?c"
      have sw: "handle_line jp sf h (trim ?raw) (c\<lparr>rpc_buffer := a'\<rparr>) = ?d\<lparr>rpc_buffer := a'\<rparr>"
        by (simp add: handle_line_set_buffer)
      show ?thesis
      proof (cases "rpc_closed ?d")
        case True
        then have "drain jp sf h ?d = ?d" "drain jp sf h (?d\<lparr>rpc_buffer := a'\<rparr>) = ?d\<lparr>rpc_buffer := a'\<rparr>"
          by (subst drain.simps, simp)+
        with 3 True big small sw show ?thesis by (simp add: Let_def handle_line_set_buffer)
      next
        case False
        from 3 big small sw less.hyps [OF sm, of ?d] False show ?thesis by (simp add: Let_def)
      qed
    qed
  qed
qed

lemma drain_suffix: "\<exists>n. rpc_buffer (drain jp sf h c) = drop n (rpc_buffer c)"
proof (induction jp sf h c rule: drain.induct)
  case (1 jp sf h c)
  let ?raw = "takeWhile (\<lambda>x. x \<noteq> 10) (rpc_buffer c)"
  let ?c = "c\<lparr>rpc_buffer := drop (Suc (length ?raw)) (rpc_buffer c)\<rparr>"
  have id: "\<exists>n. rpc_buffer c = drop n (rpc_buffer c)" by (rule exI [of _ 0]) simp
  consider "rpc_closed c \<or> 10 \<notin> set (rpc_buffer c)" | "\<not> (rpc_closed c \<or> 10 \<notin> set (rpc_buffer c))" "trim ?raw = []"
    | "\<not> (rpc_closed c \<or> 10 \<notin> set (rpc_buffer c))" "trim ?raw \<noteq> []" "utf8_len (trim ?raw) > MAX_JSON_LINE_BYTES"
    | "\<not> (rpc_closed c \<or> 10 \<notin> set (rpc_buffer c))" "trim ?raw \<noteq> []" "\<not> utf8_len (trim ?raw) > MAX_JSON_LINE_BYTES"
    by blast
  then show ?case
  proof cases
    case 1
    then show ?thesis using id by (subst drain.simps) simp
  next
    case 2
    from "1.IH"(1) [OF 2(1) refl refl refl 2(2)] 2 show ?thesis by (subst drain.simps) (auto simp: Let_def)
  next
    case 3
    then show ?thesis by (subst drain.simps) (auto simp: Let_def)
  next
    case 4
    from "1.IH"(2) [OF 4(1) refl refl refl 4(2,3)] 4 show ?thesis by (subst drain.simps) (auto simp: Let_def)
  qed
qed

text \<open>
  C36: How the bytes are cut into chunks does not matter. As long as what is buffered together
  with the two chunks fits into the line limit, handling the concatenation of the chunks does
  to the connection exactly what handling one after the other does: the same calls are
  settled, the same notifications, requests and answers are produced in the same order, the
  connection is closed for the same reason or stays open with the same text buffered.
\<close>

theorem handle_data_chunks:
  assumes "utf8_len (rpc_buffer c @ x @ y) \<le> MAX_JSON_LINE_BYTES"
  shows "let d = handle_data jp sf h (x @ y) c; e = handle_data jp sf h y (handle_data jp sf h x c)
    in d\<lparr>rpc_buffer := []\<rparr> = e\<lparr>rpc_buffer := []\<rparr> \<and> (rpc_closed d \<or> d = e)"
proof (cases "rpc_closed c")
  case True
  then show ?thesis by (simp add: handle_data_def)
next
  case False
  let ?b = "rpc_buffer c @ x" and ?c = "c\<lparr>rpc_buffer := rpc_buffer c @ x @ y\<rparr>"
  define d where "d = drain jp sf h (c\<lparr>rpc_buffer := ?b\<rparr>)"
  have "utf8_len ?b \<le> MAX_JSON_LINE_BYTES"
    using assms utf8_len_take_mono [of "length ?b" "length (?b @ y)" "?b @ y"] by simp
  then have first: "handle_data jp sf h x c = d" using False by (simp add: handle_data_def d_def)
  have all: "handle_data jp sf h (x @ y) c = drain jp sf h ?c" using False assms by (simp add: handle_data_def)
  have split: "drain jp sf h ?c = (if rpc_closed d then d\<lparr>rpc_buffer := rpc_buffer d @ y\<rparr> else drain jp sf h (d\<lparr>rpc_buffer := rpc_buffer d @ y\<rparr>))"
    using drain_append [of ?c ?b y jp sf h] False by (simp add: Let_def d_def)
  show ?thesis
  proof (cases "rpc_closed d")
    case True
    then show ?thesis unfolding all first split by (simp add: handle_data_def Let_def)
  next
    case opened: False
    obtain n where n: "rpc_buffer d = drop n ?b" using drain_suffix [of jp sf h "c\<lparr>rpc_buffer := ?b\<rparr>"] by (auto simp: d_def)
    have "utf8_len (drop n ?b @ y) \<le> MAX_JSON_LINE_BYTES"
    proof (cases "n \<le> length ?b")
      case True
      then have "drop n ?b @ y = drop n (?b @ y)" by simp
      with assms utf8_len_drop [of n "?b @ y"] show ?thesis by simp
    next
      case False
      with assms utf8_len_drop [of "length ?b" "?b @ y"] show ?thesis by simp
    qed
    with n have "handle_data jp sf h y d = drain jp sf h (d\<lparr>rpc_buffer := rpc_buffer d @ y\<rparr>)"
      using opened by (simp add: handle_data_def)
    then show ?thesis unfolding all first split using opened by (simp add: Let_def)
  qed
qed

theorem handle_data_chunks_witness:
  "let x = lit ''{]''; y = [10]; jp = (\<lambda>_. None); d = handle_data jp (\<lambda>_. []) False (x @ y) new_rpc;
       e = handle_data jp (\<lambda>_. []) False y (handle_data jp (\<lambda>_. []) False x new_rpc)
   in d\<lparr>rpc_buffer := []\<rparr> = e\<lparr>rpc_buffer := []\<rparr> \<and> (rpc_closed d \<or> d = e)"
proof -
  have "utf8_len (rpc_buffer new_rpc @ lit ''{]'' @ [10]) \<le> MAX_JSON_LINE_BYTES"
    by (simp add: new_rpc_def MAX_JSON_LINE_BYTES_def lit_def unit_bytes_def)
  from handle_data_chunks [OF this, of "\<lambda>_. None" "\<lambda>_. []" False] show ?thesis unfolding Let_def .
qed

end
