(* ===== verification/Update.thy ===== *)
theory Update
  imports Contracts "HOL-Library.Product_Lexorder"
begin

text \<open>
  Desktop updates: the checks on the metadata of a release (\<^verbatim>\<open>update-compatibility.ts\<close>) and the
  update manager (\<^verbatim>\<open>update-manager.ts\<close>). The updater of the platform is third-party code: what it
  answers and the events it sends, in any order, are the inputs of the manager's steps. A
  method with an \<^verbatim>\<open>await\<close> is two steps, before and after it. The conversion of release notes to
  plain text and \<^verbatim>\<open>String(value)\<close> in an error message are parameters.
\<close>

section \<open>Versions\<close>

definition is_digits :: "jstr \<Rightarrow> bool" where
  "is_digits s \<longleftrightarrow> s \<noteq> [] \<and> list_all is_digit s"

text \<open>\<^verbatim>\<open>/^\d+\.\d+\.\d+$/\<close>.\<close>

definition is_stable_semver :: "jstr \<Rightarrow> bool" where
  "is_stable_semver v \<longleftrightarrow> length (split_on 46 v) = 3 \<and> list_all is_digits (split_on 46 v)"

definition invalid_version :: "jstr \<Rightarrow> 'a res" where
  "invalid_version v = Inl (lit ''invalid stable semantic version: '' @ v)"

definition semver_parts :: "jstr \<Rightarrow> (nat \<times> nat \<times> nat) res" where
  "semver_parts v =
     (if \<not> is_stable_semver v then invalid_version v
      else (case map digits_value (split_on 46 v) of
          [major, minor, patch] \<Rightarrow>
            if list_all (\<lambda>n. int n \<le> max_safe) [major, minor, patch] then Inr (major, minor, patch) else invalid_version v
        | _ \<Rightarrow> invalid_version v))"

text \<open>The loop over the three parts.\<close>

fun compare_parts :: "nat list \<Rightarrow> nat list \<Rightarrow> int" where
  "compare_parts (a # as) (b # bs) = (if a \<noteq> b then (if a < b then -1 else 1) else compare_parts as bs)"
| "compare_parts _ _ = 0"

definition compare_semver :: "jstr \<Rightarrow> jstr \<Rightarrow> int res" where
  "compare_semver left right =
     and_then (semver_parts left) (\<lambda>(a, b, c). and_then (semver_parts right) (\<lambda>(d, e, f).
       Inr (compare_parts [a, b, c] [d, e, f])))"

definition updater_channel_for_arch :: "jstr \<Rightarrow> jstr res" where
  "updater_channel_for_arch arch =
     (if length_within 2 32 arch \<and> list_all (\<lambda>c. is_slug_char c \<or> is_upper c) arch
      then Inr (lit ''latest-'' @ arch) else throw ''invalid updater architecture'')"

section \<open>Releases\<close>

record release =
  rl_version :: jstr
  rl_daemon_version :: jstr
  rl_profile_schema :: int
  rl_date :: "jstr option"
  rl_notes :: "jstr option"

text \<open>\<open>notes\<close> is \<^verbatim>\<open>releaseNotesText\<close>, \<open>to_text\<close> is \<^verbatim>\<open>String\<close>.\<close>

record update_texts =
  release_notes_text :: "js \<Rightarrow> jstr option"
  to_text :: "js \<Rightarrow> jstr"

definition update_release_from_info :: "update_texts \<Rightarrow> js \<Rightarrow> jstr \<Rightarrow> release res" where
  "update_release_from_info tx value currentVersion =
     (if \<not> is_record value then throw ''update metadata must be an object''
      else (case jget value ''version'' of
          JStr version \<Rightarrow>
            if \<not> is_stable_semver version then throw ''update metadata contains an invalid stable Desktop version''
            else and_then (compare_semver version currentVersion) (\<lambda>order.
              if order \<le> 0 then throw ''update metadata must target a newer Desktop version''
              else let compatibility = jget value ''sourcenerve'' in
                if \<not> is_record compatibility then throw ''update metadata is missing SourceNerve compatibility information''
                else if jget compatibility ''daemonVersion'' \<noteq> JStr version
                then throw ''update metadata Desktop and daemon versions do not match''
                else if jget compatibility ''profileSchemaVersion'' \<noteq> jint 1
                then Inl (lit ''update requires unsupported product profile schema '' @ to_text tx (jget compatibility ''profileSchemaVersion''))
                else Inr \<lparr>rl_version = version, rl_daemon_version = version, rl_profile_schema = 1,
                  rl_date = (case jget value ''releaseDate'' of JStr d \<Rightarrow> Some d | _ \<Rightarrow> None),
                  rl_notes = (case release_notes_text tx (jget value ''releaseNotes'') of Some [] \<Rightarrow> None | n \<Rightarrow> n)\<rparr>)
        | _ \<Rightarrow> throw ''update metadata contains an invalid stable Desktop version''))"

subsection \<open>The order of versions\<close>

lemma compare_parts_lex:
  "compare_parts [a, b, c] [d, e, f] = (if (a, b, c) = (d, e, f) then 0 else if (a, b, c) < (d, e, f) then -1 else 1)"
  by auto

text \<open>
  Versions are compared as triples of numbers: on versions whose parts are safe integers the
  comparison is the sign of the lexicographic order, so it is a total order in which different
  triples are never equal and 0.10.0 is newer than 0.9.0; on anything else it throws.
\<close>

theorem compare_semver_is_lexicographic:
  "compare_semver v w =
     (case (semver_parts v, semver_parts w) of
        (Inr x, Inr y) \<Rightarrow> Inr (if x = y then 0 else if x < y then -1 else 1)
      | (Inl e, _) \<Rightarrow> Inl e
      | (_, Inl e) \<Rightarrow> Inl e)"
  by (auto simp: compare_semver_def compare_parts_lex simp del: compare_parts.simps split: sum.splits)

lemma compare_semver_newer:
  "compare_semver v w = Inr n \<Longrightarrow> 0 < n \<Longrightarrow> \<exists>x y. semver_parts v = Inr x \<and> semver_parts w = Inr y \<and> y < x"
  by (auto simp: compare_semver_def compare_parts_lex simp del: compare_parts.simps split: if_splits)

definition newer_release :: "jstr \<Rightarrow> release \<Rightarrow> bool" where
  "newer_release current r \<longleftrightarrow> rl_daemon_version r = rl_version r \<and> rl_profile_schema r = 1
     \<and> (case (semver_parts (rl_version r), semver_parts current) of (Inr x, Inr y) \<Rightarrow> y < x | _ \<Rightarrow> False)"

lemma update_release_newer: "update_release_from_info tx v current = Inr r \<Longrightarrow> newer_release current r"
  by (auto simp: update_release_from_info_def newer_release_def Let_def dest!: compare_semver_newer
      split: js.splits if_splits)

section \<open>Messages\<close>

text \<open>\<^verbatim>\<open>raw.replace(/[\u0000-\u001f\u007f]/g, " ").replace(/\s+/g, " ").trim()\<close>.\<close>

definition normalize_message :: "jstr \<Rightarrow> jstr" where
  "normalize_message raw = trim (collapse_spaces (map (\<lambda>c. if is_control c then 32 else c) raw))"

text \<open>\<^verbatim>\<open>/latest-[a-z0-9_-]+(?:-[a-z0-9_-]+)?\.ya?ml/i\<close>, on the lower-case text.\<close>

fun names_metadata_file :: "jstr \<Rightarrow> bool" where
  "names_metadata_file [] = False"
| "names_metadata_file (c # cs) =
     ((starts_with (lit ''latest-'') (c # cs)
        \<and> (let rest = drop 7 (c # cs); name = takeWhile is_slug_char rest; ext = drop (length name) rest
            in name \<noteq> [] \<and> (starts_with (lit ''.yml'') ext \<or> starts_with (lit ''.yaml'') ext)))
      \<or> names_metadata_file cs)"

text \<open>\<^verbatim>\<open>/\b404\b/\<close>; the flag says whether the text before ends in a word character.\<close>

fun has_word_404 :: "bool \<Rightarrow> jstr \<Rightarrow> bool" where
  "has_word_404 in_word [] = False"
| "has_word_404 in_word (c # cs) =
     ((\<not> in_word \<and> starts_with (lit ''404'') (c # cs) \<and> (case drop 3 (c # cs) of [] \<Rightarrow> True | d # _ \<Rightarrow> \<not> is_word_char d))
      \<or> has_word_404 (is_word_char c) cs)"

definition is_missing_platform_metadata :: "jstr \<Rightarrow> bool" where
  "is_missing_platform_metadata message \<longleftrightarrow>
     (let m = map to_lower message in
      names_metadata_file m
      \<and> (str_includes (lit ''cannot find'') m \<or> str_includes (lit ''not found'') m
         \<or> str_includes (lit ''release artifact'') m \<or> has_word_404 False m))"

definition rpm_messages :: "string list" where
  "rpm_messages =
     [''SourceNerve RPM update has no downloaded installer.'',
      ''SourceNerve RPM update requires PolicyKit authentication (pkexec).'',
      ''SourceNerve RPM update package-manager override is unsupported.'',
      ''SourceNerve RPM update package manager is unavailable.'',
      ''System authorization was not completed. Approve the Fedora authentication prompt, then retry.'',
      ''The Fedora package manager is busy. Close other software update/install operations, then retry.'',
      ''There is not enough disk space to install the SourceNerve update.'',
      ''The SourceNerve RPM update has a package dependency or conflict error.'',
      ''SourceNerve RPM update installation timed out.'',
      ''SourceNerve RPM update installation failed.'']"

definition safe_rpm_update_message :: "jstr \<Rightarrow> jstr option" where
  "safe_rpm_update_message message = find (\<lambda>a. message = a) (map lit rpm_messages)"

definition compatibility_messages :: "(string \<times> string) list" where
  "compatibility_messages =
     [(''update metadata must be an object'', ''Available update metadata is invalid.''),
      (''update metadata contains an invalid stable Desktop version'', ''Available update metadata contains an invalid Desktop version.''),
      (''update metadata must target a newer Desktop version'', ''Available update metadata does not target a newer Desktop version.''),
      (''update metadata is missing SourceNerve compatibility information'', ''Available update metadata is missing SourceNerve compatibility information.''),
      (''update metadata Desktop and daemon versions do not match'', ''Available update metadata has mismatched Desktop and daemon versions.'')]"

definition profile_message :: string where
  "profile_message = ''This update requires a newer SourceNerve product profile format.''"

definition safe_compatibility_message :: "jstr \<Rightarrow> jstr option" where
  "safe_compatibility_message message =
     (case find (\<lambda>(k, v). message = lit k) compatibility_messages of
        Some (k, v) \<Rightarrow> Some (lit v)
      | None \<Rightarrow> if starts_with (lit ''update requires unsupported product profile schema'') message
          then Some (lit profile_message) else None)"

definition missing_metadata_message :: string where
  "missing_metadata_message = ''Update metadata for this platform is not available in the release yet.''"

definition safe_message :: "jstr \<Rightarrow> jstr \<Rightarrow> jstr" where
  "safe_message error fallback =
     (let normalized = normalize_message error in
      if is_missing_platform_metadata normalized then lit missing_metadata_message
      else (case safe_compatibility_message normalized of
          Some m \<Rightarrow> m
        | None \<Rightarrow> (case safe_rpm_update_message normalized of Some m \<Rightarrow> m | None \<Rightarrow> fallback)))"

text \<open>
  The text of an error of the updater never reaches the user: whatever the error says, the
  message shown is the fallback of the place that failed or one of the seventeen fixed messages.
\<close>

theorem safe_message_is_fixed:
  "safe_message error fallback \<in> {fallback, lit missing_metadata_message, lit profile_message}
     \<union> lit ` snd ` set compatibility_messages \<union> lit ` set rpm_messages"
proof -
  have c: "m \<in> insert (lit profile_message) (lit ` snd ` set compatibility_messages)"
    if "safe_compatibility_message e = Some m" for e m
    using that by (auto simp: safe_compatibility_message_def find_Some_iff in_set_conv_nth image_iff split: option.splits if_splits)
      (metis nth_mem snd_conv)+
  have r: "m \<in> lit ` set rpm_messages" if "safe_rpm_update_message e = Some m" for e m
    using that nth_mem by (fastforce simp: safe_rpm_update_message_def find_Some_iff)
  show ?thesis
    using c r by (auto simp: safe_message_def Let_def split: option.splits)
qed

section \<open>The manager\<close>

datatype update_state =
    UDisabled | UIdle | UChecking | UUpToDate | UAvailable | UDownloading | UDownloaded
  | UInstalling | UInstallFailed | UIncompatible | UError

record progress =
  pg_percent :: jnum
  pg_transferred :: jnum
  pg_total :: jnum
  pg_rate :: jnum

record update_view =
  uv_enabled :: bool
  uv_state :: update_state
  uv_release :: "release option"
  uv_progress :: "progress option"
  uv_message :: "jstr option"

text \<open>What the manager does to the updater and to its listeners.\<close>

datatype update_effect = EConfigure | ECheck | EDownload | EInstallRpm | EQuitAndInstall | ENotify update_view

record update_manager =
  um_current :: jstr
  um_channel :: jstr
  um_platform :: jstr
  um_has_updater :: bool
  um_rpm :: bool
  um_initialized :: bool
  um_view :: update_view
  um_log :: "update_effect list"

text \<open>\<^verbatim>\<open>Math.max(0, n)\<close> and the clamping of the percentage.\<close>

fun max_zero :: "jnum \<Rightarrow> jnum" where
  "max_zero (Fin r) = Fin (max 0 r)"
| "max_zero PosInf = PosInf"
| "max_zero NegInf = Fin 0"
| "max_zero NaN = NaN"

definition clamp_percent :: "jnum \<Rightarrow> jnum" where
  "clamp_percent n = (case n of Fin r \<Rightarrow> Fin (max 0 (min 100 r)) | _ \<Rightarrow> Fin 0)"

definition normalize_progress :: "progress \<Rightarrow> progress" where
  "normalize_progress p = \<lparr>pg_percent = clamp_percent (pg_percent p), pg_transferred = max_zero (pg_transferred p),
     pg_total = max_zero (pg_total p), pg_rate = max_zero (pg_rate p)\<rparr>"

definition is_supported_platform :: "jstr \<Rightarrow> bool" where
  "is_supported_platform p \<longleftrightarrow> p \<in> set (map lit [''win32'', ''darwin'', ''linux''])"

text \<open>The constructor; \<open>given\<close> is \<^verbatim>\<open>options.updater\<close>: \<open>None\<close> when it is left out, otherwise whether it is an updater.\<close>

definition new_update_manager :: "jstr \<Rightarrow> bool \<Rightarrow> jstr \<Rightarrow> jstr \<Rightarrow> bool option \<Rightarrow> bool \<Rightarrow> update_manager res" where
  "new_update_manager currentVersion packaged platform arch given rpm =
     and_then (updater_channel_for_arch arch) (\<lambda>channel.
       let enabled = (packaged \<and> is_supported_platform platform);
           updater = (case given of None \<Rightarrow> enabled | Some u \<Rightarrow> u)
       in Inr \<lparr>um_current = currentVersion, um_channel = channel, um_platform = platform, um_has_updater = updater, um_rpm = rpm,
            um_initialized = False,
            um_view = \<lparr>uv_enabled = (enabled \<and> updater), uv_state = (if enabled \<and> updater then UIdle else UDisabled),
              uv_release = None, uv_progress = None,
              uv_message = (if packaged then None else Some (lit ''Updates are disabled in local development builds.''))\<rparr>,
            um_log = []\<rparr>)"

definition effect :: "update_effect \<Rightarrow> update_manager \<Rightarrow> update_manager" where
  "effect e m = m\<lparr>um_log := um_log m @ [e]\<rparr>"

definition patch :: "(update_view \<Rightarrow> update_view) \<Rightarrow> update_manager \<Rightarrow> update_manager" where
  "patch f m = effect (ENotify (f (um_view m))) (m\<lparr>um_view := f (um_view m)\<rparr>)"

definition says :: "update_state \<Rightarrow> jstr \<Rightarrow> update_view \<Rightarrow> update_view" where
  "says s msg v = v\<lparr>uv_state := s, uv_message := Some msg\<rparr>"

definition initialize_updates :: "update_manager \<Rightarrow> update_manager" where
  "initialize_updates m =
     (if um_initialized m \<or> \<not> um_has_updater m then m else effect EConfigure (m\<lparr>um_initialized := True\<rparr>))"

definition compatible_release :: "update_texts \<Rightarrow> update_manager \<Rightarrow> js \<Rightarrow> release res" where
  "compatible_release tx m info = update_release_from_info tx info (um_current m)"

definition apply_available_info :: "update_texts \<Rightarrow> js \<Rightarrow> update_manager \<Rightarrow> update_manager" where
  "apply_available_info tx info m =
     (case compatible_release tx m info of
        Inr r \<Rightarrow> patch (\<lambda>v. (says UAvailable (lit ''SourceNerve '' @ rl_version r @ lit '' is available.'') v)
                     \<lparr>uv_release := Some r, uv_progress := None\<rparr>) m
      | Inl e \<Rightarrow> patch (\<lambda>v. (says UIncompatible (safe_message e (lit ''Available update is incompatible.'')) v)
                     \<lparr>uv_release := None, uv_progress := None\<rparr>) m)"

definition up_to_date :: "update_manager \<Rightarrow> update_manager" where
  "up_to_date m = patch (\<lambda>v. (says UUpToDate (lit ''SourceNerve is up to date.'') v)\<lparr>uv_release := None, uv_progress := None\<rparr>) m"

datatype updater_event =
    EvChecking
  | EvNotAvailable
  | EvAvailable js
  | EvProgress progress
  | EvDownloaded js
  | EvError jstr

definition checking_text :: jstr where
  "checking_text = lit ''Checking GitHub Releases for a stable update.''"

definition downloaded_text :: jstr where
  "downloaded_text = lit ''Update downloaded. Restart SourceNerve to install it.''"

definition downloading_text :: jstr where
  "downloading_text = lit ''Downloading the verified update package.''"

text \<open>The listeners that \<^verbatim>\<open>initialize\<close> registers on the updater.\<close>

fun on_updater_event :: "update_texts \<Rightarrow> update_manager \<Rightarrow> updater_event \<Rightarrow> update_manager" where
  "on_updater_event tx m EvChecking = patch (says UChecking checking_text) m"
| "on_updater_event tx m EvNotAvailable = up_to_date m"
| "on_updater_event tx m (EvAvailable info) = apply_available_info tx info m"
| "on_updater_event tx m (EvProgress p) =
     patch (\<lambda>v. (says UDownloading downloading_text v)\<lparr>uv_progress := Some (normalize_progress p)\<rparr>) m"
| "on_updater_event tx m (EvDownloaded info) =
     (case compatible_release tx m info of
        Inr r \<Rightarrow> patch (\<lambda>v. (says UDownloaded downloaded_text v)\<lparr>uv_release := Some r\<rparr>) m
      | Inl e \<Rightarrow> patch (says UIncompatible (safe_message e (lit ''Downloaded update is incompatible.''))) m)"
| "on_updater_event tx m (EvError e) =
     patch (\<lambda>v. says (if uv_state v = UInstalling then UInstallFailed else UError) (safe_message e (lit ''Desktop update failed.'')) v) m"

text \<open>\<^verbatim>\<open>check\<close>, before and after \<^verbatim>\<open>await checkForUpdates()\<close>; \<open>JUndef\<close> and \<open>JNull\<close> stand for no update info.\<close>

definition update_ready :: "update_manager \<Rightarrow> bool" where
  "update_ready m \<longleftrightarrow> um_has_updater m \<and> uv_enabled (um_view m)"

definition check_start :: "update_manager \<Rightarrow> update_manager" where
  "check_start m0 =
     (let m = initialize_updates m0 in
      if \<not> update_ready m then m
      else effect ECheck (patch (\<lambda>v. (says UChecking checking_text v)\<lparr>uv_progress := None\<rparr>) m))"

definition check_failed :: "jstr \<Rightarrow> update_manager \<Rightarrow> update_manager" where
  "check_failed e m = patch (says UError (safe_message e (lit ''Unable to check for updates.''))) m"

definition check_finish :: "update_texts \<Rightarrow> js res \<Rightarrow> update_manager \<Rightarrow> update_manager" where
  "check_finish tx result m =
     (case result of
        Inl e \<Rightarrow> check_failed e m
      | Inr info \<Rightarrow>
          if is_nullish info then up_to_date m
          else (case (case jget info ''version'' of
                JStr v \<Rightarrow> compare_semver v (um_current m) | other \<Rightarrow> invalid_version (to_text tx other)) of
              Inl e \<Rightarrow> check_failed e m
            | Inr order \<Rightarrow> if order \<le> 0 then up_to_date m else apply_available_info tx info m))"

definition download_start :: "update_manager \<Rightarrow> update_manager" where
  "download_start m0 =
     (let m = initialize_updates m0 in
      if \<not> update_ready m then m
      else if uv_state (um_view m) \<noteq> UAvailable \<or> uv_release (um_view m) = None
      then patch (says UError (lit ''Check for a compatible update before downloading.'')) m
      else effect EDownload (patch (\<lambda>v. (says UDownloading downloading_text v)\<lparr>uv_progress := None\<rparr>) m))"

definition download_finish :: "unit res \<Rightarrow> update_manager \<Rightarrow> update_manager" where
  "download_finish result m =
     (case result of
        Inl e \<Rightarrow> patch (says UError (safe_message e (lit ''Unable to download the update.''))) m
      | Inr _ \<Rightarrow> if uv_state (um_view m) = UDownloading then patch (says UDownloaded downloaded_text) m else m)"

definition restart_start :: "update_manager \<Rightarrow> unit res \<times> update_manager" where
  "restart_start m0 =
     (let m = initialize_updates m0 in
      if \<not> um_has_updater m \<or> uv_state (um_view m) \<notin> {UDownloaded, UInstallFailed}
      then (throw ''A verified update must be downloaded before restart-to-update.'', m)
      else let m1 = patch (says UInstalling (if um_platform m = lit ''linux''
               then lit ''Waiting for system authorization to install the update.''
               else lit ''Restarting SourceNerve to install the update.'')) m
           in (Inr (), effect (if um_platform m = lit ''linux'' \<and> um_rpm m then EInstallRpm else EQuitAndInstall) m1))"

definition restart_finish :: "unit res \<Rightarrow> update_manager \<Rightarrow> update_manager" where
  "restart_finish result m =
     (case result of
        Inl e \<Rightarrow> patch (says UInstallFailed (safe_message e (lit ''SourceNerve RPM update installation failed.''))) m
      | Inr _ \<Rightarrow> m)"

section \<open>Sequences of steps\<close>

datatype update_step =
    UpInitialize
  | UpEvent updater_event
  | UpCheck
  | UpCheckDone "js res"
  | UpDownload
  | UpDownloadDone "unit res"
  | UpRestart
  | UpRestartDone "unit res"

text \<open>
  The steps in any order. An event reaches the manager once it has registered its listeners,
  and a call of the updater ends only after it has been made.
\<close>

fun manager_step :: "update_texts \<Rightarrow> update_manager \<Rightarrow> update_step \<Rightarrow> update_manager" where
  "manager_step tx m UpInitialize = initialize_updates m"
| "manager_step tx m (UpEvent ev) = (if um_initialized m then on_updater_event tx m ev else m)"
| "manager_step tx m UpCheck = check_start m"
| "manager_step tx m (UpCheckDone r) = (if ECheck \<in> set (um_log m) then check_finish tx r m else m)"
| "manager_step tx m UpDownload = download_start m"
| "manager_step tx m (UpDownloadDone r) = (if EDownload \<in> set (um_log m) then download_finish r m else m)"
| "manager_step tx m UpRestart = snd (restart_start m)"
| "manager_step tx m (UpRestartDone r) = (if EInstallRpm \<in> set (um_log m) then restart_finish r m else m)"

definition view_ok :: "jstr \<Rightarrow> update_view \<Rightarrow> bool" where
  "view_ok current v \<longleftrightarrow> (case uv_release v of None \<Rightarrow> uv_state v \<noteq> UAvailable | Some r \<Rightarrow> newer_release current r)"

fun effect_ok :: "jstr \<Rightarrow> update_effect \<Rightarrow> bool" where
  "effect_ok current (ENotify v) = view_ok current v"
| "effect_ok current _ = True"

definition is_install :: "update_effect \<Rightarrow> bool" where
  "is_install e \<longleftrightarrow> e = EInstallRpm \<or> e = EQuitAndInstall"

text \<open>A step that completes a download.\<close>

fun completes :: "update_texts \<Rightarrow> jstr \<Rightarrow> update_step \<Rightarrow> bool" where
  "completes tx current (UpDownloadDone (Inr _)) = True"
| "completes tx current (UpEvent (EvDownloaded info)) = (case update_release_from_info tx info current of Inr _ \<Rightarrow> True | Inl _ \<Rightarrow> False)"
| "completes tx current _ = False"

definition installing_states :: "update_state set" where
  "installing_states = {UDownloaded, UInstalling, UInstallFailed}"

text \<open>The invariant, with whether a download has been completed.\<close>

definition update_inv :: "jstr \<Rightarrow> update_manager \<Rightarrow> bool \<Rightarrow> bool" where
  "update_inv current m done \<longleftrightarrow> um_current m = current \<and> view_ok current (um_view m)
     \<and> list_all (effect_ok current) (um_log m)
     \<and> (uv_state (um_view m) \<in> installing_states \<longrightarrow> done) \<and> (list_ex is_install (um_log m) \<longrightarrow> done)"

lemma update_inv_done: "update_inv c m d \<Longrightarrow> update_inv c m (d \<or> d')"
  by (auto simp: update_inv_def)

lemma patch_inv:
  assumes "update_inv c m d" "view_ok c (f (um_view m))" "uv_state (f (um_view m)) \<in> installing_states \<longrightarrow> d"
  shows "update_inv c (patch f m) d"
  using assms by (simp add: update_inv_def patch_def effect_def is_install_def)

lemma effect_inv:
  assumes "update_inv c m d" "effect_ok c e" "is_install e \<longrightarrow> d"
  shows "update_inv c (effect e m) d"
  using assms by (simp add: update_inv_def effect_def)

lemma says_ok: "view_ok c v \<Longrightarrow> s \<noteq> UAvailable \<Longrightarrow> view_ok c (says s t v)"
  by (auto simp: view_ok_def says_def split: option.splits)

lemma says_fields [simp]:
  "uv_state (says s t v) = s" "uv_release (says s t v) = uv_release v" "uv_enabled (says s t v) = uv_enabled v"
  by (simp_all add: says_def)

lemma view_ok_upd [simp]:
  "view_ok c (v\<lparr>uv_progress := p\<rparr>) = view_ok c v"
  "view_ok c (v\<lparr>uv_release := Some r\<rparr>) = newer_release c r"
  "view_ok c (v\<lparr>uv_release := None\<rparr>) = (uv_state v \<noteq> UAvailable)"
  by (simp_all add: view_ok_def split: option.splits)

lemma update_inv_view: "update_inv c m d \<Longrightarrow> view_ok c (um_view m)"
  by (simp add: update_inv_def)

lemmas update_inv_intros = patch_inv effect_inv says_ok update_inv_view

lemma initialize_inv: "update_inv c m d \<Longrightarrow> update_inv c (initialize_updates m) d"
  by (simp add: initialize_updates_def update_inv_def effect_def is_install_def)

lemma up_to_date_inv: "update_inv c m d \<Longrightarrow> update_inv c (up_to_date m) d"
  unfolding up_to_date_def by (rule patch_inv) (simp_all add: installing_states_def)

lemma apply_available_inv:
  assumes "update_inv c m d" shows "update_inv c (apply_available_info tx info m) d"
proof -
  have c: "um_current m = c" using assms by (simp add: update_inv_def)
  show ?thesis
    using assms update_release_newer [of tx info c]
    by (cases "update_release_from_info tx info c")
      (auto simp: apply_available_info_def compatible_release_def c installing_states_def intro!: patch_inv)
qed

lemma on_updater_event_inv:
  assumes "update_inv c m d"
  shows "update_inv c (on_updater_event tx m ev) (d \<or> completes tx c (UpEvent ev))"
proof (cases ev)
  case (EvDownloaded info)
  have c: "um_current m = c" using assms by (simp add: update_inv_def)
  show ?thesis
  proof (cases "update_release_from_info tx info c")
    case (Inr r)
    have "update_inv c m True" using update_inv_done [OF assms, of True] by simp
    then show ?thesis
      using EvDownloaded Inr update_release_newer [OF Inr] by (auto simp: compatible_release_def c intro!: patch_inv)
  next
    case (Inl e)
    with assms EvDownloaded show ?thesis
      by (auto simp: compatible_release_def c installing_states_def intro!: update_inv_intros)
  qed
next
  case (EvError e)
  have "d" if "uv_state (um_view m) = UInstalling" using assms that by (simp add: update_inv_def installing_states_def)
  with assms EvError show ?thesis
    by (cases "uv_state (um_view m) = UInstalling") (auto simp: installing_states_def intro!: update_inv_intros)
qed (use assms in \<open>auto simp: up_to_date_inv apply_available_inv installing_states_def intro!: update_inv_intros\<close>)

lemma check_finish_inv: "update_inv c m d \<Longrightarrow> update_inv c (check_finish tx r m) d"
  by (auto simp: check_finish_def check_failed_def up_to_date_inv apply_available_inv installing_states_def
      intro!: update_inv_intros split: sum.splits)

lemma manager_step_inv:
  assumes "update_inv c m d" shows "update_inv c (manager_step tx m s) (d \<or> completes tx c s)"
proof (cases s)
  case (UpEvent ev)
  with assms on_updater_event_inv [OF assms, of tx ev] show ?thesis by (auto intro: update_inv_done)
next
  case (UpDownloadDone r)
  have "update_inv c m True" using update_inv_done [OF assms, of True] by simp
  with assms UpDownloadDone show ?thesis
    by (cases r) (auto simp: download_finish_def installing_states_def intro!: update_inv_intros)
next
  case UpRestart
  have i: "update_inv c (initialize_updates m) d" using assms by (rule initialize_inv)
  have "d" if "uv_state (um_view (initialize_updates m)) \<in> {UDownloaded, UInstallFailed}"
    using i that by (auto simp: update_inv_def installing_states_def)
  with i UpRestart show ?thesis
    by (auto simp: restart_start_def Let_def intro!: effect_inv patch_inv says_ok update_inv_view [of c _ d])
next
  case (UpRestartDone r)
  have "d" if "EInstallRpm \<in> set (um_log m)"
    using assms that by (auto simp: update_inv_def list_ex_iff is_install_def)
  with assms UpRestartDone show ?thesis
    by (cases r) (auto simp: restart_finish_def intro!: update_inv_intros)
qed (use assms in \<open>auto simp: initialize_inv check_start_def download_start_def check_finish_inv installing_states_def is_install_def Let_def
      intro!: effect_inv patch_inv says_ok update_inv_view [OF initialize_inv [OF assms]]\<close>)

lemma new_manager_inv: "new_update_manager c p pl a g rpm = Inr m \<Longrightarrow> update_inv c m False"
  by (auto simp: new_update_manager_def Let_def update_inv_def view_ok_def installing_states_def split: if_splits)

interpretation updates:
  machine "\<lambda>md. (\<exists>p pl a g rpm. new_update_manager c p pl a g rpm = Inr (fst md)) \<and> snd md = False"
    "\<lambda>md s. (manager_step tx (fst md) s, snd md \<or> completes tx c s)" "\<lambda>md. update_inv c (fst md) (snd md)"
  for c :: jstr and tx :: update_texts
  by unfold_locales (auto dest: new_manager_inv simp: manager_step_inv)

lemma run_with_history:
  "foldl (\<lambda>md s. (manager_step tx (fst md) s, snd md \<or> completes tx c s)) (m, d) ss
   = (foldl (manager_step tx) m ss, d \<or> list_ex (completes tx c) ss)"
  by (induction ss arbitrary: m d) auto

lemma update_run_inv:
  assumes "new_update_manager c p pl a g rpm = Inr m"
  shows "update_inv c (foldl (manager_step tx) m ss) (list_ex (completes tx c) ss)"
proof -
  from assms have "(\<exists>p pl a g rpm. new_update_manager c p pl a g rpm = Inr (fst (m, False))) \<and> snd (m, False) = False"
    unfolding fst_conv snd_conv by blast
  from updates.inv_reachable [OF this, of tx ss] show ?thesis by (simp add: run_with_history)
qed

text \<open>
  Only newer, matching releases are offered. Whatever the updater reports and in whatever
  order checks, downloads, restarts and events come, every view that the listeners are shown
  names no release or one whose version is strictly newer than the running one, with the
  same daemon version and the supported profile schema; and a view that says an update is
  available names one.
\<close>

theorem offered_release_is_newer:
  assumes "new_update_manager current packaged platform arch given rpm = Inr m"
  shows "list_all (effect_ok current) (um_log (foldl (manager_step tx) m steps))
    \<and> view_ok current (um_view (foldl (manager_step tx) m steps))"
  using update_run_inv [OF assms] by (simp add: update_inv_def)

theorem offered_release_is_newer_witness:
  "\<exists>m. new_update_manager (lit ''0.9.0'') True (lit ''linux'') (lit ''x64'') None False = Inr m
     \<and> view_ok (lit ''0.9.0'') (um_view (foldl (manager_step \<lparr>release_notes_text = \<lambda>_. None, to_text = \<lambda>_. []\<rparr>) m
          [UpCheck, UpCheckDone (Inr JNull)]))"
proof -
  obtain m where "new_update_manager (lit ''0.9.0'') True (lit ''linux'') (lit ''x64'') None False = Inr m"
    by (simp add: new_update_manager_def updater_channel_for_arch_def length_within_def lit_def char_classes Let_def)
  with offered_release_is_newer [OF this] show ?thesis by blast
qed

text \<open>
  Nothing is installed that has not been downloaded. If the manager has asked the updater to
  install, then a download that it had asked for had ended before, or the updater had reported a
  downloaded release that is compatible.
\<close>

theorem install_needs_download:
  assumes "new_update_manager current packaged platform arch given rpm = Inr m"
  shows "list_ex is_install (um_log (foldl (manager_step tx) m steps)) \<longrightarrow> list_ex (completes tx current) steps"
  using update_run_inv [OF assms, of tx steps] by (simp add: update_inv_def)

theorem install_needs_download_witness:
  "\<exists>m. new_update_manager (lit ''0.9.0'') True (lit ''linux'') (lit ''x64'') None False = Inr m
     \<and> \<not> list_ex is_install (um_log (foldl (manager_step \<lparr>release_notes_text = \<lambda>_. None, to_text = \<lambda>_. []\<rparr>) m
          [UpCheck, UpRestart, UpRestart]))"
proof -
  obtain m where "new_update_manager (lit ''0.9.0'') True (lit ''linux'') (lit ''x64'') None False = Inr m"
    by (simp add: new_update_manager_def updater_channel_for_arch_def length_within_def lit_def char_classes Let_def)
  with install_needs_download [OF this, of _ "[UpCheck, UpRestart, UpRestart]"] show ?thesis by fastforce
qed

end
