(* ===== verification/Browser_Commands.thy ===== *)
theory Browser_Commands
  imports Host_Policies
begin

text \<open>
  The identity of a provider's browser page (\<^verbatim>\<open>provider-frontend-session.ts\<close>) and the journal of
  browser commands (\<^verbatim>\<open>browser-command-state.ts\<close>). The journal lives in a file that every
  operation reads and writes as a whole. A stored command is kept as the value it was read
  as: only some of its fields are checked. \<^verbatim>\<open>URL\<close>, \<^verbatim>\<open>JSON\<close> and the SHA-256 digest are parameters.
\<close>

section \<open>Provider frontends\<close>

datatype frontend_kind = ChatGptWeb | ChromeExtension

record frontend =
  fe_provider :: frontend_kind
  fe_document_id :: jstr
  fe_conversation_id :: "jstr option"
  fe_turn_id :: "jstr option"
  fe_epoch :: int
  fe_extension_protocol :: "int option"

record frontend_binding =
  fb_session_id :: jstr
  fb_run_id :: jstr
  fb_workspace :: jstr
  fb_frontend :: frontend
  fb_bound_at :: int
  fb_updated_at :: int

definition MAX_ID_BYTES :: nat where "MAX_ID_BYTES = 256"

definition is_safe_provider_id :: "jstr \<Rightarrow> bool" where
  "is_safe_provider_id s \<longleftrightarrow> 1 \<le> length s \<and> utf8_len s \<le> MAX_ID_BYTES \<and> \<not> has_control s"

definition bound_required_id :: "jstr \<Rightarrow> string \<Rightarrow> jstr res" where
  "bound_required_id s label = (if is_safe_provider_id s then Inr s else Inl (lit label @ lit '' is invalid''))"

definition bind_provider_frontend :: "jstr \<Rightarrow> jstr \<Rightarrow> jstr \<Rightarrow> frontend \<Rightarrow> int \<Rightarrow> frontend_binding res" where
  "bind_provider_frontend sourceSessionId runId workspace fe now =
     and_then (bound_required_id sourceSessionId ''SourceNerve session id'') (\<lambda>s.
     and_then (bound_required_id runId ''SourceNerve run id'') (\<lambda>r.
     and_then (bound_required_id workspace ''SourceNerve workspace'') (\<lambda>w.
       Inr \<lparr>fb_session_id = s, fb_run_id = r, fb_workspace = w, fb_frontend = fe, fb_bound_at = now, fb_updated_at = now\<rparr>)))"

definition safe_provider_turn_id :: "js \<Rightarrow> jstr option" where
  "safe_provider_turn_id v = (case v of JStr s \<Rightarrow> if is_safe_provider_id s then Some s else None | _ \<Rightarrow> None)"

text \<open>\<open>digest\<close> is the hexadecimal SHA-256 of a text.\<close>

definition frontend_document_id :: "(jstr \<Rightarrow> jstr) \<Rightarrow> jstr \<Rightarrow> jstr option \<Rightarrow> jstr" where
  "frontend_document_id digest u title =
     take 32 (digest (bound_text (if u = [] then lit ''about:blank'' else u) 4096 @ [10]
       @ bound_text (case title of Some t \<Rightarrow> t | None \<Rightarrow> []) 512))"

text \<open>The part after the first path segment \<^verbatim>\<open>c\<close> that is followed by a usable id.\<close>

fun conversation_segment :: "jstr list \<Rightarrow> jstr option" where
  "conversation_segment (a # b # ps) = (if a = lit ''c'' \<and> is_safe_provider_id b then Some b else conversation_segment (b # ps))"
| "conversation_segment _ = None"

text \<open>\<open>param u k\<close> is \<^verbatim>\<open>searchParams.get(k)\<close>.\<close>

definition parse_chatgpt_conversation_id :: "url_parser \<Rightarrow> (url \<Rightarrow> string \<Rightarrow> jstr option) \<Rightarrow> jstr \<Rightarrow> jstr option" where
  "parse_chatgpt_conversation_id parse_url param u =
     (case parse_url u of
        None \<Rightarrow> None
      | Some p \<Rightarrow>
          (case conversation_segment (filter (\<lambda>s. s \<noteq> []) (split_on 47 (url_pathname p))) of
             Some c \<Rightarrow> Some c
           | None \<Rightarrow>
               (case (case param p ''conversation'' of Some [] \<Rightarrow> param p ''conversationId'' | None \<Rightarrow> param p ''conversationId'' | x \<Rightarrow> x) of
                  Some c \<Rightarrow> if is_safe_provider_id c then Some c else None
                | None \<Rightarrow> None)))"

section \<open>The journal\<close>

record project_binding =
  pj_workspace :: jstr
  pj_name :: jstr
  pj_id :: jstr
  pj_url :: jstr
  pj_updated_at :: int

record conversation_binding =
  cb_workspace :: jstr
  cb_project_id :: jstr
  cb_logical_id :: jstr
  cb_provider_id :: js
  cb_updated_at :: int

record journal =
  jr_commands :: "js list"
  jr_projects :: "project_binding list"
  jr_conversations :: "conversation_binding list"

definition MAX_COMMANDS :: nat where "MAX_COMMANDS = 128"

definition empty_journal :: journal where
  "empty_journal = \<lparr>jr_commands = [], jr_projects = [], jr_conversations = []\<rparr>"

definition command_stages :: "string list" where
  "command_stages = [''queued'', ''inserted'', ''clicked'', ''accepted'', ''streaming'', ''stable'', ''failed'', ''cancelled'']"

definition is_stage :: "js \<Rightarrow> bool" where
  "is_stage v = is_lit command_stages v"

definition is_str :: "js \<Rightarrow> bool" where
  "is_str v = str_sat (\<lambda>_. True) v"

definition is_safe_integer :: "js \<Rightarrow> bool" where
  "is_safe_integer v \<longleftrightarrow> safe_int v \<noteq> None"

definition is_snapshot :: "js \<Rightarrow> bool" where
  "is_snapshot v \<longleftrightarrow> is_record v \<and> is_str (jget v ''commandId'') \<and> is_str (jget v ''taskId'') \<and> is_str (jget v ''runId'')
     \<and> is_str (jget v ''workspace'') \<and> is_stage (jget v ''stage'') \<and> is_safe_integer (jget v ''epoch'')
     \<and> is_str (jget v ''providerFrontendId'') \<and> opt_sat is_str (jget v ''logicalConversationId'')
     \<and> is_safe_integer (jget v ''createdAt'') \<and> is_safe_integer (jget v ''updatedAt'')"

fun str_of :: "js \<Rightarrow> jstr" where
  "str_of (JStr s) = s"
| "str_of _ = []"

definition int_of :: "js \<Rightarrow> int" where
  "int_of v = (case safe_int v of Some i \<Rightarrow> i | None \<Rightarrow> 0)"

text \<open>JavaScript's truth of a value.\<close>

fun js_truthy :: "js \<Rightarrow> bool" where
  "js_truthy (JStr s) = (s \<noteq> [])"
| "js_truthy (JBool b) = b"
| "js_truthy (JNum (Fin r)) = (r \<noteq> 0)"
| "js_truthy (JNum NaN) = False"
| "js_truthy JUndef = False"
| "js_truthy JNull = False"
| "js_truthy _ = True"

subsection \<open>Project addresses\<close>

record url_ops =
  uo_parse :: url_parser
  uo_text :: "url \<Rightarrow> jstr"

definition is_chatgpt_project_url :: "url_ops \<Rightarrow> jstr \<Rightarrow> bool" where
  "is_chatgpt_project_url uo v =
     (case uo_parse uo v of
        None \<Rightarrow> False
      | Some u \<Rightarrow> url_protocol u = lit ''https:'' \<and> url_hostname u = lit ''chatgpt.com''
          \<and> \<not> starts_with (lit ''/c/'') (url_pathname u)
          \<and> (let p = map to_lower (url_pathname u) in str_includes (lit ''project'') p \<or> str_includes (lit ''g-p-'') p))"

definition strip_slash :: "jstr \<Rightarrow> jstr" where
  "strip_slash s = (if s \<noteq> [] \<and> last s = 47 then butlast s else s)"

definition normalize_chatgpt_project_url :: "url_ops \<Rightarrow> jstr \<Rightarrow> jstr res" where
  "normalize_chatgpt_project_url uo v =
     (case uo_parse uo v of
        None \<Rightarrow> throw ''Invalid URL''
      | Some u \<Rightarrow>
          if url_protocol u \<noteq> lit ''https:'' \<or> url_hostname u \<noteq> lit ''chatgpt.com'' \<or> \<not> is_chatgpt_project_url uo (uo_text uo u)
          then throw ''ChatGPT project URL is invalid''
          else Inr (strip_slash (uo_text uo (u\<lparr>url_hash := [], url_search := []\<rparr>))))"

text \<open>\<^verbatim>\<open>/^g-p-[A-Za-z0-9_-]+$/\<close>.\<close>

definition is_project_segment :: "jstr \<Rightarrow> bool" where
  "is_project_segment s \<longleftrightarrow> starts_with (lit ''g-p-'') s \<and> length s > 4 \<and> list_all (\<lambda>c. is_slug_char c \<or> is_upper c) (drop 4 s)"

definition chatgpt_project_id :: "url_ops \<Rightarrow> jstr \<Rightarrow> jstr res" where
  "chatgpt_project_id uo v =
     (case uo_parse uo v of
        None \<Rightarrow> throw ''Invalid URL''
      | Some u \<Rightarrow>
          (case find is_project_segment (split_on 47 (url_pathname u)) of
             Some s \<Rightarrow> Inr s
           | None \<Rightarrow> throw ''ChatGPT project URL does not contain a project id''))"

definition bounded_project_name :: "jstr \<Rightarrow> jstr res" where
  "bounded_project_name v =
     (let clean = trim v in
      if clean = [] \<or> length clean > 128 \<or> has_control clean then throw ''ChatGPT project name is invalid'' else Inr clean)"

definition bounded_command_id :: "jstr \<Rightarrow> string \<Rightarrow> jstr res" where
  "bounded_command_id v label =
     (if length_within 1 128 v \<and> \<not> has_control v then Inr v else Inl (lit label @ lit '' is invalid''))"

subsection \<open>Reading the file\<close>

text \<open>\<open>Inr None\<close> is a value that is left out, \<open>Inl\<close> an error that empties the whole journal.\<close>

definition normalize_project_binding :: "url_ops \<Rightarrow> js \<Rightarrow> project_binding option res" where
  "normalize_project_binding uo v =
     (if \<not> is_record v \<or> \<not> is_str (jget v ''workspace'') \<or> \<not> is_str (jget v ''projectName'') \<or> \<not> is_str (jget v ''projectUrl'')
         \<or> \<not> is_chatgpt_project_url uo (str_of (jget v ''projectUrl'')) \<or> \<not> is_safe_integer (jget v ''updatedAt'')
      then Inr None
      else and_then (normalize_chatgpt_project_url uo (str_of (jget v ''projectUrl''))) (\<lambda>u.
           and_then (if str_of (jget v ''projectId'') \<noteq> [] then Inr (str_of (jget v ''projectId'')) else chatgpt_project_id uo u) (\<lambda>i.
             Inr (Some \<lparr>pj_workspace = str_of (jget v ''workspace''), pj_name = str_of (jget v ''projectName''), pj_id = i,
               pj_url = u, pj_updated_at = int_of (jget v ''updatedAt'')\<rparr>))))"

definition project_of :: "project_binding list \<Rightarrow> jstr \<Rightarrow> project_binding option" where
  "project_of projects workspace = find (\<lambda>p. pj_workspace p = workspace) projects"

definition normalize_conversation_binding :: "project_binding list \<Rightarrow> js \<Rightarrow> conversation_binding option" where
  "normalize_conversation_binding projects v =
     (if \<not> is_record v \<or> \<not> is_str (jget v ''workspace'') \<or> \<not> is_str (jget v ''logicalConversationId'')
         \<or> \<not> is_str (jget v ''providerConversationId'') \<or> \<not> is_safe_integer (jget v ''updatedAt'')
      then None
      else (let i = (if str_of (jget v ''projectId'') \<noteq> [] then str_of (jget v ''projectId'')
              else (case project_of projects (str_of (jget v ''workspace'')) of Some p \<Rightarrow> pj_id p | None \<Rightarrow> []))
            in if i = [] then None
               else Some \<lparr>cb_workspace = str_of (jget v ''workspace''), cb_project_id = i,
                 cb_logical_id = str_of (jget v ''logicalConversationId''), cb_provider_id = jget v ''providerConversationId'',
                 cb_updated_at = int_of (jget v ''updatedAt'')\<rparr>))"

definition conversation_key :: "conversation_binding \<Rightarrow> jstr" where
  "conversation_key b = cb_workspace b @ [0] @ cb_logical_id b"

text \<open>\<^verbatim>\<open>bindings.set(key, \<dots>)\<close> when there is none or an older one.\<close>

definition derive_put :: "conversation_binding \<Rightarrow> conversation_binding list \<Rightarrow> conversation_binding list" where
  "derive_put b bs =
     (case find (\<lambda>x. conversation_key x = conversation_key b) bs of
        None \<Rightarrow> bs @ [b]
      | Some x \<Rightarrow> if cb_updated_at b \<ge> cb_updated_at x
          then map (\<lambda>y. if conversation_key y = conversation_key b then b else y) bs else bs)"

fun derive_conversation_bindings ::
    "project_binding list \<Rightarrow> js list \<Rightarrow> conversation_binding list \<Rightarrow> conversation_binding list" where
  "derive_conversation_bindings projects [] bs = bs"
| "derive_conversation_bindings projects (c # cs) bs =
     (if \<not> js_truthy (jget c ''logicalConversationId'') \<or> \<not> js_truthy (jget c ''providerConversationId'')
      then derive_conversation_bindings projects cs bs
      else (case project_of projects (str_of (jget c ''workspace'')) of
          None \<Rightarrow> derive_conversation_bindings projects cs bs
        | Some p \<Rightarrow> derive_conversation_bindings projects cs
            (derive_put \<lparr>cb_workspace = str_of (jget c ''workspace''), cb_project_id = pj_id p,
               cb_logical_id = str_of (jget c ''logicalConversationId''), cb_provider_id = jget c ''providerConversationId'',
               cb_updated_at = int_of (jget c ''updatedAt'')\<rparr> bs)))"

definition somes :: "'a option list \<Rightarrow> 'a list" where
  "somes xs = concat (map (\<lambda>x. case x of Some a \<Rightarrow> [a] | None \<Rightarrow> []) xs)"

definition array_of :: "js \<Rightarrow> js list" where
  "array_of v = (case v of JArr xs \<Rightarrow> xs | _ \<Rightarrow> [])"

definition read_journal :: "url_ops \<Rightarrow> js \<Rightarrow> journal res" where
  "read_journal uo v =
     (if \<not> is_record v \<or> \<not> (jget v ''schemaVersion'' \<in> {jint 1, jint 2, jint 3, jint 4}) \<or> \<not> is_array (jget v ''commands'')
      then Inr empty_journal
      else let commands = last_n MAX_COMMANDS (filter is_snapshot (array_of (jget v ''commands''))) in
           and_then (map_res (normalize_project_binding uo) (array_of (jget v ''projects''))) (\<lambda>ps.
             let projects = somes ps in
             Inr \<lparr>jr_commands = commands, jr_projects = projects,
               jr_conversations = (if jget v ''schemaVersion'' \<in> {jint 3, jint 4} \<and> is_array (jget v ''conversations'')
                 then somes (map (normalize_conversation_binding projects) (array_of (jget v ''conversations'')))
                 else derive_conversation_bindings projects commands [])\<rparr>))"

definition load_journal :: "(jstr \<Rightarrow> js option) \<Rightarrow> url_ops \<Rightarrow> file_read \<Rightarrow> journal" where
  "load_journal json_parse uo file =
     (case file of
        FileText raw \<Rightarrow>
          (case json_parse raw of
             Some v \<Rightarrow> (case read_journal uo v of Inr j \<Rightarrow> j | Inl _ \<Rightarrow> empty_journal)
           | None \<Rightarrow> empty_journal)
      | _ \<Rightarrow> empty_journal)"

subsection \<open>Writing the file\<close>

definition project_js :: "project_binding \<Rightarrow> js" where
  "project_js p = JObj [(lit ''workspace'', JStr (pj_workspace p)), (lit ''projectName'', JStr (pj_name p)), (lit ''projectId'', JStr (pj_id p)),
     (lit ''projectUrl'', JStr (pj_url p)), (lit ''updatedAt'', jint (pj_updated_at p))]"

definition conversation_js :: "conversation_binding \<Rightarrow> js" where
  "conversation_js b = JObj [(lit ''workspace'', JStr (cb_workspace b)), (lit ''projectId'', JStr (cb_project_id b)),
     (lit ''logicalConversationId'', JStr (cb_logical_id b)), (lit ''providerConversationId'', cb_provider_id b),
     (lit ''updatedAt'', jint (cb_updated_at b))]"

definition journal_js :: "journal \<Rightarrow> js" where
  "journal_js j = JObj [(lit ''schemaVersion'', jint 4), (lit ''commands'', JArr (jr_commands j)),
     (lit ''projects'', JArr (map project_js (jr_projects j))), (lit ''conversations'', JArr (map conversation_js (jr_conversations j)))]"

section \<open>Operations\<close>

record command_input =
  ci_command_id :: jstr
  ci_task_id :: jstr
  ci_binding :: frontend_binding
  ci_stage :: string
  ci_logical_id :: "jstr option"
  ci_error :: "jstr option"
  ci_now :: int

definition filled :: "string \<Rightarrow> jstr option \<Rightarrow> (jstr \<times> js) list" where
  "filled k v = (case v of Some s \<Rightarrow> if s = [] then [] else [(lit k, JStr s)] | None \<Rightarrow> [])"

definition command_key :: "js \<Rightarrow> js" where
  "command_key c = jget c ''commandId''"

definition put_command :: "js \<Rightarrow> js list \<Rightarrow> js list" where
  "put_command c cs = last_n MAX_COMMANDS (upsert command_key c cs)"

definition snapshot_js :: "command_input \<Rightarrow> js option \<Rightarrow> js" where
  "snapshot_js inp existing =
     JObj ([(lit ''commandId'', JStr (ci_command_id inp)), (lit ''taskId'', JStr (ci_task_id inp)),
       (lit ''runId'', JStr (fb_run_id (ci_binding inp))), (lit ''workspace'', JStr (fb_workspace (ci_binding inp))),
       (lit ''stage'', jtext (ci_stage inp)), (lit ''epoch'', jint (fe_epoch (fb_frontend (ci_binding inp)))),
       (lit ''providerFrontendId'', JStr (fe_document_id (fb_frontend (ci_binding inp))))]
      @ filled ''providerConversationId'' (fe_conversation_id (fb_frontend (ci_binding inp)))
      @ (if filled ''logicalConversationId'' (ci_logical_id inp) \<noteq> [] then filled ''logicalConversationId'' (ci_logical_id inp)
         else (case existing of
             Some e \<Rightarrow> if js_truthy (jget e ''logicalConversationId'') then [(lit ''logicalConversationId'', jget e ''logicalConversationId'')] else []
           | None \<Rightarrow> []))
      @ filled ''providerTurnId'' (fe_turn_id (fb_frontend (ci_binding inp)))
      @ [(lit ''createdAt'', case existing of
            Some e \<Rightarrow> if is_nullish (jget e ''createdAt'') then jint (ci_now inp) else jget e ''createdAt''
          | None \<Rightarrow> jint (ci_now inp)),
         (lit ''updatedAt'', jint (ci_now inp))]
      @ filled ''error'' (map_option (\<lambda>e. bound_text e 1024) (ci_error inp)))"

definition drop_conversation :: "jstr \<Rightarrow> jstr \<Rightarrow> conversation_binding list \<Rightarrow> conversation_binding list" where
  "drop_conversation workspace logical bs = filter (\<lambda>b. \<not> (cb_workspace b = workspace \<and> cb_logical_id b = logical)) bs"

definition record_command :: "command_input \<Rightarrow> journal \<Rightarrow> (js \<times> journal) res" where
  "record_command inp j =
     and_then (bounded_command_id (ci_command_id inp) ''browser command id'') (\<lambda>_.
     and_then (bounded_command_id (ci_task_id inp) ''browser command task id'') (\<lambda>_.
       let existing = find (\<lambda>c. command_key c = JStr (ci_command_id inp)) (jr_commands j);
           next = snapshot_js inp existing;
           logical = jget next ''logicalConversationId''; provider = jget next ''providerConversationId'';
           workspace = str_of (jget next ''workspace'');
           j1 = j\<lparr>jr_commands := put_command next (jr_commands j)\<rparr>
       in Inr (next,
            if js_truthy logical \<and> js_truthy provider
            then (case project_of (jr_projects j) workspace of
                None \<Rightarrow> j1
              | Some p \<Rightarrow> j1\<lparr>jr_conversations := drop_conversation workspace (str_of logical) (jr_conversations j)
                  @ [\<lparr>cb_workspace = workspace, cb_project_id = pj_id p, cb_logical_id = str_of logical,
                      cb_provider_id = provider, cb_updated_at = ci_now inp\<rparr>]\<rparr>)
            else j1)))"

definition latest_provider_conversation :: "journal \<Rightarrow> jstr \<Rightarrow> jstr \<Rightarrow> js option" where
  "latest_provider_conversation j workspace logical =
     (case project_of (jr_projects j) workspace of
        None \<Rightarrow> None
      | Some p \<Rightarrow> map_option cb_provider_id
          (find (\<lambda>b. cb_workspace b = workspace \<and> cb_project_id b = pj_id p \<and> cb_logical_id b = logical) (jr_conversations j)))"

definition clear_provider_conversation :: "jstr \<Rightarrow> jstr \<Rightarrow> journal \<Rightarrow> journal" where
  "clear_provider_conversation workspace logical j =
     j\<lparr>jr_conversations := drop_conversation workspace logical (jr_conversations j)\<rparr>"

definition record_workspace_project :: "url_ops \<Rightarrow> jstr \<Rightarrow> jstr \<Rightarrow> jstr \<Rightarrow> int \<Rightarrow> journal \<Rightarrow> (project_binding \<times> journal) res" where
  "record_workspace_project uo workspace name projectUrl now j =
     and_then (normalize_chatgpt_project_url uo projectUrl) (\<lambda>u.
     and_then (bounded_command_id workspace ''workspace'') (\<lambda>w.
     and_then (bounded_project_name name) (\<lambda>n.
     and_then (chatgpt_project_id uo u) (\<lambda>i.
       let binding = \<lparr>pj_workspace = w, pj_name = n, pj_id = i, pj_url = u, pj_updated_at = now\<rparr>;
           j1 = j\<lparr>jr_projects := upsert pj_workspace binding (jr_projects j)\<rparr>
       in Inr (binding,
            case project_of (jr_projects j) w of
              Some p \<Rightarrow> if pj_id p \<noteq> i
                then j1\<lparr>jr_conversations := filter (\<lambda>b. cb_workspace b \<noteq> w \<or> cb_project_id b = i) (jr_conversations j)\<rparr> else j1
            | None \<Rightarrow> j1)))))"

definition clear_workspace_project :: "jstr \<Rightarrow> journal \<Rightarrow> journal" where
  "clear_workspace_project workspace j = j\<lparr>jr_projects := filter (\<lambda>p. pj_workspace p \<noteq> workspace) (jr_projects j)\<rparr>"

subsection \<open>On the file\<close>

text \<open>\<open>writable\<close> says whether writing the file succeeds; \<open>stringify\<close> is \<^verbatim>\<open>JSON.stringify\<close> with its layout.\<close>

definition save_journal :: "(js \<Rightarrow> jstr) \<Rightarrow> bool \<Rightarrow> journal \<Rightarrow> file_read \<Rightarrow> unit res \<times> file_read" where
  "save_journal stringify writable j file =
     (if writable then (Inr (), FileText (stringify (journal_js j) @ [10])) else (throw ''write failed'', file))"

definition store_record ::
    "(jstr \<Rightarrow> js option) \<Rightarrow> (js \<Rightarrow> jstr) \<Rightarrow> url_ops \<Rightarrow> bool \<Rightarrow> command_input \<Rightarrow> file_read \<Rightarrow> js res \<times> file_read" where
  "store_record jp sf uo writable inp file =
     (case record_command inp (load_journal jp uo file) of
        Inl e \<Rightarrow> (Inl e, file)
      | Inr (s, j) \<Rightarrow> (case save_journal sf writable j file of (r, file') \<Rightarrow> (and_then r (\<lambda>_. Inr s), file')))"

definition store_clear_conversation ::
    "(jstr \<Rightarrow> js option) \<Rightarrow> (js \<Rightarrow> jstr) \<Rightarrow> url_ops \<Rightarrow> bool \<Rightarrow> jstr \<Rightarrow> jstr \<Rightarrow> file_read \<Rightarrow> unit res \<times> file_read" where
  "store_clear_conversation jp sf uo writable workspace logical file =
     (let j = load_journal jp uo file; j' = clear_provider_conversation workspace logical j in
      if length (jr_conversations j') = length (jr_conversations j) then (Inr (), file)
      else save_journal sf writable j' file)"

definition store_record_project ::
    "(jstr \<Rightarrow> js option) \<Rightarrow> (js \<Rightarrow> jstr) \<Rightarrow> url_ops \<Rightarrow> bool \<Rightarrow> jstr \<Rightarrow> jstr \<Rightarrow> jstr \<Rightarrow> int \<Rightarrow> file_read \<Rightarrow> project_binding res \<times> file_read" where
  "store_record_project jp sf uo writable workspace name projectUrl now file =
     (case record_workspace_project uo workspace name projectUrl now (load_journal jp uo file) of
        Inl e \<Rightarrow> (Inl e, file)
      | Inr (b, j) \<Rightarrow> (case save_journal sf writable j file of (r, file') \<Rightarrow> (and_then r (\<lambda>_. Inr b), file')))"

definition store_clear_project ::
    "(jstr \<Rightarrow> js option) \<Rightarrow> (js \<Rightarrow> jstr) \<Rightarrow> url_ops \<Rightarrow> bool \<Rightarrow> jstr \<Rightarrow> file_read \<Rightarrow> unit res \<times> file_read" where
  "store_clear_project jp sf uo writable workspace file =
     (let j = load_journal jp uo file; j' = clear_workspace_project workspace j in
      if length (jr_projects j') = length (jr_projects j) then (Inr (), file)
      else save_journal sf writable j' file)"

section \<open>The list of commands\<close>

lemma put_command_snoc:
  "\<exists>kept. put_command v cs = kept @ [v] \<and> suffix kept (filter (\<lambda>c. command_key c \<noteq> command_key v) cs)"
  unfolding put_command_def upsert_def by (rule last_n_snoc) (simp add: MAX_COMMANDS_def)

lemma put_command_mem: "v \<in> set (put_command v cs)"
  using put_command_snoc [of v cs] by (elim exE conjE) simp

lemma put_command_only:
  assumes "x \<in> set (put_command v cs)" shows "x = v \<or> x \<in> set cs \<and> command_key x \<noteq> command_key v"
proof -
  have "x \<in> set (upsert command_key v cs)"
    by (rule subsetD [OF set_last_n]) (rule assms [unfolded put_command_def])
  then show ?thesis by (rule upsert_only)
qed

interpretation commands: bounded_store "\<lambda>cs. cs" command_key put_command MAX_COMMANDS
proof unfold_locales
  show "v \<in> set (put_command v cs)" for v cs by (rule put_command_mem)
  show "x \<in> set (put_command v cs) \<Longrightarrow> x = v \<or> x \<in> set cs \<and> command_key x \<noteq> command_key v" for x v cs
    by (rule put_command_only)
  show "distinct (map command_key cs) \<Longrightarrow> distinct (map command_key (put_command v cs))" for cs v
    by (simp add: put_command_def distinct_map_last_n upsert_distinct)
  show "length (put_command v cs) \<le> MAX_COMMANDS" for v cs by (simp add: put_command_def)
qed

lemma record_command_Inr:
  "record_command inp j = Inr (s, j') \<Longrightarrow>
   s = snapshot_js inp (find (\<lambda>c. command_key c = JStr (ci_command_id inp)) (jr_commands j))
   \<and> jr_commands j' = put_command s (jr_commands j) \<and> jr_projects j' = jr_projects j"
  by (auto simp: record_command_def Let_def split: if_splits option.splits)

text \<open>
  The journal remembers the newest commands. Recording a command leaves at most 128 commands
  in the journal, the recorded one last and found under its id; every other command of the
  journal was there before, in the same order and under another id, and if the ids were different
  before they are different afterwards.
\<close>

theorem record_keeps_newest_commands:
  assumes "record_command inp j = Inr (s, j')"
  shows "length (jr_commands j') \<le> 128
    \<and> find (\<lambda>c. command_key c = command_key s) (jr_commands j') = Some s
    \<and> (\<exists>kept. jr_commands j' = kept @ [s] \<and> suffix kept (filter (\<lambda>c. command_key c \<noteq> command_key s) (jr_commands j)))
    \<and> (distinct (map command_key (jr_commands j)) \<longrightarrow> distinct (map command_key (jr_commands j')))"
proof -
  note r = record_command_Inr [OF assms]
  from r put_command_snoc [of s "jr_commands j"] commands.put_bounded [of s "jr_commands j"] commands.lookup_put_same [of s "jr_commands j"] commands.put_distinct [of "jr_commands j" s]
  show ?thesis by (auto simp: commands.lookup_def MAX_COMMANDS_def)
qed

definition demo_frontend_binding :: frontend_binding where
  "demo_frontend_binding = \<lparr>fb_session_id = lit ''s'', fb_run_id = lit ''r'', fb_workspace = lit ''w'',
     fb_frontend = \<lparr>fe_provider = ChatGptWeb, fe_document_id = lit ''d'', fe_conversation_id = Some (lit ''p''), fe_turn_id = None, fe_epoch = 1,
       fe_extension_protocol = None\<rparr>, fb_bound_at = 5, fb_updated_at = 5\<rparr>"

definition demo_command_input :: command_input where
  "demo_command_input = \<lparr>ci_command_id = lit ''c'', ci_task_id = lit ''t'', ci_binding = demo_frontend_binding, ci_stage = ''queued'',
     ci_logical_id = Some (lit ''l''), ci_error = None, ci_now = 7\<rparr>"

definition demo_journal :: journal where
  "demo_journal = \<lparr>jr_commands = [], jr_projects = [\<lparr>pj_workspace = lit ''w'', pj_name = lit ''n'', pj_id = lit ''g-p-1'',
     pj_url = lit ''u'', pj_updated_at = 1\<rparr>], jr_conversations = []\<rparr>"

lemma demo_record: "\<exists>s j'. record_command demo_command_input demo_journal = Inr (s, j')"
  by (simp add: record_command_def bounded_command_id_def demo_command_input_def length_within_def lit_def js_eval Let_def)

theorem record_keeps_newest_commands_witness:
  "\<exists>s j'. record_command demo_command_input demo_journal = Inr (s, j') \<and> length (jr_commands j') \<le> 128
     \<and> find (\<lambda>c. command_key c = command_key s) (jr_commands j') = Some s"
  using demo_record record_keeps_newest_commands by blast

section \<open>The conversations\<close>

lemma snapshot_fields:
  "jget (snapshot_js inp e) ''workspace'' = JStr (fb_workspace (ci_binding inp))"
  "fe_conversation_id (fb_frontend (ci_binding inp)) = Some p \<Longrightarrow> p \<noteq> [] \<Longrightarrow> jget (snapshot_js inp e) ''providerConversationId'' = JStr p"
  "ci_logical_id inp = Some l \<Longrightarrow> l \<noteq> [] \<Longrightarrow> jget (snapshot_js inp e) ''logicalConversationId'' = JStr l"
  by (auto simp: snapshot_js_def jget_def filled_def split: option.splits)

text \<open>
  A recorded conversation is the one that is found. When a workspace has a project and a
  command is recorded with a conversation of the host and one of the provider, the latest provider
  conversation of that workspace and conversation is the recorded one, and that of every
  other workspace or conversation is what it was.
\<close>

theorem recorded_conversation_found:
  assumes "record_command inp j = Inr (s, j')" "fb_workspace (ci_binding inp) = w"
    and "ci_logical_id inp = Some l" "l \<noteq> []" "fe_conversation_id (fb_frontend (ci_binding inp)) = Some p" "p \<noteq> []"
    and "project_of (jr_projects j) w = Some pj"
  shows "latest_provider_conversation j' w l = Some (JStr p)
    \<and> (\<forall>w' l'. (w', l') \<noteq> (w, l) \<longrightarrow> latest_provider_conversation j' w' l' = latest_provider_conversation j w' l')"
proof -
  let ?b = "\<lparr>cb_workspace = w, cb_project_id = pj_id pj, cb_logical_id = l, cb_provider_id = JStr p, cb_updated_at = ci_now inp\<rparr>"
  have j': "jr_conversations j' = drop_conversation w l (jr_conversations j) @ [?b]" "jr_projects j' = jr_projects j"
    using assms by (auto simp: record_command_def Let_def snapshot_fields)
  have none: "find (\<lambda>b. cb_workspace b = w \<and> cb_project_id b = i \<and> cb_logical_id b = l) (drop_conversation w l bs) = None" for i bs
    by (auto simp: find_None_iff drop_conversation_def)
  have other: "find (\<lambda>b. cb_workspace b = w' \<and> cb_project_id b = i \<and> cb_logical_id b = l') (drop_conversation w l bs)
      = find (\<lambda>b. cb_workspace b = w' \<and> cb_project_id b = i \<and> cb_logical_id b = l') bs" if "(w', l') \<noteq> (w, l)" for w' l' i bs
    using that by (induction bs) (auto simp: drop_conversation_def)
  show ?thesis
    using assms(7) none other by (auto simp: latest_provider_conversation_def j' find_append split: option.splits)
qed

theorem recorded_conversation_found_witness:
  "\<exists>s j'. record_command demo_command_input demo_journal = Inr (s, j')
     \<and> latest_provider_conversation j' (lit ''w'') (lit ''l'') = Some (JStr (lit ''p''))"
proof -
  obtain s j' where r: "record_command demo_command_input demo_journal = Inr (s, j')" using demo_record by blast
  from recorded_conversation_found [OF r, of "lit ''w''" "lit ''l''" "lit ''p''"] r show ?thesis
    by (auto simp: demo_command_input_def demo_frontend_binding_def demo_journal_def project_of_def)
qed

section \<open>What is written is read back\<close>

definition project_ok :: "url_ops \<Rightarrow> project_binding \<Rightarrow> bool" where
  "project_ok uo p \<longleftrightarrow> is_chatgpt_project_url uo (pj_url p) \<and> normalize_chatgpt_project_url uo (pj_url p) = Inr (pj_url p)
     \<and> pj_id p \<noteq> [] \<and> safe_int (jint (pj_updated_at p)) = Some (pj_updated_at p)"

definition conversation_ok :: "conversation_binding \<Rightarrow> bool" where
  "conversation_ok b \<longleftrightarrow> is_str (cb_provider_id b) \<and> cb_project_id b \<noteq> [] \<and> safe_int (jint (cb_updated_at b)) = Some (cb_updated_at b)"

definition journal_ok :: "url_ops \<Rightarrow> journal \<Rightarrow> bool" where
  "journal_ok uo j \<longleftrightarrow> list_all is_snapshot (jr_commands j) \<and> length (jr_commands j) \<le> MAX_COMMANDS
     \<and> list_all (project_ok uo) (jr_projects j) \<and> list_all conversation_ok (jr_conversations j)"

lemma somes_Some [simp]: "somes (map Some xs) = xs"
  by (induction xs) (auto simp: somes_def)

lemma project_read_back: "project_ok uo p \<Longrightarrow> normalize_project_binding uo (project_js p) = Inr (Some p)"
  by (simp add: normalize_project_binding_def project_js_def project_ok_def is_safe_integer_def is_str_def int_of_def
      jget_def str_sat_def)

lemma projects_read_back:
  "list_all (project_ok uo) ps \<Longrightarrow> map_res (normalize_project_binding uo) (map project_js ps) = Inr (map Some ps)"
  by (induction ps) (auto simp: project_read_back)

lemma conversation_read_back: "conversation_ok b \<Longrightarrow> normalize_conversation_binding ps (conversation_js b) = Some b"
  by (auto simp: normalize_conversation_binding_def conversation_js_def conversation_ok_def is_safe_integer_def is_str_def int_of_def
      jget_def str_sat_def)

lemma conversations_read_back:
  "list_all conversation_ok bs \<Longrightarrow> map (normalize_conversation_binding ps) (map conversation_js bs) = map Some bs"
  by (induction bs) (auto simp: conversation_read_back)

text \<open>
  C39: What is written is read back. A journal within its limit, with checked commands, normalised
  project addresses and complete conversations, is the journal that is loaded from the file in
  which it was saved.
\<close>

theorem journal_roundtrip:
  assumes "journal_ok uo j" "json_parse (stringify (journal_js j) @ [10]) = Some (journal_js j)"
    and "save_journal stringify True j file = (Inr (), file')"
  shows "load_journal json_parse uo file' = j"
proof -
  have f: "file' = FileText (stringify (journal_js j) @ [10])" using assms(3) by (simp add: save_journal_def)
  have fields: "jget (journal_js j) ''schemaVersion'' = jint 4" "jget (journal_js j) ''commands'' = JArr (jr_commands j)"
    "jget (journal_js j) ''projects'' = JArr (map project_js (jr_projects j))"
    "jget (journal_js j) ''conversations'' = JArr (map conversation_js (jr_conversations j))" "is_record (journal_js j)"
    by (simp_all add: journal_js_def jget_def)
  have c: "last_n MAX_COMMANDS (filter is_snapshot (jr_commands j)) = jr_commands j"
    using assms(1) by (simp add: journal_ok_def list_all_iff last_n_def cong: filter_cong)
  have "read_journal uo (journal_js j) = Inr j"
    using assms(1) c by (simp add: read_journal_def fields array_of_def is_array_def journal_ok_def Let_def
        projects_read_back conversations_read_back del: map_map)
  then show ?thesis using assms(2) by (simp add: f load_journal_def)
qed

definition demo_url :: url where
  "demo_url = \<lparr>url_protocol = lit ''https:'', url_username = [], url_password = [], url_hostname = lit ''chatgpt.com'', url_port = [],
     url_pathname = lit ''/project/x'', url_search = [], url_hash = []\<rparr>"

definition demo_url_ops :: url_ops where
  "demo_url_ops = \<lparr>uo_parse = (\<lambda>_. Some demo_url), uo_text = (\<lambda>u. lit ''https://chatgpt.com'' @ url_pathname u)\<rparr>"

theorem journal_roundtrip_witness:
  "let j = \<lparr>jr_commands = [], jr_projects = [], jr_conversations =
        [\<lparr>cb_workspace = lit ''w'', cb_project_id = lit ''g-p-1'', cb_logical_id = lit ''l'', cb_provider_id = jtext ''p'', cb_updated_at = 3\<rparr>]\<rparr>
   in journal_ok demo_url_ops j \<and> load_journal (\<lambda>_. Some (journal_js j)) demo_url_ops (snd (save_journal (\<lambda>_. []) True j FileMissing)) = j"
proof -
  let ?j = "\<lparr>jr_commands = [], jr_projects = [], jr_conversations =
        [\<lparr>cb_workspace = lit ''w'', cb_project_id = lit ''g-p-1'', cb_logical_id = lit ''l'', cb_provider_id = jtext ''p'', cb_updated_at = 3\<rparr>]\<rparr>"
  have ok: "journal_ok demo_url_ops ?j"
    by (simp add: journal_ok_def conversation_ok_def is_str_def js_eval)
  show ?thesis
    using journal_roundtrip [OF ok, of "\<lambda>_. Some (journal_js ?j)" "\<lambda>_. []" FileMissing] ok
    by (simp add: save_journal_def Let_def)
qed

text \<open>
  A stored project without an id whose address names none makes the whole journal unreadable: the
  error is caught around the reading of everything, so the commands and the conversations
  are lost with it.
\<close>

lemma legacy_project_empties_journal:
  "load_journal (\<lambda>_. Some (JObj [(lit ''schemaVersion'', jint 2), (lit ''commands'', JArr commands),
      (lit ''projects'', JArr [JObj [(lit ''workspace'', jtext ''w''), (lit ''projectName'', jtext ''n''),
         (lit ''projectUrl'', jtext ''https://chatgpt.com/project/x''), (lit ''updatedAt'', jint 1)]])])) demo_url_ops (FileText raw)
   = empty_journal"
proof -
  have p: "normalize_project_binding demo_url_ops (JObj [(lit ''workspace'', jtext ''w''), (lit ''projectName'', jtext ''n''),
         (lit ''projectUrl'', jtext ''https://chatgpt.com/project/x''), (lit ''updatedAt'', jint 1)])
      = throw ''ChatGPT project URL does not contain a project id''"
    by (simp add: normalize_project_binding_def normalize_chatgpt_project_url_def chatgpt_project_id_def is_chatgpt_project_url_def
        demo_url_ops_def demo_url_def is_safe_integer_def is_str_def is_project_segment_def starts_with_def to_lower_def lit_def js_eval Let_def throw_def)
  show ?thesis
    by (simp add: load_journal_def read_journal_def jget_def array_of_def is_array_def p [simplified of_int_1] Let_def throw_def)
qed

end
