(* ===== verification/Io_Trace.thy ===== *)
theory Io_Trace
  imports Contracts
begin

text \<open>
  Code that both talks to its environment and changes fields of its own object: the state of a
  computation is a pair of the environment and the object. \<open>io_ext\<close> runs an environment call,
  \<open>io_state\<close> a synchronous change of the object. The second part is a small calculus of traces:
  \<open>traces lg m R\<close> says that every run of \<open>m\<close> appends to the log a list of calls that is related
  by \<open>R\<close> to its result. The rules compose such statements along the structure of the program.
\<close>

section \<open>Environment and object\<close>

definition io_ext :: "('w, 'a) io \<Rightarrow> ('w \<times> 's, 'a) io" where
  "io_ext m ws = (case m (fst ws) of (r, w') \<Rightarrow> (r, (w', snd ws)))"

definition io_state :: "('s \<Rightarrow> 'a res \<times> 's) \<Rightarrow> ('w \<times> 's, 'a) io" where
  "io_state f ws = (case f (snd ws) of (r, s') \<Rightarrow> (r, (fst ws, s')))"

definition io_modify :: "('s \<Rightarrow> 's) \<Rightarrow> ('w \<times> 's, unit) io" where
  "io_modify f = io_state (\<lambda>s. (Inr (), f s))"

definition io_gets :: "('s \<Rightarrow> 'a) \<Rightarrow> ('w \<times> 's, 'a) io" where
  "io_gets f = io_state (\<lambda>s. (Inr (f s), s))"

text \<open>\<^verbatim>\<open>try { m } catch (error) { h }\<close> and \<^verbatim>\<open>m.catch(() => undefined)\<close>.\<close>

definition io_catch :: "('w, 'a) io \<Rightarrow> (jstr \<Rightarrow> ('w, 'a) io) \<Rightarrow> ('w, 'a) io" where
  "io_catch m h w = (case m w of (Inl e, w') \<Rightarrow> h e w' | (Inr a, w') \<Rightarrow> (Inr a, w'))"

definition io_ignore :: "('w, 'a) io \<Rightarrow> ('w, unit) io" where
  "io_ignore m w = (Inr (), snd (m w))"

text \<open>\<^verbatim>\<open>try { m } finally { f }\<close> for a synchronous \<^verbatim>\<open>f\<close> that does not throw.\<close>

definition io_finally :: "('w \<times> 's, 'a) io \<Rightarrow> ('s \<Rightarrow> 's) \<Rightarrow> ('w \<times> 's, 'a) io" where
  "io_finally m f ws = (case m ws of (r, (w', s')) \<Rightarrow> (r, (w', f s')))"

text \<open>\<^verbatim>\<open>for (const x of xs) await f(x)\<close>.\<close>

fun io_each :: "('x \<Rightarrow> ('w, unit) io) \<Rightarrow> 'x list \<Rightarrow> ('w, unit) io" where
  "io_each f [] = io_return ()"
| "io_each f (x # xs) = io_bind (f x) (\<lambda>_. io_each f xs)"

text \<open>A call that is logged together with the answer it got.\<close>

definition logged_with :: "('i \<Rightarrow> 'a res \<Rightarrow> 'c) \<Rightarrow> ('i \<Rightarrow> ('w, 'a) io) \<Rightarrow> 'i \<Rightarrow> ('w \<times> 'c list, 'a) io" where
  "logged_with tag f i wl = (case f i (fst wl) of (r, w') \<Rightarrow> (r, (w', snd wl @ [tag i r])))"

section \<open>Traces\<close>

definition traces :: "('t \<Rightarrow> 'c list) \<Rightarrow> ('t, 'a) io \<Rightarrow> ('c list \<Rightarrow> 'a res \<Rightarrow> bool) \<Rightarrow> bool" where
  "traces lg m R \<longleftrightarrow> (\<forall>st. \<exists>new. lg (snd (m st)) = lg st @ new \<and> R new (fst (m st)))"

lemma tracesD: "traces lg m R \<Longrightarrow> m st = (r, st') \<Longrightarrow> \<exists>new. lg st' = lg st @ new \<and> R new r"
  unfolding traces_def by (metis fst_conv snd_conv)

lemma traces_weaken: "traces lg m R \<Longrightarrow> (\<And>new r. R new r \<Longrightarrow> S new r) \<Longrightarrow> traces lg m S"
  unfolding traces_def by blast

lemma traces_lift [simp]: "R [] r \<Longrightarrow> traces lg (io_lift r) R"
  unfolding traces_def by auto

lemma traces_bind:
  assumes "traces lg m R1" "\<And>a. traces lg (f a) (R2 a)"
    and "\<And>new e. R1 new (Inl e) \<Longrightarrow> R new (Inl e)"
    and "\<And>n1 a n2 r. R1 n1 (Inr a) \<Longrightarrow> R2 a n2 r \<Longrightarrow> R (n1 @ n2) r"
  shows "traces lg (io_bind m f) R"
  unfolding traces_def
proof
  fix st
  obtain r st' where m: "m st = (r, st')" by (metis surj_pair)
  from tracesD [OF assms(1) m] obtain n1 where n1: "lg st' = lg st @ n1" "R1 n1 r" by blast
  show "\<exists>new. lg (snd (io_bind m f st)) = lg st @ new \<and> R new (fst (io_bind m f st))"
  proof (cases r)
    case (Inl e)
    with m n1 assms(3) show ?thesis by (auto simp: io_bind_def)
  next
    case (Inr a)
    obtain r2 st2 where f: "f a st' = (r2, st2)" by (metis surj_pair)
    from tracesD [OF assms(2) f] obtain n2 where n2: "lg st2 = lg st' @ n2" "R2 a n2 r2" by blast
    with n1 Inr assms(4) have "R (n1 @ n2) r2" by blast
    with m f n1 n2 Inr show ?thesis by (auto simp: io_bind_def)
  qed
qed

lemma traces_catch:
  assumes "traces lg m R1" "\<And>e. traces lg (h e) (R2 e)"
    and "\<And>new a. R1 new (Inr a) \<Longrightarrow> R new (Inr a)"
    and "\<And>n1 e n2 r. R1 n1 (Inl e) \<Longrightarrow> R2 e n2 r \<Longrightarrow> R (n1 @ n2) r"
  shows "traces lg (io_catch m h) R"
  unfolding traces_def
proof
  fix st
  obtain r st' where m: "m st = (r, st')" by (metis surj_pair)
  from tracesD [OF assms(1) m] obtain n1 where n1: "lg st' = lg st @ n1" "R1 n1 r" by blast
  show "\<exists>new. lg (snd (io_catch m h st)) = lg st @ new \<and> R new (fst (io_catch m h st))"
  proof (cases r)
    case (Inr a)
    with m n1 assms(3) show ?thesis by (auto simp: io_catch_def)
  next
    case (Inl e)
    obtain r2 st2 where f: "h e st' = (r2, st2)" by (metis surj_pair)
    from tracesD [OF assms(2) f] obtain n2 where n2: "lg st2 = lg st' @ n2" "R2 e n2 r2" by blast
    with n1 Inl assms(4) have "R (n1 @ n2) r2" by blast
    with m f n1 n2 Inl show ?thesis by (auto simp: io_catch_def)
  qed
qed

lemma traces_ignore:
  "traces lg m R \<Longrightarrow> (\<And>new r. R new r \<Longrightarrow> S new (Inr ())) \<Longrightarrow> traces lg (io_ignore m) S"
  unfolding traces_def by (simp add: io_ignore_def) blast

text \<open>Environment calls of an object's code, and changes of the object, which leave the log alone.\<close>

abbreviation env_log :: "('w \<times> 'c list) \<times> 's \<Rightarrow> 'c list" where
  "env_log st \<equiv> snd (fst st)"

lemma traces_ext: "traces snd m R \<Longrightarrow> traces env_log (io_ext m) R"
  unfolding traces_def by (auto simp: io_ext_def split: prod.splits) (metis fst_conv snd_conv surj_pair)

lemma traces_logged_with:
  "(\<And>r. R [tag i r] r) \<Longrightarrow> traces snd (logged_with tag f i) R"
  unfolding traces_def by (auto simp: logged_with_def split: prod.splits)

lemma traces_unlogged: "(\<And>r. R [] r) \<Longrightarrow> traces snd (unlogged f i) R"
  unfolding traces_def by (auto simp: unlogged_def split: prod.splits)

lemma traces_state: "(\<And>r. R [] r) \<Longrightarrow> traces env_log (io_state f) R"
  unfolding traces_def by (auto simp: io_state_def split: prod.splits)

lemma traces_finally: "traces env_log m R \<Longrightarrow> traces env_log (io_finally m f) R"
  unfolding traces_def by (auto simp: io_finally_def split: prod.splits) (metis fst_conv snd_conv)

lemma traces_return: "R [] (Inr a) \<Longrightarrow> traces lg (io_return a) R"
  unfolding traces_def by simp

text \<open>A property of the calls alone, closed under sequencing.\<close>

definition calls :: "('t \<Rightarrow> 'c list) \<Rightarrow> ('c list \<Rightarrow> bool) \<Rightarrow> ('t, 'a) io \<Rightarrow> bool" where
  "calls lg P m \<longleftrightarrow> traces lg m (\<lambda>new r. P new)"

lemma calls_bind:
  "calls lg P m \<Longrightarrow> (\<And>a. calls lg P (f a)) \<Longrightarrow> (\<And>a b. P a \<Longrightarrow> P b \<Longrightarrow> P (a @ b)) \<Longrightarrow> calls lg P (io_bind m f)"
  unfolding calls_def
  by (rule traces_bind [where ?R1.0 = "\<lambda>new r. P new" and ?R2.0 = "\<lambda>a new r. P new"]) auto

lemma calls_catch:
  "calls lg P m \<Longrightarrow> (\<And>a. calls lg P (h a)) \<Longrightarrow> (\<And>a b. P a \<Longrightarrow> P b \<Longrightarrow> P (a @ b)) \<Longrightarrow> calls lg P (io_catch m h)"
  unfolding calls_def
  by (rule traces_catch [where ?R1.0 = "\<lambda>new r. P new" and ?R2.0 = "\<lambda>a new r. P new"]) auto

lemma calls_ignore: "calls lg P m \<Longrightarrow> calls lg P (io_ignore m)"
  unfolding calls_def by (rule traces_ignore)

lemma calls_each:
  "(\<And>x. calls lg P (f x)) \<Longrightarrow> P [] \<Longrightarrow> (\<And>a b. P a \<Longrightarrow> P b \<Longrightarrow> P (a @ b)) \<Longrightarrow> calls lg P (io_each f xs)"
  by (induction xs) (auto simp: calls_def traces_return intro!: calls_bind [unfolded calls_def])

lemma calls_lift: "P [] \<Longrightarrow> calls lg P (io_lift r)"
  unfolding calls_def by simp

lemma calls_return: "P [] \<Longrightarrow> calls lg P (io_return a)"
  unfolding calls_def by (simp add: traces_return)

section \<open>Frames\<close>

text \<open>A part of the object that a computation leaves alone, however it ends.\<close>

definition keeps :: "('s \<Rightarrow> 'x) \<Rightarrow> ('w \<times> 's, 'a) io \<Rightarrow> bool" where
  "keeps sel m \<longleftrightarrow> (\<forall>ws. sel (snd (snd (m ws))) = sel (snd ws))"

lemma keepsD: "keeps sel m \<Longrightarrow> m (w, s) = (r, (w', s')) \<Longrightarrow> sel s' = sel s"
  unfolding keeps_def by (metis snd_conv)

lemma keeps_ext: "keeps sel (io_ext m)"
  by (simp add: keeps_def io_ext_def split: prod.splits)

lemma keeps_modify: "(\<And>s. sel (f s) = sel s) \<Longrightarrow> keeps sel (io_modify f)"
  by (simp add: keeps_def io_modify_def io_state_def)

lemma keeps_gets: "keeps sel (io_gets f)"
  by (simp add: keeps_def io_gets_def io_state_def)

lemma keeps_state: "(\<And>s. sel (snd (f s)) = sel s) \<Longrightarrow> keeps sel (io_state f)"
  by (auto simp: keeps_def io_state_def split: prod.splits) (metis snd_conv)

lemma keeps_lift: "keeps sel (io_lift r)" "keeps sel (io_return a)"
  by (simp_all add: keeps_def)

lemma keeps_bind: "keeps sel m \<Longrightarrow> (\<And>a. keeps sel (f a)) \<Longrightarrow> keeps sel (io_bind m f)"
  unfolding keeps_def by (auto simp: io_bind_def split: prod.splits sum.splits) (metis snd_conv)+

lemma keeps_catch: "keeps sel m \<Longrightarrow> (\<And>e. keeps sel (h e)) \<Longrightarrow> keeps sel (io_catch m h)"
  unfolding keeps_def by (auto simp: io_catch_def split: prod.splits sum.splits) (metis snd_conv)+

lemma keeps_ignore: "keeps sel m \<Longrightarrow> keeps sel (io_ignore m)"
  by (simp add: keeps_def io_ignore_def)

lemma keeps_each: "(\<And>x. keeps sel (f x)) \<Longrightarrow> keeps sel (io_each f xs)"
  by (induction xs) (auto intro: keeps_lift keeps_bind)

lemmas keeps_intros = keeps_ext keeps_gets keeps_lift keeps_bind keeps_catch keeps_ignore keeps_each

text \<open>The two ways in which a sequence ends.\<close>

lemma io_bind_anyE:
  assumes "io_bind m f w = (r, w'')"
  obtains e where "m w = (Inl e, w'')" "r = Inl e" | a w' where "m w = (Inr a, w')" "f a w' = (r, w'')"
  using assms by (auto simp: io_bind_def split: prod.splits sum.splits)

end
