(* ===== verification/Utf8_Text.thy ===== *)
theory Utf8_Text
  imports Js_Prelude
begin

text \<open>
  Cutting a text at a number of bytes through \<^verbatim>\<open>Buffer\<close>, as the recovery prompts and the progress
  events do, with the lemmas that bound the result.
\<close>

definition replacement :: nat where "replacement = 65533"

text \<open>
  \<^verbatim>\<open>Buffer.from(s).subarray(0, n).toString("utf8")\<close>: whole characters that fit in \<open>n\<close> bytes, a lone
  surrogate as the replacement character, and one replacement character for a character that the
  cut splits.
\<close>

definition decoded :: "nat \<Rightarrow> nat" where
  "decoded c = (if is_high c \<or> is_low c then replacement else c)"

definition split_char :: "nat \<Rightarrow> jstr" where
  "split_char n = (if n = 0 then [] else [replacement])"

fun utf8_cut :: "nat \<Rightarrow> jstr \<Rightarrow> jstr" where
  "utf8_cut n [] = []"
| "utf8_cut n [c] = (if unit_bytes c \<le> n then [decoded c] else split_char n)"
| "utf8_cut n (c # d # cs) =
     (if is_high c \<and> is_low d then (if 4 \<le> n then c # d # utf8_cut (n - 4) cs else split_char n)
      else if unit_bytes c \<le> n then decoded c # utf8_cut (n - unit_bytes c) (d # cs) else split_char n)"

definition strip_replacements :: "jstr \<Rightarrow> jstr" where
  "strip_replacements s = rev (dropWhile (\<lambda>c. c = replacement) (rev s))"

text \<open>The characters that fit, without the mark of a split one.\<close>

fun utf8_whole :: "nat \<Rightarrow> jstr \<Rightarrow> jstr" where
  "utf8_whole n [] = []"
| "utf8_whole n [c] = (if unit_bytes c \<le> n then [decoded c] else [])"
| "utf8_whole n (c # d # cs) =
     (if is_high c \<and> is_low d then (if 4 \<le> n then c # d # utf8_whole (n - 4) cs else [])
      else if unit_bytes c \<le> n then decoded c # utf8_whole (n - unit_bytes c) (d # cs) else [])"

lemma utf8_cut_whole: "utf8_cut n s = utf8_whole n s \<or> utf8_cut n s = utf8_whole n s @ [replacement]"
  by (induction n s rule: utf8_cut.induct) (auto simp: split_char_def)

lemma strip_snoc: "strip_replacements (s @ [replacement]) = strip_replacements s"
  by (simp add: strip_replacements_def)

lemma strip_cut: "strip_replacements (utf8_cut n s) = strip_replacements (utf8_whole n s)"
  using utf8_cut_whole [of n s] strip_snoc by auto

lemma decoded_bytes: "unit_bytes (decoded c) = unit_bytes c" "\<not> is_high (decoded c)"
  by (auto simp: decoded_def replacement_def unit_bytes_def is_high_def is_low_def between_def)

lemma utf8_len_decoded: "utf8_len (decoded c # s) = unit_bytes c + utf8_len s"
  by (cases s) (simp_all add: decoded_bytes)

lemma utf8_whole_fits: "utf8_len (utf8_whole n s) \<le> n"
proof (induction n s rule: utf8_whole.induct)
  case (3 n c d cs)
  then show ?case by (cases "is_high c \<and> is_low d") (auto simp: utf8_len_decoded)
qed (auto simp: decoded_bytes)

lemma strip_prefix: "prefix (strip_replacements s) s"
  unfolding strip_replacements_def by (metis rev_rev_ident suffix_dropWhile suffix_to_prefix)

lemma utf8_len_prefix: "prefix p s \<Longrightarrow> utf8_len p \<le> utf8_len s"
  by (metis append_eq_conv_conj linear prefix_def take_all utf8_len_take_mono)

lemma strip_cut_fits: "utf8_len (strip_replacements (utf8_cut n s)) \<le> n"
  unfolding strip_cut using utf8_len_prefix [OF strip_prefix] utf8_whole_fits by (rule le_trans)

end
