(* ===== verification/Harness_Parser.thy ===== *)
theory Harness_Parser
  imports Contracts
begin

text \<open>
  The parsers of what the core answers about Harness runs, events, jobs, commands and approvals
  (\<^verbatim>\<open>harness-parser.ts\<close>, \<^verbatim>\<open>harness-approval-parser.ts\<close>, with the types of
  \<^verbatim>\<open>shared/harness-api.ts\<close>). As in the code, a required field that is malformed throws and an
  optional one is dropped; the fields are checked in the order in which the code evaluates them.
\<close>

section \<open>Data\<close>

datatype sandbox_mode = ReadOnly | WorkspaceWrite | WorkspaceGui | DangerFullAccess
datatype policy_decision = Allow | Ask | Deny
datatype proof_type = FocusedTest | Integration | E2e | RecoveryRehearsal | Measurement
datatype work_shape = WorkReadOnly | Bounded | Durable | OperateApplication | Invariant
datatype loop_phase = PhaseContext | PhaseExecute | PhaseVerify | PhaseRecover | PhaseLearn
datatype verification_status = VerIdle | VerPending | VerPassed | VerFailed
datatype recovery_status = RecIdle | RecNeeded | RecInProgress | RecRecovered
datatype context_route =
  RouteNone | ExactSource | Impact | Architecture | SymbolGraph | GitState | Semantic | TextSearch | Mixed
datatype enforcement = EnfFull | EnfPartial | EnfUnavailable
datatype actor = Operator | ExternalAgent
datatype run_origin = Manual | Automatic
datatype hint_state = Candidate | FreshRunValidated

record policies =
  pol_read :: policy_decision
  pol_write :: policy_decision
  pol_exec :: policy_decision
  pol_git :: policy_decision
  pol_provider :: policy_decision
  pol_job :: policy_decision

record checkpoint =
  cp_id :: jstr
  cp_event_seq :: int
  cp_state :: jstr
  cp_reason :: jstr
  cp_created_at :: int

record child_run =
  ch_id :: jstr
  ch_profile :: jstr
  ch_status :: jstr
  ch_parent_run_id :: jstr
  ch_started_at :: int
  ch_updated_at :: int
  ch_completed_at :: "int option"

record harness_hint =
  lh_tool :: jstr
  lh_error_category :: jstr
  lh_failures :: int
  lh_recoveries :: int
  lh_confirmations :: int
  lh_state :: hint_state
  lh_suggestion :: jstr

record proof_candidate =
  pc_proof_type :: proof_type
  pc_source :: jstr
  pc_cwd :: "jstr option"
  pc_command :: jstr
  pc_reason :: jstr

record repository_context =
  rc_entrypoints :: "jstr list"
  rc_guidance :: "jstr list"
  rc_active_plans :: "jstr list"
  rc_validation_owners :: "jstr list"
  rc_proof_candidates :: "proof_candidate list"
  rc_truncated :: bool

record closed_loop =
  cl_phase :: loop_phase
  cl_work_shape :: work_shape
  cl_work_scope :: "jstr option"
  cl_context_reads :: int
  cl_executions :: int
  cl_verification_required :: bool
  cl_verification_status :: verification_status
  cl_recovery_status :: recovery_status
  cl_selected_proof_type :: "proof_type option"
  cl_selected_proof_source :: "jstr option"
  cl_selected_proof_command :: "jstr option"
  cl_satisfied_proofs :: "proof_type list"
  cl_failure_count :: int
  cl_learning_count :: int
  cl_last_failure_tool :: "jstr option"
  cl_last_failure_category :: "jstr option"
  cl_learning_hints :: "harness_hint list"

record run_view =
  rv_id :: jstr
  rv_actor :: actor
  rv_workspace :: jstr
  rv_profile :: jstr
  rv_profile_description :: jstr
  rv_origin :: run_origin
  rv_sandbox :: sandbox_mode
  rv_policies :: policies
  rv_status :: jstr
  rv_parent_run_id :: "jstr option"
  rv_children :: "child_run list"
  rv_children_truncated :: bool
  rv_freshness_state :: jstr
  rv_freshness_reason :: "jstr option"
  rv_recovery_state :: jstr
  rv_recovery_reason :: jstr
  rv_closed_loop :: closed_loop
  rv_repository_context :: repository_context
  rv_pending_approvals :: int
  rv_active_jobs :: int
  rv_uncertain_mutations :: int
  rv_retryable_reads :: int
  rv_retryable_pre_dispatch :: int
  rv_blocked_pre_dispatch :: int
  rv_checkpoint :: "checkpoint option"
  rv_started_at :: int
  rv_updated_at :: int
  rv_completed_at :: "int option"

record context_route_view =
  cr_workspace :: jstr
  cr_retrieve :: bool
  cr_route :: context_route
  cr_search_query :: jstr
  cr_reason :: jstr
  cr_surfaces :: "jstr list"

record command_view =
  co_workspace :: jstr
  co_command :: jstr
  co_request_id :: jstr
  co_sandbox :: "sandbox_mode option"
  co_enforcement :: "enforcement option"
  co_success :: "bool option"
  co_exit_code :: "int option"
  co_timed_out :: "bool option"
  co_stdout :: "jstr option"
  co_stderr :: "jstr option"
  co_truncated :: "bool option"

record event_view =
  en_seq :: int
  en_event_type :: jstr
  en_summary :: jstr
  en_created_at :: int
  en_display_input :: "jstr option"
  en_display_output :: "jstr option"

record job_view =
  jb_id :: jstr
  jb_run_id :: jstr
  jb_workspace :: jstr
  jb_kind :: jstr
  jb_task_id :: "jstr option"
  jb_status :: jstr
  jb_created_at :: int
  jb_updated_at :: int

section \<open>Field checks\<close>

definition harness_invalid :: "string \<Rightarrow> 'a res" where
  "harness_invalid label = throw (''SourceNerve Harness '' @ label @ '' is invalid'')"

definition is_bounded_safe_text :: "nat \<Rightarrow> jstr \<Rightarrow> bool" where
  "is_bounded_safe_text hi s \<longleftrightarrow> length_within 1 hi s \<and> \<not> has_control s"

definition harness_text :: "js \<Rightarrow> nat \<Rightarrow> string \<Rightarrow> jstr res" where
  "harness_text v hi label =
     (case v of JStr s \<Rightarrow> if is_bounded_safe_text hi s then Inr s else harness_invalid label | _ \<Rightarrow> harness_invalid label)"

definition optional_bounded_text :: "js \<Rightarrow> nat \<Rightarrow> jstr option" where
  "optional_bounded_text v hi = (case v of JStr s \<Rightarrow> if is_bounded_safe_text hi s then Some s else None | _ \<Rightarrow> None)"

definition non_negative_integer :: "js \<Rightarrow> string \<Rightarrow> int res" where
  "non_negative_integer v label =
     (case safe_int v of Some i \<Rightarrow> if i < 0 then harness_invalid label else Inr i | None \<Rightarrow> harness_invalid label)"

definition optional_integer :: "js \<Rightarrow> int option" where
  "optional_integer v = safe_int v"

definition optional_non_negative_integer :: "js \<Rightarrow> int option" where
  "optional_non_negative_integer v = (case safe_int v of Some i \<Rightarrow> if 0 \<le> i then Some i else None | None \<Rightarrow> None)"

definition boolean_value :: "js \<Rightarrow> string \<Rightarrow> bool res" where
  "boolean_value v label = (case v of JBool b \<Rightarrow> Inr b | _ \<Rightarrow> harness_invalid label)"

definition literal :: "(string \<times> 'a) list \<Rightarrow> js \<Rightarrow> string \<Rightarrow> 'a res" where
  "literal table v label =
     (case v of JStr s \<Rightarrow> (case named table s of Some x \<Rightarrow> Inr x | None \<Rightarrow> harness_invalid label) | _ \<Rightarrow> harness_invalid label)"

definition sandbox_modes :: "(string \<times> sandbox_mode) list" where
  "sandbox_modes = [(''read-only'', ReadOnly), (''workspace-write'', WorkspaceWrite), (''workspace-gui'', WorkspaceGui),
     (''danger-full-access'', DangerFullAccess)]"

definition sandbox_mode_of :: "js \<Rightarrow> sandbox_mode res" where
  "sandbox_mode_of v = literal sandbox_modes v ''sandbox mode''"

definition policy_decision_of :: "js \<Rightarrow> string \<Rightarrow> policy_decision res" where
  "policy_decision_of v label = literal [(''allow'', Allow), (''ask'', Ask), (''deny'', Deny)] v (label @ '' policy'')"

definition proof_type_of :: "js \<Rightarrow> proof_type res" where
  "proof_type_of v = literal [(''focused-test'', FocusedTest), (''integration'', Integration), (''e2e'', E2e),
     (''recovery-rehearsal'', RecoveryRehearsal), (''measurement'', Measurement)] v ''proof type''"

definition harness_work_shape :: "js \<Rightarrow> work_shape res" where
  "harness_work_shape v = literal [(''read-only'', WorkReadOnly), (''bounded'', Bounded), (''durable'', Durable),
     (''operate-application'', OperateApplication), (''invariant'', Invariant)] v ''work shape''"

definition context_route_of :: "js \<Rightarrow> context_route res" where
  "context_route_of v = literal [(''none'', RouteNone), (''exact-source'', ExactSource), (''impact'', Impact),
     (''architecture'', Architecture), (''symbol-graph'', SymbolGraph), (''git-state'', GitState), (''semantic'', Semantic),
     (''text-search'', TextSearch), (''mixed'', Mixed)] v ''context route''"

definition CONTEXT_SURFACES :: "string list" where
  "CONTEXT_SURFACES = [''read_file'', ''git_diff'', ''repo_snapshot'', ''plugin_catalog'', ''mcp_extension_catalog'']"

definition context_surface :: "js \<Rightarrow> jstr res" where
  "context_surface v =
     (case v of JStr s \<Rightarrow> if s \<in> set (map lit CONTEXT_SURFACES) then Inr s else harness_invalid ''context surface''
      | _ \<Rightarrow> harness_invalid ''context surface'')"

text \<open>\<^verbatim>\<open>[\u0000-\u0008\u000b\u000c\u000e-\u001f\u007f-\u009f]\<close>: control characters other than tab and line breaks.\<close>

definition hidden_control :: "nat \<Rightarrow> bool" where
  "hidden_control c \<longleftrightarrow> c \<le> 8 \<or> c = 11 \<or> c = 12 \<or> between 14 31 c \<or> between 127 159 c"

definition bounded_context_query :: "js \<Rightarrow> jstr res" where
  "bounded_context_query v =
     (case v of
        JStr s \<Rightarrow> if utf8_len s < 1 \<or> utf8_len s > 16 * 1024 \<or> list_ex hidden_control s
          then harness_invalid ''context route search query'' else Inr s
      | _ \<Rightarrow> harness_invalid ''context route search query'')"

definition context_search_query :: "js \<Rightarrow> jstr option \<Rightarrow> jstr res" where
  "context_search_query v fallback =
     (case bounded_context_query v of
        Inr s \<Rightarrow> Inr s
      | Inl e \<Rightarrow> (case fallback of None \<Rightarrow> Inl e | Some f \<Rightarrow> bounded_context_query (JStr (trim f))))"

definition optional_multiline_text :: "js \<Rightarrow> nat \<Rightarrow> jstr option" where
  "optional_multiline_text v maxBytes =
     (case v of
        JStr s \<Rightarrow> if utf8_len s > maxBytes \<or> list_ex hidden_control s \<or> trim s = [] then None else Some (trim s)
      | _ \<Rightarrow> None)"

definition bounded_command_text :: "js \<Rightarrow> jstr res" where
  "bounded_command_text v =
     (case v of
        JStr s \<Rightarrow> if trim s = [] \<or> utf8_len s > 32 * 1024 \<or> has_nul s then harness_invalid ''command text'' else Inr s
      | _ \<Rightarrow> harness_invalid ''command text'')"

text \<open>\<^verbatim>\<open>typeof value === "string" ? { key: boundedOutput(value) } : {}\<close>.\<close>

definition optional_output :: "js \<Rightarrow> jstr option res" where
  "optional_output v =
     (case v of
        JStr s \<Rightarrow> if utf8_len s > 300 * 1024 then throw ''SourceNerve Harness command output is oversized'' else Inr (Some s)
      | _ \<Rightarrow> Inr None)"

definition optional_boolean :: "js \<Rightarrow> bool option" where
  "optional_boolean v = (case v of JBool b \<Rightarrow> Some b | _ \<Rightarrow> None)"

text \<open>The lists that must be arrays, with the message thrown otherwise.\<close>

definition array_or :: "js \<Rightarrow> string \<Rightarrow> js list res" where
  "array_or v label = (case v of JArr xs \<Rightarrow> Inr xs | _ \<Rightarrow> harness_invalid label)"

definition harness_string_array :: "js \<Rightarrow> string \<Rightarrow> jstr list res" where
  "harness_string_array v label = and_then (array_or v label) (map_res (\<lambda>item. harness_text item 512 label))"

section \<open>Parsers\<close>

definition parse_profile :: "js \<Rightarrow> (jstr \<times> sandbox_mode \<times> policies) res" where
  "parse_profile v =
     (if \<not> is_record v \<or> \<not> is_record (jget v ''profile'') then harness_invalid ''capability profile''
      else let profile = jget v ''profile''; ps = jget profile ''policies'' in
        if \<not> is_record ps then throw ''SourceNerve Harness capability policies are invalid''
        else
          and_then (sandbox_mode_of (jget profile ''sandbox'')) (\<lambda>sandbox.
          and_then (policy_decision_of (jget ps ''exec'') ''exec'') (\<lambda>execPolicy.
          and_then (harness_text (jget profile ''description'') 512 ''profile description'') (\<lambda>description.
          and_then (policy_decision_of (jget ps ''read'') ''read'') (\<lambda>r.
          and_then (policy_decision_of (jget ps ''write'') ''write'') (\<lambda>w.
          and_then (policy_decision_of (jget ps ''git'') ''git'') (\<lambda>g.
          and_then (policy_decision_of (jget ps ''provider'') ''provider'') (\<lambda>p.
          and_then (policy_decision_of (jget ps ''job'') ''job'') (\<lambda>j.
            Inr (description, sandbox,
              \<lparr>pol_read = r, pol_write = w,
               pol_exec = (if sandbox = DangerFullAccess \<and> execPolicy \<noteq> Deny then Ask else execPolicy),
               pol_git = g, pol_provider = p, pol_job = j\<rparr>))))))))))"

definition parse_checkpoint :: "js \<Rightarrow> checkpoint res" where
  "parse_checkpoint v =
     (if \<not> is_record v then harness_invalid ''checkpoint''
      else
        and_then (harness_text (jget v ''id'') 128 ''checkpoint id'') (\<lambda>i.
        and_then (non_negative_integer (jget v ''event_seq'') ''checkpoint sequence'') (\<lambda>q.
        and_then (harness_text (jget v ''state'') 64 ''checkpoint state'') (\<lambda>st.
        and_then (harness_text (jget v ''reason'') 128 ''checkpoint reason'') (\<lambda>r.
        and_then (non_negative_integer (jget v ''created_at'') ''checkpoint created at'') (\<lambda>c.
          Inr \<lparr>cp_id = i, cp_event_seq = q, cp_state = st, cp_reason = r, cp_created_at = c\<rparr>))))))"

definition parse_child :: "js \<Rightarrow> child_run res" where
  "parse_child v =
     (if \<not> is_record v then harness_invalid ''child run item''
      else
        and_then (harness_text (jget v ''id'') 128 ''child run id'') (\<lambda>i.
        and_then (harness_text (jget v ''profile'') 128 ''child run profile'') (\<lambda>p.
        and_then (harness_text (jget v ''status'') 64 ''child run status'') (\<lambda>st.
        and_then (harness_text (jget v ''parent_run_id'') 128 ''child parent run id'') (\<lambda>r.
        and_then (non_negative_integer (jget v ''started_at'') ''child started at'') (\<lambda>b.
        and_then (non_negative_integer (jget v ''updated_at'') ''child updated at'') (\<lambda>u.
          Inr \<lparr>ch_id = i, ch_profile = p, ch_status = st, ch_parent_run_id = r, ch_started_at = b, ch_updated_at = u,
               ch_completed_at = optional_non_negative_integer (jget v ''completed_at'')\<rparr>)))))))"

definition parse_children :: "js \<Rightarrow> child_run list res" where
  "parse_children v = and_then (array_or v ''child run list'') (map_res parse_child)"

definition parse_proof_candidate :: "js \<Rightarrow> proof_candidate res" where
  "parse_proof_candidate v =
     (if \<not> is_record v then harness_invalid ''proof candidate''
      else
        and_then (proof_type_of (jget v ''proof_type'')) (\<lambda>t.
        and_then (harness_text (jget v ''source'') 512 ''proof candidate source'') (\<lambda>s.
        and_then (harness_text (jget v ''command'') 1024 ''proof candidate command'') (\<lambda>c.
        and_then (harness_text (jget v ''reason'') 1024 ''proof candidate reason'') (\<lambda>r.
          Inr \<lparr>pc_proof_type = t, pc_source = s, pc_cwd = optional_bounded_text (jget v ''cwd'') 512, pc_command = c, pc_reason = r\<rparr>)))))"

definition parse_repository_context :: "js \<Rightarrow> repository_context res" where
  "parse_repository_context v =
     and_then (if is_record v then array_or (jget v ''proof_candidates'') ''repository context'' else harness_invalid ''repository context'') (\<lambda>cs.
     and_then (harness_string_array (jget v ''entrypoints'') ''repository context entrypoints'') (\<lambda>e.
     and_then (harness_string_array (jget v ''guidance'') ''repository context guidance'') (\<lambda>g.
     and_then (harness_string_array (jget v ''active_plans'') ''repository context active plans'') (\<lambda>a.
     and_then (harness_string_array (jget v ''validation_owners'') ''repository context validation owners'') (\<lambda>o'.
     and_then (map_res parse_proof_candidate cs) (\<lambda>ps.
       Inr \<lparr>rc_entrypoints = e, rc_guidance = g, rc_active_plans = a, rc_validation_owners = o', rc_proof_candidates = ps,
            rc_truncated = (jget v ''truncated'' = JBool True)\<rparr>))))))"

definition parse_hint :: "js \<Rightarrow> harness_hint res" where
  "parse_hint v =
     (if \<not> is_record v then harness_invalid ''learning hint''
      else
        and_then (harness_text (jget v ''tool'') 128 ''learning hint tool'') (\<lambda>t.
        and_then (harness_text (jget v ''error_category'') 64 ''learning hint error category'') (\<lambda>e.
        and_then (non_negative_integer (jget v ''failures'') ''learning hint failures'') (\<lambda>f.
        and_then (non_negative_integer (jget v ''recoveries'') ''learning hint recoveries'') (\<lambda>r.
        and_then (non_negative_integer (jget v ''confirmations'') ''learning hint confirmations'') (\<lambda>c.
        and_then (harness_text (jget v ''suggestion'') 512 ''learning hint suggestion'') (\<lambda>s.
          Inr \<lparr>lh_tool = t, lh_error_category = e, lh_failures = f, lh_recoveries = r, lh_confirmations = c,
               lh_state = (if jget v ''state'' = jtext ''fresh-run-validated'' then FreshRunValidated else Candidate),
               lh_suggestion = s\<rparr>)))))))"

definition parse_closed_loop :: "js \<Rightarrow> closed_loop res" where
  "parse_closed_loop v =
     and_then (if is_record v then array_or (jget v ''learning_hints'') ''closed loop'' else harness_invalid ''closed loop'') (\<lambda>hs.
     and_then (literal [(''context'', PhaseContext), (''execute'', PhaseExecute), (''verify'', PhaseVerify),
         (''recover'', PhaseRecover), (''learn'', PhaseLearn)] (jget v ''phase'') ''closed-loop phase'') (\<lambda>ph.
     and_then (harness_work_shape (jget v ''work_shape'')) (\<lambda>ws.
     and_then (if is_nullish (jget v ''selected_proof_type'') then Inr None
         else and_then (proof_type_of (jget v ''selected_proof_type'')) (\<lambda>t. Inr (Some t))) (\<lambda>spt.
     and_then (array_or (jget v ''satisfied_proofs'') ''satisfied proof list'') (\<lambda>sp.
     and_then (map_res proof_type_of sp) (\<lambda>proofs.
     and_then (literal [(''idle'', VerIdle), (''pending'', VerPending), (''passed'', VerPassed), (''failed'', VerFailed)]
         (jget v ''verification_status'') ''verification status'') (\<lambda>vs.
     and_then (literal [(''idle'', RecIdle), (''needed'', RecNeeded), (''in-progress'', RecInProgress), (''recovered'', RecRecovered)]
         (jget v ''recovery_status'') ''closed-loop recovery status'') (\<lambda>rs.
     and_then (non_negative_integer (jget v ''context_reads'') ''context reads'') (\<lambda>cr.
     and_then (non_negative_integer (jget v ''executions'') ''closed-loop executions'') (\<lambda>ex.
     and_then (non_negative_integer (jget v ''failure_count'') ''closed-loop failures'') (\<lambda>fc.
     and_then (non_negative_integer (jget v ''learning_count'') ''closed-loop learnings'') (\<lambda>lc.
     and_then (map_res parse_hint hs) (\<lambda>hints.
       Inr \<lparr>cl_phase = ph, cl_work_shape = ws, cl_work_scope = optional_bounded_text (jget v ''work_scope'') 512,
            cl_context_reads = cr, cl_executions = ex, cl_verification_required = (jget v ''verification_required'' = JBool True),
            cl_verification_status = vs, cl_recovery_status = rs, cl_selected_proof_type = spt,
            cl_selected_proof_source = optional_bounded_text (jget v ''selected_proof_source'') 512,
            cl_selected_proof_command = optional_bounded_text (jget v ''selected_proof_command'') 1024,
            cl_satisfied_proofs = proofs, cl_failure_count = fc, cl_learning_count = lc,
            cl_last_failure_tool = optional_bounded_text (jget v ''last_failure_tool'') 128,
            cl_last_failure_category = optional_bounded_text (jget v ''last_failure_category'') 64,
            cl_learning_hints = hints\<rparr>)))))))))))))"

definition parse_harness_run_snapshot :: "js \<Rightarrow> run_view res" where
  "parse_harness_run_snapshot v =
     (let run = jget v ''run''; freshness = jget v ''freshness''; recovery = jget v ''recovery'' in
        and_then (if \<not> is_record v \<or> \<not> is_record run \<or> \<not> is_record freshness \<or> \<not> is_record recovery
              \<or> \<not> is_record (jget v ''closed_loop'') \<or> \<not> is_record (jget v ''repository_context'')
            then harness_invalid ''run response'' else Inr ()) (\<lambda>_.
        and_then (parse_closed_loop (jget v ''closed_loop'')) (\<lambda>closedLoop.
        and_then (parse_repository_context (jget v ''repository_context'')) (\<lambda>repositoryContext.
        and_then (parse_profile (jget run ''capability_snapshot'')) (\<lambda>(description, sandbox, policies).
        and_then (if is_nullish (jget recovery ''checkpoint'') then Inr None
            else and_then (parse_checkpoint (jget recovery ''checkpoint'')) (\<lambda>c. Inr (Some c))) (\<lambda>checkpoint.
        and_then (if is_nullish (jget v ''children'') then Inr [] else parse_children (jget v ''children'')) (\<lambda>children.
        and_then (harness_text (jget run ''id'') 128 ''run id'') (\<lambda>i.
        and_then (harness_text (jget run ''workspace'') 128 ''workspace'') (\<lambda>w.
        and_then (harness_text (jget run ''profile'') 128 ''profile'') (\<lambda>profile.
        and_then (harness_text (jget run ''status'') 64 ''run status'') (\<lambda>status.
        and_then (harness_text (jget freshness ''state'') 64 ''freshness state'') (\<lambda>fs.
        and_then (harness_text (jget recovery ''state'') 64 ''recovery state'') (\<lambda>rs.
        and_then (harness_text (jget recovery ''reason'') 128 ''recovery reason'') (\<lambda>rr.
        and_then (non_negative_integer (jget recovery ''pending_approvals'') ''pending approvals'') (\<lambda>pa.
        and_then (non_negative_integer (jget recovery ''active_jobs'') ''active jobs'') (\<lambda>aj.
        and_then (non_negative_integer (jget recovery ''uncertain_mutations'') ''uncertain mutations'') (\<lambda>um.
        and_then (non_negative_integer (jget recovery ''retryable_read_executions'') ''retryable reads'') (\<lambda>rre.
        and_then (non_negative_integer (jget recovery ''retryable_pre_dispatch_executions'') ''retryable pre-dispatch'') (\<lambda>rpd.
        and_then (non_negative_integer (jget recovery ''blocked_pre_dispatch_executions'') ''blocked pre-dispatch'') (\<lambda>bpd.
        and_then (non_negative_integer (jget run ''started_at'') ''started at'') (\<lambda>sa.
        and_then (non_negative_integer (jget run ''updated_at'') ''updated at'') (\<lambda>ua.
          Inr \<lparr>rv_id = i,
            rv_actor = (case jget run ''principal_id'' of
                JStr p \<Rightarrow> if starts_with (lit ''oauth:'') p then ExternalAgent else Operator | _ \<Rightarrow> Operator),
            rv_workspace = w, rv_profile = profile, rv_profile_description = description,
            rv_origin = (if jget run ''origin'' = jtext ''automatic'' then Automatic else Manual),
            rv_sandbox = sandbox, rv_policies = policies, rv_status = status,
            rv_parent_run_id = optional_bounded_text (jget run ''parent_run_id'') 128,
            rv_children = children, rv_children_truncated = (jget v ''children_truncated'' = JBool True),
            rv_freshness_state = fs, rv_freshness_reason = optional_bounded_text (jget freshness ''reason'') 256,
            rv_recovery_state = rs, rv_recovery_reason = rr, rv_closed_loop = closedLoop,
            rv_repository_context = repositoryContext, rv_pending_approvals = pa, rv_active_jobs = aj,
            rv_uncertain_mutations = um, rv_retryable_reads = rre, rv_retryable_pre_dispatch = rpd,
            rv_blocked_pre_dispatch = bpd, rv_checkpoint = checkpoint, rv_started_at = sa, rv_updated_at = ua,
            rv_completed_at = optional_non_negative_integer (jget run ''completed_at'')\<rparr>))))))))))))))))))))))"

definition parse_harness_run_begin :: "js \<Rightarrow> run_view res" where
  "parse_harness_run_begin v =
     (if \<not> is_record v \<or> \<not> is_record (jget v ''snapshot'') then harness_invalid ''begin response''
      else parse_harness_run_snapshot (jget v ''snapshot''))"

definition parse_harness_run_list :: "js \<Rightarrow> run_view list res" where
  "parse_harness_run_list v =
     and_then (if is_record v then array_or (jget v ''runs'') ''run list response'' else harness_invalid ''run list response'')
       (map_res parse_harness_run_snapshot)"

definition parse_harness_context_route :: "js \<Rightarrow> jstr option \<Rightarrow> context_route_view res" where
  "parse_harness_context_route v fallback =
     and_then (if is_record v then array_or (jget v ''surfaces'') ''context route response'' else harness_invalid ''context route response'') (\<lambda>ss.
     and_then (harness_text (jget v ''workspace'') 128 ''context route workspace'') (\<lambda>w.
     and_then (boolean_value (jget v ''retrieve'') ''context route retrieve'') (\<lambda>b.
     and_then (context_route_of (jget v ''route'')) (\<lambda>r.
     and_then (context_search_query (jget v ''search_query'') fallback) (\<lambda>q.
     and_then (harness_text (jget v ''reason'') 512 ''context route reason'') (\<lambda>rs.
     and_then (map_res context_surface ss) (\<lambda>surfaces.
       Inr \<lparr>cr_workspace = w, cr_retrieve = b, cr_route = r, cr_search_query = q, cr_reason = rs, cr_surfaces = surfaces\<rparr>)))))))"

definition parse_harness_command :: "js \<Rightarrow> command_view res" where
  "parse_harness_command v =
     (if \<not> is_record v then harness_invalid ''command response''
      else if jget v ''status'' \<noteq> jtext ''completed'' then harness_invalid ''command status''
      else
        and_then (if is_nullish (jget v ''sandbox'') then Inr None
            else and_then (sandbox_mode_of (jget v ''sandbox'')) (\<lambda>m. Inr (Some m))) (\<lambda>sandbox.
        and_then (if is_nullish (jget v ''sandbox_enforcement'') then Inr None
            else and_then (literal [(''full'', EnfFull), (''partial'', EnfPartial), (''unavailable'', EnfUnavailable)]
              (jget v ''sandbox_enforcement'') ''command sandbox enforcement'') (\<lambda>m. Inr (Some m))) (\<lambda>enf.
        and_then (harness_text (jget v ''workspace'') 128 ''command workspace'') (\<lambda>w.
        and_then (bounded_command_text (jget v ''command'')) (\<lambda>c.
        and_then (harness_text (jget v ''request_id'') 128 ''command request id'') (\<lambda>r.
        and_then (optional_output (jget v ''stdout'')) (\<lambda>out.
        and_then (optional_output (jget v ''stderr'')) (\<lambda>err.
          Inr \<lparr>co_workspace = w, co_command = c, co_request_id = r, co_sandbox = sandbox, co_enforcement = enf,
               co_success = optional_boolean (jget v ''success''), co_exit_code = optional_integer (jget v ''exit_code''),
               co_timed_out = optional_boolean (jget v ''timed_out''), co_stdout = out, co_stderr = err,
               co_truncated = optional_boolean (jget v ''truncated'')\<rparr>))))))))"

definition parse_harness_job :: "js \<Rightarrow> job_view res" where
  "parse_harness_job v =
     (if \<not> is_record v then harness_invalid ''job item''
      else
        and_then (harness_text (jget v ''id'') 128 ''job id'') (\<lambda>i.
        and_then (harness_text (jget v ''run_id'') 128 ''job run id'') (\<lambda>r.
        and_then (harness_text (jget v ''workspace'') 128 ''job workspace'') (\<lambda>w.
        and_then (harness_text (jget v ''kind'') 64 ''job kind'') (\<lambda>k.
        and_then (harness_text (jget v ''status'') 64 ''job status'') (\<lambda>st.
        and_then (non_negative_integer (jget v ''created_at'') ''job created at'') (\<lambda>c.
        and_then (non_negative_integer (jget v ''updated_at'') ''job updated at'') (\<lambda>u.
          Inr \<lparr>jb_id = i, jb_run_id = r, jb_workspace = w, jb_kind = k,
               jb_task_id = optional_bounded_text (jget v ''task_id'') 128, jb_status = st, jb_created_at = c, jb_updated_at = u\<rparr>))))))))"

definition parse_harness_job_list :: "js \<Rightarrow> job_view list res" where
  "parse_harness_job_list v =
     and_then (if is_record v then array_or (jget v ''jobs'') ''job list response'' else harness_invalid ''job list response'')
       (map_res parse_harness_job)"

definition parse_harness_job_call :: "js \<Rightarrow> job_view res" where
  "parse_harness_job_call v = (if is_record v then parse_harness_job (jget v ''job'') else harness_invalid ''job response'')"

section \<open>Events\<close>

definition SAFE_EVENT_KEYS :: "string list" where
  "SAFE_EVENT_KEYS =
     [''tool'', ''tool_name'', ''execution_id'', ''duration_ms'', ''capability_id'', ''job_id'', ''approval_id'',
      ''parent_run_id'', ''kind'', ''state'', ''route'', ''retrieve'', ''query_bytes'', ''reason'', ''result_category'',
      ''error_category'', ''verification_tool'', ''verification'', ''recovered'', ''fresh_confirmations'', ''work_shape'',
      ''work_scope'', ''closed_loop_role'', ''proof_type'', ''proof_source'', ''proof_status'', ''selected_proof_type'',
      ''selected_proof_source'', ''sandbox'', ''enforcement'']"

text \<open>\<^verbatim>\<open>" \<cdot> "\<close>, the separator of the details.\<close>

definition dot :: jstr where
  "dot = [32, 183, 32]"

text \<open>The detail that one key contributes, if its value may be shown.\<close>

definition event_detail :: "string \<Rightarrow> js \<Rightarrow> jstr option" where
  "event_detail key raw =
     map_option (\<lambda>t. lit key @ lit ''='' @ t)
       (case raw of
          JStr s \<Rightarrow> if is_bounded_safe_text 128 s then Some s else None
        | JNum n \<Rightarrow> map_option show_int (safe_int raw)
        | JBool b \<Rightarrow> Some (lit (if b then ''true'' else ''false''))
        | _ \<Rightarrow> None)"

definition event_details :: "js \<Rightarrow> jstr list" where
  "event_details payload =
     concat (map (\<lambda>key. case event_detail key (jget payload key) of None \<Rightarrow> [] | Some d \<Rightarrow> [d]) SAFE_EVENT_KEYS)"

definition summarize_event :: "jstr \<Rightarrow> js \<Rightarrow> jstr" where
  "summarize_event eventType payload =
     (if \<not> is_record payload then eventType
      else let suffix = join dot (event_details payload)
           in if suffix = [] then eventType else eventType @ dot @ suffix)"

definition parse_harness_event :: "js \<Rightarrow> event_view res" where
  "parse_harness_event v =
     (if \<not> is_record v then harness_invalid ''event item''
      else
        and_then (harness_text (jget v ''event_type'') 64 ''event type'') (\<lambda>eventType.
        and_then (non_negative_integer (jget v ''seq'') ''event sequence'') (\<lambda>q.
        and_then (Inr (summarize_event eventType (jget v ''payload''))) (\<lambda>summary.
        and_then (non_negative_integer (jget v ''created_at'') ''event created at'') (\<lambda>c.
          Inr \<lparr>en_seq = q, en_event_type = eventType, en_summary = summary, en_created_at = c,
               en_display_input = optional_multiline_text (jget (jget v ''payload'') ''display_input'') (8 * 1024),
               en_display_output = optional_multiline_text (jget (jget v ''payload'') ''display_output'') (16 * 1024)\<rparr>)))))"

definition parse_harness_events :: "js \<Rightarrow> event_view list res" where
  "parse_harness_events v =
     and_then (if is_record v then array_or (jget v ''events'') ''event response'' else harness_invalid ''event response'')
       (map_res parse_harness_event)"

section \<open>Approvals\<close>

datatype approval_status = ApprovalPending | ApprovalAllowed | ApprovalDenied | ApprovalConsumed | ApprovalExpired

record approval_view =
  ap_id :: jstr
  ap_run_id :: jstr
  ap_workspace :: jstr
  ap_tool :: jstr
  ap_capability_id :: jstr
  ap_argument_sha256 :: jstr
  ap_head_sha :: jstr
  ap_status :: approval_status
  ap_requested_at :: int
  ap_expires_at :: int
  ap_resolved_at :: "int option"
  ap_consumed_at :: "int option"
  ap_external_request_id :: "jstr option"

definition approval_invalid :: "string \<Rightarrow> 'a res" where
  "approval_invalid label = throw (''Harness approval '' @ label @ '' is invalid'')"

definition approval_text :: "js \<Rightarrow> nat \<Rightarrow> string \<Rightarrow> jstr res" where
  "approval_text v hi label =
     (case v of JStr s \<Rightarrow> if is_bounded_safe_text hi s then Inr s else approval_invalid label | _ \<Rightarrow> approval_invalid label)"

text \<open>\<^verbatim>\<open>/^[0-9a-f]{n}$/i\<close>, in lower case.\<close>

definition approval_hex :: "nat \<Rightarrow> js \<Rightarrow> string \<Rightarrow> jstr res" where
  "approval_hex n v label =
     (case v of JStr s \<Rightarrow> if length s = n \<and> list_all is_hex s then Inr (map to_lower s) else approval_invalid label
      | _ \<Rightarrow> approval_invalid label)"

definition approval_integer :: "js \<Rightarrow> string \<Rightarrow> int res" where
  "approval_integer v label =
     (case safe_int v of Some i \<Rightarrow> if i < 0 then approval_invalid label else Inr i | None \<Rightarrow> approval_invalid label)"

definition approval_optional :: "(js \<Rightarrow> 'a res) \<Rightarrow> js \<Rightarrow> 'a option res" where
  "approval_optional f v = (if is_nullish v then Inr None else and_then (f v) (\<lambda>x. Inr (Some x)))"

definition as_record :: "js \<Rightarrow> string \<Rightarrow> js res" where
  "as_record v label = (if is_record v then Inr v else throw (label @ '' is invalid''))"

definition parse_approval_status :: "js \<Rightarrow> approval_status res" where
  "parse_approval_status v =
     (case v of
        JStr s \<Rightarrow> (case named [(''pending'', ApprovalPending), (''allowed'', ApprovalAllowed), (''denied'', ApprovalDenied),
              (''consumed'', ApprovalConsumed), (''expired'', ApprovalExpired)] s of
            Some x \<Rightarrow> Inr x | None \<Rightarrow> approval_invalid ''status'')
      | _ \<Rightarrow> approval_invalid ''status'')"

definition parse_harness_approval :: "js \<Rightarrow> approval_view res" where
  "parse_harness_approval v =
     and_then (as_record v ''Harness approval'') (\<lambda>r.
     and_then (parse_approval_status (jget r ''status'')) (\<lambda>st.
     and_then (approval_text (jget r ''id'') 128 ''approval id'') (\<lambda>i.
     and_then (approval_text (jget r ''run_id'') 128 ''run id'') (\<lambda>run.
     and_then (approval_text (jget r ''workspace'') 128 ''workspace'') (\<lambda>w.
     and_then (approval_text (jget r ''tool'') 160 ''tool'') (\<lambda>t.
     and_then (approval_text (jget r ''capability_id'') 256 ''capability id'') (\<lambda>c.
     and_then (approval_hex 64 (jget r ''argument_sha256'') ''argument SHA-256'') (\<lambda>a.
     and_then (approval_hex 40 (jget r ''head_sha'') ''HEAD SHA'') (\<lambda>h.
     and_then (approval_integer (jget r ''requested_at'') ''requested_at'') (\<lambda>ra.
     and_then (approval_integer (jget r ''expires_at'') ''expires_at'') (\<lambda>ea.
     and_then (approval_optional (\<lambda>f. approval_integer f ''resolved_at'') (jget r ''resolved_at'')) (\<lambda>rs.
     and_then (approval_optional (\<lambda>f. approval_integer f ''consumed_at'') (jget r ''consumed_at'')) (\<lambda>cs.
     and_then (approval_optional (\<lambda>f. approval_text f 128 ''external request id'') (jget r ''external_request_id'')) (\<lambda>x.
       Inr \<lparr>ap_id = i, ap_run_id = run, ap_workspace = w, ap_tool = t, ap_capability_id = c, ap_argument_sha256 = a,
            ap_head_sha = h, ap_status = st, ap_requested_at = ra, ap_expires_at = ea, ap_resolved_at = rs,
            ap_consumed_at = cs, ap_external_request_id = x\<rparr>))))))))))))))"

definition parse_harness_approval_list :: "js \<Rightarrow> approval_view list res" where
  "parse_harness_approval_list v =
     and_then (as_record v ''Harness approval list response'') (\<lambda>r.
       case jget r ''approvals'' of
         JArr xs \<Rightarrow> map_res parse_harness_approval xs
       | _ \<Rightarrow> throw ''Harness approval list is invalid'')"

definition parse_harness_approval_respond :: "js \<Rightarrow> (approval_view \<times> bool) res" where
  "parse_harness_approval_respond v =
     and_then (as_record v ''Harness approval response'') (\<lambda>r.
       case jget r ''replayed'' of
         JBool b \<Rightarrow> and_then (parse_harness_approval (jget r ''approval'')) (\<lambda>a. Inr (a, b))
       | _ \<Rightarrow> throw ''Harness approval replay flag is invalid'')"

section \<open>Properties\<close>

text \<open>The payload without the keys outside a list.\<close>

definition only_keys :: "string list \<Rightarrow> js \<Rightarrow> js" where
  "only_keys ks v = (case v of JObj kvs \<Rightarrow> JObj (filter (\<lambda>kv. fst kv \<in> set (map lit ks)) kvs) | _ \<Rightarrow> v)"

lemma map_of_filter_keys: "P k \<Longrightarrow> map_of (filter (\<lambda>kv. P (fst kv)) kvs) k = map_of kvs k"
  by (induction kvs) auto

lemma jget_only_keys: "k \<in> set ks \<Longrightarrow> jget (only_keys ks v) k = jget v k"
  by (cases v) (simp_all add: jget_def only_keys_def map_of_filter_keys [where P = "\<lambda>k. k \<in> set (map lit ks)"] del: set_map)

text \<open>
  The summary of an event shows nothing of the payload but the thirty keys that are meant to be
  shown: any other entry, whatever it is called and whatever it holds, can be removed from the
  payload without changing the summary.
\<close>

theorem event_summary_safe_keys: "summarize_event t (only_keys SAFE_EVENT_KEYS p) = summarize_event t p"
proof -
  have "event_details (only_keys SAFE_EVENT_KEYS p) = event_details p"
    unfolding event_details_def by (intro arg_cong [where f = concat] map_cong) (simp_all add: jget_only_keys)
  moreover have "is_record (only_keys SAFE_EVENT_KEYS p) = is_record p"
    by (cases p) (simp_all add: only_keys_def is_record_def)
  ultimately show ?thesis by (simp add: summarize_event_def)
qed

definition safe_text :: "nat \<Rightarrow> jstr \<Rightarrow> bool" where
  "safe_text hi s \<longleftrightarrow> 1 \<le> length s \<and> length s \<le> hi \<and> \<not> has_control s"

lemma harness_text_Inr: "harness_text v hi l = Inr s \<longleftrightarrow> v = JStr s \<and> safe_text hi s"
  by (auto simp: harness_text_def harness_invalid_def is_bounded_safe_text_def safe_text_def length_within_def
      split: js.splits if_splits)

lemma non_negative_integer_Inr: "non_negative_integer v l = Inr i \<Longrightarrow> 0 \<le> i \<and> i \<le> max_safe"
  by (auto simp: non_negative_integer_def harness_invalid_def safe_int_Some split: option.splits if_splits)

lemma parse_profile_exec:
  "parse_profile v = Inr (d, sandbox, ps) \<Longrightarrow> sandbox = DangerFullAccess \<Longrightarrow> pol_exec ps \<noteq> Allow"
  by (auto simp: parse_profile_def Let_def harness_invalid_def split: if_splits)

lemma parse_run_id: "parse_harness_run_snapshot v = Inr r \<Longrightarrow> safe_text 128 (rv_id r)"
  unfolding parse_harness_run_snapshot_def Let_def
  by (elim and_thenE) (auto simp: harness_text_Inr elim!: and_thenE)

text \<open>
  A run that is accepted from the core is well formed, and never shown as more permissive than it
  is meant to be: its ids and states are short texts without control characters, its counters
  and times are non-negative safe integers, and when its sandbox is full access the policy for
  executing commands is to ask or to deny, never to allow.
\<close>

theorem parse_run_sound:
  assumes "parse_harness_run_snapshot v = Inr r"
  shows "safe_text 128 (rv_id r) \<and> safe_text 128 (rv_workspace r) \<and> safe_text 64 (rv_status r)
    \<and> safe_text 64 (rv_freshness_state r)
    \<and> (\<forall>n\<in>{rv_pending_approvals r, rv_active_jobs r, rv_uncertain_mutations r, rv_started_at r, rv_updated_at r}. 0 \<le> n \<and> n \<le> max_safe)
    \<and> (rv_sandbox r = DangerFullAccess \<longrightarrow> pol_exec (rv_policies r) \<noteq> Allow)"
  using assms unfolding parse_harness_run_snapshot_def Let_def
  by (elim and_thenE) (auto simp: harness_text_Inr elim!: and_thenE dest!: non_negative_integer_Inr dest: parse_profile_exec)

definition demo_zero :: "string \<Rightarrow> jstr \<times> js" where
  "demo_zero k = (lit k, jint 0)"

definition demo_closed_loop_js :: js where
  "demo_closed_loop_js = JObj ([(lit ''learning_hints'', JArr []), (lit ''phase'', jtext ''execute''), (lit ''work_shape'', jtext ''bounded''),
     (lit ''satisfied_proofs'', JArr []), (lit ''verification_status'', jtext ''idle''), (lit ''recovery_status'', jtext ''idle'')]
     @ map demo_zero [''context_reads'', ''executions'', ''failure_count'', ''learning_count''])"

definition demo_context_js :: js where
  "demo_context_js = JObj (map (\<lambda>k. (lit k, JArr [])) [''proof_candidates'', ''entrypoints'', ''guidance'', ''active_plans'', ''validation_owners''])"

definition demo_profile_js :: js where
  "demo_profile_js = JObj [(lit ''profile'', JObj [(lit ''sandbox'', jtext ''danger-full-access''), (lit ''description'', jtext ''d''),
     (lit ''policies'', JObj (map (\<lambda>k. (lit k, jtext ''allow'')) [''read'', ''write'', ''exec'', ''git'', ''provider'', ''job'']))])]"

definition demo_run_js :: js where
  "demo_run_js = JObj
     [(lit ''run'', JObj [(lit ''id'', jtext ''r''), (lit ''workspace'', jtext ''w''), (lit ''profile'', jtext ''p''), (lit ''status'', jtext ''running''),
         (lit ''capability_snapshot'', demo_profile_js), demo_zero ''started_at'', demo_zero ''updated_at'']),
      (lit ''freshness'', JObj [(lit ''state'', jtext ''current'')]),
      (lit ''recovery'', JObj ([(lit ''state'', jtext ''s''), (lit ''reason'', jtext ''x'')]
         @ map demo_zero [''pending_approvals'', ''active_jobs'', ''uncertain_mutations'', ''retryable_read_executions'',
             ''retryable_pre_dispatch_executions'', ''blocked_pre_dispatch_executions''])),
      (lit ''closed_loop'', demo_closed_loop_js), (lit ''repository_context'', demo_context_js)]"

lemmas harness_eval = literal_def named_def array_or_def harness_string_array_def non_negative_integer_def safe_int_def max_safe_def
  demo_zero_def jget_def is_nullish_def

lemma demo_closed_loop: "\<exists>c. parse_closed_loop demo_closed_loop_js = Inr c"
  by (simp add: parse_closed_loop_def demo_closed_loop_js_def harness_work_shape_def harness_eval)

lemma demo_context: "\<exists>c. parse_repository_context demo_context_js = Inr c"
  by (simp add: parse_repository_context_def demo_context_js_def harness_eval)

lemma harness_text_lit: "1 \<le> length s \<Longrightarrow> length s \<le> hi \<Longrightarrow> \<not> has_control (lit s) \<Longrightarrow> harness_text (jtext s) hi l = Inr (lit s)"
  by (simp add: harness_text_def is_bounded_safe_text_def length_within_def)

lemma demo_profile: "\<exists>ps. parse_profile demo_profile_js = Inr (lit ''d'', DangerFullAccess, ps)"
  by (simp add: parse_profile_def demo_profile_js_def sandbox_mode_of_def sandbox_modes_def policy_decision_of_def harness_eval Let_def
      harness_text_def is_bounded_safe_text_def length_within_def has_control_def is_control_def lit_def [of "''d''"])

lemma demo_records: "is_record demo_closed_loop_js" "is_record demo_context_js"
  by (simp_all add: demo_closed_loop_js_def demo_context_js_def)

lemma demo_run:
  "\<exists>r. parse_harness_run_snapshot demo_run_js = Inr r \<and> rv_id r = lit ''r'' \<and> rv_workspace r = lit ''w'' \<and> rv_status r = lit ''running''
     \<and> rv_freshness_state r = lit ''current'' \<and> rv_sandbox r = DangerFullAccess"
proof -
  have c: "\<not> has_control (lit t)" if "t \<in> {''r'', ''w'', ''p'', ''running'', ''current'', ''s'', ''x''}" for t
    using that by (auto simp: has_control_def is_control_def lit_def)
  show ?thesis
    using demo_closed_loop demo_context demo_profile
    by (auto simp: demo_records parse_harness_run_snapshot_def demo_run_js_def harness_eval Let_def harness_text_lit c)
qed

theorem parse_run_sound_witness:
  "\<exists>r. parse_harness_run_snapshot demo_run_js = Inr r \<and> rv_sandbox r = DangerFullAccess \<and> pol_exec (rv_policies r) \<noteq> Allow"
proof -
  obtain r where r: "parse_harness_run_snapshot demo_run_js = Inr r" "rv_sandbox r = DangerFullAccess"
    using demo_run by auto
  from parse_run_sound [OF r(1)] r show ?thesis by blast
qed

end
