(* ===== verification/Task_Parser.thy ===== *)
theory Task_Parser
  imports Task_Policy
begin

text \<open>
  The parser of what the core answers about tasks (\<^verbatim>\<open>task-parser.ts\<close>, with the types of
  \<^verbatim>\<open>shared/task-api.ts\<close>): an answer is any JavaScript value, and the parser either throws or
  returns a value of the declared type. Fields are checked in the order in which the code
  evaluates them, so that the model throws the error the code throws.
\<close>

section \<open>Data\<close>

datatype task_status = TaskActive | TaskStale | TaskApplied | TaskCancelled

datatype task_phase =
    Snapshot | Branched | Patched | Reviewed | Committed | Pushed | PrOpen | Merged | Completed

datatype proposal_status = Proposed | ProposalApplied | Rejected

record task_view =
  tv_id :: jstr
  tv_workspace :: jstr
  tv_base_head :: jstr
  tv_status :: task_status
  tv_context_query :: "jstr option"
  tv_stale_reason :: "jstr option"
  tv_created_at :: int
  tv_updated_at :: int

record proposal_view =
  pv_id :: jstr
  pv_task_id :: jstr
  pv_expected_head :: jstr
  pv_patch_sha256 :: jstr
  pv_changed_paths :: "jstr list"
  pv_status :: proposal_status
  pv_changeset_id :: "jstr option"
  pv_created_at :: int
  pv_applied_at :: "int option"

record task_event =
  te_id :: int
  te_event_type :: jstr
  te_metadata :: js
  te_created_at :: int

record lifecycle_view =
  lf_task_id :: jstr
  lf_phase :: task_phase
  lf_branch :: "jstr option"
  lf_reviewed_diff :: "jstr option"
  lf_commit_sha :: "jstr option"
  lf_push_sha :: "jstr option"
  lf_issue_number :: "int option"
  lf_pull_number :: "int option"
  lf_pull_head_sha :: "jstr option"
  lf_merge_sha :: "jstr option"
  lf_default_synced_head :: "jstr option"
  lf_updated_at :: int
  lf_provider :: "jstr option"

record task_snapshot =
  sn_task :: task_view
  sn_proposals :: "proposal_view list"
  sn_events :: "task_event list"
  sn_lifecycle :: lifecycle_view

record apply_result =
  ar_task_id :: jstr
  ar_proposal_id :: jstr
  ar_changeset_id :: jstr
  ar_head :: jstr
  ar_changed_paths :: "jstr list"
  ar_diff :: jstr

record git_review =
  gr_workspace :: jstr
  gr_branch :: jstr
  gr_head :: jstr
  gr_dirty :: bool
  gr_status :: jstr
  gr_diff :: jstr
  gr_diff_sha256 :: jstr

record commit_view =
  cv_workspace :: jstr
  cv_branch :: jstr
  cv_parent_head :: jstr
  cv_commit :: jstr
  cv_clean :: bool
  cv_status :: jstr

record push_view =
  pu_workspace :: jstr
  pu_remote :: jstr
  pu_branch :: jstr
  pu_head :: jstr

section \<open>Field checks\<close>

definition task_invalid :: "string \<Rightarrow> 'a res" where
  "task_invalid message = throw (''SourceNerve task response invalid: '' @ message)"

definition require_record :: "js \<Rightarrow> string \<Rightarrow> js res" where
  "require_record v label = (if is_record v then Inr v else task_invalid (label @ '' is not an object''))"

definition require_array :: "js \<Rightarrow> nat \<Rightarrow> string \<Rightarrow> js list res" where
  "require_array v maxItems label =
     (case v of
        JArr xs \<Rightarrow> if length xs > maxItems then task_invalid (label @ '' is invalid'') else Inr xs
      | _ \<Rightarrow> task_invalid (label @ '' is invalid''))"

definition require_str :: "(jstr \<Rightarrow> bool) \<Rightarrow> js \<Rightarrow> string \<Rightarrow> jstr res" where
  "require_str ok v label =
     (case v of JStr s \<Rightarrow> if ok s then Inr s else task_invalid (label @ '' is invalid'') | _ \<Rightarrow> task_invalid (label @ '' is invalid''))"

definition require_text :: "nat \<Rightarrow> js \<Rightarrow> string \<Rightarrow> jstr res" where
  "require_text maxBytes = require_str (\<lambda>s. 1 \<le> length s \<and> utf8_len s \<le> maxBytes \<and> \<not> has_nul s)"

definition require_text_allow_empty :: "nat \<Rightarrow> js \<Rightarrow> string \<Rightarrow> jstr res" where
  "require_text_allow_empty maxBytes = require_str (\<lambda>s. utf8_len s \<le> maxBytes \<and> \<not> has_nul s)"

definition require_uuid :: "js \<Rightarrow> string \<Rightarrow> jstr res" where
  "require_uuid = require_str (matches_seq uuid_classes)"

definition require_workspace :: "js \<Rightarrow> string \<Rightarrow> jstr res" where
  "require_workspace = require_str id_text"

definition is_commit_sha :: "jstr \<Rightarrow> bool" where
  "is_commit_sha s \<longleftrightarrow> length s = 40 \<and> list_all is_hex s"

definition is_sha256_text :: "jstr \<Rightarrow> bool" where
  "is_sha256_text s \<longleftrightarrow> length s = 64 \<and> list_all is_hex s"

definition require_commit_sha :: "js \<Rightarrow> string \<Rightarrow> jstr res" where
  "require_commit_sha = require_str is_commit_sha"

definition require_sha256 :: "js \<Rightarrow> string \<Rightarrow> jstr res" where
  "require_sha256 = require_str is_sha256_text"

definition require_path :: "js \<Rightarrow> jstr res" where
  "require_path v =
     (case v of
        JStr s \<Rightarrow> if relative_path s then Inr (forward_slashes s) else task_invalid ''repository path is unsafe''
      | _ \<Rightarrow> task_invalid ''repository path is unsafe'')"

definition require_non_negative_integer :: "js \<Rightarrow> string \<Rightarrow> int res" where
  "require_non_negative_integer v label =
     (case safe_int v of
        Some i \<Rightarrow> if i < 0 then task_invalid (label @ '' is invalid'') else Inr i
      | None \<Rightarrow> task_invalid (label @ '' is invalid''))"

definition require_positive_integer :: "js \<Rightarrow> string \<Rightarrow> int res" where
  "require_positive_integer v label = and_then (require_non_negative_integer v label) (\<lambda>i.
     if i < 1 then task_invalid (label @ '' is invalid'') else Inr i)"

text \<open>\<^verbatim>\<open>...(v === null || v === undefined ? {} : { key: f(v) })\<close>.\<close>

definition task_optional :: "(js \<Rightarrow> 'a res) \<Rightarrow> js \<Rightarrow> 'a option res" where
  "task_optional f v = (if is_nullish v then Inr None else and_then (f v) (\<lambda>x. Inr (Some x)))"

definition replay_flag :: "js \<Rightarrow> string \<Rightarrow> bool res" where
  "replay_flag item message = (case jget item ''replayed'' of JBool b \<Rightarrow> Inr b | _ \<Rightarrow> task_invalid message)"

section \<open>Names\<close>

definition task_statuses :: "(string \<times> task_status) list" where
  "task_statuses = [(''active'', TaskActive), (''stale'', TaskStale), (''applied'', TaskApplied), (''cancelled'', TaskCancelled)]"

definition task_phases :: "(string \<times> task_phase) list" where
  "task_phases = [(''snapshot'', Snapshot), (''branched'', Branched), (''patched'', Patched), (''reviewed'', Reviewed),
     (''committed'', Committed), (''pushed'', Pushed), (''pr_open'', PrOpen), (''merged'', Merged), (''completed'', Completed)]"

definition proposal_statuses :: "(string \<times> proposal_status) list" where
  "proposal_statuses = [(''proposed'', Proposed), (''applied'', ProposalApplied), (''rejected'', Rejected)]"

definition require_name :: "(string \<times> 'a) list \<Rightarrow> js \<Rightarrow> string \<Rightarrow> string \<Rightarrow> 'a res" where
  "require_name table v label unknown = and_then (require_text 32 v label) (\<lambda>s.
     case named table s of Some x \<Rightarrow> Inr x | None \<Rightarrow> task_invalid unknown)"

section \<open>Metadata\<close>

definition DROP_EVENT_KEYS :: "string list" where
  "DROP_EVENT_KEYS = [''patch'', ''body'', ''token'', ''secret'', ''credential'', ''authorization'']"

text \<open>
  \<^verbatim>\<open>key.toLowerCase()\<close> as far as it matters for these words: besides the ASCII capitals, the
  Kelvin sign is the only character whose lower case is one of their letters.
\<close>

definition key_lower :: "nat \<Rightarrow> nat" where
  "key_lower c = (if c = 8490 then 107 else to_lower c)"

text \<open>The assignment \<^verbatim>\<open>result["__proto__"] = v\<close> makes no property of its own.\<close>

definition dropped_key :: "jstr \<Rightarrow> bool" where
  "dropped_key k \<longleftrightarrow> map key_lower k \<in> set (map lit DROP_EVENT_KEYS) \<or> length k > 128 \<or> k = lit ''__proto__''"

lemma entry_size: "(k, v) \<in> set (take n kvs) \<Longrightarrow> size v \<le> size_list (size_prod (\<lambda>x. 0) size) kvs"
  by (rule size_list_estimation' [where x = "(k, v)"]) (auto dest: in_set_takeD)

function safe_metadata_value :: "nat \<Rightarrow> js \<Rightarrow> js option" where
  "safe_metadata_value depth (JStr s) = Some (JStr (if length s \<le> 4096 then s else take 4096 s @ [8230]))"
| "safe_metadata_value depth (JNum n) = (case n of Fin r \<Rightarrow> Some (JNum n) | _ \<Rightarrow> None)"
| "safe_metadata_value depth (JBool b) = Some (JBool b)"
| "safe_metadata_value depth JNull = Some JNull"
| "safe_metadata_value depth (JArr xs) =
     (if length xs \<le> 64
      then Some (JArr (concat (map (\<lambda>x. case safe_metadata_value depth x of None \<Rightarrow> [] | Some y \<Rightarrow> [y]) xs)))
      else None)"
| "safe_metadata_value depth (JObj kvs) =
     (if depth \<le> 3
      then Some (JObj (concat (map (\<lambda>kv. if dropped_key (fst kv) then []
             else (case safe_metadata_value (Suc depth) (snd kv) of None \<Rightarrow> [] | Some y \<Rightarrow> [(fst kv, y)])) (take 64 kvs))))
      else None)"
| "safe_metadata_value depth JUndef = None"
  by pat_completeness auto
termination
  by (relation "measure (\<lambda>(d, v). size v)") (auto simp: less_Suc_eq_le intro: size_list_estimation' entry_size)

definition sanitize_metadata :: "js \<Rightarrow> js" where
  "sanitize_metadata v = (if is_record v then (case safe_metadata_value 0 v of Some r \<Rightarrow> r | None \<Rightarrow> JObj []) else JObj [])"

section \<open>Parsers\<close>

definition parse_task_view :: "js \<Rightarrow> task_view res" where
  "parse_task_view v =
     and_then (require_record v ''task'') (\<lambda>item.
     and_then (require_name task_statuses (jget item ''status'') ''task status'' ''task status is unknown'') (\<lambda>st.
     and_then (require_uuid (jget item ''id'') ''task id'') (\<lambda>i.
     and_then (require_workspace (jget item ''workspace'') ''task workspace'') (\<lambda>w.
     and_then (require_commit_sha (jget item ''base_head'') ''task base head'') (\<lambda>h.
     and_then (task_optional (\<lambda>f. require_text (16 * 1024) f ''task context query'') (jget item ''context_query'')) (\<lambda>q.
     and_then (task_optional (\<lambda>f. require_text 512 f ''task stale reason'') (jget item ''stale_reason'')) (\<lambda>sr.
     and_then (require_non_negative_integer (jget item ''created_at'') ''task created_at'') (\<lambda>c.
     and_then (require_non_negative_integer (jget item ''updated_at'') ''task updated_at'') (\<lambda>u.
       Inr \<lparr>tv_id = i, tv_workspace = w, tv_base_head = h, tv_status = st, tv_context_query = q,
            tv_stale_reason = sr, tv_created_at = c, tv_updated_at = u\<rparr>)))))))))"

definition parse_proposal :: "js \<Rightarrow> proposal_view res" where
  "parse_proposal v =
     and_then (require_record v ''task proposal'') (\<lambda>item.
     and_then (require_name proposal_statuses (jget item ''status'') ''proposal status'' ''task proposal status is unknown'') (\<lambda>st.
     and_then (require_uuid (jget item ''id'') ''proposal id'') (\<lambda>i.
     and_then (require_uuid (jget item ''task_id'') ''proposal task id'') (\<lambda>t.
     and_then (require_commit_sha (jget item ''expected_head'') ''proposal expected head'') (\<lambda>h.
     and_then (require_sha256 (jget item ''patch_sha256'') ''proposal patch hash'') (\<lambda>ph.
     and_then (require_array (jget item ''changed_paths'') 128 ''proposal changed paths'') (\<lambda>xs.
     and_then (map_res require_path xs) (\<lambda>ps.
     and_then (task_optional (\<lambda>f. require_uuid f ''proposal changeset id'') (jget item ''changeset_id'')) (\<lambda>cs.
     and_then (require_non_negative_integer (jget item ''created_at'') ''proposal created_at'') (\<lambda>c.
     and_then (task_optional (\<lambda>f. require_non_negative_integer f ''proposal applied_at'') (jget item ''applied_at'')) (\<lambda>a.
       Inr \<lparr>pv_id = i, pv_task_id = t, pv_expected_head = h, pv_patch_sha256 = ph, pv_changed_paths = ps, pv_status = st,
            pv_changeset_id = cs, pv_created_at = c, pv_applied_at = a\<rparr>)))))))))))"

definition parse_event :: "js \<Rightarrow> task_event res" where
  "parse_event v =
     and_then (require_record v ''task event'') (\<lambda>item.
     and_then (require_non_negative_integer (jget item ''id'') ''task event id'') (\<lambda>i.
     and_then (require_text 128 (jget item ''event_type'') ''task event type'') (\<lambda>t.
     and_then (Inr (sanitize_metadata (jget item ''metadata''))) (\<lambda>m.
     and_then (require_non_negative_integer (jget item ''created_at'') ''task event created_at'') (\<lambda>c.
       Inr \<lparr>te_id = i, te_event_type = t, te_metadata = m, te_created_at = c\<rparr>)))))"

definition optional_commit_sha :: "js \<Rightarrow> string \<Rightarrow> string \<Rightarrow> jstr option res" where
  "optional_commit_sha item key label = task_optional (\<lambda>f. require_commit_sha f label) (jget item key)"

definition parse_lifecycle :: "js \<Rightarrow> lifecycle_view res" where
  "parse_lifecycle v =
     and_then (require_record v ''task lifecycle'') (\<lambda>item.
     and_then (require_name task_phases (jget item ''phase'') ''task lifecycle phase'' ''task lifecycle phase is unknown'') (\<lambda>ph.
     and_then (require_uuid (jget item ''task_id'') ''lifecycle task id'') (\<lambda>t.
     and_then (task_optional (\<lambda>f. require_text 240 f ''task branch'') (jget item ''branch'')) (\<lambda>b.
     and_then (task_optional (\<lambda>f. require_sha256 f ''reviewed diff hash'') (jget item ''reviewed_diff_sha256'')) (\<lambda>rd.
     and_then (optional_commit_sha item ''commit_sha'' ''task commit sha'') (\<lambda>cs.
     and_then (optional_commit_sha item ''push_sha'' ''task push sha'') (\<lambda>ps.
     and_then (task_optional (\<lambda>f. require_positive_integer f ''issue number'') (jget item ''issue_number'')) (\<lambda>n.
     and_then (task_optional (\<lambda>f. require_positive_integer f ''pull number'') (jget item ''pull_number'')) (\<lambda>pn.
     and_then (optional_commit_sha item ''pull_head_sha'' ''pull head sha'') (\<lambda>phs.
     and_then (optional_commit_sha item ''merge_sha'' ''merge sha'') (\<lambda>ms.
     and_then (optional_commit_sha item ''default_synced_head'' ''default synced head'') (\<lambda>dh.
     and_then (require_non_negative_integer (jget item ''updated_at'') ''lifecycle updated_at'') (\<lambda>u.
     and_then (task_optional (\<lambda>f. require_text 64 f ''task provider'') (jget item ''provider'')) (\<lambda>pr.
       Inr \<lparr>lf_task_id = t, lf_phase = ph, lf_branch = b, lf_reviewed_diff = rd, lf_commit_sha = cs, lf_push_sha = ps,
            lf_issue_number = n, lf_pull_number = pn, lf_pull_head_sha = phs, lf_merge_sha = ms,
            lf_default_synced_head = dh, lf_updated_at = u, lf_provider = pr\<rparr>))))))))))))))"

definition parse_task_snapshot :: "js \<Rightarrow> task_snapshot res" where
  "parse_task_snapshot v =
     and_then (require_record v ''task snapshot'') (\<lambda>item.
     and_then (parse_task_view (jget item ''task'')) (\<lambda>t.
     and_then (require_array (jget item ''proposals'') 128 ''task proposals'') (\<lambda>ps.
     and_then (map_res parse_proposal ps) (\<lambda>proposals.
     and_then (require_array (jget item ''events'') 512 ''task events'') (\<lambda>es.
     and_then (map_res parse_event es) (\<lambda>events.
     and_then (parse_lifecycle (jget item ''lifecycle'')) (\<lambda>l.
       Inr \<lparr>sn_task = t, sn_proposals = proposals, sn_events = events, sn_lifecycle = l\<rparr>)))))))"

definition parse_task_begin :: "js \<Rightarrow> (task_view \<times> bool) res" where
  "parse_task_begin v =
     and_then (require_record v ''task begin'') (\<lambda>item.
     and_then (replay_flag item ''task begin replay flag is invalid'') (\<lambda>r.
     and_then (parse_task_view (jget item ''task'')) (\<lambda>t. Inr (t, r))))"

definition parse_task_proposal_result :: "js \<Rightarrow> (proposal_view \<times> bool) res" where
  "parse_task_proposal_result v =
     and_then (require_record v ''task proposal result'') (\<lambda>item.
     and_then (replay_flag item ''task proposal replay flag is invalid'') (\<lambda>r.
     and_then (parse_proposal (jget item ''proposal'')) (\<lambda>p. Inr (p, r))))"

definition parse_task_apply_result :: "js \<Rightarrow> apply_result res" where
  "parse_task_apply_result v =
     and_then (require_record v ''task apply result'') (\<lambda>item.
     and_then (require_uuid (jget item ''task_id'') ''apply task id'') (\<lambda>t.
     and_then (require_uuid (jget item ''proposal_id'') ''apply proposal id'') (\<lambda>p.
     and_then (require_uuid (jget item ''changeset_id'') ''changeset id'') (\<lambda>c.
     and_then (require_commit_sha (jget item ''head'') ''apply head'') (\<lambda>h.
     and_then (require_array (jget item ''changed_paths'') 128 ''changed paths'') (\<lambda>xs.
     and_then (map_res require_path xs) (\<lambda>ps.
     and_then (require_text_allow_empty 2000000 (jget item ''diff'') ''applied diff'') (\<lambda>d.
       Inr \<lparr>ar_task_id = t, ar_proposal_id = p, ar_changeset_id = c, ar_head = h, ar_changed_paths = ps, ar_diff = d\<rparr>))))))))"

definition parse_git_review :: "js \<Rightarrow> git_review res" where
  "parse_git_review v =
     and_then (require_record v ''git review'') (\<lambda>item.
     and_then (case jget item ''dirty'' of JBool b \<Rightarrow> Inr b | _ \<Rightarrow> task_invalid ''git review dirty flag is invalid'') (\<lambda>dirty.
     and_then (require_workspace (jget item ''workspace'') ''review workspace'') (\<lambda>w.
     and_then (require_text 240 (jget item ''branch'') ''review branch'') (\<lambda>b.
     and_then (require_commit_sha (jget item ''head'') ''review head'') (\<lambda>h.
     and_then (require_text_allow_empty (512 * 1024) (jget item ''status'') ''review status'') (\<lambda>st.
     and_then (require_text_allow_empty 2000000 (jget item ''diff'') ''review diff'') (\<lambda>d.
     and_then (require_sha256 (jget item ''diff_sha256'') ''review diff hash'') (\<lambda>dh.
       Inr \<lparr>gr_workspace = w, gr_branch = b, gr_head = h, gr_dirty = dirty, gr_status = st, gr_diff = d, gr_diff_sha256 = dh\<rparr>))))))))"

definition parse_commit :: "js \<Rightarrow> commit_view res" where
  "parse_commit v =
     and_then (require_record v ''task commit'') (\<lambda>item.
     and_then (case jget item ''clean'' of JBool b \<Rightarrow> Inr b | _ \<Rightarrow> task_invalid ''commit clean flag is invalid'') (\<lambda>clean.
     and_then (require_workspace (jget item ''workspace'') ''commit workspace'') (\<lambda>w.
     and_then (require_text 240 (jget item ''branch'') ''commit branch'') (\<lambda>b.
     and_then (require_commit_sha (jget item ''parent_head'') ''commit parent head'') (\<lambda>ph.
     and_then (require_commit_sha (jget item ''commit'') ''commit sha'') (\<lambda>c.
     and_then (require_text_allow_empty (512 * 1024) (jget item ''status'') ''commit status'') (\<lambda>st.
       Inr \<lparr>cv_workspace = w, cv_branch = b, cv_parent_head = ph, cv_commit = c, cv_clean = clean, cv_status = st\<rparr>)))))))"

definition parse_push :: "js \<Rightarrow> push_view res" where
  "parse_push v =
     and_then (require_record v ''task push'') (\<lambda>item.
     and_then (require_workspace (jget item ''workspace'') ''push workspace'') (\<lambda>w.
     and_then (require_text 128 (jget item ''remote'') ''push remote'') (\<lambda>r.
     and_then (require_text 240 (jget item ''branch'') ''push branch'') (\<lambda>b.
     and_then (require_commit_sha (jget item ''head'') ''push head'') (\<lambda>h.
       Inr \<lparr>pu_workspace = w, pu_remote = r, pu_branch = b, pu_head = h\<rparr>)))))"

text \<open>The four results that carry the lifecycle, a detail and the replay flag.\<close>

definition parse_lifecycle_result :: "string \<Rightarrow> (js \<Rightarrow> 'a res) \<Rightarrow> js \<Rightarrow> (lifecycle_view \<times> 'a \<times> bool) res" where
  "parse_lifecycle_result name detail v =
     and_then (require_record v (''task '' @ name @ '' result'')) (\<lambda>item.
     and_then (replay_flag item (''task '' @ name @ '' replay flag is invalid'')) (\<lambda>r.
     and_then (parse_lifecycle (jget item ''lifecycle'')) (\<lambda>l.
     and_then (detail item) (\<lambda>d. Inr (l, d, r)))))"

definition parse_task_branch_result :: "js \<Rightarrow> (lifecycle_view \<times> unit \<times> bool) res" where
  "parse_task_branch_result = parse_lifecycle_result ''branch'' (\<lambda>item. Inr ())"

definition parse_task_review_result :: "js \<Rightarrow> (lifecycle_view \<times> git_review \<times> bool) res" where
  "parse_task_review_result = parse_lifecycle_result ''review'' (\<lambda>item. parse_git_review (jget item ''review''))"

definition parse_task_commit_result :: "js \<Rightarrow> (lifecycle_view \<times> commit_view \<times> bool) res" where
  "parse_task_commit_result = parse_lifecycle_result ''commit'' (\<lambda>item. parse_commit (jget item ''commit''))"

definition parse_task_push_result :: "js \<Rightarrow> (lifecycle_view \<times> push_view \<times> bool) res" where
  "parse_task_push_result = parse_lifecycle_result ''push'' (\<lambda>item. parse_push (jget item ''push''))"

section \<open>Soundness\<close>

lemma require_str_Inr: "require_str ok v l = Inr s \<longleftrightarrow> v = JStr s \<and> ok s"
  by (auto simp: require_str_def task_invalid_def split: js.splits if_splits)

lemma require_array_Inr: "require_array v n l = Inr xs \<longleftrightarrow> v = JArr xs \<and> length xs \<le> n"
  by (auto simp: require_array_def task_invalid_def split: js.splits if_splits)

lemma require_record_Inr: "require_record v l = Inr w \<longleftrightarrow> v = w \<and> is_record v"
  by (auto simp: require_record_def task_invalid_def split: if_splits)

lemma require_int_Inr: "require_non_negative_integer v l = Inr i \<longleftrightarrow> v = jint i \<and> 0 \<le> i \<and> i \<le> max_safe"
  by (auto simp: require_non_negative_integer_def task_invalid_def safe_int_Some split: option.splits if_splits)
    (metis abs_of_nonneg option.distinct(1) safe_int_Some)

lemma require_path_Inr: "require_path v = Inr p \<longleftrightarrow> (\<exists>s. v = JStr s \<and> relative_path s \<and> p = forward_slashes s)"
  by (auto simp: require_path_def task_invalid_def split: js.splits if_splits)

lemma task_optional_Inr:
  "task_optional f v = Inr x \<longleftrightarrow> (if is_nullish v then x = None else \<exists>y. f v = Inr y \<and> x = Some y)"
  by (auto simp: task_optional_def)

lemmas require_Inr = require_str_Inr require_array_Inr require_record_Inr require_int_Inr require_path_Inr task_optional_Inr


lemma forward_slashes_relative:
  assumes "relative_path s" shows "relative_path (forward_slashes s)" "92 \<notin> set (forward_slashes s)"
proof -
  have idem: "forward_slashes (forward_slashes s) = forward_slashes s"
    by (simp add: forward_slashes_def)
  have ctl: "has_control (forward_slashes s) \<longleftrightarrow> has_control s"
    by (auto simp: has_control_def forward_slashes_def list_ex_iff is_control_def)
  obtain c cs where s: "s = c # cs" using assms by (cases s) (auto simp: relative_path_def length_within_def)
  with assms have "c \<noteq> 47" "c \<noteq> 92" by (auto simp: relative_path_def starts_with_def lit_def)
  with s have "\<not> starts_with (lit ''/'') (forward_slashes s)" "\<not> starts_with [92] (forward_slashes s)"
    by (auto simp: forward_slashes_def starts_with_def lit_def)
  with assms idem ctl show "relative_path (forward_slashes s)"
    by (simp add: relative_path_def length_within_def) (simp add: forward_slashes_def)
  show "92 \<notin> set (forward_slashes s)" by (auto simp: forward_slashes_def)
qed

definition proposal_ok :: "proposal_view \<Rightarrow> bool" where
  "proposal_ok p \<longleftrightarrow> is_uuid (JStr (pv_id p)) \<and> is_uuid (JStr (pv_task_id p)) \<and> is_commit_sha (pv_expected_head p)
     \<and> is_sha256_text (pv_patch_sha256 p) \<and> length (pv_changed_paths p) \<le> 128
     \<and> list_all (\<lambda>q. relative_path q \<and> 92 \<notin> set q) (pv_changed_paths p)"

text \<open>Metadata that may be shown: no secret key, no value that JSON does not have, four levels of objects.\<close>

fun metadata_ok :: "nat \<Rightarrow> js \<Rightarrow> bool" where
  "metadata_ok n (JStr s) \<longleftrightarrow> length s \<le> 4097"
| "metadata_ok n (JNum x) \<longleftrightarrow> (\<exists>r. x = Fin r)"
| "metadata_ok n (JBool b) \<longleftrightarrow> True"
| "metadata_ok n JNull \<longleftrightarrow> True"
| "metadata_ok n JUndef \<longleftrightarrow> False"
| "metadata_ok n (JArr xs) \<longleftrightarrow> length xs \<le> 64 \<and> (\<forall>x\<in>set xs. metadata_ok n x)"
| "metadata_ok n (JObj kvs) \<longleftrightarrow> 0 < n \<and> length kvs \<le> 64
     \<and> (\<forall>kv\<in>set kvs. map key_lower (fst kv) \<notin> set (map lit DROP_EVENT_KEYS) \<and> length (fst kv) \<le> 128
          \<and> metadata_ok (n - 1) (snd kv))"

lemma length_concat_singletons: "(\<And>x. x \<in> set xs \<Longrightarrow> length (f x) \<le> 1) \<Longrightarrow> length (concat (map f xs)) \<le> length xs"
proof (induction xs)
  case (Cons x xs)
  then have "length (f x) \<le> 1" "length (concat (map f xs)) \<le> length xs" by auto
  then show ?case by simp
qed simp

lemma safe_metadata_ok: "safe_metadata_value d v = Some r \<Longrightarrow> metadata_ok (4 - d) r"
proof (induction d v arbitrary: r rule: safe_metadata_value.induct)
  case (5 d xs)
  let ?f = "\<lambda>x. case safe_metadata_value d x of None \<Rightarrow> [] | Some y \<Rightarrow> [y]"
  from "5.prems" have r: "length xs \<le> 64" "r = JArr (concat (map ?f xs))" by (auto split: if_splits)
  have "length (concat (map ?f xs)) \<le> length xs"
    by (rule length_concat_singletons) (auto split: option.splits)
  moreover have "metadata_ok (4 - d) y" if "y \<in> set (concat (map ?f xs))" for y
    using that "5.IH" [OF r(1)] by (auto split: option.splits)
  ultimately show ?case using r by (simp del: set_concat set_map)
next
  case (6 d kvs)
  let ?f = "\<lambda>kv. if dropped_key (fst kv) then []
             else (case safe_metadata_value (Suc d) (snd kv) of None \<Rightarrow> [] | Some y \<Rightarrow> [(fst kv, y)])"
  from "6.prems" have r: "d \<le> 3" "r = JObj (concat (map ?f (take 64 kvs)))" by (auto split: if_splits)
  have "length (concat (map ?f (take 64 kvs))) \<le> length (take 64 kvs)"
    by (rule length_concat_singletons) (auto split: option.splits)
  moreover have "map key_lower (fst e) \<notin> set (map lit DROP_EVENT_KEYS) \<and> length (fst e) \<le> 128 \<and> metadata_ok (4 - d - 1) (snd e)"
    if e: "e \<in> set (concat (map ?f (take 64 kvs)))" for e
  proof -
    from e obtain kv where kv: "kv \<in> set (take 64 kvs)" "e \<in> set (?f kv)" by auto
    then have nd: "\<not> dropped_key (fst kv)" by (auto split: if_splits)
    with kv obtain y where y: "safe_metadata_value (Suc d) (snd kv) = Some y" "e = (fst kv, y)"
      by (cases "safe_metadata_value (Suc d) (snd kv)") auto
    from "6.IH" [OF r(1) kv(1) nd y(1)] y(2) nd show ?thesis by (auto simp: dropped_key_def)
  qed
  ultimately show ?case using r by (simp del: set_concat set_map)
qed (auto split: jnum.splits)

text \<open>
  The metadata of an event is safe to show, whatever the core has sent: at no level is there a
  key that names a patch, a body, a token, a secret, a credential or an authorization in any
  spelling, objects nest at most four deep, lists and objects have at most 64 entries and
  texts at most 4,097 characters.
\<close>

theorem sanitized_metadata_safe: "metadata_ok 4 (sanitize_metadata v)"
proof (cases "\<exists>r. is_record v \<and> safe_metadata_value 0 v = Some r")
  case True
  then show ?thesis using safe_metadata_ok [of 0 v] by (auto simp: sanitize_metadata_def)
next
  case False
  then show ?thesis by (auto simp: sanitize_metadata_def split: option.splits)
qed

lemma changed_paths_ok:
  "map_res require_path xs = Inr ps \<Longrightarrow> length ps = length xs \<and> list_all (\<lambda>q. relative_path q \<and> 92 \<notin> set q) ps"
  by (erule map_res_all) (auto simp: require_path_Inr forward_slashes_relative)

lemma parse_event_ok: "parse_event v = Inr e \<Longrightarrow> metadata_ok 4 (te_metadata e)"
  using safe_metadata_ok [of 0] by (auto simp: parse_event_def sanitize_metadata_def split: option.splits)

lemma parse_proposal_ok: "parse_proposal v = Inr p \<Longrightarrow> proposal_ok p"
  by (auto simp: parse_proposal_def proposal_ok_def require_str_Inr require_array_Inr require_record_Inr require_uuid_def
      require_commit_sha_def require_sha256_def is_uuid_def str_sat_def dest!: changed_paths_ok)

lemma parse_task_view_ok:
  "parse_task_view v = Inr t \<Longrightarrow> is_uuid (JStr (tv_id t)) \<and> is_workspace_id (JStr (tv_workspace t)) \<and> is_commit_sha (tv_base_head t)"
  by (auto simp: parse_task_view_def require_Inr require_uuid_def require_workspace_def require_commit_sha_def
      is_uuid_def is_workspace_id_def str_sat_def)


definition demo_sha :: "nat \<Rightarrow> js" where
  "demo_sha n = JStr (replicate n 97)"

definition demo_task_js :: js where
  "demo_task_js = JObj [(lit ''status'', jtext ''active''), (lit ''id'', JStr demo_uuid), (lit ''workspace'', jtext ''w''),
     (lit ''base_head'', demo_sha 40), (lit ''created_at'', jint 1), (lit ''updated_at'', jint 2)]"

definition demo_proposal_js :: js where
  "demo_proposal_js = JObj [(lit ''status'', jtext ''proposed''), (lit ''id'', JStr demo_uuid), (lit ''task_id'', JStr demo_uuid),
     (lit ''expected_head'', demo_sha 40), (lit ''patch_sha256'', demo_sha 64), (lit ''changed_paths'', JArr [jtext ''a'']),
     (lit ''created_at'', jint 1)]"

definition demo_lifecycle_js :: "string \<Rightarrow> js" where
  "demo_lifecycle_js phase = JObj [(lit ''phase'', jtext phase), (lit ''task_id'', JStr demo_uuid), (lit ''updated_at'', jint 1)]"

definition demo_snapshot_js :: "string \<Rightarrow> js" where
  "demo_snapshot_js phase = JObj [(lit ''task'', demo_task_js), (lit ''proposals'', JArr [demo_proposal_js]), (lit ''events'', JArr []),
     (lit ''lifecycle'', demo_lifecycle_js phase)]"

lemmas require_eval = require_record_def require_array_def require_str_def require_text_def require_uuid_def require_workspace_def
  require_commit_sha_def require_sha256_def require_path_def require_non_negative_integer_def task_optional_def
  require_name_def named_def optional_commit_sha_def is_commit_sha_def is_sha256_text_def id_text_def

lemma demo_uuid_matches [simp]: "matches_seq uuid_classes demo_uuid"
  using demo_uuid_ok by (simp add: is_uuid_def str_sat_def)

lemma demo_task: "\<exists>t. parse_task_view demo_task_js = Inr t \<and> tv_status t = TaskActive \<and> tv_workspace t = lit ''w'' \<and> tv_id t = demo_uuid"
  by (simp add: parse_task_view_def demo_task_js_def require_eval jget_def is_nullish_def has_nul_def safe_int_def max_safe_def
      task_statuses_def demo_sha_def list_all_iff char_classes length_within_def lit_def unit_bytes_def is_high_def)

lemma demo_proposal: "\<exists>p. parse_proposal demo_proposal_js = Inr p"
  by (simp add: parse_proposal_def demo_proposal_js_def require_eval jget_def is_nullish_def has_nul_def safe_int_def max_safe_def
      proposal_statuses_def demo_sha_def list_all_iff char_classes length_within_def lit_def unit_bytes_def is_high_def
      relative_path_def MAX_REPOSITORY_PATH_def starts_with_def has_control_def drive_prefix_def forward_slashes_def plain_segment_def)

lemma demo_lifecycle:
  "phase = ''branched'' \<or> phase = ''reviewed'' \<or> phase = ''committed'' \<Longrightarrow>
     \<exists>l. parse_lifecycle (demo_lifecycle_js phase) = Inr l \<and> Some (lf_phase l) = map_of task_phases phase"
  by (auto simp: parse_lifecycle_def demo_lifecycle_js_def require_eval jget_def is_nullish_def has_nul_def safe_int_def max_safe_def
      task_phases_def lit_def unit_bytes_def is_high_def between_def)

lemma demo_snapshot:
  assumes "phase = ''branched'' \<or> phase = ''reviewed'' \<or> phase = ''committed''"
  shows "\<exists>s. parse_task_snapshot (demo_snapshot_js phase) = Inr s \<and> tv_status (sn_task s) = TaskActive
    \<and> tv_workspace (sn_task s) = lit ''w'' \<and> Some (lf_phase (sn_lifecycle s)) = map_of task_phases phase"
  using demo_task demo_proposal demo_lifecycle [OF assms]
  by (auto simp: parse_task_snapshot_def demo_snapshot_js_def require_record_def require_array_def jget_def)


end
