(* ===== verification/Manager_Base.thy ===== *)
theory Manager_Base
  imports Io_Trace Utf8_Text Harness_Parser Task_Parser Agent_Worker_Family Review_Loop
begin

text \<open>
  The desktop task manager (\<^verbatim>\<open>task-manager.ts\<close>), first part: its state, its dependencies, the
  texts it builds and its calls of the Harness core. The client of the core, the Codex runtime,
  the skill preflights, the ChatGPT driver, the listener of runtime events, the clock, the random ids and SHA-256 are
  parameters; every method runs on the pair of the environment they act on and the manager's
  own fields.
\<close>

section \<open>Data\<close>

record skill_activity =
  sa_npm_searches :: "jstr list"
  sa_npm_installed :: "jstr list"
  sa_plugin_auto_installed :: "jstr list"
  sa_selected :: "jstr list"

record prepared_turn =
  pt_run_id :: jstr
  pt_workspace :: jstr
  pt_prompt_hash :: jstr
  pt_skill_keys :: "jstr list"
  pt_activity :: skill_activity
  pt_created_at :: int

record turn_view =
  tn_run_id :: jstr
  tn_workspace :: jstr
  tn_thread_id :: jstr
  tn_turn_id :: jstr
  tn_status :: jstr
  tn_response :: "jstr option"
  tn_resumed :: bool
  tn_recovered :: bool
  tn_active_skills :: "jstr list"
  tn_activity :: "skill_activity option"

record managed_workspace =
  mw_id :: jstr
  mw_ready :: bool
  mw_read_write :: bool
  mw_default_branch :: jstr
  mw_branch :: "jstr option"

text \<open>The fields of the manager; maps and sets iterate in insertion order.\<close>

record task_manager =
  tm_begin_keys :: "(jstr \<times> jstr) list"
  tm_completion_keys :: "jstr list"
  tm_job_statuses :: "(jstr \<times> jstr) list"
  tm_active_reviews :: "(jstr \<times> jstr) list"
  tm_families :: family_registry
  tm_prepared :: "(jstr \<times> prepared_turn) list"

definition new_task_manager :: task_manager where
  "new_task_manager = \<lparr>tm_begin_keys = [], tm_completion_keys = [], tm_job_statuses = [], tm_active_reviews = [],
     tm_families = Map.empty, tm_prepared = []\<rparr>"

datatype client_call = Harness string js | Task string js | Approval string js

record codex_input =
  cx_run_id :: jstr
  cx_prompt :: jstr
  cx_skill_keys :: "jstr list"
  cx_recovery :: bool
  cx_model :: "jstr option"

record npm_preflight =
  np_active :: "jstr list"
  np_installed :: "jstr list"
  np_searches :: "jstr list"

record skill_preflight =
  sp_active :: "jstr list"
  sp_auto_installed :: "jstr list"

text \<open>
  What the listener is told: component, state and message; or the task, run, workspace, kind and
  text of the progress of a ChatGPT turn.
\<close>

datatype runtime_event = StateEvent string string jstr | ProgressEvent jstr jstr jstr string jstr

record 'w manager_env =
  me_client :: "client_call \<Rightarrow> ('w, js) io"
  me_workspaces :: "unit \<Rightarrow> ('w, managed_workspace list) io"
  me_read_file :: "jstr \<times> jstr \<Rightarrow> ('w, jstr \<times> jstr) io"
  me_remember :: "js \<Rightarrow> ('w, unit) io"
  me_has_codex :: bool
  me_codex_run :: "codex_input \<Rightarrow> ('w, turn_view) io"
  me_codex_release :: "jstr \<Rightarrow> ('w, unit) io"
  me_npm :: "(jstr \<times> jstr \<Rightarrow> ('w, npm_preflight) io) option"
  me_skills :: "(jstr \<times> jstr \<Rightarrow> ('w, skill_preflight) io) option"
  me_needs_skills :: "jstr \<Rightarrow> bool"
  me_attach_thread :: "jstr \<times> jstr \<Rightarrow> ('w, unit) io"
  me_record_message :: "js \<Rightarrow> ('w, unit) io"
  me_has_review :: bool
  me_review_begin :: "plan_request \<Rightarrow> ('w, jstr option) io"
  me_review_review :: "review_request \<Rightarrow> ('w, jstr option) io"
  me_review_direct :: "plan_request \<Rightarrow> ('w, jstr) io"
  me_review_cancel :: "jstr \<Rightarrow> 'w \<Rightarrow> 'w"
  me_emit :: "runtime_event \<Rightarrow> ('w, unit) io"
  me_uuid :: "unit \<Rightarrow> ('w, jstr) io"
  me_now :: "unit \<Rightarrow> ('w, int) io"
  me_timestamp :: "unit \<Rightarrow> ('w, jstr) io"
  me_sha256 :: "jstr \<Rightarrow> jstr"
  me_json :: "js \<Rightarrow> jstr"

type_synonym ('w, 'a) mgr = "('w \<times> task_manager, 'a) io"

definition obj :: "(string \<times> js) list \<Rightarrow> js" where
  "obj kvs = JObj (map (\<lambda>kv. (lit (fst kv), snd kv)) kvs)"

text \<open>The same environment beside a log that none of the calls writes.\<close>

definition unlogged_env :: "'w manager_env \<Rightarrow> ('w \<times> 'c list) manager_env" where
  "unlogged_env env =
     \<lparr>me_client = unlogged (me_client env), me_workspaces = unlogged (me_workspaces env),
      me_read_file = unlogged (me_read_file env), me_remember = unlogged (me_remember env),
      me_has_codex = me_has_codex env, me_codex_run = unlogged (me_codex_run env),
      me_codex_release = unlogged (me_codex_release env), me_npm = map_option unlogged (me_npm env),
      me_skills = map_option unlogged (me_skills env), me_needs_skills = me_needs_skills env,
      me_attach_thread = unlogged (me_attach_thread env), me_record_message = unlogged (me_record_message env),
      me_has_review = me_has_review env, me_review_begin = unlogged (me_review_begin env),
      me_review_review = unlogged (me_review_review env), me_review_direct = unlogged (me_review_direct env),
      me_review_cancel = (\<lambda>t wl. (me_review_cancel env t (fst wl), snd wl)), me_emit = unlogged (me_emit env),
      me_uuid = unlogged (me_uuid env), me_now = unlogged (me_now env), me_timestamp = unlogged (me_timestamp env),
      me_sha256 = me_sha256 env, me_json = me_json env\<rparr>"

text \<open>An environment for examples: a client, and everything else answering trivially.\<close>

definition client_env :: "(client_call \<Rightarrow> (unit, js) io) \<Rightarrow> unit manager_env" where
  "client_env client =
     \<lparr>me_client = client, me_workspaces = \<lambda>_. io_return [], me_read_file = \<lambda>_. io_return ([], []), me_remember = \<lambda>_. io_return (),
      me_has_codex = False, me_codex_run = \<lambda>_. io_lift (Inl []), me_codex_release = \<lambda>_. io_return (),
      me_npm = None, me_skills = None, me_needs_skills = \<lambda>_. False, me_attach_thread = \<lambda>_. io_return (),
      me_record_message = \<lambda>_. io_return (), me_has_review = False, me_review_begin = \<lambda>_. io_return None,
      me_review_review = \<lambda>_. io_return None, me_review_direct = \<lambda>_. io_lift (Inl []), me_review_cancel = \<lambda>_ w. w,
      me_emit = \<lambda>_. io_return (), me_uuid = \<lambda>_. io_return (lit ''u''), me_now = \<lambda>_. io_return 0,
      me_timestamp = \<lambda>_. io_return [], me_sha256 = id, me_json = \<lambda>_. []\<rparr>"

text \<open>\<^verbatim>\<open>...(value ? { key: value } : {})\<close> for a text.\<close>

definition truthy_field :: "string \<Rightarrow> jstr option \<Rightarrow> (string \<times> js) list" where
  "truthy_field key v = (case v of Some s \<Rightarrow> if s = [] then [] else [(key, JStr s)] | None \<Rightarrow> [])"

section \<open>Maps in insertion order\<close>

definition assoc_put :: "'k \<Rightarrow> 'v \<Rightarrow> ('k \<times> 'v) list \<Rightarrow> ('k \<times> 'v) list" where
  "assoc_put k v kvs =
     (case map_of kvs k of
        Some _ \<Rightarrow> map (\<lambda>kv. if fst kv = k then (k, v) else kv) kvs
      | None \<Rightarrow> kvs @ [(k, v)])"

definition assoc_del :: "'k \<Rightarrow> ('k \<times> 'v) list \<Rightarrow> ('k \<times> 'v) list" where
  "assoc_del k kvs = filter (\<lambda>kv. fst kv \<noteq> k) kvs"

lemma map_of_assoc_del: "map_of (assoc_del k kvs) = (map_of kvs)(k := None)"
  by (rule ext, induction kvs) (auto simp: assoc_del_def)

lemma map_of_replace:
  "map_of (map (\<lambda>kv. if fst kv = k then (k, v) else kv) kvs) j
     = (if j = k \<and> map_of kvs k \<noteq> None then Some v else map_of kvs j)"
  by (induction kvs) (auto simp del: map_of_eq_None_iff)

lemma map_of_assoc_put: "map_of (assoc_put k v kvs) = (map_of kvs)(k \<mapsto> v)"
  by (rule ext) (auto simp: assoc_put_def map_of_replace map_add_def split: option.splits)

lemma length_assoc_put: "length (assoc_put k v kvs) \<le> Suc (length kvs)"
  by (simp add: assoc_put_def split: option.splits)

lemma length_assoc_del: "length (assoc_del k kvs) \<le> length kvs"
  by (simp add: assoc_del_def)

section \<open>Texts\<close>

definition newline :: jstr where "newline = [10]"

definition MAX_RECOVERY_CONTEXT_BYTES :: nat where "MAX_RECOVERY_CONTEXT_BYTES = 24 * 1024"
definition MAX_CODEX_RECOVERY_ATTEMPTS :: nat where "MAX_CODEX_RECOVERY_ATTEMPTS = 2"

definition bounded_recovery_text :: "jstr \<Rightarrow> nat \<Rightarrow> jstr" where
  "bounded_recovery_text value maxBytes =
     (let normalized = filter (\<lambda>c. c \<noteq> 0) value in
      if utf8_len normalized \<le> maxBytes then normalized
      else strip_replacements (utf8_cut (max 1 (maxBytes - 3)) normalized) @ [8230])"

subsection \<open>The bound on a recovery text\<close>

lemma bounded_recovery_text_fits:
  assumes "4 \<le> n" shows "utf8_len (bounded_recovery_text s n) \<le> n"
proof -
  let ?t = "strip_replacements (utf8_whole (max 1 (n - 3)) (filter (\<lambda>c. c \<noteq> 0) s))"
  have "utf8_len ?t \<le> max 1 (n - 3)"
    using utf8_len_prefix [OF strip_prefix] utf8_whole_fits by (rule le_trans)
  then have "utf8_len ?t \<le> n - 3" using assms by simp
  then show ?thesis
    using utf8_len_snoc_le [of ?t 8230] assms by (auto simp: bounded_recovery_text_def Let_def strip_cut)
qed

lemma utf8_whole_ascii:
  "list_all (\<lambda>c. c < 128) p \<Longrightarrow> length p \<le> n \<Longrightarrow> utf8_whole n (p @ s) = p @ utf8_whole (n - length p) s"
proof (induction p arbitrary: n)
  case (Cons c p)
  then have c: "c < 128" "unit_bytes c = 1" "decoded c = c" "\<not> is_high c" "1 \<le> n"
    by (auto simp: unit_bytes_def decoded_def is_high_def is_low_def between_def)
  have "utf8_whole n ((c # p) @ s) = c # utf8_whole (n - 1) (p @ s)"
    using c by (cases "p @ s") auto
  with Cons show ?case by simp
qed simp

lemma strip_keeps:
  assumes "last p \<noteq> replacement" "p \<noteq> []" shows "prefix p (strip_replacements (p @ s))"
proof -
  have "\<exists>t. dropWhile (\<lambda>c. c = replacement) (rev s @ rev p) = t @ rev p"
  proof (cases "\<exists>x\<in>set (rev s). x \<noteq> replacement")
    case True
    then show ?thesis by (auto simp: dropWhile_append1)
  next
    case False
    then have "dropWhile (\<lambda>c. c = replacement) (rev s @ rev p) = dropWhile (\<lambda>c. c = replacement) (rev p)"
      by (intro dropWhile_append2) auto
    also have "\<dots> = rev p" using assms by (cases p rule: rev_cases) auto
    finally show ?thesis by simp
  qed
  then show ?thesis by (auto simp: strip_replacements_def)
qed

lemma bounded_recovery_text_keeps:
  assumes "list_all (\<lambda>c. 0 < c \<and> c < 128) p" "p \<noteq> []" "length p + 3 \<le> n"
  shows "prefix p (bounded_recovery_text (p @ s) n)"
proof -
  have p: "list_all (\<lambda>c. c < 128) p" "filter (\<lambda>c. c \<noteq> 0) p = p" "last p \<noteq> replacement"
  proof -
    have "last p < 128" using assms(1,2) unfolding list_all_iff by simp
    then show "list_all (\<lambda>c. c < 128) p" "filter (\<lambda>c. c \<noteq> 0) p = p" "last p \<noteq> replacement"
      using assms(1) by (auto simp: list_all_iff replacement_def filter_id_conv)
  qed
  have w: "utf8_whole (max 1 (n - 3)) (p @ t) = p @ utf8_whole (max 1 (n - 3) - length p) t" for t
    using assms(3) by (intro utf8_whole_ascii [OF p(1)]) auto
  have "prefix p (strip_replacements (p @ t))" for t
    using strip_keeps [OF p(3) assms(2)] .
  moreover have f: "filter (\<lambda>c. c \<noteq> 0) (p @ s) = p @ filter (\<lambda>c. c \<noteq> 0) s"
    using p(2) by simp
  ultimately show ?thesis
    unfolding bounded_recovery_text_def Let_def strip_cut f w by (auto intro: prefix_prefix)
qed

text \<open>\<^verbatim>\<open>error.message.replace(/[\r\n\t]+/g, " ").slice(0, 512)\<close>.\<close>

definition is_break :: "nat \<Rightarrow> bool" where
  "is_break c \<longleftrightarrow> c = 13 \<or> c = 10 \<or> c = 9"

function join_breaks :: "jstr \<Rightarrow> jstr" where
  "join_breaks [] = []"
| "join_breaks (c # cs) = (if is_break c then 32 # join_breaks (dropWhile is_break cs) else c # join_breaks cs)"
  by pat_completeness auto
termination
  by (relation "measure length") (auto simp: less_Suc_eq_le length_dropWhile_le)

definition safe_error :: "jstr \<Rightarrow> jstr" where
  "safe_error message = take 512 (join_breaks message)"

datatype failure_category = TimedOut | Denied | ToolError

definition native_failure_category :: "jstr \<Rightarrow> failure_category" where
  "native_failure_category e =
     (let message = map to_lower (safe_error e) in
      if str_includes (lit ''timeout'') message \<or> str_includes (lit ''timed out'') message then TimedOut
      else if str_includes (lit ''approval'') message \<or> str_includes (lit ''denied'') message then Denied
      else ToolError)"

fun category_name :: "failure_category \<Rightarrow> string" where
  "category_name TimedOut = ''timeout''"
| "category_name Denied = ''denied''"
| "category_name ToolError = ''tool-error''"

definition short_sha :: "jstr \<Rightarrow> jstr" where
  "short_sha s = (if length s > 12 then take 12 s else s)"

section \<open>Runs of the core\<close>

definition ask :: "'w manager_env \<Rightarrow> client_call \<Rightarrow> ('w, js) mgr" where
  "ask env c = io_ext (me_client env c)"

definition parse_with :: "(js \<Rightarrow> 'a res) \<Rightarrow> js \<Rightarrow> ('w, 'a) mgr" where
  "parse_with p v = io_lift (p v)"

definition release_terminal_codex_runs :: "'w manager_env \<Rightarrow> run_view list \<Rightarrow> ('w, unit) mgr" where
  "release_terminal_codex_runs env runs =
     (if \<not> me_has_codex env then io_return ()
      else io_each (\<lambda>run. io_ignore (io_ext (me_codex_release env (rv_id run))))
        (filter (\<lambda>run. rv_status run \<noteq> lit ''running'') runs))"

definition begin_harness_run :: "'w manager_env \<Rightarrow> jstr \<Rightarrow> jstr \<Rightarrow> jstr option \<Rightarrow> ('w, run_view) mgr" where
  "begin_harness_run env workspace profile sandbox =
     io_bind (io_ext (me_uuid env ())) (\<lambda>u.
     io_bind (ask env (Harness ''/api/v1/harness/runs/begin'' (obj ([(''workspace'', JStr workspace), (''profile'', JStr profile)]
         @ truthy_field ''sandbox'' sandbox @ [(''client_request_id'', JStr (lit ''desktop:harness:'' @ u))])))) (\<lambda>v.
     io_bind (parse_with parse_harness_run_begin v) (\<lambda>begun.
       if rv_workspace begun \<noteq> workspace then io_lift (throw ''SourceNerve Harness begin workspace mismatch'')
       else io_return begun)))"

definition route_harness_context ::
    "'w manager_env \<Rightarrow> jstr \<Rightarrow> jstr option \<Rightarrow> jstr \<Rightarrow> bool \<Rightarrow> ('w, context_route_view) mgr" where
  "route_harness_context env workspace runId query startCycle =
     io_bind (ask env (Harness ''/api/v1/harness/context/route'' (obj ([(''workspace'', JStr workspace)]
         @ truthy_field ''run_id'' runId @ [(''query'', JStr query)]
         @ (if startCycle then [(''start_cycle'', JBool True)] else []))))) (\<lambda>v.
     io_bind (parse_with (\<lambda>x. parse_harness_context_route x (Some query)) v) (\<lambda>routed.
       if cr_workspace routed \<noteq> workspace then io_lift (throw ''SourceNerve Harness context route workspace mismatch'')
       else io_return routed))"

definition list_harness_runs :: "'w manager_env \<Rightarrow> int option \<Rightarrow> ('w, run_view list) mgr" where
  "list_harness_runs env limit =
     io_bind (ask env (Harness ''/api/v1/harness/runs/list'' (obj [(''limit'', jint (case limit of Some n \<Rightarrow> n | None \<Rightarrow> 50))]))) (\<lambda>v.
     io_bind (parse_with parse_harness_run_list v) (\<lambda>runs.
     io_bind (release_terminal_codex_runs env runs) (\<lambda>_. io_return runs)))"

definition get_harness_run :: "'w manager_env \<Rightarrow> jstr \<Rightarrow> ('w, run_view) mgr" where
  "get_harness_run env runId =
     io_bind (ask env (Harness ''/api/v1/harness/runs/get'' (obj [(''run_id'', JStr runId)]))) (\<lambda>v.
     io_bind (parse_with parse_harness_run_snapshot v) (\<lambda>run.
     io_bind (release_terminal_codex_runs env [run]) (\<lambda>_. io_return run)))"

definition list_harness_events :: "'w manager_env \<Rightarrow> jstr \<Rightarrow> int option \<Rightarrow> int option \<Rightarrow> ('w, event_view list) mgr" where
  "list_harness_events env runId afterSeq limit =
     io_bind (ask env (Harness ''/api/v1/harness/runs/events'' (obj [(''run_id'', JStr runId),
         (''after_seq'', jint (case afterSeq of Some n \<Rightarrow> n | None \<Rightarrow> -1)), (''limit'', jint (case limit of Some n \<Rightarrow> n | None \<Rightarrow> 200))])))
       (parse_with parse_harness_events)"

definition MAX_COMPLETION_NOTIFICATION_KEYS :: nat where "MAX_COMPLETION_NOTIFICATION_KEYS = 128"

definition job_completed_message :: "job_view \<Rightarrow> jstr" where
  "job_completed_message job = lit ''Harness job '' @ jb_id job @ lit '' ('' @ jb_kind job @ lit '') completed''"

text \<open>A job is moved to the end of the map whenever it is seen; then the oldest beyond the limit are forgotten.\<close>

definition observe_job :: "'w manager_env \<Rightarrow> job_view \<Rightarrow> ('w, unit) mgr" where
  "observe_job env job =
     io_bind (io_gets (\<lambda>m. map_of (tm_job_statuses m) (jb_id job))) (\<lambda>previous.
     io_bind (io_modify (\<lambda>m. m\<lparr>tm_job_statuses := assoc_del (jb_id job) (tm_job_statuses m) @ [(jb_id job, jb_status job)]\<rparr>)) (\<lambda>_.
       if previous \<noteq> None \<and> previous \<noteq> Some (lit ''completed'') \<and> jb_status job = lit ''completed''
       then io_ext (me_emit env (StateEvent ''harness'' ''completed'' (job_completed_message job)))
       else io_return ()))"

definition observe_harness_job_transitions :: "'w manager_env \<Rightarrow> job_view list \<Rightarrow> ('w, unit) mgr" where
  "observe_harness_job_transitions env jobs =
     io_bind (io_each (observe_job env) jobs) (\<lambda>_.
       io_modify (\<lambda>m. m\<lparr>tm_job_statuses := last_n MAX_COMPLETION_NOTIFICATION_KEYS (tm_job_statuses m)\<rparr>))"

definition list_harness_jobs :: "'w manager_env \<Rightarrow> jstr \<Rightarrow> int option \<Rightarrow> ('w, job_view list) mgr" where
  "list_harness_jobs env runId limit =
     io_bind (ask env (Harness ''/api/v1/harness/jobs/list'' (obj [(''run_id'', JStr runId),
         (''limit'', jint (case limit of Some n \<Rightarrow> n | None \<Rightarrow> 50))]))) (\<lambda>v.
     io_bind (parse_with parse_harness_job_list v) (\<lambda>jobs.
     io_bind (observe_harness_job_transitions env jobs) (\<lambda>_. io_return jobs)))"

definition cancel_harness_job :: "'w manager_env \<Rightarrow> jstr \<Rightarrow> jstr \<Rightarrow> ('w, job_view) mgr" where
  "cancel_harness_job env runId jobId =
     io_bind (ask env (Harness ''/api/v1/harness/jobs/call'' (obj [(''run_id'', JStr runId), (''operation'', jtext ''cancel''), (''job_id'', JStr jobId)])))
       (parse_with parse_harness_job_call)"

record command_request =
  cq_workspace :: jstr
  cq_command :: jstr
  cq_request_id :: jstr
  cq_timeout_ms :: "int option"
  cq_workdir :: "jstr option"

definition run_harness_command :: "'w manager_env \<Rightarrow> command_request \<Rightarrow> ('w, command_view) mgr" where
  "run_harness_command env inp =
     io_bind (ask env (Harness ''/api/v1/harness/commands/execute'' (obj ([(''workspace'', JStr (cq_workspace inp)),
         (''command'', JStr (cq_command inp)), (''request_id'', JStr (cq_request_id inp))]
         @ (case cq_timeout_ms inp of Some n \<Rightarrow> if n = 0 then [] else [(''timeout_ms'', jint n)] | None \<Rightarrow> [])
         @ truthy_field ''cwd'' (cq_workdir inp))))) (\<lambda>v.
     io_bind (parse_with parse_harness_command v) (\<lambda>command.
       if co_workspace command \<noteq> cq_workspace inp \<or> co_command command \<noteq> cq_command inp \<or> co_request_id command \<noteq> cq_request_id inp
       then io_lift (throw ''SourceNerve Harness command response does not match the request'')
       else io_return command))"

definition list_harness_approvals :: "'w manager_env \<Rightarrow> jstr \<Rightarrow> jstr option \<Rightarrow> int option \<Rightarrow> ('w, approval_view list) mgr" where
  "list_harness_approvals env runId st limit =
     io_bind (ask env (Approval ''/api/v1/harness/approvals/list'' (obj ([(''run_id'', JStr runId)] @ truthy_field ''status'' st
         @ [(''limit'', jint (case limit of Some n \<Rightarrow> n | None \<Rightarrow> 100))]))))
       (parse_with parse_harness_approval_list)"

definition respond_harness_approval :: "'w manager_env \<Rightarrow> jstr \<Rightarrow> jstr \<Rightarrow> ('w, approval_view \<times> bool) mgr" where
  "respond_harness_approval env approvalId decision =
     io_bind (ask env (Approval ''/api/v1/harness/approvals/respond'' (obj [(''approval_id'', JStr approvalId), (''decision'', JStr decision)])))
       (parse_with parse_harness_approval_respond)"

end
