(* ===== verification/Verified_Turn.thy ===== *)
theory Verified_Turn
  imports Manager_Base
begin

text \<open>
  The desktop task manager (\<^verbatim>\<open>task-manager.ts\<close>), second part: a Codex turn that the Harness core
  supervises. A turn is prepared (context routing and skill preflight), the preparation is
  consumed once, the execution runs between two lifecycle requests, a failed execution and a
  failed verification are each repaired at most twice, and the turn is returned only after a
  verification that passed.
\<close>

section \<open>Preparations\<close>

definition CODEX_TURN_PREPARATION_TTL_MS :: int where "CODEX_TURN_PREPARATION_TTL_MS = 5 * 60000"
definition MAX_CODEX_TURN_PREPARATIONS :: nat where "MAX_CODEX_TURN_PREPARATIONS = 64"
definition MAX_CODEX_ACTIVE_SKILLS :: nat where "MAX_CODEX_ACTIVE_SKILLS = 2"

text \<open>The loop that drops the oldest entries; an empty key would stop it.\<close>

fun drop_oldest :: "nat \<Rightarrow> (jstr \<times> 'v) list \<Rightarrow> (jstr \<times> 'v) list" where
  "drop_oldest cap [] = []"
| "drop_oldest cap ((k, v) # kvs) = (if cap \<le> Suc (length kvs) \<and> k \<noteq> [] then drop_oldest cap kvs else (k, v) # kvs)"

definition prune_prepared :: "int \<Rightarrow> (jstr \<times> prepared_turn) list \<Rightarrow> (jstr \<times> prepared_turn) list" where
  "prune_prepared now kvs =
     drop_oldest MAX_CODEX_TURN_PREPARATIONS
       (filter (\<lambda>kv. \<not> now - pt_created_at (snd kv) > CODEX_TURN_PREPARATION_TTL_MS) kvs)"

definition prune_prepared_codex_turns :: "'w manager_env \<Rightarrow> ('w, unit) mgr" where
  "prune_prepared_codex_turns env =
     io_bind (io_ext (me_now env ())) (\<lambda>now. io_modify (\<lambda>m. m\<lparr>tm_prepared := prune_prepared now (tm_prepared m)\<rparr>))"

definition strings_js :: "jstr list \<Rightarrow> js" where
  "strings_js xs = JArr (map JStr xs)"

definition skill_activity_js :: "skill_activity \<Rightarrow> js" where
  "skill_activity_js a = obj [(''npmSearches'', strings_js (sa_npm_searches a)), (''npmInstalled'', strings_js (sa_npm_installed a)),
     (''pluginAutoInstalled'', strings_js (sa_plugin_auto_installed a)), (''selectedSkillKeys'', strings_js (sa_selected a))]"

definition selected_skills :: "npm_preflight \<Rightarrow> skill_preflight option \<Rightarrow> jstr list" where
  "selected_skills npm plugin =
     take MAX_CODEX_ACTIVE_SKILLS (unique (np_active npm @ (case plugin of Some p \<Rightarrow> sp_active p | None \<Rightarrow> [])))"

definition activity_of :: "npm_preflight \<Rightarrow> skill_preflight option \<Rightarrow> skill_activity" where
  "activity_of npm plugin =
     \<lparr>sa_npm_searches = sorted_unique (np_searches npm), sa_npm_installed = sorted_unique (np_installed npm),
      sa_plugin_auto_installed = sorted_unique (case plugin of Some p \<Rightarrow> sp_auto_installed p | None \<Rightarrow> []),
      sa_selected = selected_skills npm plugin\<rparr>"

definition run_skill_preflight :: "'w manager_env \<Rightarrow> jstr \<Rightarrow> jstr \<Rightarrow> ('w, skill_preflight option) mgr" where
  "run_skill_preflight env workspace prompt =
     (case me_skills env of
        Some preflight \<Rightarrow> if me_needs_skills env prompt
          then io_bind (io_ext (preflight (workspace, prompt))) (\<lambda>p. io_return (Some p)) else io_return None
      | None \<Rightarrow> io_return None)"

text \<open>\<^verbatim>\<open>prepareHarnessCodexTurn\<close>; the result is the preparation id with the run and the activity.\<close>

definition prepare_harness_codex_turn :: "'w manager_env \<Rightarrow> jstr \<Rightarrow> jstr \<Rightarrow> ('w, run_view \<times> jstr \<times> skill_activity) mgr" where
  "prepare_harness_codex_turn env runId prompt =
     (if \<not> me_has_codex env then io_lift (throw ''Desktop Codex Harness runtime is not initialized'')
      else
        io_bind (get_harness_run env runId) (\<lambda>run.
        io_bind (route_harness_context env (rv_workspace run) (Some (rv_id run)) prompt True) (\<lambda>_.
          case me_npm env of
            None \<Rightarrow> io_lift (throw ''Mandatory npm Skills CLI preflight is not initialized'')
          | Some preflight \<Rightarrow>
              io_bind (io_ext (preflight (rv_workspace run, prompt))) (\<lambda>npm.
              io_bind (run_skill_preflight env (rv_workspace run) prompt) (\<lambda>plugin.
              io_bind (prune_prepared_codex_turns env) (\<lambda>_.
              io_bind (io_ext (me_uuid env ())) (\<lambda>preparationId.
              io_bind (io_ext (me_now env ())) (\<lambda>now.
              io_bind (io_modify (\<lambda>m. m\<lparr>tm_prepared := assoc_put preparationId
                  \<lparr>pt_run_id = rv_id run, pt_workspace = rv_workspace run, pt_prompt_hash = me_sha256 env prompt,
                   pt_skill_keys = selected_skills npm plugin, pt_activity = activity_of npm plugin, pt_created_at = now\<rparr>
                  (tm_prepared m)\<rparr>)) (\<lambda>_.
              io_bind (io_ext (me_emit env (StateEvent ''harness'' ''skills-selected'' (me_json env (obj [(''runId'', JStr (rv_id run)),
                  (''workspace'', JStr (rv_workspace run)), (''activity'', skill_activity_js (activity_of npm plugin))]))))) (\<lambda>_.
                io_return (run, preparationId, activity_of npm plugin)))))))))))"

definition take_prepared ::
    "'w manager_env \<Rightarrow> jstr \<Rightarrow> jstr \<Rightarrow> jstr \<Rightarrow> jstr \<Rightarrow> task_manager \<Rightarrow> (jstr list \<times> skill_activity) res \<times> task_manager" where
  "take_prepared env runId prompt preparationId workspace m =
     (case map_of (tm_prepared m) preparationId of
        None \<Rightarrow> (throw ''Codex turn skill preparation is missing or expired'', m)
      | Some p \<Rightarrow>
          (if pt_run_id p \<noteq> runId \<or> pt_workspace p \<noteq> workspace \<or> pt_prompt_hash p \<noteq> me_sha256 env prompt
           then throw ''Codex turn skill preparation no longer matches this prompt''
           else Inr (pt_skill_keys p, pt_activity p),
           m\<lparr>tm_prepared := assoc_del preparationId (tm_prepared m)\<rparr>))"

definition consume_at ::
    "'w manager_env \<Rightarrow> int \<Rightarrow> jstr \<Rightarrow> jstr \<Rightarrow> jstr \<Rightarrow> jstr \<Rightarrow> task_manager \<Rightarrow> (jstr list \<times> skill_activity) res \<times> task_manager" where
  "consume_at env now runId prompt preparationId workspace m =
     take_prepared env runId prompt preparationId workspace (m\<lparr>tm_prepared := prune_prepared now (tm_prepared m)\<rparr>)"

definition consume_prepared_codex_turn ::
    "'w manager_env \<Rightarrow> jstr \<Rightarrow> jstr \<Rightarrow> jstr \<Rightarrow> jstr \<Rightarrow> ('w, jstr list \<times> skill_activity) mgr" where
  "consume_prepared_codex_turn env runId prompt preparationId workspace =
     io_bind (io_ext (me_now env ())) (\<lambda>now. io_state (consume_at env now runId prompt preparationId workspace))"

section \<open>Verification\<close>

record native_verification =
  nv_run_id :: jstr
  nv_skipped :: bool
  nv_proof_type :: "jstr option"
  nv_proof_source :: "jstr option"
  nv_proof_command :: "jstr option"
  nv_success :: bool
  nv_exit_code :: "int option"
  nv_timed_out :: bool
  nv_stdout :: jstr
  nv_stderr :: jstr
  nv_truncated :: bool

definition NATIVE_VERIFICATION_TIMEOUT_MS :: int where "NATIVE_VERIFICATION_TIMEOUT_MS = 600000"

text \<open>\<^verbatim>\<open>[\u0000\r\n]\<close>.\<close>

definition metadata_text_ok :: "nat \<Rightarrow> jstr \<Rightarrow> bool" where
  "metadata_text_ok hi s \<longleftrightarrow> s \<noteq> [] \<and> length s \<le> hi \<and> \<not> list_ex (\<lambda>c. c = 0 \<or> c = 13 \<or> c = 10) s"

definition optional_metadata_text :: "js \<Rightarrow> nat \<Rightarrow> jstr option res" where
  "optional_metadata_text v hi =
     (if is_nullish v then Inr None
      else (case v of
          JStr s \<Rightarrow> if metadata_text_ok hi s then Inr (Some s) else throw ''SourceNerve native verification metadata is invalid''
        | _ \<Rightarrow> throw ''SourceNerve native verification metadata is invalid''))"

definition parse_native_verification :: "js \<Rightarrow> native_verification res" where
  "parse_native_verification v =
     and_then (case jget v ''run_id'' of
         JStr s \<Rightarrow> if \<not> is_record v \<or> s = [] \<or> length s > 128 then throw ''SourceNerve native verification response is invalid'' else Inr s
       | _ \<Rightarrow> throw ''SourceNerve native verification response is invalid'') (\<lambda>runId.
     and_then (case (jget v ''skipped'', jget v ''success'', jget v ''timed_out'', jget v ''truncated'') of
         (JBool a, JBool b, JBool c, JBool d) \<Rightarrow> Inr (a, b, c, d)
       | _ \<Rightarrow> throw ''SourceNerve native verification status is invalid'') (\<lambda>(skipped, success, timedOut, truncated).
     and_then (case (jget v ''stdout'', jget v ''stderr'') of
         (JStr out, JStr err) \<Rightarrow> if length out > 300000 \<or> length err > 300000
           then throw ''SourceNerve native verification output is invalid'' else Inr (out, err)
       | _ \<Rightarrow> throw ''SourceNerve native verification output is invalid'') (\<lambda>(out, err).
     and_then (if is_nullish (jget v ''exit_code'') then Inr None
       else (case safe_int (jget v ''exit_code'') of
           Some i \<Rightarrow> Inr (Some i) | None \<Rightarrow> throw ''SourceNerve native verification exit code is invalid'')) (\<lambda>exitCode.
     and_then (optional_metadata_text (jget v ''proof_type'') 64) (\<lambda>pt.
     and_then (optional_metadata_text (jget v ''proof_source'') 512) (\<lambda>ps.
     and_then (optional_metadata_text (jget v ''proof_command'') 1024) (\<lambda>pc.
       Inr \<lparr>nv_run_id = runId, nv_skipped = skipped, nv_proof_type = pt, nv_proof_source = ps, nv_proof_command = pc,
            nv_success = success, nv_exit_code = exitCode, nv_timed_out = timedOut, nv_stdout = out, nv_stderr = err,
            nv_truncated = truncated\<rparr>)))))))"

definition verification_call :: "jstr \<Rightarrow> client_call" where
  "verification_call runId = Harness ''/api/v1/harness/native/verification/run''
     (obj [(''run_id'', JStr runId), (''timeout_ms'', jint NATIVE_VERIFICATION_TIMEOUT_MS)])"

definition run_native_verification :: "'w manager_env \<Rightarrow> jstr \<Rightarrow> ('w, native_verification) mgr" where
  "run_native_verification env runId =
     io_bind (ask env (verification_call runId)) (\<lambda>v.
     io_bind (parse_with parse_native_verification v) (\<lambda>result.
       if nv_run_id result \<noteq> runId then io_lift (throw ''SourceNerve native verification run mismatch'')
       else io_return result))"

section \<open>Supervised execution\<close>

definition assert_native_lifecycle_response :: "'w manager_env \<Rightarrow> client_call \<Rightarrow> jstr \<Rightarrow> ('w, unit) mgr" where
  "assert_native_lifecycle_response env c runId =
     io_bind (ask env c) (\<lambda>v.
       if \<not> is_record v \<or> jget v ''run_id'' \<noteq> JStr runId
       then io_lift (throw ''SourceNerve native Harness lifecycle response is invalid'') else io_return ())"

definition start_call :: "jstr \<Rightarrow> client_call" where
  "start_call runId = Harness ''/api/v1/harness/native/execution/start'' (obj [(''run_id'', JStr runId)])"

definition finish_call :: "jstr \<Rightarrow> jstr option \<Rightarrow> client_call" where
  "finish_call runId failure = Harness ''/api/v1/harness/native/execution/finish''
     (obj ([(''run_id'', JStr runId), (''success'', JBool (failure = None))]
       @ (case failure of None \<Rightarrow> [] | Some e \<Rightarrow> [(''error_category'', jtext (category_name (native_failure_category e)))])))"

definition run_supervised_codex_execution :: "'w manager_env \<Rightarrow> codex_input \<Rightarrow> ('w, turn_view) mgr" where
  "run_supervised_codex_execution env inp =
     io_bind (assert_native_lifecycle_response env (start_call (cx_run_id inp)) (cx_run_id inp)) (\<lambda>_.
       io_catch
         (io_bind (io_ext (me_codex_run env inp)) (\<lambda>result.
          io_bind (assert_native_lifecycle_response env (finish_call (cx_run_id inp) None) (cx_run_id inp)) (\<lambda>_.
            io_return result)))
         (\<lambda>error.
          io_bind (io_ignore (assert_native_lifecycle_response env (finish_call (cx_run_id inp) (Some error)) (cx_run_id inp))) (\<lambda>_.
            io_lift (Inl error))))"

section \<open>Recovery\<close>

definition CODEX_HARNESS_INTERNAL_RECOVERY_PREFIX :: jstr where
  "CODEX_HARNESS_INTERNAL_RECOVERY_PREFIX = lit ''[[SOURCENERVE_HARNESS_RECOVERY]]''"

definition attempt_text :: "nat \<Rightarrow> jstr" where
  "attempt_text attempt = lit ''(recovery attempt '' @ show_nat attempt @ lit ''/'' @ show_nat MAX_CODEX_RECOVERY_ATTEMPTS @ lit '').''"

definition build_harness_execution_recovery_prompt :: "jstr \<Rightarrow> jstr \<Rightarrow> nat \<Rightarrow> jstr" where
  "build_harness_execution_recovery_prompt originalPrompt error attempt =
     bounded_recovery_text (join [10, 10]
       [CODEX_HARNESS_INTERNAL_RECOVERY_PREFIX,
        lit ''Harness observed a native Codex execution failure '' @ attempt_text attempt,
        lit ''Failure evidence: '' @ bounded_recovery_text (safe_error error) (4 * 1024),
        lit ''Original user request: '' @ bounded_recovery_text originalPrompt (8 * 1024),
        lit ''Recover the interrupted work in the same workspace and thread. Inspect the current repository state before changing anything, continue only the missing work, run relevant checks, and finish with a concise user-facing summary.''])
       MAX_RECOVERY_CONTEXT_BYTES"

definition first_text :: "jstr \<Rightarrow> jstr \<Rightarrow> jstr \<Rightarrow> jstr" where
  "first_text a b c = (if a \<noteq> [] then a else if b \<noteq> [] then b else c)"

definition build_harness_recovery_prompt :: "jstr \<Rightarrow> native_verification \<Rightarrow> nat \<Rightarrow> jstr" where
  "build_harness_recovery_prompt originalPrompt v attempt =
     bounded_recovery_text (join [10, 10] (filter (\<lambda>p. p \<noteq> [])
       [CODEX_HARNESS_INTERNAL_RECOVERY_PREFIX,
        lit ''Harness deterministic verification failed '' @ attempt_text attempt,
        (case nv_proof_command v of
           Some c \<Rightarrow> lit ''Required proof: '' @ c
         | None \<Rightarrow> (case nv_proof_type v of
             Some t \<Rightarrow> lit ''Required proof type: '' @ t
           | None \<Rightarrow> lit ''Required repository proof is unavailable.'')),
        (case nv_exit_code v of None \<Rightarrow> [] | Some n \<Rightarrow> lit ''Proof exit code: '' @ show_int n),
        (if nv_timed_out v then lit ''Proof timed out.'' else []),
        lit ''Failure evidence: '' @ bounded_recovery_text (first_text (nv_stderr v) (nv_stdout v) (lit ''No proof output was returned.'')) (8 * 1024),
        lit ''Original user request: '' @ bounded_recovery_text originalPrompt (8 * 1024),
        lit ''Recover the implementation rather than merely explaining the failure. Inspect the evidence, make the minimum necessary changes, run the relevant checks, and finish with a concise user-facing summary.'']))
       MAX_RECOVERY_CONTEXT_BYTES"

record codex_turn_input =
  ti_run_id :: jstr
  ti_prompt :: jstr
  ti_preparation_id :: "jstr option"
  ti_model :: "jstr option"

text \<open>The execution of a prompt for a run, with the selected skills; \<open>recovery\<close> marks the repairs.\<close>

definition execution_of :: "jstr \<Rightarrow> jstr list \<Rightarrow> jstr option \<Rightarrow> bool \<Rightarrow> jstr \<Rightarrow> codex_input" where
  "execution_of runId skillKeys model recovery prompt =
     \<lparr>cx_run_id = runId, cx_prompt = prompt, cx_skill_keys = skillKeys, cx_recovery = recovery,
      cx_model = (case model of Some [] \<Rightarrow> None | x \<Rightarrow> x)\<rparr>"

text \<open>
  The loop over the recovery attempts after a failed execution: the turn that succeeded, or the
  last error.
\<close>

fun recover_execution ::
    "'w manager_env \<Rightarrow> (bool \<Rightarrow> jstr \<Rightarrow> codex_input) \<Rightarrow> jstr \<Rightarrow> nat \<Rightarrow> nat \<Rightarrow> jstr \<Rightarrow> ('w, jstr + turn_view) mgr" where
  "recover_execution env exec prompt 0 attempt error = io_return (Inl error)"
| "recover_execution env exec prompt (Suc left) attempt error =
     io_bind (io_catch
         (io_bind (run_supervised_codex_execution env (exec True (build_harness_execution_recovery_prompt prompt error attempt)))
           (\<lambda>turn. io_return (Inr turn)))
         (\<lambda>e. io_return (Inl e)))
       (\<lambda>r. case r of
          Inr turn \<Rightarrow> io_return (Inr turn)
        | Inl e \<Rightarrow> if native_failure_category e = Denied then io_return (Inl e)
            else recover_execution env exec prompt left (Suc attempt) e)"

definition execute_with_recovery :: "'w manager_env \<Rightarrow> (bool \<Rightarrow> jstr \<Rightarrow> codex_input) \<Rightarrow> jstr \<Rightarrow> ('w, turn_view) mgr" where
  "execute_with_recovery env exec prompt =
     io_catch (run_supervised_codex_execution env (exec False prompt))
       (\<lambda>initialError.
          if native_failure_category initialError = Denied then io_lift (Inl initialError)
          else io_bind (recover_execution env exec prompt MAX_CODEX_RECOVERY_ATTEMPTS 1 initialError) (\<lambda>r.
            case r of
              Inr turn \<Rightarrow> io_return turn
            | Inl e \<Rightarrow> io_lift (Inl (lit ''Harness native execution recovery failed: '' @ bounded_recovery_text (safe_error e) 512))))"

text \<open>The loop over the repairs after a failed verification.\<close>

fun verify_with_recovery ::
    "'w manager_env \<Rightarrow> (bool \<Rightarrow> jstr \<Rightarrow> codex_input) \<Rightarrow> jstr \<Rightarrow> jstr \<Rightarrow> nat \<Rightarrow> nat \<Rightarrow> turn_view \<Rightarrow> native_verification
      \<Rightarrow> ('w, turn_view \<times> native_verification) mgr" where
  "verify_with_recovery env exec runId prompt 0 attempt turn v = io_return (turn, v)"
| "verify_with_recovery env exec runId prompt (Suc left) attempt turn v =
     (if nv_success v then io_return (turn, v)
      else
        io_bind (run_supervised_codex_execution env (exec True (build_harness_recovery_prompt prompt v attempt))) (\<lambda>turn'.
        io_bind (run_native_verification env runId) (\<lambda>v'.
          verify_with_recovery env exec runId prompt left (Suc attempt) turn' v')))"

definition verification_failure :: "native_verification \<Rightarrow> jstr" where
  "verification_failure v =
     lit ''Harness verification failed after recovery attempts (''
     @ (case nv_proof_command v of Some c \<Rightarrow> c | None \<Rightarrow> (case nv_proof_type v of Some t \<Rightarrow> t | None \<Rightarrow> lit ''repository proof''))
     @ lit ''): '' @ bounded_recovery_text (first_text (nv_stderr v) (nv_stdout v) (lit ''verification did not pass'')) 512"

definition finished_turn :: "jstr list \<Rightarrow> skill_activity \<Rightarrow> turn_view \<Rightarrow> turn_view" where
  "finished_turn skillKeys activity turn =
     turn\<lparr>tn_active_skills := (if tn_active_skills turn \<noteq> [] then tn_active_skills turn else skillKeys),
          tn_activity := Some (activity\<lparr>sa_selected := (if tn_active_skills turn \<noteq> [] then tn_active_skills turn else sa_selected activity)\<rparr>)\<rparr>"

text \<open>\<^verbatim>\<open>runHarnessCodexTurnVerified\<close>; the result is the turn with the verification that passed.\<close>

definition run_prepared_turn ::
    "'w manager_env \<Rightarrow> codex_turn_input \<Rightarrow> run_view \<Rightarrow> jstr list \<times> skill_activity \<Rightarrow> ('w, turn_view \<times> native_verification) mgr" where
  "run_prepared_turn env inp run prepared =
     (case prepared of (skillKeys, activity) \<Rightarrow>
        let exec = execution_of (rv_id run) skillKeys (ti_model inp) in
        io_bind (execute_with_recovery env exec (ti_prompt inp)) (\<lambda>result.
        io_bind (run_native_verification env (rv_id run)) (\<lambda>v0.
        io_bind (verify_with_recovery env exec (rv_id run) (ti_prompt inp) MAX_CODEX_RECOVERY_ATTEMPTS 1 result v0) (\<lambda>(turn, v).
          if \<not> nv_success v then io_lift (Inl (verification_failure v))
          else let t = finished_turn skillKeys activity turn in
            io_bind (io_ext (me_attach_thread env (rv_id run, tn_thread_id t))) (\<lambda>_. io_return (t, v))))))"

definition run_harness_codex_turn_verified :: "'w manager_env \<Rightarrow> codex_turn_input \<Rightarrow> ('w, turn_view \<times> native_verification) mgr" where
  "run_harness_codex_turn_verified env inp =
     (if \<not> me_has_codex env then io_lift (throw ''Desktop Codex Harness runtime is not initialized'')
      else
        io_bind (get_harness_run env (ti_run_id inp)) (\<lambda>run.
        io_bind (case ti_preparation_id inp of
            Some p \<Rightarrow> if p = [] then io_bind (prepare_harness_codex_turn env (ti_run_id inp) (ti_prompt inp)) (\<lambda>(_, p', _). io_return p')
              else io_return p
          | None \<Rightarrow> io_bind (prepare_harness_codex_turn env (ti_run_id inp) (ti_prompt inp)) (\<lambda>(_, p', _). io_return p')) (\<lambda>preparationId.
        io_bind (consume_prepared_codex_turn env (ti_run_id inp) (ti_prompt inp) preparationId (rv_workspace run))
          (run_prepared_turn env inp run))))"

definition run_harness_codex_turn :: "'w manager_env \<Rightarrow> codex_turn_input \<Rightarrow> ('w, turn_view) mgr" where
  "run_harness_codex_turn env inp = io_bind (run_harness_codex_turn_verified env inp) (\<lambda>(turn, _). io_return turn)"

section \<open>The calls of a turn\<close>

text \<open>The calls that supervise an execution, with the answers of the executions and verifications.\<close>

datatype turn_call = CStart | CFinish | CRun "turn_view res" | CVerify "js res" | COther

definition tag_client :: "client_call \<Rightarrow> js res \<Rightarrow> turn_call" where
  "tag_client c r =
     (case c of
        Harness path body \<Rightarrow>
          if path = ''/api/v1/harness/native/execution/start'' then CStart
          else if path = ''/api/v1/harness/native/execution/finish'' then CFinish
          else if path = ''/api/v1/harness/native/verification/run'' then CVerify r
          else COther
      | _ \<Rightarrow> COther)"

definition logged_env :: "'w manager_env \<Rightarrow> ('w \<times> turn_call list) manager_env" where
  "logged_env env =
     (unlogged_env env)\<lparr>me_client := logged_with tag_client (me_client env), me_codex_run := logged_with (\<lambda>_. CRun) (me_codex_run env)\<rparr>"

lemma logged_env_simps [simp]:
  "me_client (logged_env env) = logged_with tag_client (me_client env)"
  "me_has_codex (logged_env env) = me_has_codex env"
  "me_codex_run (logged_env env) = logged_with (\<lambda>_. CRun) (me_codex_run env)"
  "me_codex_release (logged_env env) = unlogged (me_codex_release env)"
  "me_npm (logged_env env) = map_option unlogged (me_npm env)"
  "me_skills (logged_env env) = map_option unlogged (me_skills env)"
  "me_needs_skills (logged_env env) = me_needs_skills env"
  "me_attach_thread (logged_env env) = unlogged (me_attach_thread env)"
  "me_emit (logged_env env) = unlogged (me_emit env)"
  "me_uuid (logged_env env) = unlogged (me_uuid env)"
  "me_now (logged_env env) = unlogged (me_now env)"
  "me_timestamp (logged_env env) = unlogged (me_timestamp env)"
  "me_record_message (logged_env env) = unlogged (me_record_message env)"
  "me_has_review (logged_env env) = me_has_review env"
  "me_review_begin (logged_env env) = unlogged (me_review_begin env)"
  "me_review_review (logged_env env) = unlogged (me_review_review env)"
  "me_review_direct (logged_env env) = unlogged (me_review_direct env)"
  "me_review_cancel (logged_env env) = (\<lambda>t wl. (me_review_cancel env t (fst wl), snd wl))"
  by (simp_all add: logged_env_def unlogged_env_def)

text \<open>
  A trace is supervised when it is made of blocks: other calls and verifications, an execution
  that the core did not let start, and an execution between its start and its finish (the finish
  is sent a second time when the answer to the first is not what the core promises).
\<close>

definition block :: "turn_call list \<Rightarrow> bool" where
  "block b \<longleftrightarrow> b = [COther] \<or> (\<exists>r. b = [CVerify r]) \<or> b = [CStart]
     \<or> (\<exists>r. b = [CStart, CRun r, CFinish] \<or> b = [CStart, CRun r, CFinish, CFinish])"

definition supervised :: "turn_call list \<Rightarrow> bool" where
  "supervised l \<longleftrightarrow> (\<exists>bs. l = concat bs \<and> list_all block bs)"

lemma supervised_Nil: "supervised []"
  unfolding supervised_def by (rule exI [of _ "[]"]) simp

lemma supervised_block: "block b \<Longrightarrow> supervised b"
  unfolding supervised_def by (rule exI [of _ "[b]"]) simp

lemma supervised_append: "supervised a \<Longrightarrow> supervised b \<Longrightarrow> supervised (a @ b)"
  unfolding supervised_def by (metis concat_append list_all_append)

text \<open>The answers of the executions, and whether one of them was a denial.\<close>

fun run_answer :: "turn_call \<Rightarrow> turn_view res list" where
  "run_answer (CRun r) = [r]"
| "run_answer _ = []"

definition runs :: "turn_call list \<Rightarrow> turn_view res list" where
  "runs l = concat (map run_answer l)"

definition denied :: "turn_view res \<Rightarrow> bool" where
  "denied r \<longleftrightarrow> (case r of Inl e \<Rightarrow> native_failure_category e = Denied | Inr _ \<Rightarrow> False)"

lemma runs_simps [simp]: "runs [] = []" "runs (c # l) = run_answer c @ runs l" "runs (a @ b) = runs a @ runs b"
  by (simp_all add: runs_def)

lemma runs_other: "list_all (\<lambda>c. c = COther) l \<Longrightarrow> runs l = []"
  by (induction l) auto

lemma supervised_other: "list_all (\<lambda>c. c = COther) l \<Longrightarrow> supervised l"
proof (induction l)
  case (Cons c l)
  have "supervised [COther]" by (rule supervised_block) (simp add: block_def)
  from supervised_append [OF this, of l] Cons show ?case by simp
qed (rule supervised_Nil)

text \<open>Every execution but the last was not denied.\<close>

definition denial_ends :: "turn_call list \<Rightarrow> bool" where
  "denial_ends l \<longleftrightarrow> list_all (\<lambda>r. \<not> denied r) (butlast (runs l))"

definition clean :: "turn_call list \<Rightarrow> bool" where
  "clean l \<longleftrightarrow> list_all (\<lambda>r. \<not> denied r) (runs l)"

lemma denial_ends_append: "clean a \<Longrightarrow> denial_ends b \<Longrightarrow> denial_ends (a @ b)"
  unfolding clean_def denial_ends_def by (auto simp: butlast_append list_all_iff dest: in_set_butlastD)

lemma clean_append [simp]: "clean (a @ b) \<longleftrightarrow> clean a \<and> clean b"
  by (simp add: clean_def)

lemma clean_denial_ends: "clean l \<Longrightarrow> denial_ends l"
  unfolding clean_def denial_ends_def by (auto simp: list_all_iff dest: in_set_butlastD)

text \<open>What a part of a turn may do: at most \<open>n\<close> executions, supervised, none after a denial.\<close>

definition governed :: "nat \<Rightarrow> turn_call list \<Rightarrow> bool" where
  "governed n l \<longleftrightarrow> supervised l \<and> length (runs l) \<le> n \<and> denial_ends l"

lemma supervision_append: "governed a x \<Longrightarrow> clean x \<Longrightarrow> governed b y \<Longrightarrow> governed (a + b) (x @ y)"
  by (simp add: governed_def supervised_append denial_ends_append)

lemma governed_Suc: "governed (Suc 0) x \<Longrightarrow> clean x \<Longrightarrow> governed n y \<Longrightarrow> governed (Suc n) (x @ y)"
  using supervision_append [of "Suc 0" x n y] by simp

lemma governed_mono: "governed a x \<Longrightarrow> a \<le> b \<Longrightarrow> governed b x"
  by (simp add: governed_def)

lemma supervision_Nil [simp]: "governed n []" "clean []"
  by (simp_all add: governed_def supervised_Nil denial_ends_def clean_def)

lemma governed_other: "list_all (\<lambda>c. c = COther) l \<Longrightarrow> governed n l \<and> clean l"
  by (simp add: governed_def supervised_other runs_other denial_ends_def clean_def)

subsection \<open>Calls that are not executions\<close>

definition other :: "turn_call list \<Rightarrow> bool" where
  "other l \<longleftrightarrow> list_all (\<lambda>c. c = COther) l"

lemma other_simps [simp]: "other []" "other (a @ b) \<longleftrightarrow> other a \<and> other b"
  by (simp_all add: other_def)

lemma calls_ask:
  "(\<And>r. tag_client c r = COther) \<Longrightarrow> calls env_log other (ask (logged_env env) c)"
  unfolding calls_def ask_def by (auto simp: other_def intro!: traces_ext traces_logged_with)

lemma calls_unlogged: "calls env_log other (io_ext (unlogged f i))"
  unfolding calls_def by (auto intro!: traces_ext traces_unlogged)

lemma calls_state: "calls env_log other (io_state f)" "calls env_log other (io_modify g)" "calls env_log other (io_gets h)"
  unfolding calls_def io_modify_def io_gets_def by (auto intro!: traces_state)

lemma calls_other_bind: "calls env_log other m \<Longrightarrow> (\<And>a. calls env_log other (f a)) \<Longrightarrow> calls env_log other (io_bind m f)"
  by (rule calls_bind) auto

lemma calls_other_simps: "calls env_log other (io_lift r)" "calls env_log other (io_return a)" "calls env_log other (parse_with p v)"
  by (simp_all add: calls_lift calls_return parse_with_def)

lemma calls_release: "calls env_log other (release_terminal_codex_runs (logged_env env) rs)"
  unfolding release_terminal_codex_runs_def
  by (auto intro!: calls_each calls_ignore calls_unlogged simp: calls_other_simps)

lemmas calls_intros = calls_other_bind calls_ask calls_unlogged calls_state calls_other_simps calls_release

lemma calls_get_run: "calls env_log other (get_harness_run (logged_env env) runId)"
  unfolding get_harness_run_def by (intro calls_intros) (simp add: tag_client_def)

lemma calls_route: "calls env_log other (route_harness_context (logged_env env) ws r q s)"
  unfolding route_harness_context_def by (intro calls_intros) (auto simp: tag_client_def calls_other_simps)

lemma calls_prune: "calls env_log other (prune_prepared_codex_turns (logged_env env))"
  unfolding prune_prepared_codex_turns_def by (simp add: calls_intros)

lemma calls_skills: "calls env_log other (run_skill_preflight (logged_env env) ws p)"
  unfolding run_skill_preflight_def by (auto intro!: calls_intros split: option.splits)

lemma calls_prepare: "calls env_log other (prepare_harness_codex_turn (logged_env env) runId prompt)"
  unfolding prepare_harness_codex_turn_def
  by (auto intro!: calls_intros calls_get_run calls_route calls_prune calls_skills split: option.splits)

lemma calls_consume: "calls env_log other (consume_prepared_codex_turn (logged_env env) r p i ws)"
  unfolding consume_prepared_codex_turn_def by (simp add: calls_intros)

subsection \<open>Executions and verifications\<close>

lemma traces_lifecycle:
  assumes "\<And>r. tag_client c r = t"
  shows "traces env_log (assert_native_lifecycle_response (logged_env env) c runId) (\<lambda>new r. new = [t])"
  unfolding assert_native_lifecycle_response_def ask_def
  by (rule traces_bind [where ?R1.0 = "\<lambda>new r. new = [t]" and ?R2.0 = "\<lambda>a new r. new = []"])
    (auto simp: assms intro!: traces_ext traces_logged_with traces_return)

text \<open>A supervised execution is one block; a denial that the runtime reports is the error it throws.\<close>

definition execution_trace :: "turn_call list \<Rightarrow> 'a res \<Rightarrow> bool" where
  "execution_trace new r \<longleftrightarrow> governed (Suc 0) new \<and> (clean new \<or> (\<exists>e. r = Inl e \<and> native_failure_category e = Denied))"

lemma traces_execution: "traces env_log (run_supervised_codex_execution (logged_env env) inp) execution_trace"
proof -
  have tags: "tag_client (start_call x) r = CStart" "tag_client (finish_call x f) r = CFinish" for x f r
    by (simp_all add: tag_client_def start_call_def finish_call_def)
  have inner: "traces env_log
      (io_bind (io_ext (me_codex_run (logged_env env) inp)) (\<lambda>result.
        io_bind (assert_native_lifecycle_response (logged_env env) (finish_call (cx_run_id inp) None) (cx_run_id inp)) (\<lambda>_. io_return result)))
      (\<lambda>new r. (\<exists>e. new = [CRun (Inl e)] \<and> r = Inl e) \<or> (\<exists>t. new = [CRun (Inr t), CFinish]))"
    by (rule traces_bind [where ?R1.0 = "\<lambda>new r. new = [CRun r]" and ?R2.0 = "\<lambda>a new r. new = [CFinish]"])
      (auto intro!: traces_ext traces_logged_with
        traces_bind [where ?R1.0 = "\<lambda>new r. new = [CFinish]" and ?R2.0 = "\<lambda>a new r. new = []"] traces_lifecycle traces_return
        simp: tags)
  have handler: "traces env_log
      (io_bind (io_ignore (assert_native_lifecycle_response (logged_env env) (finish_call (cx_run_id inp) (Some e)) (cx_run_id inp)))
        (\<lambda>_. io_lift (Inl e))) (\<lambda>new r. new = [CFinish] \<and> r = Inl e)" for e :: jstr
    by (rule traces_bind [where ?R1.0 = "\<lambda>new r. new = [CFinish] \<and> r = Inr ()" and ?R2.0 = "\<lambda>a new r. new = [] \<and> r = Inl e"])
      (auto intro!: traces_ignore [where R = "\<lambda>new r. new = [CFinish]"] traces_lifecycle simp: tags)
  let ?body = "\<lambda>new r. (\<exists>e. new = [CRun (Inl e), CFinish] \<and> r = Inl e) \<or> (\<exists>t. new = [CRun (Inr t), CFinish] \<or> new = [CRun (Inr t), CFinish, CFinish])"
  have body: "traces env_log (io_catch
        (io_bind (io_ext (me_codex_run (logged_env env) inp)) (\<lambda>result.
          io_bind (assert_native_lifecycle_response (logged_env env) (finish_call (cx_run_id inp) None) (cx_run_id inp)) (\<lambda>_. io_return result)))
        (\<lambda>e. io_bind (io_ignore (assert_native_lifecycle_response (logged_env env) (finish_call (cx_run_id inp) (Some e)) (cx_run_id inp)))
          (\<lambda>_. io_lift (Inl e)))) ?body"
    by (rule traces_catch [OF inner handler]) auto
  have shape: "traces env_log (run_supervised_codex_execution (logged_env env) inp)
      (\<lambda>new r. new = [CStart] \<or> (\<exists>n. new = CStart # n \<and> ?body n r))"
    unfolding run_supervised_codex_execution_def
    by (rule traces_bind [OF traces_lifecycle [where t = CStart, OF tags(1)] body]) auto
  then show ?thesis
    by (rule traces_weaken)
      (auto simp: execution_trace_def governed_def clean_def denial_ends_def denied_def block_def intro!: supervised_block)
qed

definition verification_trace :: "turn_call list \<Rightarrow> native_verification res \<Rightarrow> bool" where
  "verification_trace new r \<longleftrightarrow> (\<exists>a. new = [CVerify a] \<and>
     (\<forall>v. r = Inr v \<longrightarrow> (\<exists>x. a = Inr x \<and> parse_native_verification x = Inr v)))"

lemma traces_verification: "traces env_log (run_native_verification (logged_env env) runId) verification_trace"
proof -
  have inner: "traces env_log (io_bind (io_lift (parse_native_verification x)) (\<lambda>result.
       if nv_run_id result \<noteq> runId then io_lift (throw ''SourceNerve native verification run mismatch'') else io_return result))
      (\<lambda>new r. new = [] \<and> (\<forall>v. r = Inr v \<longrightarrow> parse_native_verification x = Inr v))" for x
    by (rule traces_bind [where ?R1.0 = "\<lambda>new r. new = [] \<and> r = parse_native_verification x"
          and ?R2.0 = "\<lambda>v new r. new = [] \<and> (\<forall>w. r = Inr w \<longrightarrow> w = v)"]) (auto intro: traces_return)
  show ?thesis
    unfolding run_native_verification_def ask_def parse_with_def
    by (rule traces_bind [where ?R1.0 = "\<lambda>new r. new = [CVerify r]", OF _ inner])
      (auto simp: verification_trace_def tag_client_def verification_call_def intro!: traces_ext traces_logged_with)
qed

lemma governed_verify [simp]:
  "governed n [CVerify a]" "clean (CVerify a # l) \<longleftrightarrow> clean l" "governed n l \<Longrightarrow> governed n (CVerify a # l)"
proof -
  have b: "supervised [CVerify a]" by (rule supervised_block) (simp add: block_def)
  then show "governed n [CVerify a]" by (simp add: governed_def denial_ends_def)
  show "clean (CVerify a # l) \<longleftrightarrow> clean l" by (simp add: clean_def)
  show "governed n l \<Longrightarrow> governed n (CVerify a # l)"
    using supervised_append [OF b, of l] by (simp add: governed_def denial_ends_def)
qed

subsection \<open>Recovery\<close>

lemma traces_recover:
  "traces env_log (recover_execution (logged_env env) exec prompt left attempt e)
     (\<lambda>new r. governed left new \<and> (\<exists>x. r = Inr x \<and> (clean new \<or> (\<exists>e'. x = Inl e'))))"
proof (induction left arbitrary: attempt e)
  case 0
  show ?case unfolding recover_execution.simps by (rule traces_return) simp
next
  case (Suc left)
  let ?once = "\<lambda>new r. governed (Suc 0) new \<and> (\<exists>x. r = Inr x \<and> (clean new \<or> (\<exists>e'. x = Inl e' \<and> native_failure_category e' = Denied)))"
  have once: "traces env_log (io_catch
         (io_bind (run_supervised_codex_execution (logged_env env) i) (\<lambda>turn. io_return (Inr turn))) (\<lambda>e. io_return (Inl e)))
       ?once" for i
    by (rule traces_catch [where ?R1.0 = execution_trace and ?R2.0 = "\<lambda>e' new r. new = [] \<and> r = Inr (Inl e')"])
      (auto intro!: traces_bind [where ?R1.0 = execution_trace and ?R2.0 = "\<lambda>t new r. new = [] \<and> r = Inr (Inr t)"]
        traces_execution traces_return simp: execution_trace_def)
  show ?case
    unfolding recover_execution.simps
    by (rule traces_bind [OF once, where ?R2.0 = "\<lambda>x new r. case x of
          Inr t \<Rightarrow> new = [] \<and> r = Inr (Inr t)
        | Inl e' \<Rightarrow> if native_failure_category e' = Denied then new = [] \<and> r = Inr (Inl e')
            else governed left new \<and> (\<exists>y. r = Inr y \<and> (clean new \<or> (\<exists>e'. y = Inl e')))"])
      (auto intro!: traces_return Suc.IH split: sum.splits if_splits intro: governed_mono governed_Suc)
qed

definition turn_trace :: "nat \<Rightarrow> turn_call list \<Rightarrow> 'a res \<Rightarrow> bool" where
  "turn_trace n new r \<longleftrightarrow> governed n new \<and> (clean new \<or> (\<exists>e. r = Inl e))"

lemma traces_execute_with_recovery:
  "traces env_log (execute_with_recovery (logged_env env) exec prompt) (turn_trace 3)"
proof -
  have rec: "traces env_log
      (if native_failure_category e = Denied then io_lift (Inl e)
       else io_bind (recover_execution (logged_env env) exec prompt MAX_CODEX_RECOVERY_ATTEMPTS 1 e) (\<lambda>r.
            case r of
              Inr turn \<Rightarrow> io_return turn
            | Inl e \<Rightarrow> io_lift (Inl (lit ''Harness native execution recovery failed: '' @ bounded_recovery_text (safe_error e) 512))))
      (\<lambda>new r. turn_trace 2 new r \<and> (native_failure_category e = Denied \<longrightarrow> new = [] \<and> r = Inl e))" for e
    unfolding MAX_CODEX_RECOVERY_ATTEMPTS_def
    by (auto simp: turn_trace_def split: sum.splits intro!: traces_return
        traces_bind [OF traces_recover, where ?R2.0 = "\<lambda>x new r. new = [] \<and> (case x of Inr t \<Rightarrow> r = Inr t | Inl e' \<Rightarrow> \<exists>e''. r = Inl e'')"])
  show ?thesis
    unfolding execute_with_recovery_def
    by (rule traces_catch [OF traces_execution rec])
      (auto simp: turn_trace_def execution_trace_def numeral_3_eq_3 numeral_2_eq_2 intro: governed_mono governed_Suc)
qed

text \<open>The repairs after a failed verification: the turn they return was verified last.\<close>

definition verified_last :: "turn_call list \<Rightarrow> native_verification \<Rightarrow> bool" where
  "verified_last l v \<longleftrightarrow> (\<exists>pre x. l = pre @ [CVerify (Inr x)] \<and> parse_native_verification x = Inr v)"

lemma verified_last_append: "verified_last b v \<Longrightarrow> verified_last (a @ b) v"
  unfolding verified_last_def by (metis append_assoc)

lemma traces_verify_with_recovery:
  "traces env_log (verify_with_recovery (logged_env env) exec runId prompt left attempt turn v)
     (\<lambda>new r. turn_trace left new r \<and> (\<forall>t v'. r = Inr (t, v') \<longrightarrow> (new = [] \<and> v' = v) \<or> verified_last new v'))"
proof (induction left arbitrary: attempt turn v)
  case 0
  show ?case unfolding verify_with_recovery.simps by (rule traces_return) (simp add: turn_trace_def)
next
  case (Suc left)
  let ?R = "\<lambda>v new r. turn_trace left new r \<and> (\<forall>t v'. r = Inr (t, v') \<longrightarrow> (new = [] \<and> v' = v) \<or> verified_last new v')"
  have inner: "traces env_log (io_bind (run_native_verification (logged_env env) runId) (\<lambda>v'.
        verify_with_recovery (logged_env env) exec runId prompt left (Suc attempt) t v'))
      (\<lambda>new r. turn_trace left new r \<and> (\<forall>t v'. r = Inr (t, v') \<longrightarrow> verified_last new v'))" for t
    by (rule traces_bind [OF traces_verification Suc.IH])
      (auto simp: turn_trace_def verification_trace_def verified_last_def)
  show ?case
    unfolding verify_with_recovery.simps
    by (auto intro!: traces_return traces_bind [OF traces_execution inner] verified_last_append
        simp: turn_trace_def execution_trace_def intro: governed_mono governed_Suc)
qed

section \<open>Properties\<close>

lemma other_governed: "other l \<Longrightarrow> governed n l \<and> clean l"
  unfolding other_def by (rule governed_other)

definition relevant :: "turn_call \<Rightarrow> bool" where
  "relevant c \<longleftrightarrow> c \<noteq> COther"

lemma filter_other: "other l \<Longrightarrow> filter relevant l = []"
  by (auto simp: other_def relevant_def list_all_iff filter_empty_conv)

text \<open>The whole turn: at most five executions, and what is returned was verified last.\<close>

definition verified_turn_trace :: "turn_call list \<Rightarrow> (turn_view \<times> native_verification) res \<Rightarrow> bool" where
  "verified_turn_trace new r \<longleftrightarrow> governed 5 new \<and> (\<forall>t v. r = Inr (t, v) \<longrightarrow> nv_success v
     \<and> (\<exists>x. filter relevant new \<noteq> [] \<and> last (filter relevant new) = CVerify (Inr x) \<and> parse_native_verification x = Inr v))"

lemma traces_attach: "traces env_log (io_bind (io_ext (unlogged (me_attach_thread env) i)) (\<lambda>_. io_return tv)) (\<lambda>new r. new = [] \<and> (\<forall>x. r = Inr x \<longrightarrow> x = tv))"
  by (rule traces_bind [where ?R1.0 = "\<lambda>new r. new = []" and ?R2.0 = "\<lambda>a new r. new = [] \<and> (\<forall>x. r = Inr x \<longrightarrow> x = tv)"])
    (auto intro!: traces_ext traces_unlogged traces_return)

lemma verified_last_relevant:
  "verified_last l v \<Longrightarrow> filter relevant l \<noteq> [] \<and> (\<exists>x. last (pre @ filter relevant l) = CVerify (Inr x) \<and> parse_native_verification x = Inr v)"
  by (auto simp: verified_last_def relevant_def)

lemma traces_run_prepared: "traces env_log (run_prepared_turn (logged_env env) inp run prepared) verified_turn_trace"
proof -
  obtain skillKeys activity where p: "prepared = (skillKeys, activity)" by (cases prepared)
  let ?e = "execution_of (rv_id run) skillKeys (ti_model inp)"
  let ?last = "\<lambda>(turn, v). if \<not> nv_success v then io_lift (Inl (verification_failure v))
          else let t = finished_turn skillKeys activity turn in
            io_bind (io_ext (me_attach_thread (logged_env env) (rv_id run, tn_thread_id t))) (\<lambda>_. io_return (t, v))"
  have last: "traces env_log (?last tv) (\<lambda>new r. new = [] \<and> (\<forall>t v. r = Inr (t, v) \<longrightarrow> nv_success v \<and> v = snd tv))" for tv
    by (cases tv) (auto simp: Let_def intro!: traces_weaken [OF traces_attach])
  have rest: "traces env_log (io_bind (verify_with_recovery (logged_env env) ?e (rv_id run) (ti_prompt inp) MAX_CODEX_RECOVERY_ATTEMPTS 1 result v0) ?last)
      (\<lambda>new r. governed 2 new \<and> (\<forall>t v. r = Inr (t, v) \<longrightarrow> nv_success v \<and> ((new = [] \<and> v = v0) \<or> verified_last new v)))" for result v0
    unfolding MAX_CODEX_RECOVERY_ATTEMPTS_def
    by (rule traces_bind [OF traces_verify_with_recovery last]) (auto simp: turn_trace_def)
  have verified: "traces env_log (io_bind (run_native_verification (logged_env env) (rv_id run)) (\<lambda>v0.
        io_bind (verify_with_recovery (logged_env env) ?e (rv_id run) (ti_prompt inp) MAX_CODEX_RECOVERY_ATTEMPTS 1 result v0) ?last))
      (\<lambda>new r. governed 2 new \<and> (\<forall>t v. r = Inr (t, v) \<longrightarrow> nv_success v \<and> verified_last new v))" for result
    by (rule traces_bind [OF traces_verification rest]) (auto simp: verification_trace_def verified_last_def)
  show ?thesis
    unfolding run_prepared_turn_def p prod.case Let_def [of ?e]
    by (rule traces_bind [OF traces_execute_with_recovery verified])
      (auto simp: verified_turn_trace_def turn_trace_def verified_last_relevant intro: governed_mono dest: supervision_append [of 3 _ 2])
qed

lemma traces_after_other:
  assumes "calls env_log other m" "\<And>a. traces env_log (f a) verified_turn_trace"
  shows "traces env_log (io_bind m f) verified_turn_trace"
  by (rule traces_bind [OF assms(1) [unfolded calls_def] assms(2)])
    (auto simp: verified_turn_trace_def filter_other dest!: other_governed [of _ 0] intro: governed_mono dest: supervision_append [of 0 _ 5])

lemma traces_verified_turn: "traces env_log (run_harness_codex_turn_verified (logged_env env) inp) verified_turn_trace"
  unfolding run_harness_codex_turn_verified_def
  by (auto intro!: traces_after_other traces_run_prepared calls_get_run calls_consume calls_prepare calls_intros
      simp: verified_turn_trace_def split: option.splits)

text \<open>
  C4: A turn is supervised, bounded and verified, whatever the core, the runtime and the preflights
  answer. However the call ends: every execution of the runtime was announced to the core
  immediately before and its end reported immediately after; there were at most five
  executions, the first and at most two repairs each for a failed execution and a failed
  verification; and nothing was executed after an execution that was denied. And if the call
  returns a turn, then the last thing it did in supervision was a verification whose answer
  says that it passed.
\<close>

theorem verified_turn:
  assumes "run_harness_codex_turn_verified (logged_env env) inp ((w, []), m) = (r, ((w', l), m'))"
  shows "supervised l \<and> length (runs l) \<le> 5 \<and> list_all (\<lambda>a. \<not> denied a) (butlast (runs l))
    \<and> (\<forall>t v. r = Inr (t, v) \<longrightarrow> nv_success v
         \<and> (\<exists>x. last (filter relevant l) = CVerify (Inr x) \<and> parse_native_verification x = Inr v))"
  using tracesD [OF traces_verified_turn assms] by (auto simp: verified_turn_trace_def governed_def denial_ends_def)

subsection \<open>A run\<close>

definition demo_turn_view :: turn_view where
  "demo_turn_view = \<lparr>tn_run_id = lit ''r'', tn_workspace = lit ''w'', tn_thread_id = lit ''t'', tn_turn_id = lit ''1'', tn_status = lit ''completed'',
     tn_response = None, tn_resumed = False, tn_recovered = False, tn_active_skills = [], tn_activity = None\<rparr>"

definition demo_route_js :: js where
  "demo_route_js = JObj [(lit ''surfaces'', JArr []), (lit ''workspace'', jtext ''w''), (lit ''retrieve'', JBool False),
     (lit ''route'', jtext ''none''), (lit ''search_query'', jtext ''q''), (lit ''reason'', jtext ''x'')]"

definition demo_verification_js :: js where
  "demo_verification_js = JObj [(lit ''run_id'', jtext ''r''), (lit ''skipped'', JBool False), (lit ''success'', JBool True),
     (lit ''timed_out'', JBool False), (lit ''truncated'', JBool False), (lit ''stdout'', JStr []), (lit ''stderr'', JStr [])]"

definition demo_client :: "client_call \<Rightarrow> (unit, js) io" where
  "demo_client c = io_return
     (case c of
        Harness path body \<Rightarrow>
          if path = ''/api/v1/harness/runs/get'' then demo_run_js
          else if path = ''/api/v1/harness/context/route'' then demo_route_js
          else if path = ''/api/v1/harness/native/verification/run'' then demo_verification_js
          else JObj [(lit ''run_id'', jtext ''r'')]
      | _ \<Rightarrow> JNull)"

definition demo_manager_env :: "unit manager_env" where
  "demo_manager_env =
     (client_env demo_client)\<lparr>me_has_codex := True, me_codex_run := \<lambda>_. io_return demo_turn_view,
       me_npm := Some (\<lambda>_. io_return \<lparr>np_active = [], np_installed = [], np_searches = []\<rparr>)\<rparr>"

definition demo_turn_input :: codex_turn_input where
  "demo_turn_input = \<lparr>ti_run_id = lit ''r'', ti_prompt = lit ''q'', ti_preparation_id = None, ti_model = None\<rparr>"

lemmas io_eval = io_bind_def io_ext_def io_state_def io_modify_def io_gets_def io_catch_def io_ignore_def logged_with_def unlogged_def
  ask_def parse_with_def

lemma demo_env_fields [simp]:
  "me_has_codex demo_manager_env" "me_client demo_manager_env = demo_client" "me_npm demo_manager_env = Some (\<lambda>_. io_return \<lparr>np_active = [], np_installed = [], np_searches = []\<rparr>)"
  "me_skills demo_manager_env = None" "me_uuid demo_manager_env u = io_return (lit ''u'')" "me_now demo_manager_env u = io_return 0"
  "me_emit demo_manager_env e = io_return ()" "me_codex_run demo_manager_env i = io_return demo_turn_view"
  "me_attach_thread demo_manager_env x = io_return ()" "me_sha256 demo_manager_env = id"
  by (simp_all add: demo_manager_env_def client_env_def)

lemma demo_get_run:
  "\<exists>run. rv_id run = lit ''r'' \<and> rv_workspace run = lit ''w'' \<and> (\<forall>l m. get_harness_run (logged_env demo_manager_env) (lit ''r'') (((), l), m)
     = (Inr run, (((), l @ [COther]), m)))"
proof -
  obtain run where run: "parse_harness_run_snapshot demo_run_js = Inr run" "rv_id run = lit ''r''" "rv_workspace run = lit ''w''" "rv_status run = lit ''running''"
    using demo_run by auto
  then have "get_harness_run (logged_env demo_manager_env) (lit ''r'') (((), l), m) = (Inr run, (((), l @ [COther]), m))" for l m
    by (simp add: get_harness_run_def release_terminal_codex_runs_def io_eval demo_client_def tag_client_def)
  with run show ?thesis by blast
qed

lemma demo_route:
  "\<exists>v. route_harness_context (logged_env demo_manager_env) (lit ''w'') r q True (((), l), m) = (Inr v, (((), l @ [COther]), m))"
proof -
  have "\<exists>v. parse_harness_context_route demo_route_js (Some q) = Inr v \<and> cr_workspace v = lit ''w''" for q
    by (simp add: parse_harness_context_route_def demo_route_js_def harness_eval harness_text_def is_bounded_safe_text_def
        length_within_def boolean_value_def context_route_of_def context_search_query_def bounded_context_query_def hidden_control_def
        has_control_def is_control_def lit_def unit_bytes_def between_def)
  then obtain v where "parse_harness_context_route demo_route_js (Some q) = Inr v" "cr_workspace v = lit ''w''" by blast
  then show ?thesis
    by (simp add: route_harness_context_def io_eval demo_client_def tag_client_def)
qed

lemma demo_prepared:
  assumes "rv_id run = lit ''r''" "rv_workspace run = lit ''w''"
    "\<And>l m. get_harness_run (logged_env demo_manager_env) (lit ''r'') (((), l), m) = (Inr run, (((), l @ [COther]), m))"
  shows "\<exists>act p. prepare_harness_codex_turn (logged_env demo_manager_env) (lit ''r'') (lit ''q'') (((), l), new_task_manager)
      = (Inr (run, lit ''u'', act), (((), l @ [COther, COther]), new_task_manager\<lparr>tm_prepared := [(lit ''u'', p)]\<rparr>))
    \<and> pt_run_id p = lit ''r'' \<and> pt_workspace p = lit ''w'' \<and> pt_prompt_hash p = lit ''q'' \<and> pt_created_at p = 0"
proof -
  obtain v where "route_harness_context (logged_env demo_manager_env) (lit ''w'') (Some (lit ''r'')) (lit ''q'') True (((), l @ [COther]), new_task_manager)
      = (Inr v, (((), (l @ [COther]) @ [COther]), new_task_manager))"
    using demo_route by blast
  with assms show ?thesis
    by (simp add: prepare_harness_codex_turn_def run_skill_preflight_def prune_prepared_codex_turns_def prune_prepared_def
        io_eval new_task_manager_def assoc_put_def logged_env_def unlogged_env_def)
qed

lemma demo_verification:
  "\<exists>v. parse_native_verification demo_verification_js = Inr v \<and> nv_success v \<and> nv_run_id v = lit ''r''"
  by (simp add: parse_native_verification_def demo_verification_js_def jget_def is_nullish_def optional_metadata_text_def)

lemma demo_run_prepared:
  assumes "rv_id run = lit ''r''"
  shows "\<exists>t v l'. run_prepared_turn (logged_env demo_manager_env) demo_turn_input run (sk, act) (((), l), m) = (Inr (t, v), (((), l'), m))"
proof -
  obtain v where v: "parse_native_verification demo_verification_js = Inr v" "nv_success v" "nv_run_id v = lit ''r''"
    using demo_verification by auto
  have ver: "run_native_verification (logged_env demo_manager_env) (lit ''r'') (((), l), m) = (Inr v, (((), l @ [CVerify (Inr demo_verification_js)]), m))" for l m
    using v by (simp add: run_native_verification_def verification_call_def io_eval demo_client_def tag_client_def)
  have ok: "is_record (JObj [(lit ''run_id'', jtext ''r'')])" "jget (JObj [(lit ''run_id'', jtext ''r'')]) ''run_id'' = jtext ''r''"
    by (simp_all add: jget_def)
  have ex: "run_supervised_codex_execution (logged_env demo_manager_env) i (((), l), m)
      = (Inr demo_turn_view, (((), l @ [CStart, CRun (Inr demo_turn_view), CFinish]), m))" if "cx_run_id i = lit ''r''" for i l m
    using that by (simp add: run_supervised_codex_execution_def assert_native_lifecycle_response_def start_call_def finish_call_def io_eval
        demo_client_def tag_client_def ok logged_env_def unlogged_env_def)
  show ?thesis
    using assms v
    by (simp add: run_prepared_turn_def execute_with_recovery_def io_bind_def io_catch_def ex execution_of_def ver
        MAX_CODEX_RECOVERY_ATTEMPTS_def numeral_2_eq_2 Let_def io_ext_def unlogged_def)
qed

theorem verified_turn_witness:
  "\<exists>t v w l m. run_harness_codex_turn_verified (logged_env demo_manager_env) demo_turn_input (((), []), new_task_manager) = (Inr (t, v), ((w, l), m))
     \<and> nv_success v \<and> supervised l \<and> length (runs l) \<le> 5"
proof -
  obtain run where run: "rv_id run = lit ''r''" "rv_workspace run = lit ''w''"
    "\<And>l m. get_harness_run (logged_env demo_manager_env) (lit ''r'') (((), l), m) = (Inr run, (((), l @ [COther]), m))"
    using demo_get_run by blast
  obtain act p where p: "prepare_harness_codex_turn (logged_env demo_manager_env) (lit ''r'') (lit ''q'') (((), [COther]), new_task_manager)
      = (Inr (run, lit ''u'', act), (((), [COther] @ [COther, COther]), new_task_manager\<lparr>tm_prepared := [(lit ''u'', p)]\<rparr>))"
    "pt_run_id p = lit ''r''" "pt_workspace p = lit ''w''" "pt_prompt_hash p = lit ''q''" "pt_created_at p = 0"
    using demo_prepared [OF run] by blast
  have c: "consume_prepared_codex_turn (logged_env demo_manager_env) (lit ''r'') (lit ''q'') (lit ''u'') (lit ''w'')
      (((), l), new_task_manager\<lparr>tm_prepared := [(lit ''u'', p)]\<rparr>) = (Inr (pt_skill_keys p, pt_activity p), (((), l), new_task_manager))" for l
    using p by (simp add: consume_prepared_codex_turn_def consume_at_def prune_prepared_def CODEX_TURN_PREPARATION_TTL_MS_def
        MAX_CODEX_TURN_PREPARATIONS_def take_prepared_def io_eval assoc_del_def new_task_manager_def logged_env_def unlogged_env_def)
  obtain t v l' where r: "run_prepared_turn (logged_env demo_manager_env) demo_turn_input run (pt_skill_keys p, pt_activity p)
      (((), [COther] @ [COther, COther]), new_task_manager) = (Inr (t, v), (((), l'), new_task_manager))"
    using demo_run_prepared [OF run(1)] by blast
  have "run_harness_codex_turn_verified (logged_env demo_manager_env) demo_turn_input (((), []), new_task_manager)
      = (Inr (t, v), (((), l'), new_task_manager))"
    using p(1) c [of "[COther] @ [COther, COther]"] r run
    by (simp add: run_harness_codex_turn_verified_def demo_turn_input_def io_bind_def)
  from verified_turn [OF this] this show ?thesis by blast
qed

subsection \<open>Recovery prompts\<close>

text \<open>\<^verbatim>\<open>isCodexHarnessInternalRecoveryPrompt\<close> of \<^verbatim>\<open>codex-harness-supervision.ts\<close>.\<close>

definition is_internal_recovery_prompt :: "jstr \<Rightarrow> bool" where
  "is_internal_recovery_prompt value \<longleftrightarrow> starts_with CODEX_HARNESS_INTERNAL_RECOVERY_PREFIX (dropWhile is_space value)"

lemma recovery_text_ok:
  "utf8_len (bounded_recovery_text (CODEX_HARNESS_INTERNAL_RECOVERY_PREFIX @ s) MAX_RECOVERY_CONTEXT_BYTES) \<le> 24 * 1024
   \<and> is_internal_recovery_prompt (bounded_recovery_text (CODEX_HARNESS_INTERNAL_RECOVERY_PREFIX @ s) MAX_RECOVERY_CONTEXT_BYTES)"
proof -
  have "prefix CODEX_HARNESS_INTERNAL_RECOVERY_PREFIX (bounded_recovery_text (CODEX_HARNESS_INTERNAL_RECOVERY_PREFIX @ s) MAX_RECOVERY_CONTEXT_BYTES)"
    by (rule bounded_recovery_text_keeps) (simp_all add: CODEX_HARNESS_INTERNAL_RECOVERY_PREFIX_def MAX_RECOVERY_CONTEXT_BYTES_def lit_def)
  then obtain t where "bounded_recovery_text (CODEX_HARNESS_INTERNAL_RECOVERY_PREFIX @ s) MAX_RECOVERY_CONTEXT_BYTES
      = CODEX_HARNESS_INTERNAL_RECOVERY_PREFIX @ t"
    by (auto simp: prefix_def)
  moreover have "dropWhile is_space (CODEX_HARNESS_INTERNAL_RECOVERY_PREFIX @ t) = CODEX_HARNESS_INTERNAL_RECOVERY_PREFIX @ t" for t
    by (simp add: CODEX_HARNESS_INTERNAL_RECOVERY_PREFIX_def lit_def is_space_def between_def)
  ultimately have "is_internal_recovery_prompt (bounded_recovery_text (CODEX_HARNESS_INTERNAL_RECOVERY_PREFIX @ s) MAX_RECOVERY_CONTEXT_BYTES)"
    by (simp add: is_internal_recovery_prompt_def starts_with_prefix)
  with bounded_recovery_text_fits [of MAX_RECOVERY_CONTEXT_BYTES] show ?thesis
    by (simp add: MAX_RECOVERY_CONTEXT_BYTES_def)
qed

text \<open>
  Every prompt with which the manager asks the runtime to repair a turn fits into 24 KiB of UTF-8
  and is recognised as internal, however long the request of the user, the error and the output
  of the proof are.
\<close>

theorem recovery_prompts_bounded:
  "utf8_len (build_harness_execution_recovery_prompt prompt error attempt) \<le> 24 * 1024
   \<and> is_internal_recovery_prompt (build_harness_execution_recovery_prompt prompt error attempt)
   \<and> utf8_len (build_harness_recovery_prompt prompt v attempt) \<le> 24 * 1024
   \<and> is_internal_recovery_prompt (build_harness_recovery_prompt prompt v attempt)"
proof -
  have "CODEX_HARNESS_INTERNAL_RECOVERY_PREFIX \<noteq> []"
    by (simp add: CODEX_HARNESS_INTERNAL_RECOVERY_PREFIX_def)
  then have "\<exists>s. build_harness_recovery_prompt prompt v attempt = bounded_recovery_text (CODEX_HARNESS_INTERNAL_RECOVERY_PREFIX @ s) MAX_RECOVERY_CONTEXT_BYTES"
    by (auto simp: build_harness_recovery_prompt_def)
  moreover have "\<exists>s. build_harness_execution_recovery_prompt prompt error attempt
      = bounded_recovery_text (CODEX_HARNESS_INTERNAL_RECOVERY_PREFIX @ s) MAX_RECOVERY_CONTEXT_BYTES"
    by (auto simp: build_harness_execution_recovery_prompt_def)
  ultimately show ?thesis using recovery_text_ok by metis
qed

subsection \<open>Preparations are used once\<close>

text \<open>
  The two synchronous sections that touch the preparations, in any order. A random id is never
  empty.
\<close>

datatype preparation_event = Prepare int jstr prepared_turn | Consume int jstr jstr jstr jstr

fun preparation_step :: "'w manager_env \<Rightarrow> task_manager \<Rightarrow> preparation_event \<Rightarrow> task_manager" where
  "preparation_step env m (Prepare now i p) =
     (if i = [] then m else m\<lparr>tm_prepared := assoc_put i p (prune_prepared now (tm_prepared m))\<rparr>)"
| "preparation_step env m (Consume now r p i ws) = snd (consume_at env now r p i ws m)"

definition preparations_ok :: "task_manager \<Rightarrow> bool" where
  "preparations_ok m \<longleftrightarrow> length (tm_prepared m) \<le> MAX_CODEX_TURN_PREPARATIONS \<and> [] \<notin> fst ` set (tm_prepared m)"

lemma drop_oldest_suffix: "suffix (drop_oldest cap kvs) kvs"
  by (induction cap kvs rule: drop_oldest.induct) (auto intro: suffix_ConsI)

lemma drop_oldest_length: "0 < cap \<Longrightarrow> [] \<notin> fst ` set kvs \<Longrightarrow> length (drop_oldest cap kvs) < cap"
  by (induction cap kvs rule: drop_oldest.induct) (auto split: if_splits)

lemma prune_subset: "set (prune_prepared now kvs) \<subseteq> set kvs"
  using set_mono_suffix [OF drop_oldest_suffix] by (fastforce simp: prune_prepared_def)

lemma prune_length: "[] \<notin> fst ` set kvs \<Longrightarrow> length (prune_prepared now kvs) < MAX_CODEX_TURN_PREPARATIONS"
  unfolding prune_prepared_def by (rule drop_oldest_length) (auto simp: MAX_CODEX_TURN_PREPARATIONS_def)

lemma assoc_put_keys: "fst ` set (assoc_put k v kvs) = insert k (fst ` set kvs)"
  by (simp add: dom_map_of_conv_image_fst [symmetric] map_of_assoc_put)

lemma consume_at_prepared:
  "set (tm_prepared (snd (consume_at env now r p i ws m))) \<subseteq> set (prune_prepared now (tm_prepared m))
   \<and> length (tm_prepared (snd (consume_at env now r p i ws m))) \<le> length (prune_prepared now (tm_prepared m))
   \<and> i \<notin> fst ` set (tm_prepared (snd (consume_at env now r p i ws m)))"
  by (auto simp: consume_at_def take_prepared_def assoc_del_def map_of_eq_None_iff split: option.splits)

lemma preparation_step_ok:
  assumes "preparations_ok m" shows "preparations_ok (preparation_step env m e)"
proof -
  have keys: "[] \<notin> fst ` set (prune_prepared now (tm_prepared m))" for now
    using assms prune_subset [of now "tm_prepared m"] by (auto simp: preparations_ok_def)
  have len: "length (prune_prepared now (tm_prepared m)) < MAX_CODEX_TURN_PREPARATIONS" for now
    using assms by (simp add: preparations_ok_def prune_length)
  show ?thesis
  proof (cases e)
    case (Prepare now i p)
    then show ?thesis
      using assms keys [of now] len [of now] length_assoc_put [of i p "prune_prepared now (tm_prepared m)"]
      by (auto simp: preparations_ok_def assoc_put_keys simp del: set_map)
  next
    case (Consume now r p i ws)
    then show ?thesis
      using consume_at_prepared [of env now r p i ws m] keys [of now] len [of now] by (auto simp: preparations_ok_def)
  qed
qed

interpretation preparations: machine "\<lambda>m. tm_prepared m = []" "preparation_step env" preparations_ok
  for env :: "'w manager_env"
proof unfold_locales
  fix m :: task_manager
  assume "tm_prepared m = []"
  then show "preparations_ok m" by (simp add: preparations_ok_def)
next
  fix m e
  assume "preparations_ok m"
  then show "preparations_ok (preparation_step env m e)" by (rule preparation_step_ok)
qed

definition prepares :: "jstr \<Rightarrow> preparation_event \<Rightarrow> bool" where
  "prepares i e \<longleftrightarrow> (case e of Prepare now j p \<Rightarrow> j = i | _ \<Rightarrow> False)"

lemma preparation_stays_gone:
  "i \<notin> fst ` set (tm_prepared m) \<Longrightarrow> list_all (\<lambda>e. \<not> prepares i e) es \<Longrightarrow> i \<notin> fst ` set (tm_prepared (foldl (preparation_step env) m es))"
proof (induction es arbitrary: m)
  case (Cons e es)
  have "i \<notin> fst ` set (tm_prepared (preparation_step env m e))"
  proof (cases e)
    case (Prepare now j p)
    with Cons.prems prune_subset [of now "tm_prepared m"] show ?thesis
      by (auto simp: prepares_def assoc_put_keys)
  next
    case (Consume now r p j ws)
    with Cons.prems(1) consume_at_prepared [of env now r p j ws m] prune_subset [of now "tm_prepared m"] show ?thesis
      by auto
  qed
  with Cons show ?case by simp
qed simp

text \<open>
  A preparation authorises one execution: it is accepted only for the run, the workspace and the
  prompt it was made for, and not more than five minutes later; once it has been presented it is
  gone, whether or not it was accepted, and presenting it again after any other operations
  fails. At no time are more than 64 preparations kept.
\<close>

theorem preparation_used_once:
  assumes "consume_at env now runId prompt i workspace (foldl (preparation_step env) new_task_manager before) = (a, m)"
    and "list_all (\<lambda>e. \<not> prepares i e) es"
  shows "fst (consume_at env now' runId' prompt' i workspace' (foldl (preparation_step env) m es))
      = throw ''Codex turn skill preparation is missing or expired''
    \<and> length (tm_prepared (foldl (preparation_step env) m es)) \<le> 64
    \<and> (\<forall>keys activity. a = Inr (keys, activity) \<longrightarrow>
         (\<exists>p. (i, p) \<in> set (tm_prepared (foldl (preparation_step env) new_task_manager before)) \<and> pt_run_id p = runId
            \<and> pt_workspace p = workspace \<and> pt_prompt_hash p = me_sha256 env prompt \<and> now - pt_created_at p \<le> 300000))"
proof (intro conjI allI impI)
  let ?m0 = "foldl (preparation_step env) new_task_manager before"
  have "i \<notin> fst ` set (tm_prepared m)"
    using consume_at_prepared [of env now runId prompt i workspace ?m0] assms(1) by simp
  then have gone: "i \<notin> fst ` set (tm_prepared (foldl (preparation_step env) m es))"
    using assms(2) by (rule preparation_stays_gone)
  then have "map_of (prune_prepared now' (tm_prepared (foldl (preparation_step env) m es))) i = None"
    using prune_subset [of now' "tm_prepared (foldl (preparation_step env) m es)"] by (auto simp: map_of_eq_None_iff)
  then show "fst (consume_at env now' runId' prompt' i workspace' (foldl (preparation_step env) m es))
      = throw ''Codex turn skill preparation is missing or expired''"
    by (simp add: consume_at_def take_prepared_def)
  have "foldl (preparation_step env) new_task_manager (before @ Consume now runId prompt i workspace # es)
      = foldl (preparation_step env) m es"
    using assms(1) by simp
  moreover have "preparations_ok (foldl (preparation_step env) new_task_manager (before @ Consume now runId prompt i workspace # es))"
    by (rule preparations.inv_reachable) (simp add: new_task_manager_def)
  ultimately show "length (tm_prepared (foldl (preparation_step env) m es)) \<le> 64"
    by (simp add: preparations_ok_def MAX_CODEX_TURN_PREPARATIONS_def)
  fix keys activity assume "a = Inr (keys, activity)"
  with assms(1) obtain p where p: "map_of (prune_prepared now (tm_prepared ?m0)) i = Some p"
    "pt_run_id p = runId" "pt_workspace p = workspace" "pt_prompt_hash p = me_sha256 env prompt"
    by (auto simp: consume_at_def take_prepared_def split: option.splits if_splits)
  then have "(i, p) \<in> set (filter (\<lambda>kv. \<not> now - pt_created_at (snd kv) > CODEX_TURN_PREPARATION_TTL_MS) (tm_prepared ?m0))"
    using set_mono_suffix [OF drop_oldest_suffix] map_of_SomeD by (fastforce simp: prune_prepared_def)
  with p show "\<exists>p. (i, p) \<in> set (tm_prepared ?m0) \<and> pt_run_id p = runId \<and> pt_workspace p = workspace
      \<and> pt_prompt_hash p = me_sha256 env prompt \<and> now - pt_created_at p \<le> 300000"
    by (auto simp: CODEX_TURN_PREPARATION_TTL_MS_def)
qed

theorem preparation_used_once_witness:
  "\<exists>m. consume_at demo_manager_env 5 (lit ''r'') (lit ''q'') (lit ''u'') (lit ''w'')
      (foldl (preparation_step demo_manager_env) new_task_manager [Prepare 1 (lit ''u'')
         \<lparr>pt_run_id = lit ''r'', pt_workspace = lit ''w'', pt_prompt_hash = lit ''q'', pt_skill_keys = [], pt_activity = activity_of
            \<lparr>np_active = [], np_installed = [], np_searches = []\<rparr> None, pt_created_at = 1\<rparr>]) = (Inr ([], activity_of
            \<lparr>np_active = [], np_installed = [], np_searches = []\<rparr> None), m)
    \<and> fst (consume_at demo_manager_env 6 (lit ''r'') (lit ''q'') (lit ''u'') (lit ''w'') m)
      = throw ''Codex turn skill preparation is missing or expired''"
proof -
  let ?act = "activity_of \<lparr>np_active = [], np_installed = [], np_searches = []\<rparr> None"
  let ?before = "[Prepare 1 (lit ''u'') \<lparr>pt_run_id = lit ''r'', pt_workspace = lit ''w'', pt_prompt_hash = lit ''q'', pt_skill_keys = [],
     pt_activity = ?act, pt_created_at = 1\<rparr>]"
  obtain m where m: "consume_at demo_manager_env 5 (lit ''r'') (lit ''q'') (lit ''u'') (lit ''w'')
      (foldl (preparation_step demo_manager_env) new_task_manager ?before) = (Inr ([], ?act), m)"
    by (simp add: consume_at_def take_prepared_def prune_prepared_def new_task_manager_def assoc_put_def
        CODEX_TURN_PREPARATION_TTL_MS_def MAX_CODEX_TURN_PREPARATIONS_def)
  from preparation_used_once [OF m, of "[]" 6 "lit ''r''" "lit ''q''" "lit ''w''"] m show ?thesis by auto
qed

end
