(* ===== verification/Worker_Turn.thy ===== *)
theory Worker_Turn
  imports Verified_Turn
begin

text \<open>
  The desktop task manager (\<^verbatim>\<open>task-manager.ts\<close>), fourth part: cancelling a run, and the turn of an
  agent worker, which puts the registry of worker families (\<^verbatim>\<open>agent-worker-family.ts\<close>) and the
  verified Codex turn together. The worker is claimed for a fresh child run, runs one
  verified turn and reports; if anything fails on the way the worker is retired and the
  child run is cancelled.
\<close>

section \<open>Operations\<close>

definition cancel_review :: "'w manager_env \<Rightarrow> jstr \<Rightarrow> ('w, unit) mgr" where
  "cancel_review env taskId = io_ext (\<lambda>w. (Inr (), if me_has_review env then me_review_cancel env taskId w else w))"

text \<open>\<^verbatim>\<open>const reviewTaskId = \<dots>; if (reviewTaskId) this.options.chatGptReview?.cancel?.(reviewTaskId)\<close>.\<close>

definition cancel_active_review :: "'w manager_env \<Rightarrow> jstr \<Rightarrow> ('w, unit) mgr" where
  "cancel_active_review env runId =
     io_bind (io_gets (\<lambda>m. map_of (tm_active_reviews m) runId)) (\<lambda>reviewTaskId.
       case reviewTaskId of Some (c # cs) \<Rightarrow> cancel_review env (c # cs) | _ \<Rightarrow> io_return ())"

definition release_codex :: "'w manager_env \<Rightarrow> jstr \<Rightarrow> ('w, unit) mgr" where
  "release_codex env runId = (if me_has_codex env then io_ext (me_codex_release env runId) else io_return ())"

definition cancel_call :: "jstr \<Rightarrow> client_call" where
  "cancel_call runId = Harness ''/api/v1/harness/runs/cancel'' (obj [(''run_id'', JStr runId)])"

definition cancel_harness_run :: "'w manager_env \<Rightarrow> jstr \<Rightarrow> ('w, run_view) mgr" where
  "cancel_harness_run env runId =
     io_bind (cancel_active_review env runId) (\<lambda>_.
     io_bind (ask env (cancel_call runId)) (\<lambda>v.
     io_bind (parse_with parse_harness_run_snapshot v) (\<lambda>run.
     io_bind (io_modify (\<lambda>m. m\<lparr>tm_active_reviews := assoc_del runId (tm_active_reviews m)\<rparr>)) (\<lambda>_.
     io_bind (release_codex env runId) (\<lambda>_. io_return run)))))"

text \<open>\<^verbatim>\<open>randomUUID().replaceAll("-", "").slice(0, 16)\<close>.\<close>

definition short_hex :: "jstr \<Rightarrow> jstr" where
  "short_hex u = take 16 (filter (\<lambda>c. c \<noteq> 45) u)"

fun draw_uuids :: "'w manager_env \<Rightarrow> nat \<Rightarrow> ('w, jstr list) mgr" where
  "draw_uuids env 0 = io_return []"
| "draw_uuids env (Suc n) =
     io_bind (io_ext (me_uuid env ())) (\<lambda>u. io_bind (draw_uuids env n) (\<lambda>us. io_return (u # us)))"

text \<open>The views leave an empty optional text out.\<close>

definition worker_view :: "agent_worker \<Rightarrow> agent_worker" where
  "worker_view w = w\<lparr>lease_id := truthy (lease_id w), last_report := truthy (last_report w),
     last_child_run_id := truthy (last_child_run_id w)\<rparr>"

definition family_view :: "worker_family \<Rightarrow> worker_family" where
  "family_view f = f\<lparr>workers := map worker_view (workers f)\<rparr>"

text \<open>An operation of the registry; the registry it leaves stays also when it throws.\<close>

definition on_families :: "(family_registry \<Rightarrow> 'a res \<times> family_registry) \<Rightarrow> ('w, 'a) mgr" where
  "on_families f = io_state (\<lambda>m. case f (tm_families m) of (r, fs) \<Rightarrow> (r, m\<lparr>tm_families := fs\<rparr>))"

text \<open>The registry draws the ids of the workers after its checks.\<close>

definition workers_to_name :: "jstr \<Rightarrow> js \<Rightarrow> jstr \<Rightarrow> nat" where
  "workers_to_name workspace workerCount primeRunId =
     (case and_then (bound_id workspace ''workspace'') (\<lambda>_. and_then (bound_worker_count workerCount) (\<lambda>n.
         and_then (bound_id primeRunId ''prime run id'') (\<lambda>_. Inr n))) of
        Inr n \<Rightarrow> n
      | Inl _ \<Rightarrow> 0)"

definition create_harness_agent_worker_family :: "'w manager_env \<Rightarrow> jstr \<Rightarrow> jstr \<Rightarrow> js \<Rightarrow> ('w, worker_family) mgr" where
  "create_harness_agent_worker_family env primeRunId workspace workerCount =
     io_bind (get_harness_run env primeRunId) (\<lambda>prime.
       if rv_workspace prime \<noteq> workspace then io_lift (throw ''Agent worker family workspace must match the prime Harness run'')
       else if rv_status prime \<noteq> lit ''running'' \<or> rv_freshness_state prime \<noteq> lit ''current''
         then io_lift (throw ''Agent worker family requires a current running prime Harness run'')
       else
         io_bind (io_ext (me_uuid env ())) (\<lambda>u.
         io_bind (draw_uuids env (workers_to_name workspace workerCount primeRunId)) (\<lambda>us.
         io_bind (on_families (\<lambda>fs. create_family fs (short_hex u) (\<lambda>i. short_hex (us ! i)) primeRunId workspace workerCount)) (\<lambda>f.
           io_return (family_view f)))))"

definition get_harness_agent_worker_family :: "'w manager_env \<Rightarrow> jstr \<Rightarrow> ('w, worker_family) mgr" where
  "get_harness_agent_worker_family env familyId =
     io_bind (on_families (\<lambda>fs. (get_family fs familyId, fs))) (\<lambda>f. io_return (family_view f))"

definition build_agent_worker_prompt :: "worker_family \<Rightarrow> agent_worker \<Rightarrow> jstr \<Rightarrow> jstr" where
  "build_agent_worker_prompt family worker prompt =
     bounded_recovery_text (join [10]
       [lit ''SourceNerve multi-agent worker execution.'',
        lit ''Prime Harness run: '' @ prime_run_id family,
        lit ''Family: '' @ family_id family @ lit '' incarnation '' @ show_nat (incarnation family),
        lit ''Worker: '' @ worker_run_id worker @ lit '' ordinal '' @ show_nat (ordinal worker),
        [],
        lit ''Worker boundary:'',
        lit ''- Work only inside the assigned workspace and original operator brief.'',
        lit ''- Inspect current repository state before changing files.'',
        lit ''- Do not commit, push, merge, or perform provider mutations unless the original operator request explicitly asked for that action.'',
        lit ''- Finish with a concise report that can be published back to the prime family.'',
        [],
        lit ''WORKER TASK:'',
        prompt])
       MAX_RECOVERY_CONTEXT_BYTES"

record worker_run_view =
  wr_family :: worker_family
  wr_worker :: agent_worker
  wr_child_run :: run_view
  wr_turn :: turn_view

definition worker_report_text :: "agent_worker \<Rightarrow> turn_view \<Rightarrow> jstr" where
  "worker_report_text claimed turn =
     (case tn_response turn of
        Some response \<Rightarrow> response
      | None \<Rightarrow> lit ''Worker '' @ show_nat (ordinal claimed) @ lit '' completed Codex turn '' @ tn_turn_id turn @ lit ''.'')"

text \<open>The part that is retired and cancelled when it throws.\<close>

definition worker_attempt ::
    "'w manager_env \<Rightarrow> worker_family \<Rightarrow> agent_worker \<Rightarrow> run_view \<Rightarrow> jstr \<Rightarrow> jstr \<Rightarrow> ('w, worker_run_view) mgr" where
  "worker_attempt env family worker childRun leaseId prompt =
     io_bind (on_families (\<lambda>fs. mark_running fs (family_id family) (worker_run_id worker) leaseId)) (\<lambda>claimed.
     io_bind (run_harness_codex_turn_verified env \<lparr>ti_run_id = rv_id childRun,
         ti_prompt = build_agent_worker_prompt family claimed prompt, ti_preparation_id = None, ti_model = None\<rparr>) (\<lambda>(turn, _).
     io_bind (on_families (\<lambda>fs. report fs (family_id family) (worker_run_id worker) leaseId (worker_report_text claimed turn))) (\<lambda>reported.
     io_bind (on_families (\<lambda>fs. (get_family fs (family_id family), fs))) (\<lambda>f.
       io_return \<lparr>wr_family = family_view f, wr_worker = worker_view reported, wr_child_run = childRun, wr_turn = turn\<rparr>))))"

definition worker_failed :: "'w manager_env \<Rightarrow> worker_family \<Rightarrow> agent_worker \<Rightarrow> run_view \<Rightarrow> jstr \<Rightarrow> ('w, 'a) mgr" where
  "worker_failed env family worker childRun error =
     io_bind (on_families (\<lambda>fs. retire fs (family_id family) (worker_run_id worker))) (\<lambda>_.
     io_bind (io_ignore (cancel_harness_run env (rv_id childRun))) (\<lambda>_. io_lift (Inl error)))"

definition run_worker_in :: "'w manager_env \<Rightarrow> worker_family \<Rightarrow> agent_worker \<Rightarrow> run_view \<Rightarrow> jstr \<Rightarrow> ('w, worker_run_view) mgr" where
  "run_worker_in env family worker childRun prompt =
     io_bind (io_ext (me_uuid env ())) (\<lambda>u.
     io_bind (on_families (\<lambda>fs. claim fs (family_id family) (worker_run_id worker) (lit ''lease_'' @ short_hex u) (rv_id childRun))) (\<lambda>_.
       io_catch (worker_attempt env family worker childRun (lit ''lease_'' @ short_hex u) prompt) (worker_failed env family worker childRun)))"

definition run_found_worker :: "'w manager_env \<Rightarrow> worker_family \<Rightarrow> agent_worker \<Rightarrow> jstr \<Rightarrow> ('w, worker_run_view) mgr" where
  "run_found_worker env family worker prompt =
     io_bind (get_harness_run env (prime_run_id family)) (\<lambda>prime.
       if rv_workspace prime \<noteq> worker_workspace worker \<or> rv_freshness_state prime \<noteq> lit ''current''
       then io_lift (throw ''Agent worker prime run is no longer current for this workspace'')
       else if \<not> me_has_codex env then io_lift (throw ''Desktop Codex Harness runtime is not initialized'')
       else
         io_bind (begin_harness_run env (worker_workspace worker) (lit ''interactive-local'') (Some (lit ''workspace-write''))) (\<lambda>childRun.
           run_worker_in env family worker childRun prompt))"

definition run_harness_agent_worker :: "'w manager_env \<Rightarrow> jstr \<Rightarrow> jstr \<Rightarrow> jstr \<Rightarrow> ('w, worker_run_view) mgr" where
  "run_harness_agent_worker env familyId workerRunId prompt =
     io_bind (on_families (\<lambda>fs. (get_family fs familyId, fs))) (\<lambda>family.
       case find (\<lambda>item. worker_run_id item = workerRunId) (workers family) of
         None \<Rightarrow> io_lift (throw ''Agent worker does not belong to this family/incarnation'')
       | Some worker \<Rightarrow> run_found_worker env family worker prompt)"

section \<open>What the parts leave alone\<close>

lemma keeps_parse: "keeps sel (parse_with p v)" "keeps sel (ask env c)"
  by (simp_all add: parse_with_def ask_def keeps_lift keeps_ext)

lemma keeps_release: "keeps sel (release_terminal_codex_runs env rs)"
  unfolding release_terminal_codex_runs_def by (auto intro!: keeps_intros)

lemma keeps_get_run: "keeps sel (get_harness_run env i)"
  unfolding get_harness_run_def by (intro keeps_intros keeps_parse keeps_release)

lemma keeps_begin_run: "keeps sel (begin_harness_run env ws p s)"
  unfolding begin_harness_run_def by (intro keeps_intros keeps_parse) (auto intro!: keeps_intros)

lemma keeps_route: "keeps sel (route_harness_context env ws r q s)"
  unfolding route_harness_context_def by (intro keeps_intros keeps_parse) (auto intro!: keeps_intros)

lemma keeps_lifecycle: "keeps sel (assert_native_lifecycle_response env c i)"
  unfolding assert_native_lifecycle_response_def by (intro keeps_intros keeps_parse) (auto intro!: keeps_intros)

lemma keeps_execution: "keeps sel (run_supervised_codex_execution env i)"
  unfolding run_supervised_codex_execution_def by (intro keeps_intros keeps_lifecycle)

lemma keeps_verification: "keeps sel (run_native_verification env i)"
  unfolding run_native_verification_def by (intro keeps_intros keeps_parse) (auto intro!: keeps_intros)

lemma keeps_recover: "keeps sel (recover_execution env exec p n a e)"
  by (induction n arbitrary: a e) (auto intro!: keeps_intros keeps_execution split: sum.splits)

lemma keeps_execute_with_recovery: "keeps sel (execute_with_recovery env exec p)"
  unfolding execute_with_recovery_def by (auto intro!: keeps_intros keeps_execution keeps_recover split: sum.splits)

lemma keeps_verify: "keeps sel (verify_with_recovery env exec i p n a t v)"
  by (induction n arbitrary: a t v) (auto intro!: keeps_intros keeps_execution keeps_verification)

lemma keeps_run_prepared: "keeps sel (run_prepared_turn env inp run pr)"
  unfolding run_prepared_turn_def Let_def
  by (auto intro!: keeps_intros keeps_execute_with_recovery keeps_verification keeps_verify split: prod.splits)

text \<open>A verified turn changes nothing of the manager but its preparations.\<close>

lemma keeps_turn:
  assumes "\<And>m x. sel (m\<lparr>tm_prepared := x\<rparr>) = sel m"
  shows "keeps sel (run_harness_codex_turn_verified env inp)"
proof -
  have prune: "keeps sel (prune_prepared_codex_turns env)"
    unfolding prune_prepared_codex_turns_def by (intro keeps_intros keeps_modify) (rule assms)
  have skills: "keeps sel (run_skill_preflight env ws p)" for ws p
    unfolding run_skill_preflight_def by (auto intro!: keeps_intros split: option.splits)
  have prepare: "keeps sel (prepare_harness_codex_turn env i p)" for i p
    unfolding prepare_harness_codex_turn_def
    by (auto intro!: keeps_intros keeps_get_run keeps_route prune skills keeps_modify simp: assms split: option.splits)
  have consume: "keeps sel (consume_prepared_codex_turn env r p i ws)" for r p i ws
    unfolding consume_prepared_codex_turn_def
    by (intro keeps_intros keeps_state) (simp add: consume_at_def take_prepared_def assms split: option.splits)
  show ?thesis
    unfolding run_harness_codex_turn_verified_def
    by (auto intro!: keeps_intros keeps_get_run keeps_run_prepared prepare consume split: option.splits)
qed

lemma keeps_families_turn: "keeps tm_families (run_harness_codex_turn_verified env inp)"
  by (rule keeps_turn) simp

lemma keeps_cancel_review: "keeps sel (cancel_active_review env i)"
  unfolding cancel_active_review_def cancel_review_def by (auto intro!: keeps_intros split: option.splits list.splits)

lemma keeps_families_cancel: "keeps tm_families (cancel_harness_run env i)"
  unfolding cancel_harness_run_def release_codex_def
  by (auto intro!: keeps_intros keeps_parse keeps_cancel_review keeps_modify)

section \<open>The worker during its turn\<close>

lemma on_families_run:
  "on_families f (w, m) = (fst (f (tm_families m)), (w, m\<lparr>tm_families := snd (f (tm_families m))\<rparr>))"
  by (simp add: on_families_def io_state_def split: prod.splits)

lemma update_found:
  assumes "require_worker fs f i = Inr wk" "worker_run_id wk' = worker_run_id wk"
  shows "require_worker (update_worker fs f i (\<lambda>_. wk')) f i = Inr wk'"
  using assms require_worker_id [OF assms(1)] by (intro require_update_same) auto

lemma claim_free:
  assumes "require_worker fs f i = Inr wk" "status wk = Sleeping \<or> status wk = Reported"
    and "bound_id l ''worker lease id'' = Inr l" "bound_id c ''worker child run id'' = Inr c"
  shows "\<exists>fs' wk'. claim fs f i l c = (Inr wk', fs') \<and> require_worker fs' f i = Inr wk' \<and> ordinal wk' = ordinal wk
    \<and> status wk' = Claimed \<and> lease_id wk' = Some l \<and> last_child_run_id wk' = Some c"
  using assms update_found [OF assms(1), of "wk\<lparr>status := Claimed, lease_id := Some l, last_child_run_id := Some c\<rparr>"]
  by (auto simp: claim_def Let_def)

lemma mark_claimed:
  assumes "require_worker fs f i = Inr wk" "status wk = Claimed" "lease_id wk = Some l"
  shows "\<exists>fs'. mark_running fs f i l = (Inr (wk\<lparr>status := Running\<rparr>), fs') \<and> require_worker fs' f i = Inr (wk\<lparr>status := Running\<rparr>)"
  using assms update_found [OF assms(1), of "wk\<lparr>status := Running\<rparr>"] by (auto simp: mark_running_def Let_def)

lemma report_running:
  assumes "require_worker fs f i = Inr wk" "status wk = Running" "lease_id wk = Some l"
  shows "\<exists>fs' wk'. report fs f i l t = (Inr wk', fs') \<and> require_worker fs' f i = Inr wk'
    \<and> wk' = wk\<lparr>status := Reported, last_report := Some (bound_text t (32 * 1024))\<rparr>"
  using assms update_found [OF assms(1), of "wk\<lparr>status := Reported, last_report := Some (bound_text t (32 * 1024))\<rparr>"]
  by (auto simp: report_def Let_def)

lemma retire_found:
  assumes "require_worker fs f i = Inr wk"
  shows "\<exists>fs'. retire fs f i = (Inr (wk\<lparr>status := Retired\<rparr>), fs') \<and> require_worker fs' f i = Inr (wk\<lparr>status := Retired\<rparr>)"
  using assms update_found [OF assms(1), of "wk\<lparr>status := Retired\<rparr>"] by (auto simp: retire_def Let_def)

lemma attempt_outcome:
  assumes wk: "require_worker (tm_families m) (family_id fam) (worker_run_id wk0) = Inr wk" "status wk = Claimed" "lease_id wk = Some l"
    and run: "worker_attempt env fam wk0 child l p (w, m) = (r, (w', m'))"
  shows "\<exists>wk'. require_worker (tm_families m') (family_id fam) (worker_run_id wk0) = Inr wk'
    \<and> (\<forall>v. r = Inr v \<longrightarrow> status wk' = Reported \<and> last_child_run_id wk' = last_child_run_id wk \<and> wr_child_run v = child
         \<and> last_report wk' = Some (bound_text (worker_report_text wk (wr_turn v)) (32 * 1024)))"
proof -
  let ?i = "worker_run_id wk0" and ?f = "family_id fam"
  obtain fs1 where mark: "mark_running (tm_families m) ?f ?i l = (Inr (wk\<lparr>status := Running\<rparr>), fs1)"
    and r1: "require_worker fs1 ?f ?i = Inr (wk\<lparr>status := Running\<rparr>)"
    using mark_claimed [OF wk] by blast
  let ?inp = "\<lparr>ti_run_id = rv_id child, ti_prompt = build_agent_worker_prompt fam (wk\<lparr>status := Running\<rparr>) p, ti_preparation_id = None, ti_model = None\<rparr>"
  obtain tr w1 m1 where turn: "run_harness_codex_turn_verified env ?inp (w, m\<lparr>tm_families := fs1\<rparr>) = (tr, (w1, m1))"
    by (metis prod.exhaust)
  have m1: "tm_families m1 = fs1" using keepsD [OF keeps_families_turn turn] by simp
  have rtext: "worker_report_text (wk\<lparr>status := Running\<rparr>) t = worker_report_text wk t" for t
    by (simp add: worker_report_text_def split: option.splits)
  show ?thesis
  proof (cases tr)
    case (Inl e)
    with run mark turn m1 r1 show ?thesis
      by (auto simp: worker_attempt_def io_bind_def on_families_run)
  next
    case (Inr tv)
    obtain t nv where tv: "tv = (t, nv)" by (cases tv)
    obtain fs2 wk2 where rep: "report fs1 ?f ?i l (worker_report_text wk t) = (Inr wk2, fs2)" "require_worker fs2 ?f ?i = Inr wk2"
      and wk2: "wk2 = wk\<lparr>status := Reported, last_report := Some (bound_text (worker_report_text wk t) (32 * 1024))\<rparr>"
      using report_running [OF r1, of l "worker_report_text wk t"] wk(3) by auto
    obtain f2 where "get_family fs2 ?f = Inr f2" using rep(2) by (auto simp: get_family_def require_worker_def split: sum.splits elim!: and_thenE)
    with run mark turn m1 Inr tv rep wk2 rtext show ?thesis
      by (auto simp: worker_attempt_def io_bind_def on_families_run)
  qed
qed

lemma failed_outcome:
  assumes "require_worker (tm_families m) (family_id fam) (worker_run_id wk0) = Inr wk"
    and run: "worker_failed env fam wk0 child e (w, m) = (r, (w', m'))"
  shows "r = Inl e \<and> (\<exists>wk'. require_worker (tm_families m') (family_id fam) (worker_run_id wk0) = Inr wk' \<and> status wk' = Retired)"
proof -
  obtain fs1 where ret: "retire (tm_families m) (family_id fam) (worker_run_id wk0) = (Inr (wk\<lparr>status := Retired\<rparr>), fs1)"
    "require_worker fs1 (family_id fam) (worker_run_id wk0) = Inr (wk\<lparr>status := Retired\<rparr>)"
    using retire_found [OF assms(1)] by blast
  obtain cr w1 m1 where c: "cancel_harness_run env (rv_id child) (w, m\<lparr>tm_families := fs1\<rparr>) = (cr, (w1, m1))" by (metis prod.exhaust)
  have "tm_families m1 = fs1" using keepsD [OF keeps_families_cancel c] by simp
  with run ret c show ?thesis by (auto simp: worker_failed_def io_bind_def on_families_run io_ignore_def)
qed

lemma run_worker_in_outcome:
  assumes wk: "require_worker (tm_families m) (family_id fam) (worker_run_id wk0) = Inr wk" "status wk = Sleeping \<or> status wk = Reported"
    and child: "bound_id (rv_id child) ''worker child run id'' = Inr (rv_id child)"
    and uuids: "\<And>w u w'. me_uuid env () w = (Inr u, w') \<Longrightarrow> \<not> has_control u"
    and run: "run_worker_in env fam wk0 child p (w, m) = (r, (w', m'))"
  shows "\<exists>wk'. require_worker (tm_families m') (family_id fam) (worker_run_id wk0) = Inr wk'
    \<and> (case r of
         Inl e \<Rightarrow> wk' = wk \<or> status wk' = Retired
       | Inr v \<Rightarrow> status wk' = Reported \<and> last_child_run_id wk' = Some (rv_id child) \<and> wr_child_run v = child
           \<and> last_report wk' = Some (bound_text (worker_report_text wk (wr_turn v)) (32 * 1024)))"
proof -
  let ?i = "worker_run_id wk0" and ?f = "family_id fam"
  obtain ur w1 where u: "me_uuid env () w = (ur, w1)" by (metis prod.exhaust)
  show ?thesis
  proof (cases ur)
    case (Inl e)
    with run u wk show ?thesis by (auto simp: run_worker_in_def io_bind_def io_ext_def)
  next
    case (Inr u')
    let ?l = "lit ''lease_'' @ short_hex u'"
    have "\<not> has_control (short_hex u')" using uuids u Inr by (auto simp: short_hex_def has_control_def list_ex_iff dest: in_set_takeD)
    then have l: "bound_id ?l ''worker lease id'' = Inr ?l"
      by (auto simp: bound_id_Inr short_hex_def has_control_def lit_def is_control_def)
    obtain fs1 wk1 where c: "claim (tm_families m) ?f ?i ?l (rv_id child) = (Inr wk1, fs1)" "require_worker fs1 ?f ?i = Inr wk1"
        "ordinal wk1 = ordinal wk" "status wk1 = Claimed" "lease_id wk1 = Some ?l" "last_child_run_id wk1 = Some (rv_id child)"
      using claim_free [OF wk l child] by blast
    obtain ar w2 m2 where a: "worker_attempt env fam wk0 child ?l p (w1, m\<lparr>tm_families := fs1\<rparr>) = (ar, (w2, m2))" by (metis prod.exhaust)
    obtain wk2 where wk2: "require_worker (tm_families m2) ?f ?i = Inr wk2"
      "\<forall>v. ar = Inr v \<longrightarrow> status wk2 = Reported \<and> last_child_run_id wk2 = last_child_run_id wk1 \<and> wr_child_run v = child
         \<and> last_report wk2 = Some (bound_text (worker_report_text wk1 (wr_turn v)) (32 * 1024))"
      using attempt_outcome [OF _ _ _ a, of wk1] c by auto
    have rtext: "worker_report_text wk1 t = worker_report_text wk t" for t using c(3) by (simp add: worker_report_text_def split: option.splits)
    show ?thesis
    proof (cases ar)
      case (Inl e)
      with run u Inr c a have "worker_failed env fam wk0 child e (w2, m2) = (r, (w', m'))"
        by (simp add: run_worker_in_def io_bind_def io_ext_def on_families_run io_catch_def)
      from failed_outcome [OF wk2(1) this] show ?thesis by auto
    next
      case (Inr v)
      with run u \<open>ur = Inr u'\<close> c a wk2 rtext show ?thesis
        by (auto simp: run_worker_in_def io_bind_def io_ext_def on_families_run io_catch_def)
    qed
  qed
qed

section \<open>Properties\<close>

lemma begin_run_id:
  assumes "begin_harness_run env ws p s (w, m) = (Inr run, wm)"
  shows "bound_id (rv_id run) ''worker child run id'' = Inr (rv_id run)"
proof -
  from assms obtain v where "parse_harness_run_begin v = Inr run"
    by (auto simp: begin_harness_run_def parse_with_def elim!: io_bindE split: if_splits)
  then have "safe_text 128 (rv_id run)"
    by (auto simp: parse_harness_run_begin_def harness_invalid_def intro: parse_run_id split: if_splits)
  then show ?thesis by (auto simp: bound_id_Inr safe_text_def)
qed

text \<open>
  C6: A worker is never left hanging. However a turn of a free worker ends, and whatever the core and
  the runtime answer: if it returns, the worker has reported, for the child run that was begun
  for this turn, with the response of the verified turn cut to 32 KiB; if it throws, the
  worker is as it was, or it is retired. It is never still claimed or running. Random
  ids have no control characters.
\<close>

theorem worker_turn_settles:
  assumes "registry_ok (tm_families m)" "require_worker (tm_families m) f i = Inr wk" "status wk = Sleeping \<or> status wk = Reported"
    and "\<And>w u w'. me_uuid env () w = (Inr u, w') \<Longrightarrow> \<not> has_control u"
    and "run_harness_agent_worker env f i p (w, m) = (r, (w', m'))"
  shows "\<exists>wk'. require_worker (tm_families m') f i = Inr wk'
    \<and> (case r of
         Inl e \<Rightarrow> wk' = wk \<or> status wk' = Retired
       | Inr v \<Rightarrow> status wk' = Reported \<and> last_child_run_id wk' = Some (rv_id (wr_child_run v))
           \<and> last_report wk' = Some (bound_text (worker_report_text wk (wr_turn v)) (32 * 1024)))"
proof -
  obtain fam where fam: "get_family (tm_families m) f = Inr fam" "find (\<lambda>item. worker_run_id item = i) (workers fam) = Some wk"
      "family_id fam = f" "worker_run_id wk = i"
    using assms(1,2) require_worker_id [OF assms(2)]
    by (auto simp: get_family_def require_worker_Inr require_family_Inr registry_ok_def family_ok_def)
  from assms(5) fam have run: "run_found_worker env fam wk p (w, m) = (r, (w', m'))"
    unfolding run_harness_agent_worker_def io_bind_def [of "on_families _"] by (simp add: on_families_run)
  obtain pr w1 m1 where g: "get_harness_run env (prime_run_id fam) (w, m) = (pr, (w1, m1))" by (metis prod.exhaust)
  obtain br w2 m2 where b: "begin_harness_run env (worker_workspace wk) (lit ''interactive-local'') (Some (lit ''workspace-write'')) (w1, m1) = (br, (w2, m2))"
    by (metis prod.exhaust)
  have kept: "tm_families m1 = tm_families m" "tm_families m2 = tm_families m"
    using keepsD [OF keeps_get_run g, of tm_families] keepsD [OF keeps_begin_run b, of tm_families] by simp_all
  show ?thesis
  proof (cases "\<exists>prime child. pr = Inr prime \<and> br = Inr child \<and> rv_workspace prime = worker_workspace wk
      \<and> rv_freshness_state prime = lit ''current'' \<and> me_has_codex env")
    case True
    then obtain prime child where pc: "pr = Inr prime" "br = Inr child" "rv_workspace prime = worker_workspace wk"
      "rv_freshness_state prime = lit ''current''" "me_has_codex env" by blast
    with run g b have "run_worker_in env fam wk child p (w2, m2) = (r, (w', m'))"
      by (simp add: run_found_worker_def io_bind_def)
    from run_worker_in_outcome [OF _ assms(3) begin_run_id [OF b [unfolded pc(2)]] assms(4) this] kept fam assms(2)
    show ?thesis by (fastforce split: sum.splits)
  next
    case False
    with run g b have "m' = m1 \<or> m' = m2" "\<exists>e. r = Inl e"
      by (auto simp: run_found_worker_def io_bind_def throw_def split: sum.splits if_splits)
    with kept assms(2) show ?thesis by auto
  qed
qed

definition demo_worker_manager :: task_manager where
  "demo_worker_manager = new_task_manager\<lparr>tm_families := registry_step Map.empty (CreateFamily (lit ''1'') [lit ''a''] (lit ''r'') (lit ''w'') (jint 1))\<rparr>"

theorem worker_turn_settles_witness:
  "\<exists>r w' m' wk'. run_harness_agent_worker demo_manager_env (lit ''family_1'') (lit ''worker_a'') (lit ''q'') ((), demo_worker_manager) = (r, (w', m'))
     \<and> require_worker (tm_families m') (lit ''family_1'') (lit ''worker_a'') = Inr wk' \<and> status wk' \<noteq> Claimed \<and> status wk' \<noteq> Running"
proof -
  obtain r w' m' where run: "run_harness_agent_worker demo_manager_env (lit ''family_1'') (lit ''worker_a'') (lit ''q'') ((), demo_worker_manager) = (r, (w', m'))"
    by (metis prod.exhaust)
  have ok: "registry_ok (tm_families demo_worker_manager)"
    unfolding demo_worker_manager_def by (simp add: registry_step_ok registry_ok_def [of Map.empty] del: registry_step.simps)
  have "\<exists>wk. require_worker (tm_families demo_worker_manager) (lit ''family_1'') (lit ''worker_a'') = Inr wk \<and> status wk = Sleeping"
    by (simp add: Let_def demo_worker_manager_def create_family_def bound_id_def bound_worker_count_def require_worker_def require_family_def lit_def upt_rec
        safe_int_def max_safe_def has_control_def is_control_def)
  then obtain wk where wk: "require_worker (tm_families demo_worker_manager) (lit ''family_1'') (lit ''worker_a'') = Inr wk" "status wk = Sleeping"
    by blast
  have u: "me_uuid demo_manager_env () w = (Inr u, w2) \<Longrightarrow> \<not> has_control u" for w u w2
    by (auto simp: has_control_def is_control_def lit_def)
  from worker_turn_settles [OF ok wk(1) _ u run] wk(2) obtain wk' where
    "require_worker (tm_families m') (lit ''family_1'') (lit ''worker_a'') = Inr wk'" "wk' = wk \<or> status wk' = Retired \<or> status wk' = Reported"
    by (cases r) auto
  with run wk(2) show ?thesis by auto
qed

end
