(* ===== verification/Review_Turn.thy ===== *)
theory Review_Turn
  imports Worker_Turn
begin

text \<open>
  The desktop task manager (\<^verbatim>\<open>task-manager.ts\<close>), fifth part: the ChatGPT agent of a run. In goal and
  loop mode it is the review loop of \<^verbatim>\<open>chatgpt-review-loop.ts\<close> with the verified Codex turn as its
  executor; in review mode ChatGPT works on its own and only the verification of the core
  decides whether the turn is done. The monitor that polls for progress beside the turn is not
  modelled: it only reads and announces.
\<close>

section \<open>Texts and events\<close>

fun review_state_name :: "review_state \<Rightarrow> string" where
  "review_state_name Planning = ''planning''"
| "review_state_name Executing = ''executing''"
| "review_state_name Verifying = ''verifying''"
| "review_state_name Reviewing = ''reviewing''"
| "review_state_name LoopDone = ''done''"
| "review_state_name LoopBlocked = ''blocked''"

definition ellipsis :: jstr where "ellipsis = [8230]"

fun chatgpt_stage_progress_text :: "review_state \<Rightarrow> nat \<Rightarrow> loop_mode \<Rightarrow> jstr" where
  "chatgpt_stage_progress_text Planning iteration mode =
     (if mode = ReviewMode then lit ''Inspecting workspace and task context'' else lit ''Planning the next bounded step in ChatGPT Web'') @ ellipsis"
| "chatgpt_stage_progress_text Executing iteration mode =
     lit ''Executing iteration '' @ show_nat (max 1 iteration) @ lit '' through the verified native Codex lane'' @ ellipsis"
| "chatgpt_stage_progress_text Verifying iteration mode =
     (if iteration > 0 then lit ''Verifying iteration '' @ show_nat iteration @ lit '' with Harness proof''
      else lit ''Verifying repository state and proof'') @ ellipsis"
| "chatgpt_stage_progress_text Reviewing iteration mode =
     lit ''Reviewing verified iteration '' @ show_nat (max 1 iteration) @ lit '' in ChatGPT Web'' @ ellipsis"
| "chatgpt_stage_progress_text LoopBlocked iteration mode = lit ''Waiting on required evidence or operator action'' @ ellipsis"
| "chatgpt_stage_progress_text LoopDone iteration mode = lit ''Finalizing the verified result'' @ ellipsis"

definition review_event_js :: "review_event \<Rightarrow> js" where
  "review_event_js e = obj [(''taskId'', JStr (ev_task_id e)), (''runId'', JStr (ev_run_id e)), (''workspace'', JStr (ev_workspace e)),
     (''iteration'', jint (int (ev_iteration e))), (''state'', jtext (review_state_name (ev_state e))), (''mode'', jtext (mode_name (ev_mode e)))]"

definition emit_chatgpt_progress :: "'w manager_env \<Rightarrow> review_event \<Rightarrow> ('w, unit) mgr" where
  "emit_chatgpt_progress env e = io_ext (me_emit env (ProgressEvent (ev_task_id e) (ev_run_id e) (ev_workspace e) ''reasoning''
     (chatgpt_stage_progress_text (ev_state e) (ev_iteration e) (ev_mode e))))"

definition set_active :: "jstr \<Rightarrow> jstr \<Rightarrow> ('w, unit) mgr" where
  "set_active runId taskId = io_modify (\<lambda>m. m\<lparr>tm_active_reviews := assoc_put runId taskId (tm_active_reviews m)\<rparr>)"

definition announce_state :: "'w manager_env \<Rightarrow> review_event \<Rightarrow> ('w, unit) mgr" where
  "announce_state env e = io_ext (me_emit env (StateEvent ''harness'' (''chatgpt-review-'' @ review_state_name (ev_state e)) (me_json env (review_event_js e))))"

text \<open>\<^verbatim>\<open>emitChatGptAgentState\<close>, and the listener that the manager gives the loop.\<close>

definition emit_chatgpt_agent_state :: "'w manager_env \<Rightarrow> review_event \<Rightarrow> ('w, unit) mgr" where
  "emit_chatgpt_agent_state env e = io_bind (set_active (ev_run_id e) (ev_task_id e)) (\<lambda>_. announce_state env e)"

definition on_review_event :: "'w manager_env \<Rightarrow> review_event \<Rightarrow> ('w, unit) mgr" where
  "on_review_event env e =
     io_bind (set_active (ev_run_id e) (ev_task_id e)) (\<lambda>_.
     io_bind (emit_chatgpt_progress env e) (\<lambda>_. announce_state env e))"

definition cancel_abandoned_planning_run :: "'w manager_env \<Rightarrow> jstr \<Rightarrow> jstr \<Rightarrow> ('w, unit) mgr" where
  "cancel_abandoned_planning_run env runId error =
     io_bind (cancel_active_review env runId) (\<lambda>_.
     io_bind (ask env (cancel_call runId)) (\<lambda>_.
     io_bind (release_codex env runId) (\<lambda>_.
       io_ext (me_emit env (StateEvent ''harness'' ''chatgpt-review-planning-cancelled''
         (me_json env (obj [(''runId'', JStr runId), (''reason'', JStr (safe_error error))])))))))"

section \<open>The loop with the verified executor\<close>

definition opt_field :: "string \<Rightarrow> js option \<Rightarrow> (string \<times> js) list" where
  "opt_field key v = (case v of Some x \<Rightarrow> [(key, x)] | None \<Rightarrow> [])"

definition turn_js :: "turn_view \<Rightarrow> js" where
  "turn_js t = obj ([(''runId'', JStr (tn_run_id t)), (''workspace'', JStr (tn_workspace t)), (''threadId'', JStr (tn_thread_id t)),
     (''turnId'', JStr (tn_turn_id t)), (''status'', JStr (tn_status t))]
     @ opt_field ''response'' (map_option JStr (tn_response t))
     @ [(''resumed'', JBool (tn_resumed t)), (''recoveredBeforeTurn'', JBool (tn_recovered t)), (''activeSkills'', strings_js (tn_active_skills t))]
     @ opt_field ''skillActivity'' (map_option skill_activity_js (tn_activity t)))"

definition verified_of :: "turn_view \<times> native_verification \<Rightarrow> verified_execution" where
  "verified_of tv = \<lparr>ve_turn = turn_js (fst tv), ve_turn_id = tn_turn_id (fst tv), ve_success = True,
     ve_proof_type = truthy (nv_proof_type (snd tv)), ve_proof_command = truthy (nv_proof_command (snd tv))\<rparr>"

record review_loop_input =
  rl_run_id :: jstr
  rl_prompt :: jstr
  rl_max_iterations :: js
  rl_mode :: js
  rl_model :: "jstr option"
  rl_conversation_id :: "jstr option"

text \<open>The state of the loop is the manager's beside the number of executions that returned.\<close>

definition execute_counted :: "'w manager_env \<Rightarrow> jstr option \<Rightarrow> jstr \<times> jstr \<Rightarrow> (('w \<times> task_manager) \<times> nat, verified_execution) io" where
  "execute_counted env model request =
     io_bind (io_ext (run_harness_codex_turn_verified env
         \<lparr>ti_run_id = fst request, ti_prompt = snd request, ti_preparation_id = None, ti_model = truthy model\<rparr>)) (\<lambda>tv.
     io_bind (io_modify Suc) (\<lambda>_. io_return (verified_of tv)))"

definition manager_review_env :: "'w manager_env \<Rightarrow> jstr option \<Rightarrow> (('w \<times> task_manager) \<times> nat) review_env" where
  "manager_review_env env model =
     \<lparr>rv_begin = (\<lambda>q. io_ext (io_ext (me_review_begin env q))), rv_review = (\<lambda>q. io_ext (io_ext (me_review_review env q))),
      rv_cancel = (\<lambda>t st. ((me_review_cancel env t (fst (fst st)), snd (fst st)), snd st)),
      rv_execute = execute_counted env model, rv_on_event = (\<lambda>e. io_ext (on_review_event env e))\<rparr>"

definition loop_input_of :: "review_loop_input \<Rightarrow> run_view \<Rightarrow> js \<Rightarrow> review_input" where
  "loop_input_of inp run mode =
     \<lparr>li_run_id = rl_run_id inp, li_workspace = rv_workspace run, li_prompt = rl_prompt inp, li_mode = mode,
      li_max_iterations = rl_max_iterations inp, li_conversation_id = rl_conversation_id inp\<rparr>"

definition start_review_loop :: "'w manager_env \<Rightarrow> jstr option \<Rightarrow> review_input \<Rightarrow> (('w \<times> task_manager) \<times> nat, review_view) io" where
  "start_review_loop env model li =
     io_bind (io_lift (validate_loop_input li)) (\<lambda>_.
     io_bind (io_ext (io_ext (me_uuid env ()))) (\<lambda>u.
       run_review_loop (manager_review_env env model) (lit ''sn_'' @ short_hex u) li))"

definition run_goal_loop :: "'w manager_env \<Rightarrow> review_loop_input \<Rightarrow> run_view \<Rightarrow> js \<Rightarrow> ('w, review_view) mgr" where
  "run_goal_loop env inp run mode wm =
     (case start_review_loop env (rl_model inp) (loop_input_of inp run mode) (wm, 0) of
        (Inr v, (wm', n)) \<Rightarrow> (Inr v, wm')
      | (Inl e, (wm', n)) \<Rightarrow>
          if n = 0 then io_bind (io_ignore (cancel_abandoned_planning_run env (rv_id run) e)) (\<lambda>_. io_lift (Inl e)) wm'
          else (Inl e, wm'))"

section \<open>The direct agent\<close>

definition build_chatgpt_direct_agent_goal :: "jstr \<Rightarrow> jstr" where
  "build_chatgpt_direct_agent_goal prompt =
     bounded_recovery_text (join [10]
       [lit ''DIRECT CHATGPT AGENT MODE'',
        lit ''ChatGPT owns the repository task through SourceNerve/Harness MCP tools. Do not delegate to native Codex and do not ask Codex to execute anything.'',
        lit (''Use the SourceNerve Harness connector for the exact WORKSPACE. Treat HARNESS_RUN_ID as a Desktop correlation id only; do not call harness_run_get as a startup precondition ''
          @ ''and do not block solely because that run id is unavailable or not found. Repository reads, writes, commands, approvals, and provider actions must go through SourceNerve/Harness tool policy only.''),
        lit (''A pending Harness approval is a user-interaction state, not missing tooling. Surface the exact pending action in ChatGPT, wait for allow/deny, ''
          @ ''then after allow retry only that exact action and continue without repeating completed side effects.''),
        lit (''After completing the requested work, return DONE. Return BLOCKED only when the connector, required tooling, or authority is actually unavailable after user interaction. ''
          @ ''Do not return PLAN in this mode because there is no Codex executor behind ChatGPT.''),
        lit (''ANSWER must be the actual user-facing result, not an acknowledgement. For repository analysis/review prompts, include concrete findings, affected files/components, ''
          @ ''risks, evidence inspected, and recommended next steps when relevant.''),
        lit ''Never return only phrases like: I analyzed the current source, analyzed at HEAD, or no implementation cycle is needed.'',
        lit ''For casual chat or prompts that require no repository action, return DONE with ANSWER: as a normal assistant reply.'',
        [],
        lit ''USER PROMPT:'',
        prompt])
       MAX_RECOVERY_CONTEXT_BYTES"

text \<open>
  The reply of the direct agent: a reply with a control block is parsed as one, an answer without
  is wrapped into one. A plan is never expected here.
\<close>

definition has_marker :: "jstr \<Rightarrow> bool" where
  "has_marker raw \<longleftrightarrow> starts_with marker raw \<or> str_includes (10 # marker) raw"

definition synthesized_reply :: "jstr \<Rightarrow> jstr \<Rightarrow> jstr" where
  "synthesized_reply taskId answer = join [10]
     [marker, lit ''STATE: DONE'', lit ''TASK_ID: '' @ taskId, lit ''ITERATION: 0'', [], lit ''ANSWER:'', answer]"

definition parse_direct_reply :: "jstr \<Rightarrow> jstr \<Rightarrow> control_message res" where
  "parse_direct_reply raw taskId =
     (let expected = \<lparr>ex_task_id = taskId, ex_plan = None, ex_done = 0, ex_blocked = 0\<rparr> in
      if has_marker raw then parse_review_control_message raw expected
      else if trim raw = [] then parse_review_control_message raw expected
      else parse_review_control_message (synthesized_reply taskId (trim raw)) expected)"

text \<open>
  \<^verbatim>\<open>directChatGptTranscriptText\<close>. The pattern of a field ends its lazy group at \<^verbatim>\<open>$\<close>, which with
  the flag \<^verbatim>\<open>m\<close> is the end of a line; so the group is the rest of the first line that is not
  blank, exactly what \<open>header\<close> returns.
\<close>

fun unix_newlines :: "jstr \<Rightarrow> jstr" where
  "unix_newlines (c # d # cs) = (if c = 13 \<and> d = 10 then 10 # unix_newlines cs else c # unix_newlines (d # cs))"
| "unix_newlines s = s"

definition transcript_field :: "jstr \<Rightarrow> string \<Rightarrow> jstr" where
  "transcript_field raw name = header (unix_newlines raw) name"

definition direct_transcript_text :: "jstr \<Rightarrow> bool \<Rightarrow> jstr" where
  "direct_transcript_text raw done =
     (if done then (if transcript_field raw ''ANSWER'' \<noteq> [] then transcript_field raw ''ANSWER'' else lit ''ChatGPT completed the turn.'')
      else let reasons = join [32, 8212, 32] (filter (\<lambda>t. t \<noteq> []) [transcript_field raw ''REASON'', transcript_field raw ''DETAIL'']) in
        first_text reasons (transcript_field raw ''ANSWER'') (lit ''ChatGPT could not complete the turn.''))"

definition message_js :: "review_loop_input \<Rightarrow> run_view \<Rightarrow> jstr \<Rightarrow> jstr \<Rightarrow> string \<Rightarrow> jstr \<Rightarrow> jstr \<Rightarrow> js" where
  "message_js inp run taskId i role txt createdAt = obj ([(''id'', JStr i), (''role'', jtext role), (''text'', JStr txt), (''createdAt'', JStr createdAt),
     (''turnId'', JStr (lit ''chatgpt-review:'' @ taskId)), (''runId'', JStr (rv_id run)), (''workspace'', JStr (rv_workspace run))]
     @ truthy_field ''conversationId'' (rl_conversation_id inp))"

definition record_direct :: "'w manager_env \<Rightarrow> review_loop_input \<Rightarrow> run_view \<Rightarrow> jstr \<Rightarrow> jstr \<Rightarrow> string \<Rightarrow> jstr \<Rightarrow> ('w, unit) mgr" where
  "record_direct env inp run taskId i role txt =
     io_bind (io_ext (me_timestamp env ())) (\<lambda>t. io_ext (me_record_message env (message_js inp run taskId i role txt t)))"

definition direct_event :: "run_view \<Rightarrow> jstr \<Rightarrow> review_state \<Rightarrow> review_event" where
  "direct_event run taskId state =
     \<lparr>ev_task_id = taskId, ev_run_id = rv_id run, ev_workspace = rv_workspace run, ev_iteration = 0, ev_state = state, ev_mode = ReviewMode\<rparr>"

definition direct_view :: "run_view \<Rightarrow> jstr \<Rightarrow> review_state \<Rightarrow> nat \<Rightarrow> jstr \<Rightarrow> review_view" where
  "direct_view run taskId state iterations review =
     \<lparr>lv_task_id = taskId, lv_run_id = rv_id run, lv_workspace = rv_workspace run, lv_state = state, lv_mode = ReviewMode,
      lv_iterations = iterations, lv_review = review, lv_turn = None\<rparr>"

definition direct_request :: "review_loop_input \<Rightarrow> run_view \<Rightarrow> jstr \<Rightarrow> plan_request" where
  "direct_request inp run taskId =
     \<lparr>pq_task_id = taskId, pq_run_id = rv_id run, pq_workspace = rv_workspace run, pq_goal = build_chatgpt_direct_agent_goal (rl_prompt inp),
      pq_mode = ReviewMode, pq_conversation_id = truthy (rl_conversation_id inp)\<rparr>"

definition unverified_review :: "jstr \<Rightarrow> native_verification \<Rightarrow> jstr" where
  "unverified_review taskId v = join [10]
     [marker, lit ''STATE: BLOCKED'', lit ''TASK_ID: '' @ taskId, lit ''ITERATION: 0'', [], lit ''REASON:'',
      lit ''Harness verification failed after the direct ChatGPT agent turn. No native Codex recovery was attempted.'', [], lit ''PROOF:'',
      (case nv_proof_command v of Some c \<Rightarrow> c | None \<Rightarrow> (case nv_proof_type v of Some t \<Rightarrow> t | None \<Rightarrow> lit ''repository proof'')), [], lit ''DETAIL:'',
      bounded_recovery_text (first_text (nv_stderr v) (nv_stdout v) (lit ''verification did not pass'')) 1024]"

text \<open>The end of a direct turn: the answer is recorded, the state announced and the result returned.\<close>

definition finish_direct :: "'w manager_env \<Rightarrow> review_loop_input \<Rightarrow> run_view \<Rightarrow> jstr \<Rightarrow> review_state \<Rightarrow> nat \<Rightarrow> jstr \<Rightarrow> ('w, review_view) mgr" where
  "finish_direct env inp run taskId state iterations review =
     io_bind (record_direct env inp run taskId (lit ''assistant:'' @ taskId) ''assistant'' (direct_transcript_text review (state = LoopDone))) (\<lambda>_.
     io_bind (emit_chatgpt_agent_state env (direct_event run taskId state)) (\<lambda>_.
       io_return (direct_view run taskId state iterations review)))"

definition direct_turn :: "'w manager_env \<Rightarrow> review_loop_input \<Rightarrow> run_view \<Rightarrow> jstr \<Rightarrow> ('w, review_view) mgr" where
  "direct_turn env inp run taskId =
     io_bind (io_ext (me_review_direct env (direct_request inp run taskId))) (\<lambda>raw.
     io_bind (io_lift (parse_direct_reply raw taskId)) (\<lambda>control.
       if cm_state control = BLOCKED then finish_direct env inp run taskId LoopBlocked 0 (cm_text control)
       else
         io_bind (emit_chatgpt_agent_state env (direct_event run taskId Verifying)) (\<lambda>_.
         io_bind (emit_chatgpt_progress env (direct_event run taskId Verifying)) (\<lambda>_.
         io_bind (run_native_verification env (rv_id run)) (\<lambda>v.
           if \<not> nv_success v then finish_direct env inp run taskId LoopBlocked 0 (unverified_review taskId v)
           else finish_direct env inp run taskId LoopDone (if nv_skipped v then 0 else 1) (cm_text control))))))"

definition clear_active :: "jstr \<Rightarrow> task_manager \<Rightarrow> task_manager" where
  "clear_active runId m = m\<lparr>tm_active_reviews := assoc_del runId (tm_active_reviews m)\<rparr>"

definition run_direct_agent :: "'w manager_env \<Rightarrow> review_loop_input \<Rightarrow> run_view \<Rightarrow> ('w, review_view) mgr" where
  "run_direct_agent env inp run =
     io_bind (io_ext (me_uuid env ())) (\<lambda>u.
       let taskId = lit ''sn_'' @ short_hex u in
       io_bind (record_direct env inp run taskId (lit ''user:chatgpt:'' @ taskId) ''user'' (rl_prompt inp)) (\<lambda>_.
       io_bind (set_active (rv_id run) taskId) (\<lambda>_.
       io_bind (emit_chatgpt_agent_state env (direct_event run taskId Planning)) (\<lambda>_.
       io_bind (emit_chatgpt_progress env (direct_event run taskId Planning)) (\<lambda>_.
         io_finally
           (io_catch (direct_turn env inp run taskId)
             (\<lambda>e. io_bind (io_ignore (cancel_abandoned_planning_run env (rv_id run) e)) (\<lambda>_. io_lift (Inl e))))
           (clear_active (rv_id run)))))))"

section \<open>The ChatGPT agent of a run\<close>

definition run_harness_codex_review_loop :: "'w manager_env \<Rightarrow> review_loop_input \<Rightarrow> ('w, review_view) mgr" where
  "run_harness_codex_review_loop env inp =
     (if \<not> me_has_review env then io_lift (throw ''ChatGPT control plane is not initialized'')
      else
        io_bind (get_harness_run env (rl_run_id inp)) (\<lambda>run.
          if rv_status run \<noteq> lit ''running'' \<or> rv_freshness_state run \<noteq> lit ''current''
          then io_lift (throw ''ChatGPT agent requires a current running Harness run'')
          else
            io_bind (io_gets (\<lambda>m. map_of (tm_active_reviews m) (rv_id run))) (\<lambda>active.
              if active \<noteq> None then io_lift (throw ''ChatGPT agent is already active for this Harness run'')
              else let mode = (if is_nullish (rl_mode inp) then jtext ''review'' else rl_mode inp) in
                if mode = jtext ''review'' then run_direct_agent env inp run
                else io_finally (run_goal_loop env inp run mode) (clear_active (rv_id run)))))"

section \<open>The budget of a loop\<close>

text \<open>
  An environment of the review loop whose calls are logged: what is asked of it for the log of the
  whole loop to stay within a budget. Only an execution may use any of it.
\<close>

locale review_budget =
  fixes env :: "'w review_env"
    and lg :: "'w \<Rightarrow> 'c list"
    and fits :: "nat \<Rightarrow> 'c list \<Rightarrow> bool"
    and share :: nat
  assumes fits_Nil: "fits 0 []"
    and fits_append: "fits a x \<Longrightarrow> fits b y \<Longrightarrow> fits (a + b) (x @ y)"
    and fits_mono: "fits a x \<Longrightarrow> a \<le> b \<Longrightarrow> fits b x"
    and begin_budget: "traces lg (rv_begin env q) (\<lambda>new r. fits 0 new)"
    and review_budget: "traces lg (rv_review env q') (\<lambda>new r. fits 0 new)"
    and event_budget: "traces lg (rv_on_event env event) (\<lambda>new r. fits 0 new)"
    and execute_budget: "traces lg (rv_execute env request) (\<lambda>new r. fits share new)"
    and cancel_budget: "lg (rv_cancel env taskId w) = lg w"
begin

abbreviation uses :: "nat \<Rightarrow> ('w, 'a) io \<Rightarrow> bool" where
  "uses n m \<equiv> traces lg m (\<lambda>new r. fits n new)"

lemma uses_lift: "uses n (io_lift r)" "uses n (io_return a)"
  using fits_mono [OF fits_Nil] by (auto intro: traces_return)

lemma uses_bind:
  assumes "uses a m" "\<And>x. uses b (f x)" shows "uses (a + b) (io_bind m f)"
  by (rule traces_bind [OF assms]) (auto intro: fits_append fits_mono)

lemma uses_bind0: "uses 0 m \<Longrightarrow> (\<And>x. uses b (f x)) \<Longrightarrow> uses b (io_bind m f)"
  using uses_bind [where a = 0 and m = m and b = b and f = f] by simp

lemma uses_emit: "uses 0 (emit_review env cx i st)"
  unfolding emit_review_def by (rule event_budget)

lemma uses_stage:
  assumes "uses 0 m" shows "uses 0 (with_stage_timeout env t ph m)"
  unfolding with_stage_timeout_def
  by (rule uses_bind0 [OF assms]) (auto simp: traces_def cancel_budget fits_Nil split: option.splits)

lemma uses_iteration: "uses share (review_iteration env cx i c)"
proof -
  have rest: "uses 0 (io_bind (emit_review env cx i Verifying) (\<lambda>_.
     io_bind (io_lift (if ve_success ex then Inr () else throw ''Harness returned an unverified Codex execution to the ChatGPT review loop'')) (\<lambda>_.
     io_bind (emit_review env cx i Reviewing) (\<lambda>_.
     io_bind (with_stage_timeout env (cx_task_id cx) ''review'' (rv_review env
         \<lparr>rq_task_id = cx_task_id cx, rq_run_id = li_run_id (cx_input cx), rq_workspace = li_workspace (cx_input cx),
          rq_iteration = i, rq_turn_id = ve_turn_id ex, rq_proof_type = truthy (ve_proof_type ex),
          rq_proof_command = truthy (ve_proof_command ex), rq_mode = cx_mode cx\<rparr>)) (\<lambda>raw.
     io_bind (io_lift (parse_review_control_message raw
         \<lparr>ex_task_id = cx_task_id cx, ex_plan = Some (i + 1), ex_done = i, ex_blocked = i\<rparr>)) (\<lambda>control'.
       io_return (control', ve_turn ex)))))))" for ex
    by (intro uses_bind0 uses_emit uses_stage review_budget uses_lift)
  show ?thesis
    unfolding review_iteration_def
    using uses_bind0 [OF uses_emit uses_bind [OF execute_budget rest]] by simp
qed

lemma uses_from: "uses (left * share) (review_from env cx left i c t)"
proof (induction left arbitrary: i c t)
  case 0
  show ?case by (simp, intro uses_bind0 uses_emit uses_lift)
next
  case (Suc left)
  have "uses (left * share) (case p of (c', turn) \<Rightarrow> if cm_state c' \<noteq> PLAN
       then io_bind (emit_review env cx i (final_state (cm_state c'))) (\<lambda>_.
              io_return (review_result cx (final_state (cm_state c')) i (cm_text c') (Some turn)))
       else review_from env cx left (Suc i) c' (Some turn))" for p
    using Suc.IH by (cases p) (auto intro!: uses_bind0 uses_emit uses_lift)
  from uses_bind [OF uses_iteration this] show ?case by simp
qed

lemma uses_rounds: "uses (cx_max cx * share) (review_rounds env cx)"
proof -
  have "uses (cx_max cx * share) (review_planned env cx control)" for control
    unfolding review_planned_def using uses_from by (auto intro!: uses_bind0 uses_emit uses_lift)
  then show ?thesis
    unfolding review_rounds_def by (intro uses_bind0 uses_emit uses_stage begin_budget uses_lift)
qed

lemma uses_loop: "uses (HARD_MAX_ITERATIONS * share) (run_review_loop env t inp)"
proof (cases "validate_loop_input inp")
  case (Inl e)
  then show ?thesis using uses_lift unfolding run_review_loop_def traces_def io_bind_def by simp
next
  case (Inr mn)
  obtain mode n where mn: "mn = (mode, n)" by (cases mn)
  from Inr mn have "n \<le> HARD_MAX_ITERATIONS"
    by (auto simp: validate_loop_input_def split: if_splits option.splits)
  then have "uses (HARD_MAX_ITERATIONS * share) (review_rounds env \<lparr>cx_task_id = t, cx_input = inp, cx_mode = mode, cx_max = n\<rparr>)"
    using uses_rounds [of "\<lparr>cx_task_id = t, cx_input = inp, cx_mode = mode, cx_max = n\<rparr>"]
    by (elim traces_weaken) (erule fits_mono, simp add: mult_le_mono1)
  with Inr mn show ?thesis unfolding run_review_loop_def traces_def by simp
qed

end

subsection \<open>The loop of the manager\<close>

definition tamed :: "nat \<Rightarrow> turn_call list \<Rightarrow> bool" where
  "tamed n l \<longleftrightarrow> supervised l \<and> length (runs l) \<le> n"

lemma tamed_simps: "tamed n []" "tamed a x \<Longrightarrow> tamed b y \<Longrightarrow> tamed (a + b) (x @ y)" "tamed a x \<Longrightarrow> a \<le> b \<Longrightarrow> tamed b x"
  by (auto simp: tamed_def supervised_Nil supervised_append)

lemma other_tamed: "other l \<Longrightarrow> tamed n l"
  by (simp add: tamed_def other_def supervised_other runs_other)

lemma verified_tamed: "verified_turn_trace new r \<Longrightarrow> tamed 5 new"
  by (simp add: verified_turn_trace_def governed_def tamed_def)

lemma traces_ext_fst: "traces lg m R \<Longrightarrow> traces (\<lambda>st. lg (fst st)) (io_ext m) R"
  unfolding traces_def by (auto simp: io_ext_def split: prod.splits) (metis fst_conv snd_conv)

lemma calls_set_active: "calls env_log other (set_active r t)"
  unfolding set_active_def by (rule calls_state)

lemma calls_announce: "calls env_log other (announce_state (logged_env env) e)" "calls env_log other (emit_chatgpt_progress (logged_env env) e)"
  unfolding announce_state_def emit_chatgpt_progress_def by (simp_all add: calls_unlogged)

lemma calls_on_event: "calls env_log other (on_review_event (logged_env env) e)"
  unfolding on_review_event_def by (intro calls_intros calls_set_active calls_announce)

lemma calls_agent_state: "calls env_log other (emit_chatgpt_agent_state (logged_env env) e)"
  unfolding emit_chatgpt_agent_state_def by (intro calls_intros calls_set_active calls_announce)

abbreviation loop_log :: "(('w \<times> turn_call list) \<times> task_manager) \<times> nat \<Rightarrow> turn_call list" where
  "loop_log st \<equiv> env_log (fst st)"

lemma loop_quiet: "calls env_log other m \<Longrightarrow> traces loop_log (io_ext m) (\<lambda>new r. tamed 0 new)"
  unfolding calls_def by (rule traces_ext_fst) (auto elim: traces_weaken intro: other_tamed)

lemma execute_tamed: "traces loop_log (execute_counted (logged_env env) model request) (\<lambda>new r. tamed 5 new)"
  unfolding execute_counted_def
proof (rule traces_bind [OF traces_ext_fst [OF traces_verified_turn]])
  show "traces loop_log (io_bind (io_modify Suc) (\<lambda>_. io_return (verified_of tv))) (\<lambda>new r. new = [])" for tv
    by (auto simp: traces_def io_bind_def io_modify_def io_state_def)
qed (auto intro: verified_tamed)

interpretation manager_loop: review_budget "manager_review_env (logged_env env) model" loop_log tamed 5
  for env :: "'w manager_env" and model :: "jstr option"
proof unfold_locales
  show "traces loop_log (rv_begin (manager_review_env (logged_env env) model) q) (\<lambda>new r. tamed 0 new)" for q
    by (simp add: manager_review_env_def loop_quiet calls_unlogged)
  show "traces loop_log (rv_review (manager_review_env (logged_env env) model) q) (\<lambda>new r. tamed 0 new)" for q
    by (simp add: manager_review_env_def loop_quiet calls_unlogged)
  show "traces loop_log (rv_on_event (manager_review_env (logged_env env) model) e) (\<lambda>new r. tamed 0 new)" for e
    by (simp add: manager_review_env_def loop_quiet calls_on_event)
  show "traces loop_log (rv_execute (manager_review_env (logged_env env) model) x) (\<lambda>new r. tamed 5 new)" for x
    by (simp add: manager_review_env_def execute_tamed)
qed (auto simp: tamed_simps manager_review_env_def)

subsection \<open>The calls of the agent\<close>

lemma calls_cancel_active: "calls env_log other (cancel_active_review (logged_env env) i)"
proof -
  have "calls env_log other (cancel_review (logged_env env) t)" for t
    by (auto simp: calls_def traces_def cancel_review_def io_ext_def)
  then show ?thesis
    unfolding cancel_active_review_def by (intro calls_intros) (auto intro!: calls_intros split: option.splits list.splits)
qed

lemma calls_abandoned: "calls env_log other (cancel_abandoned_planning_run (logged_env env) i e)"
  unfolding cancel_abandoned_planning_run_def release_codex_def
  by (intro calls_intros calls_cancel_active) (auto intro!: calls_intros simp: tag_client_def cancel_call_def)

lemma calls_abandon: "calls env_log other (io_bind (io_ignore (cancel_abandoned_planning_run (logged_env env) i e)) (\<lambda>_. io_lift (Inl e')))"
  by (intro calls_intros calls_ignore calls_abandoned)

lemma traces_goal_loop: "traces env_log (run_goal_loop (logged_env env) inp run mode) (\<lambda>new r. tamed 60 new)"
proof -
  have start: "traces loop_log (start_review_loop (logged_env env) model li) (\<lambda>new r. tamed 60 new)" for model li
  proof -
    have u: "traces loop_log (io_ext (io_ext (me_uuid (logged_env env) ()))) (\<lambda>new r. tamed 0 new)"
      by (simp add: loop_quiet calls_unlogged)
    show ?thesis
      unfolding start_review_loop_def
      using manager_loop.uses_bind0 [OF manager_loop.uses_lift(1) manager_loop.uses_bind0 [OF u manager_loop.uses_loop]]
      by (simp add: HARD_MAX_ITERATIONS_def)
  qed
  show ?thesis
    unfolding traces_def
  proof
    fix wm :: "('a \<times> turn_call list) \<times> task_manager"
    obtain r wm' n where st: "start_review_loop (logged_env env) (rl_model inp) (loop_input_of inp run mode) (wm, 0) = (r, (wm', n))"
      by (metis prod.exhaust)
    from tracesD [OF start st] obtain new where new: "env_log wm' = env_log wm @ new" "tamed 60 new" by auto
    show "\<exists>new. env_log (snd (run_goal_loop (logged_env env) inp run mode wm)) = env_log wm @ new \<and> tamed 60 new"
    proof (cases "(\<exists>v. r = Inr v) \<or> n \<noteq> 0")
      case True
      with st new show ?thesis by (cases r) (auto simp: run_goal_loop_def)
    next
      case False
      then obtain e where r: "r = Inl e" "n = 0" by (cases r) auto
      let ?m = "io_bind (io_ignore (cancel_abandoned_planning_run (logged_env env) (rv_id run) e)) (\<lambda>_. io_lift (Inl e)) :: (_, review_view) io"
      have "\<exists>q. env_log (snd (?m wm')) = env_log wm' @ q \<and> other q"
        using calls_abandon unfolding calls_def traces_def by blast
      with st r new tamed_simps(2) [OF new(2) other_tamed [of _ 0]] show ?thesis by (auto simp: run_goal_loop_def)
    qed
  qed
qed

text \<open>What a direct turn does: no execution, and a verification that passed before it is done.\<close>

definition direct_trace :: "turn_call list \<Rightarrow> review_view res \<Rightarrow> bool" where
  "direct_trace new r \<longleftrightarrow> supervised new \<and> runs new = []
     \<and> (\<forall>v. r = Inr v \<and> lv_state v = LoopDone \<longrightarrow>
          (\<exists>x nv. CVerify (Inr x) \<in> set new \<and> parse_native_verification x = Inr nv \<and> nv_success nv))"

lemma other_direct: "other new \<Longrightarrow> (\<And>v. r = Inr v \<Longrightarrow> lv_state v \<noteq> LoopDone) \<Longrightarrow> direct_trace new r"
  by (auto simp: direct_trace_def other_def supervised_other runs_other)

lemma direct_after_other: "other a \<Longrightarrow> direct_trace b r \<Longrightarrow> direct_trace (a @ b) r"
  by (auto simp: direct_trace_def other_def supervised_other supervised_append runs_other)

lemma traces_direct_other:
  assumes "calls env_log other m" "\<And>a. traces env_log (f a) direct_trace"
  shows "traces env_log (io_bind m f) direct_trace"
  by (rule traces_bind [OF assms(1) [unfolded calls_def] assms(2)]) (auto intro: other_direct direct_after_other)

lemma traces_finish_direct:
  "traces env_log (finish_direct (logged_env env) inp run t st n txt_rev) (\<lambda>new r. other new \<and> (\<forall>v. r = Inr v \<longrightarrow> lv_state v = st))"
proof -
  have rec: "calls env_log other (record_direct (logged_env env) inp run t i ro tx)" for i ro tx
    unfolding record_direct_def by (simp add: calls_intros)
  have ret: "traces env_log (io_return (direct_view run t st n txt_rev)) (\<lambda>new r. other new \<and> (\<forall>v. r = Inr v \<longrightarrow> lv_state v = st))"
    by (rule traces_return) (simp add: direct_view_def)
  have "traces env_log (io_bind (emit_chatgpt_agent_state (logged_env env) (direct_event run t st)) (\<lambda>_. io_return (direct_view run t st n txt_rev)))
      (\<lambda>new r. other new \<and> (\<forall>v. r = Inr v \<longrightarrow> lv_state v = st))"
    by (rule traces_bind [OF calls_agent_state [unfolded calls_def] ret]) auto
  then show ?thesis
    unfolding finish_direct_def by (rule traces_bind [OF rec [unfolded calls_def]]) auto
qed

lemma traces_direct_turn: "traces env_log (direct_turn (logged_env env) inp run t) direct_trace"
proof -
  have blocked: "traces env_log (finish_direct (logged_env env) inp run t LoopBlocked n txt_rev) direct_trace" for n txt_rev
    using traces_finish_direct by (rule traces_weaken) (auto intro: other_direct)
  have verify: "traces env_log (io_bind (run_native_verification (logged_env env) (rv_id run)) (\<lambda>v.
           if \<not> nv_success v then finish_direct (logged_env env) inp run t LoopBlocked 0 (unverified_review t v)
           else finish_direct (logged_env env) inp run t LoopDone (if nv_skipped v then 0 else 1) txt_rev)) direct_trace" for txt_rev
  proof (rule traces_bind [OF traces_verification])
    fix v
    show "traces env_log (if \<not> nv_success v then finish_direct (logged_env env) inp run t LoopBlocked 0 (unverified_review t v)
           else finish_direct (logged_env env) inp run t LoopDone (if nv_skipped v then 0 else 1) txt_rev)
        (\<lambda>new r. other new \<and> (\<forall>u. r = Inr u \<longrightarrow> lv_state u = LoopDone \<longrightarrow> nv_success v))"
      by (auto intro!: traces_weaken [OF traces_finish_direct])
  next
    fix new :: "turn_call list" and e
    assume "verification_trace new (Inl e)"
    then show "direct_trace new (Inl e)"
      by (auto simp: verification_trace_def direct_trace_def block_def intro!: supervised_block)
  next
    fix n1 n2 :: "turn_call list" and v and r :: "review_view res"
    assume v: "verification_trace n1 (Inr v)" and oth: "other n2 \<and> (\<forall>u. r = Inr u \<longrightarrow> lv_state u = LoopDone \<longrightarrow> nv_success v)"
    from v obtain x where x: "n1 = [CVerify (Inr x)]" "parse_native_verification x = Inr v" by (auto simp: verification_trace_def)
    have "supervised n1" using x(1) by (auto simp: block_def intro!: supervised_block)
    then have "supervised (n1 @ n2)" using oth by (simp add: supervised_append other_def supervised_other)
    with x oth show "direct_trace (n1 @ n2) r" by (auto simp: direct_trace_def other_def runs_other)
  qed
  show ?thesis
    unfolding direct_turn_def
    by (intro traces_direct_other calls_other_simps) (auto intro!: traces_direct_other blocked verify calls_agent_state calls_announce calls_unlogged)
qed

lemma traces_direct_agent: "traces env_log (run_direct_agent (logged_env env) inp run) direct_trace"
proof -
  have rec: "calls env_log other (record_direct (logged_env env) inp run t i ro tx)" for t i ro tx
    unfolding record_direct_def by (simp add: calls_intros)
  have body: "traces env_log (io_finally (io_catch (direct_turn (logged_env env) inp run t)
       (\<lambda>e. io_bind (io_ignore (cancel_abandoned_planning_run (logged_env env) (rv_id run) e)) (\<lambda>_. io_lift (Inl e)))) (clear_active (rv_id run)))
      direct_trace" for t
  proof (rule traces_finally, rule traces_catch [OF traces_direct_turn])
    show "traces env_log (io_bind (io_ignore (cancel_abandoned_planning_run (logged_env env) (rv_id run) e)) (\<lambda>_. io_lift (Inl e)))
        (\<lambda>new r. other new \<and> r = Inl e)" for e :: jstr
      by (rule traces_bind [where ?R1.0 = "\<lambda>new r. other new \<and> r = Inr ()" and ?R2.0 = "\<lambda>a new r. new = [] \<and> r = Inl e"])
        (auto intro!: traces_ignore [OF calls_abandoned [unfolded calls_def]])
  qed (auto simp: direct_trace_def other_def supervised_other supervised_append runs_other)
  show ?thesis
    unfolding run_direct_agent_def Let_def
    by (intro traces_direct_other rec calls_set_active calls_agent_state calls_announce body) (simp add: calls_unlogged)
qed

text \<open>The whole agent: the budget, and in review mode what a direct turn does.\<close>

definition agent_trace :: "bool \<Rightarrow> turn_call list \<Rightarrow> review_view res \<Rightarrow> bool" where
  "agent_trace direct new r \<longleftrightarrow> tamed 60 new \<and> (direct \<longrightarrow> direct_trace new r)"

lemma agent_lift: "traces env_log (io_lift (throw msg)) (agent_trace d)"
  using other_direct [of "[]" "throw msg"] by (simp add: agent_trace_def throw_def tamed_simps)

lemma agent_bind:
  assumes "calls env_log other p" "\<And>a. traces env_log (f a) (agent_trace d)"
  shows "traces env_log (io_bind p f) (agent_trace d)"
proof (rule traces_bind [OF assms(1) [unfolded calls_def] assms(2)])
  fix a b :: "turn_call list" and x
  assume "other a" "agent_trace d b x"
  with tamed_simps(2) [OF other_tamed [of a 0], of 60 b] show "agent_trace d (a @ b) x"
    by (auto simp: agent_trace_def intro: direct_after_other)
qed (auto simp: agent_trace_def other_tamed intro: other_direct)

lemma traces_agent:
  "traces env_log (run_harness_codex_review_loop (logged_env env) inp) (agent_trace (is_nullish (rl_mode inp) \<or> rl_mode inp = jtext ''review''))"
proof -
  have direct: "traces env_log (run_direct_agent (logged_env env) inp run) (agent_trace d)" for run d
    using traces_direct_agent by (rule traces_weaken) (auto simp: agent_trace_def direct_trace_def tamed_def)
  have loop: "traces env_log (io_finally (run_goal_loop (logged_env env) inp run mode) (clear_active (rv_id run))) (agent_trace False)" for run mode
    by (rule traces_finally, rule traces_weaken [OF traces_goal_loop]) (simp add: agent_trace_def)
  show ?thesis
    unfolding run_harness_codex_review_loop_def Let_def
    by (auto intro!: agent_lift agent_bind calls_get_run calls_state direct loop)
qed

section \<open>Properties\<close>

text \<open>
  C7: The ChatGPT agent of a run is supervised whatever ChatGPT, the core and the runtime answer. In every
  mode each execution of the native runtime lies between its start and its finish, and there are
  at most sixty, five for each of at most twelve rounds. In review mode there is none at
  all, and the agent reports that the turn is done only after the core has verified the
  repository and the verification has passed.
\<close>

theorem chatgpt_agent_supervised:
  assumes "run_harness_codex_review_loop (logged_env env) inp ((w, []), m) = (r, ((w', l), m'))"
  shows "supervised l \<and> length (runs l) \<le> 60
    \<and> (is_nullish (rl_mode inp) \<or> rl_mode inp = jtext ''review'' \<longrightarrow> runs l = []
         \<and> (\<forall>v. r = Inr v \<and> lv_state v = LoopDone \<longrightarrow>
              (\<exists>x nv. CVerify (Inr x) \<in> set l \<and> parse_native_verification x = Inr nv \<and> nv_success nv)))"
  using tracesD [OF traces_agent assms] by (auto simp: agent_trace_def tamed_def direct_trace_def)

definition demo_review_manager_env :: "unit manager_env" where
  "demo_review_manager_env = demo_manager_env\<lparr>me_has_review := True, me_review_direct := \<lambda>_. io_return (lit ''hello'')\<rparr>"

definition demo_agent_input :: review_loop_input where
  "demo_agent_input = \<lparr>rl_run_id = lit ''r'', rl_prompt = lit ''q'', rl_max_iterations = JUndef, rl_mode = JUndef, rl_model = None, rl_conversation_id = None\<rparr>"

theorem chatgpt_agent_supervised_witness:
  "\<exists>r w l m. run_harness_codex_review_loop (logged_env demo_review_manager_env) demo_agent_input (((), []), new_task_manager) = (r, ((w, l), m))
     \<and> supervised l \<and> runs l = []"
proof -
  obtain r w l m where run: "run_harness_codex_review_loop (logged_env demo_review_manager_env) demo_agent_input (((), []), new_task_manager) = (r, ((w, l), m))"
    by (metis prod.exhaust)
  from chatgpt_agent_supervised [OF run] run show ?thesis by (auto simp: demo_agent_input_def is_nullish_def)
qed

subsection \<open>The transcript of a direct turn\<close>

lemma unix_newlines_plain: "13 \<notin> set p \<Longrightarrow> unix_newlines (p @ s) = p @ unix_newlines s"
proof (induction p)
  case (Cons c p)
  then have "unix_newlines (c # p @ s) = c # unix_newlines (p @ s)" by (cases "p @ s") auto
  with Cons show ?case by simp
qed simp

lemma header_hit:
  assumes "name \<noteq> []"
  shows "header (lit name @ 58 # s) name = trim (takeWhile (\<lambda>c. \<not> is_line_end c) (dropWhile is_space s))"
proof -
  have "header_at (lit name) (lit name @ 58 # s) = Some (trim (takeWhile (\<lambda>c. \<not> is_line_end c) (dropWhile is_space s)))"
    by (simp add: header_at_def starts_with_prefix)
  moreover obtain c cs where "lit name @ 58 # s = c # cs" using assms by (cases "lit name") auto
  ultimately show ?thesis by (simp add: header_def)
qed

text \<open>
  The transcript of a direct turn keeps only the first line of an answer: whatever follows the first
  line of the answer in the reply of ChatGPT is not recorded. The pattern means to take
  everything up to the next field; its \<^verbatim>\<open>$\<close> already matches at the end of the first line.
\<close>

theorem transcript_first_line:
  assumes "list_all (\<lambda>c. \<not> is_line_end c) line" "trim line = line" "line \<noteq> []"
  shows "direct_transcript_text (lit ''ANSWER:'' @ [10] @ line @ [10] @ others) True = line"
proof -
  have l: "lit ''ANSWER:'' = lit ''ANSWER'' @ [58]" by (simp add: lit_def)
  have "13 \<notin> set (lit ''ANSWER'' @ 58 # 10 # line @ [10])"
    using assms(1) by (auto simp: list_all_iff is_line_end_def lit_def)
  then have n: "unix_newlines (lit ''ANSWER'' @ 58 # 10 # line @ 10 # others) = lit ''ANSWER'' @ 58 # 10 # line @ 10 # unix_newlines others"
    using unix_newlines_plain [of "lit ''ANSWER'' @ 58 # 10 # line @ [10]" others] by simp
  have "\<not> is_space (hd line)" using assms(2,3) trim_hd [of line] by simp
  then have d: "dropWhile is_space (10 # line @ 10 # unix_newlines others) = line @ 10 # unix_newlines others"
    using assms(3) by (cases line) (auto simp: is_space_def between_def)
  have t: "takeWhile (\<lambda>c. \<not> is_line_end c) (line @ 10 # unix_newlines others) = line"
    using assms(1) by (simp add: takeWhile_append2 list_all_iff is_line_end_def)
  have "transcript_field (lit ''ANSWER'' @ 58 # 10 # line @ 10 # others) ''ANSWER'' = line"
    unfolding transcript_field_def n header_hit [of "''ANSWER''", simplified] d t by (rule assms(2))
  then show ?thesis using assms(3) by (simp add: direct_transcript_text_def l)
qed

theorem transcript_first_line_witness:
  "direct_transcript_text (lit ''ANSWER:'' @ [10] @ lit ''Two bugs.'' @ [10] @ lit ''1. a  2. b'') True = lit ''Two bugs.''"
  by (rule transcript_first_line) (simp_all add: lit_def is_line_end_def trim_def is_space_def between_def)

end
