(* ===== verification/Task_Lifecycle.thy ===== *)
theory Task_Lifecycle
  imports Manager_Base
begin

text \<open>
  The desktop task manager (\<^verbatim>\<open>task-manager.ts\<close>), third part: the lifecycle of a governed task, from
  its begin on the default branch over branch, proposal, patch, review and commit to the push.
  The core owns the task; the manager reads its snapshot, checks the managed workspace and the
  phase, and only then sends the request that changes something. The second half logs every call
  with its answer and shows that no such request is ever sent without those checks.
\<close>

section \<open>Operations\<close>

definition emit_task :: "'w manager_env \<Rightarrow> string \<Rightarrow> jstr \<Rightarrow> ('w, unit) mgr" where
  "emit_task env st message = io_ext (me_emit env (StateEvent ''task'' st message))"

definition workspace_named :: "jstr \<Rightarrow> string \<Rightarrow> jstr" where
  "workspace_named workspaceId rest = lit ''Workspace '' @ workspaceId @ lit rest"

definition check_managed_workspace :: "jstr \<Rightarrow> bool \<Rightarrow> bool \<Rightarrow> managed_workspace list \<Rightarrow> managed_workspace res" where
  "check_managed_workspace workspaceId writable beginReady workspaces =
     (case find (\<lambda>item. mw_id item = workspaceId) workspaces of
        None \<Rightarrow> Inl (workspace_named workspaceId '' is not a ready Desktop-managed workspace'')
      | Some workspace \<Rightarrow>
          if \<not> mw_ready workspace then Inl (workspace_named workspaceId '' is not a ready Desktop-managed workspace'')
          else if writable \<and> \<not> mw_read_write workspace
            then Inl (workspace_named workspaceId '' is read-only; task mutation actions are unavailable'')
          else if beginReady \<and> mw_branch workspace \<noteq> None \<and> mw_branch workspace \<noteq> Some [] \<and> mw_branch workspace \<noteq> Some (mw_default_branch workspace)
            then Inl (workspace_named workspaceId '' must be on default branch '' @ mw_default_branch workspace @ lit '' before beginning a task'')
          else Inr workspace)"

definition require_managed_workspace :: "'w manager_env \<Rightarrow> jstr \<Rightarrow> bool \<Rightarrow> bool \<Rightarrow> ('w, managed_workspace) mgr" where
  "require_managed_workspace env workspaceId writable beginReady =
     io_bind (io_ext (me_workspaces env ())) (\<lambda>workspaces. io_lift (check_managed_workspace workspaceId writable beginReady workspaces))"

text \<open>\<^verbatim>\<open>get\<close>.\<close>

definition get_call :: "jstr \<Rightarrow> client_call" where
  "get_call taskId = Task ''/api/v1/tasks/get'' (obj [(''task_id'', JStr taskId)])"

definition task_get :: "'w manager_env \<Rightarrow> jstr \<Rightarrow> ('w, task_snapshot) mgr" where
  "task_get env taskId = io_bind (ask env (get_call taskId)) (parse_with parse_task_snapshot)"

text \<open>\<^verbatim>\<open>begin\<close>: the request key of an input is kept until the task is registered.\<close>

record begin_input =
  bi_workspace :: jstr
  bi_context_query :: "jstr option"

definition begin_input_js :: "begin_input \<Rightarrow> js" where
  "begin_input_js inp = obj ([(''workspace'', JStr (bi_workspace inp))]
     @ (case bi_context_query inp of Some q \<Rightarrow> [(''contextQuery'', JStr q)] | None \<Rightarrow> []))"

definition begin_fingerprint :: "'w manager_env \<Rightarrow> begin_input \<Rightarrow> jstr" where
  "begin_fingerprint env inp = me_sha256 env (me_json env (begin_input_js inp))"

definition add_begin_key :: "jstr \<Rightarrow> jstr \<Rightarrow> (jstr \<times> jstr) list \<Rightarrow> (jstr \<times> jstr) list" where
  "add_begin_key fingerprint key kvs =
     assoc_put fingerprint key (if 16 \<le> length kvs then assoc_del (fst (hd kvs)) kvs else kvs)"

definition begin_request_key :: "'w manager_env \<Rightarrow> jstr \<Rightarrow> ('w, jstr) mgr" where
  "begin_request_key env fingerprint =
     io_bind (io_gets (\<lambda>m. map_of (tm_begin_keys m) fingerprint)) (\<lambda>known.
       case known of
         Some (c # cs) \<Rightarrow> io_return (c # cs)
       | _ \<Rightarrow>
           io_bind (io_ext (me_uuid env ())) (\<lambda>u.
           io_bind (io_modify (\<lambda>m. m\<lparr>tm_begin_keys := add_begin_key fingerprint (lit ''desktop:begin:'' @ u) (tm_begin_keys m)\<rparr>)) (\<lambda>_.
             io_return (lit ''desktop:begin:'' @ u))))"

definition begin_call :: "begin_input \<Rightarrow> jstr \<Rightarrow> client_call" where
  "begin_call inp requestKey = Task ''/api/v1/tasks/begin'' (obj ([(''workspace'', JStr (bi_workspace inp)),
     (''client_request_id'', JStr requestKey)] @ truthy_field ''context_query'' (bi_context_query inp)))"

definition reference_js :: "task_snapshot \<Rightarrow> jstr \<Rightarrow> js" where
  "reference_js snapshot createdAt = obj [(''taskId'', JStr (tv_id (sn_task snapshot))),
     (''workspace'', JStr (tv_workspace (sn_task snapshot))), (''createdAt'', JStr createdAt)]"

definition remember_snapshot :: "'w manager_env \<Rightarrow> task_snapshot \<Rightarrow> ('w, unit) mgr" where
  "remember_snapshot env snapshot =
     io_bind (io_ext (me_timestamp env ())) (\<lambda>t. io_ext (me_remember env (reference_js snapshot t)))"

text \<open>What follows the answer to the request.\<close>

definition register_begun :: "'w manager_env \<Rightarrow> begin_input \<Rightarrow> js \<Rightarrow> ('w, task_snapshot \<times> bool) mgr" where
  "register_begun env inp v =
     io_bind (parse_with parse_task_begin v) (\<lambda>(task, replayed).
       if tv_workspace task \<noteq> bi_workspace inp then io_lift (throw ''SourceNerve task begin workspace mismatch'')
       else
         io_bind (task_get env (tv_id task)) (\<lambda>snapshot.
         io_bind (remember_snapshot env snapshot) (\<lambda>_.
         io_bind (io_modify (\<lambda>m. m\<lparr>tm_begin_keys := assoc_del (begin_fingerprint env inp) (tm_begin_keys m)\<rparr>)) (\<lambda>_.
         io_bind (emit_task env ''ready'' (lit ''Task '' @ tv_id (sn_task snapshot) @ lit '' created at '' @ short_sha (tv_base_head (sn_task snapshot)))) (\<lambda>_.
           io_return (snapshot, replayed))))))"

definition task_begin :: "'w manager_env \<Rightarrow> begin_input \<Rightarrow> ('w, task_snapshot \<times> bool) mgr" where
  "task_begin env inp =
     io_bind (require_managed_workspace env (bi_workspace inp) True True) (\<lambda>_.
     io_bind (begin_request_key env (begin_fingerprint env inp)) (\<lambda>requestKey.
     io_bind (ask env (begin_call inp requestKey)) (register_begun env inp)))"

definition task_read_file :: "'w manager_env \<Rightarrow> jstr \<Rightarrow> jstr \<Rightarrow> ('w, jstr \<times> jstr) mgr" where
  "task_read_file env taskId path =
     io_bind (task_get env taskId) (\<lambda>snapshot.
     io_bind (require_managed_workspace env (tv_workspace (sn_task snapshot)) False False) (\<lambda>_.
       io_ext (me_read_file env (tv_workspace (sn_task snapshot), path))))"

definition task_remember :: "'w manager_env \<Rightarrow> jstr \<Rightarrow> ('w, task_snapshot) mgr" where
  "task_remember env taskId =
     io_bind (task_get env taskId) (\<lambda>snapshot.
     io_bind (require_managed_workspace env (tv_workspace (sn_task snapshot)) False False) (\<lambda>_.
     io_bind (remember_snapshot env snapshot) (\<lambda>_. io_return snapshot)))"

definition task_cancel :: "'w manager_env \<Rightarrow> jstr \<Rightarrow> ('w, task_snapshot) mgr" where
  "task_cancel env taskId =
     io_bind (task_get env taskId) (\<lambda>snapshot.
     io_bind (require_managed_workspace env (tv_workspace (sn_task snapshot)) False False) (\<lambda>_.
     io_bind (ask env (Task ''/api/v1/tasks/cancel'' (obj [(''task_id'', JStr taskId)]))) (\<lambda>v.
     io_bind (parse_with parse_task_view v) (\<lambda>cancelled.
       if tv_id cancelled \<noteq> taskId then io_lift (throw ''SourceNerve cancelled a different task'')
       else io_bind (emit_task env ''cancelled'' (lit ''Task '' @ taskId @ lit '' cancelled'')) (\<lambda>_. task_get env taskId)))))"

definition task_checkout_branch :: "'w manager_env \<Rightarrow> jstr \<Rightarrow> jstr \<Rightarrow> ('w, lifecycle_view \<times> unit \<times> bool) mgr" where
  "task_checkout_branch env taskId branch =
     io_bind (task_get env taskId) (\<lambda>snapshot.
     io_bind (require_managed_workspace env (tv_workspace (sn_task snapshot)) True False) (\<lambda>workspace.
       if \<not> is_safe_branch (JStr branch) \<or> branch = mw_default_branch workspace
       then io_lift (Inl (lit ''Feature branch must be safe and different from default branch '' @ mw_default_branch workspace))
       else
         io_bind (ask env (Task ''/api/v1/tasks/lifecycle/branch'' (obj [(''task_id'', JStr taskId), (''branch'', JStr branch)]))) (\<lambda>v.
         io_bind (parse_with parse_task_branch_result v) (\<lambda>result.
         io_bind (emit_task env ''branched'' (lit ''Task '' @ taskId @ lit '' branch ''
             @ (case lf_branch (fst result) of Some b \<Rightarrow> b | None \<Rightarrow> branch) @ lit '' ready'')) (\<lambda>_. io_return result)))))"

fun task_status_name :: "task_status \<Rightarrow> string" where
  "task_status_name TaskActive = ''active''"
| "task_status_name TaskStale = ''stale''"
| "task_status_name TaskApplied = ''applied''"
| "task_status_name TaskCancelled = ''cancelled''"

fun phase_name :: "task_phase \<Rightarrow> string" where
  "phase_name Snapshot = ''snapshot''"
| "phase_name Branched = ''branched''"
| "phase_name Patched = ''patched''"
| "phase_name Reviewed = ''reviewed''"
| "phase_name Committed = ''committed''"
| "phase_name Pushed = ''pushed''"
| "phase_name PrOpen = ''pr_open''"
| "phase_name Merged = ''merged''"
| "phase_name Completed = ''completed''"

record propose_input =
  pi_task_id :: jstr
  pi_expected :: "(jstr \<times> jstr option) list"
  pi_patch :: jstr

definition expectation_js :: "jstr \<times> jstr option \<Rightarrow> js" where
  "expectation_js e = obj ([(''path'', JStr (fst e))] @ (case snd e of Some s \<Rightarrow> [(''sha256'', JStr s)] | None \<Rightarrow> []))"

definition expected_file_js :: "jstr \<times> jstr option \<Rightarrow> js" where
  "expected_file_js e = obj [(''path'', JStr (fst e)), (''sha256'', case snd e of Some s \<Rightarrow> JStr s | None \<Rightarrow> JNull)]"

definition proposal_hash :: "'w manager_env \<Rightarrow> propose_input \<Rightarrow> jstr" where
  "proposal_hash env inp = me_sha256 env (me_json env (obj [(''taskId'', JStr (pi_task_id inp)),
     (''expectedFiles'', JArr (map expectation_js (pi_expected inp))), (''patch'', JStr (pi_patch inp))]))"

definition task_propose :: "'w manager_env \<Rightarrow> propose_input \<Rightarrow> ('w, proposal_view \<times> bool) mgr" where
  "task_propose env inp =
     io_bind (task_get env (pi_task_id inp)) (\<lambda>snapshot.
     io_bind (require_managed_workspace env (tv_workspace (sn_task snapshot)) True False) (\<lambda>_.
       if tv_status (sn_task snapshot) \<noteq> TaskActive \<or> lf_phase (sn_lifecycle snapshot) \<noteq> Branched
       then io_lift (throw (''Task must be active and branched before proposing a patch (status='' @ task_status_name (tv_status (sn_task snapshot))
              @ '', phase='' @ phase_name (lf_phase (sn_lifecycle snapshot)) @ '')''))
       else
         io_bind (ask env (Task ''/api/v1/tasks/proposals/create'' (obj [(''task_id'', JStr (pi_task_id inp)),
             (''idempotency_key'', JStr (lit ''desktop:proposal:'' @ take 40 (proposal_hash env inp))),
             (''expected_files'', JArr (map expected_file_js (pi_expected inp))), (''patch'', JStr (pi_patch inp))]))) (\<lambda>v.
         io_bind (parse_with parse_task_proposal_result v) (\<lambda>result.
           if pv_task_id (fst result) \<noteq> pi_task_id inp then io_lift (throw ''SourceNerve proposal task mismatch'')
           else io_bind (emit_task env ''working'' (lit ''Patch proposal '' @ pv_id (fst result) @ lit '' validated for ''
               @ show_nat (length (pv_changed_paths (fst result))) @ lit '' path(s)'')) (\<lambda>_. io_return result)))))"

definition task_apply :: "'w manager_env \<Rightarrow> jstr \<Rightarrow> jstr \<Rightarrow> ('w, apply_result) mgr" where
  "task_apply env taskId proposalId =
     io_bind (task_get env taskId) (\<lambda>snapshot.
     io_bind (require_managed_workspace env (tv_workspace (sn_task snapshot)) True False) (\<lambda>_.
       if (case find (\<lambda>item. pv_id item = proposalId) (sn_proposals snapshot) of
             None \<Rightarrow> True | Some proposal \<Rightarrow> pv_status proposal \<noteq> Proposed)
       then io_lift (throw ''Selected task proposal is no longer applicable; refresh the task'')
       else
         io_bind (ask env (Task ''/api/v1/tasks/proposals/apply'' (obj [(''task_id'', JStr taskId), (''proposal_id'', JStr proposalId)]))) (\<lambda>v.
         io_bind (parse_with parse_task_apply_result v) (\<lambda>result.
         io_bind (emit_task env ''patched'' (lit ''Task '' @ taskId @ lit '' patch applied; review the complete delta before commit'')) (\<lambda>_.
           io_return result)))))"

definition task_review :: "'w manager_env \<Rightarrow> jstr \<Rightarrow> ('w, lifecycle_view \<times> git_review \<times> bool) mgr" where
  "task_review env taskId =
     io_bind (task_get env taskId) (\<lambda>snapshot.
     io_bind (require_managed_workspace env (tv_workspace (sn_task snapshot)) True False) (\<lambda>_.
     io_bind (ask env (Task ''/api/v1/tasks/lifecycle/review'' (obj [(''task_id'', JStr taskId)]))) (\<lambda>v.
     io_bind (parse_with parse_task_review_result v) (\<lambda>result.
     io_bind (emit_task env ''reviewed'' (lit ''Task '' @ taskId @ lit '' reviewed diff '' @ short_sha (gr_diff_sha256 (fst (snd result))))) (\<lambda>_.
       io_return result)))))"

definition task_commit :: "'w manager_env \<Rightarrow> jstr \<Rightarrow> jstr \<Rightarrow> ('w, lifecycle_view \<times> commit_view \<times> bool) mgr" where
  "task_commit env taskId message =
     io_bind (task_get env taskId) (\<lambda>snapshot.
     io_bind (require_managed_workspace env (tv_workspace (sn_task snapshot)) True False) (\<lambda>_.
       if lf_phase (sn_lifecycle snapshot) \<noteq> Reviewed
       then io_lift (throw (''Task must be reviewed before commit (phase='' @ phase_name (lf_phase (sn_lifecycle snapshot)) @ '')''))
       else
         io_bind (ask env (Task ''/api/v1/tasks/lifecycle/commit'' (obj [(''task_id'', JStr taskId), (''message'', JStr message)]))) (\<lambda>v.
         io_bind (parse_with parse_task_commit_result v) (\<lambda>result.
         io_bind (emit_task env ''committed'' (lit ''Task '' @ taskId @ lit '' committed '' @ short_sha (cv_commit (fst (snd result))))) (\<lambda>_.
           io_return result)))))"

definition task_push :: "'w manager_env \<Rightarrow> jstr \<Rightarrow> ('w, lifecycle_view \<times> push_view \<times> bool) mgr" where
  "task_push env taskId =
     io_bind (task_get env taskId) (\<lambda>snapshot.
     io_bind (require_managed_workspace env (tv_workspace (sn_task snapshot)) True False) (\<lambda>_.
       if lf_phase (sn_lifecycle snapshot) \<noteq> Committed
       then io_lift (throw (''Task must be committed before push (phase='' @ phase_name (lf_phase (sn_lifecycle snapshot)) @ '')''))
       else
         io_bind (ask env (Task ''/api/v1/tasks/lifecycle/push'' (obj [(''task_id'', JStr taskId)]))) (\<lambda>v.
         io_bind (parse_with parse_task_push_result v) (\<lambda>result.
         io_bind (emit_task env ''pushed'' (lit ''Task '' @ taskId @ lit '' pushed exact commit '' @ short_sha (pu_head (fst (snd result))))) (\<lambda>_.
           io_return result)))))"

text \<open>\<^verbatim>\<open>notifyCompleted\<close>: each completion is announced once while its key is remembered.\<close>

definition add_completion_key :: "jstr \<Rightarrow> jstr list \<Rightarrow> jstr list" where
  "add_completion_key key keys =
     (case keys of
        oldest # rest \<Rightarrow>
          (if MAX_COMPLETION_NOTIFICATION_KEYS \<le> length keys \<and> oldest \<noteq> [] then rest else keys) @ [key]
      | [] \<Rightarrow> [key])"

definition completion_key :: "jstr \<Rightarrow> jstr \<Rightarrow> jstr" where
  "completion_key taskId head = taskId @ lit '':'' @ head"

definition notify_completed :: "'w manager_env \<Rightarrow> jstr \<Rightarrow> jstr \<Rightarrow> ('w, unit) mgr" where
  "notify_completed env taskId head =
     io_bind (io_gets (\<lambda>m. completion_key taskId head \<in> set (tm_completion_keys m))) (\<lambda>known.
       if known then io_return ()
       else
         io_bind (io_modify (\<lambda>m. m\<lparr>tm_completion_keys := add_completion_key (completion_key taskId head) (tm_completion_keys m)\<rparr>)) (\<lambda>_.
           emit_task env ''completed'' (lit ''Task '' @ taskId @ lit '' completed at '' @ short_sha head)))"

section \<open>What is checked before a change\<close>

text \<open>The log of a run: the calls of the core and the listings of workspaces, with their answers.\<close>

datatype task_log = Asked client_call "js res" | Listed "managed_workspace list res"

definition audited_env :: "'w manager_env \<Rightarrow> ('w \<times> task_log list) manager_env" where
  "audited_env env =
     (unlogged_env env)\<lparr>me_client := logged_with Asked (me_client env), me_workspaces := logged_with (\<lambda>_. Listed) (me_workspaces env)\<rparr>"

text \<open>The requests that change a task or its workspace.\<close>

definition CHANGING_PATHS :: "string list" where
  "CHANGING_PATHS = [''/api/v1/tasks/begin'', ''/api/v1/tasks/cancel'', ''/api/v1/tasks/lifecycle/branch'',
     ''/api/v1/tasks/proposals/create'', ''/api/v1/tasks/proposals/apply'', ''/api/v1/tasks/lifecycle/review'',
     ''/api/v1/tasks/lifecycle/commit'', ''/api/v1/tasks/lifecycle/push'']"

fun changes :: "client_call \<Rightarrow> bool" where
  "changes (Task path body) \<longleftrightarrow> path \<in> set CHANGING_PATHS"
| "changes _ \<longleftrightarrow> False"

text \<open>What must hold of the snapshot and the workspace for a request about an existing task.\<close>

definition permitted :: "string \<Rightarrow> js \<Rightarrow> task_snapshot \<Rightarrow> managed_workspace \<Rightarrow> bool" where
  "permitted path body s k \<longleftrightarrow>
     (path \<noteq> ''/api/v1/tasks/cancel'' \<longrightarrow> mw_read_write k)
     \<and> (path = ''/api/v1/tasks/lifecycle/branch'' \<longrightarrow>
          (\<exists>b. jget body ''branch'' = JStr b \<and> safe_branch b \<and> b \<noteq> mw_default_branch k))
     \<and> (path = ''/api/v1/tasks/proposals/create'' \<longrightarrow> tv_status (sn_task s) = TaskActive \<and> lf_phase (sn_lifecycle s) = Branched)
     \<and> (path = ''/api/v1/tasks/proposals/apply'' \<longrightarrow>
          (\<exists>p\<in>set (sn_proposals s). jget body ''proposal_id'' = JStr (pv_id p) \<and> pv_status p = Proposed))
     \<and> (path = ''/api/v1/tasks/lifecycle/commit'' \<longrightarrow> lf_phase (sn_lifecycle s) = Reviewed)
     \<and> (path = ''/api/v1/tasks/lifecycle/push'' \<longrightarrow> lf_phase (sn_lifecycle s) = Committed)"

definition begin_checked :: "task_log list \<Rightarrow> js \<Rightarrow> bool" where
  "begin_checked before body \<longleftrightarrow> (\<exists>ws k. Listed (Inr ws) \<in> set before \<and> k \<in> set ws \<and> jget body ''workspace'' = JStr (mw_id k)
     \<and> mw_ready k \<and> mw_read_write k \<and> mw_branch k \<in> {None, Some [], Some (mw_default_branch k)})"

definition change_checked :: "task_log list \<Rightarrow> string \<Rightarrow> js \<Rightarrow> bool" where
  "change_checked before path body \<longleftrightarrow> (\<exists>t x s ws k. jget body ''task_id'' = JStr t \<and> Asked (get_call t) (Inr x) \<in> set before
     \<and> parse_task_snapshot x = Inr s \<and> Listed (Inr ws) \<in> set before \<and> k \<in> set ws
     \<and> mw_id k = tv_workspace (sn_task s) \<and> mw_ready k \<and> permitted path body s k)"

definition guarded :: "task_log list \<Rightarrow> bool" where
  "guarded l \<longleftrightarrow> (\<forall>before path body r after. l = before @ Asked (Task path body) r # after \<and> path \<in> set CHANGING_PATHS \<longrightarrow>
     (if path = ''/api/v1/tasks/begin'' then begin_checked before body else change_checked before path body))"

datatype task_op =
    OpBegin begin_input | OpReadFile jstr jstr | OpRemember jstr | OpGet jstr | OpCancel jstr | OpBranch jstr jstr
  | OpPropose propose_input | OpApply jstr jstr | OpReview jstr | OpCommit jstr jstr | OpPush jstr

definition run_only :: "('w, 'a) mgr \<Rightarrow> ('w, unit) mgr" where
  "run_only m = io_bind m (\<lambda>_. io_return ())"

fun run_task_op :: "'w manager_env \<Rightarrow> task_op \<Rightarrow> ('w, unit) mgr" where
  "run_task_op env (OpBegin i) = run_only (task_begin env i)"
| "run_task_op env (OpReadFile t p) = run_only (task_read_file env t p)"
| "run_task_op env (OpRemember t) = run_only (task_remember env t)"
| "run_task_op env (OpGet t) = run_only (task_get env t)"
| "run_task_op env (OpCancel t) = run_only (task_cancel env t)"
| "run_task_op env (OpBranch t b) = run_only (task_checkout_branch env t b)"
| "run_task_op env (OpPropose i) = run_only (task_propose env i)"
| "run_task_op env (OpApply t p) = run_only (task_apply env t p)"
| "run_task_op env (OpReview t) = run_only (task_review env t)"
| "run_task_op env (OpCommit t msg) = run_only (task_commit env t msg)"
| "run_task_op env (OpPush t) = run_only (task_push env t)"

subsection \<open>Quiet calls\<close>

fun quiet_entry :: "task_log \<Rightarrow> bool" where
  "quiet_entry (Asked c r) \<longleftrightarrow> \<not> changes c"
| "quiet_entry (Listed r) \<longleftrightarrow> True"

definition quiet :: "task_log list \<Rightarrow> bool" where
  "quiet l \<longleftrightarrow> list_all quiet_entry l"

lemma quiet_simps [simp]: "quiet []" "quiet (e # l) \<longleftrightarrow> quiet_entry e \<and> quiet l" "quiet (a @ b) \<longleftrightarrow> quiet a \<and> quiet b"
  by (simp_all add: quiet_def)

lemma quiet_guarded:
  assumes "quiet l" shows "guarded l"
  unfolding guarded_def using assms by auto

lemma guarded_change:
  assumes q: "quiet pre" "quiet post"
    and c: "path \<in> set CHANGING_PATHS \<Longrightarrow>
      (if path = ''/api/v1/tasks/begin'' then begin_checked pre body else change_checked pre path body)"
  shows "guarded (pre @ Asked (Task path body) r # post)"
  unfolding guarded_def
proof (intro allI impI)
  fix before path' body' r' after
  assume l: "pre @ Asked (Task path body) r # post = before @ Asked (Task path' body') r' # after \<and> path' \<in> set CHANGING_PATHS"
  have "Asked (Task path' body') r' \<notin> set pre" "Asked (Task path' body') r' \<notin> set post"
    using q l by (auto simp: quiet_def list_all_iff)
  moreover from l have "Asked (Task path' body') r' \<in> set (pre @ Asked (Task path body) r # post)" by simp
  ultimately have e: "path' = path" "body' = body" "r' = r" by auto
  with \<open>Asked (Task path' body') r' \<notin> set pre\<close> \<open>Asked (Task path' body') r' \<notin> set post\<close> l have "before = pre"
    by (simp add: append_Cons_eq_iff)
  with c l e show "if path' = ''/api/v1/tasks/begin'' then begin_checked before body' else change_checked before path' body'" by auto
qed

lemma audited_env_simps [simp]:
  "me_client (audited_env env) = logged_with Asked (me_client env)"
  "me_workspaces (audited_env env) = logged_with (\<lambda>_. Listed) (me_workspaces env)"
  "me_read_file (audited_env env) = unlogged (me_read_file env)"
  "me_remember (audited_env env) = unlogged (me_remember env)"
  "me_emit (audited_env env) = unlogged (me_emit env)"
  "me_uuid (audited_env env) = unlogged (me_uuid env)"
  "me_timestamp (audited_env env) = unlogged (me_timestamp env)"
  by (simp_all add: audited_env_def unlogged_env_def)

lemma quiet_unlogged: "calls env_log quiet (io_ext (unlogged f i))"
  unfolding calls_def by (auto intro!: traces_ext traces_unlogged)

lemma quiet_state: "calls env_log quiet (io_modify g)" "calls env_log quiet (io_gets h)"
  unfolding calls_def io_modify_def io_gets_def by (auto intro!: traces_state)

lemma quiet_bind: "calls env_log quiet m \<Longrightarrow> (\<And>a. calls env_log quiet (f a)) \<Longrightarrow> calls env_log quiet (io_bind m f)"
  by (rule calls_bind) auto

lemma quiet_lift: "calls env_log quiet (io_lift r)" "calls env_log quiet (io_return a)" "calls env_log quiet (parse_with p v)"
  by (simp_all add: calls_lift calls_return parse_with_def)

lemma quiet_ask: "\<not> changes c \<Longrightarrow> calls env_log quiet (ask (audited_env env) c)"
  unfolding calls_def ask_def by (auto intro!: traces_ext traces_logged_with)

lemma get_call_quiet [simp]: "\<not> changes (get_call t)"
  by (simp add: get_call_def CHANGING_PATHS_def)

lemma quiet_get: "calls env_log quiet (task_get (audited_env env) t)"
  unfolding task_get_def by (intro quiet_bind quiet_lift quiet_ask) simp

lemma quiet_emit: "calls env_log quiet (emit_task (audited_env env) st msg)"
  unfolding emit_task_def by (simp add: quiet_unlogged)

lemma quiet_remember: "calls env_log quiet (remember_snapshot (audited_env env) s)"
  unfolding remember_snapshot_def by (simp add: quiet_unlogged quiet_bind)

lemma quiet_key: "calls env_log quiet (begin_request_key (audited_env env) fp)"
  unfolding begin_request_key_def
  by (intro quiet_bind quiet_state) (auto intro!: quiet_bind quiet_state quiet_lift quiet_unlogged split: option.splits list.splits)

lemmas quiet_intros = quiet_unlogged quiet_state quiet_bind quiet_lift quiet_get quiet_emit quiet_remember

subsection \<open>Operations on an existing task\<close>

lemma traces_get:
  "traces env_log (task_get (audited_env env) t)
     (\<lambda>new r. \<exists>a. new = [Asked (get_call t) a] \<and> (\<forall>s. r = Inr s \<longrightarrow> (\<exists>x. a = Inr x \<and> parse_task_snapshot x = Inr s)))"
  unfolding task_get_def ask_def parse_with_def
  by (rule traces_bind [where ?R1.0 = "\<lambda>new r. new = [Asked (get_call t) r]" and ?R2.0 = "\<lambda>v new r. new = [] \<and> r = parse_task_snapshot v"])
    (auto intro!: traces_ext traces_logged_with)

lemma traces_require:
  "traces env_log (require_managed_workspace (audited_env env) i w b)
     (\<lambda>new r. \<exists>a. new = [Listed a] \<and> (\<forall>k. r = Inr k \<longrightarrow> (\<exists>ws. a = Inr ws \<and> check_managed_workspace i w b ws = Inr k)))"
  unfolding require_managed_workspace_def
  by (rule traces_bind [where ?R1.0 = "\<lambda>new r. new = [Listed r]" and ?R2.0 = "\<lambda>v new r. new = [] \<and> r = check_managed_workspace i w b v"])
    (auto intro!: traces_ext traces_logged_with)

lemma check_managed_workspace_Inr:
  assumes "check_managed_workspace i w b ws = Inr k"
  shows "k \<in> set ws \<and> mw_id k = i \<and> mw_ready k \<and> (w \<longrightarrow> mw_read_write k)
    \<and> (b \<longrightarrow> mw_branch k \<in> {None, Some [], Some (mw_default_branch k)})"
  using assms by (auto simp: check_managed_workspace_def dest: find_SomeD split: option.splits if_splits)

text \<open>
  An operation whose last part, started on a snapshot and a workspace that were checked, makes at
  most one change first, and a permitted one.
\<close>

definition one_change :: "bool \<Rightarrow> jstr \<Rightarrow> task_snapshot \<Rightarrow> managed_workspace \<Rightarrow> task_log list \<Rightarrow> bool" where
  "one_change w t s k l \<longleftrightarrow> quiet l \<or> (\<exists>path body r post. l = Asked (Task path body) r # post \<and> path \<noteq> ''/api/v1/tasks/begin''
     \<and> jget body ''task_id'' = JStr t
     \<and> ((w \<longrightarrow> mw_read_write k) \<longrightarrow> permitted path body s k) \<and> quiet post)"

lemma traces_one_change:
  assumes "path \<noteq> ''/api/v1/tasks/begin''" "jget body ''task_id'' = JStr t" "(w \<longrightarrow> mw_read_write k) \<Longrightarrow> permitted path body s k"
    and "\<And>v. calls env_log quiet (f v)"
  shows "traces env_log (io_bind (ask (audited_env env) (Task path body)) f) (\<lambda>new r. one_change w t s k new)"
  unfolding ask_def
  by (rule traces_bind [where ?R1.0 = "\<lambda>new r. new = [Asked (Task path body) r]" and ?R2.0 = "\<lambda>v new r. quiet new", OF _ assms(4) [unfolded calls_def]])
    (use assms(1-3) in \<open>auto simp: one_change_def intro!: traces_ext traces_logged_with\<close>)

lemma guarded_one_change:
  assumes x: "parse_task_snapshot x = Inr s" and k: "check_managed_workspace (tv_workspace (sn_task s)) w False ws = Inr k"
    and l: "one_change w t s k l"
  shows "guarded (Asked (get_call t) (Inr x) # Listed (Inr ws) # l)"
proof -
  let ?pre = "[Asked (get_call t) (Inr x), Listed (Inr ws)]"
  have pre: "quiet ?pre" by simp
  from l consider "quiet l"
    | path body r post where "l = Asked (Task path body) r # post" "path \<noteq> ''/api/v1/tasks/begin''"
        "jget body ''task_id'' = JStr t" "(w \<longrightarrow> mw_read_write k) \<longrightarrow> permitted path body s k" "quiet post"
    unfolding one_change_def by blast
  then have "guarded (?pre @ l)"
  proof cases
    case 1
    with pre show ?thesis by (intro quiet_guarded) simp
  next
    case 2
    have "change_checked ?pre path body"
      unfolding change_checked_def using 2 x check_managed_workspace_Inr [OF k]
      by (intro exI [of _ t] exI [of _ x] exI [of _ s] exI [of _ ws] exI [of _ k]) auto
    with 2 pre show ?thesis using guarded_change [of ?pre post path body r] by simp
  qed
  then show ?thesis by simp
qed

lemma traces_task_op:
  assumes "\<And>s k. traces env_log (f s k) (\<lambda>new r. one_change w t s k new)"
  shows "calls env_log guarded (io_bind (task_get (audited_env env) t) (\<lambda>s.
     io_bind (require_managed_workspace (audited_env env) (tv_workspace (sn_task s)) w False) (f s)))"
  unfolding calls_def
proof (rule traces_bind [OF traces_get])
  fix s
  show "traces env_log (io_bind (require_managed_workspace (audited_env env) (tv_workspace (sn_task s)) w False) (f s))
     (\<lambda>new r. (\<exists>a. new = [Listed a])
    \<or> (\<exists>ws k l. new = Listed (Inr ws) # l \<and> check_managed_workspace (tv_workspace (sn_task s)) w False ws = Inr k \<and> one_change w t s k l))"
    by (rule traces_bind [OF traces_require assms]) auto
qed (auto intro: guarded_one_change quiet_guarded)

lemma traces_quiet_tail: "calls env_log quiet m \<Longrightarrow> traces env_log m (\<lambda>new r. one_change w t s k new)"
  unfolding calls_def by (erule traces_weaken) (simp add: one_change_def)

lemma traces_tail_lift: "traces env_log (io_lift r) (\<lambda>new r. one_change w t s k new)"
  by (simp add: one_change_def)

lemmas tail_intros = traces_one_change traces_tail_lift quiet_intros

lemma jget_obj [simp]: "jget (obj ((k, v) # kvs)) i = (if k = i then v else jget (obj kvs) i)"
  by (auto simp: obj_def jget_def)

lemma guarded_read_file: "calls env_log guarded (task_read_file (audited_env env) t p)"
  unfolding task_read_file_def by (rule traces_task_op) (auto intro!: traces_quiet_tail quiet_intros)

lemma guarded_remember: "calls env_log guarded (task_remember (audited_env env) t)"
  unfolding task_remember_def by (rule traces_task_op) (intro traces_quiet_tail quiet_intros)

lemma guarded_cancel: "calls env_log guarded (task_cancel (audited_env env) t)"
  unfolding task_cancel_def by (rule traces_task_op) (auto intro!: tail_intros simp: permitted_def)

lemma guarded_branch: "calls env_log guarded (task_checkout_branch (audited_env env) t b)"
  unfolding task_checkout_branch_def
  by (rule traces_task_op) (auto intro!: tail_intros simp: permitted_def is_safe_branch_def str_sat_iff)

lemma guarded_propose: "calls env_log guarded (task_propose (audited_env env) i)"
  unfolding task_propose_def by (rule traces_task_op) (auto intro!: tail_intros simp: permitted_def)

lemma guarded_apply: "calls env_log guarded (task_apply (audited_env env) t p)"
  unfolding task_apply_def
  by (rule traces_task_op) (auto intro!: tail_intros simp: permitted_def dest!: find_SomeD split: option.splits)

lemma guarded_review: "calls env_log guarded (task_review (audited_env env) t)"
  unfolding task_review_def by (rule traces_task_op) (auto intro!: tail_intros simp: permitted_def)

lemma guarded_commit: "calls env_log guarded (task_commit (audited_env env) t msg)"
  unfolding task_commit_def by (rule traces_task_op) (auto intro!: tail_intros simp: permitted_def)

lemma guarded_push: "calls env_log guarded (task_push (audited_env env) t)"
  unfolding task_push_def by (rule traces_task_op) (auto intro!: tail_intros simp: permitted_def)

subsection \<open>Begin\<close>

lemma begin_checked_pre:
  assumes "check_managed_workspace i True True ws = Inr k" "jget body ''workspace'' = JStr i"
  shows "begin_checked (Listed (Inr ws) # pre) body"
  unfolding begin_checked_def using assms check_managed_workspace_Inr [OF assms(1)]
  by (intro exI [of _ ws] exI [of _ k]) auto

lemma quiet_register: "calls env_log quiet (register_begun (audited_env env) i v)"
  unfolding register_begun_def by (auto intro!: quiet_intros)

lemma traces_begin_request:
  "traces env_log (io_bind (begin_request_key (audited_env env) fp) (\<lambda>key. io_bind (ask (audited_env env) (begin_call i key)) (register_begun (audited_env env) i)))
     (\<lambda>new r. quiet new \<or> (\<exists>pre key a post. new = pre @ Asked (begin_call i key) a # post \<and> quiet pre \<and> quiet post))"
proof -
  have "traces env_log (io_bind (ask (audited_env env) (begin_call i key)) (register_begun (audited_env env) i))
      (\<lambda>new r. \<exists>a post. new = Asked (begin_call i key) a # post \<and> quiet post)" for key
    unfolding ask_def
    by (rule traces_bind [where ?R1.0 = "\<lambda>new r. new = [Asked (begin_call i key) r]" and ?R2.0 = "\<lambda>v new r. quiet new"])
      (auto intro!: traces_ext traces_logged_with quiet_register simp: calls_def [symmetric])
  then show ?thesis by (rule traces_bind [OF quiet_key [unfolded calls_def]]) auto
qed

lemma guarded_begin: "calls env_log guarded (task_begin (audited_env env) i)"
proof -
  have "guarded (Listed (Inr ws) # pre @ Asked (begin_call i key) r # post)"
    if "check_managed_workspace (bi_workspace i) True True ws = Inr k" "quiet pre" "quiet post" for ws k pre key r post
  proof -
    have "guarded ((Listed (Inr ws) # pre) @ Asked (begin_call i key) r # post)"
      unfolding begin_call_def using that begin_checked_pre [OF that(1)] by (intro guarded_change) auto
    then show ?thesis by simp
  qed
  then show ?thesis
    unfolding calls_def task_begin_def
    by (intro traces_bind [OF traces_require traces_begin_request]) (auto intro: quiet_guarded)
qed

lemma guarded_run_only: "calls env_log guarded p \<Longrightarrow> calls env_log guarded (run_only p)"
  unfolding run_only_def calls_def
  by (rule traces_bind [where ?R2.0 = "\<lambda>a new r. new = []"]) (auto simp: traces_return)

section \<open>Properties\<close>


definition demo_workspace :: managed_workspace where
  "demo_workspace = \<lparr>mw_id = lit ''w'', mw_ready = True, mw_read_write = True, mw_default_branch = lit ''main'', mw_branch = None\<rparr>"

text \<open>A core that knows one committed task and answers every other request with null.\<close>

definition demo_task_client :: "client_call \<Rightarrow> (unit, js) io" where
  "demo_task_client c = io_return
     (case c of Task path body \<Rightarrow> if path = ''/api/v1/tasks/get'' then demo_snapshot_js ''committed'' else JNull | _ \<Rightarrow> JNull)"

definition demo_task_env :: "unit manager_env" where
  "demo_task_env =
     (client_env demo_task_client)\<lparr>me_workspaces := \<lambda>_. io_return [demo_workspace]\<rparr>"

lemmas task_eval = io_bind_def io_ext_def io_gets_def io_modify_def io_state_def logged_with_def unlogged_def ask_def parse_with_def

lemma demo_task_env_fields [simp]:
  "me_client demo_task_env (Task path body) w = (Inr (if path = ''/api/v1/tasks/get'' then demo_snapshot_js ''committed'' else JNull), w)"
  "me_workspaces demo_task_env u w = (Inr [demo_workspace], w)" "me_uuid demo_task_env u w = (Inr (lit ''u''), w)"
  "me_emit demo_task_env e w = (Inr (), w)"
  by (simp_all add: demo_task_env_def client_env_def demo_task_client_def)

abbreviation demo_push_body :: js where
  "demo_push_body \<equiv> obj [(''task_id'', JStr demo_uuid)]"

abbreviation demo_push_log :: "task_log list" where
  "demo_push_log \<equiv> [Asked (get_call demo_uuid) (Inr (demo_snapshot_js ''committed'')), Listed (Inr [demo_workspace])]"


subsection \<open>A begin that is retried\<close>

lemma begin_key_spec:
  assumes "begin_request_key (audited_env env) fp ((w, l), m) = (Inr key, (wl, m'))"
  shows "snd wl = l \<and> map_of (tm_begin_keys m') fp = Some key \<and> key \<noteq> []
    \<and> (\<forall>k. k \<noteq> [] \<longrightarrow> map_of (tm_begin_keys m) fp = Some k \<longrightarrow> key = k)"
  using assms
  by (auto simp: begin_request_key_def task_eval add_begin_key_def map_of_assoc_put split: option.splits list.splits prod.splits sum.splits)

lemma task_get_state: "task_get env t (w, m) = (r, (w', m')) \<Longrightarrow> m' = m"
  by (auto simp: task_get_def task_eval split: prod.splits sum.splits)

lemma remember_snapshot_state: "remember_snapshot env sn (w, m) = (r, (w', m')) \<Longrightarrow> m' = m"
  by (auto simp: remember_snapshot_def task_eval split: prod.splits sum.splits)

lemma require_state: "require_managed_workspace env i wr b (w, m) = (r, (w', m')) \<Longrightarrow> m' = m"
  by (auto simp: require_managed_workspace_def task_eval split: prod.splits sum.splits)

lemma emit_never_fails:
  "(\<And>e w. \<exists>w'. me_emit env e w = (Inr (), w')) \<Longrightarrow> emit_task (audited_env env) st msg wm \<noteq> (Inl e, wm')"
  by (cases wm; cases "fst wm") (auto simp: emit_task_def io_ext_def unlogged_def split: prod.splits, metis Inl_Inr_False prod.inject)

lemma register_keeps_key:
  assumes "\<And>e w. \<exists>w'. me_emit env e w = (Inr (), w')"
    and "register_begun (audited_env env) inp v ((w, l), m) = (Inl e, (wl, m'))"
  shows "tm_begin_keys m' = tm_begin_keys m"
  using assms(2) emit_never_fails [OF assms(1)]
  by (cases wl) (auto simp: register_begun_def parse_with_def io_modify_def io_state_def split: if_splits
      elim!: io_bind_anyE dest!: task_get_state remember_snapshot_state)

lemma begin_answer_spec:
  assumes emit: "\<And>e w. \<exists>w'. me_emit env e w = (Inr (), w')"
    and run: "io_bind (ask (audited_env env) (begin_call inp key)) (register_begun (audited_env env) inp) ((w, l0), m) = (r, ((w', l), m'))"
  shows "(\<exists>a q. l = l0 @ Asked (begin_call inp key) a # q \<and> quiet q) \<and> (\<forall>e. r = Inl e \<longrightarrow> tm_begin_keys m' = tm_begin_keys m)"
  using run
proof (rule io_bind_anyE)
  fix e assume "ask (audited_env env) (begin_call inp key) ((w, l0), m) = (Inl e, ((w', l), m'))"
  then show ?thesis by (auto simp: ask_def io_ext_def logged_with_def split: prod.splits)
next
  fix v w1
  assume v: "ask (audited_env env) (begin_call inp key) ((w, l0), m) = (Inr v, w1)" and reg: "register_begun (audited_env env) inp v w1 = (r, ((w', l), m'))"
  from v obtain w2 where w1: "w1 = ((w2, l0 @ [Asked (begin_call inp key) (Inr v)]), m)"
    by (auto simp: ask_def io_ext_def logged_with_def split: prod.splits)
  from tracesD [OF quiet_register [unfolded calls_def] reg] w1 register_keeps_key [OF emit] reg show ?thesis by auto
qed

definition begin_sent :: "'w manager_env \<Rightarrow> begin_input \<Rightarrow> task_manager \<Rightarrow> jstr \<Rightarrow> 'a res \<Rightarrow> task_manager \<Rightarrow> bool" where
  "begin_sent env inp m key r m' \<longleftrightarrow>
     (\<forall>k. k \<noteq> [] \<longrightarrow> map_of (tm_begin_keys m) (begin_fingerprint env inp) = Some k \<longrightarrow> key = k)
     \<and> (\<forall>e. r = Inl e \<longrightarrow> key \<noteq> [] \<and> map_of (tm_begin_keys m') (begin_fingerprint env inp) = Some key)"

lemma begin_key_and_answer:
  assumes emit: "\<And>e w. \<exists>w'. me_emit env e w = (Inr (), w')"
    and run: "io_bind (begin_request_key (audited_env env) (begin_fingerprint env inp)) (\<lambda>key. io_bind (ask (audited_env env) (begin_call inp key))
      (register_begun (audited_env env) inp)) ((w, l0), m) = (r, ((w', l), m'))"
  shows "\<exists>new. l = l0 @ new \<and> (quiet new \<or> (\<exists>key a q. new = Asked (begin_call inp key) a # q \<and> quiet q \<and> begin_sent env inp m key r m'))"
  using run
proof (rule io_bind_anyE)
  fix e assume "begin_request_key (audited_env env) (begin_fingerprint env inp) ((w, l0), m) = (Inl e, ((w', l), m'))"
  from tracesD [OF quiet_key [unfolded calls_def] this] show ?thesis by auto
next
  fix key w1
  assume key: "begin_request_key (audited_env env) (begin_fingerprint env inp) ((w, l0), m) = (Inr key, w1)"
    and rest: "io_bind (ask (audited_env env) (begin_call inp key)) (register_begun (audited_env env) inp) w1 = (r, ((w', l), m'))"
  obtain w2 l2 m2 where w1: "w1 = ((w2, l2), m2)" by (metis prod.exhaust)
  from begin_key_spec [OF key [unfolded w1]] begin_answer_spec [OF emit rest [unfolded w1]] show ?thesis
    unfolding begin_sent_def by auto
qed

lemma task_begin_outcome:
  assumes emit: "\<And>e w. \<exists>w'. me_emit env e w = (Inr (), w')"
    and run: "task_begin (audited_env env) inp ((w, []), m) = (r, ((w', l), m'))"
  shows "quiet l \<or> (\<exists>pre key a q. l = pre @ Asked (begin_call inp key) a # q \<and> quiet pre \<and> quiet q \<and> begin_sent env inp m key r m')"
proof -
  have fp: "begin_fingerprint (audited_env env) inp = begin_fingerprint env inp" by (simp add: begin_fingerprint_def audited_env_def unlogged_env_def)
  obtain k w1 l1 m1 where req: "require_managed_workspace (audited_env env) (bi_workspace inp) True True ((w, []), m) = (k, ((w1, l1), m1))"
    by (metis prod.exhaust)
  from tracesD [OF traces_require req] obtain x where l1: "l1 = [Listed x]" by auto
  have m1: "m1 = m" using require_state [OF req] .
  show ?thesis
  proof (cases k)
    case (Inl e)
    with run req l1 show ?thesis by (auto simp: task_begin_def io_bind_def)
  next
    case (Inr k')
    with run req m1 fp have "io_bind (begin_request_key (audited_env env) (begin_fingerprint env inp))
        (\<lambda>key. io_bind (ask (audited_env env) (begin_call inp key)) (register_begun (audited_env env) inp)) ((w1, l1), m) = (r, ((w', l), m'))"
      unfolding task_begin_def io_bind_def [of "require_managed_workspace _ _ _ _"] by simp
    from begin_key_and_answer [OF emit this] l1 show ?thesis by (fastforce intro: exI [of _ "[Listed x]"])
  qed
qed

lemma no_begin_in_quiet: "quiet q \<Longrightarrow> Asked (Task ''/api/v1/tasks/begin'' body) a \<notin> set q"
  by (auto simp: quiet_def list_all_iff CHANGING_PATHS_def)

text \<open>
  A begin can be retried safely: if \<^verbatim>\<open>begin\<close> fails after it has asked the core to begin a task, the
  next \<^verbatim>\<open>begin\<close> with the same input sends exactly the same request again, with the same request
  id, so that the core can recognise it. The listener of runtime events must not throw.
\<close>

theorem begin_retry_same_request:
  assumes "\<And>e w. \<exists>w'. me_emit env e w = (Inr (), w')"
    and "task_begin (audited_env env) inp ((w, []), m) = (Inl err, ((w1, l1), m1))"
    and "task_begin (audited_env env) inp ((w2, []), m1) = (r, ((w3, l2), m2))"
    and "Asked (Task ''/api/v1/tasks/begin'' body1) a1 \<in> set l1" "Asked (Task ''/api/v1/tasks/begin'' body2) a2 \<in> set l2"
  shows "body2 = body1"
proof -
  have "\<exists>key. Task ''/api/v1/tasks/begin'' body = begin_call inp key \<and> begin_sent env inp m key r m'"
    if "task_begin (audited_env env) inp ((w, []), m) = (r, ((w', l), m'))" "Asked (Task ''/api/v1/tasks/begin'' body) a \<in> set l"
    for w m r w' l m' body a
    using task_begin_outcome [OF assms(1) that(1)] that(2) no_begin_in_quiet by fastforce
  from this [OF assms(2,4)] this [OF assms(3,5)] show ?thesis
    unfolding begin_sent_def by (auto simp: begin_call_def)
qed

abbreviation demo_begin :: begin_input where
  "demo_begin \<equiv> \<lparr>bi_workspace = lit ''w'', bi_context_query = None\<rparr>"

lemma demo_begin_run:
  assumes "tm_begin_keys m = [] \<or> (\<exists>c k. tm_begin_keys m = [([], c # k)])"
  shows "\<exists>l body e m'. task_begin (audited_env demo_task_env) demo_begin (((), []), m) = (Inl e, (((), l), m'))
    \<and> Asked (Task ''/api/v1/tasks/begin'' body) (Inr JNull) \<in> set l \<and> (\<exists>c k. tm_begin_keys m' = [([], c # k)])"
proof -
  have fp: "begin_fingerprint (audited_env demo_task_env) demo_begin = []"
    by (simp add: begin_fingerprint_def audited_env_def unlogged_env_def demo_task_env_def client_env_def)
  have n: "register_begun (audited_env demo_task_env) demo_begin JNull wm = (throw ''SourceNerve task response invalid: task begin is not an object'', wm)" for wm
    by (simp add: register_begun_def parse_with_def parse_task_begin_def require_record_def is_record_def task_invalid_def throw_def io_bind_def)
  show ?thesis
    using assms fp n
    by (auto simp: task_begin_def require_managed_workspace_def check_managed_workspace_def demo_workspace_def begin_request_key_def
        add_begin_key_def assoc_put_def begin_call_def task_eval throw_def lit_def)
qed

theorem begin_retry_same_request_witness:
  "\<exists>l1 l2 m1 m2 e1 e2 body. task_begin (audited_env demo_task_env) demo_begin (((), []), new_task_manager) = (Inl e1, (((), l1), m1))
    \<and> task_begin (audited_env demo_task_env) demo_begin (((), []), m1) = (Inl e2, (((), l2), m2))
    \<and> Asked (Task ''/api/v1/tasks/begin'' body) (Inr JNull) \<in> set l1 \<and> Asked (Task ''/api/v1/tasks/begin'' body) (Inr JNull) \<in> set l2"
proof -
  obtain l1 b1 e1 m1 where r1: "task_begin (audited_env demo_task_env) demo_begin (((), []), new_task_manager) = (Inl e1, (((), l1), m1))"
      "Asked (Task ''/api/v1/tasks/begin'' b1) (Inr JNull) \<in> set l1" "\<exists>c k. tm_begin_keys m1 = [([], c # k)]"
    using demo_begin_run [of new_task_manager] by (auto simp: new_task_manager_def)
  obtain l2 b2 e2 m2 where r2: "task_begin (audited_env demo_task_env) demo_begin (((), []), m1) = (Inl e2, (((), l2), m2))"
      "Asked (Task ''/api/v1/tasks/begin'' b2) (Inr JNull) \<in> set l2"
    using demo_begin_run [of m1] r1(3) by auto
  have "b2 = b1"
    by (rule begin_retry_same_request [OF _ r1(1) r2(1) r1(2) r2(2)]) simp
  with r1 r2 show ?thesis by blast
qed

end
