(* ===== verification/Concurrent_Map.thy ===== *)
theory Concurrent_Map
  imports Manager_Base
begin

text \<open>
  The bounded concurrent map with which the task manager lists its tasks (\<^verbatim>\<open>mapWithConcurrency\<close>
  and \<^verbatim>\<open>list\<close> of \<^verbatim>\<open>task-manager.ts\<close>). The workers share a cursor; between two awaits a worker runs
  alone, so the function is a machine whose step is the settlement of one call of the mapper:
  the worker stores the result and takes the next item in the same turn. Which pending call
  settles next is not determined, so the machine is a relation.
\<close>

section \<open>The machine\<close>

text \<open>The item each worker is waiting for, or nothing when the worker has returned or thrown.\<close>

record 'r conc_state =
  cm_cursor :: nat
  cm_result :: "'r option list"
  cm_workers :: "nat option list"
  cm_error :: "jstr option"

definition conc_start :: "nat \<Rightarrow> 'a list \<Rightarrow> 'r conc_state" where
  "conc_start concurrency items =
     \<lparr>cm_cursor = min concurrency (length items), cm_result = replicate (length items) None,
      cm_workers = map Some [0..<min concurrency (length items)], cm_error = None\<rparr>"

text \<open>Worker \<open>k\<close>, which waits for item \<open>i\<close>, gets the answer of the mapper.\<close>

definition settle :: "('a \<Rightarrow> 'r res) \<Rightarrow> 'a list \<Rightarrow> nat \<Rightarrow> nat \<Rightarrow> 'r conc_state \<Rightarrow> 'r conc_state" where
  "settle mapper items k i st =
     (case mapper (items ! i) of
        Inl e \<Rightarrow> st\<lparr>cm_workers := (cm_workers st)[k := None], cm_error := (case cm_error st of None \<Rightarrow> Some e | x \<Rightarrow> x)\<rparr>
      | Inr v \<Rightarrow>
          if cm_cursor st < length items
          then st\<lparr>cm_result := (cm_result st)[i := Some v], cm_workers := (cm_workers st)[k := Some (cm_cursor st)], cm_cursor := cm_cursor st + 1\<rparr>
          else st\<lparr>cm_result := (cm_result st)[i := Some v], cm_workers := (cm_workers st)[k := None]\<rparr>)"

inductive conc_step :: "('a \<Rightarrow> 'r res) \<Rightarrow> 'a list \<Rightarrow> 'r conc_state \<Rightarrow> 'r conc_state \<Rightarrow> bool" for mapper items where
  settled: "k < length (cm_workers st) \<Longrightarrow> cm_workers st ! k = Some i \<Longrightarrow> conc_step mapper items st (settle mapper items k i st)"

inductive_simps conc_step_iff: "conc_step mapper items st st'"

text \<open>What the promise of the whole map is settled with.\<close>

definition conc_outcome :: "'r conc_state \<Rightarrow> 'r option list res option" where
  "conc_outcome st =
     (case cm_error st of
        Some e \<Rightarrow> Some (Inl e)
      | None \<Rightarrow> if list_all (\<lambda>w. w = None) (cm_workers st) then Some (Inr (cm_result st)) else None)"

section \<open>The invariant\<close>

definition in_flight :: "'r conc_state \<Rightarrow> nat list" where
  "in_flight st = map the (filter (\<lambda>w. w \<noteq> None) (cm_workers st))"

definition conc_ok :: "nat \<Rightarrow> ('a \<Rightarrow> 'r res) \<Rightarrow> 'a list \<Rightarrow> 'r conc_state \<Rightarrow> bool" where
  "conc_ok concurrency mapper items st \<longleftrightarrow>
     length (cm_workers st) = min concurrency (length items) \<and> length (cm_result st) = length items
     \<and> cm_cursor st \<le> length items \<and> cm_error st = None
     \<and> (\<forall>i. Some i \<in> set (cm_workers st) \<longrightarrow> i < cm_cursor st)
     \<and> (\<forall>i < cm_cursor st. Some i \<in> set (cm_workers st) \<or> Inr (the (cm_result st ! i)) = mapper (items ! i) \<and> cm_result st ! i \<noteq> None)
     \<and> (None \<in> set (cm_workers st) \<longrightarrow> cm_cursor st = length items)"

lemma conc_start_ok: "conc_ok c mapper items (conc_start c items)"
  by (auto simp: conc_ok_def conc_start_def)

lemma set_update_other: "k < length xs \<Longrightarrow> x \<in> set xs \<Longrightarrow> x \<noteq> xs ! k \<Longrightarrow> x \<in> set (xs[k := y])"
  by (metis in_set_conv_nth length_list_update nth_list_update_neq)

lemma conc_step_ok:
  assumes ok: "conc_ok c mapper items st" and m: "\<forall>x\<in>set items. \<exists>v. mapper x = Inr v" and s: "conc_step mapper items st st'"
  shows "conc_ok c mapper items st'"
proof -
  from s obtain k i where k: "k < length (cm_workers st)" "cm_workers st ! k = Some i" "st' = settle mapper items k i st"
    by (auto simp: conc_step_iff)
  then have "Some i \<in> set (cm_workers st)" by (metis nth_mem)
  with ok have i: "i < cm_cursor st" "cm_cursor st \<le> length items" unfolding conc_ok_def by blast+
  then have il: "i < length items" by simp
  with m obtain v where v: "mapper (items ! i) = Inr v" by (meson nth_mem)
  have sub: "set ((cm_workers st)[k := y]) \<subseteq> insert y (set (cm_workers st))" for y by (rule set_update_subset_insert)
  have mem: "Some (cm_cursor st) \<in> set ((cm_workers st)[k := Some (cm_cursor st)])" using k(1) by (rule set_update_memI)
  have keep: "Some j \<in> set (cm_workers st) \<Longrightarrow> j \<noteq> i \<Longrightarrow> Some j \<in> set ((cm_workers st)[k := y])" for j y
    using k(1,2) by (intro set_update_other) auto
  show ?thesis
  proof (cases "cm_cursor st < length items")
    case True
    then have st': "st' = st\<lparr>cm_result := (cm_result st)[i := Some v], cm_workers := (cm_workers st)[k := Some (cm_cursor st)], cm_cursor := cm_cursor st + 1\<rparr>"
      by (simp add: k(3) settle_def v)
    show ?thesis
      using ok i il v True sub [of "Some (cm_cursor st)"] mem keep [of _ "Some (cm_cursor st)"]
      unfolding conc_ok_def st' by (auto simp: less_Suc_eq nth_list_update)
  next
    case False
    then have st': "st' = st\<lparr>cm_result := (cm_result st)[i := Some v], cm_workers := (cm_workers st)[k := None]\<rparr>"
      by (simp add: k(3) settle_def v)
    show ?thesis
      using ok i il v False sub [of None] keep [of _ None]
      unfolding conc_ok_def st' by (auto simp: nth_list_update)
  qed
qed

text \<open>How many settlements are still to come.\<close>

definition conc_left :: "'a list \<Rightarrow> 'r conc_state \<Rightarrow> nat" where
  "conc_left items st = (length items - cm_cursor st) + length (in_flight st)"

lemma in_flight_start: "length (in_flight (conc_start c items)) = min c (length items)"
  by (simp add: in_flight_def conc_start_def filter_map comp_def)

lemma filter_update_length:
  assumes "k < length xs"
  shows "length (filter P (xs[k := y])) + (if P (xs ! k) then 1 else 0) = length (filter P xs) + (if P y then 1 else 0)"
proof -
  have "filter P xs = filter P (take k xs) @ filter P [xs ! k] @ filter P (drop (Suc k) xs)"
    using assms by (metis append_Cons append_Nil filter_append id_take_nth_drop)
  then show ?thesis using assms by (simp add: upd_conv_take_nth_drop)
qed

lemma conc_step_left:
  assumes "conc_step mapper items st st'"
  shows "Suc (conc_left items st') = conc_left items st"
proof -
  from assms obtain k i where k: "k < length (cm_workers st)" "cm_workers st ! k = Some i" "st' = settle mapper items k i st"
    by (auto simp: conc_step_iff)
  note f = filter_update_length [OF k(1), of "\<lambda>w. w \<noteq> None"]
  show ?thesis
    using k(2,3) f [of None] f [of "Some (cm_cursor st)"]
    by (auto simp: settle_def conc_left_def in_flight_def split: sum.splits)
qed

lemma conc_run:
  assumes "(conc_step mapper items ^^ n) (conc_start c items) st" "\<forall>x\<in>set items. \<exists>v. mapper x = Inr v"
  shows "conc_ok c mapper items st \<and> n + conc_left items st = length items"
  using assms(1)
proof (induction n arbitrary: st)
  case 0
  then show ?case using conc_start_ok by (auto simp: conc_left_def in_flight_start, simp add: conc_start_def)
next
  case (Suc n)
  then obtain st1 where "(conc_step mapper items ^^ n) (conc_start c items) st1" and s: "conc_step mapper items st1 st" by auto
  with Suc.IH [of st1] conc_step_ok [OF _ assms(2) s] conc_step_left [OF s] show ?case by auto
qed

lemma stuck_iff: "(\<nexists>st'. conc_step mapper items st st') \<longleftrightarrow> in_flight st = []"
  by (auto simp: conc_step_iff in_flight_def filter_empty_conv all_set_conv_all_nth)

lemma conc_done:
  assumes "conc_ok c mapper items st" "in_flight st = []" "0 < c"
  shows "cm_cursor st = length items \<and> cm_result st = map (\<lambda>x. Some (projr (mapper x))) items"
proof -
  from assms(2) have idle: "\<forall>w\<in>set (cm_workers st). w = None" by (auto simp: in_flight_def filter_empty_conv)
  have c: "cm_cursor st = length items"
  proof (cases items)
    case Nil
    with assms(1) show ?thesis by (simp add: conc_ok_def)
  next
    case (Cons x xs)
    with assms(1,3) have "0 < length (cm_workers st)" by (simp add: conc_ok_def)
    then obtain w where "w \<in> set (cm_workers st)" using nth_mem by blast
    with idle assms(1) show ?thesis unfolding conc_ok_def by auto
  qed
  have "cm_result st = map (\<lambda>x. Some (projr (mapper x))) items"
  proof (rule nth_equalityI)
    show "length (cm_result st) = length (map (\<lambda>x. Some (projr (mapper x))) items)" using assms(1) by (simp add: conc_ok_def)
    fix i assume i: "i < length (cm_result st)"
    then have il: "i < length items" using assms(1) by (simp add: conc_ok_def)
    with c idle assms(1) have "Inr (the (cm_result st ! i)) = mapper (items ! i)" "cm_result st ! i \<noteq> None"
      unfolding conc_ok_def by auto
    with il show "cm_result st ! i = map (\<lambda>x. Some (projr (mapper x))) items ! i" by (metis nth_map option.collapse sum.sel(2))
  qed
  with c show ?thesis by simp
qed

section \<open>Properties\<close>

text \<open>
  C34: The concurrent map always finishes, within as many settlements as there are items, never has
  more calls in flight than the limit, and its result does not depend on the order in which the
  calls settle: it is the list of the mapper's results in the order of the items. For a mapper that
  does not throw, any number \<open>n\<close> of settlements in any order leads to a state where
  either more calls are pending, and \<open>n\<close> is smaller than the number of items, or all are done, the
  promise is fulfilled and the result is complete.
\<close>

theorem concurrent_map_finishes:
  assumes "0 < concurrency" "\<forall>x\<in>set items. \<exists>v. mapper x = Inr v"
    and "(conc_step mapper items ^^ n) (conc_start concurrency items) st"
  shows "n \<le> length items \<and> length (in_flight st) \<le> concurrency
    \<and> (n < length items \<longleftrightarrow> (\<exists>st'. conc_step mapper items st st'))
    \<and> conc_outcome st = (if n < length items then None else Some (Inr (map (\<lambda>x. Some (projr (mapper x))) items)))"
proof -
  from conc_run [OF assms(3,2)] have ok: "conc_ok concurrency mapper items st" and l: "n + conc_left items st = length items" by auto
  have "length (in_flight st) \<le> length (cm_workers st)" by (simp add: in_flight_def)
  with ok have lim: "length (in_flight st) \<le> concurrency" by (simp add: conc_ok_def)
  have "n < length items \<longleftrightarrow> in_flight st \<noteq> []"
    using l conc_done [OF ok _ assms(1)] by (cases "in_flight st") (auto simp: conc_left_def)
  moreover have "in_flight st = [] \<longleftrightarrow> list_all (\<lambda>w. w = None) (cm_workers st)"
    by (auto simp: in_flight_def filter_empty_conv list_all_iff)
  ultimately show ?thesis
    using l lim stuck_iff [of mapper items st] conc_done [OF ok _ assms(1)] ok
    by (auto simp: conc_outcome_def conc_ok_def)
qed

theorem concurrent_map_finishes_witness:
  "\<exists>st. (conc_step (\<lambda>x::nat. Inr (x + 1)) [10, 20, 30] ^^ 3) (conc_start 2 [10, 20, 30::nat]) st
     \<and> conc_outcome st = Some (Inr [Some 11, Some 21, Some 31])"
proof -
  let ?m = "\<lambda>x::nat. Inr (x + 1) :: nat res" and ?xs = "[10, 20, 30::nat]"
  let ?s0 = "conc_start 2 ?xs :: nat conc_state"
  let ?s1 = "settle ?m ?xs 1 1 ?s0"
  let ?s2 = "settle ?m ?xs 1 2 ?s1"
  let ?s3 = "settle ?m ?xs 0 0 ?s2"
  have "conc_step ?m ?xs ?s0 ?s1" "conc_step ?m ?xs ?s1 ?s2" "conc_step ?m ?xs ?s2 ?s3"
    by (rule conc_step.settled; simp add: settle_def conc_start_def upt_rec)+
  then have run: "(conc_step ?m ?xs ^^ 3) ?s0 ?s3" by (auto simp: numeral_3_eq_3)
  have "conc_outcome ?s3 = Some (Inr (map (\<lambda>x. Some (projr (?m x))) ?xs))"
    using concurrent_map_finishes [OF _ _ run] by simp
  with run show ?thesis by auto
qed

section \<open>The list of tasks\<close>

definition MAX_LISTED_TASKS :: nat where "MAX_LISTED_TASKS = 50"
definition LIST_CONCURRENCY :: nat where "LIST_CONCURRENCY = 6"

text \<open>An entry: the reference with its snapshot, or with the reason why it is not available.\<close>

type_synonym task_list_item = "task_reference \<times> (jstr + task_snapshot)"

definition list_item :: "task_reference \<Rightarrow> task_snapshot res \<Rightarrow> task_list_item res" where
  "list_item reference got =
     (case got of
        Inr snapshot \<Rightarrow> Inr (reference, Inr snapshot)
      | Inl e \<Rightarrow> Inr (reference, Inl (safe_error e)))"

definition listed_references :: "task_reference list \<Rightarrow> task_reference list" where
  "listed_references registry = take MAX_LISTED_TASKS registry"

definition list_start :: "task_reference list \<Rightarrow> task_list_item conc_state" where
  "list_start registry = conc_start LIST_CONCURRENCY (listed_references registry)"

definition list_step ::
    "(task_reference \<Rightarrow> task_snapshot res) \<Rightarrow> task_reference list \<Rightarrow> task_list_item conc_state \<Rightarrow> task_list_item conc_state \<Rightarrow> bool" where
  "list_step get registry = conc_step (\<lambda>reference. list_item reference (get reference)) (listed_references registry)"

text \<open>
  Listing the tasks never fails and never hangs on one of them: however the requests for the
  snapshots end and in whatever order, there are at most six at a time, and after at most fifty
  answers the list has exactly one entry for each of the newest fifty references, in
  their order, with the snapshot or the reason why there is none.
\<close>

theorem task_list_complete:
  assumes "(list_step get registry ^^ n) (list_start registry) st" "\<nexists>st'. list_step get registry st st'"
  shows "n = min 50 (length registry) \<and> length (in_flight st) = 0
    \<and> conc_outcome st = Some (Inr (map (\<lambda>reference. Some (reference, map_sum safe_error id (get reference))) (take 50 registry)))"
proof -
  have total: "\<forall>x\<in>set (listed_references registry). \<exists>v. list_item x (get x) = Inr v"
    by (auto simp: list_item_def split: sum.splits)
  have item: "projr (list_item x (get x)) = (x, map_sum safe_error id (get x))" for x
    by (auto simp: list_item_def split: sum.splits)
  note run = assms(1) [unfolded list_step_def list_start_def] and stop = assms(2) [unfolded list_step_def]
  from conc_run [OF run total] have ok: "conc_ok LIST_CONCURRENCY (\<lambda>x. list_item x (get x)) (listed_references registry) st"
    and l: "n + conc_left (listed_references registry) st = length (listed_references registry)" by auto
  from stop have idle: "in_flight st = []" by (simp only: stuck_iff)
  from conc_done [OF ok idle] l idle ok show ?thesis
    by (auto simp: conc_left_def conc_outcome_def conc_ok_def LIST_CONCURRENCY_def listed_references_def MAX_LISTED_TASKS_def item
        in_flight_def filter_empty_conv list_all_iff)
qed

theorem task_list_complete_witness:
  "\<exists>st r. (list_step (\<lambda>_. Inl (lit ''down'')) [r] ^^ 1) (list_start [r]) st
     \<and> conc_outcome st = Some (Inr [Some (r, Inl (lit ''down''))])"
proof -
  let ?r = "\<lparr>ref_task_id = [], ref_workspace = [], ref_created_at = []\<rparr>"
  let ?st = "settle (\<lambda>x. list_item x (Inl (lit ''down''))) [?r] 0 0 (list_start [?r])"
  have run: "(list_step (\<lambda>_. Inl (lit ''down'')) [?r] ^^ 1) (list_start [?r]) ?st"
    by (auto simp: list_step_def list_start_def listed_references_def MAX_LISTED_TASKS_def conc_start_def LIST_CONCURRENCY_def
        intro!: conc_step.settled)
  have stop: "\<nexists>st'. list_step (\<lambda>_. Inl (lit ''down'')) [?r] ?st st'"
    unfolding list_step_def stuck_iff
    by (simp add: in_flight_def settle_def list_item_def list_start_def conc_start_def listed_references_def MAX_LISTED_TASKS_def LIST_CONCURRENCY_def)
  have "safe_error (lit ''down'') = lit ''down''"
    by (simp add: safe_error_def lit_def is_break_def)
  with task_list_complete [OF run stop] run show ?thesis by auto
qed

end
