(* ===== verification/Conversation_Activity.thy ===== *)
theory Conversation_Activity
  imports Js_Prelude
begin

text \<open>
  The ledger of conversation activity (\<^verbatim>\<open>conversation-activity-store.ts\<close>): the progress events of
  ChatGPT and Codex are appended to an event log, and the rows of the timeline are kept beside
  it, live while events arrive and by replaying the log after a reload. SHA-1, the clock,
  \<^verbatim>\<open>Date\<close>, \<^verbatim>\<open>localeCompare\<close> and \<^verbatim>\<open>JSON\<close> are parameters. An optional member of an object is an
  \<^verbatim>\<open>option\<close>; \<^verbatim>\<open>Some []\<close>, the empty text, is falsy. The write queue is the list of the snapshots
  that have been handed to it.
\<close>

section \<open>Data\<close>

datatype activity_source = FromCodex | FromChatgpt

datatype activity_kind = AkResponse | AkReasoning | AkCommand | AkFile | AkTool

datatype activity_stage = AsStarted | AsStreaming | AsCompleted | AsFailed

datatype log_type =
    AssistantTextDelta | ReasoningDelta | ToolCallStarted | ToolCallArgs | ToolCallOutputDelta | ToolCallFinished
  | CommandStarted | CommandOutputDelta | CommandFinished | FileChanged | FileDiff | LogStatus

record activity =
  av_id :: jstr
  av_source :: activity_source
  av_run_id :: jstr
  av_workspace :: jstr
  av_thread_id :: "jstr option"
  av_turn_id :: jstr
  av_item_id :: "jstr option"
  av_kind :: activity_kind
  av_stage :: activity_stage
  av_label :: jstr
  av_created_at :: jstr
  av_updated_at :: jstr
  av_position :: int
  av_text :: "jstr option"
  av_command :: "jstr option"
  av_cwd :: "jstr option"
  av_function_name :: "jstr option"
  av_parameters :: "jstr option"
  av_output :: "jstr option"
  av_diff :: "jstr option"
  av_file_path :: "jstr option"
  av_additions :: "int option"
  av_deletions :: "int option"
  av_status :: "jstr option"
  av_exit_code :: "int option"
  av_duration :: "int option"

record chat_event =
  ce_id :: jstr
  ce_message_id :: jstr
  ce_turn_id :: jstr
  ce_sequence :: int
  ce_created_at :: jstr
  ce_parent_id :: "jstr option"
  ce_group_id :: "jstr option"
  ce_activity_id :: jstr
  ce_source :: activity_source
  ce_run_id :: jstr
  ce_workspace :: jstr
  ce_thread_id :: "jstr option"
  ce_item_id :: "jstr option"
  ce_position :: int
  ce_type :: log_type
  ce_kind :: activity_kind
  ce_stage :: activity_stage
  ce_label :: jstr
  ce_text :: "jstr option"
  ce_tool_name :: "jstr option"
  ce_function_name :: "jstr option"
  ce_parameters :: "jstr option"
  ce_command :: "jstr option"
  ce_cwd :: "jstr option"
  ce_output :: "jstr option"
  ce_result :: "jstr option"
  ce_diff :: "jstr option"
  ce_file_path :: "jstr option"
  ce_additions :: "int option"
  ce_deletions :: "int option"
  ce_status :: "jstr option"
  ce_exit_code :: "int option"
  ce_duration :: "int option"

datatype message_author = MessageUser | MessageAssistant

record conversation_message =
  cm_id :: jstr
  cm_role :: message_author
  cm_text :: jstr
  cm_created_at :: jstr
  cm_turn_id :: "jstr option"
  cm_run_id :: jstr
  cm_workspace :: jstr
  cm_conversation_id :: "jstr option"

datatype chatgpt_kind = GkResponse | GkReasoning | GkTool | GkDiff

record chatgpt_progress =
  gp_task_id :: jstr
  gp_run_id :: jstr
  gp_workspace :: jstr
  gp_kind :: chatgpt_kind
  gp_text :: jstr
  gp_generating :: "bool option"
  gp_stage :: "jstr option"
  gp_item_id :: "jstr option"
  gp_input :: "jstr option"
  gp_output :: "jstr option"
  gp_duration :: "int option"
  gp_function_name :: "jstr option"
  gp_parameters :: "jstr option"
  gp_file_path :: "jstr option"
  gp_additions :: "int option"
  gp_deletions :: "int option"
  gp_activity_id :: "jstr option"
  gp_position :: "jnum option"
  gp_created_at :: "int option"

record codex_progress =
  cp_run_id :: jstr
  cp_workspace :: jstr
  cp_thread_id :: "jstr option"
  cp_turn_id :: jstr
  cp_item_id :: jstr
  cp_kind :: activity_kind
  cp_stage :: activity_stage
  cp_label :: jstr
  cp_text :: "jstr option"
  cp_command :: "jstr option"
  cp_cwd :: "jstr option"
  cp_function_name :: "jstr option"
  cp_parameters :: "jstr option"
  cp_output :: "jstr option"
  cp_diff :: "jstr option"
  cp_file_path :: "jstr option"
  cp_additions :: "int option"
  cp_deletions :: "int option"
  cp_status :: "jstr option"
  cp_exit_code :: "int option"
  cp_duration :: "int option"
  cp_activity_id :: "jstr option"
  cp_position :: "jnum option"
  cp_created_at :: "int option"

datatype progress_event = Chatgpt chatgpt_progress | Codex codex_progress

text \<open>A runtime event of the desktop: a progress event, or another one, which the store passes through.\<close>

datatype 'e desktop_event = Progress progress_event | OtherEvent 'e

record store_snapshot =
  ss_next_position :: int
  ss_next_sequence :: int
  ss_events :: "chat_event list"
  ss_messages :: "conversation_message list"

record activity_store =
  cs_events :: "chat_event list"
  cs_activities :: "activity list"
  cs_messages :: "conversation_message list"
  cs_by_id :: "jstr \<rightharpoonup> nat"
  cs_next_position :: int
  cs_next_sequence :: int
  cs_timer :: bool
  cs_writes :: "store_snapshot list"
  cs_initialized :: bool

record activity_env =
  ae_sha1 :: "jstr \<Rightarrow> jstr"
  ae_iso :: "int \<Rightarrow> jstr"
  ae_parse_date :: "jstr \<Rightarrow> int"
  ae_compare :: "jstr \<Rightarrow> jstr \<Rightarrow> int"

definition MAX_EVENTS :: nat where "MAX_EVENTS = 24000"
definition MAX_TEXT_CHARS :: nat where "MAX_TEXT_CHARS = 160000"
definition MAX_MESSAGES :: nat where "MAX_MESSAGES = 4000"

definition new_activity_store :: activity_store where
  "new_activity_store = \<lparr>cs_events = [], cs_activities = [], cs_messages = [], cs_by_id = Map.empty,
     cs_next_position = 1, cs_next_sequence = 1, cs_timer = False, cs_writes = [], cs_initialized = False\<rparr>"

section \<open>Texts\<close>

text \<open>\<^verbatim>\<open>{ ...previous, ...incoming }\<close> and \<^verbatim>\<open>a ?? b\<close> on one member: a present one of the second wins.\<close>

definition spread :: "'a option \<Rightarrow> 'a option \<Rightarrow> 'a option" where
  "spread previous incoming = (case incoming of Some x \<Rightarrow> Some x | None \<Rightarrow> previous)"

text \<open>
  \<^verbatim>\<open>...(incoming ? { key: incoming } : previous ? { key: previous } : {})\<close> after the spread of both.
\<close>

definition keep_truthy :: "jstr option \<Rightarrow> jstr option \<Rightarrow> jstr option" where
  "keep_truthy previous incoming =
     (if truthy_text incoming \<noteq> None then incoming
      else if truthy_text previous \<noteq> None then previous else spread previous incoming)"

definition text_or :: "jstr option \<Rightarrow> jstr \<Rightarrow> jstr" where
  "text_or v fallback = (case truthy_text v of Some s \<Rightarrow> s | None \<Rightarrow> fallback)"

definition bounded :: "jstr \<Rightarrow> jstr" where
  "bounded s = (if length s \<le> MAX_TEXT_CHARS then s else drop (length s - MAX_TEXT_CHARS + 1) s @ [8230])"

definition basename :: "jstr \<Rightarrow> jstr" where
  "basename s = (let normalized = map (\<lambda>c. if c = 92 then 47 else c) s; b = last (split_on 47 normalized)
     in if b = [] then normalized else b)"

text \<open>\<^verbatim>\<open>value.replace(/\r\n/g, "\n")\<close>; splitting the result at line feeds is \<^verbatim>\<open>split(/\r?\n/)\<close>.\<close>

fun unix_lines :: "jstr \<Rightarrow> jstr" where
  "unix_lines (c # d # cs) = (if c = 13 \<and> d = 10 then 10 # unix_lines cs else c # unix_lines (d # cs))"
| "unix_lines cs = cs"

text \<open>\<^verbatim>\<open>/word/i.test(s)\<close> for a word in lower case.\<close>

definition mentions :: "string \<Rightarrow> jstr \<Rightarrow> bool" where
  "mentions word s = str_includes (lit word) (map to_lower s)"

text \<open>\<^verbatim>\<open>s.split(separator, 1)[0]\<close>, where the separator is a middle dot between white space.\<close>

definition dot_follows :: "jstr \<Rightarrow> bool" where
  "dot_follows s = (case dropWhile is_space s of d # e # _ \<Rightarrow> d = 183 \<and> is_space e | _ \<Rightarrow> False)"

fun before_dot :: "jstr \<Rightarrow> jstr" where
  "before_dot [] = []"
| "before_dot (c # cs) = (if is_space c \<and> dot_follows cs then [] else c # before_dot cs)"

definition tool_signature :: "jstr \<Rightarrow> jstr \<Rightarrow> jstr" where
  "tool_signature tool parameters = trim tool @ [10] @ trim parameters"


section \<open>Diffs\<close>

definition normalize_diff_path :: "jstr \<Rightarrow> jstr" where
  "normalize_diff_path value =
     (let trimmed = trim (hd (split_on 9 (trim value))) in
      if trimmed = [] \<or> trimmed = lit ''/dev/null'' then []
      else if starts_with (lit ''a/'') trimmed \<or> starts_with (lit ''b/'') trimmed then drop 2 trimmed
      else trimmed)"

text \<open>The sections found so far, the lines of the current one, and its old and its new path.\<close>

record diff_scan =
  ds_sections :: "(jstr \<times> jstr) list"
  ds_current :: "jstr list"
  ds_old :: jstr
  ds_new :: jstr

definition scan_flush :: "diff_scan \<Rightarrow> diff_scan" where
  "scan_flush s =
     (if ds_current s = [] then s
      else \<lparr>ds_sections = ds_sections s @ [(if ds_new s = [] then ds_old s else ds_new s, join [10] (ds_current s))],
            ds_current = [], ds_old = [], ds_new = []\<rparr>)"

definition scan_line :: "diff_scan \<Rightarrow> jstr \<Rightarrow> diff_scan" where
  "scan_line s line =
     (let s1 = (if starts_with (lit ''diff --git '') line \<and> ds_current s \<noteq> [] then scan_flush s else s);
          s2 = (if starts_with (lit ''--- '') line then s1\<lparr>ds_old := normalize_diff_path (drop 4 line)\<rparr> else s1);
          s3 = (if starts_with (lit ''+++ '') line then s2\<lparr>ds_new := normalize_diff_path (drop 4 line)\<rparr> else s2)
      in s3\<lparr>ds_current := ds_current s3 @ [line]\<rparr>)"

definition split_unified_diff :: "jstr \<Rightarrow> (jstr \<times> jstr) list" where
  "split_unified_diff diff =
     (let sections = ds_sections (scan_flush (foldl scan_line
            \<lparr>ds_sections = [], ds_current = [], ds_old = [], ds_new = []\<rparr> (split_on 10 (unix_lines diff))))
      in if sections = [] then [([], diff)] else sections)"

definition is_addition :: "jstr \<Rightarrow> bool" where
  "is_addition line \<longleftrightarrow> starts_with (lit ''+'') line \<and> \<not> starts_with (lit ''+++'') line"

definition is_deletion :: "jstr \<Rightarrow> bool" where
  "is_deletion line \<longleftrightarrow> \<not> is_addition line \<and> starts_with (lit ''-'') line \<and> \<not> starts_with (lit ''---'') line"

definition diff_stats :: "jstr \<Rightarrow> nat \<times> nat" where
  "diff_stats diff =
     (let lines = split_on 10 (unix_lines diff)
      in (length (filter is_addition lines), length (filter is_deletion lines)))"

definition codex_section :: "codex_progress \<Rightarrow> jstr \<times> jstr \<Rightarrow> codex_progress" where
  "codex_section e section =
     e\<lparr>cp_file_path := (if fst section = [] then cp_file_path e else Some (fst section)),
       cp_label := (if fst section = [] then cp_label e else lit ''Edited '' @ basename (fst section)),
       cp_additions := Some (int (fst (diff_stats (snd section)))),
       cp_deletions := Some (int (snd (diff_stats (snd section))))\<rparr>"

definition chatgpt_section :: "chatgpt_progress \<Rightarrow> jstr \<times> jstr \<Rightarrow> chatgpt_progress" where
  "chatgpt_section e section =
     e\<lparr>gp_file_path := (if fst section = [] then gp_file_path e else Some (fst section)),
       gp_additions := Some (int (fst (diff_stats (snd section)))),
       gp_deletions := Some (int (snd (diff_stats (snd section))))\<rparr>"

definition section_suffix :: "activity_env \<Rightarrow> nat \<Rightarrow> jstr \<Rightarrow> jstr" where
  "section_suffix env index p = take 10 (ae_sha1 env (if p = [] then show_nat index else p))"

definition progress_diff :: "progress_event \<Rightarrow> jstr" where
  "progress_diff e = (case e of
      Codex c \<Rightarrow> if cp_kind c = AkFile then text_or (cp_diff c) [] else []
    | Chatgpt g \<Rightarrow> if gp_kind g = GkDiff then gp_text g else [])"

definition normalize_section :: "activity_env \<Rightarrow> progress_event \<Rightarrow> nat \<Rightarrow> jstr \<times> jstr \<Rightarrow> progress_event" where
  "normalize_section env e index section =
     (let suffix = section_suffix env index (fst section) in
      case e of
        Codex c \<Rightarrow> Codex ((codex_section c section)\<lparr>cp_item_id := cp_item_id c @ lit '':file:'' @ suffix, cp_diff := Some (snd section)\<rparr>)
      | Chatgpt g \<Rightarrow> Chatgpt ((chatgpt_section g section)\<lparr>gp_item_id := Some (lit ''diff-file:'' @ suffix), gp_text := snd section\<rparr>))"

definition normalize_progress_events :: "activity_env \<Rightarrow> progress_event \<Rightarrow> progress_event list" where
  "normalize_progress_events env e =
     (if progress_diff e = [] then [e]
      else case split_unified_diff (progress_diff e) of
        [] \<Rightarrow> [e]
      | [only] \<Rightarrow> [case e of Codex c \<Rightarrow> Codex (codex_section c only) | Chatgpt g \<Rightarrow> Chatgpt (chatgpt_section g only)]
      | sections \<Rightarrow> map (\<lambda>(index, section). normalize_section env e index section) (enumerate 0 sections))"

section \<open>Labels, stages and identities\<close>

definition chatgpt_label :: "chatgpt_progress \<Rightarrow> jstr" where
  "chatgpt_label e = (case gp_kind e of
      GkResponse \<Rightarrow> lit ''Response''
    | GkReasoning \<Rightarrow> text_or (Some (take 180 (hd (split_on 10 (trim (gp_text e)))))) (lit ''Working'')
    | GkDiff \<Rightarrow> (case truthy_text (gp_file_path e) of Some p \<Rightarrow> lit ''Edited '' @ basename p | None \<Rightarrow> lit ''Changed files'')
    | GkTool \<Rightarrow> text_or (Some (trim (before_dot (gp_text e)))) (text_or (gp_function_name e) (lit ''Tool call'')))"

definition chatgpt_stage :: "chatgpt_progress \<Rightarrow> activity_stage" where
  "chatgpt_stage e =
     (let stage = (case gp_stage e of Some s \<Rightarrow> s | None \<Rightarrow> []) in
      if gp_kind e = GkResponse then (if gp_generating e = Some False then AsCompleted else AsStreaming)
      else if mentions ''failed'' stage \<or> mentions ''blocked'' stage \<or> mentions ''error'' stage then AsFailed
      else if mentions ''result'' stage \<or> mentions ''completed'' stage \<or> mentions ''success'' stage then AsCompleted
      else if mentions ''stream'' stage then AsStreaming
      else if gp_kind e = GkDiff \<or> gp_kind e = GkReasoning then AsCompleted
      else AsStarted)"

definition chatgpt_kind_name :: "chatgpt_kind \<Rightarrow> jstr" where
  "chatgpt_kind_name k = lit (case k of GkResponse \<Rightarrow> ''response'' | GkReasoning \<Rightarrow> ''reasoning'' | GkTool \<Rightarrow> ''tool'' | GkDiff \<Rightarrow> ''diff'')"

definition activity_kind_name :: "activity_kind \<Rightarrow> jstr" where
  "activity_kind_name k = lit (case k of
     AkResponse \<Rightarrow> ''response'' | AkReasoning \<Rightarrow> ''reasoning'' | AkCommand \<Rightarrow> ''command'' | AkFile \<Rightarrow> ''file'' | AkTool \<Rightarrow> ''tool'')"

definition tool_parameters :: "chatgpt_progress \<Rightarrow> jstr" where
  "tool_parameters e = text_or (gp_parameters e) (text_or (gp_input e) [])"

definition chatgpt_tool_signature :: "chatgpt_progress \<Rightarrow> jstr" where
  "chatgpt_tool_signature e = tool_signature (text_or (gp_function_name e) (chatgpt_label e)) (tool_parameters e)"

definition chatgpt_tool_identity :: "chatgpt_progress \<Rightarrow> jstr" where
  "chatgpt_tool_identity e = trim (text_or (gp_function_name e) (chatgpt_label e))"

definition chatgpt_activity_tool_signature :: "activity \<Rightarrow> jstr" where
  "chatgpt_activity_tool_signature a = tool_signature (text_or (av_function_name a) (av_label a)) (text_or (av_parameters a) [])"

definition chatgpt_activity_tool_identity :: "activity \<Rightarrow> jstr" where
  "chatgpt_activity_tool_identity a = trim (text_or (av_function_name a) (av_label a))"

definition chatgpt_activity_prefix :: "chatgpt_progress \<Rightarrow> jstr" where
  "chatgpt_activity_prefix e = lit ''chatgpt:'' @ gp_run_id e @ lit '':'' @ gp_task_id e @ lit '':''"

text \<open>\<^verbatim>\<open>progressActivityId\<close>, the function of the module.\<close>

definition progress_activity_id :: "activity_env \<Rightarrow> progress_event \<Rightarrow> jstr" where
  "progress_activity_id env e = (case e of
      Codex c \<Rightarrow> text_or (cp_activity_id c)
        (lit ''codex:'' @ (case cp_thread_id c of Some t \<Rightarrow> t | None \<Rightarrow> cp_run_id c) @ lit '':'' @ cp_turn_id c @ lit '':''
          @ cp_item_id c @ lit '':'' @ activity_kind_name (cp_kind c))
    | Chatgpt g \<Rightarrow> text_or (gp_activity_id g)
        (chatgpt_activity_prefix g @
          (if gp_kind g = GkDiff
           then lit ''diff:'' @ take 12 (ae_sha1 env (text_or (gp_file_path g) (lit ''working-tree'')))
           else case truthy_text (gp_item_id g) of
             Some i \<Rightarrow> chatgpt_kind_name (gp_kind g) @ lit '':'' @ i
           | None \<Rightarrow>
               if gp_kind g = GkResponse then lit ''response''
               else chatgpt_kind_name (gp_kind g) @ lit '':'' @ take 12 (ae_sha1 env
                 (chatgpt_kind_name (gp_kind g) @ lit '':'' @ (case gp_stage g of Some s \<Rightarrow> s | None \<Rightarrow> []) @ lit '':''
                   @ chatgpt_label g @ lit '':'' @ gp_text g)))))"

section \<open>Rows\<close>

definition compact_activity :: "activity \<Rightarrow> activity" where
  "compact_activity a =
     a\<lparr>av_text := map_option bounded (av_text a), av_command := map_option bounded (av_command a),
       av_parameters := map_option bounded (av_parameters a), av_output := map_option bounded (av_output a),
       av_diff := map_option bounded (av_diff a)\<rparr>"

definition compact_event :: "chat_event \<Rightarrow> chat_event" where
  "compact_event e =
     e\<lparr>ce_text := map_option bounded (ce_text e), ce_command := map_option bounded (ce_command e),
       ce_parameters := map_option bounded (ce_parameters e), ce_output := map_option bounded (ce_output e),
       ce_result := map_option bounded (ce_result e), ce_diff := map_option bounded (ce_diff e)\<rparr>"

definition activity_of_codex :: "activity_env \<Rightarrow> codex_progress \<Rightarrow> int \<Rightarrow> jstr \<Rightarrow> int \<Rightarrow> activity" where
  "activity_of_codex env e now activityId position =
     compact_activity \<lparr>av_id = activityId, av_source = FromCodex, av_run_id = cp_run_id e, av_workspace = cp_workspace e,
       av_thread_id = truthy_text (cp_thread_id e), av_turn_id = cp_turn_id e, av_item_id = Some (cp_item_id e),
       av_kind = cp_kind e, av_stage = cp_stage e, av_label = cp_label e,
       av_created_at = ae_iso env now, av_updated_at = ae_iso env now, av_position = position,
       av_text = truthy_text (cp_text e), av_command = truthy_text (cp_command e), av_cwd = truthy_text (cp_cwd e),
       av_function_name = truthy_text (cp_function_name e), av_parameters = truthy_text (cp_parameters e),
       av_output = truthy_text (cp_output e), av_diff = truthy_text (cp_diff e), av_file_path = truthy_text (cp_file_path e),
       av_additions = cp_additions e, av_deletions = cp_deletions e, av_status = truthy_text (cp_status e),
       av_exit_code = cp_exit_code e, av_duration = cp_duration e\<rparr>"

definition activity_of_chatgpt :: "activity_env \<Rightarrow> chatgpt_progress \<Rightarrow> int \<Rightarrow> jstr \<Rightarrow> int \<Rightarrow> activity" where
  "activity_of_chatgpt env e now activityId position =
     compact_activity \<lparr>av_id = activityId, av_source = FromChatgpt, av_run_id = gp_run_id e, av_workspace = gp_workspace e,
       av_thread_id = None, av_turn_id = lit ''chatgpt-review:'' @ gp_task_id e, av_item_id = truthy_text (gp_item_id e),
       av_kind = (case gp_kind e of GkDiff \<Rightarrow> AkFile | GkResponse \<Rightarrow> AkResponse | GkReasoning \<Rightarrow> AkReasoning | GkTool \<Rightarrow> AkTool),
       av_stage = chatgpt_stage e, av_label = chatgpt_label e,
       av_created_at = ae_iso env now, av_updated_at = ae_iso env now, av_position = position,
       av_text = (if gp_kind e = GkResponse \<or> gp_kind e = GkReasoning then Some (gp_text e) else None),
       av_command = None, av_cwd = None, av_function_name = truthy_text (gp_function_name e),
       av_parameters = truthy_text (spread (gp_input e) (gp_parameters e)), av_output = truthy_text (gp_output e),
       av_diff = (if gp_kind e = GkDiff then Some (gp_text e) else None), av_file_path = truthy_text (gp_file_path e),
       av_additions = gp_additions e, av_deletions = gp_deletions e, av_status = truthy_text (gp_stage e),
       av_exit_code = None, av_duration = gp_duration e\<rparr>"

definition activity_from_event :: "activity_env \<Rightarrow> progress_event \<Rightarrow> int \<Rightarrow> jstr \<Rightarrow> int \<Rightarrow> activity" where
  "activity_from_event env e = (case e of Codex c \<Rightarrow> activity_of_codex env c | Chatgpt g \<Rightarrow> activity_of_chatgpt env g)"

definition stronger_stage :: "activity_stage \<Rightarrow> activity_stage \<Rightarrow> activity_stage" where
  "stronger_stage left right =
     (if left = AsFailed \<or> right = AsFailed then AsFailed
      else if left = AsCompleted \<or> right = AsCompleted then AsCompleted
      else if left = AsStreaming \<or> right = AsStreaming then AsStreaming
      else AsStarted)"

text \<open>A streamed member: the incoming text is appended to the previous one or replaces it.\<close>

definition merge_stream :: "bool \<Rightarrow> jstr option \<Rightarrow> jstr option \<Rightarrow> jstr option" where
  "merge_stream appendDelta previous incoming =
     (case truthy_text incoming of
        Some s \<Rightarrow> Some (bounded (if appendDelta then (case previous of Some p \<Rightarrow> p | None \<Rightarrow> []) @ s else s))
      | None \<Rightarrow> keep_truthy previous incoming)"

text \<open>What \<^verbatim>\<open>mergeActivity\<close> and \<^verbatim>\<open>mergeActivityFromLog\<close> have in common.\<close>

definition merge_rows :: "bool \<Rightarrow> bool \<Rightarrow> activity \<Rightarrow> activity \<Rightarrow> activity" where
  "merge_rows appendText appendOutput previous incoming =
     incoming\<lparr>av_id := av_id previous, av_position := av_position previous, av_created_at := av_created_at previous,
       av_stage := stronger_stage (av_stage previous) (av_stage incoming),
       av_thread_id := spread (av_thread_id previous) (av_thread_id incoming),
       av_item_id := spread (av_item_id previous) (av_item_id incoming),
       av_text := merge_stream appendText (av_text previous) (av_text incoming),
       av_output := merge_stream appendOutput (av_output previous) (av_output incoming),
       av_diff := merge_stream False (av_diff previous) (av_diff incoming),
       av_command := keep_truthy (av_command previous) (av_command incoming),
       av_cwd := keep_truthy (av_cwd previous) (av_cwd incoming),
       av_function_name := keep_truthy (av_function_name previous) (av_function_name incoming),
       av_parameters := keep_truthy (av_parameters previous) (av_parameters incoming),
       av_file_path := keep_truthy (av_file_path previous) (av_file_path incoming),
       av_additions := spread (av_additions previous) (av_additions incoming),
       av_deletions := spread (av_deletions previous) (av_deletions incoming),
       av_status := spread (av_status previous) (av_status incoming),
       av_exit_code := spread (av_exit_code previous) (av_exit_code incoming),
       av_duration := spread (av_duration previous) (av_duration incoming)\<rparr>"

definition merge_activity :: "activity \<Rightarrow> activity \<Rightarrow> progress_event \<Rightarrow> activity" where
  "merge_activity previous incoming e =
     (let appendDelta = (case e of Codex c \<Rightarrow> cp_stage c = AsStreaming | Chatgpt _ \<Rightarrow> False);
          appendText = appendDelta \<and> (av_kind incoming = AkResponse \<or> av_kind incoming = AkReasoning)
      in compact_activity ((merge_rows appendText appendDelta previous incoming)\<lparr>
           av_status := keep_truthy (av_status previous) (av_status incoming)\<rparr>))"

definition merge_activity_from_log :: "activity \<Rightarrow> activity \<Rightarrow> chat_event \<Rightarrow> activity" where
  "merge_activity_from_log previous incoming e =
     (let appendText = (ce_type e = AssistantTextDelta \<or> ce_type e = ReasoningDelta) \<and> ce_stage e = AsStreaming;
          appendOutput = ce_type e = CommandOutputDelta \<or> ce_type e = ToolCallOutputDelta
      in compact_activity (merge_rows appendText appendOutput previous incoming))"

definition activity_from_log_event :: "chat_event \<Rightarrow> activity" where
  "activity_from_log_event e =
     compact_activity \<lparr>av_id = ce_activity_id e, av_source = ce_source e, av_run_id = ce_run_id e, av_workspace = ce_workspace e,
       av_thread_id = truthy_text (ce_thread_id e), av_turn_id = ce_turn_id e, av_item_id = truthy_text (ce_item_id e),
       av_kind = ce_kind e, av_stage = ce_stage e, av_label = ce_label e,
       av_created_at = ce_created_at e, av_updated_at = ce_created_at e, av_position = ce_position e,
       av_text = truthy_text (ce_text e), av_command = truthy_text (ce_command e), av_cwd = truthy_text (ce_cwd e),
       av_function_name = truthy_text (ce_function_name e), av_parameters = truthy_text (ce_parameters e),
       av_output = truthy_text (spread (ce_result e) (ce_output e)), av_diff = truthy_text (ce_diff e),
       av_file_path = truthy_text (ce_file_path e), av_additions = ce_additions e, av_deletions = ce_deletions e,
       av_status = truthy_text (ce_status e), av_exit_code = ce_exit_code e, av_duration = ce_duration e\<rparr>"

section \<open>The log\<close>

definition log_type_name :: "log_type \<Rightarrow> string" where
  "log_type_name t = (case t of
     AssistantTextDelta \<Rightarrow> ''assistant_text_delta'' | ReasoningDelta \<Rightarrow> ''reasoning_delta''
   | ToolCallStarted \<Rightarrow> ''tool_call_started'' | ToolCallArgs \<Rightarrow> ''tool_call_args''
   | ToolCallOutputDelta \<Rightarrow> ''tool_call_output_delta'' | ToolCallFinished \<Rightarrow> ''tool_call_finished''
   | CommandStarted \<Rightarrow> ''command_started'' | CommandOutputDelta \<Rightarrow> ''command_output_delta''
   | CommandFinished \<Rightarrow> ''command_finished'' | FileChanged \<Rightarrow> ''file_changed'' | FileDiff \<Rightarrow> ''file_diff''
   | LogStatus \<Rightarrow> ''status'')"

text \<open>The types of the events that one row writes, in order.\<close>

definition log_types :: "activity \<Rightarrow> log_type list" where
  "log_types a = (case av_kind a of
      AkResponse \<Rightarrow> [AssistantTextDelta]
    | AkReasoning \<Rightarrow> [ReasoningDelta]
    | AkCommand \<Rightarrow> (case av_stage a of AsStarted \<Rightarrow> [CommandStarted] | AsStreaming \<Rightarrow> [CommandOutputDelta] | _ \<Rightarrow> [CommandFinished])
    | AkFile \<Rightarrow> if truthy_text (av_diff a) \<noteq> None then [FileDiff] else [FileChanged]
    | AkTool \<Rightarrow>
        let args = (if truthy_text (av_parameters a) \<noteq> None then [ToolCallArgs] else []) in
        (case av_stage a of AsStarted \<Rightarrow> ToolCallStarted # args | AsStreaming \<Rightarrow> [ToolCallOutputDelta] | _ \<Rightarrow> args @ [ToolCallFinished]))"

definition log_event :: "activity \<Rightarrow> jstr \<Rightarrow> log_type \<Rightarrow> int \<Rightarrow> chat_event" where
  "log_event a createdAt type sequence =
     compact_event \<lparr>ce_id = lit (log_type_name type) @ lit '':'' @ av_id a @ lit '':'' @ show_int sequence,
       ce_message_id = av_turn_id a, ce_turn_id = av_turn_id a, ce_sequence = sequence, ce_created_at = createdAt,
       ce_parent_id = Some (av_id a), ce_group_id = Some (av_run_id a @ lit '':'' @ av_turn_id a), ce_activity_id = av_id a,
       ce_source = av_source a, ce_run_id = av_run_id a, ce_workspace = av_workspace a,
       ce_thread_id = truthy_text (av_thread_id a), ce_item_id = truthy_text (av_item_id a), ce_position = av_position a,
       ce_type = type, ce_kind = av_kind a, ce_stage = av_stage a, ce_label = av_label a, ce_text = truthy_text (av_text a),
       ce_tool_name = truthy_text (av_function_name a), ce_function_name = truthy_text (av_function_name a),
       ce_parameters = truthy_text (av_parameters a), ce_command = truthy_text (av_command a), ce_cwd = truthy_text (av_cwd a),
       ce_output = truthy_text (av_output a),
       ce_result = (if type = ToolCallFinished then av_output a else truthy_text (av_output a)),
       ce_diff = truthy_text (av_diff a), ce_file_path = truthy_text (av_file_path a), ce_additions = av_additions a,
       ce_deletions = av_deletions a, ce_status = truthy_text (av_status a), ce_exit_code = av_exit_code a, ce_duration = av_duration a\<rparr>"

text \<open>\<^verbatim>\<open>logEventsFromProgress\<close>, from the first sequence number; each event takes the next one.\<close>

definition log_events :: "activity \<Rightarrow> jstr \<Rightarrow> int \<Rightarrow> chat_event list" where
  "log_events a createdAt sequence =
     map (\<lambda>(i, type). log_event a createdAt type (sequence + int i)) (enumerate 0 (log_types a))"

section \<open>Replay\<close>

definition index_of_rows :: "activity list \<Rightarrow> (jstr \<rightharpoonup> nat)" where
  "index_of_rows rows = map_of (rev (map (\<lambda>(i, a). (av_id a, i)) (enumerate 0 rows)))"

text \<open>\<^verbatim>\<open>applyLogEvent\<close> and \<^verbatim>\<open>upsertActivity\<close>: update the row of that id in place, or append a row.\<close>

type_synonym rows = "activity list \<times> (jstr \<rightharpoonup> nat)"

definition put_row :: "(activity \<Rightarrow> activity) \<Rightarrow> activity \<Rightarrow> rows \<Rightarrow> rows" where
  "put_row merge incoming rs = (case rs of (rows, index) \<Rightarrow>
     (case index (av_id incoming) of
        None \<Rightarrow> (rows @ [incoming], index(av_id incoming \<mapsto> length rows))
      | Some i \<Rightarrow> (rows[i := merge (rows ! i)], index)))"

definition apply_log_event :: "rows \<Rightarrow> chat_event \<Rightarrow> rows" where
  "apply_log_event rs e =
     (let incoming = activity_from_log_event e in put_row (\<lambda>previous. merge_activity_from_log previous incoming e) incoming rs)"

definition upsert_activity :: "activity \<Rightarrow> progress_event \<Rightarrow> rows \<Rightarrow> rows" where
  "upsert_activity a e rs = put_row (\<lambda>previous. merge_activity previous a e) a rs"

definition replay_rows :: "chat_event list \<Rightarrow> rows" where
  "replay_rows events = foldl apply_log_event ([], Map.empty) (sort_by (\<lambda>a b. ce_sequence a \<le> ce_sequence b) events)"

definition replay_events :: "activity_store \<Rightarrow> activity_store" where
  "replay_events s = s\<lparr>cs_activities := fst (replay_rows (cs_events s)), cs_by_id := snd (replay_rows (cs_events s))\<rparr>"

section \<open>Operations\<close>

definition schedule_flush :: "activity_store \<Rightarrow> activity_store" where
  "schedule_flush s = s\<lparr>cs_timer := True\<rparr>"

definition snapshot_of :: "activity_store \<Rightarrow> store_snapshot" where
  "snapshot_of s = \<lparr>ss_next_position = cs_next_position s, ss_next_sequence = cs_next_sequence s,
     ss_events = cs_events s, ss_messages = cs_messages s\<rparr>"

definition ledger_enqueue_write :: "activity_store \<Rightarrow> activity_store" where
  "ledger_enqueue_write s = s\<lparr>cs_writes := cs_writes s @ [snapshot_of s]\<rparr>"

text \<open>The timer of \<^verbatim>\<open>scheduleFlush\<close> fires; \<^verbatim>\<open>flush\<close> does the same early, if the timer is set.\<close>

definition flush_fires :: "activity_store \<Rightarrow> activity_store" where
  "flush_fires s = ledger_enqueue_write (s\<lparr>cs_timer := False\<rparr>)"

definition flush :: "activity_store \<Rightarrow> activity_store" where
  "flush s = (if cs_timer s then flush_fires s else s)"

definition is_chatgpt_tool_row :: "chatgpt_progress \<Rightarrow> activity \<Rightarrow> bool" where
  "is_chatgpt_tool_row e a \<longleftrightarrow> av_source a = FromChatgpt \<and> av_run_id a = gp_run_id e
     \<and> av_turn_id a = lit ''chatgpt-review:'' @ gp_task_id e \<and> av_kind a = AkTool"

text \<open>The row that a tool event without an id of its own continues.\<close>

definition chatgpt_tool_row :: "activity_store \<Rightarrow> chatgpt_progress \<Rightarrow> activity option" where
  "chatgpt_tool_row s e =
     (let parameters = trim (tool_parameters e);
          candidates = filter (\<lambda>a. is_chatgpt_tool_row e a \<and> av_stage a \<noteq> AsCompleted \<and> av_stage a \<noteq> AsFailed) (rev (cs_activities s));
          rowParameters = (\<lambda>a. trim (text_or (av_parameters a) []))
      in case find (\<lambda>a. chatgpt_activity_tool_signature a = chatgpt_tool_signature e) candidates of
           Some a \<Rightarrow> Some a
         | None \<Rightarrow> find (\<lambda>a. chatgpt_activity_tool_identity a = chatgpt_tool_identity e
             \<and> (parameters = [] \<or> rowParameters a = [] \<or> rowParameters a = parameters)) candidates)"

definition chatgpt_tool_activity_id :: "activity_env \<Rightarrow> activity_store \<Rightarrow> chatgpt_progress \<Rightarrow> jstr" where
  "chatgpt_tool_activity_id env s e =
     (let itemId = progress_activity_id env (Chatgpt e);
          fresh = (case chatgpt_tool_row s e of
              Some a \<Rightarrow> av_id a
            | None \<Rightarrow>
                if truthy_text (gp_item_id e) \<noteq> None then itemId
                else chatgpt_activity_prefix e @ lit ''tool:'' @ take 12 (ae_sha1 env (chatgpt_tool_signature e)) @ lit '':''
                  @ show_int (cs_next_position s))
      in case truthy_text (gp_item_id e) of
           None \<Rightarrow> fresh
         | Some i \<Rightarrow>
             (case find (\<lambda>a. is_chatgpt_tool_row e a \<and> av_item_id a = Some i) (rev (cs_activities s)) of
                Some a \<Rightarrow> av_id a
              | None \<Rightarrow> if cs_by_id s itemId \<noteq> None then itemId else fresh))"

text \<open>The method \<^verbatim>\<open>progressActivityId\<close> of the store.\<close>

definition activity_id_for :: "activity_env \<Rightarrow> activity_store \<Rightarrow> progress_event \<Rightarrow> jstr" where
  "activity_id_for env s e = (case e of
      Codex c \<Rightarrow> text_or (cp_activity_id c) (progress_activity_id env e)
    | Chatgpt g \<Rightarrow> text_or (gp_activity_id g)
        (if gp_kind g = GkTool then chatgpt_tool_activity_id env s g else progress_activity_id env e))"

definition position_for :: "activity_store \<Rightarrow> jstr \<Rightarrow> jnum option \<Rightarrow> int \<times> activity_store" where
  "position_for s activityId incoming =
     (case cs_by_id s activityId of
        Some i \<Rightarrow> (av_position (cs_activities s ! i), s)
      | None \<Rightarrow>
          (case incoming of
             Some (Fin r) \<Rightarrow> (\<lfloor>r\<rfloor>, s\<lparr>cs_next_position := max (cs_next_position s) (\<lfloor>r\<rfloor> + 1)\<rparr>)
           | _ \<Rightarrow> (cs_next_position s, s\<lparr>cs_next_position := cs_next_position s + 1\<rparr>)))"

definition max_position :: "activity list \<Rightarrow> int" where
  "max_position rows = foldl (\<lambda>m a. max m (av_position a)) 0 rows"

definition max_event_position :: "chat_event list \<Rightarrow> int" where
  "max_event_position es = foldl (\<lambda>m e. max m (ce_position e)) 0 es"

definition max_sequence :: "chat_event list \<Rightarrow> int" where
  "max_sequence es = foldl (\<lambda>m e. max m (ce_sequence e)) 0 es"

definition trim_events :: "activity_store \<Rightarrow> activity_store" where
  "trim_events s =
     (if length (cs_events s) \<le> MAX_EVENTS then s
      else let s' = replay_events (s\<lparr>cs_events := last_n MAX_EVENTS (cs_events s)\<rparr>)
        in s'\<lparr>cs_next_position := max (cs_next_position s') (max_position (cs_activities s') + 1),
              cs_next_sequence := max (cs_next_sequence s') (max_sequence (cs_events s') + 1)\<rparr>)"

definition progress_created_at :: "progress_event \<Rightarrow> int option" where
  "progress_created_at e = (case e of Codex c \<Rightarrow> cp_created_at c | Chatgpt g \<Rightarrow> gp_created_at g)"

definition progress_position :: "progress_event \<Rightarrow> jnum option" where
  "progress_position e = (case e of Codex c \<Rightarrow> cp_position c | Chatgpt g \<Rightarrow> gp_position g)"

text \<open>\<^verbatim>\<open>{ ...event, activityId, position, createdAt }\<close>\<close>

definition stamp :: "progress_event \<Rightarrow> jstr \<Rightarrow> int \<Rightarrow> int \<Rightarrow> progress_event" where
  "stamp e activityId position createdAt = (case e of
      Codex c \<Rightarrow> Codex (c\<lparr>cp_activity_id := Some activityId, cp_position := Some (Fin (of_int position)), cp_created_at := Some createdAt\<rparr>)
    | Chatgpt g \<Rightarrow> Chatgpt (g\<lparr>gp_activity_id := Some activityId, gp_position := Some (Fin (of_int position)), gp_created_at := Some createdAt\<rparr>))"

text \<open>The effect of one row on the store: its events, the row itself, the limit of the log.\<close>

definition write_activity :: "activity \<Rightarrow> jstr \<Rightarrow> progress_event \<Rightarrow> activity_store \<Rightarrow> activity_store" where
  "write_activity a createdAt e s =
     (let logged = log_events a createdAt (cs_next_sequence s);
          rs = upsert_activity a e (cs_activities s, cs_by_id s)
      in schedule_flush (trim_events (s\<lparr>cs_next_sequence := cs_next_sequence s + int (length logged),
           cs_events := cs_events s @ logged, cs_activities := fst rs, cs_by_id := snd rs\<rparr>)))"

definition record_progress :: "activity_env \<Rightarrow> int \<Rightarrow> activity_store \<Rightarrow> progress_event \<Rightarrow> progress_event \<times> activity_store" where
  "record_progress env clock s e =
     (let now = (case progress_created_at e of Some t \<Rightarrow> t | None \<Rightarrow> clock);
          activityId = activity_id_for env s e in
      case position_for s activityId (progress_position e) of (position, s1) \<Rightarrow>
        let a = activity_from_event env e now activityId position in
        (stamp e (av_id a) (av_position a) (ae_parse_date env (av_created_at a)), write_activity a (ae_iso env now) e s1))"

fun record_all :: "activity_env \<Rightarrow> int \<Rightarrow> activity_store \<Rightarrow> progress_event list \<Rightarrow> progress_event list \<times> activity_store" where
  "record_all env clock s [] = ([], s)"
| "record_all env clock s (e # es) =
     (case record_progress env clock s e of (e', s1) \<Rightarrow>
      case record_all env clock s1 es of (es', s2) \<Rightarrow> (e' # es', s2))"

text \<open>\<open>clock\<close> is \<^verbatim>\<open>Date.now()\<close>, the same for the parts of one event.\<close>

definition record_event :: "activity_env \<Rightarrow> int \<Rightarrow> activity_store \<Rightarrow> 'e desktop_event \<Rightarrow> 'e desktop_event list \<times> activity_store" where
  "record_event env clock s e = (case e of
      OtherEvent x \<Rightarrow> ([e], s)
    | Progress p \<Rightarrow>
        (if (case p of Chatgpt g \<Rightarrow> gp_kind g = GkReasoning | Codex _ \<Rightarrow> False) then ([e], s)
         else case record_all env clock s (normalize_progress_events env p) of (ps, s') \<Rightarrow> (map Progress ps, s')))"

definition attach_thread :: "jstr \<Rightarrow> jstr \<Rightarrow> activity_store \<Rightarrow> activity_store" where
  "attach_thread runId threadId s =
     (let concerns = (\<lambda>e. ce_source e = FromCodex \<and> ce_run_id e = runId \<and> ce_thread_id e \<noteq> Some threadId) in
      if list_ex concerns (cs_events s)
      then schedule_flush (replay_events (s\<lparr>cs_events :=
             map (\<lambda>e. if concerns e then e\<lparr>ce_thread_id := Some threadId\<rparr> else e) (cs_events s)\<rparr>))
      else s)"

text \<open>The first message of that id is replaced, otherwise the message is added.\<close>

fun put_message :: "conversation_message \<Rightarrow> conversation_message list \<Rightarrow> conversation_message list" where
  "put_message m [] = [m]"
| "put_message m (x # xs) = (if cm_id x = cm_id m then m # xs else x # put_message m xs)"

definition record_message :: "conversation_message \<Rightarrow> activity_store \<Rightarrow> activity_store" where
  "record_message m s = schedule_flush (s\<lparr>cs_messages := last_n MAX_MESSAGES (put_message m (cs_messages s))\<rparr>)"

definition ledger_clear_workspace :: "jstr \<Rightarrow> activity_store \<Rightarrow> activity_store" where
  "ledger_clear_workspace workspace s =
     (let events = filter (\<lambda>e. ce_workspace e \<noteq> workspace) (cs_events s);
          messages = filter (\<lambda>m. cm_workspace m \<noteq> workspace) (cs_messages s) in
      if length events = length (cs_events s) \<and> length messages = length (cs_messages s) then s
      else schedule_flush (replay_events (s\<lparr>cs_events := events, cs_messages := messages\<rparr>)))"

section \<open>Queries\<close>

definition by_position :: "activity list \<Rightarrow> activity list" where
  "by_position rows = sort_by (\<lambda>a b. av_position a \<le> av_position b) rows"

definition same_thread :: "jstr option \<Rightarrow> jstr option \<Rightarrow> bool" where
  "same_thread wanted actual \<longleftrightarrow> truthy_text wanted \<noteq> None \<and> actual = wanted"

definition list_activities :: "activity_store \<Rightarrow> jstr \<Rightarrow> jstr \<Rightarrow> jstr option \<Rightarrow> activity list" where
  "list_activities s workspace runId threadId =
     by_position (filter (\<lambda>a. av_workspace a = workspace \<and> (av_run_id a = runId \<or> same_thread threadId (av_thread_id a))) (cs_activities s))"

definition list_conversation_activities :: "activity_store \<Rightarrow> jstr \<Rightarrow> jstr \<Rightarrow> jstr option \<Rightarrow> activity list" where
  "list_conversation_activities s workspace conversationId runId =
     (let messages = filter (\<lambda>m. cm_workspace m = workspace \<and> cm_conversation_id m = Some conversationId) (cs_messages s);
          turnIds = List.map_filter (\<lambda>m. truthy_text (cm_turn_id m)) messages;
          runIds = map cm_run_id messages
      in by_position (filter (\<lambda>a. av_workspace a = workspace \<and>
           (av_turn_id a \<in> set turnIds \<or> (truthy_text runId \<noteq> None \<and> Some (av_run_id a) = runId)
            \<or> av_run_id a \<in> set runIds \<and> av_source a = FromChatgpt)) (cs_activities s)))"

definition list_events :: "activity_store \<Rightarrow> jstr option \<Rightarrow> jstr option \<Rightarrow> jstr option \<Rightarrow> chat_event list" where
  "list_events s workspace runId threadId =
     sort_by (\<lambda>a b. ce_sequence a \<le> ce_sequence b) (filter (\<lambda>e.
       (workspace = None \<or> workspace = Some (ce_workspace e))
       \<and> (runId = None \<or> runId = Some (ce_run_id e) \<or> same_thread threadId (ce_thread_id e))
       \<and> (threadId = None \<or> ce_thread_id e = threadId)) (cs_events s))"

definition conversation_id :: "activity_store \<Rightarrow> jstr \<Rightarrow> jstr \<Rightarrow> jstr option" where
  "conversation_id s workspace runId =
     (case find (\<lambda>m. cm_workspace m = workspace \<and> cm_run_id m = runId \<and> truthy_text (cm_conversation_id m) \<noteq> None) (rev (cs_messages s)) of
        Some m \<Rightarrow> cm_conversation_id m
      | None \<Rightarrow> None)"

definition message_visible :: "jstr \<Rightarrow> jstr \<Rightarrow> jstr option \<Rightarrow> conversation_message \<Rightarrow> bool" where
  "message_visible workspace runId conversationId m \<longleftrightarrow> cm_workspace m = workspace \<and>
     (if truthy_text conversationId = None then cm_run_id m = runId
      else cm_conversation_id m = conversationId \<or> cm_run_id m = runId \<and> cm_conversation_id m = None)"

text \<open>A message without its run, workspace and conversation.\<close>

record message_view =
  mv_id :: jstr
  mv_role :: message_author
  mv_text :: jstr
  mv_created_at :: jstr
  mv_turn_id :: "jstr option"

definition view_of_message :: "conversation_message \<Rightarrow> message_view" where
  "view_of_message m = \<lparr>mv_id = cm_id m, mv_role = cm_role m, mv_text = cm_text m, mv_created_at = cm_created_at m, mv_turn_id = cm_turn_id m\<rparr>"

definition list_messages :: "activity_env \<Rightarrow> activity_store \<Rightarrow> jstr \<Rightarrow> jstr \<Rightarrow> jstr option \<Rightarrow> message_view list" where
  "list_messages env s workspace runId conversationId =
     (let c = (case conversationId of Some c \<Rightarrow> Some c | None \<Rightarrow> conversation_id s workspace runId)
      in sort_by (\<lambda>a b. ae_compare env (mv_created_at a) (mv_created_at b) \<le> 0)
           (map view_of_message (filter (message_visible workspace runId c) (cs_messages s))))"

section \<open>Replaying the log\<close>

lemma bounded_length: "length (bounded s) \<le> MAX_TEXT_CHARS"
  by (simp add: bounded_def MAX_TEXT_CHARS_def)

lemma bounded_idem [simp]: "bounded (bounded s) = bounded s"
  using bounded_length [of s] by (simp add: bounded_def [of "bounded s"])

lemma bounded_Nil [simp]: "bounded s = [] \<longleftrightarrow> s = []"
  by (auto simp: bounded_def MAX_TEXT_CHARS_def)

lemma bounded_comp [simp]: "bounded \<circ> bounded = bounded"
  by (rule ext) simp

lemma truthy_idem [simp]: "truthy_text (truthy_text v) = truthy_text v"
  by (simp add: truthy_text_def)

lemma truthy_map_bounded [simp]: "truthy_text (map_option bounded v) = map_option bounded (truthy_text v)"
  by (cases v) (auto simp: truthy_text_def)

lemma truthy_None [simp]: "truthy_text None = None"
  by (simp add: truthy_text_def)

lemma truthy_ne [simp]: "truthy_text v \<noteq> Some []" "(truthy_text v = Some []) = False"
  by (auto simp: truthy_text_def)

text \<open>A row that holds no empty optional text and only bounded ones, as every new row does.\<close>

definition clean_row :: "activity \<Rightarrow> bool" where
  "clean_row a \<longleftrightarrow> compact_activity a = a \<and> list_all (\<lambda>v. truthy_text v = v)
     [av_thread_id a, av_item_id a, av_text a, av_command a, av_cwd a, av_function_name a, av_parameters a,
      av_output a, av_diff a, av_file_path a, av_status a]"

lemma compact_idem [simp]: "compact_activity (compact_activity a) = compact_activity a"
  by (simp add: compact_activity_def option.map_comp)

lemma compact_fields:
  "compact_activity a = a \<longleftrightarrow> map_option bounded (av_text a) = av_text a \<and> map_option bounded (av_command a) = av_command a
     \<and> map_option bounded (av_parameters a) = av_parameters a \<and> map_option bounded (av_output a) = av_output a
     \<and> map_option bounded (av_diff a) = av_diff a"
  by (cases a) (auto simp: compact_activity_def)

text \<open>A clean row can be read back from each of the events it writes.\<close>

lemma activity_from_log_event_row:
  assumes "clean_row a" "av_created_at a = c" "av_updated_at a = c"
  shows "activity_from_log_event (log_event a c type n) = a"
proof -
  have "truthy_text v = v" if "v \<in> set [av_thread_id a, av_item_id a, av_text a, av_command a, av_cwd a, av_function_name a,
      av_parameters a, av_output a, av_diff a, av_file_path a, av_status a]" for v
    using assms(1) that by (auto simp: clean_row_def)
  moreover have "spread (map_option bounded (av_output a)) (map_option bounded (av_output a)) = map_option bounded (av_output a)"
    by (cases "av_output a") (auto simp: spread_def)
  ultimately show ?thesis
    using assms unfolding activity_from_log_event_def log_event_def compact_event_def clean_row_def compact_fields
    by (cases a) (simp add: compact_activity_def)
qed

lemma keep_truthy_clean: "truthy_text v = v \<Longrightarrow> keep_truthy p v = spread p v"
  by (auto simp: keep_truthy_def spread_def split: option.splits)

lemma merge_stream_flag: "truthy_text v = None \<or> b = c \<Longrightarrow> merge_stream b p v = merge_stream c p v"
  by (auto simp: merge_stream_def)

text \<open>When the incoming row is clean, the live merge and the merge of the replay agree on the same flags.\<close>

lemma merges_agree:
  assumes clean: "clean_row a"
    and text_flag: "truthy_text (av_text a) = None \<or> ((case e of Codex c \<Rightarrow> cp_stage c = AsStreaming | Chatgpt _ \<Rightarrow> False)
        \<and> (av_kind a = AkResponse \<or> av_kind a = AkReasoning))
      = ((ce_type ev = AssistantTextDelta \<or> ce_type ev = ReasoningDelta) \<and> ce_stage ev = AsStreaming)"
    and output_flag: "truthy_text (av_output a) = None \<or> (case e of Codex c \<Rightarrow> cp_stage c = AsStreaming | Chatgpt _ \<Rightarrow> False)
      = (ce_type ev = CommandOutputDelta \<or> ce_type ev = ToolCallOutputDelta)"
  shows "merge_activity p a e = merge_activity_from_log p a ev"
proof -
  have "keep_truthy (av_status p) (av_status a) = spread (av_status p) (av_status a)"
    using clean by (simp add: clean_row_def keep_truthy_clean)
  moreover have "merge_stream ((case e of Codex c \<Rightarrow> cp_stage c = AsStreaming | Chatgpt _ \<Rightarrow> False)
        \<and> (av_kind a = AkResponse \<or> av_kind a = AkReasoning)) (av_text p) (av_text a)
      = merge_stream ((ce_type ev = AssistantTextDelta \<or> ce_type ev = ReasoningDelta) \<and> ce_stage ev = AsStreaming) (av_text p) (av_text a)"
    by (rule merge_stream_flag [OF text_flag])
  moreover have "merge_stream (case e of Codex c \<Rightarrow> cp_stage c = AsStreaming | Chatgpt _ \<Rightarrow> False) (av_output p) (av_output a)
      = merge_stream (ce_type ev = CommandOutputDelta \<or> ce_type ev = ToolCallOutputDelta) (av_output p) (av_output a)"
    by (rule merge_stream_flag [OF output_flag])
  ultimately show ?thesis
    by (cases a) (simp add: merge_activity_def merge_activity_from_log_def merge_rows_def Let_def)
qed

lemma stronger_idem [simp]: "stronger_stage (stronger_stage a b) b = stronger_stage a b" "stronger_stage b b = b"
  by (cases a; cases b; simp add: stronger_stage_def)+

lemma spread_idem [simp]: "spread (spread a b) b = spread a b" "spread b b = b"
  by (auto simp: spread_def split: option.splits)

lemma merge_stream_replace:
  "truthy_text v = v \<Longrightarrow> merge_stream False p v = (case v of Some s \<Rightarrow> Some (bounded s) | None \<Rightarrow> p)"
  by (auto simp: merge_stream_def keep_truthy_def spread_def split: option.splits)

text \<open>Merging the same clean row twice, without appending, is merging it once.\<close>

lemma merge_rows_replace:
  assumes "clean_row a"
  shows "merge_rows False False p a = a\<lparr>av_id := av_id p, av_position := av_position p, av_created_at := av_created_at p,
       av_stage := stronger_stage (av_stage p) (av_stage a), av_thread_id := spread (av_thread_id p) (av_thread_id a),
       av_item_id := spread (av_item_id p) (av_item_id a), av_text := spread (av_text p) (av_text a),
       av_output := spread (av_output p) (av_output a), av_diff := spread (av_diff p) (av_diff a),
       av_command := spread (av_command p) (av_command a), av_cwd := spread (av_cwd p) (av_cwd a),
       av_function_name := spread (av_function_name p) (av_function_name a),
       av_parameters := spread (av_parameters p) (av_parameters a), av_file_path := spread (av_file_path p) (av_file_path a),
       av_additions := spread (av_additions p) (av_additions a), av_deletions := spread (av_deletions p) (av_deletions a),
       av_status := spread (av_status p) (av_status a), av_exit_code := spread (av_exit_code p) (av_exit_code a),
       av_duration := spread (av_duration p) (av_duration a)\<rparr>"
proof -
  have stream: "merge_stream False q v = spread q v" if "truthy_text v = v" "map_option bounded v = v" for q v
    using that by (cases v) (auto simp: merge_stream_replace spread_def)
  show ?thesis
    using assms unfolding clean_row_def compact_fields merge_rows_def by (simp add: stream keep_truthy_clean)
qed

lemma map_bounded_spread: "map_option bounded (spread p v) = spread (map_option bounded p) (map_option bounded v)"
  by (auto simp: spread_def split: option.splits)

lemma merge_twice:
  assumes "clean_row a"
  shows "compact_activity (merge_rows False False (compact_activity (merge_rows False False p a)) a)
    = compact_activity (merge_rows False False p a)"
  using assms unfolding merge_rows_replace [OF assms] clean_row_def compact_fields
  by (simp add: compact_activity_def map_bounded_spread option.map_comp)

lemma merge_self:
  assumes "clean_row a"
  shows "compact_activity (merge_rows False False a a) = a"
  using assms unfolding merge_rows_replace [OF assms] clean_row_def by simp

text \<open>
  The events after which the timeline does not depend on whether it was built live or by
  replay: Codex events, except output streamed for a row that is not a command or a tool;
  ChatGPT events with a text that is not empty, except streamed answers and streamed output.
\<close>

definition replayable :: "progress_event \<Rightarrow> bool" where
  "replayable e = (case e of
      Codex c \<Rightarrow> cp_item_id c \<noteq> [] \<and>
        (cp_stage c = AsStreaming \<longrightarrow> truthy_text (cp_output c) = None \<or> cp_kind c = AkCommand \<or> cp_kind c = AkTool)
    | Chatgpt g \<Rightarrow> (gp_kind g \<noteq> GkTool \<longrightarrow> gp_text g \<noteq> []) \<and>
        (chatgpt_stage g = AsStreaming \<longrightarrow> gp_kind g \<noteq> GkResponse \<and> gp_kind g \<noteq> GkReasoning \<and> truthy_text (gp_output g) = None))"

lemma truthy_Some: "s \<noteq> [] \<Longrightarrow> truthy_text (Some s) = Some s"
  by (simp add: truthy_text_def)

lemma compact_sel:
  "av_text (compact_activity a) = map_option bounded (av_text a)"
  "av_command (compact_activity a) = map_option bounded (av_command a)"
  "av_parameters (compact_activity a) = map_option bounded (av_parameters a)"
  "av_output (compact_activity a) = map_option bounded (av_output a)"
  "av_diff (compact_activity a) = map_option bounded (av_diff a)"
  "av_thread_id (compact_activity a) = av_thread_id a" "av_item_id (compact_activity a) = av_item_id a"
  "av_cwd (compact_activity a) = av_cwd a" "av_function_name (compact_activity a) = av_function_name a"
  "av_file_path (compact_activity a) = av_file_path a" "av_status (compact_activity a) = av_status a"
  by (simp_all add: compact_activity_def)

lemma clean_compact:
  assumes "list_all (\<lambda>v. truthy_text v = v) [av_thread_id a, av_item_id a, av_text a, av_command a, av_cwd a, av_function_name a,
    av_parameters a, av_output a, av_diff a, av_file_path a, av_status a]"
  shows "clean_row (compact_activity a)"
  using assms unfolding clean_row_def by (simp add: compact_sel)

lemma clean_from_event:
  assumes "replayable e" shows "clean_row (activity_from_event env e now i n)"
  using assms by (cases e) (auto simp: activity_from_event_def activity_of_chatgpt_def activity_of_codex_def replayable_def
      truthy_Some intro!: clean_compact)

lemma activity_from_event_dates:
  "av_created_at (activity_from_event env e now i n) = ae_iso env now"
  "av_updated_at (activity_from_event env e now i n) = ae_iso env now"
  "av_id (activity_from_event env e now i n) = i"
  by (cases e; simp add: activity_from_event_def activity_of_codex_def activity_of_chatgpt_def compact_activity_def)+

lemma put_row_twice:
  assumes "m2 a = a" "\<And>p. m2 (m1 p) = m1 p"
  shows "put_row m2 a (put_row m1 a rs) = put_row m1 a rs"
proof (cases rs)
  case (Pair rows index)
  have "(rows[i := m1 (rows ! i)])[i := m2 (rows[i := m1 (rows ! i)] ! i)] = rows[i := m1 (rows ! i)]" for i
    by (cases "i < length rows") (simp_all add: assms(2) list_update_beyond)
  with Pair assms(1) show ?thesis
    by (cases "index (av_id a)") (simp_all add: put_row_def list_update_append)
qed

text \<open>The merges of one log event of a row, by its type, agree with the live merge.\<close>

lemma log_event_fields:
  "ce_type (log_event a c type n) = type" "ce_stage (log_event a c type n) = av_stage a"
  by (simp_all add: log_event_def compact_event_def)

lemma apply_row_event:
  assumes "clean_row a" "av_created_at a = c" "av_updated_at a = c"
  shows "apply_log_event rs (log_event a c type n) = put_row (\<lambda>p. merge_activity_from_log p a (log_event a c type n)) a rs"
  by (simp add: apply_log_event_def activity_from_log_event_row [OF assms])

definition streams :: "progress_event \<Rightarrow> bool" where
  "streams e = (case e of Codex c \<Rightarrow> cp_stage c = AsStreaming | Chatgpt _ \<Rightarrow> False)"

lemma merge_by_type:
  assumes "clean_row a"
    and "truthy_text (av_text a) = None \<or> (streams e \<and> (av_kind a = AkResponse \<or> av_kind a = AkReasoning))
      = ((type = AssistantTextDelta \<or> type = ReasoningDelta) \<and> av_stage a = AsStreaming)"
    and "truthy_text (av_output a) = None \<or> streams e = (type = CommandOutputDelta \<or> type = ToolCallOutputDelta)"
  shows "merge_activity_from_log p a (log_event a c type n) = merge_activity p a e"
  using assms by (intro merges_agree [symmetric]) (simp_all add: log_event_fields streams_def)

lemma stage_of_event:
  "av_stage (activity_from_event env e now i n) = (case e of Codex c \<Rightarrow> cp_stage c | Chatgpt g \<Rightarrow> chatgpt_stage g)"
  by (cases e; simp add: activity_from_event_def activity_of_codex_def activity_of_chatgpt_def compact_activity_def)

lemma output_of_event:
  "av_output (activity_from_event env e now i n) = map_option bounded (truthy_text (case e of Codex c \<Rightarrow> cp_output c | Chatgpt g \<Rightarrow> gp_output g))"
  by (cases e; simp add: activity_from_event_def activity_of_codex_def activity_of_chatgpt_def compact_activity_def)

lemma kind_of_event:
  "av_kind (activity_from_event env e now i n) = (case e of Codex c \<Rightarrow> cp_kind c
     | Chatgpt g \<Rightarrow> (case gp_kind g of GkDiff \<Rightarrow> AkFile | GkResponse \<Rightarrow> AkResponse | GkReasoning \<Rightarrow> AkReasoning | GkTool \<Rightarrow> AkTool))"
  by (cases e; simp add: activity_from_event_def activity_of_codex_def activity_of_chatgpt_def compact_activity_def)

lemma text_of_chatgpt:
  "gp_kind g = GkTool \<or> gp_kind g = GkDiff \<Longrightarrow> av_text (activity_from_event env (Chatgpt g) now i n) = None"
  by (auto simp: activity_from_event_def activity_of_chatgpt_def compact_activity_def)

text \<open>Replaying the events of one row is the live update by that row.\<close>

lemma replay_one_row:
  assumes "replayable e" and a: "a = activity_from_event env e now i pos" and c: "c = ae_iso env now"
  shows "foldl apply_log_event rs (log_events a c n) = upsert_activity a e rs"
proof -
  have clean: "clean_row a" and dates: "av_created_at a = c" "av_updated_at a = c"
    using assms by (simp_all add: clean_from_event activity_from_event_dates)
  have one: "apply_log_event rs (log_event a c type k) = upsert_activity a e rs"
    if "truthy_text (av_text a) = None \<or> (streams e \<and> (av_kind a = AkResponse \<or> av_kind a = AkReasoning))
        = ((type = AssistantTextDelta \<or> type = ReasoningDelta) \<and> av_stage a = AsStreaming)"
      and "truthy_text (av_output a) = None \<or> streams e = (type = CommandOutputDelta \<or> type = ToolCallOutputDelta)" for rs type k
    by (simp add: apply_row_event [OF clean dates] upsert_activity_def merge_by_type [OF clean that])
  have quiet: "merge_activity p a e = compact_activity (merge_rows False False p a)" if "\<not> streams e" for p
    using that clean by (cases a; cases e)
      (auto simp: merge_activity_def merge_rows_def streams_def clean_row_def keep_truthy_clean)
  have twice: "upsert_activity a e (upsert_activity a e rs) = upsert_activity a e rs" if "\<not> streams e" for rs
    unfolding upsert_activity_def
    by (rule put_row_twice) (simp_all add: quiet [OF that] merge_self [OF clean] merge_twice [OF clean])
  show ?thesis
  proof (cases "log_types a")
    case (Cons t ts)
    consider (single) "ts = []" | (tool) u where "ts = [u]" "av_kind a = AkTool" "av_stage a \<noteq> AsStreaming"
      "{t, u} \<subseteq> {ToolCallStarted, ToolCallArgs, ToolCallFinished}"
      using Cons by (auto simp: log_types_def Let_def split: activity_kind.splits activity_stage.splits if_splits)
    then show ?thesis
    proof cases
      case single
      with Cons have types: "log_types a = [t]" by simp
      have stage: "av_stage a = (case e of Codex c \<Rightarrow> cp_stage c | Chatgpt g \<Rightarrow> chatgpt_stage g)"
        and outp: "av_output a = map_option bounded (truthy_text (case e of Codex c \<Rightarrow> cp_output c | Chatgpt g \<Rightarrow> gp_output g))"
        and kind: "av_kind a = (case e of Codex c \<Rightarrow> cp_kind c
          | Chatgpt g \<Rightarrow> (case gp_kind g of GkDiff \<Rightarrow> AkFile | GkResponse \<Rightarrow> AkResponse | GkReasoning \<Rightarrow> AkReasoning | GkTool \<Rightarrow> AkTool))"
        unfolding a by (rule stage_of_event output_of_event kind_of_event)+
      have "truthy_text (av_text a) = None \<or> (streams e \<and> (av_kind a = AkResponse \<or> av_kind a = AkReasoning))
          = ((t = AssistantTextDelta \<or> t = ReasoningDelta) \<and> av_stage a = AsStreaming)"
        using types assms(1) stage kind
        by (cases "av_kind a"; cases e) (auto simp: log_types_def Let_def streams_def replayable_def
            split: activity_stage.splits if_splits chatgpt_kind.splits)
      moreover have "truthy_text (av_output a) = None \<or> streams e = (t = CommandOutputDelta \<or> t = ToolCallOutputDelta)"
        using types assms(1) stage outp kind
        by (cases "av_kind a"; cases e) (auto simp: log_types_def Let_def streams_def replayable_def
            split: activity_stage.splits if_splits chatgpt_kind.splits)
      ultimately show ?thesis by (simp add: log_events_def types one)
    next
      case (tool u)
      have "\<not> streams e" using tool a by (auto simp: streams_def stage_of_event split: progress_event.splits)
      with tool show ?thesis using Cons
        by (auto simp: log_events_def one twice)
    qed
  qed (auto simp: log_types_def Let_def split: activity_kind.splits activity_stage.splits if_splits)
qed

section \<open>Calls of the store\<close>

datatype 'e store_call =
    CallRecord int "'e desktop_event" | CallAttach jstr jstr | CallMessage conversation_message | CallClear jstr | CallFlush

fun store_step :: "activity_env \<Rightarrow> activity_store \<Rightarrow> 'e store_call \<Rightarrow> activity_store" where
  "store_step env s (CallRecord clock e) = snd (record_event env clock s e)"
| "store_step env s (CallAttach runId threadId) = attach_thread runId threadId s"
| "store_step env s (CallMessage m) = record_message m s"
| "store_step env s (CallClear workspace) = ledger_clear_workspace workspace s"
| "store_step env s CallFlush = flush s"

text \<open>The progress events that the recording of one event writes.\<close>

definition recorded_parts :: "activity_env \<Rightarrow> 'e desktop_event \<Rightarrow> progress_event list" where
  "recorded_parts env e = (case e of
      OtherEvent _ \<Rightarrow> []
    | Progress p \<Rightarrow> if (case p of Chatgpt g \<Rightarrow> gp_kind g = GkReasoning | Codex _ \<Rightarrow> False) then [] else normalize_progress_events env p)"

definition replayable_call :: "activity_env \<Rightarrow> 'e store_call \<Rightarrow> bool" where
  "replayable_call env c = (case c of CallRecord clock e \<Rightarrow> list_all replayable (recorded_parts env e) | _ \<Rightarrow> True)"

text \<open>The sequence numbers of the log increase and stay below the next one.\<close>

definition log_ordered :: "activity_store \<Rightarrow> bool" where
  "log_ordered s \<longleftrightarrow> sorted_wrt (<) (map ce_sequence (cs_events s)) \<and> list_all (\<lambda>e. ce_sequence e < cs_next_sequence s) (cs_events s)"

definition replayed :: "activity_store \<Rightarrow> bool" where
  "replayed s \<longleftrightarrow> (cs_activities s, cs_by_id s) = replay_rows (cs_events s)"

lemma replay_rows_ordered:
  "sorted_wrt (<) (map ce_sequence es) \<Longrightarrow> replay_rows es = foldl apply_log_event ([], Map.empty) es"
proof -
  assume "sorted_wrt (<) (map ce_sequence es)"
  then have "sorted_wrt (\<lambda>a b. ce_sequence a \<le> ce_sequence b) es"
    by (simp add: sorted_wrt_map) (metis (mono_tags, lifting) less_imp_le sorted_wrt_mono_rel)
  then show ?thesis by (simp add: replay_rows_def sort_by_sorted)
qed

lemma replayed_replay [simp]: "replayed (replay_events s)"
  by (simp add: replayed_def replay_events_def del: split_paired_All)

lemma log_ordered_replay [simp]: "log_ordered (replay_events s) = log_ordered s"
  unfolding log_ordered_def replay_events_def by simp

lemma ce_sequence_log_event [simp]: "ce_sequence (log_event a c type n) = n"
  by (simp add: log_event_def compact_event_def)

lemma log_events_sequences: "map ce_sequence (log_events a c n) = map (\<lambda>i. n + int i) [0..<length (log_types a)]"
  by (rule nth_equalityI) (simp_all add: log_events_def nth_enumerate_eq)

lemma sorted_append_next:
  fixes n :: int
  assumes "sorted_wrt (<) xs" "list_all (\<lambda>x. x < n) xs"
  shows "sorted_wrt (<) (xs @ map (\<lambda>i. n + int i) [0..<k])" "list_all (\<lambda>x. x < n + int k) (xs @ map (\<lambda>i. n + int i) [0..<k])"
proof -
  have "sorted_wrt (<) (map (\<lambda>i. n + int i) [0..<k])" by (simp add: sorted_wrt_map)
  then show "sorted_wrt (<) (xs @ map (\<lambda>i. n + int i) [0..<k])"
    using assms by (simp add: sorted_wrt_append list_all_iff) force
  show "list_all (\<lambda>x. x < n + int k) (xs @ map (\<lambda>i. n + int i) [0..<k])"
    using assms(2) by (auto simp: list_all_iff)
qed

lemma log_ordered_iff:
  "log_ordered s \<longleftrightarrow> sorted_wrt (<) (map ce_sequence (cs_events s)) \<and> list_all (\<lambda>x. x < cs_next_sequence s) (map ce_sequence (cs_events s))"
  by (simp add: log_ordered_def list_all_iff)

lemma log_ordered_append:
  assumes "log_ordered s"
  shows "log_ordered (s\<lparr>cs_next_sequence := cs_next_sequence s + int (length (log_events a c (cs_next_sequence s))),
    cs_events := cs_events s @ log_events a c (cs_next_sequence s), cs_activities := rows, cs_by_id := index\<rparr>)"
proof -
  have len: "length (log_events a c (cs_next_sequence s)) = length (log_types a)" by (simp add: log_events_def)
  have ord: "sorted_wrt (<) (map ce_sequence (cs_events s))" "list_all (\<lambda>x. x < cs_next_sequence s) (map ce_sequence (cs_events s))"
    using assms unfolding log_ordered_iff by auto
  show ?thesis
    unfolding log_ordered_iff using sorted_append_next [OF ord, of "length (log_types a)"]
    by (simp add: len log_events_sequences del: list_all_append)
qed

lemma log_ordered_last_n: "log_ordered s \<Longrightarrow> log_ordered (s\<lparr>cs_events := last_n n (cs_events s)\<rparr>)"
  unfolding log_ordered_def last_n_def
  by (auto simp: drop_map [symmetric] list_all_iff intro: sorted_wrt_drop dest: in_set_dropD)

lemma log_ordered_map_filter:
  assumes "log_ordered s" "\<And>e. ce_sequence (f e) = ce_sequence e"
  shows "log_ordered (s\<lparr>cs_events := map f (filter P (cs_events s))\<rparr>)"
  using assms by (auto simp: log_ordered_def list_all_iff comp_def sorted_wrt_map intro: sorted_wrt_filter)

lemma trim_events_ok: "log_ordered s \<Longrightarrow> log_ordered (trim_events s)"
  using log_ordered_last_n [of s MAX_EVENTS]
  by (auto simp: trim_events_def log_ordered_def replay_events_def Let_def list_all_iff)

lemma trim_events_replayed: "replayed s \<Longrightarrow> replayed (trim_events s)"
  by (simp add: trim_events_def replayed_def replay_events_def Let_def)

lemma position_for_store: "snd (position_for s i p) = s\<lparr>cs_next_position := cs_next_position (snd (position_for s i p))\<rparr>"
  by (auto simp: position_for_def split: option.splits jnum.splits)

lemma position_for_keeps:
  "log_ordered (snd (position_for s i p)) = log_ordered s" "replayed (snd (position_for s i p)) = replayed s"
  by (subst position_for_store, simp add: log_ordered_def replayed_def)+

lemma schedule_flush_keeps [simp]: "log_ordered (schedule_flush s) = log_ordered s" "replayed (schedule_flush s) = replayed s"
  by (simp_all add: schedule_flush_def log_ordered_def replayed_def)

lemma write_activity_ordered: "log_ordered s \<Longrightarrow> log_ordered (write_activity a c e s)"
  unfolding write_activity_def Let_def by (simp only: schedule_flush_keeps) (rule trim_events_ok, rule log_ordered_append)

lemma write_activity_replayed:
  assumes "replayed s" "log_ordered s" "replayable e" "a = activity_from_event env e now i pos" "c = ae_iso env now"
  shows "replayed (write_activity a c e s)"
proof -
  let ?logged = "log_events a c (cs_next_sequence s)"
  have "sorted_wrt (<) (map ce_sequence (cs_events s @ ?logged))"
    using log_ordered_append [OF assms(2)] by (simp add: log_ordered_def)
  then have "replay_rows (cs_events s @ ?logged) = foldl apply_log_event (replay_rows (cs_events s)) ?logged"
    using assms(2) by (simp add: replay_rows_ordered log_ordered_def)
  also have "\<dots> = upsert_activity a e (cs_activities s, cs_by_id s)"
    using assms(1) replay_one_row [OF assms(3,4,5)] by (simp add: replayed_def)
  finally show ?thesis
    unfolding write_activity_def Let_def
    by (simp only: schedule_flush_keeps) (rule trim_events_replayed, simp add: replayed_def)
qed

lemma record_progress_store:
  "\<exists>a s1. a = activity_from_event env e (case progress_created_at e of Some t \<Rightarrow> t | None \<Rightarrow> clock) (activity_id_for env s e)
      (fst (position_for s (activity_id_for env s e) (progress_position e)))
    \<and> s1 = snd (position_for s (activity_id_for env s e) (progress_position e))
    \<and> snd (record_progress env clock s e)
      = write_activity a (ae_iso env (case progress_created_at e of Some t \<Rightarrow> t | None \<Rightarrow> clock)) e s1"
  by (simp add: record_progress_def Let_def split: prod.split)

lemma record_progress_ordered: "log_ordered s \<Longrightarrow> log_ordered (snd (record_progress env clock s e))"
  using record_progress_store [of env e clock s] by (auto simp: position_for_keeps intro: write_activity_ordered)

lemma record_progress_replayed:
  "replayed s \<Longrightarrow> log_ordered s \<Longrightarrow> replayable e \<Longrightarrow> replayed (snd (record_progress env clock s e))"
  using record_progress_store [of env e clock s] by (auto simp: position_for_keeps intro!: write_activity_replayed)

lemma record_all_store: "snd (record_all env clock s es) = foldl (\<lambda>s e. snd (record_progress env clock s e)) s es"
  by (induction es arbitrary: s) (simp_all add: case_prod_unfold)

lemma record_event_store:
  "snd (record_event env clock s e) = foldl (\<lambda>s e. snd (record_progress env clock s e)) s (recorded_parts env e)"
  by (cases e) (simp_all add: record_event_def recorded_parts_def record_all_store [symmetric] case_prod_unfold)

lemma foldl_keeps: "P s \<Longrightarrow> (\<And>s x. x \<in> set xs \<Longrightarrow> P s \<Longrightarrow> P (f s x)) \<Longrightarrow> P (foldl f s xs)"
  by (induction xs arbitrary: s) auto

lemma store_step_ordered: "log_ordered s \<Longrightarrow> log_ordered (store_step env s c)"
proof (cases c)
  case (CallRecord clock e)
  assume "log_ordered s"
  then show ?thesis unfolding CallRecord store_step.simps record_event_store
    by (rule foldl_keeps) (rule record_progress_ordered)
next
  case (CallAttach r th)
  assume "log_ordered s"
  then show ?thesis
    using log_ordered_map_filter [of s "\<lambda>e. if ce_source e = FromCodex \<and> ce_run_id e = r \<and> ce_thread_id e \<noteq> Some th
      then e\<lparr>ce_thread_id := Some th\<rparr> else e" "\<lambda>_. True"]
    by (simp add: CallAttach attach_thread_def)
next
  case (CallClear w)
  assume "log_ordered s"
  then have "log_ordered (s\<lparr>cs_events := filter (\<lambda>e. ce_workspace e \<noteq> w) (cs_events s)\<rparr>)"
    using log_ordered_map_filter [of s "\<lambda>e. e" "\<lambda>e. ce_workspace e \<noteq> w"] by simp
  then have "log_ordered (s\<lparr>cs_events := filter (\<lambda>e. ce_workspace e \<noteq> w) (cs_events s), cs_messages := ms\<rparr>)" for ms
    by (simp add: log_ordered_def)
  with \<open>log_ordered s\<close> show ?thesis by (simp add: CallClear ledger_clear_workspace_def Let_def)
qed (simp_all add: record_message_def flush_def flush_fires_def ledger_enqueue_write_def log_ordered_def schedule_flush_def)

lemma replayed_frame:
  "replayed (record_message m s) = replayed s" "replayed (flush s) = replayed s"
  by (simp_all add: record_message_def flush_def flush_fires_def ledger_enqueue_write_def replayed_def schedule_flush_def)

lemma record_event_replayed:
  assumes "replayed s" "log_ordered s" "list_all replayable (recorded_parts env e)"
  shows "replayed (snd (record_event env clock s e))"
proof -
  have "replayed (snd (record_event env clock s e)) \<and> log_ordered (snd (record_event env clock s e))"
    unfolding record_event_store
  proof (rule foldl_keeps)
    show "replayed s \<and> log_ordered s" using assms by simp
    fix s p assume "p \<in> set (recorded_parts env e)" and s: "replayed s \<and> log_ordered s"
    with assms(3) have "replayable p" by (simp add: list_all_iff)
    with s show "replayed (snd (record_progress env clock s p)) \<and> log_ordered (snd (record_progress env clock s p))"
      by (simp add: record_progress_replayed record_progress_ordered)
  qed
  then show ?thesis ..
qed

lemma store_step_replayed:
  assumes "replayed s" "log_ordered s" "replayable_call env c" shows "replayed (store_step env s c)"
proof (cases c)
  case (CallRecord clock e)
  with assms show ?thesis by (simp add: replayable_call_def record_event_replayed)
next
  case (CallAttach r th)
  with assms show ?thesis by (simp add: attach_thread_def)
next
  case (CallClear w)
  with assms show ?thesis by (simp add: ledger_clear_workspace_def Let_def)
qed (use assms in \<open>simp_all add: replayed_frame\<close>)

section \<open>The invariant of the store\<close>

definition short :: "jstr option \<Rightarrow> bool" where
  "short v \<longleftrightarrow> (case v of Some s \<Rightarrow> length s \<le> MAX_TEXT_CHARS | None \<Rightarrow> True)"

lemma short_bounded [simp]: "short (map_option bounded v)"
  by (cases v) (simp_all add: short_def bounded_length)

definition texts_bounded :: "activity \<Rightarrow> bool" where
  "texts_bounded a \<longleftrightarrow> list_all short [av_text a, av_command a, av_parameters a, av_output a, av_diff a]"

lemma texts_bounded_compact [simp]: "texts_bounded (compact_activity a)"
  by (simp add: texts_bounded_def compact_activity_def)

text \<open>One row for each id, found by the index; bounded texts; every row stems from a workspace of the log.\<close>

definition rows_ok :: "jstr set \<Rightarrow> rows \<Rightarrow> bool" where
  "rows_ok workspaces rs \<longleftrightarrow> (case rs of (rows, index) \<Rightarrow> distinct (map av_id rows)
     \<and> (\<forall>x i. index x = Some i \<longleftrightarrow> i < length rows \<and> av_id (rows ! i) = x)
     \<and> list_all texts_bounded rows \<and> av_workspace ` set rows \<subseteq> workspaces)"

definition store_wf :: "activity_store \<Rightarrow> bool" where
  "store_wf s \<longleftrightarrow> rows_ok (ce_workspace ` set (cs_events s)) (cs_activities s, cs_by_id s)
     \<and> length (cs_events s) \<le> MAX_EVENTS \<and> length (cs_messages s) \<le> MAX_MESSAGES \<and> distinct (map cm_id (cs_messages s))"

lemma rows_ok_mono: "rows_ok A rs \<Longrightarrow> A \<subseteq> B \<Longrightarrow> rows_ok B rs"
  by (auto simp: rows_ok_def)

lemma put_row_ok:
  assumes "rows_ok A rs" "texts_bounded a" "av_workspace a \<in> A"
    and "\<And>p. av_id (m p) = av_id p \<and> texts_bounded (m p) \<and> av_workspace (m p) = av_workspace a"
  shows "rows_ok A (put_row m a rs)"
proof (cases rs)
  case (Pair rows index)
  have dist: "distinct (map av_id rows)" and ix: "\<And>x i. index x = Some i \<longleftrightarrow> i < length rows \<and> av_id (rows ! i) = x"
    and bnd: "list_all texts_bounded rows" and ws: "av_workspace ` set rows \<subseteq> A"
    using assms(1) Pair by (auto simp: rows_ok_def)
  show ?thesis
  proof (cases "index (av_id a)")
    case None
    have new: "av_id a \<notin> av_id ` set rows"
    proof
      assume "av_id a \<in> av_id ` set rows"
      then obtain i where "i < length rows" "av_id (rows ! i) = av_id a" by (auto simp: in_set_conv_nth)
      with ix have "index (av_id a) = Some i" by blast
      with None show False by simp
    qed
    have fresh: "\<forall>k < length rows. av_id (rows ! k) \<noteq> av_id a"
      using new by (metis imageI nth_mem)
    have found: "(index(av_id a \<mapsto> length rows)) x = Some i \<longleftrightarrow> i < length (rows @ [a]) \<and> av_id ((rows @ [a]) ! i) = x" for x i
    proof (cases "i < length rows")
      case True
      with fresh ix [of x i] show ?thesis by (simp add: nth_append)
    next
      case False
      with ix [of x i] show ?thesis by (auto simp: nth_append)
    qed
    have "distinct (map av_id (rows @ [a]))" "list_all texts_bounded (rows @ [a])" "av_workspace ` set (rows @ [a]) \<subseteq> A"
      using new dist bnd ws assms(2,3) by simp_all
    moreover have "put_row m a rs = (rows @ [a], index(av_id a \<mapsto> length rows))" by (simp add: Pair None put_row_def)
    ultimately show ?thesis using found by (simp only: rows_ok_def prod.case simp_thms)
  next
    case (Some i)
    then have i: "i < length rows" using ix by blast
    let ?rows = "rows[i := m (rows ! i)]"
    have ids: "map av_id ?rows = map av_id rows"
      using i assms(4) by (intro nth_equalityI) (simp_all add: nth_list_update)
    have "k < length rows \<Longrightarrow> av_id (?rows ! k) = av_id (rows ! k)" for k
      using i assms(4) by (simp add: nth_list_update)
    then have "index x = Some k \<longleftrightarrow> k < length ?rows \<and> av_id (?rows ! k) = x" for x k
      using ix [of x k] by auto
    moreover have sub: "set ?rows \<subseteq> insert (m (rows ! i)) (set rows)" by (rule set_update_subset_insert)
    have "\<forall>x\<in>set ?rows. texts_bounded x \<and> av_workspace x \<in> A"
    proof
      fix x assume "x \<in> set ?rows"
      with sub have "x = m (rows ! i) \<or> x \<in> set rows" by blast
      then show "texts_bounded x \<and> av_workspace x \<in> A"
        using bnd ws assms(3,4) by (elim disjE) (simp_all add: list_all_iff image_subset_iff)
    qed
    then have "list_all texts_bounded ?rows" "av_workspace ` set ?rows \<subseteq> A"
      by (simp_all add: list_all_iff image_subset_iff)
    moreover have "put_row m a rs = (?rows, index)" by (simp add: Pair Some put_row_def)
    ultimately show ?thesis using dist ids by (simp only: rows_ok_def prod.case simp_thms)
  qed
qed

lemma merges_ok:
  "av_id (merge_activity p a e) = av_id p \<and> texts_bounded (merge_activity p a e) \<and> av_workspace (merge_activity p a e) = av_workspace a"
  "av_id (merge_activity_from_log p a ev) = av_id p \<and> texts_bounded (merge_activity_from_log p a ev)
    \<and> av_workspace (merge_activity_from_log p a ev) = av_workspace a"
  by (simp_all add: merge_activity_def merge_activity_from_log_def Let_def) (simp_all add: compact_activity_def merge_rows_def)

lemma apply_log_event_ok:
  assumes "rows_ok A rs" "ce_workspace e \<in> A" shows "rows_ok A (apply_log_event rs e)"
proof -
  have "texts_bounded (activity_from_log_event e)" "av_workspace (activity_from_log_event e) = ce_workspace e"
    by (simp_all add: activity_from_log_event_def) (simp add: compact_activity_def)
  with assms show ?thesis unfolding apply_log_event_def Let_def
    by (intro put_row_ok) (simp_all add: merges_ok)
qed

lemma replay_rows_ok: "rows_ok (ce_workspace ` set es) (replay_rows es)"
  unfolding replay_rows_def
proof (rule foldl_keeps)
  show "rows_ok (ce_workspace ` set es) ([], Map.empty)" by (simp add: rows_ok_def)
qed (simp add: apply_log_event_ok)

lemma store_wf_replay:
  assumes "length es \<le> MAX_EVENTS" "length ms \<le> MAX_MESSAGES" "distinct (map cm_id ms)"
  shows "store_wf (replay_events (s\<lparr>cs_events := es, cs_messages := ms\<rparr>))"
  using assms replay_rows_ok [of es] by (simp add: store_wf_def replay_events_def)

lemma store_wf_replay_log:
  "store_wf s \<Longrightarrow> length es \<le> MAX_EVENTS \<Longrightarrow> store_wf (replay_events (s\<lparr>cs_events := es\<rparr>))"
  using store_wf_replay [of es "cs_messages s" s] by (simp add: store_wf_def [of s])

lemma store_wf_frame:
  assumes "cs_events s' = cs_events s" "cs_activities s' = cs_activities s" "cs_by_id s' = cs_by_id s" "cs_messages s' = cs_messages s"
  shows "store_wf s' = store_wf s"
  using assms by (simp add: store_wf_def)

lemma store_wf_simps [simp]:
  "store_wf (schedule_flush s) = store_wf s" "store_wf (snd (position_for s i p)) = store_wf s"
  "store_wf (s\<lparr>cs_next_position := n, cs_next_sequence := k\<rparr>) = store_wf s" "store_wf (flush s) = store_wf s"
  by (rule store_wf_frame; simp add: schedule_flush_def flush_def flush_fires_def ledger_enqueue_write_def position_for_def
      split: option.splits jnum.splits)+

lemma trim_events_wf:
  assumes "rows_ok (ce_workspace ` set (cs_events s)) (cs_activities s, cs_by_id s)"
    "length (cs_messages s) \<le> MAX_MESSAGES" "distinct (map cm_id (cs_messages s))"
  shows "store_wf (trim_events s)"
proof (cases "length (cs_events s) \<le> MAX_EVENTS")
  case True
  with assms show ?thesis by (simp add: trim_events_def store_wf_def)
next
  case False
  with assms store_wf_replay [of "last_n MAX_EVENTS (cs_events s)" "cs_messages s" s] show ?thesis
    by (simp add: trim_events_def Let_def)
qed

lemma log_events_workspace: "e \<in> set (log_events a c n) \<Longrightarrow> ce_workspace e = av_workspace a"
  by (auto simp: log_events_def log_event_def compact_event_def)

lemma log_events_ne: "log_events a c n \<noteq> []"
  by (auto simp: log_events_def log_types_def Let_def enumerate_eq_zip split: activity_kind.splits activity_stage.splits)

lemma write_activity_wf:
  assumes "store_wf s" "texts_bounded a" shows "store_wf (write_activity a c e s)"
proof -
  let ?logged = "log_events a c (cs_next_sequence s)"
  let ?W = "ce_workspace ` set (cs_events s @ ?logged)"
  obtain ev where "ev \<in> set ?logged" using log_events_ne [of a c "cs_next_sequence s"] by (metis list.set_intros(1) neq_Nil_conv)
  then have "av_workspace a \<in> ?W" using log_events_workspace [of ev a c "cs_next_sequence s"] by force
  moreover have "rows_ok ?W (cs_activities s, cs_by_id s)"
    using assms(1) by (auto simp: store_wf_def elim: rows_ok_mono)
  ultimately have "rows_ok ?W (upsert_activity a e (cs_activities s, cs_by_id s))"
    unfolding upsert_activity_def using assms(2) by (intro put_row_ok) (simp_all add: merges_ok)
  then show ?thesis
    using assms(1) unfolding write_activity_def Let_def
    by (simp only: store_wf_simps) (rule trim_events_wf; simp add: store_wf_def)
qed

lemma texts_bounded_event: "texts_bounded (activity_from_event env e now i n)"
  by (cases e) (simp_all add: activity_from_event_def activity_of_codex_def activity_of_chatgpt_def)

lemma record_progress_wf: "store_wf s \<Longrightarrow> store_wf (snd (record_progress env clock s e))"
  using record_progress_store [of env e clock s] by (auto intro!: write_activity_wf simp: texts_bounded_event)

lemma put_message_ids: "set (map cm_id (put_message m ms)) = insert (cm_id m) (set (map cm_id ms))"
  by (induction ms) auto

lemma put_message_distinct: "distinct (map cm_id ms) \<Longrightarrow> distinct (map cm_id (put_message m ms))"
proof (induction ms)
  case (Cons x xs)
  then show ?case using put_message_ids [of m xs] by (auto simp: image_iff)
qed simp

lemma store_step_wf: "store_wf s \<Longrightarrow> store_wf (store_step env s c)"
proof (cases c)
  case (CallRecord clock e)
  assume "store_wf s"
  then show ?thesis unfolding CallRecord store_step.simps record_event_store
    by (rule foldl_keeps) (rule record_progress_wf)
next
  case (CallAttach r th)
  assume "store_wf s"
  then show ?thesis
    by (auto simp: CallAttach attach_thread_def Let_def store_wf_def [of s] intro!: store_wf_replay_log)
next
  case (CallMessage m)
  assume "store_wf s"
  then show ?thesis
    by (simp add: CallMessage record_message_def store_wf_def schedule_flush_def put_message_distinct distinct_map_last_n)
next
  case (CallClear w)
  assume wf: "store_wf s"
  let ?es = "filter (\<lambda>e. ce_workspace e \<noteq> w) (cs_events s)" and ?ms = "filter (\<lambda>m. cm_workspace m \<noteq> w) (cs_messages s)"
  have "store_wf (replay_events (s\<lparr>cs_events := ?es, cs_messages := ?ms\<rparr>))"
    using wf by (intro store_wf_replay)
      (auto simp: store_wf_def distinct_map_filter intro: order_trans [OF length_filter_le])
  with wf show ?thesis by (simp add: CallClear ledger_clear_workspace_def Let_def)
qed simp

lemma store_wf_new: "store_wf new_activity_store" "log_ordered new_activity_store" "replayed new_activity_store"
  by (simp_all add: store_wf_def new_activity_store_def rows_ok_def log_ordered_def replayed_def replay_rows_def)

lemma reachable_wf: "store_wf (foldl (store_step env) new_activity_store cs) \<and> log_ordered (foldl (store_step env) new_activity_store cs)"
  by (rule foldl_keeps) (auto simp: store_wf_new store_step_wf store_step_ordered)


lemma reachable_replayed:
  assumes "list_all (replayable_call env) cs" shows "replayed (foldl (store_step env) new_activity_store cs)"
proof -
  have "replayed (foldl (store_step env) new_activity_store cs) \<and> log_ordered (foldl (store_step env) new_activity_store cs)"
  proof (rule foldl_keeps [where P = "\<lambda>s. replayed s \<and> log_ordered s"])
    fix s c assume "c \<in> set cs" "replayed s \<and> log_ordered s"
    with assms show "replayed (store_step env s c) \<and> log_ordered (store_step env s c)"
      by (simp add: store_step_replayed store_step_ordered list_all_iff)
  qed (simp add: store_wf_new)
  then show ?thesis ..
qed

text \<open>
  The timeline after a reload is the timeline that streamed live, as the comment of the class
  promises: as long as the recorded events are replayable ones, replaying the log gives exactly
  the rows, and the index, that the live updates have built.
\<close>

theorem timeline_is_replay:
  assumes "list_all (replayable_call env) cs"
  shows "let s = foldl (store_step env) new_activity_store cs in replay_rows (cs_events s) = (cs_activities s, cs_by_id s)"
  using reachable_replayed [OF assms] by (simp add: Let_def replayed_def)

text \<open>A run of the ledger: two deltas of a Codex answer, a command with output, a thread, a message.\<close>

definition demo_env :: activity_env where
  "demo_env = \<lparr>ae_sha1 = (\<lambda>x. x), ae_iso = show_int, ae_parse_date = (\<lambda>_. 0), ae_compare = (\<lambda>_ _. 0)\<rparr>"

definition demo_codex :: "string \<Rightarrow> activity_kind \<Rightarrow> activity_stage \<Rightarrow> string \<Rightarrow> codex_progress" where
  "demo_codex item kind stage x = \<lparr>cp_run_id = lit ''r'', cp_workspace = lit ''w'', cp_thread_id = None, cp_turn_id = lit ''t'',
     cp_item_id = lit item, cp_kind = kind, cp_stage = stage, cp_label = lit ''Label'', cp_text = Some (lit x), cp_command = None,
     cp_cwd = None, cp_function_name = None, cp_parameters = None, cp_output = (if kind = AkCommand then Some (lit x) else None),
     cp_diff = None, cp_file_path = None, cp_additions = None, cp_deletions = None, cp_status = None, cp_exit_code = None,
     cp_duration = None, cp_activity_id = None, cp_position = None, cp_created_at = None\<rparr>"

definition demo_calls :: "unit store_call list" where
  "demo_calls = [CallRecord 1 (Progress (Codex (demo_codex ''i'' AkResponse AsStreaming ''Hel''))),
     CallRecord 2 (Progress (Codex (demo_codex ''i'' AkResponse AsStreaming ''lo''))),
     CallRecord 3 (Progress (Codex (demo_codex ''c'' AkCommand AsStreaming ''ok''))),
     CallAttach (lit ''r'') (lit ''th''), CallFlush]"

theorem timeline_is_replay_witness:
  "list_all (replayable_call demo_env) demo_calls
   \<and> (let s = foldl (store_step demo_env) new_activity_store demo_calls in replay_rows (cs_events s) = (cs_activities s, cs_by_id s))"
proof -
  have ok: "list_all (replayable_call demo_env) demo_calls"
    by (simp add: demo_calls_def demo_codex_def replayable_call_def recorded_parts_def normalize_progress_events_def
        progress_diff_def replayable_def)
  from ok timeline_is_replay [OF ok] show ?thesis by blast
qed

lemma filter_all_kept: "length (filter P xs) = length xs \<Longrightarrow> filter (\<lambda>x. \<not> P x) xs = []"
  by (metis filter_False filter_id_conv length_filter_less less_irrefl)

lemma clear_workspace_filters:
  "filter (\<lambda>e. ce_workspace e = w) (cs_events (ledger_clear_workspace w s)) = []"
  "filter (\<lambda>m. cm_workspace m = w) (cs_messages (ledger_clear_workspace w s)) = []"
  using filter_all_kept [of "\<lambda>e. ce_workspace e \<noteq> w" "cs_events s"] filter_all_kept [of "\<lambda>m. cm_workspace m \<noteq> w" "cs_messages s"]
  by (auto simp: ledger_clear_workspace_def Let_def schedule_flush_def replay_events_def)

lemma sort_filter_Nil: "(\<And>x. x \<in> set xs \<Longrightarrow> \<not> P x) \<Longrightarrow> sort_by le (map f (filter P xs)) = []"
  by (simp add: filter_False)

lemmas sort_filter_Nil' = sort_filter_Nil [where f = "\<lambda>x. x", simplified list.map_ident]

text \<open>
  Clearing the conversations of a workspace leaves nothing of it: no row, no event, no message
  and no conversation id can be listed for it any more.
\<close>

theorem cleared_workspace_is_empty:
  "let s = ledger_clear_workspace w (foldl (store_step env) new_activity_store cs) in
     list_activities s w runId threadId = [] \<and> list_events s (Some w) run thread = []
     \<and> list_messages env s w runId conversation = [] \<and> conversation_id s w runId = None"
proof -
  define s where "s = ledger_clear_workspace w (foldl (store_step env) new_activity_store cs)"
  have "store_wf s"
    using store_step_wf [of _ env "CallClear w"] reachable_wf [of env cs] by (simp add: s_def)
  moreover have gone: "filter (\<lambda>e. ce_workspace e = w) (cs_events s) = []" "filter (\<lambda>m. cm_workspace m = w) (cs_messages s) = []"
    unfolding s_def by (simp_all add: clear_workspace_filters)
  ultimately have sub: "av_workspace ` set (cs_activities s) \<subseteq> ce_workspace ` set (cs_events s)"
    by (simp add: store_wf_def rows_ok_def)
  have rows: "\<forall>a\<in>set (cs_activities s). av_workspace a \<noteq> w"
  proof
    fix a assume "a \<in> set (cs_activities s)"
    with sub obtain e where "e \<in> set (cs_events s)" "av_workspace a = ce_workspace e" by blast
    with gone(1) show "av_workspace a \<noteq> w" by (auto simp: filter_empty_conv)
  qed
  have "list_activities s w runId threadId = []"
    unfolding list_activities_def by_position_def by (rule sort_filter_Nil') (use rows in blast)
  moreover have "list_events s (Some w) run thread = []"
    unfolding list_events_def by (rule sort_filter_Nil') (use gone(1) in \<open>auto simp: filter_empty_conv\<close>)
  moreover have "list_messages env s w runId conversation = []"
    unfolding list_messages_def Let_def message_visible_def
    by (rule sort_filter_Nil) (use gone(2) in \<open>auto simp: filter_empty_conv\<close>)
  moreover have "conversation_id s w runId = None"
    using gone(2) by (auto simp: conversation_id_def filter_empty_conv find_None_iff split: option.split dest!: find_SomeD)
  ultimately show ?thesis by (simp add: Let_def s_def)
qed

section \<open>Streamed answers\<close>

text \<open>
  The progress of the ChatGPT page as an event (\<^verbatim>\<open>publishChatGptTransportProgress\<close> in \<^verbatim>\<open>main.ts\<close>):
  the text is the whole visible answer so far, not a delta.
\<close>

record transport_progress =
  xp_task_id :: jstr
  xp_run_id :: jstr
  xp_workspace :: jstr
  xp_text :: jstr
  xp_generating :: bool
  xp_item_id :: "jstr option"

definition publish_transport_progress :: "transport_progress \<Rightarrow> 'e desktop_event" where
  "publish_transport_progress p = Progress (Chatgpt \<lparr>gp_task_id = xp_task_id p, gp_run_id = xp_run_id p,
     gp_workspace = xp_workspace p, gp_kind = GkResponse, gp_text = xp_text p, gp_generating = Some (xp_generating p),
     gp_stage = Some (if xp_generating p then lit ''streaming'' else lit ''completed''), gp_item_id = truthy_text (xp_item_id p),
     gp_input = None, gp_output = None, gp_duration = None, gp_function_name = None, gp_parameters = None, gp_file_path = None,
     gp_additions = None, gp_deletions = None, gp_activity_id = None, gp_position = None, gp_created_at = None\<rparr>)"

text \<open>Two updates of one answer that is still being generated, as the page reports it.\<close>

definition answer_update :: "jstr \<Rightarrow> jstr \<Rightarrow> jstr \<Rightarrow> jstr \<Rightarrow> transport_progress" where
  "answer_update task run workspace x = \<lparr>xp_task_id = task, xp_run_id = run, xp_workspace = workspace, xp_text = x,
     xp_generating = True, xp_item_id = None\<rparr>"

lemmas ledger_eval = record_event_def normalize_progress_events_def progress_diff_def record_progress_def
  progress_created_at_def progress_position_def activity_id_for_def progress_activity_id_def chatgpt_activity_prefix_def
  text_or_def position_for_def activity_from_event_def activity_of_chatgpt_def compact_activity_def write_activity_def
  log_events_def log_types_def log_event_def compact_event_def upsert_activity_def put_row_def schedule_flush_def
  trim_events_def MAX_EVENTS_def merge_activity_def merge_rows_def merge_stream_def keep_truthy_def spread_def truthy_text_def
  stronger_stage_def chatgpt_stage_def chatgpt_label_def

text \<open>
  The promise fails for streamed ChatGPT answers. Each update carries the whole answer so
  far, and the live row shows the latest; the replay takes the logged texts for deltas and
  shows them one after the other.
\<close>

theorem streamed_answer_replayed_twice:
  assumes "x \<noteq> []" "y \<noteq> []" "length (x @ y) \<le> 160000"
  shows "let s = foldl (store_step env) new_activity_store
      [CallRecord t1 (publish_transport_progress (answer_update task run workspace x)),
       CallRecord t2 (publish_transport_progress (answer_update task run workspace y))]
    in map av_text (cs_activities s) = [Some y] \<and> map av_text (fst (replay_rows (cs_events s))) = [Some (x @ y)]"
proof -
  have short: "bounded x = x" "bounded y = y" "bounded (x @ y) = x @ y"
    using assms(3) by (simp_all add: bounded_def MAX_TEXT_CHARS_def)
  show ?thesis
    using assms short by (simp add: ledger_eval publish_transport_progress_def answer_update_def new_activity_store_def
      replay_rows_def apply_log_event_def activity_from_log_event_def merge_activity_from_log_def Let_def)
qed

theorem streamed_answer_replayed_twice_witness:
  "let s = foldl (store_step \<lparr>ae_sha1 = (\<lambda>x. x), ae_iso = show_int, ae_parse_date = (\<lambda>_. 0), ae_compare = (\<lambda>_ _. 0)\<rparr>) new_activity_store
      [CallRecord 1 (publish_transport_progress (answer_update (lit ''t'') (lit ''r'') (lit ''w'') (lit ''Hel''))),
       CallRecord 2 (publish_transport_progress (answer_update (lit ''t'') (lit ''r'') (lit ''w'') (lit ''Hello'')))]
    in map av_text (cs_activities s) = [Some (lit ''Hello'')] \<and> map av_text (fst (replay_rows (cs_events s))) = [Some (lit ''HelHello'')]"
  using streamed_answer_replayed_twice [of "lit ''Hel''" "lit ''Hello''"] by (simp add: lit_append [symmetric] del: foldl.simps)

section \<open>Splitting a diff\<close>

lemma join_append: "xs \<noteq> [] \<Longrightarrow> ys \<noteq> [] \<Longrightarrow> join d (xs @ ys) = join d xs @ d @ join d ys"
proof (induction d xs rule: join.induct)
  case (2 d p)
  then show ?case by (cases ys) simp_all
qed simp_all

text \<open>The text of the sections found so far and of the current one.\<close>

definition scan_parts :: "diff_scan \<Rightarrow> jstr list" where
  "scan_parts s = map snd (ds_sections s) @ (if ds_current s = [] then [] else [join [10] (ds_current s)])"

lemma scan_parts_flush [simp]: "scan_parts (scan_flush s) = scan_parts s" "ds_current (scan_flush s) = []"
  by (auto simp: scan_flush_def scan_parts_def)

lemma scan_parts_line: "join [10] (scan_parts (scan_line s line)) = join [10] (scan_parts s @ [line])"
proof -
  have add: "join [10] (scan_parts (s\<lparr>ds_current := ds_current s @ [line], ds_old := p, ds_new := q\<rparr>)) = join [10] (scan_parts s @ [line])"
    for s p q
  proof (cases "ds_current s = []")
    case False
    then have "join [10] (ds_current s @ [line]) = join [10] (ds_current s) @ [10] @ line" by (simp add: join_append)
    moreover have "join [10] (xs @ [a @ [10] @ line]) = join [10] (xs @ [a, line])" for xs a
      by (cases "xs = []") (simp_all add: join_append)
    ultimately show ?thesis using False by (simp add: scan_parts_def)
  qed (simp add: scan_parts_def)
  have eq: "scan_line s line = s'\<lparr>ds_current := ds_current s' @ [line],
      ds_old := (if starts_with (lit ''--- '') line then normalize_diff_path (drop 4 line) else ds_old s'),
      ds_new := (if starts_with (lit ''+++ '') line then normalize_diff_path (drop 4 line) else ds_new s')\<rparr>"
    if "s' = (if starts_with (lit ''diff --git '') line \<and> ds_current s \<noteq> [] then scan_flush s else s)" for s'
    unfolding that by (simp add: scan_line_def Let_def)
  show ?thesis unfolding eq [OF refl] add by simp
qed

lemma scan_parts_lines:
  "join [10] (scan_parts (foldl scan_line s lines)) = join [10] (scan_parts s @ lines)"
proof (induction lines arbitrary: s)
  case (Cons line lines)
  have split: "join [10] (xs @ ys) = (if xs = [] then join [10] ys else if ys = [] then join [10] xs else join [10] xs @ [10] @ join [10] ys)" for xs ys
    by (simp add: join_append)
  have ne: "scan_parts (scan_line s line) \<noteq> []" by (simp add: scan_parts_def scan_line_def Let_def)
  show ?case
    using Cons [of "scan_line s line"] scan_parts_line [of s line] ne split [of "scan_parts (scan_line s line)" lines]
      split [of "scan_parts s @ [line]" lines] by simp
qed simp

lemma scan_current: "lines \<noteq> [] \<Longrightarrow> ds_current (foldl scan_line s lines) \<noteq> []"
  by (cases lines rule: rev_cases) (simp_all add: scan_line_def Let_def)

text \<open>
  C40: Splitting a diff by file loses nothing and invents nothing: the parts, joined by line feeds,
  are the diff with its line ends normalised, whatever the diff is.
\<close>

theorem split_unified_diff_roundtrip: "join [10] (map snd (split_unified_diff diff)) = unix_lines diff"
proof -
  let ?z = "\<lparr>ds_sections = [], ds_current = [], ds_old = [], ds_new = []\<rparr>"
  let ?s = "foldl scan_line ?z (split_on 10 (unix_lines diff))"
  have "ds_current ?s \<noteq> []" by (rule scan_current) simp
  then have ne: "ds_sections (scan_flush ?s) \<noteq> []" by (simp add: scan_flush_def)
  have "scan_parts (scan_flush ?s) = map snd (ds_sections (scan_flush ?s))" by (simp add: scan_parts_def)
  then have "join [10] (map snd (ds_sections (scan_flush ?s))) = unix_lines diff"
    using scan_parts_lines [of ?z "split_on 10 (unix_lines diff)"]
    by (simp add: scan_parts_def [of ?z] join_split_on)
  with ne show ?thesis by (simp add: split_unified_diff_def Let_def)
qed

end
