(* ===== verification/Activity_Files.thy ===== *)
theory Activity_Files
  imports Conversation_Activity
begin

text \<open>
  The file of the conversation ledger (\<^verbatim>\<open>conversation-activity-store.ts\<close>): what
  \<^verbatim>\<open>enqueueWrite\<close> writes, what \<^verbatim>\<open>initialize\<close> accepts, the migration of files of the first version,
  and the summaries of conversations. The guards of the code check the mandatory members only;
  a file whose optional members, positions or sequence numbers have another type than declared
  is outside the model, which then gives an error.
\<close>

section \<open>Names\<close>

definition source_name :: "activity_source \<Rightarrow> string" where
  "source_name s = (case s of FromCodex \<Rightarrow> ''codex'' | FromChatgpt \<Rightarrow> ''chatgpt'')"

definition source_names :: "(string \<times> activity_source) list" where
  "source_names = [(''codex'', FromCodex), (''chatgpt'', FromChatgpt)]"

definition kind_names :: "(string \<times> activity_kind) list" where
  "kind_names = [(''response'', AkResponse), (''reasoning'', AkReasoning), (''command'', AkCommand), (''file'', AkFile), (''tool'', AkTool)]"

definition stage_names :: "(string \<times> activity_stage) list" where
  "stage_names = [(''started'', AsStarted), (''streaming'', AsStreaming), (''completed'', AsCompleted), (''failed'', AsFailed)]"

definition activity_stage_name :: "activity_stage \<Rightarrow> string" where
  "activity_stage_name s = (case s of AsStarted \<Rightarrow> ''started'' | AsStreaming \<Rightarrow> ''streaming'' | AsCompleted \<Rightarrow> ''completed'' | AsFailed \<Rightarrow> ''failed'')"

definition log_type_names :: "(string \<times> log_type) list" where
  "log_type_names = map (\<lambda>t. (log_type_name t, t))
     [AssistantTextDelta, ReasoningDelta, ToolCallStarted, ToolCallArgs, ToolCallOutputDelta, ToolCallFinished,
      CommandStarted, CommandOutputDelta, CommandFinished, FileChanged, FileDiff, LogStatus]"

definition author_names :: "(string \<times> message_author) list" where
  "author_names = [(''user'', MessageUser), (''assistant'', MessageAssistant)]"

definition author_name :: "message_author \<Rightarrow> string" where
  "author_name a = (case a of MessageUser \<Rightarrow> ''user'' | MessageAssistant \<Rightarrow> ''assistant'')"

section \<open>Writing\<close>

text \<open>\<^verbatim>\<open>JSON.stringify\<close> leaves out the members that are \<^verbatim>\<open>undefined\<close>.\<close>

definition json_object :: "(string \<times> js) list \<Rightarrow> js" where
  "json_object fs = JObj (map (\<lambda>kv. (lit (fst kv), snd kv)) (filter (\<lambda>kv. snd kv \<noteq> JUndef) fs))"

definition js_text :: "jstr option \<Rightarrow> js" where
  "js_text v = (case v of Some s \<Rightarrow> JStr s | None \<Rightarrow> JUndef)"

definition js_int :: "int option \<Rightarrow> js" where
  "js_int v = (case v of Some i \<Rightarrow> jint i | None \<Rightarrow> JUndef)"

definition event_js :: "chat_event \<Rightarrow> js" where
  "event_js e = json_object
     [(''id'', JStr (ce_id e)), (''messageId'', JStr (ce_message_id e)), (''turnId'', JStr (ce_turn_id e)),
      (''sequence'', jint (ce_sequence e)), (''createdAt'', JStr (ce_created_at e)), (''parentId'', js_text (ce_parent_id e)),
      (''groupId'', js_text (ce_group_id e)), (''activityId'', JStr (ce_activity_id e)),
      (''source'', jtext (source_name (ce_source e))), (''runId'', JStr (ce_run_id e)), (''workspace'', JStr (ce_workspace e)),
      (''threadId'', js_text (ce_thread_id e)), (''itemId'', js_text (ce_item_id e)), (''position'', jint (ce_position e)),
      (''type'', jtext (log_type_name (ce_type e))), (''kind'', JStr (activity_kind_name (ce_kind e))),
      (''stage'', jtext (activity_stage_name (ce_stage e))), (''label'', JStr (ce_label e)), (''text'', js_text (ce_text e)),
      (''toolName'', js_text (ce_tool_name e)), (''functionName'', js_text (ce_function_name e)),
      (''parameters'', js_text (ce_parameters e)), (''command'', js_text (ce_command e)), (''cwd'', js_text (ce_cwd e)),
      (''output'', js_text (ce_output e)), (''result'', js_text (ce_result e)), (''diff'', js_text (ce_diff e)),
      (''filePath'', js_text (ce_file_path e)), (''additions'', js_int (ce_additions e)), (''deletions'', js_int (ce_deletions e)),
      (''status'', js_text (ce_status e)), (''exitCode'', js_int (ce_exit_code e)), (''durationMs'', js_int (ce_duration e))]"

definition ledger_message_js :: "conversation_message \<Rightarrow> js" where
  "ledger_message_js m = json_object
     [(''id'', JStr (cm_id m)), (''role'', jtext (author_name (cm_role m))), (''text'', JStr (cm_text m)),
      (''createdAt'', JStr (cm_created_at m)), (''turnId'', js_text (cm_turn_id m)), (''runId'', JStr (cm_run_id m)),
      (''workspace'', JStr (cm_workspace m)), (''conversationId'', js_text (cm_conversation_id m))]"

definition ledger_snapshot_js :: "store_snapshot \<Rightarrow> js" where
  "ledger_snapshot_js ss = json_object
     [(''version'', jint 2), (''nextPosition'', jint (ss_next_position ss)), (''nextSequence'', jint (ss_next_sequence ss)),
      (''events'', JArr (map event_js (ss_events ss))), (''messages'', JArr (map ledger_message_js (ss_messages ss)))]"

section \<open>Reading\<close>

definition is_js_text :: "js \<Rightarrow> bool" where
  "is_js_text v = str_sat (\<lambda>_. True) v"

definition is_js_number :: "js \<Rightarrow> bool" where
  "is_js_number v = (case v of JNum _ \<Rightarrow> True | _ \<Rightarrow> False)"

text \<open>\<^verbatim>\<open>[...].includes(String(value))\<close>: the text of an array of one element is that of its element.\<close>

fun names_one_of :: "string list \<Rightarrow> js \<Rightarrow> bool" where
  "names_one_of names (JStr s) = (s \<in> set (map lit names))"
| "names_one_of names (JArr [v]) = names_one_of names v"
| "names_one_of names _ = False"

definition is_chat_activity_event :: "js \<Rightarrow> bool" where
  "is_chat_activity_event v \<longleftrightarrow> is_record v
     \<and> list_all (\<lambda>k. is_js_text (jget v k)) [''id'', ''messageId'', ''turnId'', ''createdAt'', ''activityId'', ''runId'', ''workspace'']
     \<and> is_js_number (jget v ''sequence'') \<and> is_js_number (jget v ''position'')
     \<and> str_sat (\<lambda>s. s \<in> set (map (lit \<circ> fst) source_names)) (jget v ''source'')
     \<and> names_one_of (map fst log_type_names) (jget v ''type'') \<and> names_one_of (map fst kind_names) (jget v ''kind'')
     \<and> names_one_of (map fst stage_names) (jget v ''stage'')"

definition is_activity :: "js \<Rightarrow> bool" where
  "is_activity v \<longleftrightarrow> is_record v
     \<and> list_all (\<lambda>k. is_js_text (jget v k)) [''id'', ''runId'', ''workspace'', ''turnId'', ''createdAt'', ''updatedAt'']
     \<and> str_sat (\<lambda>s. s \<in> set (map (lit \<circ> fst) source_names)) (jget v ''source'')
     \<and> is_js_number (jget v ''position'') \<and> names_one_of (map fst kind_names) (jget v ''kind'')
     \<and> names_one_of (map fst stage_names) (jget v ''stage'')"

definition is_persisted_message :: "js \<Rightarrow> bool" where
  "is_persisted_message v \<longleftrightarrow> is_record v
     \<and> list_all (\<lambda>k. is_js_text (jget v k)) [''id'', ''text'', ''createdAt'', ''runId'', ''workspace'']
     \<and> str_sat (\<lambda>s. s \<in> set (map (lit \<circ> fst) author_names)) (jget v ''role'')
     \<and> opt_sat is_js_text (jget v ''conversationId'') \<and> opt_sat is_js_text (jget v ''turnId'')"

text \<open>The members of an object whose guards have passed, when they have the declared types.\<close>

definition text_of :: "js \<Rightarrow> jstr option" where
  "text_of v = (case v of JStr s \<Rightarrow> Some s | _ \<Rightarrow> None)"

definition the_text :: "js \<Rightarrow> jstr" where
  "the_text v = (case text_of v of Some s \<Rightarrow> s | None \<Rightarrow> [])"

definition int_of :: "js \<Rightarrow> int option" where
  "int_of v = (case v of JNum (Fin r) \<Rightarrow> rat_int r | _ \<Rightarrow> None)"

definition the_int :: "js \<Rightarrow> int" where
  "the_int v = (case int_of v of Some i \<Rightarrow> i | None \<Rightarrow> 0)"

definition the_name :: "(string \<times> 'a) list \<Rightarrow> js \<Rightarrow> 'a" where
  "the_name table v = (case named table (the_text v) of Some x \<Rightarrow> x | None \<Rightarrow> snd (hd table))"

definition OPTIONAL_TEXTS :: "string list" where
  "OPTIONAL_TEXTS = [''threadId'', ''itemId'', ''text'', ''functionName'', ''parameters'', ''command'', ''cwd'', ''output'',
     ''diff'', ''filePath'', ''status'']"

definition OPTIONAL_NUMBERS :: "string list" where
  "OPTIONAL_NUMBERS = [''additions'', ''deletions'', ''exitCode'', ''durationMs'']"

text \<open>The declared types of what the guards do not check.\<close>

definition declared_types :: "string list \<Rightarrow> string list \<Rightarrow> js \<Rightarrow> bool" where
  "declared_types texts numbers v \<longleftrightarrow>
     list_all (\<lambda>k. is_js_text (jget v k)) [''label'', ''kind'', ''stage'']
     \<and> list_all (\<lambda>k. int_of (jget v k) \<noteq> None) numbers
     \<and> list_all (\<lambda>k. opt_sat is_js_text (jget v k)) (texts @ OPTIONAL_TEXTS)
     \<and> list_all (\<lambda>k. opt_sat (\<lambda>x. int_of x \<noteq> None) (jget v k)) OPTIONAL_NUMBERS"

definition event_declared :: "js \<Rightarrow> bool" where
  "event_declared v \<longleftrightarrow> is_js_text (jget v ''type'')
     \<and> declared_types [''parentId'', ''groupId'', ''toolName'', ''result''] [''sequence'', ''position''] v"

definition event_of_js :: "js \<Rightarrow> chat_event" where
  "event_of_js v = (let t = (\<lambda>k. the_text (jget v k)); ot = (\<lambda>k. text_of (jget v k)); oi = (\<lambda>k. int_of (jget v k)) in
     \<lparr>ce_id = t ''id'', ce_message_id = t ''messageId'', ce_turn_id = t ''turnId'', ce_sequence = the_int (jget v ''sequence''),
      ce_created_at = t ''createdAt'', ce_parent_id = ot ''parentId'', ce_group_id = ot ''groupId'', ce_activity_id = t ''activityId'',
      ce_source = the_name source_names (jget v ''source''), ce_run_id = t ''runId'', ce_workspace = t ''workspace'',
      ce_thread_id = ot ''threadId'', ce_item_id = ot ''itemId'', ce_position = the_int (jget v ''position''),
      ce_type = the_name log_type_names (jget v ''type''), ce_kind = the_name kind_names (jget v ''kind''),
      ce_stage = the_name stage_names (jget v ''stage''), ce_label = t ''label'', ce_text = ot ''text'',
      ce_tool_name = ot ''toolName'', ce_function_name = ot ''functionName'', ce_parameters = ot ''parameters'',
      ce_command = ot ''command'', ce_cwd = ot ''cwd'', ce_output = ot ''output'', ce_result = ot ''result'', ce_diff = ot ''diff'',
      ce_file_path = ot ''filePath'', ce_additions = oi ''additions'', ce_deletions = oi ''deletions'', ce_status = ot ''status'',
      ce_exit_code = oi ''exitCode'', ce_duration = oi ''durationMs''\<rparr>)"

definition activity_of_js :: "js \<Rightarrow> activity" where
  "activity_of_js v = (let t = (\<lambda>k. the_text (jget v k)); ot = (\<lambda>k. text_of (jget v k)); oi = (\<lambda>k. int_of (jget v k)) in
     \<lparr>av_id = t ''id'', av_source = the_name source_names (jget v ''source''), av_run_id = t ''runId'', av_workspace = t ''workspace'',
      av_thread_id = ot ''threadId'', av_turn_id = t ''turnId'', av_item_id = ot ''itemId'',
      av_kind = the_name kind_names (jget v ''kind''), av_stage = the_name stage_names (jget v ''stage''), av_label = t ''label'',
      av_created_at = t ''createdAt'', av_updated_at = t ''updatedAt'', av_position = the_int (jget v ''position''),
      av_text = ot ''text'', av_command = ot ''command'', av_cwd = ot ''cwd'', av_function_name = ot ''functionName'',
      av_parameters = ot ''parameters'', av_output = ot ''output'', av_diff = ot ''diff'', av_file_path = ot ''filePath'',
      av_additions = oi ''additions'', av_deletions = oi ''deletions'', av_status = ot ''status'', av_exit_code = oi ''exitCode'',
      av_duration = oi ''durationMs''\<rparr>)"

definition message_of_js :: "js \<Rightarrow> conversation_message" where
  "message_of_js v = (let t = (\<lambda>k. the_text (jget v k)) in
     \<lparr>cm_id = t ''id'', cm_role = the_name author_names (jget v ''role''), cm_text = t ''text'', cm_created_at = t ''createdAt'',
      cm_turn_id = text_of (jget v ''turnId''), cm_run_id = t ''runId'', cm_workspace = t ''workspace'',
      cm_conversation_id = text_of (jget v ''conversationId'')\<rparr>)"

definition snapshot_activity_event :: "activity \<Rightarrow> int \<Rightarrow> chat_event" where
  "snapshot_activity_event a sequence =
     (let finished = av_stage a = AsCompleted \<or> av_stage a = AsFailed;
          type = (case av_kind a of
              AkResponse \<Rightarrow> AssistantTextDelta
            | AkReasoning \<Rightarrow> ReasoningDelta
            | AkCommand \<Rightarrow> if finished then CommandFinished else CommandStarted
            | AkFile \<Rightarrow> if truthy_text (av_diff a) \<noteq> None then FileDiff else FileChanged
            | AkTool \<Rightarrow> if finished then ToolCallFinished else ToolCallStarted)
      in (log_event a (av_created_at a) type sequence)\<lparr>ce_result := map_option bounded (truthy_text (av_output a))\<rparr>)"

section \<open>Initialisation\<close>

definition items_of :: "js \<Rightarrow> js list" where
  "items_of v = (case v of JArr xs \<Rightarrow> xs | _ \<Rightarrow> [])"

text \<open>\<^verbatim>\<open>Number.isSafeInteger(stored) ? Math.max(Number(stored), least) : least\<close>\<close>

definition counter_of :: "js \<Rightarrow> int \<Rightarrow> int" where
  "counter_of stored least = (case safe_int stored of Some i \<Rightarrow> max i least | None \<Rightarrow> least)"

definition load_ledger :: "js \<Rightarrow> activity_store \<Rightarrow> unit res \<times> activity_store" where
  "load_ledger v s =
     (let raw = last_n MAX_EVENTS (filter is_chat_activity_event (items_of (jget v ''events''))) in
      if \<not> list_all event_declared raw then (throw ''outside the model'', s)
      else
        let events = map event_of_js raw;
            messages = (if is_array (jget v ''messages'')
              then map message_of_js (last_n MAX_MESSAGES (filter is_persisted_message (items_of (jget v ''messages'')))) else [])
        in (Inr (), replay_events (s\<lparr>cs_events := events, cs_messages := messages,
             cs_next_sequence := counter_of (jget v ''nextSequence'') (max_sequence events + 1),
             cs_next_position := counter_of (jget v ''nextPosition'') (max_event_position events + 1)\<rparr>)))"

definition load_legacy :: "js \<Rightarrow> activity_store \<Rightarrow> unit res \<times> activity_store" where
  "load_legacy v s =
     (let raw = last_n MAX_EVENTS (filter is_activity (items_of (jget v ''activities''))) in
      if \<not> list_all (declared_types [] [''position'']) raw then (throw ''outside the model'', s)
      else
        let rows = map activity_of_js raw
        in (Inr (), s\<lparr>cs_activities := rows, cs_by_id := index_of_rows rows,
             cs_next_position := counter_of (jget v ''nextPosition'') (max_position rows + 1),
             cs_events := map (\<lambda>(i, a). snapshot_activity_event a (cs_next_sequence s + int i)) (enumerate 0 rows),
             cs_next_sequence := cs_next_sequence s + int (length rows)\<rparr>))"

definition ledger_initialize :: "(jstr \<Rightarrow> js option) \<Rightarrow> file_read \<Rightarrow> activity_store \<Rightarrow> unit res \<times> activity_store" where
  "ledger_initialize parse file s =
     (if cs_initialized s then (Inr (), s)
      else let s1 = s\<lparr>cs_initialized := True\<rparr> in
        (case file of
           FileMissing \<Rightarrow> (Inr (), s1)
         | FileError \<Rightarrow> (throw ''read failed'', s1)
         | FileText raw \<Rightarrow>
             (case parse raw of
                None \<Rightarrow> (throw ''SyntaxError'', s1)
              | Some v \<Rightarrow>
                  if is_nullish v then (throw ''TypeError'', s1)
                  else if jget v ''version'' = jint 2 \<and> is_array (jget v ''events'') then load_ledger v s1
                  else if jget v ''version'' = jint 1 \<and> is_array (jget v ''activities'') then load_legacy v s1
                  else (Inr (), s1))))"

section \<open>Summaries\<close>

definition bounded_conversation_text :: "jstr \<Rightarrow> jstr \<Rightarrow> jstr" where
  "bounded_conversation_text value fallback =
     (let compact = trim (collapse_spaces value) in
      if compact = [] then fallback else if length compact \<le> 120 then compact else take 117 compact @ [8230])"

record conversation_summary =
  sy_run_id :: jstr
  sy_conversation_id :: jstr
  sy_workspace :: jstr
  sy_title :: jstr
  sy_preview :: jstr
  sy_created_at :: jstr
  sy_updated_at :: jstr

definition conversation_summary_of :: "activity_env \<Rightarrow> jstr \<Rightarrow> jstr \<Rightarrow> conversation_message list \<Rightarrow> conversation_summary" where
  "conversation_summary_of env workspace conversationId messages =
     (let sorted = sort_by (\<lambda>a b. ae_compare env (cm_created_at a) (cm_created_at b) \<le> 0) messages;
          first = hd sorted; latest = last sorted;
          firstUser = (case find (\<lambda>m. cm_role m = MessageUser) sorted of Some m \<Rightarrow> m | None \<Rightarrow> first);
          latestAssistant = find (\<lambda>m. cm_role m = MessageAssistant) (rev sorted)
      in \<lparr>sy_run_id = cm_run_id latest, sy_conversation_id = conversationId, sy_workspace = workspace,
          sy_title = bounded_conversation_text (cm_text firstUser) (lit ''ChatGPT conversation''),
          sy_preview = bounded_conversation_text (cm_text (case latestAssistant of Some m \<Rightarrow> m | None \<Rightarrow> latest)) (lit ''ChatGPT conversation''),
          sy_created_at = cm_created_at first, sy_updated_at = cm_created_at latest\<rparr>)"

text \<open>The groups are in the order of their first message.\<close>

definition list_conversation_summaries :: "activity_env \<Rightarrow> activity_store \<Rightarrow> jstr \<Rightarrow> conversation_summary list" where
  "list_conversation_summaries env s workspace =
     (let tagged = filter (\<lambda>m. cm_workspace m = workspace \<and> truthy_text (cm_conversation_id m) \<noteq> None) (cs_messages s);
          ids = unique (List.map_filter cm_conversation_id tagged)
      in sort_by (\<lambda>a b. ae_compare env (sy_updated_at b) (sy_updated_at a) \<le> 0)
           (map (\<lambda>c. conversation_summary_of env workspace c (filter (\<lambda>m. cm_conversation_id m = Some c) tagged)) ids))"

section \<open>Reloading the file\<close>

lemma jget_json:
  assumes "distinct (map fst fs)"
  shows "jget (json_object fs) k = (case map_of fs k of Some v \<Rightarrow> v | None \<Rightarrow> JUndef)"
  using assms
proof (induction fs)
  case Nil
  then show ?case by (simp add: json_object_def jget_def)
next
  case (Cons kv fs)
  have "k \<notin> set (map fst fs) \<Longrightarrow> map_of fs k = None" by (simp add: map_of_eq_None_iff)
  then show ?case using Cons by (auto simp: json_object_def jget_def split: if_splits)
qed

lemma named_names [simp]:
  "named source_names (lit (source_name s)) = Some s" "named kind_names (activity_kind_name k) = Some k"
  "named stage_names (lit (activity_stage_name st)) = Some st" "named author_names (lit (author_name a)) = Some a"
  by (cases s; cases k; cases st; cases a; simp add: named_def source_names_def source_name_def kind_names_def
      activity_kind_name_def stage_names_def activity_stage_name_def author_names_def author_name_def)+

lemma named_log_type [simp]: "named log_type_names (lit (log_type_name t)) = Some t"
  by (cases t) (simp_all add: named_def log_type_names_def log_type_name_def)

lemma the_name_js [simp]: "the_name table (JStr x) = (case named table x of Some y \<Rightarrow> y | None \<Rightarrow> snd (hd table))"
  by (simp add: the_name_def the_text_def text_of_def)

lemma js_readers [simp]:
  "text_of (js_text v) = v" "int_of (js_int i) = i" "the_text (JStr s) = s" "the_int (jint n) = n"
  "is_js_text (JStr s)" "opt_sat is_js_text (js_text v)" "opt_sat (\<lambda>x. \<exists>y. int_of x = Some y) (js_int i)"
  "is_js_number (jint n)" "int_of (jint n) = Some n"
  by (cases v; cases i; simp add: text_of_def js_text_def int_of_def js_int_def the_text_def the_int_def is_js_text_def str_sat_def
      opt_sat_def is_js_number_def)+

lemma names_in_tables:
  "lit (source_name s) \<in> set (map (lit \<circ> fst) source_names)" "activity_kind_name k \<in> set (map lit (map fst kind_names))"
  "lit (activity_stage_name st) \<in> set (map lit (map fst stage_names))" "lit (author_name a) \<in> set (map (lit \<circ> fst) author_names)"
  by (cases s; cases k; cases st; cases a; simp add: source_names_def source_name_def kind_names_def
      activity_kind_name_def stage_names_def activity_stage_name_def author_names_def author_name_def)+

lemma log_type_in_table: "lit (log_type_name t) \<in> set (map lit (map fst log_type_names))"
  by (cases t) (simp_all add: log_type_names_def log_type_name_def)

lemma event_members:
  "jget (event_js e) ''id'' = JStr (ce_id e)"
  "jget (event_js e) ''messageId'' = JStr (ce_message_id e)"
  "jget (event_js e) ''turnId'' = JStr (ce_turn_id e)"
  "jget (event_js e) ''sequence'' = jint (ce_sequence e)"
  "jget (event_js e) ''createdAt'' = JStr (ce_created_at e)"
  "jget (event_js e) ''parentId'' = js_text (ce_parent_id e)"
  "jget (event_js e) ''groupId'' = js_text (ce_group_id e)"
  "jget (event_js e) ''activityId'' = JStr (ce_activity_id e)"
  "jget (event_js e) ''source'' = jtext (source_name (ce_source e))"
  "jget (event_js e) ''runId'' = JStr (ce_run_id e)"
  "jget (event_js e) ''workspace'' = JStr (ce_workspace e)"
  "jget (event_js e) ''threadId'' = js_text (ce_thread_id e)"
  "jget (event_js e) ''itemId'' = js_text (ce_item_id e)"
  "jget (event_js e) ''position'' = jint (ce_position e)"
  "jget (event_js e) ''type'' = jtext (log_type_name (ce_type e))"
  "jget (event_js e) ''kind'' = JStr (activity_kind_name (ce_kind e))"
  "jget (event_js e) ''stage'' = jtext (activity_stage_name (ce_stage e))"
  "jget (event_js e) ''label'' = JStr (ce_label e)"
  "jget (event_js e) ''text'' = js_text (ce_text e)"
  "jget (event_js e) ''toolName'' = js_text (ce_tool_name e)"
  "jget (event_js e) ''functionName'' = js_text (ce_function_name e)"
  "jget (event_js e) ''parameters'' = js_text (ce_parameters e)"
  "jget (event_js e) ''command'' = js_text (ce_command e)"
  "jget (event_js e) ''cwd'' = js_text (ce_cwd e)"
  "jget (event_js e) ''output'' = js_text (ce_output e)"
  "jget (event_js e) ''result'' = js_text (ce_result e)"
  "jget (event_js e) ''diff'' = js_text (ce_diff e)"
  "jget (event_js e) ''filePath'' = js_text (ce_file_path e)"
  "jget (event_js e) ''additions'' = js_int (ce_additions e)"
  "jget (event_js e) ''deletions'' = js_int (ce_deletions e)"
  "jget (event_js e) ''status'' = js_text (ce_status e)"
  "jget (event_js e) ''exitCode'' = js_int (ce_exit_code e)"
  "jget (event_js e) ''durationMs'' = js_int (ce_duration e)"
  by (simp_all add: event_js_def jget_json)

lemma message_members:
  "jget (ledger_message_js m) ''id'' = JStr (cm_id m)"
  "jget (ledger_message_js m) ''role'' = jtext (author_name (cm_role m))"
  "jget (ledger_message_js m) ''text'' = JStr (cm_text m)"
  "jget (ledger_message_js m) ''createdAt'' = JStr (cm_created_at m)"
  "jget (ledger_message_js m) ''turnId'' = js_text (cm_turn_id m)"
  "jget (ledger_message_js m) ''runId'' = JStr (cm_run_id m)"
  "jget (ledger_message_js m) ''workspace'' = JStr (cm_workspace m)"
  "jget (ledger_message_js m) ''conversationId'' = js_text (cm_conversation_id m)"
  by (simp_all add: ledger_message_js_def jget_json)

lemma event_roundtrip:
  "event_of_js (event_js e) = e" "is_chat_activity_event (event_js e)" "event_declared (event_js e)"
proof -
  have "is_record (event_js e)" by (simp add: event_js_def json_object_def)
  then show "is_chat_activity_event (event_js e)"
    using names_in_tables(1,2,3) log_type_in_table
    unfolding is_chat_activity_event_def by (simp only: event_members list.pred_inject names_one_of.simps str_sat_def js.case js_readers simp_thms)
  show "event_declared (event_js e)"
    by (simp add: event_declared_def declared_types_def OPTIONAL_TEXTS_def OPTIONAL_NUMBERS_def event_members)
  show "event_of_js (event_js e) = e"
    unfolding event_of_js_def Let_def by (simp add: event_members)
qed

lemma message_roundtrip:
  "message_of_js (ledger_message_js m) = m" "is_persisted_message (ledger_message_js m)"
proof -
  have "is_record (ledger_message_js m)" by (simp add: ledger_message_js_def json_object_def)
  then show "is_persisted_message (ledger_message_js m)"
    using names_in_tables(4) unfolding is_persisted_message_def
    by (simp only: message_members list.pred_inject str_sat_def js.case js_readers simp_thms)
  show "message_of_js (ledger_message_js m) = m"
    unfolding message_of_js_def Let_def by (simp add: message_members)
qed

lemma snapshot_members:
  "jget (ledger_snapshot_js ss) ''version'' = jint 2" "jget (ledger_snapshot_js ss) ''nextPosition'' = jint (ss_next_position ss)"
  "jget (ledger_snapshot_js ss) ''nextSequence'' = jint (ss_next_sequence ss)"
  "jget (ledger_snapshot_js ss) ''events'' = JArr (map event_js (ss_events ss))"
  "jget (ledger_snapshot_js ss) ''messages'' = JArr (map ledger_message_js (ss_messages ss))"
  by (simp_all add: ledger_snapshot_js_def jget_json)

lemma last_n_all: "length xs \<le> n \<Longrightarrow> last_n n xs = xs"
  by (simp add: last_n_def)

lemma max_sequence_bound: "e \<in> set es \<Longrightarrow> ce_sequence e \<le> max_sequence es"
proof -
  have "m \<le> foldl (\<lambda>m e. max m (ce_sequence e)) m es \<and> (e \<in> set es \<longrightarrow> ce_sequence e \<le> foldl (\<lambda>m e. max m (ce_sequence e)) m es)" for m
  proof (induction es arbitrary: m)
    case (Cons x xs)
    from Cons [of "max m (ce_sequence x)"] show ?case by auto
  qed simp
  then show "e \<in> set es \<Longrightarrow> ce_sequence e \<le> max_sequence es" by (simp add: max_sequence_def)
qed

lemma load_snapshot:
  assumes "length (ss_events ss) \<le> MAX_EVENTS" "length (ss_messages ss) \<le> MAX_MESSAGES"
  shows "\<exists>s'. load_ledger (ledger_snapshot_js ss) s = (Inr (), s') \<and> cs_events s' = ss_events ss \<and> cs_messages s' = ss_messages ss
    \<and> (cs_activities s', cs_by_id s') = replay_rows (ss_events ss) \<and> max_sequence (ss_events ss) < cs_next_sequence s'"
proof -
  have "filter is_chat_activity_event (map event_js es) = map event_js es" for es
    by (simp add: filter_map comp_def event_roundtrip)
  moreover have "filter is_persisted_message (map ledger_message_js ms) = map ledger_message_js ms" for ms
    by (simp add: filter_map comp_def message_roundtrip)
  moreover have "list_all event_declared (map event_js es)" for es
    by (simp add: list_all_iff event_roundtrip)
  moreover have "map event_of_js (map event_js es) = es" "map message_of_js (map ledger_message_js ms) = ms" for es ms
    by (simp_all add: comp_def event_roundtrip message_roundtrip)
  moreover have "max_sequence es < counter_of v (max_sequence es + 1)" for es v
    by (auto simp: counter_of_def split: option.split)
  ultimately show ?thesis
    using assms unfolding load_ledger_def Let_def snapshot_members items_of_def
    by (simp add: last_n_all is_array_def replay_events_def del: list.map_comp)
qed

lemma initialize_snapshot:
  "parse raw = Some (ledger_snapshot_js ss) \<Longrightarrow>
   ledger_initialize parse (FileText raw) new_activity_store = load_ledger (ledger_snapshot_js ss) (new_activity_store\<lparr>cs_initialized := True\<rparr>)"
  by (simp add: ledger_initialize_def new_activity_store_def snapshot_members is_array_def Let_def is_nullish_def)
    (simp add: ledger_snapshot_js_def json_object_def)

text \<open>
  C8: A reload loses nothing. Whatever has been recorded, attached and cleared, a store that
  initialises from the file that a flush has written holds the same events and the same
  messages, gives new events numbers beyond all of them, and shows the rows that replaying
  them gives; and when the recorded events are replayable, these are the rows that were live.
\<close>

theorem ledger_reload:
  fixes cs :: "'e store_call list"
  assumes "s = foldl (store_step env) new_activity_store cs" "parse raw = Some (ledger_snapshot_js (last (cs_writes (flush_fires s))))"
  shows "\<exists>s'. ledger_initialize parse (FileText raw) new_activity_store = (Inr (), s')
    \<and> cs_events s' = cs_events s \<and> cs_messages s' = cs_messages s \<and> list_all (\<lambda>e. ce_sequence e < cs_next_sequence s') (cs_events s)
    \<and> (cs_activities s', cs_by_id s') = replay_rows (cs_events s)
    \<and> (list_all (replayable_call env) cs \<longrightarrow> cs_activities s' = cs_activities s \<and> cs_by_id s' = cs_by_id s)"
proof -
  have snap: "last (cs_writes (flush_fires s)) = snapshot_of s"
    by (simp add: flush_fires_def ledger_enqueue_write_def snapshot_of_def)
  have "length (ss_events (snapshot_of s)) \<le> MAX_EVENTS" "length (ss_messages (snapshot_of s)) \<le> MAX_MESSAGES"
    using reachable_wf [of env cs] assms(1) by (simp_all add: store_wf_def snapshot_of_def)
  from load_snapshot [OF this, of "new_activity_store\<lparr>cs_initialized := True\<rparr>"] obtain s' where s':
    "ledger_initialize parse (FileText raw) new_activity_store = (Inr (), s')" "cs_events s' = cs_events s" "cs_messages s' = cs_messages s"
    "(cs_activities s', cs_by_id s') = replay_rows (cs_events s)" "max_sequence (cs_events s) < cs_next_sequence s'"
    using assms(2) by (auto simp: snap initialize_snapshot snapshot_of_def)
  moreover have "list_all (\<lambda>e. ce_sequence e < cs_next_sequence s') (cs_events s)"
    using s'(5) max_sequence_bound by (force simp: list_all_iff)
  moreover have "cs_activities s' = cs_activities s \<and> cs_by_id s' = cs_by_id s" if "list_all (replayable_call env) cs"
    using reachable_replayed [OF that] s'(4) assms(1) unfolding replayed_def by (metis prod.inject)
  ultimately show ?thesis by blast
qed

theorem ledger_reload_witness:
  "\<exists>s'. ledger_initialize (\<lambda>_. Some (ledger_snapshot_js (last (cs_writes (flush_fires (foldl (store_step demo_env) new_activity_store demo_calls))))))
       (FileText []) new_activity_store = (Inr (), s')
     \<and> cs_events s' = cs_events (foldl (store_step demo_env) new_activity_store demo_calls)"
  using ledger_reload [OF refl, of "\<lambda>_. Some (ledger_snapshot_js (last (cs_writes (flush_fires (foldl (store_step demo_env) new_activity_store demo_calls)))))"
      "[]" demo_env demo_calls] by blast

end
