(* ===== verification/Codex_Progress.thy ===== *)
theory Codex_Progress
  imports Utf8_Text Conversation_Activity
begin

text \<open>
  Notifications of the Codex app server as progress events of the desktop
  (\<^verbatim>\<open>codex-ui-progress.ts\<close>): which notifications become an event, with which kind, stage, label
  and bounded texts, and the redaction of tool parameters. \<^verbatim>\<open>JSON.stringify\<close> and the upper case of
  a character are parameters; \<^verbatim>\<open>toLowerCase\<close> is modelled as far as its result is ASCII, which is
  all that the code looks for.
\<close>

section \<open>Data\<close>

record runtime_context =
  rx_run_id :: jstr
  rx_workspace :: jstr
  rx_thread_id :: "jstr option"

datatype server_event =
    AgentMessageDelta jstr jstr jstr
  | AgentMessageCompleted jstr jstr jstr
  | Notification jstr js
  | OtherServerEvent

record progress_env =
  pe_stringify :: "js \<Rightarrow> jstr option"
  pe_upper :: "nat \<Rightarrow> jstr"

definition MAX_FIELD_BYTES :: nat where "MAX_FIELD_BYTES = 64 * 1024"

section \<open>Values and texts\<close>

definition bounded_field :: "jstr \<Rightarrow> jstr" where
  "bounded_field value =
     (let normalized = filter (\<lambda>c. c \<noteq> 0) value in
      if utf8_len normalized \<le> MAX_FIELD_BYTES then normalized
      else strip_replacements (utf8_cut (MAX_FIELD_BYTES - 3) normalized) @ [8230])"

definition nonempty_text :: "js \<Rightarrow> jstr option" where
  "nonempty_text v = (case v of JStr s \<Rightarrow> if s = [] then None else Some s | _ \<Rightarrow> None)"

definition array_items :: "js \<Rightarrow> js list" where
  "array_items v = (case v of JArr xs \<Rightarrow> xs | _ \<Rightarrow> [])"

text \<open>\<^verbatim>\<open>changes.map(record).filter(Boolean)\<close>\<close>

definition record_items :: "js \<Rightarrow> js list" where
  "record_items v = filter is_record (array_items v)"

definition string_items :: "js \<Rightarrow> jstr list" where
  "string_items v = List.map_filter nonempty_text (array_items v)"

definition non_negative_duration :: "js \<Rightarrow> int option" where
  "non_negative_duration v = (case safe_int v of Some i \<Rightarrow> if 0 \<le> i then Some i else None | None \<Rightarrow> None)"

text \<open>\<^verbatim>\<open>/\bword\b/.test(s)\<close>, where \<open>inside\<close> tells whether the character before \<open>s\<close> is a word character.\<close>

fun has_word_at :: "bool \<Rightarrow> jstr \<Rightarrow> jstr \<Rightarrow> bool" where
  "has_word_at inside w [] = False"
| "has_word_at inside w (c # cs) =
     ((\<not> inside \<and> starts_with w (c # cs) \<and> (case drop (length w) (c # cs) of [] \<Rightarrow> True | d # _ \<Rightarrow> \<not> is_word_char d))
      \<or> has_word_at (is_word_char c) w cs)"

definition has_word :: "string list \<Rightarrow> jstr \<Rightarrow> bool" where
  "has_word words s = list_ex (\<lambda>w. has_word_at False (lit w) s) words"

text \<open>\<^verbatim>\<open>/^word\s+/m.test(s)\<close>: some line starts with the word and white space.\<close>

definition word_then_space :: "string \<Rightarrow> jstr \<Rightarrow> bool" where
  "word_then_space w s = (starts_with (lit w) s \<and> (case drop (length w) s of c # _ \<Rightarrow> is_space c | [] \<Rightarrow> False))"

fun some_line :: "(jstr \<Rightarrow> bool) \<Rightarrow> jstr \<Rightarrow> bool" where
  "some_line P [] = False"
| "some_line P (c # cs) = (is_line_end c \<and> P cs \<or> some_line P cs)"

definition line_starting :: "string \<Rightarrow> jstr \<Rightarrow> bool" where
  "line_starting w s = (word_then_space w s \<or> some_line (word_then_space w) s)"

section \<open>Redaction\<close>

definition is_sensitive_parameter_key :: "jstr \<Rightarrow> bool" where
  "is_sensitive_parameter_key value =
     (let key = filter (\<lambda>c. is_lower c \<or> is_digit c) (lower_text value) in
      key = lit ''authorization'' \<or> key = lit ''password'' \<or> key = lit ''secret''
      \<or> ends_with (lit ''token'') key \<or> ends_with (lit ''apikey'') key \<or> ends_with (lit ''secret'') key)"

definition REDACTED :: js where "REDACTED = jtext ''[REDACTED]''"

text \<open>An assignment to \<^verbatim>\<open>__proto__\<close> of an object literal makes no member.\<close>

fun redact_sensitive_tool_value :: "js \<Rightarrow> js" where
  "redact_sensitive_tool_value (JArr xs) = JArr (map redact_sensitive_tool_value xs)"
| "redact_sensitive_tool_value (JObj kvs) =
     JObj (map (\<lambda>(k, v). (k, if is_sensitive_parameter_key k then REDACTED else redact_sensitive_tool_value v))
       (filter (\<lambda>(k, v). k \<noteq> lit ''__proto__'') kvs))"
| "redact_sensitive_tool_value v = v"

definition safe_tool_parameters :: "progress_env \<Rightarrow> js \<Rightarrow> jstr option" where
  "safe_tool_parameters env v = (if is_nullish v then None else pe_stringify env (redact_sensitive_tool_value v))"

section \<open>Labels\<close>

definition truncate_label :: "jstr \<Rightarrow> jstr" where
  "truncate_label value =
     (let normalized = trim (collapse_spaces value) in
      if length normalized \<le> 58 then normalized else take 55 normalized @ [8230])"

definition file_change_label :: "js list \<Rightarrow> jstr" where
  "file_change_label changes =
     (case List.map_filter (\<lambda>c. nonempty_text (jget c ''path'')) (filter is_record changes) of
        [] \<Rightarrow> lit ''Edited file''
      | [p] \<Rightarrow> lit ''Edited '' @ basename p
      | ps \<Rightarrow> lit ''Edited '' @ show_nat (length ps) @ lit '' files'')"

definition ensure_diff_file_headers :: "jstr \<Rightarrow> jstr \<Rightarrow> jstr" where
  "ensure_diff_file_headers p diff =
     (if line_starting ''diff --git'' diff then diff
      else
        let normalized = dropWhile (\<lambda>c. c = 47) (if starts_with (lit ''./'') p then drop 2 p else p);
            body = (if line_starting ''---'' diff \<or> line_starting ''+++'' diff then diff
              else lit ''--- '' @ p @ [10] @ lit ''+++ '' @ p @ [10] @ diff)
        in lit ''diff --git a/'' @ normalized @ lit '' b/'' @ normalized @ [10] @ body)"

definition change_diff :: "js \<Rightarrow> jstr option" where
  "change_diff c = (case nonempty_text (jget c ''diff'') of
      None \<Rightarrow> None
    | Some d \<Rightarrow> Some (case nonempty_text (jget c ''path'') of Some p \<Rightarrow> ensure_diff_file_headers p d | None \<Rightarrow> d))"

definition file_changes_diff :: "js list \<Rightarrow> jstr" where
  "file_changes_diff changes = bounded_field (join [10, 10] (List.map_filter change_diff (filter is_record changes)))"

fun action_label :: "js list \<Rightarrow> jstr option" where
  "action_label [] = None"
| "action_label (a # as) =
     (case nonempty_text (jget a ''type'') of
        Some t \<Rightarrow>
          if t = lit ''read'' then Some (case spread (nonempty_text (jget a ''name'')) (nonempty_text (jget a ''path'')) of
             Some p \<Rightarrow> lit ''Read '' @ basename p | None \<Rightarrow> lit ''Read file'')
          else if t = lit ''search'' then Some (case nonempty_text (jget a ''query'') of
             Some q \<Rightarrow> lit ''Searched '' @ truncate_label q | None \<Rightarrow> lit ''Searched workspace'')
          else if t = lit ''listFiles'' then Some (case nonempty_text (jget a ''path'') of
             Some p \<Rightarrow> lit ''Listed '' @ basename p | None \<Rightarrow> lit ''Listed files'')
          else action_label as
      | None \<Rightarrow> action_label as)"

text \<open>White space in the command is already single spaces when the patterns are tried.\<close>

definition command_execution_label :: "js \<Rightarrow> jstr" where
  "command_execution_label item =
     (case action_label (record_items (jget item ''commandActions'')) of
        Some l \<Rightarrow> l
      | None \<Rightarrow>
          let command = (case nonempty_text (jget item ''command'') of Some c \<Rightarrow> trim (collapse_spaces c) | None \<Rightarrow> []);
              lowered = lower_text command
          in lit (if has_word [''pytest'', ''jest'', ''vitest'', ''cargo test'', ''go test'', ''pnpm test'', ''npm test'', ''yarn test''] lowered
                  then ''Ran tests''
                  else if has_word [''tsc'', ''typecheck''] lowered then ''Ran typecheck''
                  else if has_word [''eslint'', ''ruff'', ''clippy'', ''lint''] lowered then ''Ran lint''
                  else if has_word [''git diff'', ''git status''] lowered then ''Checked git changes''
                  else ''Ran command''))"

definition tool_label :: "progress_env \<Rightarrow> jstr \<Rightarrow> jstr option \<Rightarrow> jstr" where
  "tool_label env tool server =
     (let lowered = lower_text tool; has = (\<lambda>w. str_includes (lit w) lowered) in
      if has ''read_file'' \<or> has ''file_fetch'' then lit ''Read file''
      else if has ''write'' \<or> has ''patch'' \<or> has ''file_put'' then lit ''Edited file''
      else if has ''workspace_exec'' \<or> has ''command'' then lit ''Ran command''
      else if has ''git_diff'' \<or> has ''git_review'' then lit ''Reviewed changes''
      else
        let name = trim (map (\<lambda>c. if c = 95 \<or> c = 45 then 32 else c) tool);
            label = (case name of [] \<Rightarrow> lit ''Tool call'' | c # cs \<Rightarrow> pe_upper env c @ cs)
        in (case server of Some s \<Rightarrow> label @ [32, 183, 32] @ s | None \<Rightarrow> label))"

section \<open>Tool results\<close>

definition mcp_result_text :: "progress_env \<Rightarrow> js \<Rightarrow> jstr option" where
  "mcp_result_text env v =
     (if \<not> is_record v then None
      else
        let parts = List.map_filter (\<lambda>item. if is_record item \<and> jget item ''type'' = jtext ''text'' then nonempty_text (jget item ''text'') else None)
              (array_items (jget v ''content''))
        in if parts \<noteq> [] then Some (join [10] parts)
           else if is_nullish (jget v ''structuredContent'') then None
           else pe_stringify env (jget v ''structuredContent''))"

definition dynamic_result_text :: "progress_env \<Rightarrow> js \<Rightarrow> jstr option" where
  "dynamic_result_text env v =
     (let items = array_items v;
          candidate = (\<lambda>item. spread (spread (nonempty_text (jget item ''content'')) (nonempty_text (jget item ''output''))) (nonempty_text (jget item ''text'')));
          parts = List.map_filter candidate (filter is_record items)
      in if items = [] then None
         else if parts \<noteq> [] then Some (join [10] parts) else pe_stringify env (JArr items))"

section \<open>Events\<close>

text \<open>The run, workspace, thread, turn and item of an event, with its kind, stage and label.\<close>

definition progress_base :: "runtime_context \<Rightarrow> jstr \<Rightarrow> jstr \<Rightarrow> activity_kind \<Rightarrow> activity_stage \<Rightarrow> jstr \<Rightarrow> codex_progress" where
  "progress_base ctx turnId itemId kind stage label =
     \<lparr>cp_run_id = rx_run_id ctx, cp_workspace = rx_workspace ctx,
      cp_thread_id = map_option bounded_field (truthy_text (rx_thread_id ctx)), cp_turn_id = turnId, cp_item_id = itemId,
      cp_kind = kind, cp_stage = stage, cp_label = label, cp_text = None, cp_command = None, cp_cwd = None,
      cp_function_name = None, cp_parameters = None, cp_output = None, cp_diff = None, cp_file_path = None,
      cp_additions = None, cp_deletions = None, cp_status = None, cp_exit_code = None, cp_duration = None,
      cp_activity_id = None, cp_position = None, cp_created_at = None\<rparr>"

definition item_scope :: "js \<Rightarrow> js option \<Rightarrow> (jstr \<times> jstr) option" where
  "item_scope params item =
     (case (nonempty_text (jget params ''turnId''),
            spread (case item of Some i \<Rightarrow> nonempty_text (jget i ''id'') | None \<Rightarrow> None) (nonempty_text (jget params ''itemId''))) of
        (Some t, Some i) \<Rightarrow> Some (bounded_field t, bounded_field i)
      | _ \<Rightarrow> None)"

text \<open>A streamed delta as an event; \<open>put\<close> stores it as the text or as the output.\<close>

definition delta_event ::
    "runtime_context \<Rightarrow> js \<Rightarrow> activity_kind \<Rightarrow> string \<Rightarrow> (jstr \<Rightarrow> codex_progress \<Rightarrow> codex_progress) \<Rightarrow> codex_progress option" where
  "delta_event ctx params kind label put =
     (case (item_scope params None, nonempty_text (jget params ''delta'')) of
        (Some (t, i), Some d) \<Rightarrow> Some (put (bounded_field d) (progress_base ctx t i kind AsStreaming (lit label)))
      | _ \<Rightarrow> None)"

definition put_text :: "jstr \<Rightarrow> codex_progress \<Rightarrow> codex_progress" where
  "put_text x e = e\<lparr>cp_text := Some x\<rparr>"

definition put_output :: "jstr \<Rightarrow> codex_progress \<Rightarrow> codex_progress" where
  "put_output x e = e\<lparr>cp_output := Some x\<rparr>"

definition plan_step :: "js \<Rightarrow> jstr option" where
  "plan_step step = (case nonempty_text (jget step ''step'') of
      None \<Rightarrow> None
    | Some value \<Rightarrow> Some ((if nonempty_text (jget step ''status'') = Some (lit ''completed'') then [10003, 32]
        else if nonempty_text (jget step ''status'') = Some (lit ''inProgress'') then [8594, 32] else []) @ value))"

definition plan_event :: "runtime_context \<Rightarrow> js \<Rightarrow> codex_progress option" where
  "plan_event ctx params =
     (case nonempty_text (jget params ''turnId'') of
        None \<Rightarrow> None
      | Some turnId \<Rightarrow>
          let steps = List.map_filter plan_step (record_items (jget params ''plan''));
              body = join [10] ((case nonempty_text (jget params ''explanation'') of Some x \<Rightarrow> [x] | None \<Rightarrow> []) @ steps)
          in if body = [] then None
             else Some (put_text (bounded_field body) (progress_base ctx (bounded_field turnId) (lit ''turn-plan'') AkReasoning AsCompleted (lit ''Planning''))))"

definition patch_event :: "runtime_context \<Rightarrow> js \<Rightarrow> codex_progress option" where
  "patch_event ctx params =
     (case item_scope params None of
        None \<Rightarrow> None
      | Some (t, i) \<Rightarrow>
          let changes = array_items (jget params ''changes''); diff = file_changes_diff changes
          in Some ((progress_base ctx t i AkFile AsStreaming (file_change_label changes))\<lparr>cp_diff := (if diff = [] then None else Some diff)\<rparr>))"

text \<open>The status of an item, and its stage by whether it is the completed one and has failed.\<close>

definition item_status :: "bool \<Rightarrow> js \<Rightarrow> jstr" where
  "item_status completed item =
     (case nonempty_text (jget item ''status'') of Some s \<Rightarrow> s | None \<Rightarrow> lit (if completed then ''completed'' else ''inProgress''))"

definition item_stage :: "bool \<Rightarrow> bool \<Rightarrow> activity_stage" where
  "item_stage completed failed = (if completed then (if failed then AsFailed else AsCompleted) else AsStarted)"

definition reasoning_item :: "runtime_context \<Rightarrow> jstr \<times> jstr \<Rightarrow> bool \<Rightarrow> string \<Rightarrow> jstr \<Rightarrow> codex_progress option" where
  "reasoning_item ctx scope completed label body =
     (if body = [] then None
      else Some (put_text (bounded_field body) (progress_base ctx (fst scope) (snd scope) AkReasoning (item_stage completed False) (lit label))))"

definition command_item :: "runtime_context \<Rightarrow> jstr \<times> jstr \<Rightarrow> bool \<Rightarrow> js \<Rightarrow> codex_progress" where
  "command_item ctx scope completed item =
     (let status = item_status completed item;
          failed = (status = lit ''failed'' \<or> status = lit ''declined'') in
      (progress_base ctx (fst scope) (snd scope) AkCommand (item_stage completed failed) (command_execution_label item))\<lparr>
        cp_command := map_option bounded_field (nonempty_text (jget item ''command'')),
        cp_cwd := map_option bounded_field (nonempty_text (jget item ''cwd'')),
        cp_output := map_option bounded_field (nonempty_text (jget item ''aggregatedOutput'')),
        cp_status := Some (bounded_field status),
        cp_exit_code := safe_int (jget item ''exitCode''),
        cp_duration := non_negative_duration (jget item ''durationMs'')\<rparr>)"

definition file_item :: "runtime_context \<Rightarrow> jstr \<times> jstr \<Rightarrow> bool \<Rightarrow> js \<Rightarrow> codex_progress" where
  "file_item ctx scope completed item =
     (let changes = array_items (jget item ''changes''); status = item_status completed item;
          failed = list_ex (\<lambda>w. mentions w status) [''fail'', ''declin'', ''reject''];
          diff = file_changes_diff changes in
      (progress_base ctx (fst scope) (snd scope) AkFile (item_stage completed failed) (file_change_label changes))\<lparr>
        cp_diff := (if diff = [] then None else Some diff), cp_status := Some (bounded_field status)\<rparr>)"

definition tool_item :: "progress_env \<Rightarrow> runtime_context \<Rightarrow> jstr \<times> jstr \<Rightarrow> bool \<Rightarrow> bool \<Rightarrow> js \<Rightarrow> codex_progress" where
  "tool_item env ctx scope completed mcp item =
     (let tool = (case nonempty_text (jget item ''tool'') of Some t \<Rightarrow> t | None \<Rightarrow> lit ''Tool call'');
          server = nonempty_text (jget item ''server'');
          functionName = join [46] ((case spread (nonempty_text (jget item ''namespace'')) server of Some s \<Rightarrow> [s] | None \<Rightarrow> []) @ [tool]);
          parameters = truthy_text (safe_tool_parameters env (jget item ''arguments''));
          status = item_status completed item;
          errorText = (if is_record (jget item ''error'') then nonempty_text (jget (jget item ''error'') ''message'') else None);
          resultText = (if mcp then mcp_result_text env (jget item ''result'') else dynamic_result_text env (jget item ''contentItems''));
          failed = (errorText \<noteq> None \<or> list_ex (\<lambda>w. mentions w status) [''fail'', ''error'', ''declin'', ''reject'']) in
      (progress_base ctx (fst scope) (snd scope) AkTool (item_stage completed failed) (tool_label env tool server))\<lparr>
        cp_function_name := Some (bounded_field functionName), cp_parameters := map_option bounded_field parameters,
        cp_output := map_option bounded_field (if truthy_text resultText \<noteq> None \<or> errorText \<noteq> None then spread resultText errorText else None),
        cp_status := Some (bounded_field status), cp_duration := non_negative_duration (jget item ''durationMs'')\<rparr>)"

definition item_event :: "progress_env \<Rightarrow> runtime_context \<Rightarrow> js \<Rightarrow> bool \<Rightarrow> codex_progress option" where
  "item_event env ctx params completed =
     (let item = jget params ''item''; type = jget item ''type'' in
      if \<not> is_record item then None
      else case item_scope params (Some item) of
        None \<Rightarrow> None
      | Some scope \<Rightarrow>
          if type = jtext ''reasoning'' then reasoning_item ctx scope completed ''Reasoning'' (trim (join [10] (string_items (jget item ''summary''))))
          else if type = jtext ''plan'' then
            reasoning_item ctx scope completed ''Planning'' (case nonempty_text (jget item ''text'') of Some x \<Rightarrow> x | None \<Rightarrow> [])
          else if type = jtext ''commandExecution'' then Some (command_item ctx scope completed item)
          else if type = jtext ''fileChange'' then Some (file_item ctx scope completed item)
          else if type = jtext ''mcpToolCall'' \<or> type = jtext ''dynamicToolCall''
          then Some (tool_item env ctx scope completed (type = jtext ''mcpToolCall'') item)
          else None)"

definition notification_event :: "progress_env \<Rightarrow> runtime_context \<Rightarrow> jstr \<Rightarrow> js \<Rightarrow> codex_progress option" where
  "notification_event env ctx name params =
     (if \<not> is_record params then None
      else if name = lit ''item/reasoning/summaryTextDelta'' then delta_event ctx params AkReasoning ''Reasoning'' put_text
      else if name = lit ''item/plan/delta'' then delta_event ctx params AkReasoning ''Planning'' put_text
      else if name = lit ''turn/plan/updated'' then plan_event ctx params
      else if name = lit ''item/commandExecution/outputDelta'' then delta_event ctx params AkCommand ''Ran command'' put_output
      else if name = lit ''item/fileChange/outputDelta'' then delta_event ctx params AkFile ''Edited file'' put_output
      else if name = lit ''item/fileChange/patchUpdated'' then patch_event ctx params
      else if name = lit ''item/started'' then item_event env ctx params False
      else if name = lit ''item/completed'' then item_event env ctx params True
      else None)"

definition codex_ui_progress :: "progress_env \<Rightarrow> runtime_context \<Rightarrow> server_event \<Rightarrow> codex_progress option" where
  "codex_ui_progress env ctx event = (case event of
      AgentMessageDelta turnId itemId delta \<Rightarrow>
        if delta = [] then None
        else Some (put_text (bounded_field delta) (progress_base ctx (bounded_field turnId) (bounded_field itemId) AkResponse AsStreaming (lit ''Response'')))
    | AgentMessageCompleted turnId itemId message \<Rightarrow>
        if message = [] then None
        else Some (put_text (bounded_field message) (progress_base ctx (bounded_field turnId) (bounded_field itemId) AkResponse AsCompleted (lit ''Response'')))
    | Notification name params \<Rightarrow> notification_event env ctx name params
    | OtherServerEvent \<Rightarrow> None)"

section \<open>Properties\<close>

text \<open>No member of the value, at any depth, has a sensitive name and another value than the mark.\<close>

fun no_secret :: "js \<Rightarrow> bool" where
  "no_secret (JArr xs) \<longleftrightarrow> (\<forall>v\<in>set xs. no_secret v)"
| "no_secret (JObj kvs) \<longleftrightarrow> (\<forall>kv\<in>set kvs. if is_sensitive_parameter_key (fst kv) then snd kv = REDACTED else no_secret (snd kv))"
| "no_secret _ \<longleftrightarrow> True"

lemma redact_no_secret: "no_secret (redact_sensitive_tool_value v)"
  by (induction v rule: redact_sensitive_tool_value.induct) (auto simp: REDACTED_def)

lemma redact_idem: "redact_sensitive_tool_value (redact_sensitive_tool_value v) = redact_sensitive_tool_value v"
  by (induction v rule: redact_sensitive_tool_value.induct) (auto simp: REDACTED_def)

lemma bounded_field_fits: "utf8_len (bounded_field s) \<le> MAX_FIELD_BYTES"
  using utf8_len_snoc_le [of "strip_replacements (utf8_cut (MAX_FIELD_BYTES - 3) (filter (\<lambda>c. c \<noteq> 0) s))" 8230]
    strip_cut_fits [of "MAX_FIELD_BYTES - 3" "filter (\<lambda>c. c \<noteq> 0) s"]
  by (auto simp: bounded_field_def Let_def MAX_FIELD_BYTES_def)

definition fits :: "jstr option \<Rightarrow> bool" where
  "fits v \<longleftrightarrow> (case v of Some s \<Rightarrow> utf8_len s \<le> MAX_FIELD_BYTES | None \<Rightarrow> True)"

lemma fits_simps [simp]: "fits None" "fits (Some (bounded_field s))" "fits (map_option bounded_field v)"
  by (cases v; simp add: fits_def bounded_field_fits)+

lemma fits_is: "fits = (\<lambda>v. case v of Some s \<Rightarrow> utf8_len s \<le> 65536 | None \<Rightarrow> True)"
  by (rule ext) (simp add: fits_def MAX_FIELD_BYTES_def split: option.split)

text \<open>Where the texts of an event come from: they are bounded, and the parameters are redacted.\<close>

definition event_ok :: "progress_env \<Rightarrow> codex_progress \<Rightarrow> bool" where
  "event_ok env p \<longleftrightarrow> list_all fits [cp_thread_id p, Some (cp_turn_id p), Some (cp_item_id p), cp_text p, cp_command p, cp_cwd p,
       cp_function_name p, cp_parameters p, cp_output p, cp_diff p, cp_status p]
     \<and> (cp_parameters p = None \<or> (\<exists>v x. no_secret v \<and> pe_stringify env v = Some x \<and> cp_parameters p = Some (bounded_field x)))
     \<and> (cp_output p \<noteq> None \<longrightarrow> cp_kind p = AkCommand \<or> cp_kind p = AkFile \<or> cp_kind p = AkTool)"

lemma base_ok: "fits (Some t) \<Longrightarrow> fits (Some i) \<Longrightarrow> event_ok env (progress_base ctx t i kind stage label)"
  by (simp add: event_ok_def progress_base_def)

lemma item_scope_fits: "item_scope params item = Some (t, i) \<Longrightarrow> fits (Some t) \<and> fits (Some i)"
  by (auto simp: item_scope_def split: option.splits)

lemma plan_id_fits: "fits (Some (lit ''turn-plan''))"
  by (simp add: fits_def lit_def MAX_FIELD_BYTES_def unit_bytes_def is_high_def between_def)

lemma diff_fits: "fits (Some (file_changes_diff changes))"
  by (simp add: file_changes_diff_def)

lemma safe_parameters_ok:
  assumes "truthy_text (safe_tool_parameters env v) = Some s"
  shows "\<exists>w x. no_secret w \<and> pe_stringify env w = Some x \<and> bounded_field s = bounded_field x"
proof -
  have "pe_stringify env (redact_sensitive_tool_value v) = Some s"
    using assms by (auto simp: safe_tool_parameters_def truthy_text_def split: if_splits)
  with redact_no_secret show ?thesis by blast
qed

lemma delta_event_ok:
  "delta_event ctx params kind label put_text = Some p \<Longrightarrow> event_ok env p"
  "delta_event ctx params AkCommand label put_output = Some p \<Longrightarrow> event_ok env p"
  "delta_event ctx params AkFile label put_output = Some p \<Longrightarrow> event_ok env p"
  by (auto simp: delta_event_def event_ok_def progress_base_def put_text_def put_output_def split: option.splits dest!: item_scope_fits)

lemma item_event_ok:
  assumes "fits (Some (fst scope))" "fits (Some (snd scope))"
  shows "reasoning_item ctx scope completed label body = Some p \<Longrightarrow> event_ok env p"
    "event_ok env (command_item ctx scope completed item)" "event_ok env (file_item ctx scope completed item)"
    "event_ok env (tool_item env ctx scope completed mcp item)"
proof -
  show "reasoning_item ctx scope completed label body = Some p \<Longrightarrow> event_ok env p"
    using assms by (auto simp: reasoning_item_def event_ok_def progress_base_def put_text_def split: if_splits)
  show "event_ok env (command_item ctx scope completed item)"
    using assms by (simp add: command_item_def Let_def event_ok_def progress_base_def)
  show "event_ok env (file_item ctx scope completed item)"
    using assms by (simp add: file_item_def Let_def event_ok_def progress_base_def diff_fits)
  show "event_ok env (tool_item env ctx scope completed mcp item)"
    using assms safe_parameters_ok [of env "jget item ''arguments''"]
    by (cases "truthy_text (safe_tool_parameters env (jget item ''arguments''))")
      (auto simp: tool_item_def Let_def event_ok_def progress_base_def)
qed

lemma reasoning_pair_ok:
  "reasoning_item ctx (t, i) completed label body = Some p \<Longrightarrow> fits (Some t) \<Longrightarrow> fits (Some i) \<Longrightarrow> event_ok env p"
  using item_event_ok(1) [of "(t, i)" ctx completed label body p env] by simp

lemma ifE_Some:
  assumes "(if c then x else y) = Some p" obtains (yes) "c" "x = Some p" | (no) "\<not> c" "y = Some p"
  using assms by (auto split: if_splits)

lemma notification_event_ok:
  assumes "notification_event env ctx name params = Some p" shows "event_ok env p"
proof -
  have item: "event_ok env p" if "item_event env ctx params completed = Some p" for completed
    using that by (auto simp: item_event_def Let_def split: if_splits option.splits dest!: item_scope_fits
        intro: item_event_ok reasoning_pair_ok)
  have plan: "event_ok env p" if "plan_event ctx params = Some p"
    using that plan_id_fits by (auto simp: plan_event_def Let_def event_ok_def progress_base_def put_text_def split: option.splits if_splits)
  have patch: "event_ok env p" if "patch_event ctx params = Some p"
    using that by (auto simp: patch_event_def Let_def event_ok_def progress_base_def diff_fits split: option.splits dest!: item_scope_fits)
  from assms show ?thesis unfolding notification_event_def
    by (elim ifE_Some) (auto intro: item plan patch delta_event_ok)
qed

lemma codex_event_ok:
  assumes "codex_ui_progress env ctx event = Some p" shows "event_ok env p"
proof (cases event)
  case (Notification name params)
  with assms show ?thesis by (simp add: codex_ui_progress_def notification_event_ok)
qed (use assms in \<open>auto simp: codex_ui_progress_def put_text_def event_ok_def progress_base_def split: if_splits\<close>)



section \<open>Codex events in the ledger\<close>

text \<open>The calls of the ledger that a list of app server events causes, each with its clock.\<close>

definition ledger_calls :: "progress_env \<Rightarrow> runtime_context \<Rightarrow> (int \<times> server_event) list \<Rightarrow> unit store_call list" where
  "ledger_calls env ctx events =
     List.map_filter (\<lambda>(clock, e). map_option (\<lambda>p. CallRecord clock (Progress (Codex p))) (codex_ui_progress env ctx e)) events"

text \<open>An event with a usable item id that is not streamed output of a file change.\<close>

definition steady :: "progress_env \<Rightarrow> runtime_context \<Rightarrow> server_event \<Rightarrow> bool" where
  "steady env ctx e = (case codex_ui_progress env ctx e of
      None \<Rightarrow> True
    | Some p \<Rightarrow> cp_item_id p \<noteq> [] \<and> (cp_kind p = AkFile \<longrightarrow> cp_output p = None))"

lemma normalized_replayable:
  assumes "cp_item_id p \<noteq> []" "cp_output p \<noteq> None \<longrightarrow> cp_kind p = AkCommand \<or> cp_kind p = AkTool"
    and "q \<in> set (normalize_progress_events lenv (Codex p))"
  shows "replayable q"
proof -
  have out: "cp_output p = None \<or> cp_kind p = AkCommand \<or> cp_kind p = AkTool" using assms(2) by blast
  have "replayable (Codex p)" using assms(1) out by (auto simp: replayable_def)
  moreover have "replayable (Codex (codex_section p s))" for s
    using assms(1) out by (auto simp: replayable_def codex_section_def)
  moreover have "replayable (normalize_section lenv (Codex p) i s)" for i s
    using assms(1) out by (auto simp: replayable_def codex_section_def normalize_section_def Let_def)
  ultimately show ?thesis
    using assms(3) by (auto simp: normalize_progress_events_def split: if_splits list.splits)
qed

text \<open>
  C9: The timeline of Codex survives a reload: whatever the app server sends, in whatever order, as
  long as items have usable ids and no output of file changes is streamed, replaying the log
  of the ledger gives the rows that the events have built.
\<close>

theorem codex_timeline_survives_reload:
  assumes "list_all (\<lambda>(clock, e). steady env ctx e) events"
  shows "let s = foldl (store_step lenv) new_activity_store (ledger_calls env ctx events)
    in replay_rows (cs_events s) = (cs_activities s, cs_by_id s)"
proof -
  have "replayable_call lenv c" if "c \<in> set (ledger_calls env ctx events)" for c
  proof -
    from that obtain clock e p where e: "(clock, e) \<in> set events" and p: "codex_ui_progress env ctx e = Some p"
      and c: "c = CallRecord clock (Progress (Codex p))"
      by (auto simp: ledger_calls_def List.map_filter_def)
    from assms e p have "cp_item_id p \<noteq> []" "cp_kind p = AkFile \<longrightarrow> cp_output p = None"
      by (auto simp: list_all_iff steady_def)
    with codex_event_ok [OF p] have "\<forall>q\<in>set (normalize_progress_events lenv (Codex p)). replayable q"
      by (intro ballI normalized_replayable [of p]) (auto simp: event_ok_def)
    with c show ?thesis by (simp add: replayable_call_def recorded_parts_def list_all_iff)
  qed
  then have "replayed (foldl (store_step lenv) new_activity_store (ledger_calls env ctx events))"
    by (intro reachable_replayed) (simp add: list_all_iff)
  then show ?thesis by (simp add: Let_def replayed_def)
qed

theorem codex_timeline_survives_reload_witness:
  "\<exists>events. length events = 2 \<and> (let s = foldl (store_step demo_env) new_activity_store
        (ledger_calls \<lparr>pe_stringify = (\<lambda>_. None), pe_upper = (\<lambda>c. [c])\<rparr>
           \<lparr>rx_run_id = lit ''r'', rx_workspace = lit ''w'', rx_thread_id = None\<rparr> events)
      in replay_rows (cs_events s) = (cs_activities s, cs_by_id s))"
proof -
  let ?env = "\<lparr>pe_stringify = (\<lambda>_. None), pe_upper = (\<lambda>c. [c])\<rparr>"
  let ?ctx = "\<lparr>rx_run_id = lit ''r'', rx_workspace = lit ''w'', rx_thread_id = None\<rparr>"
  let ?events = "[(1, AgentMessageDelta (lit ''t'') (lit ''i'') (lit ''Hel'')), (2, AgentMessageDelta (lit ''t'') (lit ''i'') (lit ''lo''))]"
  have "bounded_field (lit ''i'') = lit ''i''"
    by (simp add: bounded_field_def lit_def MAX_FIELD_BYTES_def unit_bytes_def is_high_def between_def)
  then have "list_all (\<lambda>(clock, e). steady ?env ?ctx e) ?events"
    by (simp add: steady_def codex_ui_progress_def progress_base_def put_text_def)
  from codex_timeline_survives_reload [OF this, of demo_env] show ?thesis by (intro exI [of _ ?events]) simp
qed

end
