(* ===== verification/Mcp_Governance.thy ===== *)
theory Mcp_Governance
  imports Host_Policies
begin

text \<open>
  The enterprise policy of MCP extensions (\<^verbatim>\<open>mcp-enterprise-governance.ts\<close>): reading the policy,
  the decision about an extension with every reason that blocks it, the matching of patterns
  and of versions, and the effective policy of a tool. The environment, the file system,
  \<^verbatim>\<open>JSON.parse\<close> and \<^verbatim>\<open>URL\<close> are parameters. A rule map is the list of the entries of its object;
  version numbers of at most 308 digits are read as doubles.
\<close>

section \<open>Data\<close>

datatype gov_transport = GovStdio | GovStreamableHttp

datatype gov_approval = GovAutomatic | GovAsk | GovBlocked

datatype catalog_kind = CatalogOrganization | CatalogPrivate

record gov_catalog =
  gc_id :: jstr
  gc_name :: jstr
  gc_kind :: catalog_kind
  gc_url :: jstr

record rule_set =
  rs_extensions :: "jstr list"
  rs_publishers :: "jstr list"
  rs_transports :: "gov_transport list"

record tool_template =
  tt_extension :: jstr
  tt_tool :: jstr
  tt_enabled :: "bool option"
  tt_approval :: "gov_approval option"

record tool_revoke =
  tr_extension :: jstr
  tr_tool :: jstr

record gov_policy =
  gp_managed :: bool
  gp_catalogs :: "gov_catalog list"
  gp_allow :: rule_set
  gp_deny :: rule_set
  gp_approved_extensions :: "jstr list"
  gp_approved_publishers :: "jstr list"
  gp_version_pins :: "(jstr \<times> jstr) list"
  gp_allowed_versions :: "(jstr \<times> jstr list) list"
  gp_blocked_versions :: "(jstr \<times> jstr list) list"
  gp_tool_policies :: "tool_template list"
  gp_revoked_extensions :: "jstr list"
  gp_revoked_tools :: "tool_revoke list"

record gov_decision =
  gd_managed :: bool
  gd_allowed :: bool
  gd_approved :: bool
  gd_blockers :: "jstr list"

record governed_extension =
  ge_id :: jstr
  ge_version :: jstr
  ge_source :: jstr
  ge_transport :: gov_transport

record tool_request =
  tq_enabled :: bool
  tq_approval :: gov_approval

definition MAX_POLICY_BYTES :: nat where "MAX_POLICY_BYTES = 256 * 1024"
definition MAX_RULES :: nat where "MAX_RULES = 256"
definition MAX_CATALOGS :: nat where "MAX_CATALOGS = 8"
definition MAX_PATTERN_LENGTH :: nat where "MAX_PATTERN_LENGTH = 160"

definition no_rules :: rule_set where
  "no_rules = \<lparr>rs_extensions = [], rs_publishers = [], rs_transports = []\<rparr>"

definition EMPTY_POLICY :: gov_policy where
  "EMPTY_POLICY = \<lparr>gp_managed = False, gp_catalogs = [], gp_allow = no_rules, gp_deny = no_rules, gp_approved_extensions = [],
     gp_approved_publishers = [], gp_version_pins = [], gp_allowed_versions = [], gp_blocked_versions = [], gp_tool_policies = [],
     gp_revoked_extensions = [], gp_revoked_tools = []\<rparr>"

section \<open>Patterns\<close>

text \<open>\<^verbatim>\<open>*\<close> stands for characters that are no line ends, \<^verbatim>\<open>?\<close> for one of them, others for themselves in either case.\<close>

fun wildcard_match :: "jstr \<Rightarrow> jstr \<Rightarrow> bool" where
  "wildcard_match [] [] = True"
| "wildcard_match (c # cs) [] = False"
| "wildcard_match [] (p # ps) = (p = 42 \<and> wildcard_match [] ps)"
| "wildcard_match (c # cs) (p # ps) =
     (if p = 42 then wildcard_match (c # cs) ps \<or> (\<not> is_line_end c \<and> wildcard_match cs (p # ps))
      else if p = 63 then \<not> is_line_end c \<and> wildcard_match cs ps
      else to_lower c = to_lower p \<and> wildcard_match cs ps)"

definition matches_any :: "jstr list \<Rightarrow> jstr list \<Rightarrow> bool" where
  "matches_any values patterns = list_ex (\<lambda>pattern. list_ex (\<lambda>value. wildcard_match value pattern) values) patterns"

definition first_version_rule :: "jstr list \<Rightarrow> (jstr \<times> 'a) list \<Rightarrow> (jstr \<times> 'a) option" where
  "first_version_rule identities rules = find (\<lambda>rule. matches_any identities [fst rule]) rules"

definition all_version_rules :: "jstr list \<Rightarrow> (jstr \<times> 'a) list \<Rightarrow> (jstr \<times> 'a) list" where
  "all_version_rules identities rules = filter (\<lambda>rule. matches_any identities [fst rule]) rules"

section \<open>Versions\<close>

definition all_digits :: "jstr \<Rightarrow> bool" where
  "all_digits s \<longleftrightarrow> s \<noteq> [] \<and> list_all is_digit s"

definition number_of_digits :: "jstr \<Rightarrow> nat" where
  "number_of_digits s = round_double (digits_value s)"

text \<open>\<^verbatim>\<open>[0-9A-Za-z.-]\<close>\<close>

definition is_label_char :: "nat \<Rightarrow> bool" where
  "is_label_char c \<longleftrightarrow> is_alnum c \<or> c = 46 \<or> c = 45"

definition is_label :: "jstr \<Rightarrow> bool" where
  "is_label s \<longleftrightarrow> s \<noteq> [] \<and> list_all is_label_char s"

definition drop_v :: "jstr \<Rightarrow> jstr" where
  "drop_v s = (case s of c # cs \<Rightarrow> if c = 118 then cs else s | [] \<Rightarrow> [])"

text \<open>One to three numbers between dots, as the parts of the text.\<close>

definition number_parts :: "jstr \<Rightarrow> jstr list option" where
  "number_parts s = (let parts = split_on 46 s in
     if length parts \<le> 3 \<and> list_all all_digits parts then Some parts else None)"

definition semver_triple :: "jstr list \<Rightarrow> nat \<times> nat \<times> nat" where
  "semver_triple parts = (let n = (\<lambda>i. if i < length parts then number_of_digits (parts ! i) else 0) in (n 0, n 1, n 2))"

text \<open>\<^verbatim>\<open>(?:-label)?(?:\+label)?$\<close>\<close>

definition is_semver_tail :: "jstr \<Rightarrow> bool" where
  "is_semver_tail s =
     (let build = (\<lambda>t. t = [] \<or> (hd t = 43 \<and> is_label (tl t))) in
      if s \<noteq> [] \<and> hd s = 45
      then takeWhile is_label_char (tl s) \<noteq> [] \<and> build (dropWhile is_label_char (tl s))
      else build s)"

definition gov_parse_semver :: "jstr \<Rightarrow> (nat \<times> nat \<times> nat) option" where
  "gov_parse_semver value =
     (let s = drop_v value; core = (\<lambda>c. is_digit c \<or> c = 46) in
      case number_parts (takeWhile core s) of
        Some parts \<Rightarrow> if is_semver_tail (dropWhile core s) then Some (semver_triple parts) else None
      | None \<Rightarrow> None)"

definition gov_compare_semver :: "nat \<times> nat \<times> nat \<Rightarrow> nat \<times> nat \<times> nat \<Rightarrow> int" where
  "gov_compare_semver left right = (case (left, right) of ((a, b, c), (d, e, f)) \<Rightarrow>
     if a < d then -1 else if a > d then 1 else if b < e then -1 else if b > e then 1
     else if c < f then -1 else if c > f then 1 else 0)"

definition is_any :: "jstr \<Rightarrow> bool" where
  "is_any s \<longleftrightarrow> s = [120] \<or> s = [88] \<or> s = [42]"

text \<open>\<^verbatim>\<open>/^v?(\d+)(?:\.(\d+|x|X|\*))?(?:\.(\d+|x|X|\*))?$/\<close> with a wildcard in it: the parts.\<close>

definition wildcard_parts :: "jstr \<Rightarrow> jstr list option" where
  "wildcard_parts token =
     (let parts = split_on 46 (drop_v token) in
      if length parts \<le> 3 \<and> all_digits (hd parts) \<and> list_all (\<lambda>p. all_digits p \<or> is_any p) (tl parts)
         \<and> list_ex (\<lambda>c. c = 120 \<or> c = 88 \<or> c = 42) token
      then Some parts else None)"

definition wildcard_version_matches :: "jstr \<Rightarrow> jstr list \<Rightarrow> bool" where
  "wildcard_version_matches version parts =
     (case gov_parse_semver version of
        None \<Rightarrow> False
      | Some (a, b, c) \<Rightarrow>
          let fits_part = (\<lambda>i n. i < length parts \<and> \<not> is_any (parts ! i) \<longrightarrow> n = number_of_digits (parts ! i))
          in a = number_of_digits (hd parts) \<and> fits_part 1 b \<and> fits_part 2 c)"

text \<open>An operator and what follows it.\<close>

definition split_operator :: "jstr \<Rightarrow> string \<times> jstr" where
  "split_operator token =
     (if starts_with (lit ''<='') token then (''<='', drop 2 token)
      else if starts_with (lit ''>='') token then (''>='', drop 2 token)
      else if starts_with (lit ''<'') token then (''<'', drop 1 token)
      else if starts_with (lit ''>'') token then (''>'', drop 1 token)
      else if starts_with (lit ''='') token then (''='', drop 1 token)
      else (''='', token))"

text \<open>\<^verbatim>\<open>/^v?\d+(?:\.\d+){0,2}(?:-[0-9A-Za-z.-]+)?$/\<close>\<close>

definition is_comparator_version :: "jstr \<Rightarrow> bool" where
  "is_comparator_version value =
     (let s = drop_v value; core = (\<lambda>c. is_digit c \<or> c = 46); tail = dropWhile core s in
      number_parts (takeWhile core s) \<noteq> None \<and> (tail = [] \<or> (hd tail = 45 \<and> is_label (tl tail))))"

definition compared :: "string \<Rightarrow> int \<Rightarrow> bool" where
  "compared operator c =
     (if operator = ''='' then c = 0 else if operator = ''>'' then c > 0 else if operator = ''>='' then c \<ge> 0
      else if operator = ''<'' then c < 0 else c \<le> 0)"

definition version_token_matches :: "jstr \<Rightarrow> jstr \<Rightarrow> bool" where
  "version_token_matches version token =
     (if token = [42] then True
      else case wildcard_parts token of
        Some parts \<Rightarrow> wildcard_version_matches version parts
      | None \<Rightarrow>
          (case split_operator token of (operator, expected) \<Rightarrow>
             if \<not> is_comparator_version expected then version = token
             else case (gov_parse_semver expected, gov_parse_semver version) of
               (Some e, Some a) \<Rightarrow> compared operator (gov_compare_semver a e)
             | _ \<Rightarrow> operator = ''='' \<and> version = expected))"

text \<open>\<^verbatim>\<open>s.split(/\s+/).filter(Boolean)\<close>\<close>

definition space_tokens :: "jstr \<Rightarrow> jstr list" where
  "space_tokens s = filter (\<lambda>t. t \<noteq> []) (split_on 32 (collapse_spaces s))"

definition version_matches :: "jstr \<Rightarrow> jstr \<Rightarrow> bool" where
  "version_matches version constraint =
     (let trimmed = trim constraint in
      trimmed = [] \<or> trimmed = [42] \<or> list_all (version_token_matches version) (space_tokens trimmed))"

section \<open>The decision\<close>

definition extension_identities :: "governed_extension \<Rightarrow> jstr list" where
  "extension_identities e =
     (let source = ge_source e in
      ge_id e #
      (if starts_with (lit ''registry:'') source then [drop 9 source]
       else if starts_with (lit ''plugin-hub:'') source
       then (case split_on 58 source ! 1 of [] \<Rightarrow> [] | plugin \<Rightarrow> [lit ''plugin:'' @ plugin])
       else []) @ [source])"

definition extension_publisher :: "jstr \<Rightarrow> jstr option" where
  "extension_publisher source =
     (if \<not> starts_with (lit ''registry:'') source then None
      else case split_on 47 (drop 9 source) of
        namespace # leaf # _ \<Rightarrow>
          if namespace = [] \<or> leaf = [] then None
          else if starts_with (lit ''org-'') namespace \<or> starts_with (lit ''private-'') namespace
          then (case hd (split_on 46 leaf) of [] \<Rightarrow> None | publisher \<Rightarrow> Some publisher)
          else Some namespace
      | _ \<Rightarrow> None)"

definition transport_name :: "gov_transport \<Rightarrow> jstr" where
  "transport_name t = lit (case t of GovStdio \<Rightarrow> ''stdio'' | GovStreamableHttp \<Rightarrow> ''streamable-http'')"

definition blocker_if :: "bool \<Rightarrow> jstr \<Rightarrow> jstr list" where
  "blocker_if c message = (if c then [message] else [])"

text \<open>The reasons against an extension, group by group in the order of the code.\<close>

definition extension_blockers :: "jstr list \<Rightarrow> bool \<Rightarrow> gov_policy \<Rightarrow> jstr list" where
  "extension_blockers identities approvedExtension p =
     blocker_if (matches_any identities (gp_revoked_extensions p)) (lit ''Organization policy emergency-revoked this MCP extension.'')
     @ blocker_if (matches_any identities (rs_extensions (gp_deny p))) (lit ''Organization policy denies this MCP extension.'')
     @ blocker_if (rs_extensions (gp_allow p) \<noteq> [] \<and> \<not> approvedExtension \<and> \<not> matches_any identities (rs_extensions (gp_allow p)))
         (lit ''This MCP extension is outside the organization allowlist.'')"

definition publisher_blockers :: "jstr option \<Rightarrow> bool \<Rightarrow> bool \<Rightarrow> gov_policy \<Rightarrow> jstr list" where
  "publisher_blockers publisher approvedExtension approvedPublisher p =
     (case publisher of
        Some b \<Rightarrow> blocker_if (matches_any [b] (rs_publishers (gp_deny p))) (lit ''Organization policy denies publisher '' @ b @ lit ''.'')
      | None \<Rightarrow> [])
     @ blocker_if (rs_publishers (gp_allow p) \<noteq> [] \<and> \<not> approvedExtension \<and> \<not> approvedPublisher
         \<and> (case publisher of None \<Rightarrow> True | Some b \<Rightarrow> \<not> matches_any [b] (rs_publishers (gp_allow p))))
         (case publisher of
            Some b \<Rightarrow> lit ''Publisher '' @ b @ lit '' is outside the organization allowlist.''
          | None \<Rightarrow> lit ''This MCP extension has no publisher identity accepted by organization policy.'')"

definition transport_blockers :: "gov_transport \<Rightarrow> gov_policy \<Rightarrow> jstr list" where
  "transport_blockers t p =
     blocker_if (t \<in> set (rs_transports (gp_deny p))) (lit ''Organization policy denies '' @ transport_name t @ lit '' MCP transport.'')
     @ blocker_if (rs_transports (gp_allow p) \<noteq> [] \<and> t \<notin> set (rs_transports (gp_allow p)))
         (transport_name t @ lit '' MCP transport is outside the organization allowlist.'')"

definition pin_blockers :: "jstr list \<Rightarrow> jstr \<Rightarrow> gov_policy \<Rightarrow> jstr list" where
  "pin_blockers identities version p = (case first_version_rule identities (gp_version_pins p) of
      Some (pattern, pin) \<Rightarrow> blocker_if (version \<noteq> pin) (lit ''Organization policy pins '' @ pattern @ lit '' to version '' @ pin
          @ lit ''; requested version is '' @ version @ lit ''.'')
    | None \<Rightarrow> [])"

definition range_blockers :: "jstr list \<Rightarrow> jstr \<Rightarrow> gov_policy \<Rightarrow> jstr list" where
  "range_blockers identities version p = (case first_version_rule identities (gp_allowed_versions p) of
      Some (pattern, constraints) \<Rightarrow> blocker_if (\<not> list_ex (version_matches version) constraints)
          (lit ''Version '' @ version @ lit '' is outside the organization-approved version range for '' @ pattern @ lit ''.'')
    | None \<Rightarrow> [])"

fun blocked_version :: "jstr \<Rightarrow> (jstr \<times> jstr list) list \<Rightarrow> (jstr \<times> jstr) option" where
  "blocked_version version [] = None"
| "blocked_version version ((pattern, constraints) # rules) = (case find (version_matches version) constraints of
      Some c \<Rightarrow> Some (pattern, c)
    | None \<Rightarrow> blocked_version version rules)"

definition version_blockers :: "jstr list \<Rightarrow> jstr \<Rightarrow> gov_policy \<Rightarrow> jstr list" where
  "version_blockers identities version p = (case blocked_version version (all_version_rules identities (gp_blocked_versions p)) of
      Some (pattern, c) \<Rightarrow> [lit ''Version '' @ version @ lit '' is blocked by organization policy for '' @ pattern @ lit '' ('' @ c @ lit '').'']
    | None \<Rightarrow> [])"

definition evaluate_extension :: "governed_extension \<Rightarrow> gov_policy \<Rightarrow> gov_decision" where
  "evaluate_extension e p =
     (if \<not> gp_managed p then \<lparr>gd_managed = False, gd_allowed = True, gd_approved = False, gd_blockers = []\<rparr>
      else
        let identities = extension_identities e;
            publisher = extension_publisher (ge_source e);
            approvedExtension = matches_any identities (gp_approved_extensions p);
            approvedPublisher = (case publisher of Some b \<Rightarrow> matches_any [b] (gp_approved_publishers p) | None \<Rightarrow> False);
            blockers = extension_blockers identities approvedExtension p
              @ publisher_blockers publisher approvedExtension approvedPublisher p @ transport_blockers (ge_transport e) p
              @ pin_blockers identities (ge_version e) p @ range_blockers identities (ge_version e) p
              @ version_blockers identities (ge_version e) p
        in \<lparr>gd_managed = True, gd_allowed = (blockers = []), gd_approved = approvedExtension \<or> approvedPublisher, gd_blockers = blockers\<rparr>)"

definition assert_extension_allowed :: "governed_extension \<Rightarrow> string \<Rightarrow> gov_policy \<Rightarrow> gov_decision res" where
  "assert_extension_allowed e operation p =
     (let decision = evaluate_extension e p in
      if gd_allowed decision then Inr decision
      else Inl (lit ''Enterprise MCP governance blocked '' @ lit operation @ lit '': '' @ join [32] (gd_blockers decision)))"

section \<open>Tools\<close>

definition approval_rank :: "gov_approval \<Rightarrow> nat" where
  "approval_rank a = (case a of GovAutomatic \<Rightarrow> 0 | GovAsk \<Rightarrow> 1 | GovBlocked \<Rightarrow> 2)"

definition stricter_approval :: "gov_approval \<Rightarrow> gov_approval option \<Rightarrow> gov_approval" where
  "stricter_approval requested central = (case central of
      None \<Rightarrow> requested
    | Some c \<Rightarrow> if approval_rank c > approval_rank requested then c else requested)"

text \<open>The last template that matches.\<close>

definition central_template :: "jstr \<Rightarrow> jstr \<Rightarrow> tool_template list \<Rightarrow> tool_template option" where
  "central_template extensionId toolName templates =
     foldl (\<lambda>central t. if wildcard_match extensionId (tt_extension t) \<and> wildcard_match toolName (tt_tool t) then Some t else central)
       None templates"

definition effective_tool_policy :: "jstr \<Rightarrow> jstr \<Rightarrow> tool_request \<Rightarrow> gov_policy \<Rightarrow> tool_request" where
  "effective_tool_policy extensionId toolName requested p =
     (if \<not> gp_managed p then requested
      else if list_ex (\<lambda>r. wildcard_match extensionId (tr_extension r) \<and> wildcard_match toolName (tr_tool r)) (gp_revoked_tools p)
      then \<lparr>tq_enabled = False, tq_approval = GovBlocked\<rparr>
      else case central_template extensionId toolName (gp_tool_policies p) of
        None \<Rightarrow> requested
      | Some t \<Rightarrow> \<lparr>tq_enabled = tq_enabled requested \<and> tt_enabled t \<noteq> Some False,
                   tq_approval = stricter_approval (tq_approval requested) (tt_approval t)\<rparr>)"

section \<open>Reading the policy\<close>

text \<open>The text that a value is, within its length, without control characters and outer white space.\<close>

definition gov_text :: "js \<Rightarrow> nat \<Rightarrow> jstr option" where
  "gov_text v limit = (case v of
      JStr s \<Rightarrow> if length_within 1 limit s \<and> trim s = s \<and> \<not> has_control s then Some s else None
    | _ \<Rightarrow> None)"

text \<open>\<^verbatim>\<open>[A-Za-z0-9._:/?*+-]\<close>\<close>

definition is_pattern_char :: "nat \<Rightarrow> bool" where
  "is_pattern_char c \<longleftrightarrow> is_alnum c \<or> c \<in> {46, 95, 58, 47, 63, 42, 43, 45}"

definition parse_pattern :: "string \<Rightarrow> js \<Rightarrow> jstr res" where
  "parse_pattern label v = (case gov_text v MAX_PATTERN_LENGTH of
      Some s \<Rightarrow> if list_all is_pattern_char s then Inr s else throw (''Enterprise MCP '' @ label @ '' contains an invalid pattern'')
    | None \<Rightarrow> throw (''Enterprise MCP '' @ label @ '' contains an invalid pattern''))"

definition parse_patterns :: "js \<Rightarrow> string \<Rightarrow> jstr list res" where
  "parse_patterns v label = (case v of
      JUndef \<Rightarrow> Inr []
    | JArr xs \<Rightarrow> if length xs > MAX_RULES then throw (''Enterprise MCP '' @ label @ '' rule list is invalid'')
        else and_then (map_res (parse_pattern label) xs) (\<lambda>ps. Inr (unique ps))
    | _ \<Rightarrow> throw (''Enterprise MCP '' @ label @ '' rule list is invalid''))"

definition parse_transport :: "js \<Rightarrow> gov_transport option" where
  "parse_transport v = (if v = jtext ''stdio'' then Some GovStdio else if v = jtext ''streamable-http'' then Some GovStreamableHttp else None)"

definition parse_rule_set :: "js \<Rightarrow> rule_set res" where
  "parse_rule_set v =
     (if v = JUndef then Inr no_rules
      else if \<not> is_record v then throw ''Enterprise MCP allow/deny rule set is invalid''
      else if \<not> exact_keys v [''extensions'', ''publishers'', ''transports'']
      then throw ''Enterprise MCP allow/deny rule set contains unsupported fields''
      else
        let transports = (if jget v ''transports'' = JUndef then JArr [] else jget v ''transports'') in
        if \<not> arr_sat (\<lambda>xs. length xs \<le> 2 \<and> list_all (\<lambda>x. parse_transport x \<noteq> None) xs) transports
        then throw ''Enterprise MCP transport allow/deny rule is invalid''
        else
          and_then (parse_patterns (jget v ''extensions'') ''extensions'') (\<lambda>extensions.
          and_then (parse_patterns (jget v ''publishers'') ''publishers'') (\<lambda>publishers.
            Inr \<lparr>rs_extensions = extensions, rs_publishers = publishers,
              rs_transports = unique (List.map_filter parse_transport (case transports of JArr xs \<Rightarrow> xs | _ \<Rightarrow> []))\<rparr>)))"

text \<open>\<^verbatim>\<open>[0-9A-Za-z.*xXvV<>=+\-\s]\<close>\<close>

definition is_constraint_char :: "nat \<Rightarrow> bool" where
  "is_constraint_char c \<longleftrightarrow> is_alnum c \<or> c \<in> {46, 42, 60, 62, 61, 43, 45} \<or> is_space c"

definition version_constraint :: "js \<Rightarrow> string \<Rightarrow> jstr res" where
  "version_constraint v label = (case gov_text v 120 of
      Some s \<Rightarrow> if list_all is_constraint_char s then Inr s
        else throw (''Enterprise MCP '' @ label @ '' contains an invalid version constraint'')
    | None \<Rightarrow> throw (''Enterprise MCP '' @ label @ '' contains an invalid version constraint''))"

text \<open>The entries of a rule map; an assignment to \<^verbatim>\<open>__proto__\<close> makes no entry.\<close>

definition parse_entries :: "(jstr \<Rightarrow> js \<Rightarrow> 'a res) \<Rightarrow> js \<Rightarrow> string \<Rightarrow> (jstr \<times> 'a) list res" where
  "parse_entries parse v label = (case v of
      JUndef \<Rightarrow> Inr []
    | JObj kvs \<Rightarrow> if length kvs > MAX_RULES then throw (''Enterprise MCP '' @ label @ '' map is invalid'')
        else and_then (map_res (\<lambda>(k, raw). and_then (parse_pattern label (JStr k)) (\<lambda>_. and_then (parse k raw) (\<lambda>x. Inr (k, x)))) kvs)
          (\<lambda>es. Inr (filter (\<lambda>e. fst e \<noteq> lit ''__proto__'') es))
    | _ \<Rightarrow> throw (''Enterprise MCP '' @ label @ '' map is invalid''))"

definition parse_constraints :: "string \<Rightarrow> jstr \<Rightarrow> js \<Rightarrow> jstr list res" where
  "parse_constraints label pattern raw = (case raw of
      JArr xs \<Rightarrow> if length xs < 1 \<or> length xs > 32
        then Inl (lit ''Enterprise MCP '' @ lit label @ lit ''.'' @ pattern @ lit '' must be a non-empty constraint list'')
        else map_res (\<lambda>x. version_constraint x label) xs
    | _ \<Rightarrow> Inl (lit ''Enterprise MCP '' @ lit label @ lit ''.'' @ pattern @ lit '' must be a non-empty constraint list''))"

definition parse_pins :: "js \<Rightarrow> string \<Rightarrow> (jstr \<times> jstr) list res" where
  "parse_pins v label = parse_entries (\<lambda>_ raw. version_constraint raw label) v label"

definition parse_version_lists :: "js \<Rightarrow> string \<Rightarrow> (jstr \<times> jstr list) list res" where
  "parse_version_lists v label = parse_entries (parse_constraints label) v label"

definition gov_approvals :: "(string \<times> gov_approval) list" where
  "gov_approvals = [(''automatic'', GovAutomatic), (''ask'', GovAsk), (''blocked'', GovBlocked)]"

text \<open>\<^verbatim>\<open>value === undefined\<close>, an approval, or neither.\<close>

definition parse_approval :: "js \<Rightarrow> gov_approval option res" where
  "parse_approval v = (case v of
      JUndef \<Rightarrow> Inr None
    | JStr s \<Rightarrow> (case named gov_approvals s of Some a \<Rightarrow> Inr (Some a) | None \<Rightarrow> throw ''Enterprise MCP tool policy approval value is invalid'')
    | _ \<Rightarrow> throw ''Enterprise MCP tool policy approval value is invalid'')"

definition parse_enabled :: "js \<Rightarrow> bool option res" where
  "parse_enabled v = (case v of JUndef \<Rightarrow> Inr None | JBool b \<Rightarrow> Inr (Some b)
    | _ \<Rightarrow> throw ''Enterprise MCP tool policy enabled value is invalid'')"

definition parse_tool_policy :: "js \<Rightarrow> tool_template res" where
  "parse_tool_policy v =
     (if \<not> is_record v then throw ''Enterprise MCP tool policy is invalid''
      else if \<not> exact_keys v [''extension'', ''tool'', ''enabled'', ''approval'']
      then throw ''Enterprise MCP tool policy contains unsupported fields''
      else
        and_then (parse_pattern ''toolPolicies.extension'' (jget v ''extension'')) (\<lambda>extension.
        and_then (parse_pattern ''toolPolicies.tool'' (jget v ''tool'')) (\<lambda>tool.
        and_then (parse_enabled (jget v ''enabled'')) (\<lambda>enabled.
        and_then (parse_approval (jget v ''approval'')) (\<lambda>approval.
          Inr \<lparr>tt_extension = extension, tt_tool = tool, tt_enabled = enabled, tt_approval = approval\<rparr>)))))"

definition parse_tool_policies :: "js \<Rightarrow> tool_template list res" where
  "parse_tool_policies v = (case v of
      JUndef \<Rightarrow> Inr []
    | JArr xs \<Rightarrow> if length xs > MAX_RULES then throw ''Enterprise MCP toolPolicies list is invalid'' else map_res parse_tool_policy xs
    | _ \<Rightarrow> throw ''Enterprise MCP toolPolicies list is invalid'')"

definition parse_revoked_tool :: "js \<Rightarrow> tool_revoke res" where
  "parse_revoked_tool v =
     (if \<not> is_record v \<or> \<not> exact_keys v [''extension'', ''tool''] then throw ''Enterprise MCP revoked tool rule is invalid''
      else
        and_then (parse_pattern ''revokedTools.extension'' (jget v ''extension'')) (\<lambda>extension.
        and_then (parse_pattern ''revokedTools.tool'' (jget v ''tool'')) (\<lambda>tool.
          Inr \<lparr>tr_extension = extension, tr_tool = tool\<rparr>)))"

definition parse_revoked_tools :: "js \<Rightarrow> tool_revoke list res" where
  "parse_revoked_tools v = (case v of
      JUndef \<Rightarrow> Inr []
    | JArr xs \<Rightarrow> if length xs > MAX_RULES then throw ''Enterprise MCP revokedTools list is invalid'' else map_res parse_revoked_tool xs
    | _ \<Rightarrow> throw ''Enterprise MCP revokedTools list is invalid'')"

text \<open>\<open>href\<close> is \<^verbatim>\<open>url.toString()\<close>.\<close>

definition https_url :: "url_parser \<Rightarrow> (url \<Rightarrow> jstr) \<Rightarrow> js \<Rightarrow> jstr option" where
  "https_url parse_url href v = (case gov_text v 2048 of
      None \<Rightarrow> None
    | Some s \<Rightarrow> (case parse_url s of
        None \<Rightarrow> None
      | Some u \<Rightarrow> if url_protocol u \<noteq> lit ''https:'' \<or> url_username u \<noteq> [] \<or> url_password u \<noteq> [] \<or> url_hash u \<noteq> []
          then None else Some (href u)))"

definition is_catalog_id :: "jstr \<Rightarrow> bool" where
  "is_catalog_id s \<longleftrightarrow> length_within 1 48 s \<and> (is_lower (hd s) \<or> is_digit (hd s)) \<and> list_all is_slug_char s"

definition parse_catalog :: "url_parser \<Rightarrow> (url \<Rightarrow> jstr) \<Rightarrow> jstr list \<Rightarrow> js \<Rightarrow> gov_catalog res" where
  "parse_catalog parse_url href ids v =
     (if \<not> is_record v then throw ''Enterprise MCP catalog entry is invalid''
      else if \<not> exact_keys v [''id'', ''name'', ''kind'', ''url''] then throw ''Enterprise MCP catalog entry contains unsupported fields''
      else case gov_text (jget v ''id'') 48 of
        None \<Rightarrow> throw ''Enterprise MCP catalog id is invalid or duplicated''
      | Some i \<Rightarrow>
          if \<not> is_catalog_id i \<or> i \<in> set ids then throw ''Enterprise MCP catalog id is invalid or duplicated''
          else case gov_text (jget v ''name'') 120 of
            None \<Rightarrow> Inl (lit ''Enterprise MCP catalog '' @ i @ lit '' name is invalid'')
          | Some name \<Rightarrow>
              if jget v ''kind'' \<noteq> jtext ''organization'' \<and> jget v ''kind'' \<noteq> jtext ''private''
              then Inl (lit ''Enterprise MCP catalog '' @ i @ lit '' kind is invalid'')
              else case https_url parse_url href (jget v ''url'') of
                None \<Rightarrow> Inl (lit ''Enterprise MCP catalog '' @ i @ lit '' URL must be fixed HTTPS'')
              | Some u \<Rightarrow> Inr \<lparr>gc_id = i, gc_name = name,
                  gc_kind = (if jget v ''kind'' = jtext ''organization'' then CatalogOrganization else CatalogPrivate), gc_url = u\<rparr>)"

fun parse_catalog_list :: "url_parser \<Rightarrow> (url \<Rightarrow> jstr) \<Rightarrow> jstr list \<Rightarrow> js list \<Rightarrow> gov_catalog list res" where
  "parse_catalog_list parse_url href ids [] = Inr []"
| "parse_catalog_list parse_url href ids (v # vs) =
     and_then (parse_catalog parse_url href ids v) (\<lambda>c.
     and_then (parse_catalog_list parse_url href (gc_id c # ids) vs) (\<lambda>cs. Inr (c # cs)))"

definition parse_catalogs :: "url_parser \<Rightarrow> (url \<Rightarrow> jstr) \<Rightarrow> js \<Rightarrow> gov_catalog list res" where
  "parse_catalogs parse_url href v = (case v of
      JUndef \<Rightarrow> Inr []
    | JArr xs \<Rightarrow> if length xs > MAX_CATALOGS then throw ''Enterprise MCP governance may define at most 8 catalogs''
        else parse_catalog_list parse_url href [] xs
    | _ \<Rightarrow> throw ''Enterprise MCP governance may define at most 8 catalogs'')"

definition GOVERNANCE_KEYS :: "string list" where
  "GOVERNANCE_KEYS = [''schemaVersion'', ''catalogs'', ''allow'', ''deny'', ''approvedExtensions'', ''approvedPublishers'', ''versionPins'',
     ''allowedVersions'', ''blockedVersions'', ''toolPolicies'', ''revokedExtensions'', ''revokedTools'']"

definition parse_governance :: "url_parser \<Rightarrow> (url \<Rightarrow> jstr) \<Rightarrow> js \<Rightarrow> gov_policy res" where
  "parse_governance parse_url href v =
     (if \<not> is_record v \<or> jget v ''schemaVersion'' \<noteq> jint 1 then throw ''Enterprise MCP governance policy must use schemaVersion 1''
      else if \<not> exact_keys v GOVERNANCE_KEYS then throw ''Enterprise MCP governance policy contains unsupported fields''
      else
        and_then (parse_catalogs parse_url href (jget v ''catalogs'')) (\<lambda>catalogs.
        and_then (parse_rule_set (jget v ''allow'')) (\<lambda>allow.
        and_then (parse_rule_set (jget v ''deny'')) (\<lambda>deny.
        and_then (parse_patterns (jget v ''approvedExtensions'') ''approvedExtensions'') (\<lambda>approvedExtensions.
        and_then (parse_patterns (jget v ''approvedPublishers'') ''approvedPublishers'') (\<lambda>approvedPublishers.
        and_then (parse_pins (jget v ''versionPins'') ''versionPins'') (\<lambda>pins.
        and_then (parse_version_lists (jget v ''allowedVersions'') ''allowedVersions'') (\<lambda>allowedVersions.
        and_then (parse_version_lists (jget v ''blockedVersions'') ''blockedVersions'') (\<lambda>blockedVersions.
        and_then (parse_tool_policies (jget v ''toolPolicies'')) (\<lambda>toolPolicies.
        and_then (parse_patterns (jget v ''revokedExtensions'') ''revokedExtensions'') (\<lambda>revokedExtensions.
        and_then (parse_revoked_tools (jget v ''revokedTools'')) (\<lambda>revokedTools.
          Inr \<lparr>gp_managed = True, gp_catalogs = catalogs, gp_allow = allow, gp_deny = deny,
            gp_approved_extensions = approvedExtensions, gp_approved_publishers = approvedPublishers, gp_version_pins = pins,
            gp_allowed_versions = allowedVersions, gp_blocked_versions = blockedVersions, gp_tool_policies = toolPolicies,
            gp_revoked_extensions = revokedExtensions, gp_revoked_tools = revokedTools\<rparr>))))))))))))"

text \<open>The two environment variables, the file system and the parsers.\<close>

record governance_env =
  gv_inline :: "jstr option"
  gv_file :: "jstr option"
  gv_is_absolute :: "jstr \<Rightarrow> bool"
  gv_read :: "jstr \<Rightarrow> jstr res"
  gv_json :: "jstr \<Rightarrow> js option"
  gv_url :: url_parser
  gv_href :: "url \<Rightarrow> jstr"

definition trimmed_variable :: "jstr option \<Rightarrow> jstr option" where
  "trimmed_variable v = (case v of Some s \<Rightarrow> if trim s = [] then None else Some (trim s) | None \<Rightarrow> None)"

definition read_policy :: "governance_env \<Rightarrow> jstr \<Rightarrow> gov_policy res" where
  "read_policy env raw =
     (if utf8_len raw > MAX_POLICY_BYTES then throw ''Enterprise MCP governance policy exceeds the SourceNerve size limit''
      else case gv_json env raw of
        None \<Rightarrow> throw ''Enterprise MCP governance policy is not valid JSON''
      | Some v \<Rightarrow> parse_governance (gv_url env) (gv_href env) v)"

definition load_governance :: "governance_env \<Rightarrow> gov_policy res" where
  "load_governance env =
     (case (trimmed_variable (gv_inline env), trimmed_variable (gv_file env)) of
        (Some _, Some _) \<Rightarrow> throw ''SOURCENERVE_MCP_ENTERPRISE_POLICY and SOURCENERVE_MCP_ENTERPRISE_POLICY_FILE cannot both be configured; enterprise MCP governance fails closed on ambiguous policy sources''
      | (None, None) \<Rightarrow> Inr EMPTY_POLICY
      | (Some inline, None) \<Rightarrow> read_policy env inline
      | (None, Some file) \<Rightarrow>
          if \<not> gv_is_absolute env file then throw ''SOURCENERVE_MCP_ENTERPRISE_POLICY_FILE must be an absolute path''
          else and_then (gv_read env file) (read_policy env))"

section \<open>Properties\<close>

lemma blocker_if_Nil [simp]: "blocker_if c m = [] \<longleftrightarrow> \<not> c"
  by (simp add: blocker_if_def)

lemma blocked_version_None: "blocked_version v rules = None \<longleftrightarrow> (\<forall>(pattern, cs)\<in>set rules. \<forall>c\<in>set cs. \<not> version_matches v c)"
  by (induction v rules rule: blocked_version.induct) (auto simp: find_None_iff find_Some_iff split: option.splits)

text \<open>
  C11: What a managed policy lets through. An extension is allowed exactly when it is not revoked
  and not denied, is on every allowlist that is not empty (unless the extension is approved,
  or, for publishers, its publisher is), uses a transport that is allowed and not denied, has
  the pinned version, is in the allowed range, and no blocked constraint matches its version.
\<close>

theorem governance_decision:
  assumes "gp_managed p"
  shows "let ids = extension_identities e; pub = extension_publisher (ge_source e) in gd_allowed (evaluate_extension e p) \<longleftrightarrow>
      \<not> matches_any ids (gp_revoked_extensions p) \<and> \<not> matches_any ids (rs_extensions (gp_deny p))
    \<and> (rs_extensions (gp_allow p) = [] \<or> matches_any ids (gp_approved_extensions p) \<or> matches_any ids (rs_extensions (gp_allow p)))
    \<and> (\<nexists>b. pub = Some b \<and> matches_any [b] (rs_publishers (gp_deny p)))
    \<and> (rs_publishers (gp_allow p) = [] \<or> matches_any ids (gp_approved_extensions p)
       \<or> (\<exists>b. pub = Some b \<and> (matches_any [b] (gp_approved_publishers p) \<or> matches_any [b] (rs_publishers (gp_allow p)))))
    \<and> ge_transport e \<notin> set (rs_transports (gp_deny p))
    \<and> (rs_transports (gp_allow p) = [] \<or> ge_transport e \<in> set (rs_transports (gp_allow p)))
    \<and> (case first_version_rule ids (gp_version_pins p) of Some (_, pin) \<Rightarrow> ge_version e = pin | None \<Rightarrow> True)
    \<and> (case first_version_rule ids (gp_allowed_versions p) of Some (_, cs) \<Rightarrow> list_ex (version_matches (ge_version e)) cs | None \<Rightarrow> True)
    \<and> (\<nexists>pattern cs c. (pattern, cs) \<in> set (gp_blocked_versions p) \<and> matches_any ids [pattern] \<and> c \<in> set cs \<and> version_matches (ge_version e) c)"
proof -
  define ids where "ids = extension_identities e"
  define pub where "pub = extension_publisher (ge_source e)"
  have version: "version_blockers ids v p = [] \<longleftrightarrow>
      (\<nexists>pattern cs c. (pattern, cs) \<in> set (gp_blocked_versions p) \<and> matches_any ids [pattern] \<and> c \<in> set cs \<and> version_matches v c)" for v
    using blocked_version_None [of v "all_version_rules ids (gp_blocked_versions p)"]
    by (auto simp: version_blockers_def all_version_rules_def split: option.splits)
  have publisher: "publisher_blockers pub a b p = [] \<longleftrightarrow> (\<nexists>x. pub = Some x \<and> matches_any [x] (rs_publishers (gp_deny p)))
      \<and> (rs_publishers (gp_allow p) = [] \<or> a \<or> b \<or> (\<exists>x. pub = Some x \<and> matches_any [x] (rs_publishers (gp_allow p))))" for a b
    by (cases pub) (auto simp: publisher_blockers_def)
  have extension: "extension_blockers ids a p = [] \<longleftrightarrow> \<not> matches_any ids (gp_revoked_extensions p)
      \<and> \<not> matches_any ids (rs_extensions (gp_deny p)) \<and> (rs_extensions (gp_allow p) = [] \<or> a \<or> matches_any ids (rs_extensions (gp_allow p)))" for a
    by (auto simp: extension_blockers_def)
  have transport: "transport_blockers x p = [] \<longleftrightarrow> x \<notin> set (rs_transports (gp_deny p))
      \<and> (rs_transports (gp_allow p) = [] \<or> x \<in> set (rs_transports (gp_allow p)))" for x
    by (auto simp: transport_blockers_def)
  have pins: "pin_blockers ids v p = [] \<longleftrightarrow> (case first_version_rule ids (gp_version_pins p) of Some (_, pin) \<Rightarrow> v = pin | None \<Rightarrow> True)"
    "range_blockers ids v p = [] \<longleftrightarrow> (case first_version_rule ids (gp_allowed_versions p) of Some (_, cs) \<Rightarrow> list_ex (version_matches v) cs | None \<Rightarrow> True)" for v
    by (auto simp: pin_blockers_def range_blockers_def split: option.split)
  show ?thesis
    using assms(1) unfolding evaluate_extension_def Let_def ids_def [symmetric] pub_def [symmetric]
    by (simp add: version publisher extension transport pins) (cases pub; auto)
qed

text \<open>A policy that allows one publisher, pins nothing and blocks old versions of its extensions.\<close>

definition demo_policy :: gov_policy where
  "demo_policy = EMPTY_POLICY\<lparr>gp_managed := True, gp_allow := no_rules\<lparr>rs_publishers := [lit ''acme*'']\<rparr>,
     gp_deny := no_rules\<lparr>rs_transports := [GovStdio]\<rparr>, gp_revoked_tools := [\<lparr>tr_extension = lit ''files'', tr_tool = lit ''write_*''\<rparr>]\<rparr>"

definition demo_extension :: "gov_transport \<Rightarrow> governed_extension" where
  "demo_extension t = \<lparr>ge_id = lit ''files'', ge_version = lit ''1.2.0'', ge_source = lit ''registry:Acme-tools/files'', ge_transport = t\<rparr>"

theorem governance_decision_witness:
  "gd_allowed (evaluate_extension (demo_extension GovStreamableHttp) demo_policy)
   \<and> \<not> gd_allowed (evaluate_extension (demo_extension GovStdio) demo_policy)"
proof -
  have managed: "gp_managed demo_policy" by (simp add: demo_policy_def)
  have pub: "extension_publisher (lit ''registry:Acme-tools/files'') = Some (lit ''Acme-tools'')"
    by (simp add: extension_publisher_def starts_with_def lit_def)
  have accepted: "wildcard_match (lit ''Acme-tools'') (lit ''acme*'')"
    by (simp add: lit_def to_lower_def is_upper_def between_def is_line_end_def)
  show ?thesis
    using governance_decision [OF managed, of "demo_extension GovStreamableHttp"] governance_decision [OF managed, of "demo_extension GovStdio"]
      pub accepted
    by (simp add: Let_def demo_policy_def demo_extension_def EMPTY_POLICY_def no_rules_def first_version_rule_def matches_any_def)
qed



lemma stricter_approval_ge: "approval_rank (stricter_approval a c) \<ge> approval_rank a"
  by (auto simp: stricter_approval_def split: option.split)

text \<open>
  The organisation can only tighten the policy of a tool. Whatever the policy is, the effective
  policy enables a tool only if the user has, and asks at least as much as the user wants; and
  a managed policy that revokes the tool disables and blocks it.
\<close>

theorem effective_tool_policy_tightens:
  "(tq_enabled (effective_tool_policy x tool q p) \<longrightarrow> tq_enabled q)
   \<and> approval_rank (tq_approval q) \<le> approval_rank (tq_approval (effective_tool_policy x tool q p))
   \<and> (gp_managed p \<and> (\<exists>r\<in>set (gp_revoked_tools p). wildcard_match x (tr_extension r) \<and> wildcard_match tool (tr_tool r))
      \<longrightarrow> effective_tool_policy x tool q p = \<lparr>tq_enabled = False, tq_approval = GovBlocked\<rparr>)"
proof -
  have "approval_rank a \<le> 2" for a by (cases a) (simp_all add: approval_rank_def)
  then show ?thesis
    by (auto simp: effective_tool_policy_def list_ex_iff stricter_approval_ge approval_rank_def [of GovBlocked] split: option.split)
qed

theorem effective_tool_policy_tightens_witness:
  "effective_tool_policy (lit ''files'') (lit ''write_file'') \<lparr>tq_enabled = True, tq_approval = GovAutomatic\<rparr> demo_policy
   = \<lparr>tq_enabled = False, tq_approval = GovBlocked\<rparr>"
proof -
  have "wildcard_match (lit ''files'') (lit ''files'')" "wildcard_match (lit ''write_file'') (lit ''write_*'')"
    by (simp_all add: lit_def to_lower_def is_upper_def between_def is_line_end_def)
  then show ?thesis
    using effective_tool_policy_tightens [of "lit ''files''" "lit ''write_file''" "\<lparr>tq_enabled = True, tq_approval = GovAutomatic\<rparr>" demo_policy]
    by (simp add: demo_policy_def)
qed

subsection \<open>Patterns as languages\<close>

text \<open>The texts that a pattern stands for, by its structure.\<close>

fun pattern_language :: "jstr \<Rightarrow> jstr set" where
  "pattern_language [] = {[]}"
| "pattern_language (p # ps) =
     (if p = 42 then {u @ w | u w. list_all (\<lambda>c. \<not> is_line_end c) u \<and> w \<in> pattern_language ps}
      else if p = 63 then {c # w | c w. \<not> is_line_end c \<and> w \<in> pattern_language ps}
      else {c # w | c w. to_lower c = to_lower p \<and> w \<in> pattern_language ps})"

lemma star: "pattern_language (42 # ps) = {u @ w | u w. list_all (\<lambda>c. \<not> is_line_end c) u \<and> w \<in> pattern_language ps}"
  by simp

lemma star_language:
  "c # cs \<in> pattern_language (42 # ps) \<longleftrightarrow> c # cs \<in> pattern_language ps \<or> (\<not> is_line_end c \<and> cs \<in> pattern_language (42 # ps))"
proof
  assume "c # cs \<in> pattern_language (42 # ps)"
  then obtain u w where u: "c # cs = u @ w" "list_all (\<lambda>c. \<not> is_line_end c) u" "w \<in> pattern_language ps" by auto
  show "c # cs \<in> pattern_language ps \<or> (\<not> is_line_end c \<and> cs \<in> pattern_language (42 # ps))"
  proof (cases u)
    case (Cons a as)
    with u show ?thesis by auto
  qed (use u in simp)
next
  assume "c # cs \<in> pattern_language ps \<or> (\<not> is_line_end c \<and> cs \<in> pattern_language (42 # ps))"
  then show "c # cs \<in> pattern_language (42 # ps)"
  proof
    assume "\<not> is_line_end c \<and> cs \<in> pattern_language (42 # ps)"
    then obtain u w where "cs = u @ w" "list_all (\<lambda>c. \<not> is_line_end c) (c # u)" "w \<in> pattern_language ps" by auto
    then have "c # cs = (c # u) @ w \<and> list_all (\<lambda>c. \<not> is_line_end c) (c # u) \<and> w \<in> pattern_language ps" by simp
    then show ?thesis unfolding star by blast
  next
    assume "c # cs \<in> pattern_language ps"
    then have "c # cs = [] @ (c # cs) \<and> list_all (\<lambda>c. \<not> is_line_end c) [] \<and> c # cs \<in> pattern_language ps" by simp
    then show ?thesis unfolding star by blast
  qed
qed

text \<open>
  The matcher decides the language of the pattern: a text matches exactly when it can be cut
  into pieces for the characters of the pattern, any stretch within a line for a star, one
  character of a line for a question mark, and the same letter in either case otherwise.
\<close>

theorem wildcard_match_language: "wildcard_match s p \<longleftrightarrow> s \<in> pattern_language p"
proof (induction s p rule: wildcard_match.induct)
  case (4 c cs p ps)
  then show ?case
  proof (cases "p = 42")
    case True
    with 4 star_language [of c cs ps] show ?thesis by (simp del: pattern_language.simps)
  qed auto
qed auto

subsection \<open>Versions\<close>

text \<open>A comparator with an operator other than equality, and its bound.\<close>

definition range_token :: "jstr \<Rightarrow> string \<Rightarrow> jstr \<Rightarrow> bool" where
  "range_token token operator bound \<longleftrightarrow> wildcard_parts token = None \<and> token \<noteq> [42] \<and> split_operator token = (operator, bound)
     \<and> operator \<noteq> ''='' \<and> is_comparator_version bound"

lemma label_is_tail: "t = [] \<or> (hd t = 45 \<and> is_label (tl t)) \<Longrightarrow> is_semver_tail t"
proof (cases t)
  case (Cons c cs)
  assume "t = [] \<or> (hd t = 45 \<and> is_label (tl t))"
  with Cons have "cs \<noteq> []" "\<forall>x\<in>set cs. is_label_char x" "c = 45" by (auto simp: is_label_def list_all_iff)
  moreover from this have "takeWhile is_label_char cs \<noteq> []" by (cases cs) simp_all
  ultimately show ?thesis using Cons by (simp add: is_semver_tail_def)
qed (simp add: is_semver_tail_def)

lemma comparator_parses: "is_comparator_version value \<Longrightarrow> \<exists>t. gov_parse_semver value = Some t"
  unfolding is_comparator_version_def gov_parse_semver_def Let_def
  by (elim conjE, drule label_is_tail) (auto simp: semver_triple_def Let_def split: option.split)

text \<open>
  A range decides by the numbers of the version alone: a version that has them satisfies a
  comparator exactly when they compare to those of the bound as the operator says, label and
  build aside; a version without them satisfies no comparator. So a blocked range blocks
  nothing that cannot be read as a version.
\<close>

theorem range_comparison:
  assumes "range_token token operator bound"
  shows "version_token_matches version token \<longleftrightarrow>
    (\<exists>a b. gov_parse_semver version = Some a \<and> gov_parse_semver bound = Some b \<and> compared operator (gov_compare_semver a b))"
  using assms comparator_parses [of bound]
  by (auto simp: range_token_def version_token_matches_def split: option.split)

theorem range_comparison_witness:
  "\<not> version_token_matches (lit ''nightly'') (lit ''<2.0.0'') \<and> version_token_matches (lit ''1.9'') (lit ''<2.0.0'')"
proof -
  have token: "range_token (lit ''<2.0.0'') ''<'' (lit ''2.0.0'')"
    by (simp add: range_token_def wildcard_parts_def drop_v_def lit_def Let_def all_digits_def is_digit_def between_def split_operator_def
        starts_with_def is_comparator_version_def number_parts_def)
  have bound: "gov_parse_semver (lit ''2.0.0'') = Some (2, 0, 0)" "gov_parse_semver (lit ''1.9'') = Some (1, 9, 0)"
    "gov_parse_semver (lit ''nightly'') = None"
    by (simp_all add: gov_parse_semver_def drop_v_def lit_def Let_def is_digit_def between_def number_parts_def all_digits_def
        is_semver_tail_def semver_triple_def number_of_digits_def digits_value_def round_double_exact)
  show ?thesis
    using range_comparison [OF token, of "lit ''nightly''"] range_comparison [OF token, of "lit ''1.9''"] bound
    by (simp add: compared_def gov_compare_semver_def)
qed

end
