(* ===== verification/Mcp_Records.thy ===== *)
theory Mcp_Records
  imports Mcp_Governance Mcp_Extension_Policy
begin

text \<open>
  The data of the MCP extension manager (\<^verbatim>\<open>mcp-extension-manager.ts\<close> with the types of
  \<^verbatim>\<open>shared/mcp-extension-api.ts\<close>): what the SourceNerve backend answers about extensions, tools and
  activity, the input of an installation, environment recipes and rollback snapshots, with their
  parsers. A snapshot whose members have undeclared types is outside the model; only the manager writes snapshots.
\<close>

definition MAX_EXTENSION_ID :: nat where "MAX_EXTENSION_ID = 64"
definition MAX_TOOL_NAME :: nat where "MAX_TOOL_NAME = 128"
definition MAX_ENV_ENTRIES :: nat where "MAX_ENV_ENTRIES = 32"
definition MAX_ENV_VALUE_BYTES :: nat where "MAX_ENV_VALUE_BYTES = 32 * 1024"
definition MAX_ACTIVITY_LIMIT :: nat where "MAX_ACTIVITY_LIMIT = 500"

section \<open>Data\<close>

datatype ext_auth = AuthNone | AuthBearer | AuthOAuth

datatype ext_status = ExtInstalled | ExtEnabled | ExtDisabled | ExtError | ExtUpdating

datatype ext_transport =
    TransportStdio jstr "jstr list" "jstr list option"
  | TransportHttp jstr

record oauth_config =
  oc_authorization_endpoint :: jstr
  oc_token_endpoint :: jstr
  oc_client_id :: "jstr option"
  oc_registration_endpoint :: "jstr option"
  oc_scopes :: "jstr list"
  oc_revoke_endpoint :: "jstr option"
  oc_resource :: "jstr option"
  oc_issuer :: "jstr option"

record env_value =
  ev_name :: jstr
  ev_value :: jstr
  ev_secret :: bool

record install_input =
  in_id :: jstr
  in_name :: jstr
  in_version :: jstr
  in_namespace :: jstr
  in_source :: jstr
  in_transport :: ext_transport
  in_auth :: ext_auth
  in_credential :: "jstr option"
  in_oauth :: "oauth_config option"
  in_environment :: "env_value list option"
  in_required :: "bool option"
  in_channel :: "jstr option"

record extension_record =
  xr_id :: jstr
  xr_name :: jstr
  xr_version :: jstr
  xr_namespace :: jstr
  xr_source :: jstr
  xr_transport :: js
  xr_auth :: ext_auth
  xr_status :: ext_status
  xr_enabled :: bool
  xr_required :: bool
  xr_channel :: jstr
  xr_last_error :: "jstr option"
  xr_created_at :: int
  xr_updated_at :: int

record health_item =
  hi_extension :: extension_record
  hi_discovered :: int
  hi_exposed :: int
  hi_credential :: bool
  hi_environment :: bool

record extension_view =
  vx_id :: jstr
  vx_name :: jstr
  vx_version :: jstr
  vx_namespace :: jstr
  vx_source :: jstr
  vx_transport :: ext_transport
  vx_auth :: ext_auth
  vx_status :: ext_status
  vx_enabled :: bool
  vx_required :: bool
  vx_channel :: jstr
  vx_last_error :: "jstr option"
  vx_credential_configured :: bool
  vx_credential_materialized :: bool
  vx_environment_configured :: bool
  vx_environment_materialized :: bool
  vx_oauth_configured :: bool
  vx_oauth_connected :: bool
  vx_oauth_expires_at :: "int option"
  vx_discovered :: int
  vx_exposed :: int
  vx_created_at :: int
  vx_updated_at :: int

record tool_view =
  tv_extension :: jstr
  tv_original_name :: jstr
  tv_public_name :: jstr
  tv_description :: "jstr option"
  tv_schema_hash :: jstr
  tv_enabled :: bool
  tv_approval :: gov_approval
  tv_read_only :: "bool option"
  tv_destructive :: "bool option"
  tv_idempotent :: "bool option"
  tv_open_world :: "bool option"

record activity_view =
  av_id :: int
  av_occurred_at :: int
  av_principal_kind :: jstr
  av_principal_subject :: jstr
  av_workspace :: "jstr option"
  av_extension :: jstr
  av_extension_version :: jstr
  av_public_tool :: jstr
  av_original_tool :: jstr
  av_schema_hash :: jstr
  av_policy_decision :: jstr
  av_approval_decision :: jstr
  av_result_category :: jstr
  av_duration :: int
  av_error_category :: "jstr option"
  av_diagnostic :: "jstr option"

record approval_result =
  ar_public_tool :: jstr
  ar_expires_in_seconds :: int

record saved_tool =
  st_name :: jstr
  st_enabled :: bool
  st_approval :: gov_approval

record update_snapshot =
  us_input :: install_input
  us_enabled :: bool
  us_tools :: "saved_tool list"

record recipe_field =
  rf_name :: jstr
  rf_required :: bool
  rf_secret :: bool

text \<open>What the decision of the enterprise policy is about.\<close>

definition transport_kind :: "ext_transport \<Rightarrow> gov_transport" where
  "transport_kind t = (case t of TransportStdio _ _ _ \<Rightarrow> GovStdio | TransportHttp _ \<Rightarrow> GovStreamableHttp)"

definition governed_from_install :: "install_input \<Rightarrow> governed_extension" where
  "governed_from_install i = \<lparr>ge_id = in_id i, ge_version = in_version i, ge_source = in_source i,
     ge_transport = transport_kind (in_transport i)\<rparr>"

definition governed_from_view :: "extension_view \<Rightarrow> governed_extension" where
  "governed_from_view v = \<lparr>ge_id = vx_id v, ge_version = vx_version v, ge_source = vx_source v,
     ge_transport = transport_kind (vx_transport v)\<rparr>"

section \<open>Names\<close>

definition auth_types :: "(string \<times> ext_auth) list" where
  "auth_types = [(''none'', AuthNone), (''bearer'', AuthBearer), (''oauth'', AuthOAuth)]"

definition ext_statuses :: "(string \<times> ext_status) list" where
  "ext_statuses = [(''installed'', ExtInstalled), (''enabled'', ExtEnabled), (''disabled'', ExtDisabled), (''error'', ExtError),
     (''updating'', ExtUpdating)]"

definition name_in :: "(string \<times> 'a) list \<Rightarrow> js \<Rightarrow> 'a option" where
  "name_in table v = (case v of JStr s \<Rightarrow> named table s | _ \<Rightarrow> None)"

definition POLICY_DECISIONS :: "string list" where
  "POLICY_DECISIONS = [''allow'', ''blocked'', ''ask'', ''authorization-denied'', ''configuration-error'']"

definition APPROVAL_DECISIONS :: "string list" where
  "APPROVAL_DECISIONS = [''not-required'', ''approved'', ''missing'', ''not-applicable'']"

definition RESULT_CATEGORIES :: "string list" where
  "RESULT_CATEGORIES = [''success'', ''denied'', ''approval-required'', ''configuration-error'', ''downstream-error'']"

definition PRINCIPAL_KINDS :: "string list" where
  "PRINCIPAL_KINDS = [''operator'', ''oauth'']"

text \<open>\<^verbatim>\<open>value && value.length <= 64 && /^[a-z0-9_-]+$/\<close>\<close>

definition valid_extension_id :: "jstr \<Rightarrow> bool" where
  "valid_extension_id s = (s \<noteq> [] \<and> length s \<le> MAX_EXTENSION_ID \<and> list_all is_slug_char s)"

definition validate_extension_id :: "jstr \<Rightarrow> unit res" where
  "validate_extension_id s =
     (if valid_extension_id s then Inr () else throw (''MCP extension id must use lowercase letters, digits, '' @ [CHR 0x27, CHR ''_'', CHR 0x27] @ '' or '' @ [CHR 0x27, CHR ''-'', CHR 0x27]))"

definition extension_key :: "string \<Rightarrow> jstr \<Rightarrow> jstr res" where
  "extension_key kind extensionId =
     and_then (validate_extension_id extensionId) (\<lambda>_. Inr (lit ''mcp-extension:'' @ extensionId @ lit kind))"

definition secret_key :: "jstr \<Rightarrow> jstr res" where
  "secret_key = extension_key '':credential''"

definition environment_key :: "jstr \<Rightarrow> jstr res" where
  "environment_key = extension_key '':environment''"

definition update_backup_key :: "jstr \<Rightarrow> jstr res" where
  "update_backup_key = extension_key '':update-backup''"

section \<open>Members\<close>

definition text_member :: "js \<Rightarrow> string \<Rightarrow> jstr option" where
  "text_member v k = (case jget v k of JStr s \<Rightarrow> Some s | _ \<Rightarrow> None)"

definition bool_member :: "js \<Rightarrow> string \<Rightarrow> bool option" where
  "bool_member v k = (case jget v k of JBool b \<Rightarrow> Some b | _ \<Rightarrow> None)"

definition count_member :: "js \<Rightarrow> string \<Rightarrow> int option" where
  "count_member v k = (case safe_int (jget v k) of Some i \<Rightarrow> if 0 \<le> i then Some i else None | None \<Rightarrow> None)"

text \<open>\<open>required\<close> reads a member that the answer must have, \<open>message\<close> is the error of its absence.\<close>

definition required_member :: "string \<Rightarrow> 'a option \<Rightarrow> 'a res" where
  "required_member message r = (case r of Some x \<Rightarrow> Inr x | None \<Rightarrow> throw message)"

lemma required_member_Inr [simp]: "required_member m r = Inr x \<longleftrightarrow> r = Some x"
  by (auto simp: required_member_def throw_def split: option.splits)

section \<open>Extensions\<close>

definition all_texts :: "js list \<Rightarrow> jstr list option" where
  "all_texts vs = (if list_all (str_sat (\<lambda>_. True)) vs then Some (map (\<lambda>v. case v of JStr s \<Rightarrow> s | _ \<Rightarrow> []) vs) else None)"

definition parse_ext_transport :: "js \<Rightarrow> ext_transport res" where
  "parse_ext_transport v =
     (if \<not> is_record v then throw ''MCP extension transport is invalid''
      else case (jget v ''transport'' = jtext ''stdio'', text_member v ''command'', jget v ''args'') of
          (True, Some command, JArr items) \<Rightarrow> (case all_texts items of
              Some args \<Rightarrow> Inr (TransportStdio command args None)
            | None \<Rightarrow> throw ''MCP extension transport is invalid'')
        | _ \<Rightarrow> (case (jget v ''transport'' = jtext ''streamable-http'', text_member v ''url'') of
              (True, Some u) \<Rightarrow> Inr (TransportHttp u)
            | _ \<Rightarrow> throw ''MCP extension transport is invalid''))"

definition parse_extension :: "js \<Rightarrow> extension_record res" where
  "parse_extension v =
     and_then (required_member ''MCP extension record is invalid'' (text_member v ''id'')) (\<lambda>i.
      and_then (required_member ''MCP extension record is invalid'' (text_member v ''name'')) (\<lambda>name.
      and_then (required_member ''MCP extension record is invalid'' (text_member v ''version'')) (\<lambda>version.
      and_then (required_member ''MCP extension record is invalid'' (text_member v ''namespace'')) (\<lambda>namespace.
      and_then (required_member ''MCP extension record is invalid'' (text_member v ''source'')) (\<lambda>source.
      and_then (required_member ''MCP extension record is invalid'' (name_in auth_types (jget v ''auth_type''))) (\<lambda>auth.
      and_then (required_member ''MCP extension record is invalid'' (name_in ext_statuses (jget v ''status''))) (\<lambda>st.
      and_then (required_member ''MCP extension record is invalid'' (bool_member v ''enabled'')) (\<lambda>enabled.
      and_then (required_member ''MCP extension record is invalid'' (bool_member v ''required'')) (\<lambda>required.
      and_then (required_member ''MCP extension record is invalid'' (text_member v ''update_channel'')) (\<lambda>channel.
      and_then (required_member ''MCP extension record is invalid'' (safe_int (jget v ''created_at''))) (\<lambda>created.
      and_then (required_member ''MCP extension record is invalid'' (safe_int (jget v ''updated_at''))) (\<lambda>updated.
        if \<not> is_record (jget v ''transport'') then throw ''MCP extension record is invalid''
        else Inr \<lparr>xr_id = i, xr_name = name, xr_version = version, xr_namespace = namespace, xr_source = source,
          xr_transport = jget v ''transport'', xr_auth = auth, xr_status = st, xr_enabled = enabled, xr_required = required,
          xr_channel = channel, xr_last_error = text_member v ''last_error'', xr_created_at = created,
          xr_updated_at = updated\<rparr>))))))))))))"

definition parse_health_item :: "js \<Rightarrow> health_item res" where
  "parse_health_item v =
     (if \<not> is_record v \<or> \<not> is_record (jget v ''extension'') then throw ''MCP extension health item is invalid''
      else and_then (parse_extension (jget v ''extension'')) (\<lambda>extension.
        and_then (required_member ''MCP extension health counters are invalid'' (count_member v ''discovered_tools'')) (\<lambda>discovered.
        and_then (required_member ''MCP extension health counters are invalid'' (count_member v ''exposed_tools'')) (\<lambda>exposed.
        and_then (required_member ''MCP extension health counters are invalid'' (bool_member v ''credential_materialized'')) (\<lambda>credential.
          Inr \<lparr>hi_extension = extension, hi_discovered = discovered, hi_exposed = exposed, hi_credential = credential,
            hi_environment = (bool_member v ''environment_materialized'' = Some True)\<rparr>)))))"

definition parse_health_list :: "js \<Rightarrow> health_item list res" where
  "parse_health_list v = (case v of
      JArr items \<Rightarrow> map_res parse_health_item items
    | _ \<Rightarrow> throw ''SourceNerve MCP extension health response is invalid'')"

section \<open>Tools\<close>

definition parse_tool :: "js \<Rightarrow> tool_view res" where
  "parse_tool v =
     (let policy = jget v ''policy''; c = jget policy ''classification'' in
      if \<not> is_record v \<or> \<not> is_record policy \<or> \<not> is_record c then throw ''MCP extension tool item is invalid''
      else
        and_then (required_member ''MCP extension tool fields are invalid'' (text_member v ''extension_id'')) (\<lambda>extension.
        and_then (required_member ''MCP extension tool fields are invalid'' (text_member v ''original_name'')) (\<lambda>original.
        and_then (required_member ''MCP extension tool fields are invalid'' (text_member v ''public_name'')) (\<lambda>public.
        and_then (required_member ''MCP extension tool fields are invalid'' (text_member v ''schema_hash'')) (\<lambda>schema.
        and_then (required_member ''MCP extension tool fields are invalid'' (bool_member policy ''enabled'')) (\<lambda>enabled.
        and_then (required_member ''MCP extension tool fields are invalid'' (name_in gov_approvals (jget policy ''approval''))) (\<lambda>approval.
          Inr \<lparr>tv_extension = extension, tv_original_name = original, tv_public_name = public,
            tv_description = text_member v ''description'', tv_schema_hash = schema, tv_enabled = enabled, tv_approval = approval,
            tv_read_only = bool_member c ''read_only'', tv_destructive = bool_member c ''destructive'',
            tv_idempotent = bool_member c ''idempotent'', tv_open_world = bool_member c ''open_world''\<rparr>)))))))"

definition parse_tools :: "js \<Rightarrow> tool_view list res" where
  "parse_tools v = (case v of
      JArr items \<Rightarrow> map_res parse_tool items
    | _ \<Rightarrow> throw ''MCP extension tool response is invalid'')"

definition parse_removed :: "js \<Rightarrow> bool res" where
  "parse_removed v =
     (if \<not> is_record v then throw ''MCP extension remove response is invalid''
      else required_member ''MCP extension remove response is invalid'' (bool_member v ''removed''))"

definition parse_approval_result :: "js \<Rightarrow> approval_result res" where
  "parse_approval_result v =
     (if \<not> is_record v \<or> jget v ''approved_once'' \<noteq> JBool True then throw ''MCP extension approval response is invalid''
      else and_then (required_member ''MCP extension approval response is invalid'' (text_member v ''public_tool'')) (\<lambda>tool.
        and_then (required_member ''MCP extension approval response is invalid'' (count_member v ''expires_in_seconds'')) (\<lambda>seconds.
          Inr \<lparr>ar_public_tool = tool, ar_expires_in_seconds = seconds\<rparr>)))"

section \<open>Activity\<close>

definition ACTIVITY_RESPONSE_FIELDS :: "string list" where
  "ACTIVITY_RESPONSE_FIELDS = [''id'', ''occurred_at'', ''principal_kind'', ''principal_subject'', ''workspace_id'', ''extension_id'',
     ''extension_version'', ''public_tool'', ''original_tool'', ''schema_hash'', ''policy_decision'', ''approval_decision'',
     ''result_category'', ''duration_ms'', ''error_category'', ''diagnostic'']"

definition bounded_activity_text :: "nat \<Rightarrow> js \<Rightarrow> jstr option" where
  "bounded_activity_text hi v = (case v of
      JStr s \<Rightarrow> if 1 \<le> length s \<and> length s \<le> hi \<and> \<not> has_control s then Some s else None
    | _ \<Rightarrow> None)"

definition nullable_activity_text :: "nat \<Rightarrow> js \<Rightarrow> jstr option option" where
  "nullable_activity_text hi v = (if is_nullish v then Some None else map_option Some (bounded_activity_text hi v))"

definition one_of_names :: "string list \<Rightarrow> js \<Rightarrow> jstr option" where
  "one_of_names names v = (case v of JStr s \<Rightarrow> if s \<in> set (map lit names) then Some s else None | _ \<Rightarrow> None)"

definition activity_field :: "'a option \<Rightarrow> 'a res" where
  "activity_field = required_member ''MCP extension activity fields are invalid''"

definition parse_activity :: "js \<Rightarrow> activity_view res" where
  "parse_activity v =
     (if \<not> record_of ACTIVITY_RESPONSE_FIELDS v then throw ''MCP extension activity item contains unsupported fields''
      else
        and_then (activity_field (count_member v ''id'')) (\<lambda>i.
        and_then (activity_field (count_member v ''occurred_at'')) (\<lambda>occurred.
        and_then (activity_field (one_of_names PRINCIPAL_KINDS (jget v ''principal_kind''))) (\<lambda>kind.
        and_then (activity_field (bounded_activity_text 512 (jget v ''principal_subject''))) (\<lambda>subject.
        and_then (activity_field (bounded_activity_text 64 (jget v ''extension_id''))) (\<lambda>extension.
        and_then (activity_field (bounded_activity_text 64 (jget v ''extension_version''))) (\<lambda>version.
        and_then (activity_field (bounded_activity_text 120 (jget v ''public_tool''))) (\<lambda>public.
        and_then (activity_field (bounded_activity_text 128 (jget v ''original_tool''))) (\<lambda>original.
        and_then (activity_field (bounded_activity_text 128 (jget v ''schema_hash''))) (\<lambda>schema.
        and_then (activity_field (one_of_names POLICY_DECISIONS (jget v ''policy_decision''))) (\<lambda>policy.
        and_then (activity_field (one_of_names APPROVAL_DECISIONS (jget v ''approval_decision''))) (\<lambda>approval.
        and_then (activity_field (one_of_names RESULT_CATEGORIES (jget v ''result_category''))) (\<lambda>category.
        and_then (activity_field (count_member v ''duration_ms'')) (\<lambda>duration.
        and_then (activity_field (nullable_activity_text 128 (jget v ''workspace_id''))) (\<lambda>workspace.
        and_then (activity_field (nullable_activity_text 64 (jget v ''error_category''))) (\<lambda>category_of_error.
        and_then (activity_field (nullable_activity_text 256 (jget v ''diagnostic''))) (\<lambda>diagnostic.
          Inr \<lparr>av_id = i, av_occurred_at = occurred, av_principal_kind = kind, av_principal_subject = subject, av_workspace = workspace,
            av_extension = extension, av_extension_version = version, av_public_tool = public, av_original_tool = original,
            av_schema_hash = schema, av_policy_decision = policy, av_approval_decision = approval, av_result_category = category,
            av_duration = duration, av_error_category = category_of_error, av_diagnostic = diagnostic\<rparr>)))))))))))))))))"

definition parse_activity_list :: "js \<Rightarrow> activity_view list res" where
  "parse_activity_list v = (case v of
      JArr items \<Rightarrow>
        if length items > MAX_ACTIVITY_LIMIT then throw ''MCP extension activity response exceeds the Desktop bound''
        else map_res parse_activity items
    | _ \<Rightarrow> throw ''MCP extension activity response is invalid'')"

section \<open>Environment recipes\<close>

definition env_item :: "jstr list \<Rightarrow> js \<Rightarrow> env_value option" where
  "env_item names item = (case (jget item ''name'', jget item ''value'', jget item ''secret'') of
      (JStr n, JStr v, JBool b) \<Rightarrow>
        if is_record item \<and> env_name n \<and> length v \<le> MAX_ENV_VALUE_BYTES \<and> \<not> has_nul v \<and> n \<notin> set names
        then Some \<lparr>ev_name = n, ev_value = v, ev_secret = b\<rparr> else None
    | _ \<Rightarrow> None)"

fun env_items :: "jstr list \<Rightarrow> js list \<Rightarrow> env_value list res" where
  "env_items names [] = Inr []"
| "env_items names (item # items) = (case env_item names item of
      None \<Rightarrow> throw ''MCP extension environment recipe is invalid''
    | Some e \<Rightarrow> and_then (env_items (ev_name e # names) items) (\<lambda>es. Inr (e # es)))"

definition validate_environment_values :: "js \<Rightarrow> env_value list res" where
  "validate_environment_values v = (case v of
      JArr items \<Rightarrow>
        if length items > MAX_ENV_ENTRIES then throw ''MCP extension environment may contain at most 32 values''
        else env_items [] items
    | _ \<Rightarrow> throw ''MCP extension environment may contain at most 32 values'')"

text \<open>The array of objects that a list of values is.\<close>

definition env_js :: "env_value list \<Rightarrow> js" where
  "env_js vs = JArr (map (\<lambda>e. JObj [(lit ''name'', JStr (ev_name e)), (lit ''value'', JStr (ev_value e)), (lit ''secret'', JBool (ev_secret e))]) vs)"

definition environment_record :: "env_value list \<Rightarrow> (jstr \<times> jstr) list" where
  "environment_record vs = map (\<lambda>e. (ev_name e, ev_value e)) vs"

definition find_field :: "recipe_field list \<Rightarrow> jstr \<Rightarrow> recipe_field option" where
  "find_field recipe name = find (\<lambda>f. rf_name f = name) (rev recipe)"

fun check_recipe_values :: "recipe_field list \<Rightarrow> env_value list \<Rightarrow> unit res" where
  "check_recipe_values recipe [] = Inr ()"
| "check_recipe_values recipe (e # es) = (case find_field recipe (ev_name e) of
      None \<Rightarrow> Inl (lit ''Environment value '' @ ev_name e @ lit '' is not declared by the MCP Registry recipe'')
    | Some f \<Rightarrow>
        if rf_secret f \<and> \<not> ev_secret e then Inl (lit ''Environment value '' @ ev_name e @ lit '' must be stored as a secret'')
        else check_recipe_values recipe es)"

definition validate_recipe_values :: "recipe_field list \<Rightarrow> env_value list \<Rightarrow> env_value list res" where
  "validate_recipe_values recipe vs =
     and_then (validate_environment_values (env_js vs)) (\<lambda>validated.
     and_then (check_recipe_values recipe validated) (\<lambda>_.
       case find (\<lambda>f. rf_required f \<and> \<not> list_ex (\<lambda>e. ev_name e = rf_name f \<and> ev_value e \<noteq> []) validated) recipe of
         Some f \<Rightarrow> Inl (lit ''MCP Registry recipe requires '' @ rf_name f)
       | None \<Rightarrow> Inr validated))"

definition validate_stored_recipe :: "recipe_field list \<Rightarrow> env_value list \<Rightarrow> unit res" where
  "validate_stored_recipe recipe vs =
     (case find (\<lambda>f. rf_required f \<and> rf_name f \<notin> set (map ev_name vs)) recipe of
        Some f \<Rightarrow> Inl (lit ''MCP update introduces required environment value '' @ rf_name f
          @ lit ''; review the install recipe before updating'')
      | None \<Rightarrow> Inr ())"

section \<open>Installation inputs\<close>

text \<open>The checks of the types of the members hold of every input.\<close>

definition blank :: "jstr \<Rightarrow> bool" where
  "blank s = (trim s = [])"

definition validate_install_input :: "install_input \<Rightarrow> unit res" where
  "validate_install_input i =
     and_then (validate_extension_id (in_id i)) (\<lambda>_.
       if blank (in_name i) \<or> length (in_name i) > 128 then throw ''MCP extension name is invalid''
       else if blank (in_version i) \<or> length (in_version i) > 64 then throw ''MCP extension version is invalid''
       else if in_namespace i = [] \<or> in_namespace i = lit ''sourcenerve'' \<or> length (in_namespace i) > 48
           \<or> \<not> list_all is_slug_char (in_namespace i) then throw ''MCP extension namespace is invalid or reserved''
       else if blank (in_source i) \<or> length (in_source i) > 2048 then throw ''MCP extension source is invalid''
       else if in_auth i = AuthBearer \<and> truthy_text (in_credential i) = None
         then throw ''Bearer-authenticated MCP extensions require a credential at install time''
       else if in_auth i = AuthOAuth \<and> in_oauth i = None
         then throw ''OAuth MCP extensions require discovered or explicit OAuth configuration''
       else if in_auth i \<noteq> AuthOAuth \<and> in_oauth i \<noteq> None
         then throw ''OAuth configuration is only valid for OAuth MCP extensions''
       else case in_environment i of
           Some vs \<Rightarrow> and_then (validate_environment_values (env_js vs)) (\<lambda>_. Inr ())
         | None \<Rightarrow> Inr ())"

definition validate_install_input_for_snapshot :: "install_input \<Rightarrow> unit res" where
  "validate_install_input_for_snapshot i =
     validate_install_input (i\<lparr>in_credential := if in_auth i = AuthBearer then Some (lit ''snapshot-placeholder'') else None\<rparr>)"

definition strip_environment_transport_metadata :: "install_input \<Rightarrow> install_input" where
  "strip_environment_transport_metadata i = (case in_transport i of
      TransportStdio command args (Some _) \<Rightarrow> i\<lparr>in_transport := TransportStdio command args None\<rparr>
    | _ \<Rightarrow> i)"

definition merge_oauth_client_identity :: "install_input \<Rightarrow> install_input \<Rightarrow> install_input" where
  "merge_oauth_client_identity previous nxt = (case (in_oauth previous, in_oauth nxt) of
      (Some p, Some n) \<Rightarrow>
        if in_auth previous \<noteq> AuthOAuth \<or> in_auth nxt \<noteq> AuthOAuth \<or> truthy_text (oc_client_id p) = None
            \<or> truthy_text (oc_client_id n) \<noteq> None then nxt
        else if truthy_text (oc_issuer p) = None \<or> truthy_text (oc_issuer n) = None \<or> oc_issuer p \<noteq> oc_issuer n then nxt
        else nxt\<lparr>in_oauth := Some (n\<lparr>oc_client_id := oc_client_id p\<rparr>)\<rparr>
    | _ \<Rightarrow> nxt)"

text \<open>\<^verbatim>\<open>/^[A-Za-z0-9.-]+\/[A-Za-z0-9._-]+$/\<close> after the prefix\<close>

definition registry_server_name :: "jstr \<Rightarrow> jstr res" where
  "registry_server_name source =
     (if \<not> starts_with (lit ''registry:'') source
      then throw ''Only marketplace-backed MCP extensions support automatic update/rollback''
      else let value = drop 9 source in
        case split_on 47 value of
          [owner, name] \<Rightarrow>
            if owner \<noteq> [] \<and> list_all (\<lambda>c. is_alnum c \<or> c = 46 \<or> c = 45) owner \<and> name \<noteq> [] \<and> list_all is_id_char name
            then Inr value else throw ''Installed MCP marketplace source is invalid''
        | _ \<Rightarrow> throw ''Installed MCP marketplace source is invalid'')"

text \<open>\<^verbatim>\<open>message.replace(/[\r\n\0]+/g, " ").slice(0, 512)\<close>\<close>

fun collapse_breaks :: "jstr \<Rightarrow> jstr" where
  "collapse_breaks [] = []"
| "collapse_breaks [c] = (if c \<in> {13, 10, 0} then [32] else [c])"
| "collapse_breaks (c # d # cs) =
     (if c \<in> {13, 10, 0} then (if d \<in> {13, 10, 0} then collapse_breaks (d # cs) else 32 # collapse_breaks (d # cs))
      else c # collapse_breaks (d # cs))"

definition ext_safe_message :: "jstr \<Rightarrow> jstr" where
  "ext_safe_message message = take 512 (collapse_breaks message)"

section \<open>Rollback snapshots\<close>

text \<open>\<^verbatim>\<open>JSON.stringify\<close> leaves out the members that are absent.\<close>

definition members :: "(string \<times> js option) list \<Rightarrow> js" where
  "members ms = JObj (List.map_filter (\<lambda>(k, v). map_option (Pair (lit k)) v) ms)"

definition jtexts :: "jstr list \<Rightarrow> js" where
  "jtexts xs = JArr (map JStr xs)"

definition table_name :: "(string \<times> 'a) list \<Rightarrow> 'a \<Rightarrow> js" where
  "table_name table x = (case find (\<lambda>e. snd e = x) table of Some e \<Rightarrow> jtext (fst e) | None \<Rightarrow> JUndef)"

definition transport_js :: "ext_transport \<Rightarrow> js" where
  "transport_js t = (case t of
      TransportStdio command args env \<Rightarrow> members [(''transport'', Some (jtext ''stdio'')), (''command'', Some (JStr command)),
        (''args'', Some (jtexts args)), (''environment'', map_option jtexts env)]
    | TransportHttp u \<Rightarrow> members [(''transport'', Some (jtext ''streamable-http'')), (''url'', Some (JStr u))])"

definition oauth_js :: "oauth_config \<Rightarrow> js" where
  "oauth_js c = members [(''authorizationEndpoint'', Some (JStr (oc_authorization_endpoint c))),
     (''tokenEndpoint'', Some (JStr (oc_token_endpoint c))), (''clientId'', map_option JStr (oc_client_id c)),
     (''registrationEndpoint'', map_option JStr (oc_registration_endpoint c)), (''scopes'', Some (jtexts (oc_scopes c))),
     (''revokeEndpoint'', map_option JStr (oc_revoke_endpoint c)), (''resource'', map_option JStr (oc_resource c)),
     (''issuer'', map_option JStr (oc_issuer c))]"

definition install_js :: "install_input \<Rightarrow> js" where
  "install_js i = members [(''id'', Some (JStr (in_id i))), (''name'', Some (JStr (in_name i))), (''version'', Some (JStr (in_version i))),
     (''namespace'', Some (JStr (in_namespace i))), (''source'', Some (JStr (in_source i))),
     (''transport'', Some (transport_js (in_transport i))), (''authType'', Some (table_name auth_types (in_auth i))),
     (''credential'', map_option JStr (in_credential i)), (''oauth'', map_option oauth_js (in_oauth i)),
     (''environment'', map_option env_js (in_environment i)), (''required'', map_option JBool (in_required i)),
     (''updateChannel'', map_option JStr (in_channel i))]"

definition saved_tool_js :: "saved_tool \<Rightarrow> js" where
  "saved_tool_js t = members [(''toolName'', Some (JStr (st_name t))), (''enabled'', Some (JBool (st_enabled t))),
     (''approval'', Some (table_name gov_approvals (st_approval t)))]"

definition backup_js :: "update_snapshot \<Rightarrow> js" where
  "backup_js s = members [(''schemaVersion'', Some (jint 1)), (''input'', Some (install_js (us_input s))),
     (''enabled'', Some (JBool (us_enabled s))), (''tools'', Some (JArr (map saved_tool_js (us_tools s))))]"

text \<open>The object that a snapshot holds, read at its declared types; \<open>None\<close> if a member has another type.\<close>

definition opt_member :: "(js \<Rightarrow> 'a option) \<Rightarrow> js \<Rightarrow> string \<Rightarrow> 'a option option" where
  "opt_member f v k = (if jget v k = JUndef then Some None else map_option Some (f (jget v k)))"

definition as_text :: "js \<Rightarrow> jstr option" where
  "as_text v = (case v of JStr s \<Rightarrow> Some s | _ \<Rightarrow> None)"

definition as_bool :: "js \<Rightarrow> bool option" where
  "as_bool v = (case v of JBool b \<Rightarrow> Some b | _ \<Rightarrow> None)"

definition as_texts :: "js \<Rightarrow> jstr list option" where
  "as_texts v = (case v of JArr xs \<Rightarrow> all_texts xs | _ \<Rightarrow> None)"

definition oauth_of_js :: "js \<Rightarrow> oauth_config option" where
  "oauth_of_js v =
     (case (text_member v ''authorizationEndpoint'', text_member v ''tokenEndpoint'', as_texts (jget v ''scopes''),
         opt_member as_text v ''clientId'', opt_member as_text v ''registrationEndpoint'', opt_member as_text v ''revokeEndpoint'',
         opt_member as_text v ''resource'', opt_member as_text v ''issuer'') of
        (Some a, Some t, Some scopes, Some client, Some reg, Some revoke, Some resource, Some issuer) \<Rightarrow>
          Some \<lparr>oc_authorization_endpoint = a, oc_token_endpoint = t, oc_client_id = client, oc_registration_endpoint = reg,
            oc_scopes = scopes, oc_revoke_endpoint = revoke, oc_resource = resource, oc_issuer = issuer\<rparr>
      | _ \<Rightarrow> None)"

definition env_of_js :: "js \<Rightarrow> env_value list option" where
  "env_of_js v = (case validate_environment_values v of Inr es \<Rightarrow> Some es | Inl _ \<Rightarrow> None)"

definition install_of_js :: "js \<Rightarrow> install_input option" where
  "install_of_js v =
     (case (text_member v ''id'', text_member v ''name'', text_member v ''version'', text_member v ''namespace'', text_member v ''source'',
         parse_ext_transport (jget v ''transport''), name_in auth_types (jget v ''authType''), opt_member as_text v ''credential'',
         opt_member oauth_of_js v ''oauth'', opt_member env_of_js v ''environment'', opt_member as_bool v ''required'',
         opt_member as_text v ''updateChannel'') of
        (Some i, Some name, Some version, Some namespace, Some source, Inr transport, Some auth, Some credential, Some oauth,
         Some env, Some required, Some channel) \<Rightarrow>
          Some \<lparr>in_id = i, in_name = name, in_version = version, in_namespace = namespace, in_source = source,
            in_transport = transport, in_auth = auth, in_credential = credential, in_oauth = oauth, in_environment = env,
            in_required = required, in_channel = channel\<rparr>
      | _ \<Rightarrow> None)"

definition parse_saved_tool :: "js \<Rightarrow> saved_tool res" where
  "parse_saved_tool v =
     (case (text_member v ''toolName'', bool_member v ''enabled'', name_in gov_approvals (jget v ''approval'')) of
        (Some name, Some enabled, Some approval) \<Rightarrow>
          if is_record v \<and> length name \<le> MAX_TOOL_NAME then Inr \<lparr>st_name = name, st_enabled = enabled, st_approval = approval\<rparr>
          else throw ''rollback snapshot tool policy is invalid''
      | _ \<Rightarrow> throw ''rollback snapshot tool policy is invalid'')"

definition parse_update_snapshot :: "js \<Rightarrow> update_snapshot res" where
  "parse_update_snapshot v =
     (if \<not> is_record v \<or> jget v ''schemaVersion'' \<noteq> jint 1 \<or> \<not> is_record (jget v ''input'')
      then throw ''rollback snapshot schema is invalid''
      else and_then (required_member ''rollback snapshot schema is invalid'' (install_of_js (jget v ''input''))) (\<lambda>input.
        and_then (validate_install_input_for_snapshot input) (\<lambda>_.
          case (bool_member v ''enabled'', jget v ''tools'') of
            (Some enabled, JArr items) \<Rightarrow> and_then (map_res parse_saved_tool items) (\<lambda>tools.
              Inr \<lparr>us_input = input, us_enabled = enabled, us_tools = tools\<rparr>)
          | _ \<Rightarrow> throw ''rollback snapshot state is invalid'')))"

end
