(* ===== verification/Io_Hoare.thy ===== *)
theory Io_Hoare
  imports Io_Trace
begin

text \<open>
  A Hoare calculus for code that calls its environment and logs the calls: \<open>hoare P m Q\<close> says that every
  run of \<open>m\<close> from a log with \<open>P\<close> ends with a result and a log related by \<open>Q\<close>. A computation is \<open>quietly\<close>
  with respect to a property of single calls if all calls it adds have it; such a computation keeps
  what the log already shows.
\<close>

section \<open>More control structures\<close>

text \<open>\<^verbatim>\<open>for (const x of xs) result.push(await f(x))\<close>\<close>

fun io_map :: "('x \<Rightarrow> ('w, 'a) io) \<Rightarrow> 'x list \<Rightarrow> ('w, 'a list) io" where
  "io_map f [] = io_return []"
| "io_map f (x # xs) = io_bind (f x) (\<lambda>y. io_bind (io_map f xs) (\<lambda>ys. io_return (y # ys)))"

text \<open>\<^verbatim>\<open>try { return await m } finally { await f }\<close>\<close>

definition io_after :: "('w, 'a) io \<Rightarrow> ('w, unit) io \<Rightarrow> ('w, 'a) io" where
  "io_after m f w = (case m w of (r, w1) \<Rightarrow> (case f w1 of (Inl e, w2) \<Rightarrow> (Inl e, w2) | (Inr _, w2) \<Rightarrow> (r, w2)))"

definition io_when :: "bool \<Rightarrow> ('w, unit) io \<Rightarrow> ('w, unit) io" where
  "io_when b m = (if b then m else io_return ())"

lemma io_bind_lift: "io_bind (io_lift (Inr a)) f = f a" "io_bind (io_lift (Inl e)) f = io_lift (Inl e)"
  by (rule ext, simp add: io_lift_def)+

lemma io_map_Inr:
  "io_map f xs w = (Inr ys, w') \<Longrightarrow> list_all2 (\<lambda>x y. \<exists>w1 w2. f x w1 = (Inr y, w2)) xs ys"
proof (induction xs arbitrary: w ys w')
  case (Cons x xs)
  then obtain y w1 zs w2 where "f x w = (Inr y, w1)" "io_map f xs w1 = (Inr zs, w2)" "ys = y # zs"
    by (auto simp: io_return_def elim!: io_bindE)
  then show ?case using Cons.IH by auto
qed (simp add: io_return_def)

section \<open>Triples\<close>

definition hoare :: "('c list \<Rightarrow> bool) \<Rightarrow> ('w \<times> 'c list, 'a) io \<Rightarrow> ('a res \<Rightarrow> 'c list \<Rightarrow> bool) \<Rightarrow> bool" where
  "hoare P m Q \<longleftrightarrow> (\<forall>w l r w' l'. P l \<longrightarrow> m (w, l) = (r, (w', l')) \<longrightarrow> Q r l')"

lemma hoareD: "hoare P m Q \<Longrightarrow> m (w, l) = (r, (w', l')) \<Longrightarrow> P l \<Longrightarrow> Q r l'"
  unfolding hoare_def by blast

lemma hoare_weaken:
  "hoare P m Q \<Longrightarrow> (\<And>l. P' l \<Longrightarrow> P l) \<Longrightarrow> (\<And>r l. Q r l \<Longrightarrow> Q' r l) \<Longrightarrow> hoare P' m Q'"
  unfolding hoare_def by blast

lemma hoare_pre: "hoare P m Q \<Longrightarrow> (\<And>l. P' l \<Longrightarrow> P l) \<Longrightarrow> hoare P' m Q"
  unfolding hoare_def by blast

lemma hoare_post: "hoare P m Q \<Longrightarrow> (\<And>r l. Q r l \<Longrightarrow> Q' r l) \<Longrightarrow> hoare P m Q'"
  unfolding hoare_def by blast

lemma hoare_conj: "hoare P m Q1 \<Longrightarrow> hoare P m Q2 \<Longrightarrow> hoare P m (\<lambda>r l. Q1 r l \<and> Q2 r l)"
  unfolding hoare_def by blast

lemma hoare_lift: "(\<And>l. P l \<Longrightarrow> Q r l) \<Longrightarrow> hoare P (io_lift r) Q"
  unfolding hoare_def by (auto simp: io_lift_def)

lemma hoare_return: "(\<And>l. P l \<Longrightarrow> Q (Inr a) l) \<Longrightarrow> hoare P (io_return a) Q"
  unfolding hoare_def by (auto simp: io_return_def)

lemma hoare_bind:
  assumes "hoare P m Q1" "\<And>a. hoare (Q1 (Inr a)) (f a) Q" "\<And>e l. Q1 (Inl e) l \<Longrightarrow> Q (Inl e) l"
  shows "hoare P (io_bind m f) Q"
  unfolding hoare_def
proof (intro allI impI)
  fix w l r w' l'
  assume P: "P l" and run: "io_bind m f (w, l) = (r, (w', l'))"
  from run show "Q r l'"
  proof (cases rule: io_bind_anyE)
    case (1 e)
    then show ?thesis using hoareD [OF assms(1) 1(1) P] assms(3) by blast
  next
    case (2 a w1)
    obtain x k where w1: "w1 = (x, k)" by (cases w1)
    show ?thesis using hoareD [OF assms(2) 2(2) [unfolded w1] hoareD [OF assms(1) 2(1) [unfolded w1] P]] .
  qed
qed

lemma hoare_catch:
  assumes "hoare P m Q1" "\<And>e. hoare (Q1 (Inl e)) (h e) Q" "\<And>a l. Q1 (Inr a) l \<Longrightarrow> Q (Inr a) l"
  shows "hoare P (io_catch m h) Q"
  unfolding hoare_def
proof (intro allI impI)
  fix w l r w' l'
  assume P: "P l" and run: "io_catch m h (w, l) = (r, (w', l'))"
  obtain r1 x k where m: "m (w, l) = (r1, (x, k))" by (metis prod.exhaust)
  note q = hoareD [OF assms(1) m P]
  show "Q r l'"
  proof (cases r1)
    case (Inl e)
    then have "h e (x, k) = (r, (w', l'))" using run m by (simp add: io_catch_def)
    from hoareD [OF assms(2) this] q Inl show ?thesis by simp
  next
    case (Inr a)
    then show ?thesis using run m q assms(3) by (auto simp: io_catch_def)
  qed
qed

lemma hoare_ignore: "hoare P m (\<lambda>r. Q (Inr ())) \<Longrightarrow> hoare P (io_ignore m) Q"
  unfolding hoare_def by (auto simp: io_ignore_def) (metis prod.collapse)

lemma hoare_after:
  assumes "hoare P m Q1" "\<And>r. hoare (Q1 r) f (\<lambda>r' l. case r' of Inr _ \<Rightarrow> Q r l | Inl e \<Rightarrow> Q (Inl e) l)"
  shows "hoare P (io_after m f) Q"
  unfolding hoare_def
proof (intro allI impI)
  fix w l r w' l'
  assume P: "P l" and run: "io_after m f (w, l) = (r, (w', l'))"
  obtain r1 x k where m: "m (w, l) = (r1, (x, k))" by (metis prod.exhaust)
  obtain r2 y j where f: "f (x, k) = (r2, (y, j))" by (metis prod.exhaust)
  show "Q r l'"
    using hoareD [OF assms(2) f hoareD [OF assms(1) m P]] run m f by (cases r2) (auto simp: io_after_def)
qed

lemma hoare_when: "(b \<Longrightarrow> hoare P m Q) \<Longrightarrow> (\<And>l. \<not> b \<Longrightarrow> P l \<Longrightarrow> Q (Inr ()) l) \<Longrightarrow> hoare P (io_when b m) Q"
  by (auto simp: io_when_def intro: hoare_return)

lemma hoare_if: "(b \<Longrightarrow> hoare P m Q) \<Longrightarrow> (\<not> b \<Longrightarrow> hoare P n Q) \<Longrightarrow> hoare P (if b then m else n) Q"
  by simp

text \<open>A precondition that does not speak of the log can be used as a fact.\<close>

lemma hoare_assume: "(\<And>l. P l \<Longrightarrow> hoare (\<lambda>l'. l' = l) m Q) \<Longrightarrow> hoare P m Q"
  unfolding hoare_def by blast

lemma hoare_fact: "(\<And>l. P l \<Longrightarrow> A) \<Longrightarrow> (A \<Longrightarrow> hoare P m Q) \<Longrightarrow> hoare P m Q"
  unfolding hoare_def by blast

text \<open>What every successful result satisfies, whatever the log.\<close>

lemma traces_result:
  "traces lg m R \<Longrightarrow> (\<And>w a w'. m w = (Inr a, w') \<Longrightarrow> S a) \<Longrightarrow> traces lg m (\<lambda>new r. R new r \<and> (\<forall>a. r = Inr a \<longrightarrow> S a))"
  unfolding traces_def by (metis prod.collapse)

section \<open>Quiet computations\<close>

text \<open>All calls that are added have \<open>K\<close>; whatever else a result tells is in \<open>R\<close>.\<close>

definition quietly :: "('c \<Rightarrow> bool) \<Rightarrow> ('w \<times> 'c list, 'a) io \<Rightarrow> bool" where
  "quietly K m \<longleftrightarrow> traces snd m (\<lambda>new r. list_all K new)"

lemma quietly_calls: "quietly K m \<longleftrightarrow> calls snd (list_all K) m"
  by (simp add: quietly_def calls_def)

lemma quietly_mono: "quietly K m \<Longrightarrow> (\<And>c. K c \<Longrightarrow> K' c) \<Longrightarrow> quietly K' m"
  unfolding quietly_def by (erule traces_weaken) (auto simp: list_all_iff)

lemma quietly_bind: "quietly K m \<Longrightarrow> (\<And>a. quietly K (f a)) \<Longrightarrow> quietly K (io_bind m f)"
  unfolding quietly_calls by (rule calls_bind) auto

lemma quietly_catch: "quietly K m \<Longrightarrow> (\<And>e. quietly K (h e)) \<Longrightarrow> quietly K (io_catch m h)"
  unfolding quietly_calls by (rule calls_catch) auto

lemma quietly_ignore: "quietly K m \<Longrightarrow> quietly K (io_ignore m)"
  unfolding quietly_calls by (rule calls_ignore)

lemma quietly_lift: "quietly K (io_lift r)"
  unfolding quietly_calls by (rule calls_lift) simp

lemma quietly_return: "quietly K (io_return a)"
  unfolding quietly_calls by (rule calls_return) simp

lemma quietly_each: "(\<And>x. quietly K (f x)) \<Longrightarrow> quietly K (io_each f xs)"
  unfolding quietly_calls by (rule calls_each) auto

lemma quietly_map: "(\<And>x. quietly K (f x)) \<Longrightarrow> quietly K (io_map f xs)"
  by (induction xs) (auto intro: quietly_bind quietly_return)

lemma quietly_when: "(b \<Longrightarrow> quietly K m) \<Longrightarrow> quietly K (io_when b m)"
  by (simp add: io_when_def quietly_return)

lemma quietly_unlogged: "quietly K (unlogged f i)"
  unfolding quietly_def by (rule traces_unlogged) simp

lemma quietly_logged_with: "(\<And>r. K (tag i r)) \<Longrightarrow> quietly K (logged_with tag f i)"
  unfolding quietly_def by (rule traces_logged_with) simp

lemma quietly_after: "quietly K m \<Longrightarrow> quietly K f \<Longrightarrow> quietly K (io_after m f)"
  unfolding quietly_def traces_def
proof
  fix st
  assume m: "\<forall>st. \<exists>new. snd (snd (m st)) = snd st @ new \<and> list_all K new"
    and f: "\<forall>st. \<exists>new. snd (snd (f st)) = snd st @ new \<and> list_all K new"
  obtain n1 where n1: "snd (snd (m st)) = snd st @ n1" "list_all K n1" using m by blast
  obtain n2 where n2: "snd (snd (f (snd (m st)))) = snd (snd (m st)) @ n2" "list_all K n2" using f by blast
  have "snd (snd (io_after m f st)) = snd (snd (f (snd (m st))))"
    by (simp add: io_after_def split: prod.split sum.split)
  then show "\<exists>new. snd (snd (io_after m f st)) = snd st @ new \<and> list_all K new"
    using n1 n2 by (intro exI [of _ "n1 @ n2"]) simp
qed

lemmas quietly_intros = quietly_bind quietly_catch quietly_ignore quietly_lift quietly_return quietly_each quietly_map quietly_when quietly_unlogged
  quietly_after

text \<open>A quiet computation keeps what appending such calls keeps.\<close>

lemma hoare_quietly:
  assumes "quietly K m" "\<And>l new. P l \<Longrightarrow> list_all K new \<Longrightarrow> P (l @ new)"
  shows "hoare P m (\<lambda>r. P)"
  unfolding hoare_def
proof (intro allI impI)
  fix w l r w' l'
  assume P: "P l" and run: "m (w, l) = (r, (w', l'))"
  from tracesD [OF assms(1) [unfolded quietly_def] run] obtain new where "l' = l @ new" "list_all K new" by auto
  then show "P l'" using assms(2) [OF P] by simp
qed

text \<open>What a computation shows of its own calls holds after any calls before.\<close>

lemma hoare_traces:
  assumes "traces snd m R" "\<And>l new r. P l \<Longrightarrow> R new r \<Longrightarrow> Q r (l @ new)"
  shows "hoare P m Q"
  unfolding hoare_def
proof (intro allI impI)
  fix w l r w' l'
  assume P: "P l" and run: "m (w, l) = (r, (w', l'))"
  from tracesD [OF assms(1) run] obtain new where "l' = l @ new" "R new r" by auto
  then show "Q r l'" using assms(2) [OF P] by simp
qed

end
