(* ===== verification/Mcp_Manager.thy ===== *)
theory Mcp_Manager
  imports Mcp_Records Io_Hoare
begin

text \<open>
  The MCP extension manager (\<^verbatim>\<open>mcp-extension-manager.ts\<close>): installing, enabling, updating and rolling
  back extensions under the enterprise policy. The backend client, the encrypted store, the OAuth
  manager, the planner of marketplace installations, the environment that holds the policy,
  \<^verbatim>\<open>randomBytes\<close> and \<^verbatim>\<open>JSON\<close> are parameters; the manager has no state of its own. The listener of
  events does not throw.
\<close>

section \<open>The environment\<close>

datatype ext_call =
    EHealth
  | EInstall install_input "jstr option"
  | EEnable jstr
  | EDisable jstr
  | ERestart jstr
  | ERemove jstr
  | EListTools jstr
  | EToolPolicy jstr jstr bool gov_approval
  | EMaterialize jstr jstr
  | EClearCredential jstr
  | EMaterializeEnv jstr "(jstr \<times> jstr) list"
  | EClearEnv jstr
  | EApprove jstr
  | EActivity "jstr option" "int option"

record oauth_status =
  os_configured :: bool
  os_connected :: bool
  os_expires_at :: "int option"

datatype oauth_act = OAuthConnect | OAuthRefresh | OAuthRevoke

record oauth_result =
  or_extension :: jstr
  or_connected :: bool
  or_expires_at :: "int option"
  or_message :: jstr

record install_plan =
  pl_version :: jstr
  pl_fields :: "recipe_field list"
  pl_input :: "install_input option"
  pl_blockers :: "jstr list"

datatype ext_log = LogInfo jstr | LogWarn jstr

record 'w ext_env =
  xe_client :: "ext_call \<Rightarrow> ('w, js) io"
  xe_has :: "jstr \<Rightarrow> ('w, bool) io"
  xe_get :: "jstr \<Rightarrow> ('w, jstr option) io"
  xe_set :: "jstr \<times> jstr \<Rightarrow> ('w, unit) io"
  xe_delete :: "jstr \<Rightarrow> ('w, unit) io"
  xe_oauth_status :: "jstr \<Rightarrow> ('w, oauth_status) io"
  xe_oauth_save :: "jstr \<times> oauth_config \<Rightarrow> ('w, unit) io"
  xe_oauth_remove :: "jstr \<Rightarrow> ('w, unit) io"
  xe_oauth_restore :: "jstr \<Rightarrow> ('w, bool) io"
  xe_oauth_export :: "jstr \<Rightarrow> ('w, oauth_config option) io"
  xe_oauth_act :: "oauth_act \<times> jstr \<Rightarrow> ('w, oauth_result) io"
  xe_oauth_shutdown :: "unit \<Rightarrow> ('w, unit) io"
  xe_plan :: "jstr \<Rightarrow> ('w, install_plan) io"
  xe_governance :: "unit \<Rightarrow> ('w, governance_env) io"
  xe_hex :: "unit \<Rightarrow> ('w, jstr) io"
  xe_emit :: "ext_log \<Rightarrow> 'w \<Rightarrow> 'w"
  xe_json :: "jstr \<Rightarrow> js option"
  xe_stringify :: "js \<Rightarrow> jstr"

definition ext_emit :: "'w ext_env \<Rightarrow> ext_log \<Rightarrow> ('w, unit) io" where
  "ext_emit env e w = (Inr (), xe_emit env e w)"

definition ask_ext :: "'w ext_env \<Rightarrow> ext_call \<Rightarrow> ('w, unit) io" where
  "ask_ext env c = io_bind (xe_client env c) (\<lambda>_. io_return ())"

section \<open>Governance\<close>

definition load_policy :: "'w ext_env \<Rightarrow> ('w, gov_policy) io" where
  "load_policy env = io_bind (xe_governance env ()) (\<lambda>g. io_lift (load_governance g))"

definition assert_allowed :: "'w ext_env \<Rightarrow> governed_extension \<Rightarrow> string \<Rightarrow> ('w, unit) io" where
  "assert_allowed env e operation =
     io_bind (load_policy env) (\<lambda>p. io_bind (io_lift (assert_extension_allowed e operation p)) (\<lambda>_. io_return ()))"

definition approval_name :: "gov_approval \<Rightarrow> jstr" where
  "approval_name a = (case a of GovAutomatic \<Rightarrow> lit ''automatic'' | GovAsk \<Rightarrow> lit ''ask'' | GovBlocked \<Rightarrow> lit ''blocked'')"

definition tool_effective :: "jstr \<Rightarrow> gov_policy \<Rightarrow> jstr \<Rightarrow> bool \<Rightarrow> gov_approval \<Rightarrow> tool_request" where
  "tool_effective extensionId p toolName enabled approval =
     effective_tool_policy extensionId toolName \<lparr>tq_enabled = enabled, tq_approval = approval\<rparr> p"

definition fetch_tools :: "'w ext_env \<Rightarrow> jstr \<Rightarrow> ('w, tool_view list) io" where
  "fetch_tools env extensionId = io_bind (xe_client env (EListTools extensionId)) (\<lambda>raw. io_lift (parse_tools raw))"

definition enforce_tool :: "'w ext_env \<Rightarrow> jstr \<Rightarrow> gov_policy \<Rightarrow> tool_view \<Rightarrow> ('w, tool_view) io" where
  "enforce_tool env extensionId p tool =
     (let e = tool_effective extensionId p (tv_original_name tool) (tv_enabled tool) (tv_approval tool) in
      if tq_enabled e = tv_enabled tool \<and> tq_approval e = tv_approval tool then io_return tool
      else io_bind (xe_client env (EToolPolicy extensionId (tv_original_name tool) (tq_enabled e) (tq_approval e)))
        (\<lambda>raw. io_lift (parse_tool raw)))"

definition enforce_tools :: "'w ext_env \<Rightarrow> jstr \<Rightarrow> gov_policy \<Rightarrow> tool_view list \<Rightarrow> ('w, tool_view list) io" where
  "enforce_tools env extensionId p current =
     (if \<not> gp_managed p then io_return current else io_map (enforce_tool env extensionId p) current)"

text \<open>\<^verbatim>\<open>enforceEnterpriseToolPolicies\<close> with its default arguments; the policy is read first.\<close>

definition enforce_enterprise_tool_policies ::
    "'w ext_env \<Rightarrow> jstr \<Rightarrow> tool_view list option \<Rightarrow> ('w, tool_view list) io" where
  "enforce_enterprise_tool_policies env extensionId tools =
     io_bind (load_policy env) (\<lambda>p.
     io_bind (case tools of Some ts \<Rightarrow> io_return ts | None \<Rightarrow> fetch_tools env extensionId) (\<lambda>current.
       enforce_tools env extensionId p current))"

definition governed_item :: "extension_record \<Rightarrow> ext_transport \<Rightarrow> governed_extension" where
  "governed_item x t = \<lparr>ge_id = xr_id x, ge_version = xr_version x, ge_source = xr_source x, ge_transport = transport_kind t\<rparr>"

definition enforce_item :: "'w ext_env \<Rightarrow> gov_policy \<Rightarrow> health_item \<Rightarrow> ('w, bool) io" where
  "enforce_item env p item =
     (let x = hi_extension item in
      io_bind (io_lift (parse_ext_transport (xr_transport x))) (\<lambda>t.
        let decision = evaluate_extension (governed_item x t) p in
        if \<not> gd_allowed decision then
          (if xr_enabled x then
             io_bind (ask_ext env (EDisable (xr_id x))) (\<lambda>_.
             io_bind (ext_emit env (LogWarn (lit ''Enterprise policy disabled MCP extension '' @ xr_id x @ lit '': ''
               @ join [32] (gd_blockers decision)))) (\<lambda>_. io_return True))
           else io_return False)
        else if xr_enabled x then
          io_bind (fetch_tools env (xr_id x)) (\<lambda>tools.
          io_bind (enforce_tools env (xr_id x) p tools) (\<lambda>governed.
            io_return (list_ex (\<lambda>(g, t). tv_enabled g \<noteq> tv_enabled t \<or> tv_approval g \<noteq> tv_approval t) (zip governed tools))))
        else io_return False))"

definition enforce_enterprise_governance :: "'w ext_env \<Rightarrow> health_item list \<Rightarrow> ('w, bool) io" where
  "enforce_enterprise_governance env health =
     io_bind (load_policy env) (\<lambda>p.
       if \<not> gp_managed p then io_return False
       else io_bind (io_map (enforce_item env p) health) (\<lambda>changed. io_return (list_ex id changed)))"

definition fetch_health :: "'w ext_env \<Rightarrow> ('w, health_item list) io" where
  "fetch_health env = io_bind (xe_client env EHealth) (\<lambda>raw. io_lift (parse_health_list raw))"

definition governed_health :: "'w ext_env \<Rightarrow> ('w, health_item list) io" where
  "governed_health env =
     io_bind (fetch_health env) (\<lambda>health.
     io_bind (enforce_enterprise_governance env health) (\<lambda>changed.
       if changed then fetch_health env else io_return health))"

section \<open>Views\<close>

definition ext_status_of :: "'w ext_env \<Rightarrow> extension_record \<Rightarrow> ('w, oauth_status) io" where
  "ext_status_of env x =
     (if xr_auth x = AuthOAuth then xe_oauth_status env (xr_id x)
      else io_return \<lparr>os_configured = False, os_connected = False, os_expires_at = None\<rparr>)"

definition view_of :: "'w ext_env \<Rightarrow> health_item \<Rightarrow> ('w, extension_view) io" where
  "view_of env item =
     (let x = hi_extension item in
      io_bind (ext_status_of env x) (\<lambda>st.
      io_bind (if xr_auth x = AuthNone then io_return False else io_bind (io_lift (secret_key (xr_id x))) (xe_has env)) (\<lambda>credential.
      io_bind (io_bind (io_lift (environment_key (xr_id x))) (xe_has env)) (\<lambda>environment.
      io_bind (io_lift (parse_ext_transport (xr_transport x))) (\<lambda>transport.
        io_return \<lparr>vx_id = xr_id x, vx_name = xr_name x, vx_version = xr_version x, vx_namespace = xr_namespace x,
          vx_source = xr_source x, vx_transport = transport, vx_auth = xr_auth x, vx_status = xr_status x,
          vx_enabled = xr_enabled x, vx_required = xr_required x, vx_channel = xr_channel x,
          vx_last_error = truthy_text (xr_last_error x), vx_credential_configured = credential,
          vx_credential_materialized = hi_credential item, vx_environment_configured = environment,
          vx_environment_materialized = hi_environment item, vx_oauth_configured = os_configured st,
          vx_oauth_connected = os_connected st,
          vx_oauth_expires_at = (if os_expires_at st = Some 0 then None else os_expires_at st),
          vx_discovered = hi_discovered item, vx_exposed = hi_exposed item, vx_created_at = xr_created_at x,
          vx_updated_at = xr_updated_at x\<rparr>)))))"

definition ext_list :: "'w ext_env \<Rightarrow> ('w, extension_view list) io" where
  "ext_list env = io_bind (governed_health env) (io_map (view_of env))"

definition require_view :: "'w ext_env \<Rightarrow> jstr \<Rightarrow> ('w, extension_view) io" where
  "require_view env extensionId =
     io_bind (ext_list env) (\<lambda>vs. case find (\<lambda>v. vx_id v = extensionId) vs of
         Some v \<Rightarrow> io_return v
       | None \<Rightarrow> io_lift (Inl (lit ''MCP extension '' @ extensionId @ lit '' is not registered'')))"

section \<open>Stored material\<close>

definition store_secret :: "'w ext_env \<Rightarrow> jstr res \<Rightarrow> jstr \<Rightarrow> ('w, unit) io" where
  "store_secret env key value = io_bind (io_lift key) (\<lambda>k. xe_set env (k, value))"

definition delete_secret :: "'w ext_env \<Rightarrow> jstr res \<Rightarrow> ('w, unit) io" where
  "delete_secret env key = io_bind (io_lift key) (xe_delete env)"

definition read_secret :: "'w ext_env \<Rightarrow> jstr res \<Rightarrow> ('w, jstr option) io" where
  "read_secret env key = io_bind (io_lift key) (\<lambda>k. io_bind (xe_get env k) (\<lambda>v. io_return (truthy_text v)))"

definition restore_runtime_material :: "'w ext_env \<Rightarrow> jstr \<Rightarrow> ext_auth \<Rightarrow> ('w, unit) io" where
  "restore_runtime_material env extensionId auth = (case auth of
      AuthNone \<Rightarrow> io_return ()
    | AuthOAuth \<Rightarrow> io_bind (xe_oauth_restore env extensionId) (\<lambda>restored.
        if restored then io_return ()
        else io_lift (Inl (lit ''MCP extension '' @ extensionId @ lit '' requires OAuth Connect before it can be enabled'')))
    | AuthBearer \<Rightarrow> io_bind (read_secret env (secret_key extensionId)) (\<lambda>credential. case credential of
        None \<Rightarrow> io_lift (Inl (lit ''MCP extension '' @ extensionId @ lit '' requires a credential before it can be enabled''))
      | Some c \<Rightarrow> ask_ext env (EMaterialize extensionId c)))"

definition clear_environment :: "'w ext_env \<Rightarrow> jstr \<Rightarrow> ('w, unit) io" where
  "clear_environment env extensionId =
     io_bind (io_ignore (ask_ext env (EClearEnv extensionId))) (\<lambda>_. io_bind (io_lift (environment_key extensionId)) (\<lambda>k.
       io_ignore (xe_delete env k)))"

definition save_environment :: "'w ext_env \<Rightarrow> jstr \<Rightarrow> env_value list \<Rightarrow> ('w, unit) io" where
  "save_environment env extensionId values =
     io_bind (io_lift (validate_environment_values (env_js values))) (\<lambda>validated.
       if validated = [] then clear_environment env extensionId
       else io_bind (store_secret env (environment_key extensionId) (xe_stringify env (env_js validated))) (\<lambda>_.
         ask_ext env (EMaterializeEnv extensionId (environment_record validated))))"

definition read_environment :: "'w ext_env \<Rightarrow> jstr \<Rightarrow> ('w, env_value list) io" where
  "read_environment env extensionId =
     io_bind (read_secret env (environment_key extensionId)) (\<lambda>raw. case raw of
         None \<Rightarrow> io_return []
       | Some text \<Rightarrow> (case map_option validate_environment_values (xe_json env text) of
             Some (Inr values) \<Rightarrow> io_return values
           | _ \<Rightarrow> io_lift (Inl (lit ''MCP extension '' @ extensionId @ lit '' secure environment recipe is invalid''))))"

definition restore_environment :: "'w ext_env \<Rightarrow> jstr \<Rightarrow> ('w, unit) io" where
  "restore_environment env extensionId =
     io_bind (read_environment env extensionId) (\<lambda>values.
       io_when (values \<noteq> []) (ask_ext env (EMaterializeEnv extensionId (environment_record values))))"

definition write_update_backup :: "'w ext_env \<Rightarrow> jstr \<Rightarrow> update_snapshot \<Rightarrow> ('w, unit) io" where
  "write_update_backup env extensionId snapshot =
     (let encoded = xe_stringify env (backup_js snapshot) in
      if length encoded > 512 * 1024 then io_lift (throw ''MCP update rollback snapshot exceeds the supported size'')
      else store_secret env (update_backup_key extensionId) encoded)"

definition read_update_backup :: "'w ext_env \<Rightarrow> jstr \<Rightarrow> ('w, update_snapshot option) io" where
  "read_update_backup env extensionId =
     io_bind (read_secret env (update_backup_key extensionId)) (\<lambda>raw. case raw of
         None \<Rightarrow> io_return None
       | Some text \<Rightarrow> (case map_option parse_update_snapshot (xe_json env text) of
             Some (Inr s) \<Rightarrow> io_return (Some s)
           | _ \<Rightarrow> io_lift (Inl (lit ''MCP extension '' @ extensionId @ lit '' rollback snapshot is invalid''))))"

section \<open>Operations\<close>

definition say :: "'w ext_env \<Rightarrow> string \<Rightarrow> jstr \<Rightarrow> string \<Rightarrow> ('w, unit) io" where
  "say env before extensionId after = ext_emit env (LogInfo (lit before @ extensionId @ lit after))"

definition restore_item :: "'w ext_env \<Rightarrow> health_item \<Rightarrow> ('w, unit) io" where
  "restore_item env item =
     (let x = hi_extension item in
      if \<not> xr_enabled x then io_return ()
      else io_catch
        (io_bind (restore_environment env (xr_id x)) (\<lambda>_. restore_runtime_material env (xr_id x) (xr_auth x)))
        (\<lambda>e. ext_emit env (LogWarn (lit ''MCP extension '' @ xr_id x @ lit '' secure runtime material restore deferred: '' @ ext_safe_message e))))"

definition ext_initialize :: "'w ext_env \<Rightarrow> ('w, unit) io" where
  "ext_initialize env = io_bind (governed_health env) (io_each (restore_item env))"

definition ext_shutdown :: "'w ext_env \<Rightarrow> ('w, unit) io" where
  "ext_shutdown env = xe_oauth_shutdown env ()"

text \<open>What follows the registration, and what undoes it.\<close>

definition configure_installed :: "'w ext_env \<Rightarrow> install_input \<Rightarrow> jstr option \<Rightarrow> ('w, unit) io" where
  "configure_installed env i key =
     io_bind (case in_environment i of Some (e # es) \<Rightarrow> save_environment env (in_id i) (e # es) | _ \<Rightarrow> io_return ()) (\<lambda>_.
     io_bind (case in_oauth i of Some c \<Rightarrow> io_when (in_auth i = AuthOAuth) (xe_oauth_save env (in_id i, c)) | None \<Rightarrow> io_return ()) (\<lambda>_.
     io_bind (case (in_auth i, key, truthy_text (in_credential i)) of
         (AuthBearer, Some k, Some c) \<Rightarrow> io_bind (xe_set env (k, c)) (\<lambda>_. ask_ext env (EMaterialize (in_id i) c))
       | _ \<Rightarrow> io_return ()) (\<lambda>_.
       restore_environment env (in_id i))))"

definition undo_install :: "'w ext_env \<Rightarrow> install_input \<Rightarrow> jstr option \<Rightarrow> ('w, unit) io" where
  "undo_install env i key =
     io_bind (io_ignore (ask_ext env (ERemove (in_id i)))) (\<lambda>_.
     io_bind (io_ignore (clear_environment env (in_id i))) (\<lambda>_.
       if in_auth i = AuthOAuth then io_ignore (xe_oauth_remove env (in_id i))
       else case key of Some k \<Rightarrow> io_ignore (xe_delete env k) | None \<Rightarrow> io_return ()))"

definition ext_key_for :: "install_input \<Rightarrow> jstr option res" where
  "ext_key_for i = (if in_auth i = AuthNone then Inr None else and_then (secret_key (in_id i)) (\<lambda>k. Inr (Some k)))"

definition ext_install :: "'w ext_env \<Rightarrow> install_input \<Rightarrow> ('w, extension_view) io" where
  "ext_install env i =
     io_bind (io_lift (validate_install_input i)) (\<lambda>_.
     io_bind (assert_allowed env (governed_from_install i) ''install'') (\<lambda>_.
     io_bind (io_lift (ext_key_for i)) (\<lambda>key.
     io_bind (ask_ext env (EInstall (strip_environment_transport_metadata i) key)) (\<lambda>_.
     io_bind (io_catch (configure_installed env i key)
         (\<lambda>e. io_bind (undo_install env i key) (\<lambda>_. io_lift (Inl e)))) (\<lambda>_.
     io_bind (say env ''Installed MCP extension '' (in_id i) ''; tools remain blocked until explicitly permitted'') (\<lambda>_.
       require_view env (in_id i)))))))"

definition connect_oauth :: "'w ext_env \<Rightarrow> jstr \<Rightarrow> ('w, oauth_result) io" where
  "connect_oauth env extensionId =
     io_bind (io_lift (validate_extension_id extensionId)) (\<lambda>_.
     io_bind (require_view env extensionId) (\<lambda>current.
     io_bind (assert_allowed env (governed_from_view current) ''enable'') (\<lambda>_.
       if vx_auth current \<noteq> AuthOAuth then io_lift (throw ''This MCP extension is not configured for OAuth'')
       else
         io_bind (say env ''Started OAuth PKCE authorization for MCP extension '' extensionId '''') (\<lambda>_.
         io_bind (xe_oauth_act env (OAuthConnect, extensionId)) (\<lambda>result.
         io_bind (say env ''Completed OAuth PKCE authorization for MCP extension '' extensionId '''') (\<lambda>_.
           io_return result))))))"

definition refresh_oauth :: "'w ext_env \<Rightarrow> jstr \<Rightarrow> ('w, oauth_result) io" where
  "refresh_oauth env extensionId =
     io_bind (io_lift (validate_extension_id extensionId)) (\<lambda>_.
     io_bind (require_view env extensionId) (\<lambda>current.
       if vx_auth current \<noteq> AuthOAuth then io_lift (throw ''This MCP extension is not configured for OAuth'')
       else
         io_bind (xe_oauth_act env (OAuthRefresh, extensionId)) (\<lambda>result.
         io_bind (say env ''Refreshed OAuth token for MCP extension '' extensionId '''') (\<lambda>_. io_return result))))"

definition revoke_oauth :: "'w ext_env \<Rightarrow> jstr \<Rightarrow> ('w, oauth_result) io" where
  "revoke_oauth env extensionId =
     io_bind (io_lift (validate_extension_id extensionId)) (\<lambda>_.
     io_bind (require_view env extensionId) (\<lambda>current.
       if vx_auth current \<noteq> AuthOAuth then io_lift (throw ''This MCP extension is not configured for OAuth'')
       else
         io_bind (io_when (vx_enabled current) (ask_ext env (EDisable extensionId))) (\<lambda>_.
         io_bind (xe_oauth_act env (OAuthRevoke, extensionId)) (\<lambda>result.
         io_bind (say env ''Revoked OAuth connection for MCP extension '' extensionId '''') (\<lambda>_. io_return result)))))"

definition install_marketplace :: "'w ext_env \<Rightarrow> jstr \<Rightarrow> env_value list \<Rightarrow> ('w, extension_view) io" where
  "install_marketplace env serverName environment =
     io_bind (xe_plan env serverName) (\<lambda>plan. case (pl_blockers plan, pl_input plan) of
         ([], Some i) \<Rightarrow>
           io_bind (io_lift (validate_recipe_values (pl_fields plan) environment)) (\<lambda>values.
           io_bind (ext_install env (if values \<noteq> [] then i\<lparr>in_environment := Some values\<rparr> else i)) (\<lambda>installed.
           io_bind (if vx_auth installed = AuthOAuth then io_bind (connect_oauth env (vx_id installed)) (\<lambda>_. io_return ())
             else io_return ()) (\<lambda>_.
           io_bind (say env ''Installed '' serverName '' from the configured MCP marketplace'') (\<lambda>_.
             require_view env (vx_id installed)))))
       | (blockers, _) \<Rightarrow> io_lift (Inl (lit ''MCP marketplace install requires review: ''
           @ (if join [32] blockers = [] then lit ''no safe install plan is available'' else join [32] blockers))))"

definition ext_enable :: "'w ext_env \<Rightarrow> jstr \<Rightarrow> ('w, extension_view) io" where
  "ext_enable env extensionId =
     io_bind (io_lift (validate_extension_id extensionId)) (\<lambda>_.
     io_bind (require_view env extensionId) (\<lambda>current.
     io_bind (assert_allowed env (governed_from_view current) ''enable'') (\<lambda>_.
     io_bind (restore_environment env extensionId) (\<lambda>_.
     io_bind (restore_runtime_material env extensionId (vx_auth current)) (\<lambda>_.
     io_bind (ask_ext env (EEnable extensionId)) (\<lambda>_.
     io_bind (io_catch (enforce_enterprise_tool_policies env extensionId None)
         (\<lambda>e. io_bind (io_ignore (ask_ext env (EDisable extensionId))) (\<lambda>_. io_lift (Inl e)))) (\<lambda>_.
     io_bind (say env ''Enabled MCP extension '' extensionId '''') (\<lambda>_.
       require_view env extensionId))))))))"

definition ext_disable :: "'w ext_env \<Rightarrow> jstr \<Rightarrow> ('w, extension_view) io" where
  "ext_disable env extensionId =
     io_bind (io_lift (validate_extension_id extensionId)) (\<lambda>_.
     io_bind (ask_ext env (EDisable extensionId)) (\<lambda>_.
     io_bind (say env ''Disabled MCP extension '' extensionId '''') (\<lambda>_.
       require_view env extensionId)))"

definition ext_restart :: "'w ext_env \<Rightarrow> jstr \<Rightarrow> ('w, tool_view list) io" where
  "ext_restart env extensionId =
     io_bind (io_lift (validate_extension_id extensionId)) (\<lambda>_.
     io_bind (require_view env extensionId) (\<lambda>current.
     io_bind (assert_allowed env (governed_from_view current) ''restart'') (\<lambda>_.
     io_bind (restore_environment env extensionId) (\<lambda>_.
     io_bind (restore_runtime_material env extensionId (vx_auth current)) (\<lambda>_.
     io_bind (xe_client env (ERestart extensionId)) (\<lambda>raw.
     io_bind (io_lift (parse_tools raw)) (\<lambda>tools.
     io_bind (enforce_enterprise_tool_policies env extensionId (Some tools)) (\<lambda>governed.
     io_bind (ext_emit env (LogInfo (lit ''Restarted MCP extension '' @ extensionId @ lit ''; discovered ''
         @ show_nat (length governed) @ lit '' tools''))) (\<lambda>_.
       io_return governed)))))))))"

definition ext_remove :: "'w ext_env \<Rightarrow> jstr \<Rightarrow> ('w, bool) io" where
  "ext_remove env extensionId =
     io_bind (io_lift (validate_extension_id extensionId)) (\<lambda>_.
     io_bind (require_view env extensionId) (\<lambda>current.
     io_bind (if vx_auth current = AuthOAuth then xe_oauth_remove env extensionId
       else io_ignore (delete_secret env (secret_key extensionId))) (\<lambda>_.
     io_bind (io_ignore (clear_environment env extensionId)) (\<lambda>_.
     io_bind (io_ignore (delete_secret env (update_backup_key extensionId))) (\<lambda>_.
     io_bind (xe_client env (ERemove extensionId)) (\<lambda>raw.
     io_bind (io_lift (parse_removed raw)) (\<lambda>response.
     io_bind (say env ''Removed MCP extension '' extensionId '''') (\<lambda>_. io_return response))))))))"

definition ext_list_tools :: "'w ext_env \<Rightarrow> jstr \<Rightarrow> ('w, tool_view list) io" where
  "ext_list_tools env extensionId =
     io_bind (io_lift (validate_extension_id extensionId)) (\<lambda>_.
     io_bind (fetch_tools env extensionId) (\<lambda>tools. enforce_enterprise_tool_policies env extensionId (Some tools)))"

definition ext_list_activity :: "'w ext_env \<Rightarrow> jstr option \<Rightarrow> int option \<Rightarrow> ('w, activity_view list) io" where
  "ext_list_activity env extensionId limit =
     io_bind (io_lift (case extensionId of Some i \<Rightarrow> validate_extension_id i | None \<Rightarrow> Inr ())) (\<lambda>_.
     io_bind (io_lift (case limit of
         Some n \<Rightarrow> if n < 1 \<or> n > int MAX_ACTIVITY_LIMIT then throw ''MCP activity limit must be between 1 and 500'' else Inr ()
       | None \<Rightarrow> Inr ())) (\<lambda>_.
     io_bind (xe_client env (EActivity extensionId limit)) (\<lambda>raw. io_lift (parse_activity_list raw))))"

definition ext_update_tool_policy ::
    "'w ext_env \<Rightarrow> jstr \<Rightarrow> jstr \<Rightarrow> bool \<Rightarrow> gov_approval \<Rightarrow> ('w, tool_view) io" where
  "ext_update_tool_policy env extensionId toolName enabled approval =
     io_bind (io_lift (validate_extension_id extensionId)) (\<lambda>_.
       if toolName = [] \<or> length toolName > MAX_TOOL_NAME then io_lift (throw ''MCP tool name is invalid'')
       else
         io_bind (load_policy env) (\<lambda>p.
         let e = tool_effective extensionId p toolName enabled approval;
             outcome = (\<lambda>on. if on then approval_name (tq_approval e) else lit ''disabled'') in
         io_bind (xe_client env (EToolPolicy extensionId toolName (tq_enabled e) (tq_approval e))) (\<lambda>raw.
         io_bind (io_lift (parse_tool raw)) (\<lambda>tool.
         io_bind (ext_emit env
             (if tq_enabled e \<noteq> enabled \<or> tq_approval e \<noteq> approval
              then LogWarn (lit ''Enterprise policy overrode '' @ tv_public_name tool @ lit '' to '' @ outcome (tq_enabled e))
              else LogInfo (lit ''Updated '' @ tv_public_name tool @ lit '' policy to '' @ outcome (tv_enabled tool)))) (\<lambda>_.
           io_return tool)))))"

definition set_credential :: "'w ext_env \<Rightarrow> jstr \<Rightarrow> jstr \<Rightarrow> ('w, unit) io" where
  "set_credential env extensionId credential =
     io_bind (io_lift (validate_extension_id extensionId)) (\<lambda>_.
       if credential = [] \<or> length credential > 32 * 1024 \<or> has_nul credential
       then io_lift (throw ''MCP extension credential is invalid'')
       else
         io_bind (require_view env extensionId) (\<lambda>current.
           if vx_auth current \<noteq> AuthBearer
           then io_lift (throw ''Manual credential storage is only available for bearer-authenticated MCP extensions'')
           else
             io_bind (store_secret env (secret_key extensionId) credential) (\<lambda>_.
             io_bind (io_catch (ask_ext env (EMaterialize extensionId credential))
                 (\<lambda>e. io_bind (io_ignore (delete_secret env (secret_key extensionId))) (\<lambda>_. io_lift (Inl e)))) (\<lambda>_.
               say env ''Updated secure credential for MCP extension '' extensionId ''''))))"

definition clear_credential :: "'w ext_env \<Rightarrow> jstr \<Rightarrow> ('w, unit) io" where
  "clear_credential env extensionId =
     io_bind (io_lift (validate_extension_id extensionId)) (\<lambda>_.
     io_bind (require_view env extensionId) (\<lambda>current.
       if vx_auth current \<noteq> AuthBearer
       then io_lift (throw ''Manual credential clearing is only available for bearer-authenticated MCP extensions'')
       else
         io_bind (ask_ext env (EClearCredential extensionId)) (\<lambda>_.
         io_bind (delete_secret env (secret_key extensionId)) (\<lambda>_.
           say env ''Cleared secure credential for MCP extension '' extensionId ''''))))"

definition approve_next :: "'w ext_env \<Rightarrow> jstr \<Rightarrow> ('w, approval_result) io" where
  "approve_next env publicTool =
     (if publicTool = [] \<or> length publicTool > 120 \<or> list_ex (\<lambda>c. c \<in> {13, 10, 0}) publicTool
      then io_lift (throw ''MCP public tool name is invalid'')
      else
        io_bind (xe_client env (EApprove publicTool)) (\<lambda>raw.
        io_bind (io_lift (parse_approval_result raw)) (\<lambda>value.
        io_bind (ext_emit env (LogInfo (lit ''Approved one execution of '' @ publicTool @ lit '' for ''
            @ show_int (ar_expires_in_seconds value) @ lit ''s''))) (\<lambda>_. io_return value))))"

section \<open>Updates and rollbacks\<close>

definition ext_snapshot :: "'w ext_env \<Rightarrow> jstr \<Rightarrow> ('w, update_snapshot) io" where
  "ext_snapshot env extensionId =
     io_bind (require_view env extensionId) (\<lambda>view.
     io_bind (if vx_auth view = AuthOAuth then xe_oauth_export env extensionId else io_return None) (\<lambda>oauth.
       if vx_auth view = AuthOAuth \<and> oauth = None
       then io_lift (Inl (lit ''MCP extension '' @ extensionId @ lit '' OAuth configuration is unavailable for rollback''))
       else
         io_bind (ext_list_tools env extensionId) (\<lambda>tools.
           io_return \<lparr>us_input = \<lparr>in_id = vx_id view, in_name = vx_name view, in_version = vx_version view,
               in_namespace = vx_namespace view, in_source = vx_source view, in_transport = vx_transport view,
               in_auth = vx_auth view, in_credential = None, in_oauth = oauth, in_environment = None,
               in_required = Some (vx_required view), in_channel = Some (vx_channel view)\<rparr>,
             us_enabled = vx_enabled view,
             us_tools = map (\<lambda>t. \<lparr>st_name = tv_original_name t, st_enabled = tv_enabled t, st_approval = tv_approval t\<rparr>) tools\<rparr>)))"

definition stage_id :: "jstr \<Rightarrow> jstr \<Rightarrow> jstr" where
  "stage_id i hex = take 64 (take 48 i @ lit ''-stage-'' @ hex)"

definition preflight_candidate :: "'w ext_env \<Rightarrow> install_input \<Rightarrow> env_value list \<Rightarrow> ('w, bool) io" where
  "preflight_candidate env i environment =
     (if in_auth i \<noteq> AuthNone then io_return False
      else
        io_bind (xe_hex env ()) (\<lambda>hex.
        let stageId = stage_id (in_id i) hex;
            staged = (strip_environment_transport_metadata i)\<lparr>in_id := stageId,
              in_namespace := take 48 (take 31 (in_namespace i) @ lit ''-stage-'' @ hex),
              in_source := in_source i @ lit '':stage'', in_required := Some False\<rparr> in
        io_bind (ask_ext env (EInstall staged None)) (\<lambda>_.
          io_after
            (io_bind (io_when (environment \<noteq> []) (ask_ext env (EMaterializeEnv stageId (environment_record environment)))) (\<lambda>_.
             io_bind (ask_ext env (EEnable stageId)) (\<lambda>_.
             io_bind (fetch_tools env stageId) (\<lambda>tools.
               if length tools > 512 then io_lift (throw ''staged MCP exposed too many tools'') else io_return True))))
            (io_bind (io_ignore (ask_ext env (ERemove stageId))) (\<lambda>_.
             io_ignore (ask_ext env (EClearEnv stageId)))))))"

definition restore_policy :: "'w ext_env \<Rightarrow> jstr \<Rightarrow> jstr list \<Rightarrow> saved_tool \<Rightarrow> ('w, unit) io" where
  "restore_policy env extensionId names t =
     (if st_name t \<notin> set names then io_return ()
      else
        io_bind (load_policy env) (\<lambda>p.
        let e = tool_effective extensionId p (st_name t) (st_enabled t) (st_approval t) in
          ask_ext env (EToolPolicy extensionId (st_name t) (tq_enabled e) (tq_approval e))))"

definition restore_policies :: "'w ext_env \<Rightarrow> jstr \<Rightarrow> saved_tool list \<Rightarrow> tool_view list \<Rightarrow> ('w, unit) io" where
  "restore_policies env extensionId previous discovered =
     io_each (restore_policy env extensionId (map tv_original_name discovered)) previous"

text \<open>The part that \<^verbatim>\<open>swapRegistration\<close> and \<^verbatim>\<open>restoreSnapshot\<close> share, after the old registration is removed.\<close>

definition register_and_activate ::
    "'w ext_env \<Rightarrow> jstr \<Rightarrow> install_input \<Rightarrow> env_value list \<Rightarrow> saved_tool list \<Rightarrow> bool \<Rightarrow> ('w, unit) io" where
  "register_and_activate env extensionId i environment tools enabled =
     io_bind (io_lift (if in_auth i = AuthNone then Inr None else and_then (secret_key extensionId) (\<lambda>k. Inr (Some k)))) (\<lambda>secretRef.
     io_bind (ask_ext env (EInstall (strip_environment_transport_metadata i) secretRef)) (\<lambda>_.
     io_bind (case in_oauth i of Some c \<Rightarrow> io_when (in_auth i = AuthOAuth) (xe_oauth_save env (extensionId, c)) | None \<Rightarrow> io_return ()) (\<lambda>_.
     io_bind (io_when (environment \<noteq> []) (ask_ext env (EMaterializeEnv extensionId (environment_record environment)))) (\<lambda>_.
     io_bind (restore_runtime_material env extensionId (in_auth i)) (\<lambda>_.
     io_bind (ask_ext env (EEnable extensionId)) (\<lambda>_.
     io_bind (fetch_tools env extensionId) (\<lambda>discovered.
     io_bind (restore_policies env extensionId tools discovered) (\<lambda>_.
       io_when (\<not> enabled) (ask_ext env (EDisable extensionId))))))))))"

definition swap_registration :: "'w ext_env \<Rightarrow> update_snapshot \<Rightarrow> install_input \<Rightarrow> env_value list \<Rightarrow> ('w, unit) io" where
  "swap_registration env previous nxt environment =
     io_bind (assert_allowed env (governed_from_install nxt) ''update'') (\<lambda>_.
     let extensionId = in_id (us_input previous) in
     io_bind (if us_enabled previous then io_ignore (ask_ext env (EDisable extensionId)) else io_return ()) (\<lambda>_.
     io_bind (ask_ext env (ERemove extensionId)) (\<lambda>_.
       register_and_activate env extensionId nxt environment (us_tools previous) (us_enabled previous))))"

definition restore_snapshot :: "'w ext_env \<Rightarrow> update_snapshot \<Rightarrow> env_value list \<Rightarrow> ('w, unit) io" where
  "restore_snapshot env snapshot environment =
     io_bind (assert_allowed env (governed_from_install (us_input snapshot)) ''rollback'') (\<lambda>_.
     let extensionId = in_id (us_input snapshot) in
     io_bind (io_ignore (ask_ext env (EDisable extensionId))) (\<lambda>_.
     io_bind (io_ignore (ask_ext env (ERemove extensionId))) (\<lambda>_.
       register_and_activate env extensionId (us_input snapshot) environment (us_tools snapshot) (us_enabled snapshot))))"

record update_result =
  ur_extension :: jstr
  ur_from :: jstr
  ur_to :: jstr
  ur_staged :: bool
  ur_rolled_back :: bool
  ur_message :: jstr

definition double_failure :: "jstr \<Rightarrow> jstr \<Rightarrow> jstr" where
  "double_failure e rollbackError = lit ''MCP update failed ('' @ ext_safe_message e @ lit '') and automatic rollback also failed (''
     @ ext_safe_message rollbackError @ lit '')''"

text \<open>The swap, and what happens when it throws.\<close>

definition activate_update ::
    "'w ext_env \<Rightarrow> jstr \<Rightarrow> update_snapshot \<Rightarrow> install_input \<Rightarrow> env_value list \<Rightarrow> bool \<Rightarrow> ('w, update_result) io" where
  "activate_update env extensionId snapshot nxt environment staged =
     (let result = (\<lambda>rolledBack message. \<lparr>ur_extension = extensionId, ur_from = in_version (us_input snapshot),
        ur_to = in_version nxt, ur_staged = staged, ur_rolled_back = rolledBack, ur_message = message\<rparr>) in
      io_catch
        (io_bind (swap_registration env snapshot nxt environment) (\<lambda>_.
         io_bind (ext_emit env (LogInfo (lit ''Updated MCP extension '' @ extensionId @ [32] @ in_version (us_input snapshot)
           @ lit '' -> '' @ in_version nxt))) (\<lambda>_.
           io_return (result False (if staged
             then lit ''Candidate initialized under a temporary SourceNerve registration with the same secure environment recipe before activation; the previous registration is retained as a rollback snapshot.''
             else lit ''Authenticated candidate was activated behind automatic rollback because its OAuth/bearer identity is not copied into a temporary staging registration.'')))))
        (\<lambda>e.
          io_bind (io_catch (restore_snapshot env snapshot environment) (\<lambda>r. io_lift (Inl (double_failure e r)))) (\<lambda>_.
          io_bind (ext_emit env (LogWarn (lit ''MCP extension '' @ extensionId @ lit '' update failed and was rolled back''))) (\<lambda>_.
            io_return (result True (lit ''Candidate activation failed and SourceNerve restored '' @ in_version (us_input snapshot)
              @ lit '': '' @ ext_safe_message e))))))"

definition stage_update :: "'w ext_env \<Rightarrow> jstr \<Rightarrow> install_plan \<Rightarrow> install_input \<Rightarrow> ('w, update_result) io" where
  "stage_update env extensionId plan planned =
     io_bind (read_environment env extensionId) (\<lambda>environment.
     io_bind (io_lift (validate_stored_recipe (pl_fields plan) environment)) (\<lambda>_.
     io_bind (ext_snapshot env extensionId) (\<lambda>snapshot.
     let nxt = merge_oauth_client_identity (us_input snapshot) planned in
     io_bind (assert_allowed env (governed_from_install nxt) ''update'') (\<lambda>_.
     io_bind (preflight_candidate env nxt environment) (\<lambda>staged.
     io_bind (write_update_backup env extensionId snapshot) (\<lambda>_.
       activate_update env extensionId snapshot nxt environment staged))))))"

definition update_marketplace :: "'w ext_env \<Rightarrow> jstr \<Rightarrow> ('w, update_result) io" where
  "update_marketplace env extensionId =
     io_bind (io_lift (validate_extension_id extensionId)) (\<lambda>_.
     io_bind (require_view env extensionId) (\<lambda>current.
     io_bind (io_lift (registry_server_name (vx_source current))) (\<lambda>serverName.
     io_bind (xe_plan env serverName) (\<lambda>plan. case (pl_input plan, pl_blockers plan) of
         (Some planned, []) \<Rightarrow>
           if in_id planned \<noteq> vx_id current
           then io_lift (throw ''MCP Registry update resolved to a different SourceNerve extension identity'')
           else if pl_version plan = vx_version current
           then io_return \<lparr>ur_extension = extensionId, ur_from = vx_version current, ur_to = vx_version current, ur_staged = False,
             ur_rolled_back = False, ur_message = vx_name current @ lit '' is already on the latest registry version.''\<rparr>
           else stage_update env extensionId plan planned
       | (_, blockers) \<Rightarrow> io_lift (Inl (lit ''MCP update cannot be staged safely: '' @ join [32] blockers))))))"

definition rollback_marketplace :: "'w ext_env \<Rightarrow> jstr \<Rightarrow> ('w, jstr \<times> jstr) io" where
  "rollback_marketplace env extensionId =
     io_bind (io_lift (validate_extension_id extensionId)) (\<lambda>_.
     io_bind (read_update_backup env extensionId) (\<lambda>found. case found of
         None \<Rightarrow> io_lift (Inl (lit ''MCP extension '' @ extensionId @ lit '' does not have a rollback snapshot''))
       | Some backup \<Rightarrow>
           io_bind (assert_allowed env (governed_from_install (us_input backup)) ''rollback'') (\<lambda>_.
           io_bind (ext_snapshot env extensionId) (\<lambda>current.
           io_bind (read_environment env extensionId) (\<lambda>environment.
           io_bind (restore_snapshot env backup environment) (\<lambda>_.
           io_bind (write_update_backup env extensionId current) (\<lambda>_.
           io_bind (ext_emit env (LogInfo (lit ''Rolled back MCP extension '' @ extensionId @ [32]
               @ in_version (us_input current) @ lit '' -> '' @ in_version (us_input backup)))) (\<lambda>_.
             io_return (in_version (us_input current), in_version (us_input backup))))))))))"

end
