(* ===== verification/Mcp_Safety.thy ===== *)
theory Mcp_Safety
  imports Mcp_Manager
begin

text \<open>
  What the MCP extension manager does to the backend, over the log of its calls: no extension is started
  or restarted that the enterprise policy in force does not allow, and a session never ends with an
  enabled extension whose tools could not be put under the policy.
\<close>

section \<open>The log\<close>

datatype ext_event =
    Backend ext_call "js res"
  | Stored "jstr \<times> jstr" "unit res"
  | Deleted jstr "unit res"
  | OAuthSaved "jstr \<times> oauth_config" "unit res"
  | OAuthRemoved jstr "unit res"
  | PolicyRead "governance_env res"

definition logged_ext :: "'w ext_env \<Rightarrow> ('w \<times> ext_event list) ext_env" where
  "logged_ext env =
     \<lparr>xe_client = logged_with Backend (xe_client env), xe_has = unlogged (xe_has env), xe_get = unlogged (xe_get env),
      xe_set = logged_with Stored (xe_set env), xe_delete = logged_with Deleted (xe_delete env),
      xe_oauth_status = unlogged (xe_oauth_status env), xe_oauth_save = logged_with OAuthSaved (xe_oauth_save env),
      xe_oauth_remove = logged_with OAuthRemoved (xe_oauth_remove env), xe_oauth_restore = unlogged (xe_oauth_restore env),
      xe_oauth_export = unlogged (xe_oauth_export env), xe_oauth_act = unlogged (xe_oauth_act env),
      xe_oauth_shutdown = unlogged (xe_oauth_shutdown env), xe_plan = unlogged (xe_plan env),
      xe_governance = logged_with (\<lambda>_. PolicyRead) (xe_governance env), xe_hex = unlogged (xe_hex env),
      xe_emit = (\<lambda>e wl. (xe_emit env e (fst wl), snd wl)), xe_json = xe_json env, xe_stringify = xe_stringify env\<rparr>"

lemma logged_ext_simps [simp]:
  "xe_client (logged_ext env) = logged_with Backend (xe_client env)" "xe_has (logged_ext env) = unlogged (xe_has env)"
  "xe_get (logged_ext env) = unlogged (xe_get env)" "xe_set (logged_ext env) = logged_with Stored (xe_set env)"
  "xe_delete (logged_ext env) = logged_with Deleted (xe_delete env)"
  "xe_oauth_status (logged_ext env) = unlogged (xe_oauth_status env)"
  "xe_oauth_save (logged_ext env) = logged_with OAuthSaved (xe_oauth_save env)"
  "xe_oauth_remove (logged_ext env) = logged_with OAuthRemoved (xe_oauth_remove env)"
  "xe_oauth_restore (logged_ext env) = unlogged (xe_oauth_restore env)"
  "xe_oauth_export (logged_ext env) = unlogged (xe_oauth_export env)"
  "xe_oauth_act (logged_ext env) = unlogged (xe_oauth_act env)"
  "xe_oauth_shutdown (logged_ext env) = unlogged (xe_oauth_shutdown env)"
  "xe_plan (logged_ext env) = unlogged (xe_plan env)" "xe_hex (logged_ext env) = unlogged (xe_hex env)"
  "xe_governance (logged_ext env) = logged_with (\<lambda>_. PolicyRead) (xe_governance env)"
  "xe_json (logged_ext env) = xe_json env" "xe_stringify (logged_ext env) = xe_stringify env"
  by (simp_all add: logged_ext_def)

text \<open>Calls that neither register, remove nor start an extension.\<close>

fun plain_call :: "ext_call \<Rightarrow> bool" where
  "plain_call (EInstall i k) = False"
| "plain_call (EEnable i) = False"
| "plain_call (ERestart i) = False"
| "plain_call (ERemove i) = False"
| "plain_call c = True"

fun plain :: "ext_event \<Rightarrow> bool" where
  "plain (Backend c r) = plain_call c"
| "plain e = True"

section \<open>Quiet parts\<close>

lemma quietly_emit: "quietly K (ext_emit (logged_ext env) e)"
  by (simp add: quietly_def traces_def ext_emit_def logged_ext_def)

lemma quietly_say: "quietly K (say (logged_ext env) a i b)"
  by (simp add: say_def quietly_emit)

lemma quietly_client: "(\<And>r. K (Backend c r)) \<Longrightarrow> quietly K (logged_with Backend f c)"
  by (rule quietly_logged_with)

lemma quietly_ask: "(\<And>r. K (Backend c r)) \<Longrightarrow> quietly K (ask_ext (logged_ext env) c)"
  unfolding ask_ext_def by (auto intro!: quietly_intros quietly_client)

lemma quietly_set: "(\<And>r. K (Stored kv r)) \<Longrightarrow> quietly K (logged_with Stored f kv)"
  and quietly_delete: "(\<And>r. K (Deleted k r)) \<Longrightarrow> quietly K (logged_with Deleted g k)"
  and quietly_oauth_save: "(\<And>r. K (OAuthSaved c r)) \<Longrightarrow> quietly K (logged_with OAuthSaved h c)"
  and quietly_oauth_remove: "(\<And>r. K (OAuthRemoved k r)) \<Longrightarrow> quietly K (logged_with OAuthRemoved g k)"
  and quietly_policy: "(\<And>r. K (PolicyRead r)) \<Longrightarrow> quietly K (logged_with (\<lambda>_. PolicyRead) p u)"
  by (rule quietly_logged_with, simp)+

lemmas quietly_ext = quietly_intros quietly_emit quietly_say quietly_client quietly_ask quietly_set quietly_delete quietly_oauth_save
  quietly_oauth_remove quietly_policy

lemma quietly_load_policy: "(\<And>r. K (PolicyRead r)) \<Longrightarrow> quietly K (load_policy (logged_ext env))"
  unfolding load_policy_def by (auto intro!: quietly_ext)

lemma quietly_assert: "(\<And>r. K (PolicyRead r)) \<Longrightarrow> quietly K (assert_allowed (logged_ext env) e operation)"
  unfolding assert_allowed_def by (auto intro!: quietly_ext quietly_load_policy)

lemma quietly_fetch_tools: "quietly plain (fetch_tools (logged_ext env) i)"
  unfolding fetch_tools_def by (auto intro!: quietly_ext)

lemma quietly_enforce_tools: "quietly plain (enforce_tools (logged_ext env) i p ts)"
  unfolding enforce_tools_def enforce_tool_def Let_def by (auto intro!: quietly_ext)

lemma quietly_enforce: "quietly plain (enforce_enterprise_tool_policies (logged_ext env) i ts)"
  unfolding enforce_enterprise_tool_policies_def
  by (cases ts) (auto intro!: quietly_ext quietly_load_policy quietly_fetch_tools quietly_enforce_tools)

lemma quietly_governance: "quietly plain (enforce_enterprise_governance (logged_ext env) health)"
  unfolding enforce_enterprise_governance_def enforce_item_def Let_def
  by (auto intro!: quietly_ext quietly_load_policy quietly_fetch_tools quietly_enforce_tools)

lemma quietly_health: "quietly plain (fetch_health (logged_ext env))"
  unfolding fetch_health_def by (auto intro!: quietly_ext)

lemma quietly_governed_health: "quietly plain (governed_health (logged_ext env))"
  unfolding governed_health_def by (auto intro!: quietly_ext quietly_health quietly_governance)

lemma quietly_view_of: "quietly K (view_of (logged_ext env) item)"
  unfolding view_of_def ext_status_of_def Let_def by (auto intro!: quietly_ext)

lemma quietly_list: "quietly plain (ext_list (logged_ext env))"
  unfolding ext_list_def by (auto intro!: quietly_ext quietly_governed_health quietly_view_of)

lemma quietly_require_view: "quietly plain (require_view (logged_ext env) i)"
  unfolding require_view_def by (auto intro!: quietly_ext quietly_list split: option.split)

lemma quietly_read_secret: "quietly K (read_secret (logged_ext env) key)"
  unfolding read_secret_def by (auto intro!: quietly_ext)

lemma quietly_store_secret: "(\<And>k r. key = Inr k \<Longrightarrow> K (Stored (k, v) r)) \<Longrightarrow> quietly K (store_secret (logged_ext env) key v)"
  by (cases key) (auto simp: store_secret_def io_bind_lift intro!: quietly_ext)

lemma quietly_delete_secret: "(\<And>k r. K (Deleted k r)) \<Longrightarrow> quietly K (delete_secret (logged_ext env) key)"
  unfolding delete_secret_def by (auto intro!: quietly_ext)

lemma quietly_material: "quietly plain (restore_runtime_material (logged_ext env) i a)"
  unfolding restore_runtime_material_def
  by (cases a) (auto intro!: quietly_ext quietly_read_secret split: option.split)

lemma quietly_read_environment: "quietly K (read_environment (logged_ext env) i)"
  unfolding read_environment_def by (auto intro!: quietly_ext quietly_read_secret split: option.split sum.split)

lemma quietly_restore_environment: "quietly plain (restore_environment (logged_ext env) i)"
  unfolding restore_environment_def by (auto intro!: quietly_ext quietly_read_environment)

lemma quietly_clear_environment: "quietly plain (clear_environment (logged_ext env) i)"
  unfolding clear_environment_def by (auto intro!: quietly_ext)

lemma quietly_save_environment: "quietly plain (save_environment (logged_ext env) i vs)"
  unfolding save_environment_def by (auto intro!: quietly_ext quietly_clear_environment quietly_store_secret)

lemma quietly_list_tools: "quietly plain (ext_list_tools (logged_ext env) i)"
  unfolding ext_list_tools_def by (auto intro!: quietly_ext quietly_fetch_tools quietly_enforce)

lemma quietly_snapshot: "quietly plain (ext_snapshot (logged_ext env) i)"
  unfolding ext_snapshot_def by (auto intro!: quietly_ext quietly_require_view quietly_list_tools)

lemma quietly_restore_policies: "quietly plain (restore_policies (logged_ext env) i p d)"
  unfolding restore_policies_def restore_policy_def Let_def by (auto intro!: quietly_ext quietly_load_policy)

lemma quietly_read_backup: "quietly K (read_update_backup (logged_ext env) i)"
  unfolding read_update_backup_def by (auto intro!: quietly_ext quietly_read_secret split: option.split sum.split)

lemma quietly_write_backup: "quietly plain (write_update_backup (logged_ext env) i s)"
  unfolding write_update_backup_def Let_def by (auto intro!: quietly_ext quietly_store_secret)

section \<open>Only what the policy allows is started\<close>

fun idle :: "ext_event \<Rightarrow> bool" where
  "idle (Backend (EEnable i) r) = False"
| "idle (Backend (ERestart i) r) = False"
| "idle e = True"

lemma plain_idle: "plain e \<Longrightarrow> idle e"
  by (cases e rule: idle.cases) auto

text \<open>The extension \<open>e\<close> that the policy was asked about is the one called \<open>i\<close>: a listing or a registration says so, or \<open>i\<close> is a staged copy.\<close>

definition listed_as :: "ext_event list \<Rightarrow> governed_extension \<Rightarrow> jstr \<Rightarrow> bool" where
  "listed_as l e i \<longleftrightarrow> (\<exists>raw hs h t. Backend EHealth (Inr raw) \<in> set l \<and> parse_health_list raw = Inr hs \<and> h \<in> set hs
     \<and> parse_ext_transport (xr_transport (hi_extension h)) = Inr t \<and> e = governed_item (hi_extension h) t \<and> xr_id (hi_extension h) = i)"

definition registered_as :: "ext_event list \<Rightarrow> governed_extension \<Rightarrow> jstr \<Rightarrow> bool" where
  "registered_as l e i \<longleftrightarrow> (\<exists>inp key r. Backend (EInstall inp key) (Inr r) \<in> set l \<and> in_id inp = i \<and> (e = governed_from_install inp
     \<or> (\<exists>hex. i = stage_id (ge_id e) hex) \<and> in_version inp = ge_version e \<and> in_source inp = ge_source e @ lit '':stage''
       \<and> transport_kind (in_transport inp) = ge_transport e))"

definition permitted :: "ext_event list \<Rightarrow> governed_extension \<Rightarrow> bool" where
  "permitted l e \<longleftrightarrow> (\<exists>g p. PolicyRead (Inr g) \<in> set l \<and> load_governance g = Inr p \<and> gd_allowed (evaluate_extension e p))"

definition covered :: "ext_event list \<Rightarrow> jstr \<Rightarrow> bool" where
  "covered l i \<longleftrightarrow> (\<exists>e. permitted l e \<and> (listed_as l e i \<or> registered_as l e i))"

lemma listed_mono: "listed_as l e i \<Longrightarrow> listed_as (l @ new) e i" "listed_as new e i \<Longrightarrow> listed_as (l @ new) e i"
  unfolding listed_as_def by auto

lemma registered_mono: "registered_as l e i \<Longrightarrow> registered_as (l @ new) e i"
  unfolding registered_as_def by auto

lemma permitted_mono: "permitted l e \<Longrightarrow> permitted (l @ new) e" "permitted new e \<Longrightarrow> permitted (l @ new) e"
  unfolding permitted_def by auto

lemma covered_mono: "covered l i \<Longrightarrow> covered (l @ new) i"
  unfolding covered_def using permitted_mono listed_mono registered_mono by metis

definition safe_log :: "ext_event list \<Rightarrow> bool" where
  "safe_log l \<longleftrightarrow> (\<forall>pre c i r post. l = pre @ Backend c r # post \<and> c \<in> {EEnable i, ERestart i} \<longrightarrow> covered pre i)"

lemma safe_Nil: "safe_log []"
  by (simp add: safe_log_def)

lemma safe_snoc: "safe_log (l @ [x]) \<longleftrightarrow> safe_log l \<and> (\<forall>c i r. x = Backend c r \<and> c \<in> {EEnable i, ERestart i} \<longrightarrow> covered l i)"
proof
  assume s: "safe_log (l @ [x])"
  show "safe_log l \<and> (\<forall>c i r. x = Backend c r \<and> c \<in> {EEnable i, ERestart i} \<longrightarrow> covered l i)"
    using s unfolding safe_log_def by (metis append_Cons append_assoc)
next
  assume s: "safe_log l \<and> (\<forall>c i r. x = Backend c r \<and> c \<in> {EEnable i, ERestart i} \<longrightarrow> covered l i)"
  show "safe_log (l @ [x])"
    unfolding safe_log_def
  proof (intro allI impI, elim conjE)
    fix pre c i r post
    assume d: "l @ [x] = pre @ Backend c r # post" and c: "c \<in> {EEnable i, ERestart i}"
    show "covered pre i"
    proof (cases post rule: rev_cases)
      case Nil
      then show ?thesis using d c s by auto
    next
      case (snoc ys y)
      then have "l = pre @ Backend c r # ys" using d by simp
      then show ?thesis using s c unfolding safe_log_def by blast
    qed
  qed
qed

lemma safe_idle: "safe_log l \<Longrightarrow> list_all idle new \<Longrightarrow> safe_log (l @ new)"
proof (induction new rule: rev_induct)
  case (snoc x new)
  then have "safe_log (l @ new)" "idle x" by simp_all
  then have "safe_log ((l @ new) @ [x])" unfolding safe_snoc by (auto elim: idle.elims)
  then show ?case by simp
qed simp

lemma plain_list_idle: "list_all plain new \<Longrightarrow> list_all idle new"
  by (auto simp: list_all_iff plain_idle)

text \<open>What the log shows and keeps showing.\<close>

definition grows :: "(ext_event list \<Rightarrow> bool) \<Rightarrow> bool" where
  "grows F \<longleftrightarrow> (\<forall>l new. F l \<longrightarrow> F (l @ new))"

lemma grows_intros [intro]:
  "grows (\<lambda>l. A)" "grows F \<Longrightarrow> grows G \<Longrightarrow> grows (\<lambda>l. F l \<and> G l)"
  "grows (\<lambda>l. listed_as l e i)" "grows (\<lambda>l. registered_as l e i)" "grows (\<lambda>l. permitted l e)" "grows (\<lambda>l. covered l i)"
  "grows (\<lambda>l. \<exists>r. Backend c (Inr r) \<in> set l)"
  unfolding grows_def using listed_mono registered_mono permitted_mono covered_mono by auto

lemma growsD: "grows F \<Longrightarrow> F l \<Longrightarrow> F (l @ new)"
  by (simp add: grows_def)

text \<open>Parts without a start keep the log safe, and what it shows.\<close>

lemma safe_quietly: "quietly plain m \<Longrightarrow> grows F \<Longrightarrow> hoare (\<lambda>l. safe_log l \<and> F l) m (\<lambda>r l. safe_log l \<and> F l)"
  by (rule hoare_quietly) (auto intro: safe_idle plain_list_idle growsD)

lemma traces_governed_health:
  "traces snd (governed_health (logged_ext env)) (\<lambda>new r. list_all plain new
     \<and> (\<forall>hs. r = Inr hs \<longrightarrow> (\<exists>raw. Backend EHealth (Inr raw) \<in> set new \<and> parse_health_list raw = Inr hs)))"
proof -
  have f: "traces snd (fetch_health (logged_ext env)) (\<lambda>new r. list_all plain new
      \<and> (\<forall>hs. r = Inr hs \<longrightarrow> (\<exists>raw. Backend EHealth (Inr raw) \<in> set new \<and> parse_health_list raw = Inr hs)))"
    unfolding fetch_health_def logged_ext_simps
    by (rule traces_bind [where ?R1.0 = "\<lambda>new r. new = [Backend EHealth r]" and ?R2.0 = "\<lambda>raw new r. new = [] \<and> r = parse_health_list raw"])
      (auto intro!: traces_logged_with traces_lift)
  have "traces snd (io_bind (enforce_enterprise_governance (logged_ext env) hs)
        (\<lambda>changed. if changed then fetch_health (logged_ext env) else io_return hs))
      (\<lambda>new r. list_all plain new \<and> (\<forall>hs'. r = Inr hs' \<longrightarrow> hs' = hs
          \<or> (\<exists>raw. Backend EHealth (Inr raw) \<in> set new \<and> parse_health_list raw = Inr hs')))" (is "traces _ _ ?R") for hs
  proof (rule traces_bind [OF quietly_governance [unfolded quietly_def], where ?R2.0 = "\<lambda>c. ?R"])
    fix changed
    show "traces snd (if changed then fetch_health (logged_ext env) else io_return hs) ?R"
      by (cases changed) (auto intro: traces_return traces_weaken [OF f])
  qed auto
  then show ?thesis
    unfolding governed_health_def
    by (rule traces_bind [OF f]) auto
qed

definition item_view :: "health_item \<Rightarrow> extension_view \<Rightarrow> bool" where
  "item_view h v \<longleftrightarrow> vx_id v = xr_id (hi_extension h) \<and> (\<exists>t. parse_ext_transport (xr_transport (hi_extension h)) = Inr t
     \<and> governed_from_view v = governed_item (hi_extension h) t)"

lemma view_of_item: "view_of env item w = (Inr v, w') \<Longrightarrow> item_view item v"
  by (auto simp: item_view_def view_of_def Let_def io_return_def io_lift_def governed_from_view_def governed_item_def elim!: io_bindE)

lemma traces_require_view:
  "traces snd (require_view (logged_ext env) i) (\<lambda>new r. list_all plain new
     \<and> (\<forall>v. r = Inr v \<longrightarrow> vx_id v = i \<and> listed_as new (governed_from_view v) i))"
proof -
  have views: "traces snd (io_map (view_of (logged_ext env)) hs) (\<lambda>new r. list_all plain new
      \<and> (\<forall>vs. r = Inr vs \<longrightarrow> list_all2 item_view hs vs))" for hs
    by (rule traces_result [OF quietly_map [OF quietly_view_of, unfolded quietly_def]])
      (auto dest!: io_map_Inr elim!: list_all2_mono intro: view_of_item)
  have "traces snd (ext_list (logged_ext env)) (\<lambda>new r. list_all plain new
      \<and> (\<forall>vs. r = Inr vs \<longrightarrow> (\<exists>raw hs. Backend EHealth (Inr raw) \<in> set new \<and> parse_health_list raw = Inr hs \<and> list_all2 item_view hs vs)))"
    unfolding ext_list_def by (rule traces_bind [OF traces_governed_health views]) auto
  then show ?thesis
    unfolding require_view_def
  proof (rule traces_bind [where ?R2.0 = "\<lambda>vs new r. new = [] \<and> (\<forall>v. r = Inr v \<longrightarrow> v \<in> set vs \<and> vx_id v = i)"])
    fix vs
    show "traces snd (case find (\<lambda>v. vx_id v = i) vs of None \<Rightarrow> io_lift (Inl (lit ''MCP extension '' @ i @ lit '' is not registered''))
        | Some v \<Rightarrow> io_return v) (\<lambda>new r. new = [] \<and> (\<forall>v. r = Inr v \<longrightarrow> v \<in> set vs \<and> vx_id v = i))"
      by (auto split: option.split intro: traces_return dest!: find_SomeD)
  next
    fix n1 n2 :: "ext_event list" and vs :: "extension_view list" and r :: "extension_view res"
    assume a: "list_all plain n1 \<and> (\<forall>vs'. Inr vs = Inr vs' \<longrightarrow> (\<exists>raw hs. Backend EHealth (Inr raw) \<in> set n1
        \<and> parse_health_list raw = Inr hs \<and> list_all2 item_view hs vs'))"
      and b: "n2 = [] \<and> (\<forall>v. r = Inr v \<longrightarrow> v \<in> set vs \<and> vx_id v = i)"
    from a obtain raw hs where hs: "Backend EHealth (Inr raw) \<in> set n1" "parse_health_list raw = Inr hs" "list_all2 item_view hs vs" by auto
    have "listed_as n1 (governed_from_view v) i" if "v \<in> set vs" "vx_id v = i" for v
    proof -
      from that(1) hs(3) obtain h where "h \<in> set hs" "item_view h v"
        by (metis in_set_conv_nth list_all2_conv_all_nth)
      with hs(1,2) that(2) show ?thesis unfolding listed_as_def item_view_def by metis
    qed
    with a b show "list_all plain (n1 @ n2) \<and> (\<forall>v. r = Inr v \<longrightarrow> vx_id v = i \<and> listed_as (n1 @ n2) (governed_from_view v) i)"
      by simp
  qed auto
qed

lemma traces_assert:
  "traces snd (assert_allowed (logged_ext env) e operation) (\<lambda>new r. list_all plain new \<and> (\<forall>u. r = Inr u \<longrightarrow> permitted new e))"
proof -
  have load: "traces snd (load_policy (logged_ext env)) (\<lambda>new r. list_all plain new
      \<and> (\<forall>p. r = Inr p \<longrightarrow> (\<exists>g. PolicyRead (Inr g) \<in> set new \<and> load_governance g = Inr p)))"
    unfolding load_policy_def logged_ext_simps
    by (rule traces_bind [where ?R1.0 = "\<lambda>new r. new = [PolicyRead r]" and ?R2.0 = "\<lambda>g new r. new = [] \<and> r = load_governance g"])
      (auto intro!: traces_logged_with traces_lift)
  show ?thesis
    unfolding assert_allowed_def
  proof (rule traces_bind [OF load, where ?R2.0 = "\<lambda>p new r. new = [] \<and> (\<forall>u. r = Inr u \<longrightarrow> gd_allowed (evaluate_extension e p))"])
    fix p
    show "traces snd (io_bind (io_lift (assert_extension_allowed e operation p)) (\<lambda>_. io_return ()))
        (\<lambda>new r. new = [] \<and> (\<forall>u. r = Inr u \<longrightarrow> gd_allowed (evaluate_extension e p)))"
      by (auto simp: traces_def assert_extension_allowed_def Let_def io_return_def)
  qed (auto simp: permitted_def)
qed

lemma hoare_require_view:
  assumes "grows F"
  shows "hoare (\<lambda>l. safe_log l \<and> F l) (require_view (logged_ext env) i)
    (\<lambda>r l. safe_log l \<and> F l \<and> (\<forall>v. r = Inr v \<longrightarrow> vx_id v = i \<and> listed_as l (governed_from_view v) i))"
  by (rule hoare_traces [OF traces_require_view]) (auto intro: growsD [OF assms] safe_idle plain_list_idle listed_mono)

lemma hoare_assert:
  assumes "grows F"
  shows "hoare (\<lambda>l. safe_log l \<and> F l) (assert_allowed (logged_ext env) e operation)
    (\<lambda>r l. safe_log l \<and> F l \<and> (\<forall>u. r = Inr u \<longrightarrow> permitted l e))"
  by (rule hoare_traces [OF traces_assert]) (auto intro: growsD [OF assms] safe_idle plain_list_idle permitted_mono)

text \<open>Starting an extension that is covered.\<close>

lemma hoare_logged:
  assumes "\<And>l r. P l \<Longrightarrow> Q r (l @ [Backend c r])"
  shows "hoare P (logged_with Backend f c) Q"
  by (rule hoare_traces [OF traces_logged_with [where R = "\<lambda>new r. new = [Backend c r]"]]) (auto intro: assms)

lemma hoare_ask:
  assumes "\<And>l r. P l \<Longrightarrow> Q (map_sum id (\<lambda>_. ()) r) (l @ [Backend c r])"
  shows "hoare P (ask_ext (logged_ext env) c) Q"
  unfolding ask_ext_def logged_ext_simps
  by (rule hoare_bind [where ?Q1.0 = "\<lambda>r l. Q (map_sum id (\<lambda>_. ()) r) l"]) (auto intro!: hoare_logged hoare_return assms)

lemma hoare_start:
  assumes "grows F" "\<And>l. F l \<Longrightarrow> covered l i" "c = EEnable i \<or> c = ERestart i"
  shows "hoare (\<lambda>l. safe_log l \<and> F l) (logged_with Backend f c) (\<lambda>r l. safe_log l \<and> F l)"
    and "hoare (\<lambda>l. safe_log l \<and> F l) (ask_ext (logged_ext env) c) (\<lambda>r l. safe_log l \<and> F l)"
  using assms(2,3) growsD [OF assms(1)] by (auto intro!: hoare_logged hoare_ask simp: safe_snoc)

text \<open>The rules for sequences.\<close>

lemma last_quietly: "quietly plain m \<Longrightarrow> hoare (\<lambda>l. safe_log l \<and> F l) m (\<lambda>r. safe_log)"
  by (rule hoare_weaken [OF safe_quietly [where F = "\<lambda>_. True"]]) auto

lemma then_quietly:
  assumes "quietly plain m" "grows F" "\<And>a. hoare (\<lambda>l. safe_log l \<and> F l) (f a) (\<lambda>r. safe_log)"
  shows "hoare (\<lambda>l. safe_log l \<and> F l) (io_bind m f) (\<lambda>r. safe_log)"
  by (rule hoare_bind [OF safe_quietly [OF assms(1) assms(2)] assms(3)]) simp

lemma then_lift:
  assumes "\<And>a. r = Inr a \<Longrightarrow> hoare (\<lambda>l. safe_log l \<and> F l) (f a) (\<lambda>r. safe_log)"
  shows "hoare (\<lambda>l. safe_log l \<and> F l) (io_bind (io_lift r) f) (\<lambda>r. safe_log)"
  using assms by (cases r) (auto simp: io_bind_lift intro: hoare_lift)

lemma then_view:
  assumes "grows F" "\<And>v. vx_id v = i \<Longrightarrow> hoare (\<lambda>l. safe_log l \<and> F l \<and> listed_as l (governed_from_view v) i) (f v) (\<lambda>r. safe_log)"
  shows "hoare (\<lambda>l. safe_log l \<and> F l) (io_bind (require_view (logged_ext env) i) f) (\<lambda>r. safe_log)"
proof (rule hoare_bind [OF hoare_require_view [OF assms(1)]])
  fix v
  show "hoare (\<lambda>l. safe_log l \<and> F l \<and> (\<forall>v'. Inr v = Inr v' \<longrightarrow> vx_id v' = i \<and> listed_as l (governed_from_view v') i)) (f v) (\<lambda>r. safe_log)"
    by (rule hoare_fact [of _ "vx_id v = i"]) (auto intro: hoare_pre [OF assms(2)])
qed auto

lemma then_assert:
  assumes "grows F" "\<And>u. hoare (\<lambda>l. safe_log l \<and> F l \<and> permitted l e) (f u) (\<lambda>r. safe_log)"
  shows "hoare (\<lambda>l. safe_log l \<and> F l) (io_bind (assert_allowed (logged_ext env) e operation) f) (\<lambda>r. safe_log)"
  by (rule hoare_bind [OF hoare_assert [OF assms(1)]]) (auto intro: hoare_pre [OF assms(2)])

lemma then_start:
  assumes "grows F" "\<And>l. F l \<Longrightarrow> covered l i" "c = EEnable i \<or> c = ERestart i" "\<And>a. hoare (\<lambda>l. safe_log l \<and> F l) (h a) (\<lambda>r. safe_log)"
    "\<And>a. hoare (\<lambda>l. safe_log l \<and> F l) (h' a) (\<lambda>r. safe_log)"
  shows "hoare (\<lambda>l. safe_log l \<and> F l) (io_bind (ask_ext (logged_ext env) c) h) (\<lambda>r. safe_log)"
    "hoare (\<lambda>l. safe_log l \<and> F l) (io_bind (logged_with Backend f c) h') (\<lambda>r. safe_log)"
  by (rule hoare_bind [OF hoare_start(2) [OF assms(1-3)]], auto intro: assms)
    (rule hoare_bind [OF hoare_start(1) [OF assms(1-3)]], auto intro: assms)

lemma then_catch:
  assumes "hoare P m (\<lambda>r. safe_log)" "\<And>e. hoare safe_log (h e) (\<lambda>r. safe_log)"
  shows "hoare P (io_catch m h) (\<lambda>r. safe_log)"
  by (rule hoare_catch [OF assms(1)]) (auto intro: assms(2))

lemma covered_listed: "listed_as l e i \<Longrightarrow> permitted l e \<Longrightarrow> covered l i"
  unfolding covered_def by blast

lemma covered_registered: "registered_as l e i \<Longrightarrow> permitted l e \<Longrightarrow> covered l i"
  unfolding covered_def by blast

lemma hoare_enable: "hoare (\<lambda>l. safe_log l \<and> True) (ext_enable (logged_ext env) i) (\<lambda>r. safe_log)"
  unfolding ext_enable_def
  by (intro then_lift then_view then_assert then_quietly [OF quietly_restore_environment] then_quietly [OF quietly_material] then_start(1)
      last_quietly grows_intros)
    (auto intro!: covered_listed quietly_ext quietly_enforce quietly_require_view)

lemma hoare_restart: "hoare (\<lambda>l. safe_log l \<and> True) (ext_restart (logged_ext env) i) (\<lambda>r. safe_log)"
  unfolding ext_restart_def logged_ext_simps
  by (intro then_lift then_view then_assert then_quietly [OF quietly_restore_environment] then_quietly [OF quietly_material] then_start(2)
      last_quietly grows_intros)
    (auto intro!: covered_listed quietly_ext quietly_enforce)

text \<open>Registering an input that the policy allows makes its id covered, and a staged copy of it too.\<close>

lemma registered_strip:
  "registered_as (l @ [Backend (EInstall (strip_environment_transport_metadata i) key) (Inr r)]) (governed_from_install i) (in_id i)"
proof -
  have "governed_from_install (strip_environment_transport_metadata i) = governed_from_install i"
      "in_id (strip_environment_transport_metadata i) = in_id i"
    by (cases "in_transport i"; auto simp: strip_environment_transport_metadata_def governed_from_install_def transport_kind_def
        split: option.split)+
  then show ?thesis unfolding registered_as_def by (metis in_set_conv_decomp)
qed

lemma then_install:
  assumes "grows F" "\<And>u. hoare (\<lambda>l. safe_log l \<and> F l \<and> (\<exists>r. Backend (EInstall i key) (Inr r) \<in> set l)) (h u) (\<lambda>r. safe_log)"
  shows "hoare (\<lambda>l. safe_log l \<and> F l) (io_bind (ask_ext (logged_ext env) (EInstall i key)) h) (\<lambda>r. safe_log)"
proof (rule hoare_bind [where ?Q1.0 = "\<lambda>r l. safe_log l \<and> F l \<and> (\<forall>u. r = Inr u \<longrightarrow> (\<exists>r. Backend (EInstall i key) (Inr r) \<in> set l))"])
  show "hoare (\<lambda>l. safe_log l \<and> F l) (ask_ext (logged_ext env) (EInstall i key))
      (\<lambda>r l. safe_log l \<and> F l \<and> (\<forall>u. r = Inr u \<longrightarrow> (\<exists>r. Backend (EInstall i key) (Inr r) \<in> set l)))"
  proof (rule hoare_ask)
    fix l and r :: "js res"
    assume "safe_log l \<and> F l"
    then show "safe_log (l @ [Backend (EInstall i key) r]) \<and> F (l @ [Backend (EInstall i key) r])
        \<and> (\<forall>u. map_sum id (\<lambda>_. ()) r = Inr u \<longrightarrow> (\<exists>r'. Backend (EInstall i key) (Inr r') \<in> set (l @ [Backend (EInstall i key) r])))"
      using growsD [OF assms(1)] by (cases r) (auto simp: safe_snoc)
  qed
qed (auto intro: hoare_pre [OF assms(2)])

text \<open>Parts that only must not start anything.\<close>

lemma quietly_idle: "quietly plain m \<Longrightarrow> quietly idle m"
  by (rule quietly_mono [OF _ plain_idle])

lemma hoare_idle: "quietly idle m \<Longrightarrow> hoare safe_log m (\<lambda>r. safe_log)"
  by (rule hoare_quietly) (auto intro: safe_idle)

lemma last_idle: "quietly idle m \<Longrightarrow> hoare (\<lambda>l. safe_log l \<and> F l) m (\<lambda>r. safe_log)"
  by (rule hoare_pre [OF hoare_idle]) auto

lemma then_safe:
  assumes "hoare P m (\<lambda>r. safe_log)" "\<And>a. hoare safe_log (f a) (\<lambda>r. safe_log)"
  shows "hoare P (io_bind m f) (\<lambda>r. safe_log)"
  by (rule hoare_bind [OF assms]) simp

lemma hoare_safe: "hoare (\<lambda>l. safe_log l \<and> True) m Q \<Longrightarrow> hoare safe_log m Q"
  by (erule hoare_pre) simp

lemma then_after:
  assumes "hoare P m (\<lambda>r. safe_log)" "quietly idle f" shows "hoare P (io_after m f) (\<lambda>r. safe_log)"
  by (rule hoare_after [OF assms(1)]) (auto intro: hoare_post [OF hoare_idle [OF assms(2)]] split: sum.split)

lemma staged_registered:
  assumes "i' = (strip_environment_transport_metadata i)\<lparr>in_id := stage_id (in_id i) hex, in_namespace := ns,
      in_source := in_source i @ lit '':stage'', in_required := req\<rparr>" "Backend (EInstall i' key) (Inr r) \<in> set l"
  shows "registered_as l (governed_from_install i) (stage_id (in_id i) hex)"
proof -
  have "in_version i' = in_version i" "transport_kind (in_transport i') = transport_kind (in_transport i)"
    unfolding assms(1) by (cases "in_transport i"; auto simp: strip_environment_transport_metadata_def transport_kind_def split: option.split)+
  then show ?thesis
    using assms unfolding registered_as_def governed_from_install_def by (intro exI [of _ i'] exI [of _ key] exI [of _ r]) auto
qed

lemma covered_staged:
  "permitted l (governed_from_install i)
    \<and> (\<exists>r. Backend (EInstall ((strip_environment_transport_metadata i)\<lparr>in_id := stage_id (in_id i) hex, in_namespace := ns,
      in_source := in_source i @ lit '':stage'', in_required := req\<rparr>) key) (Inr r) \<in> set l) \<Longrightarrow> covered l (stage_id (in_id i) hex)"
  using staged_registered [OF refl] covered_registered by blast

lemma covered_install:
  "permitted l (governed_from_install i) \<and> (\<exists>r. Backend (EInstall (strip_environment_transport_metadata i) key) (Inr r) \<in> set l)
    \<Longrightarrow> covered l (in_id i)"
proof (elim conjE exE)
  fix r
  assume p: "permitted l (governed_from_install i)" and "Backend (EInstall (strip_environment_transport_metadata i) key) (Inr r) \<in> set l"
  then obtain xs ys where "l = (xs @ [Backend (EInstall (strip_environment_transport_metadata i) key) (Inr r)]) @ ys"
    by (metis append_Cons append_Nil append_assoc in_set_conv_decomp)
  then have "registered_as l (governed_from_install i) (in_id i)" using registered_mono [OF registered_strip] by blast
  then show "covered l (in_id i)" using p by (rule covered_registered)
qed

lemma then_enable:
  assumes "grows F" "\<And>l. F l \<Longrightarrow> covered l x" "\<And>a. quietly plain (h a)"
  shows "hoare (\<lambda>l. safe_log l \<and> F l) (io_bind (ask_ext (logged_ext env) (EEnable x)) h) (\<lambda>r. safe_log)"
  by (rule then_start(1) [where h' = "\<lambda>_. io_return ()"]) (auto intro: assms last_quietly quietly_return)

lemma hoare_stage:
  assumes "grows F" "\<And>l. F l \<Longrightarrow> covered l x"
  shows "hoare (\<lambda>l. safe_log l \<and> F l)
    (io_bind (io_when b (ask_ext (logged_ext env) (EMaterializeEnv x kvs)))
      (\<lambda>_. io_bind (ask_ext (logged_ext env) (EEnable x)) (\<lambda>_. io_bind (fetch_tools (logged_ext env) x) (\<lambda>tools.
        if length tools > 512 then io_lift (throw m) else io_return True)))) (\<lambda>r. safe_log)"
  by (intro then_quietly then_enable assms) (auto intro!: quietly_ext quietly_fetch_tools)

lemma hoare_activate:
  assumes "grows F" "\<And>l. F l \<Longrightarrow> covered l x"
  shows "hoare (\<lambda>l. safe_log l \<and> F l)
    (io_bind (case oauth of Some c \<Rightarrow> io_when b (xe_oauth_save (logged_ext env) (x, c)) | None \<Rightarrow> io_return ())
      (\<lambda>_. io_bind (io_when d (ask_ext (logged_ext env) (EMaterializeEnv x kvs)))
      (\<lambda>_. io_bind (restore_runtime_material (logged_ext env) x auth)
      (\<lambda>_. io_bind (ask_ext (logged_ext env) (EEnable x)) (\<lambda>_. io_bind (fetch_tools (logged_ext env) x) (\<lambda>discovered.
        io_bind (restore_policies (logged_ext env) x tools discovered) (\<lambda>_. io_when e (ask_ext (logged_ext env) (EDisable x))))))))) (\<lambda>r. safe_log)"
  by (intro then_quietly then_enable assms quietly_material)
    (auto intro!: quietly_ext quietly_fetch_tools quietly_restore_policies split: option.split)

lemma hoare_preflight:
  "hoare (\<lambda>l. safe_log l \<and> permitted l (governed_from_install i)) (preflight_candidate (logged_ext env) i environment) (\<lambda>r. safe_log)"
  unfolding preflight_candidate_def Let_def logged_ext_simps
  by (intro hoare_if last_quietly quietly_return then_quietly [OF quietly_unlogged] then_install then_after grows_intros hoare_stage)
    (assumption | erule covered_staged | auto intro!: quietly_ext)+

lemma hoare_register:
  assumes "in_id i = x"
  shows "hoare (\<lambda>l. safe_log l \<and> permitted l (governed_from_install i)) (register_and_activate (logged_ext env) x i environment tools enabled) (\<lambda>r. safe_log)"
  unfolding register_and_activate_def
  by (intro then_lift then_install grows_intros hoare_activate) (erule covered_install [of _ i, unfolded assms])

lemma then_idle:
  assumes "quietly idle m" "grows F" "\<And>a. hoare (\<lambda>l. safe_log l \<and> F l) (f a) (\<lambda>r. safe_log)"
  shows "hoare (\<lambda>l. safe_log l \<and> F l) (io_bind m f) (\<lambda>r. safe_log)"
proof (rule hoare_bind [OF _ assms(3)])
  show "hoare (\<lambda>l. safe_log l \<and> F l) m (\<lambda>r l. safe_log l \<and> F l)"
    by (rule hoare_quietly [OF assms(1)]) (auto intro: safe_idle growsD [OF assms(2)])
qed simp

lemma hoare_swap:
  assumes "in_id nxt = in_id (us_input s)"
  shows "hoare (\<lambda>l. safe_log l \<and> True) (swap_registration (logged_ext env) s nxt environment) (\<lambda>r. safe_log)"
  unfolding swap_registration_def Let_def
  by (intro then_assert then_idle grows_intros hoare_pre [OF hoare_register [OF assms]]) (auto intro!: quietly_ext)

lemma hoare_restore: "hoare (\<lambda>l. safe_log l \<and> True) (restore_snapshot (logged_ext env) s environment) (\<lambda>r. safe_log)"
  unfolding restore_snapshot_def Let_def
  by (intro then_assert then_idle grows_intros hoare_pre [OF hoare_register [OF refl]]) (auto intro!: quietly_ext)

lemma hoare_activate_update:
  assumes "in_id nxt = in_id (us_input s)"
  shows "hoare safe_log (activate_update (logged_ext env) x s nxt environment staged) (\<lambda>r. safe_log)"
  unfolding activate_update_def Let_def
  by (intro then_catch then_safe hoare_safe [OF hoare_swap [OF assms]] hoare_safe [OF hoare_restore] hoare_idle)
    (auto intro!: quietly_ext)

lemma merged_id [simp]: "in_id (merge_oauth_client_identity p n) = in_id n"
  by (simp add: merge_oauth_client_identity_def Let_def split: option.split)

lemma snapshot_id: "ext_snapshot env x w = (Inr s, w') \<Longrightarrow> (\<And>v w1. require_view env x w = (Inr v, w1) \<Longrightarrow> vx_id v = x) \<Longrightarrow> in_id (us_input s) = x"
  by (auto simp: ext_snapshot_def io_return_def split: if_splits elim!: io_bindE)

lemma require_view_id: "require_view env x w = (Inr v, w') \<Longrightarrow> vx_id v = x"
  by (auto simp: require_view_def io_return_def split: option.splits elim!: io_bindE dest: find_SomeD)

lemma hoare_snapshot:
  "hoare safe_log (ext_snapshot (logged_ext env) x) (\<lambda>r l. safe_log l \<and> (\<forall>s. r = Inr s \<longrightarrow> in_id (us_input s) = x))"
  by (rule hoare_traces [OF traces_result [OF quietly_snapshot [unfolded quietly_def], where S = "\<lambda>s. in_id (us_input s) = x"]])
    (auto intro: snapshot_id require_view_id safe_idle plain_list_idle)

lemma hoare_stage_update:
  assumes "in_id planned = x"
  shows "hoare (\<lambda>l. safe_log l \<and> True) (stage_update (logged_ext env) x plan planned) (\<lambda>r. safe_log)"
  unfolding stage_update_def Let_def
proof (intro then_quietly [OF quietly_read_environment] then_lift grows_intros)
  fix environment u
  let ?rest = "\<lambda>snapshot. io_bind (assert_allowed (logged_ext env) (governed_from_install (merge_oauth_client_identity (us_input snapshot) planned)) ''update'')
     (\<lambda>_. io_bind (preflight_candidate (logged_ext env) (merge_oauth_client_identity (us_input snapshot) planned) environment)
     (\<lambda>staged. io_bind (write_update_backup (logged_ext env) x snapshot)
     (\<lambda>_. activate_update (logged_ext env) x snapshot (merge_oauth_client_identity (us_input snapshot) planned) environment staged)))"
  show "hoare (\<lambda>l. safe_log l \<and> True) (io_bind (ext_snapshot (logged_ext env) x) ?rest) (\<lambda>r. safe_log)"
  proof (rule hoare_pre [OF hoare_bind [OF hoare_snapshot]])
    fix s
    show "hoare (\<lambda>l. safe_log l \<and> (\<forall>s'. Inr s = Inr s' \<longrightarrow> in_id (us_input s') = x)) (?rest s) (\<lambda>r. safe_log)"
    proof (rule hoare_fact [of _ "in_id (us_input s) = x"])
      assume "in_id (us_input s) = x"
      then have "hoare safe_log (activate_update (logged_ext env) x s (merge_oauth_client_identity (us_input s) planned) environment staged) (\<lambda>r. safe_log)" for staged
        by (intro hoare_activate_update) (simp add: assms)
      then have "hoare (\<lambda>l. safe_log l \<and> True) (?rest s) (\<lambda>r. safe_log)"
        by (intro then_assert then_safe [OF hoare_pre [OF hoare_preflight]] then_safe [OF hoare_idle [OF quietly_idle [OF quietly_write_backup]]]
            grows_intros) auto
      then show "hoare (\<lambda>l. safe_log l \<and> (\<forall>s'. Inr s = Inr s' \<longrightarrow> in_id (us_input s') = x)) (?rest s) (\<lambda>r. safe_log)"
        by (rule hoare_pre) simp
    qed simp
  qed auto
qed

lemma hoare_update: "hoare (\<lambda>l. safe_log l \<and> True) (update_marketplace (logged_ext env) x) (\<lambda>r. safe_log)"
  unfolding update_marketplace_def logged_ext_simps
  by (intro then_lift then_view then_quietly [OF quietly_unlogged] grows_intros)
    (auto intro!: last_quietly [OF quietly_lift] last_quietly [OF quietly_return] hoare_pre [OF hoare_stage_update] split: option.split list.split)

lemma hoare_rollback: "hoare (\<lambda>l. safe_log l \<and> True) (rollback_marketplace (logged_ext env) x) (\<lambda>r. safe_log)"
  unfolding rollback_marketplace_def
proof (intro then_lift then_quietly [OF quietly_read_backup] grows_intros)
  fix found :: "update_snapshot option"
  show "hoare (\<lambda>l. safe_log l \<and> True) (case found of
      None \<Rightarrow> io_lift (Inl (lit ''MCP extension '' @ x @ lit '' does not have a rollback snapshot''))
    | Some backup \<Rightarrow>
        io_bind (assert_allowed (logged_ext env) (governed_from_install (us_input backup)) ''rollback'') (\<lambda>_.
        io_bind (ext_snapshot (logged_ext env) x) (\<lambda>current.
        io_bind (read_environment (logged_ext env) x) (\<lambda>environment.
        io_bind (restore_snapshot (logged_ext env) backup environment) (\<lambda>_.
        io_bind (write_update_backup (logged_ext env) x current) (\<lambda>_.
        io_bind (ext_emit (logged_ext env) (LogInfo (lit ''Rolled back MCP extension '' @ x @ [32]
            @ in_version (us_input current) @ lit '' -> '' @ in_version (us_input backup)))) (\<lambda>_.
          io_return (in_version (us_input current), in_version (us_input backup))))))))) (\<lambda>r. safe_log)"
  proof (cases found)
    case None
    then show ?thesis by (simp add: hoare_idle [OF quietly_lift])
  next
    case (Some b)
    have a: "quietly idle (assert_allowed (logged_ext env) e operation)" for e operation by (simp add: quietly_assert)
    show ?thesis
      unfolding Some option.case
      by (rule then_safe [OF last_idle [OF a]], rule then_safe [OF hoare_idle [OF quietly_idle [OF quietly_snapshot]]],
          rule then_safe [OF hoare_idle [OF quietly_read_environment]], rule then_safe [OF hoare_safe [OF hoare_restore]],
          rule then_safe [OF hoare_idle [OF quietly_idle [OF quietly_write_backup]]], rule hoare_idle)
        (auto intro!: quietly_ext)
  qed
qed

section \<open>All operations\<close>

datatype ext_op =
    OpInitialize
  | OpShutdown
  | OpList
  | OpInstall install_input
  | OpInstallMarketplace jstr "env_value list"
  | OpUpdateMarketplace jstr
  | OpRollback jstr
  | OpEnable jstr
  | OpDisable jstr
  | OpRestart jstr
  | OpRemove jstr
  | OpListTools jstr
  | OpListActivity "jstr option" "int option"
  | OpToolPolicy jstr jstr bool gov_approval
  | OpSetCredential jstr jstr
  | OpClearCredential jstr
  | OpApprove jstr
  | OpConnect jstr
  | OpRefresh jstr
  | OpRevoke jstr

definition io_void :: "('w, 'a) io \<Rightarrow> ('w, unit) io" where
  "io_void m = io_bind m (\<lambda>_. io_return ())"

fun run_ext_op :: "'w ext_env \<Rightarrow> ext_op \<Rightarrow> ('w, unit) io" where
  "run_ext_op env OpInitialize = ext_initialize env"
| "run_ext_op env OpShutdown = ext_shutdown env"
| "run_ext_op env OpList = io_void (ext_list env)"
| "run_ext_op env (OpInstall i) = io_void (ext_install env i)"
| "run_ext_op env (OpInstallMarketplace n vs) = io_void (install_marketplace env n vs)"
| "run_ext_op env (OpUpdateMarketplace x) = io_void (update_marketplace env x)"
| "run_ext_op env (OpRollback x) = io_void (rollback_marketplace env x)"
| "run_ext_op env (OpEnable x) = io_void (ext_enable env x)"
| "run_ext_op env (OpDisable x) = io_void (ext_disable env x)"
| "run_ext_op env (OpRestart x) = io_void (ext_restart env x)"
| "run_ext_op env (OpRemove x) = io_void (ext_remove env x)"
| "run_ext_op env (OpListTools x) = io_void (ext_list_tools env x)"
| "run_ext_op env (OpListActivity x n) = io_void (ext_list_activity env x n)"
| "run_ext_op env (OpToolPolicy x t b a) = io_void (ext_update_tool_policy env x t b a)"
| "run_ext_op env (OpSetCredential x c) = set_credential env x c"
| "run_ext_op env (OpClearCredential x) = clear_credential env x"
| "run_ext_op env (OpApprove t) = io_void (approve_next env t)"
| "run_ext_op env (OpConnect x) = io_void (connect_oauth env x)"
| "run_ext_op env (OpRefresh x) = io_void (refresh_oauth env x)"
| "run_ext_op env (OpRevoke x) = io_void (revoke_oauth env x)"

lemma quietly_void: "quietly K m \<Longrightarrow> quietly K (io_void m)"
  unfolding io_void_def by (intro quietly_bind quietly_return)

lemma quietly_assert_idle: "quietly idle (assert_allowed (logged_ext env) e operation)"
  by (simp add: quietly_assert)

lemmas quietly_parts = quietly_list quietly_require_view quietly_governed_health quietly_restore_environment quietly_material
  quietly_clear_environment quietly_save_environment quietly_list_tools quietly_fetch_tools quietly_enforce

lemmas idle_parts = quietly_parts [THEN quietly_idle] quietly_load_policy quietly_read_secret quietly_store_secret quietly_delete_secret quietly_assert_idle

lemma idle_initialize: "quietly idle (ext_initialize (logged_ext env))"
  unfolding ext_initialize_def restore_item_def Let_def by (auto intro!: quietly_ext idle_parts)

lemma idle_install: "quietly idle (ext_install (logged_ext env) i)"
  unfolding ext_install_def configure_installed_def undo_install_def
  by (auto intro!: quietly_ext idle_parts split: option.split list.split ext_auth.split)

lemma idle_connect: "quietly idle (connect_oauth (logged_ext env) x)"
  unfolding connect_oauth_def by (auto intro!: quietly_ext idle_parts)

lemma idle_marketplace: "quietly idle (install_marketplace (logged_ext env) n vs)"
  unfolding install_marketplace_def
  by (auto intro!: quietly_ext idle_parts idle_install idle_connect split: option.split list.split)

lemma idle_simple:
  "quietly idle (ext_shutdown (logged_ext env))" "quietly idle (ext_disable (logged_ext env) x)" "quietly idle (ext_remove (logged_ext env) x)"
  "quietly idle (ext_list_activity (logged_ext env) y n)" "quietly idle (ext_update_tool_policy (logged_ext env) x t b a)"
  "quietly idle (set_credential (logged_ext env) x c)" "quietly idle (clear_credential (logged_ext env) x)"
  "quietly idle (approve_next (logged_ext env) t)" "quietly idle (refresh_oauth (logged_ext env) x)" "quietly idle (revoke_oauth (logged_ext env) x)"
  unfolding ext_shutdown_def ext_disable_def ext_remove_def ext_list_activity_def ext_update_tool_policy_def set_credential_def
    clear_credential_def approve_next_def refresh_oauth_def revoke_oauth_def Let_def
  by (auto intro!: quietly_ext idle_parts)

lemma hoare_void: "hoare P m (\<lambda>r. safe_log) \<Longrightarrow> hoare P (io_void m) (\<lambda>r. safe_log)"
  unfolding io_void_def by (erule then_safe) (rule hoare_idle [OF quietly_return])

text \<open>
  C21: The enterprise policy decides what runs. Whatever operation runs and however the backend answers,
  each time an extension is enabled or restarted, the policy has been read before in the same
  operation and allows it: the extension of that id as a listing or its registration describes it,
  or the original of a staged copy.
\<close>

theorem started_only_if_allowed:
  assumes "run_ext_op (logged_ext env) op (w, []) = (r, (w', l))"
    and "l = pre @ Backend c a # post" and "c = EEnable i \<or> c = ERestart i"
  shows "\<exists>e g p. PolicyRead (Inr g) \<in> set pre \<and> load_governance g = Inr p \<and> gd_allowed (evaluate_extension e p)
    \<and> (listed_as pre e i \<or> registered_as pre e i)"
proof -
  have "hoare (\<lambda>l. safe_log l \<and> True) (run_ext_op (logged_ext env) op) (\<lambda>r. safe_log)"
  proof (cases op)
    case (OpUpdateMarketplace x)
    then show ?thesis by (simp only: run_ext_op.simps) (rule hoare_void [OF hoare_update])
  next
    case (OpRollback x)
    then show ?thesis by (simp only: run_ext_op.simps) (rule hoare_void [OF hoare_rollback])
  next
    case (OpEnable x)
    then show ?thesis by (simp only: run_ext_op.simps) (rule hoare_void [OF hoare_enable])
  next
    case (OpRestart x)
    then show ?thesis by (simp only: run_ext_op.simps) (rule hoare_void [OF hoare_restart])
  qed (auto intro!: hoare_idle quietly_void idle_initialize idle_install idle_marketplace idle_connect idle_simple idle_parts)
  from hoareD [OF this assms(1)] have "safe_log l" by (simp add: safe_Nil)
  then have "covered pre i" unfolding safe_log_def using assms(2,3) by blast
  then show ?thesis unfolding covered_def permitted_def by blast
qed

section \<open>An example\<close>

definition demo_extension_js :: js where
  "demo_extension_js = JObj [(lit ''id'', jtext ''files''), (lit ''name'', jtext ''Files''), (lit ''version'', jtext ''1''),
     (lit ''namespace'', jtext ''files''), (lit ''source'', jtext ''registry:a/b''), (lit ''auth_type'', jtext ''none''),
     (lit ''status'', jtext ''installed''), (lit ''enabled'', JBool False), (lit ''required'', JBool False),
     (lit ''update_channel'', jtext ''stable''), (lit ''created_at'', jint 1), (lit ''updated_at'', jint 1),
     (lit ''transport'', JObj [(lit ''transport'', jtext ''streamable-http''), (lit ''url'', jtext ''u'')])]"

definition demo_health_js :: js where
  "demo_health_js = JArr [JObj [(lit ''extension'', demo_extension_js), (lit ''discovered_tools'', jint 0),
     (lit ''exposed_tools'', jint 0), (lit ''credential_materialized'', JBool False)]]"

definition demo_client_ext :: "ext_call \<Rightarrow> (unit, js) io" where
  "demo_client_ext c = io_return (case c of EHealth \<Rightarrow> demo_health_js | EListTools _ \<Rightarrow> JArr [] | _ \<Rightarrow> JNull)"

definition no_governance :: governance_env where
  "no_governance = \<lparr>gv_inline = None, gv_file = None, gv_is_absolute = \<lambda>_. False, gv_read = Inl, gv_json = \<lambda>_. None,
     gv_url = \<lambda>_. None, gv_href = \<lambda>_. []\<rparr>"

definition demo_input :: install_input where
  "demo_input = \<lparr>in_id = lit ''files'', in_name = lit ''Files'', in_version = lit ''2'', in_namespace = lit ''files'',
     in_source = lit ''registry:a/b'', in_transport = TransportHttp (lit ''u''), in_auth = AuthNone, in_credential = None,
     in_oauth = None, in_environment = None, in_required = None, in_channel = None\<rparr>"

definition demo_plan :: install_plan where
  "demo_plan = \<lparr>pl_version = lit ''2'', pl_fields = [], pl_input = Some demo_input, pl_blockers = []\<rparr>"

definition demo_ext_env :: "unit ext_env" where
  "demo_ext_env =
     \<lparr>xe_client = demo_client_ext, xe_has = \<lambda>_. io_return False, xe_get = \<lambda>_. io_return None, xe_set = \<lambda>_. io_return (),
      xe_delete = \<lambda>_. io_return (), xe_oauth_status = \<lambda>_. io_lift (Inl []), xe_oauth_save = \<lambda>_. io_return (),
      xe_oauth_remove = \<lambda>_. io_return (), xe_oauth_restore = \<lambda>_. io_return False, xe_oauth_export = \<lambda>_. io_return None,
      xe_oauth_act = \<lambda>_. io_lift (Inl []), xe_oauth_shutdown = \<lambda>_. io_return (), xe_plan = \<lambda>_. io_return demo_plan,
      xe_governance = \<lambda>_. io_return no_governance, xe_hex = \<lambda>_. io_return (lit ''00''), xe_emit = \<lambda>_ w. w,
      xe_json = \<lambda>_. None, xe_stringify = \<lambda>_. []\<rparr>"

definition demo_item :: health_item where
  "demo_item = \<lparr>hi_extension = \<lparr>xr_id = lit ''files'', xr_name = lit ''Files'', xr_version = lit ''1'', xr_namespace = lit ''files'',
       xr_source = lit ''registry:a/b'', xr_transport = JObj [(lit ''transport'', jtext ''streamable-http''), (lit ''url'', jtext ''u'')],
       xr_auth = AuthNone, xr_status = ExtInstalled, xr_enabled = False, xr_required = False, xr_channel = lit ''stable'',
       xr_last_error = None, xr_created_at = 1, xr_updated_at = 1\<rparr>,
     hi_discovered = 0, hi_exposed = 0, hi_credential = False, hi_environment = False\<rparr>"

lemma demo_health: "parse_health_list demo_health_js = Inr [demo_item]"
  by (simp add: parse_health_list_def demo_health_js_def parse_health_item_def demo_extension_js_def parse_extension_def demo_item_def
      jget_def lit_def js_eval text_member_def bool_member_def count_member_def name_in_def named_def auth_types_def ext_statuses_def
      required_member_def)

lemma demo_transport: "parse_ext_transport (xr_transport (hi_extension demo_item)) = Inr (TransportHttp (lit ''u''))"
  by (simp add: parse_ext_transport_def demo_item_def jget_def lit_def js_eval text_member_def)

lemma no_policy: "load_governance no_governance = Inr EMPTY_POLICY" "\<not> gp_managed EMPTY_POLICY"
  by (simp_all add: load_governance_def no_governance_def trimmed_variable_def EMPTY_POLICY_def)

lemma demo_env_simps [simp]:
  "xe_client demo_ext_env = demo_client_ext" "xe_has demo_ext_env i = io_return False" "xe_get demo_ext_env i = io_return None"
  "xe_governance demo_ext_env u = io_return no_governance" "xe_plan demo_ext_env s = io_return demo_plan"
  "xe_set demo_ext_env kv = io_return ()" "xe_hex demo_ext_env u = io_return (lit ''00'')" "xe_stringify demo_ext_env v = []"
  by (simp_all add: demo_ext_env_def)

lemma demo_valid_id: "validate_extension_id (lit ''files'') = Inr ()"
  by (simp add: validate_extension_id_def valid_extension_id_def MAX_EXTENSION_ID_def lit_def js_eval)

lemmas ext_eval = io_bind_def logged_with_def unlogged_def io_return_def

lemma demo_view:
  "\<exists>v. vx_id v = lit ''files'' \<and> vx_auth v = AuthNone \<and> vx_source v = lit ''registry:a/b'' \<and> vx_version v = lit ''1'' \<and> \<not> vx_enabled v
     \<and> governed_from_view v = governed_item (hi_extension demo_item) (TransportHttp (lit ''u''))
     \<and> (\<forall>l. require_view (logged_ext demo_ext_env) (lit ''files'') ((), l)
       = (Inr v, ((), l @ [Backend EHealth (Inr demo_health_js), PolicyRead (Inr no_governance)])))"
proof -
  obtain k where key: "environment_key (lit ''files'') = Inr k"
    by (simp add: environment_key_def extension_key_def demo_valid_id)
  have item: "xr_id (hi_extension demo_item) = lit ''files''" "xr_auth (hi_extension demo_item) = AuthNone"
    "xr_source (hi_extension demo_item) = lit ''registry:a/b''" "xr_version (hi_extension demo_item) = lit ''1''"
    "\<not> xr_enabled (hi_extension demo_item)"
    by (simp_all add: demo_item_def)
  have "\<exists>v. (\<forall>l. view_of (logged_ext demo_ext_env) demo_item ((), l) = (Inr v, ((), l))) \<and> vx_auth v = AuthNone
      \<and> vx_source v = lit ''registry:a/b'' \<and> vx_version v = lit ''1'' \<and> \<not> vx_enabled v"
    by (simp add: view_of_def ext_status_of_def item ext_eval key demo_transport Let_def)
  then obtain v where v: "\<And>l. view_of (logged_ext demo_ext_env) demo_item ((), l) = (Inr v, ((), l))" "vx_auth v = AuthNone"
    "vx_source v = lit ''registry:a/b''" "vx_version v = lit ''1''" "\<not> vx_enabled v" by blast
  have "item_view demo_item v" by (rule view_of_item [OF v(1)])
  then have i: "vx_id v = lit ''files''" "governed_from_view v = governed_item (hi_extension demo_item) (TransportHttp (lit ''u''))"
    by (simp_all add: item_view_def item demo_transport)
  have "require_view (logged_ext demo_ext_env) (lit ''files'') ((), l)
       = (Inr v, ((), l @ [Backend EHealth (Inr demo_health_js), PolicyRead (Inr no_governance)]))" for l
    by (simp add: require_view_def ext_list_def governed_health_def fetch_health_def enforce_enterprise_governance_def load_policy_def
        ext_eval demo_client_ext_def demo_health no_policy v i)
  with v i show ?thesis by blast
qed

lemma started_only_if_allowed_witness:
  "\<exists>r l pre a post e. run_ext_op (logged_ext demo_ext_env) (OpEnable (lit ''files'')) ((), []) = (r, ((), l))
     \<and> l = pre @ Backend (EEnable (lit ''files'')) a # post \<and> (listed_as pre e (lit ''files'') \<or> registered_as pre e (lit ''files''))"
proof -
  obtain v where v: "vx_id v = lit ''files''" "vx_auth v = AuthNone"
    "governed_from_view v = governed_item (hi_extension demo_item) (TransportHttp (lit ''u''))"
    "\<And>l. require_view (logged_ext demo_ext_env) (lit ''files'') ((), l)
       = (Inr v, ((), l @ [Backend EHealth (Inr demo_health_js), PolicyRead (Inr no_governance)]))"
    using demo_view by blast
  note valid = demo_valid_id
  obtain k where key: "environment_key (lit ''files'') = Inr k"
    by (simp add: environment_key_def extension_key_def valid)
  define pre where "pre = [Backend EHealth (Inr demo_health_js), PolicyRead (Inr no_governance), PolicyRead (Inr no_governance)]"
  have emit: "ext_emit (logged_ext demo_ext_env) e ((), l) = (Inr (), ((), l))" for e l
    by (simp add: ext_emit_def logged_ext_def demo_ext_env_def)
  have "\<exists>r post. run_ext_op (logged_ext demo_ext_env) (OpEnable (lit ''files'')) ((), [])
      = (r, ((), pre @ Backend (EEnable (lit ''files'')) (Inr JNull) # post))"
    by (simp add: ext_enable_def io_void_def valid ext_eval v assert_allowed_def load_policy_def no_policy assert_extension_allowed_def
        evaluate_extension_def restore_environment_def read_environment_def read_secret_def key truthy_text_def io_when_def
        restore_runtime_material_def ask_ext_def demo_client_ext_def io_catch_def enforce_enterprise_tool_policies_def fetch_tools_def
        parse_tools_def enforce_tools_def say_def emit pre_def)
  then obtain r post where run: "run_ext_op (logged_ext demo_ext_env) (OpEnable (lit ''files'')) ((), [])
      = (r, ((), pre @ Backend (EEnable (lit ''files'')) (Inr JNull) # post))" by blast
  from started_only_if_allowed [OF run refl disjI1 [OF refl]] run show ?thesis by blast
qed

end
