(* ===== verification/Mcp_Update.thy ===== *)
theory Mcp_Update
  imports Mcp_Safety
begin

text \<open>
  An update of a marketplace extension never leaves it without a registration unnoticed: the
  registration that the backend holds afterwards is the new one, or the old one after a rollback, and the
  old one is stored as a rollback snapshot before it is removed.
\<close>

section \<open>The registration of an extension\<close>

text \<open>What the log shows of the registration of \<open>x\<close>: untouched, removed, or the input it was registered with last.\<close>

datatype registration = Untouched | Removed | Registered install_input

fun reg_step :: "jstr \<Rightarrow> registration \<Rightarrow> ext_event \<Rightarrow> registration" where
  "reg_step x s (Backend (ERemove i) r) = (if i = x then Removed else s)"
| "reg_step x s (Backend (EInstall inp key) (Inr r)) = (if in_id inp = x then Registered inp else s)"
| "reg_step x s e = s"

definition registration_of :: "jstr \<Rightarrow> ext_event list \<Rightarrow> registration" where
  "registration_of x l = foldl (reg_step x) Untouched l"

fun apart :: "jstr \<Rightarrow> ext_event \<Rightarrow> bool" where
  "apart x (Backend (ERemove i) r) = (i \<noteq> x)"
| "apart x (Backend (EInstall inp key) r) = (in_id inp \<noteq> x)"
| "apart x e = True"

lemma plain_apart: "plain e \<Longrightarrow> apart x e"
  by (cases "(x, e)" rule: apart.cases) auto

lemma apart_step: "apart x e \<Longrightarrow> reg_step x s e = s"
  by (cases "(x, s, e)" rule: reg_step.cases) auto

lemma registration_apart: "list_all (apart x) new \<Longrightarrow> registration_of x (l @ new) = registration_of x l"
  by (induction new rule: rev_induct) (simp_all add: registration_of_def apart_step)

lemma quietly_apart: "quietly plain m \<Longrightarrow> quietly (apart x) m"
  by (rule quietly_mono [OF _ plain_apart])

text \<open>The snapshot of \<open>x\<close> has been stored.\<close>

definition backed :: "jstr \<Rightarrow> ext_event list \<Rightarrow> bool" where
  "backed x l \<longleftrightarrow> (\<exists>k v. update_backup_key x = Inr k \<and> Stored (k, v) (Inr ()) \<in> set l)"

definition backed_first :: "jstr \<Rightarrow> ext_event list \<Rightarrow> bool" where
  "backed_first x l \<longleftrightarrow> (\<forall>pre a post. l = pre @ Backend (ERemove x) a # post \<longrightarrow> backed x pre)"

lemma backed_mono: "backed x l \<Longrightarrow> backed x (l @ new)"
  by (auto simp: backed_def)

lemma backed_first_snoc: "backed_first x (l @ [e]) \<longleftrightarrow> backed_first x l \<and> (\<forall>a. e = Backend (ERemove x) a \<longrightarrow> backed x l)"
proof
  assume s: "backed_first x (l @ [e])"
  then show "backed_first x l \<and> (\<forall>a. e = Backend (ERemove x) a \<longrightarrow> backed x l)"
    unfolding backed_first_def by (metis append_Cons append_assoc)
next
  assume s: "backed_first x l \<and> (\<forall>a. e = Backend (ERemove x) a \<longrightarrow> backed x l)"
  show "backed_first x (l @ [e])"
    unfolding backed_first_def
  proof (intro allI impI)
    fix pre a post
    assume d: "l @ [e] = pre @ Backend (ERemove x) a # post"
    then show "backed x pre"
    proof (cases post rule: rev_cases)
      case (snoc ys y)
      then have "l = pre @ Backend (ERemove x) a # ys" using d by simp
      then show ?thesis using s unfolding backed_first_def by blast
    qed (use s in auto)
  qed
qed

lemma backed_first_apart: "backed_first x l \<Longrightarrow> list_all (apart x) new \<Longrightarrow> backed_first x (l @ new)"
proof (induction new rule: rev_induct)
  case (snoc e new)
  then have "backed_first x ((l @ new) @ [e])" unfolding backed_first_snoc by auto
  then show ?case by simp
qed simp

lemma backed_first_backed: "backed_first x l \<Longrightarrow> backed x l \<Longrightarrow> backed_first x (l @ new)"
proof (induction new rule: rev_induct)
  case (snoc e new)
  then have "backed_first x ((l @ new) @ [e])" unfolding backed_first_snoc by (auto intro: backed_mono)
  then show ?case by simp
qed simp

section \<open>The parts of an update\<close>

lemma staged_id:
  assumes "take 7 (drop 48 x) \<noteq> lit ''-stage-''" shows "stage_id x hex \<noteq> x"
proof
  assume e: "stage_id x hex = x"
  have l: "length (lit ''-stage-'') = 7" by (simp add: lit_def)
  show False
  proof (cases "length x < 48")
    case True
    then have "length (stage_id x hex) > length x" using l by (simp add: stage_id_def)
    then show False by (simp add: e)
  next
    case False
    then have "take 7 (drop 48 (stage_id x hex)) = lit ''-stage-''"
      using l by (simp add: stage_id_def drop_take take_append min_def)
    then show False using assms by (simp add: e)
  qed
qed

lemma quietly_preflight:
  assumes "take 7 (drop 48 (in_id i)) \<noteq> lit ''-stage-''"
  shows "quietly (apart (in_id i)) (preflight_candidate (logged_ext env) i environment)"
  unfolding preflight_candidate_def Let_def
  by (auto intro!: quietly_ext quietly_apart [OF quietly_fetch_tools] simp: staged_id [OF assms])

lemma traces_backup:
  "traces snd (write_update_backup (logged_ext env) x s) (\<lambda>new r. list_all plain new \<and> (r = Inr () \<longrightarrow> backed x new))"
  unfolding write_update_backup_def Let_def store_secret_def logged_ext_simps
  by (cases "update_backup_key x")
    (auto simp: io_bind_lift backed_def intro!: traces_lift traces_logged_with)

lemma strip_simps [simp]:
  "in_id (strip_environment_transport_metadata i) = in_id i" "in_version (strip_environment_transport_metadata i) = in_version i"
  by (cases "in_transport i"; simp add: strip_environment_transport_metadata_def split: option.split)+

text \<open>After the registration nothing changes it any more.\<close>

lemma hoare_registered:
  assumes "in_id i = x"
  shows "hoare (\<lambda>l. True) (register_and_activate (logged_ext env) x i environment tools enabled)
    (\<lambda>r l. r = Inr () \<longrightarrow> (\<exists>inp. registration_of x l = Registered inp \<and> in_version inp = in_version i))"
proof -
  let ?Q = "\<lambda>l. \<exists>inp. registration_of x l = Registered inp \<and> in_version inp = in_version i"
  have keep: "hoare (\<lambda>l. Inr u = (Inr () :: unit res) \<longrightarrow> ?Q l) m (\<lambda>r l. r = Inr () \<longrightarrow> ?Q l)" if "quietly (apart x) m"
    for m :: "('a \<times> ext_event list, unit) io" and u
    by (rule hoare_weaken [OF hoare_quietly [OF that, where P = ?Q]]) (auto simp: registration_apart)
  have install: "hoare (\<lambda>l. True) (ask_ext (logged_ext env) (EInstall (strip_environment_transport_metadata i) key)) (\<lambda>r l. r = Inr () \<longrightarrow> ?Q l)" for key
    by (rule hoare_ask) (auto simp: registration_of_def assms map_sum_def split: sum.splits)
  show ?thesis
    unfolding register_and_activate_def
    by (rule hoare_bind [OF hoare_lift [where Q = "\<lambda>r l. True"]], simp, rule hoare_bind [OF install], rule keep)
      (auto intro!: quietly_ext quietly_apart [OF quietly_material] quietly_apart [OF quietly_fetch_tools] quietly_apart [OF quietly_restore_policies]
        split: option.split)
qed

lemma hoare_swapped:
  assumes "in_id nxt = in_id (us_input s)"
  shows "hoare (\<lambda>l. True) (swap_registration (logged_ext env) s nxt environment)
    (\<lambda>r l. r = Inr () \<longrightarrow> (\<exists>inp. registration_of (in_id (us_input s)) l = Registered inp \<and> in_version inp = in_version nxt))"
  unfolding swap_registration_def Let_def
  by (rule hoare_bind [where ?Q1.0 = "\<lambda>r l. True"], simp add: hoare_def)
    (rule hoare_bind [where ?Q1.0 = "\<lambda>r l. True"], simp add: hoare_def,
     rule hoare_bind [where ?Q1.0 = "\<lambda>r l. True"], simp add: hoare_def, rule hoare_registered [OF assms], simp_all)

lemma hoare_restored:
  "hoare (\<lambda>l. True) (restore_snapshot (logged_ext env) s environment)
    (\<lambda>r l. r = Inr () \<longrightarrow> (\<exists>inp. registration_of (in_id (us_input s)) l = Registered inp \<and> in_version inp = in_version (us_input s)))"
  unfolding restore_snapshot_def Let_def
  by (rule hoare_bind [where ?Q1.0 = "\<lambda>r l. True"], simp add: hoare_def)
    (rule hoare_bind [where ?Q1.0 = "\<lambda>r l. True"], simp add: hoare_def,
     rule hoare_bind [where ?Q1.0 = "\<lambda>r l. True"], simp add: hoare_def, rule hoare_registered [OF refl], simp_all)

section \<open>The update\<close>

text \<open>What an update that has begun to change the registration ends with.\<close>

definition settled :: "jstr \<Rightarrow> update_result res \<Rightarrow> ext_event list \<Rightarrow> bool" where
  "settled x r l \<longleftrightarrow> (case r of
      Inl e \<Rightarrow> \<exists>a b. e = double_failure a b
    | Inr u \<Rightarrow> \<exists>inp. registration_of x l = Registered inp \<and> in_version inp = (if ur_rolled_back u then ur_from u else ur_to u))"

lemma hoare_activated:
  assumes "in_id nxt = in_id (us_input s)"
  shows "hoare (\<lambda>l. True) (activate_update (logged_ext env) y s nxt environment staged) (settled (in_id (us_input s)))"
proof -
  let ?reg = "\<lambda>v l. \<exists>inp. registration_of (in_id (us_input s)) l = Registered inp \<and> in_version inp = v"
  have emit: "hoare P (ext_emit (logged_ext env) e) (\<lambda>r l. r = Inr () \<and> P l)" for P e
    by (auto simp: hoare_def ext_emit_def logged_ext_def)
  have said: "hoare (\<lambda>l. Inr u = (Inr () :: unit res) \<longrightarrow> ?reg v l) (io_bind (ext_emit (logged_ext env) e) (\<lambda>_. io_return res))
      (\<lambda>r l. r = Inr res \<and> ?reg v l)" for u :: unit and v e and res :: update_result
    by (rule hoare_bind [OF emit hoare_return]) auto
  have rolled: "hoare (\<lambda>l. True) (io_catch (restore_snapshot (logged_ext env) s environment) (\<lambda>r. io_lift (Inl (double_failure e r))))
      (\<lambda>r l. case r of Inl d \<Rightarrow> \<exists>b. d = double_failure e b | Inr u \<Rightarrow> ?reg (in_version (us_input s)) l)" for e
    by (rule hoare_catch [OF hoare_restored], rule hoare_lift) auto
  show ?thesis
    unfolding activate_update_def Let_def
  proof (rule hoare_catch [where ?Q1.0 = "\<lambda>r l. case r of Inl e \<Rightarrow> True | Inr u \<Rightarrow> settled (in_id (us_input s)) r l"])
    show "hoare (\<lambda>l. True) (io_bind (swap_registration (logged_ext env) s nxt environment) (\<lambda>_. io_bind (ext_emit (logged_ext env) m)
        (\<lambda>_. io_return \<lparr>ur_extension = y, ur_from = f, ur_to = in_version nxt, ur_staged = staged, ur_rolled_back = False, ur_message = t\<rparr>)))
      (\<lambda>r l. case r of Inl e \<Rightarrow> True | Inr u \<Rightarrow> settled (in_id (us_input s)) r l)" for m f t
      by (rule hoare_bind [OF hoare_swapped [OF assms] hoare_post [OF said]]) (auto simp: settled_def)
  next
    show "hoare (\<lambda>l. case Inl e of Inl e \<Rightarrow> True | Inr u \<Rightarrow> settled (in_id (us_input s)) (Inl e) l)
      (io_bind (io_catch (restore_snapshot (logged_ext env) s environment) (\<lambda>r. io_lift (Inl (double_failure e r))))
        (\<lambda>_. io_bind (ext_emit (logged_ext env) m) (\<lambda>_. io_return \<lparr>ur_extension = y, ur_from = in_version (us_input s), ur_to = g,
          ur_staged = staged, ur_rolled_back = True, ur_message = t\<rparr>))) (settled (in_id (us_input s)))" for e m g t
      by (rule hoare_pre [OF hoare_bind [OF rolled hoare_weaken [OF said]]]) (auto simp: settled_def)
  qed (simp split: sum.splits)
qed

text \<open>Before the snapshot is stored nothing has happened to the registration.\<close>

definition fresh :: "jstr \<Rightarrow> ext_event list \<Rightarrow> bool" where
  "fresh x l \<longleftrightarrow> registration_of x l = Untouched \<and> backed_first x l"

definition ended :: "jstr \<Rightarrow> update_result res \<Rightarrow> ext_event list \<Rightarrow> bool" where
  "ended x r l \<longleftrightarrow> backed_first x l \<and> (settled x r l
     \<or> registration_of x l = Untouched \<and> (case r of Inl e \<Rightarrow> True | Inr u \<Rightarrow> ur_from u = ur_to u \<and> \<not> ur_rolled_back u))"

lemma fresh_apart: "fresh x l \<Longrightarrow> list_all (apart x) new \<Longrightarrow> fresh x (l @ new)"
  by (simp add: fresh_def registration_apart backed_first_apart)

lemma hoare_fresh: "quietly (apart x) m \<Longrightarrow> hoare (fresh x) m (\<lambda>r. fresh x)"
  by (rule hoare_quietly) (auto intro: fresh_apart)

lemma then_fresh:
  assumes "quietly (apart x) m" "\<And>a. hoare (fresh x) (f a) (ended x)"
  shows "hoare (fresh x) (io_bind m f) (ended x)"
  by (rule hoare_bind [OF hoare_fresh [OF assms(1)] assms(2)]) (simp add: ended_def fresh_def)

lemma hoare_backed:
  assumes "hoare (\<lambda>l. True) m (settled x)" "quietly (\<lambda>_. True) m"
  shows "hoare (\<lambda>l. backed_first x l \<and> backed x l) m (ended x)"
proof (rule hoare_post [OF hoare_conj [OF hoare_pre [OF assms(1)] hoare_quietly [OF assms(2)]]])
  show "backed_first x (l @ new) \<and> backed x (l @ new)" if "backed_first x l \<and> backed x l" for l new
    using that by (simp add: backed_first_backed backed_mono)
qed (auto simp: ended_def)

lemma quietly_activate: "quietly (\<lambda>_. True) (activate_update (logged_ext env) y s nxt environment staged)"
proof -
  have q: "quietly (\<lambda>_. True) m" if "quietly plain m" for m :: "('a \<times> ext_event list, 'b) io" using that by (rule quietly_mono) simp
  show ?thesis
    unfolding activate_update_def swap_registration_def restore_snapshot_def register_and_activate_def Let_def
    by (auto intro!: quietly_ext quietly_assert q [OF quietly_material] q [OF quietly_fetch_tools] q [OF quietly_restore_policies] split: option.split)
qed

lemma hoare_staged:
  assumes "in_id planned = x" "take 7 (drop 48 x) \<noteq> lit ''-stage-''"
  shows "hoare (fresh x) (stage_update (logged_ext env) x plan planned) (ended x)"
  unfolding stage_update_def Let_def
proof (rule then_fresh, rule quietly_read_environment, rule then_fresh, rule quietly_lift)
  fix environment u
  let ?nxt = "\<lambda>snapshot. merge_oauth_client_identity (us_input snapshot) planned"
  let ?rest = "\<lambda>snapshot. io_bind (assert_allowed (logged_ext env) (governed_from_install (?nxt snapshot)) ''update'')
     (\<lambda>_. io_bind (preflight_candidate (logged_ext env) (?nxt snapshot) environment)
     (\<lambda>staged. io_bind (write_update_backup (logged_ext env) x snapshot)
     (\<lambda>_. activate_update (logged_ext env) x snapshot (?nxt snapshot) environment staged)))"
  have backup: "hoare (fresh x) (write_update_backup (logged_ext env) x s)
      (\<lambda>r l. fresh x l \<and> (r = Inr () \<longrightarrow> backed x l))" for s
    by (rule hoare_traces [OF traces_backup])
      (auto simp: list_all_iff intro!: fresh_apart plain_apart, auto simp: backed_def)
  have rest: "hoare (fresh x) (?rest s) (ended x)" if s: "in_id (us_input s) = x" for s
  proof (rule then_fresh, simp add: quietly_assert, rule then_fresh)
    show "quietly (apart x) (preflight_candidate (logged_ext env) (?nxt s) environment)"
      using quietly_preflight [of "?nxt s"] assms by simp
    have act: "hoare (\<lambda>l. backed_first x l \<and> backed x l) (activate_update (logged_ext env) x s (?nxt s) environment staged) (ended x)" for staged
      using hoare_activated [of "?nxt s" s env x environment staged] s by (intro hoare_backed quietly_activate) (simp add: assms(1))
    show "hoare (fresh x) (io_bind (write_update_backup (logged_ext env) x s)
        (\<lambda>_. activate_update (logged_ext env) x s (?nxt s) environment staged)) (ended x)" for staged
      by (rule hoare_bind [OF backup hoare_pre [OF act]]) (auto simp: fresh_def ended_def)
  qed
  have "hoare (fresh x) (ext_snapshot (logged_ext env) x) (\<lambda>r l. fresh x l \<and> (\<forall>s. r = Inr s \<longrightarrow> in_id (us_input s) = x))"
    by (rule hoare_traces [OF traces_result [OF quietly_snapshot [unfolded quietly_def], where S = "\<lambda>s. in_id (us_input s) = x"]])
      (auto intro: snapshot_id require_view_id simp: list_all_iff intro!: fresh_apart plain_apart)
  then show "hoare (fresh x) (io_bind (ext_snapshot (logged_ext env) x) ?rest) (ended x)"
  proof (rule hoare_bind)
    fix s
    show "hoare (\<lambda>l. fresh x l \<and> (\<forall>s'. Inr s = Inr s' \<longrightarrow> in_id (us_input s') = x)) (?rest s) (ended x)"
      by (rule hoare_fact [of _ "in_id (us_input s) = x"], simp, rule hoare_pre [OF rest]) simp_all
  qed (simp add: ended_def fresh_def)
qed


section \<open>An example\<close>

text \<open>The extension has version 1, the marketplace offers version 2.\<close>

lemma demo_input_simps:
  "in_id demo_input = lit ''files''" "in_version demo_input = lit ''2''" "in_auth demo_input = AuthNone" "in_oauth demo_input = None"
  "in_transport demo_input = TransportHttp (lit ''u'')" "pl_version demo_plan = lit ''2''" "pl_fields demo_plan = []"
  "pl_input demo_plan = Some demo_input" "pl_blockers demo_plan = []"
  by (simp_all add: demo_input_def demo_plan_def)

lemma demo_ids:
  "registry_server_name (lit ''registry:a/b'') = Inr (lit ''a/b'')" "lit ''2'' \<noteq> lit ''1''" "take 7 (drop 48 (lit ''files'')) \<noteq> lit ''-stage-''"
  "stage_id (lit ''files'') (lit ''00'') \<noteq> lit ''files''"
  by (simp_all add: registry_server_name_def starts_with_def lit_def js_eval stage_id_def)

lemma demo_parts:
  "assert_allowed (logged_ext demo_ext_env) e operation ((), l) = (Inr (), ((), l @ [PolicyRead (Inr no_governance)]))"
  "ext_emit (logged_ext demo_ext_env) m ((), l) = (Inr (), ((), l))"
  "read_environment (logged_ext demo_ext_env) (lit ''files'') ((), l) = (Inr [], ((), l))"
  "fetch_tools (logged_ext demo_ext_env) i ((), l) = (Inr [], ((), l @ [Backend (EListTools i) (Inr (JArr []))]))"
  by (simp_all add: assert_allowed_def load_policy_def no_policy assert_extension_allowed_def evaluate_extension_def ext_eval
      ext_emit_def logged_ext_def demo_ext_env_def read_environment_def read_secret_def environment_key_def extension_key_def demo_valid_id
      truthy_text_def fetch_tools_def demo_client_ext_def parse_tools_def)

lemma demo_asks:
  assumes "\<And>i. c \<noteq> EListTools i" "c \<noteq> EHealth"
  shows "ask_ext (logged_ext demo_ext_env) c ((), l) = (Inr (), ((), l @ [Backend c (Inr JNull)]))"
  using assms by (cases c) (auto simp: ask_ext_def ext_eval demo_client_ext_def)

lemma demo_preflight:
  "\<exists>k. preflight_candidate (logged_ext demo_ext_env) demo_input [] ((), l) = (Inr True, ((), l @ k))"
  by (simp add: preflight_candidate_def demo_input_simps ext_eval Let_def demo_asks io_after_def io_when_def demo_parts io_ignore_def)

lemma demo_register:
  "\<exists>k. register_and_activate (logged_ext demo_ext_env) (lit ''files'') demo_input [] [] False ((), l) = (Inr (), ((), l @ k))"
  by (simp add: register_and_activate_def demo_input_simps ext_eval demo_asks io_when_def demo_parts restore_runtime_material_def
      restore_policies_def)

lemma demo_update:
  "\<exists>u l. update_marketplace (logged_ext demo_ext_env) (lit ''files'') ((), []) = (Inr u, ((), l)) \<and> ur_from u = lit ''1'' \<and> ur_to u = lit ''2''
     \<and> \<not> ur_rolled_back u"
proof -
  obtain v where v: "vx_id v = lit ''files''" "vx_auth v = AuthNone" "vx_source v = lit ''registry:a/b''" "vx_version v = lit ''1''" "\<not> vx_enabled v"
    "\<And>l. require_view (logged_ext demo_ext_env) (lit ''files'') ((), l)
       = (Inr v, ((), l @ [Backend EHealth (Inr demo_health_js), PolicyRead (Inr no_governance)]))"
    using demo_view by blast
  have "\<exists>s. in_id (us_input s) = lit ''files'' \<and> in_version (us_input s) = lit ''1'' \<and> \<not> us_enabled s \<and> us_tools s = []
      \<and> (\<forall>l. \<exists>k. ext_snapshot (logged_ext demo_ext_env) (lit ''files'') ((), l) = (Inr s, ((), l @ k)))"
    by (simp add: ext_snapshot_def ext_eval v ext_list_tools_def demo_valid_id demo_parts enforce_enterprise_tool_policies_def load_policy_def
        no_policy enforce_tools_def)
  then obtain s where s: "in_id (us_input s) = lit ''files''" "in_version (us_input s) = lit ''1''" "\<not> us_enabled s" "us_tools s = []"
    "\<And>l. \<exists>k. ext_snapshot (logged_ext demo_ext_env) (lit ''files'') ((), l) = (Inr s, ((), l @ k))" by blast
  have merged: "merge_oauth_client_identity (us_input s) demo_input = demo_input"
    by (simp add: merge_oauth_client_identity_def demo_input_simps split: option.split)
  have activated: "\<exists>u k. activate_update (logged_ext demo_ext_env) (lit ''files'') s demo_input [] True ((), l) = (Inr u, ((), l @ k))
      \<and> ur_from u = lit ''1'' \<and> ur_to u = lit ''2'' \<and> \<not> ur_rolled_back u" for l
  proof -
    have "\<exists>k. swap_registration (logged_ext demo_ext_env) s demo_input [] ((), l) = (Inr (), ((), l @ k))"
      using demo_register [of "l @ [PolicyRead (Inr no_governance), Backend (ERemove (lit ''files'')) (Inr JNull)]"]
      by (auto simp: swap_registration_def Let_def ext_eval demo_parts s demo_asks)
    then show ?thesis by (auto simp: activate_update_def Let_def ext_eval io_catch_def demo_parts s demo_input_simps)
  qed
  obtain k where k: "update_backup_key (lit ''files'') = Inr k"
    by (simp add: update_backup_key_def extension_key_def demo_valid_id)
  have staged: "\<exists>u k. stage_update (logged_ext demo_ext_env) (lit ''files'') demo_plan demo_input ((), l) = (Inr u, ((), l @ k))
      \<and> ur_from u = lit ''1'' \<and> ur_to u = lit ''2'' \<and> \<not> ur_rolled_back u" for l
  proof -
    obtain k1 where 1: "ext_snapshot (logged_ext demo_ext_env) (lit ''files'') ((), l) = (Inr s, ((), l @ k1))" using s(5) by blast
    obtain k2 where 2: "preflight_candidate (logged_ext demo_ext_env) demo_input [] ((), (l @ k1) @ [PolicyRead (Inr no_governance)])
        = (Inr True, ((), ((l @ k1) @ [PolicyRead (Inr no_governance)]) @ k2))" using demo_preflight by blast
    define m where "m = (((l @ k1) @ [PolicyRead (Inr no_governance)]) @ k2) @ [Stored (k, []) (Inr ())]"
    have 3: "write_update_backup (logged_ext demo_ext_env) (lit ''files'') s ((), ((l @ k1) @ [PolicyRead (Inr no_governance)]) @ k2) = (Inr (), ((), m))"
      by (simp add: write_update_backup_def store_secret_def k ext_eval Let_def m_def)
    obtain u k4 where 4: "activate_update (logged_ext demo_ext_env) (lit ''files'') s demo_input [] True ((), m) = (Inr u, ((), m @ k4))"
      "ur_from u = lit ''1''" "ur_to u = lit ''2''" "\<not> ur_rolled_back u" using activated by blast
    have "stage_update (logged_ext demo_ext_env) (lit ''files'') demo_plan demo_input ((), l) = (Inr u, ((), m @ k4))"
      using 2 3 4(1) by (simp add: stage_update_def Let_def io_bind_def demo_parts demo_input_simps validate_stored_recipe_def 1 merged)
    then show ?thesis using 4(2-4) by (auto simp: m_def)
  qed
  obtain u j where "stage_update (logged_ext demo_ext_env) (lit ''files'') demo_plan demo_input
      ((), [Backend EHealth (Inr demo_health_js), PolicyRead (Inr no_governance)])
      = (Inr u, ((), [Backend EHealth (Inr demo_health_js), PolicyRead (Inr no_governance)] @ j))"
    "ur_from u = lit ''1''" "ur_to u = lit ''2''" "\<not> ur_rolled_back u" using staged by blast
  then show ?thesis
    by (simp add: update_marketplace_def ext_eval demo_valid_id v demo_ids demo_input_simps)
qed


end
