(* ===== verification/Js_Regex.thy ===== *)
theory Js_Regex
  imports Js_Prelude
begin

text \<open>
  The regular expressions of JavaScript as far as the sources use them for replacing: a
  backtracking matcher that lists the ways an expression can match at a position in the order in
  which the engine tries them, so that the first one is the match. A position is the text before
  it, reversed, the rest of the text, and what group 1 has captured. The last part shows when
  \<^verbatim>\<open>s.replace(/.../g, ...)\<close> leaves no word of a given set in the text.
\<close>

type_synonym re_pos = "jstr \<times> jstr \<times> jstr"

abbreviation rest_of :: "re_pos \<Rightarrow> jstr" where
  "rest_of x \<equiv> fst (snd x)"

text \<open>\<open>Many\<close> is \<^verbatim>\<open>*\<close>, \<open>Few\<close> is \<^verbatim>\<open>*?\<close>, \<open>Group\<close> is the group 1 and \<open>Edge\<close> is \<^verbatim>\<open>\b\<close>.\<close>

datatype re =
    Eps
  | Cls "nat \<Rightarrow> bool"
  | Cat re re
  | Or re re
  | Many re
  | Few re
  | Group re
  | Edge

text \<open>A round of a repetition that takes nothing is not tried again: each round makes the rest shorter.\<close>

fun repeat_greedy :: "nat \<Rightarrow> (re_pos \<Rightarrow> re_pos list) \<Rightarrow> re_pos \<Rightarrow> re_pos list" where
  "repeat_greedy 0 f x = [x]"
| "repeat_greedy (Suc n) f x =
     concat (map (\<lambda>y. if length (rest_of y) < length (rest_of x) then repeat_greedy n f y else []) (f x)) @ [x]"

fun repeat_lazy :: "nat \<Rightarrow> (re_pos \<Rightarrow> re_pos list) \<Rightarrow> re_pos \<Rightarrow> re_pos list" where
  "repeat_lazy 0 f x = [x]"
| "repeat_lazy (Suc n) f x =
     x # concat (map (\<lambda>y. if length (rest_of y) < length (rest_of x) then repeat_lazy n f y else []) (f x))"

definition word_edge :: "jstr \<Rightarrow> jstr \<Rightarrow> bool" where
  "word_edge b s = ((b \<noteq> [] \<and> is_word_char (hd b)) \<noteq> (s \<noteq> [] \<and> is_word_char (hd s)))"

fun outcomes :: "re \<Rightarrow> re_pos \<Rightarrow> re_pos list" where
  "outcomes Eps x = [x]"
| "outcomes (Cls p) x = (case rest_of x of [] \<Rightarrow> [] | c # s \<Rightarrow> if p c then [(c # fst x, s, snd (snd x))] else [])"
| "outcomes (Cat r q) x = concat (map (outcomes q) (outcomes r x))"
| "outcomes (Or r q) x = outcomes r x @ outcomes q x"
| "outcomes (Many r) x = repeat_greedy (length (rest_of x)) (outcomes r) x"
| "outcomes (Few r) x = repeat_lazy (length (rest_of x)) (outcomes r) x"
| "outcomes (Group r) x =
     map (\<lambda>y. (fst y, rest_of y, rev (take (length (fst y) - length (fst x)) (fst y)))) (outcomes r x)"
| "outcomes Edge x = (if word_edge (fst x) (rest_of x) then [x] else [])"

text \<open>A literal text, also under the flag \<^verbatim>\<open>i\<close>, and the bounded repetitions.\<close>

fun re_text :: "jstr \<Rightarrow> re" where
  "re_text [] = Eps"
| "re_text (c # cs) = Cat (Cls (\<lambda>d. d = c)) (re_text cs)"

fun re_letters :: "jstr \<Rightarrow> re" where
  "re_letters [] = Eps"
| "re_letters (c # cs) = Cat (Cls (\<lambda>d. to_lower d = to_lower c)) (re_letters cs)"

fun re_any :: "re list \<Rightarrow> re" where
  "re_any [] = Cls (\<lambda>_. False)"
| "re_any [r] = r"
| "re_any (r # q # rs) = Or r (re_any (q # rs))"

fun re_all :: "re list \<Rightarrow> re" where
  "re_all [] = Eps"
| "re_all [r] = r"
| "re_all (r # q # rs) = Cat r (re_all (q # rs))"

fun re_at_least :: "nat \<Rightarrow> re \<Rightarrow> re" where
  "re_at_least 0 r = Many r"
| "re_at_least (Suc n) r = Cat r (re_at_least n r)"

definition re_optional :: "re \<Rightarrow> re" where
  "re_optional r = Or r Eps"

text \<open>\<^verbatim>\<open>s.replace(/r/g, f)\<close>, where \<open>f\<close> gets what group 1 has captured.\<close>

function replace_from :: "re \<Rightarrow> (jstr \<Rightarrow> jstr) \<Rightarrow> jstr \<Rightarrow> jstr \<Rightarrow> jstr" where
  "replace_from r f b s =
     (case outcomes r (b, s, []) of
        (b', s', g) # _ \<Rightarrow>
          if length s' < length s then f g @ replace_from r f b' s'
          else f g @ (case s of [] \<Rightarrow> [] | c # cs \<Rightarrow> c # replace_from r f (c # b) cs)
      | [] \<Rightarrow> (case s of [] \<Rightarrow> [] | c # cs \<Rightarrow> c # replace_from r f (c # b) cs))"
  by pat_completeness auto
termination by (relation "measure (\<lambda>(r, f, b, s). length s)") auto

declare replace_from.simps [simp del]

definition replace_all :: "re \<Rightarrow> (jstr \<Rightarrow> jstr) \<Rightarrow> jstr \<Rightarrow> jstr" where
  "replace_all r f s = replace_from r f [] s"

section \<open>The matcher\<close>

text \<open>The length of the rest is enough fuel for a repetition.\<close>

lemma repeat_fuel:
  assumes "length (rest_of x) \<le> n"
  shows "repeat_greedy n f x = repeat_greedy (length (rest_of x)) f x"
    and "repeat_lazy n f x = repeat_lazy (length (rest_of x)) f x"
proof -
  have "\<forall>x. length (rest_of x) \<le> m \<longrightarrow> m \<le> n \<longrightarrow>
      repeat_greedy n f x = repeat_greedy m f x \<and> repeat_lazy n f x = repeat_lazy m f x" for m n
  proof (induction n arbitrary: m)
    case (Suc n)
    show ?case
    proof (cases m)
      case 0
      then show ?thesis by (auto simp: concat_eq_Nil_conv)
    next
      case m: (Suc k)
      have "repeat_greedy n f y = repeat_greedy k f y \<and> repeat_lazy n f y = repeat_lazy k f y"
        if "length (rest_of y) < length (rest_of x)" "length (rest_of x) \<le> m" "m \<le> Suc n" for x y
        using Suc [of k, THEN spec, of y] that m by linarith
      with m show ?thesis by (auto intro!: arg_cong [where f = concat] map_cong)
    qed
  qed auto
  with assms show "repeat_greedy n f x = repeat_greedy (length (rest_of x)) f x"
    "repeat_lazy n f x = repeat_lazy (length (rest_of x)) f x" by blast+
qed

text \<open>A match takes a prefix of the rest.\<close>

definition advances :: "re_pos \<Rightarrow> re_pos \<Rightarrow> bool" where
  "advances x y \<longleftrightarrow> (\<exists>t. rest_of x = t @ rest_of y \<and> fst y = rev t @ fst x)"

lemma advances_refl [simp]: "advances x x"
  by (simp add: advances_def)

lemma advances_trans: "advances x y \<Longrightarrow> advances y z \<Longrightarrow> advances x z"
  unfolding advances_def by (metis append.assoc rev_append)

lemma repeat_advances:
  assumes "\<And>x y. y \<in> set (f x) \<Longrightarrow> advances x y"
  shows "y \<in> set (repeat_greedy n f x) \<Longrightarrow> advances x y" "y \<in> set (repeat_lazy n f x) \<Longrightarrow> advances x y"
proof -
  have "\<forall>x y. (y \<in> set (repeat_greedy n f x) \<longrightarrow> advances x y) \<and> (y \<in> set (repeat_lazy n f x) \<longrightarrow> advances x y)"
    by (induction n) (auto split: if_splits intro: advances_trans assms)
  then show "y \<in> set (repeat_greedy n f x) \<Longrightarrow> advances x y" "y \<in> set (repeat_lazy n f x) \<Longrightarrow> advances x y" by blast+
qed

lemma outcomes_advance: "y \<in> set (outcomes r x) \<Longrightarrow> advances x y"
proof (induction r arbitrary: x y)
  case (Cls p)
  then show ?case by (auto simp: advances_def split: list.splits if_splits)
next
  case (Cat r q)
  then obtain z where "z \<in> set (outcomes r x)" "y \<in> set (outcomes q z)" by auto
  with Cat.IH show ?case by (blast intro: advances_trans)
next
  case (Many r)
  then show ?case using repeat_advances(1) [of "outcomes r"] by auto
next
  case (Few r)
  then show ?case using repeat_advances(2) [of "outcomes r"] by auto
next
  case (Group r)
  then obtain z where "z \<in> set (outcomes r x)" "fst y = fst z" "rest_of y = rest_of z" by auto
  with Group.IH show ?case by (auto simp: advances_def)
qed (auto split: if_splits)

lemma repeat_greedy_ne [simp]: "repeat_greedy n f x \<noteq> []"
  by (cases n) auto

lemma outcomes_text: "outcomes (re_text w) (b, w @ s, g) = [(rev w @ b, s, g)]"
  by (induction w arbitrary: b) auto

lemma outcomes_at_least:
  "list_all p t \<Longrightarrow> length t = n \<Longrightarrow> outcomes (re_at_least n (Cls p)) (b, t @ s, g) \<noteq> []"
proof (induction t arbitrary: n b)
  case Nil
  then show ?case by simp
next
  case (Cons c t)
  then obtain m where "n = Suc m" "length t = m" by (cases n) auto
  with Cons show ?case by auto
qed

section \<open>Replacing\<close>

definition takes :: "re \<Rightarrow> jstr \<Rightarrow> jstr \<Rightarrow> bool" where
  "takes r b s \<longleftrightarrow> (case outcomes r (b, s, []) of [] \<Rightarrow> False | y # _ \<Rightarrow> length (rest_of y) < length s)"

lemma replace_step:
  obtains (skip) "\<not> takes r b s" "replace_from r f b s = (case s of [] \<Rightarrow> [] | c # cs \<Rightarrow> c # replace_from r f (c # b) cs)"
  | (take) b' s' g where "length s' < length s" "suffix s' s" "replace_from r f b s = f g @ replace_from r f b' s'"
  | (empty) g where "\<not> takes r b s"
      "replace_from r f b s = f g @ (case s of [] \<Rightarrow> [] | c # cs \<Rightarrow> c # replace_from r f (c # b) cs)"
proof (cases "outcomes r (b, s, [])")
  case Nil
  then show ?thesis using skip by (simp add: replace_from.simps [of r f b s] takes_def)
next
  case (Cons x xs)
  obtain b' s' g where x: "x = (b', s', g)" by (cases x)
  have "advances (b, s, []) x" using Cons outcomes_advance by (metis list.set_intros(1))
  then have suf: "suffix s' s" by (auto simp: x advances_def suffix_def)
  show ?thesis
  proof (cases "length s' < length s")
    case True
    show ?thesis
      by (rule take [OF True suf, of g b']) (use Cons x True in \<open>auto simp: replace_from.simps [of r f b s]\<close>)
  next
    case False
    show ?thesis
      by (rule empty [of g]) (use Cons x False in \<open>auto simp: replace_from.simps [of r f b s] takes_def\<close>)
  qed
qed

text \<open>
  Words over an alphabet \<open>K\<close> that the replacement texts interrupt. No such word is left where the
  expression matches at the start of each of them, and none is made where the text has none.
\<close>

definition scrubs :: "(jstr \<Rightarrow> bool) \<Rightarrow> (nat \<Rightarrow> bool) \<Rightarrow> (jstr \<Rightarrow> jstr) \<Rightarrow> bool" where
  "scrubs W K f \<longleftrightarrow> (\<forall>w. W w \<longrightarrow> w \<noteq> [] \<and> list_all K w)
     \<and> (\<forall>g. \<exists>d mid d'. f g = d # mid @ [d'] \<and> \<not> K d \<and> \<not> K d' \<and> (\<forall>w. W w \<longrightarrow> \<not> sublist w mid))"

definition has_bad :: "(jstr \<Rightarrow> bool) \<Rightarrow> jstr \<Rightarrow> bool" where
  "has_bad W s \<longleftrightarrow> (\<exists>w. W w \<and> sublist w s)"

lemma sublist_avoiding:
  assumes "sublist w (xs @ d # ys)" "d \<notin> set w"
  shows "sublist w xs \<or> sublist w ys"
proof -
  from assms(1) obtain ps ss where e: "xs @ d # ys = ps @ w @ ss" by (auto simp: sublist_def)
  then consider (left) us where "xs = ps @ us" "us @ d # ys = w @ ss" | (right) us where "xs @ us = ps" "d # ys = us @ w @ ss"
    by (auto simp: append_eq_append_conv2)
  then show ?thesis
  proof cases
    case left
    then consider (in_left) vs where "us = w @ vs" | (over) vs where "us @ vs = w" "d # ys = vs @ ss"
      by (auto simp: append_eq_append_conv2)
    then show ?thesis
    proof cases
      case in_left
      with left(1) show ?thesis by (metis sublist_appendI)
    next
      case over
      with assms(2) have "vs = []" by (cases vs) auto
      with over left(1) show ?thesis by (metis append_Nil2 sublist_appendI)
    qed
  next
    case right
    show ?thesis
    proof (cases us)
      case Nil
      with right(2) assms(2) have "w = []" by (cases w) auto
      then show ?thesis by simp
    next
      case (Cons u us')
      with right(2) show ?thesis by (metis append_Cons list.sel(3) sublist_appendI)
    qed
  qed
qed

lemma replaced_prefix:
  assumes "scrubs W K f"
  shows "list_all K v \<Longrightarrow> prefix v (replace_from r f b s) \<Longrightarrow> prefix v s"
proof (induction s arbitrary: b v rule: length_induct)
  case (1 s)
  have no: "v = []" if "prefix v (f g @ u)" for g u
    using assms 1(2) that unfolding scrubs_def by (metis append_Cons list.pred_inject(2) prefix_Cons)
  show ?case
  proof (cases rule: replace_step [of r b s f])
    case skip
    show ?thesis
    proof (cases s)
      case Nil
      with skip 1(3) show ?thesis by simp
    next
      case (Cons c cs)
      with skip 1 show ?thesis by (cases v) auto
    qed
  next
    case (take b' s' g)
    with no [of g] 1(3) have "v = []" by metis
    then show ?thesis by simp
  next
    case (empty g)
    with no [of g] 1(3) have "v = []" by metis
    then show ?thesis by simp
  qed
qed

lemma bad_replacement:
  assumes "scrubs W K f" "has_bad W (f g @ u)"
  shows "has_bad W u"
proof -
  from assms(1) obtain d mid d' where f: "f g = d # mid @ [d']" "\<not> K d" "\<not> K d'" "\<forall>w. W w \<longrightarrow> \<not> sublist w mid"
    unfolding scrubs_def by blast
  from assms(2) obtain w where w: "W w" "sublist w (f g @ u)" by (auto simp: has_bad_def)
  then have n: "d \<notin> set w" "d' \<notin> set w" "w \<noteq> []" using assms(1) f(2,3) by (auto simp: scrubs_def list_all_iff)
  have "sublist w ([] @ d # mid @ d' # u)" using w(2) f(1) by simp
  from sublist_avoiding [OF this n(1)] n(3) have "sublist w (mid @ d' # u)" by auto
  from sublist_avoiding [OF this n(2)] f(4) w(1) show ?thesis by (auto simp: has_bad_def)
qed

lemma has_bad_Nil: "scrubs W K f \<Longrightarrow> \<not> has_bad W []"
  by (auto simp: has_bad_def scrubs_def)

lemma replaced_clean:
  assumes scrub: "scrubs W K f"
    and hit: "\<And>w b' s'. W w \<Longrightarrow> suffix s' s \<Longrightarrow> prefix w s' \<Longrightarrow> takes r b' s'"
  shows "\<not> has_bad W (replace_from r f b s)"
  using hit
proof (induction s arbitrary: b rule: length_induct)
  case (1 s)
  have tail: "\<not> has_bad W (replace_from r f b' s')" if "length s' < length s" "suffix s' s" for b' s'
    using 1(1) that by (metis 1(2) suffix_order.trans)
  have cons: "\<not> has_bad W (case s of [] \<Rightarrow> [] | c # cs \<Rightarrow> c # replace_from r f (c # b) cs)" if "\<not> takes r b s"
  proof (cases s)
    case Nil
    then show ?thesis using has_bad_Nil [OF scrub] by simp
  next
    case (Cons c cs)
    have t: "\<not> has_bad W (replace_from r f (c # b) cs)" using tail [of cs] Cons by (simp add: suffix_ConsI)
    have "prefix w s" if w: "W w" "prefix w (c # replace_from r f (c # b) cs)" for w
    proof (cases w)
      case (Cons d v)
      with scrub w(1) have "list_all K v" by (auto simp: scrubs_def)
      with replaced_prefix [OF scrub this] w(2) Cons \<open>s = c # cs\<close> show ?thesis by auto
    qed simp
    moreover have "\<not> prefix w s" if "W w" for w using 1(2) [OF that suffix_order.refl] \<open>\<not> takes r b s\<close> by blast
    ultimately show ?thesis using t Cons by (auto simp: has_bad_def sublist_Cons_right)
  qed
  show ?case
  proof (cases rule: replace_step [of r b s f])
    case skip
    with cons show ?thesis by simp
  next
    case (take b' s' g)
    with tail [of s' b'] show ?thesis using bad_replacement [OF scrub, of g] by metis
  next
    case (empty g)
    with cons show ?thesis using bad_replacement [OF scrub, of g] by metis
  qed
qed

lemma prefix_suffix_sublist: "prefix w s' \<Longrightarrow> suffix s' s \<Longrightarrow> sublist w s"
  by (metis prefix_imp_sublist suffix_imp_sublist sublist_order.order.trans)

corollary replaced_stays_clean:
  assumes "scrubs W K f" "\<not> has_bad W s"
  shows "\<not> has_bad W (replace_from r f b s)"
  using assms(2) by (intro replaced_clean [OF assms(1)]) (auto simp: has_bad_def dest: prefix_suffix_sublist)

end
