(* ===== verification/Runtime_Log.thy ===== *)
theory Runtime_Log
  imports Js_Regex Utf8_Text Contracts Conversation_Activity
begin

text \<open>
  The runtime log of the desktop (\<^verbatim>\<open>runtime-log-store.ts\<close>): the redaction of the texts of every
  runtime event, the bounded log in memory and its rotated file. The clock, \<^verbatim>\<open>Date.parse\<close> and
  \<^verbatim>\<open>JSON.stringify\<close> of an entry are parameters. The file operations succeed; a file of the log
  directory is there or missing.
\<close>

section \<open>Data\<close>

datatype log_level = LevelDebug | LevelInfo | LevelWarn | LevelError

datatype runtime_component = RcDesktop | RcDaemon | RcPublicMcp | RcGit | RcProvider | RcWorkspace | RcTask | RcHarness

text \<open>The runtime events beside the progress events: \<^verbatim>\<open>state\<close>, \<^verbatim>\<open>log\<close> and \<^verbatim>\<open>progress\<close>.\<close>

datatype host_event =
    HostState runtime_component jstr "jstr option"
  | HostLog runtime_component log_level jstr jstr
  | HostProgress jstr jstr "int option" "int option"

record log_entry =
  le_sequence :: int
  le_timestamp :: jstr
  le_component :: runtime_component
  le_level :: log_level
  le_message :: jstr

text \<open>\<^verbatim>\<open>new Date().toISOString()\<close>, whether \<^verbatim>\<open>Date.parse\<close> is finite, and \<^verbatim>\<open>JSON.stringify\<close>.\<close>

record log_env =
  lg_now :: jstr
  lg_date_ok :: "jstr \<Rightarrow> bool"
  lg_stringify :: "log_entry \<Rightarrow> jstr"

definition DEFAULT_MAX_ENTRIES :: int where "DEFAULT_MAX_ENTRIES = 1000"
definition DEFAULT_MAX_MEMORY_BYTES :: int where "DEFAULT_MAX_MEMORY_BYTES = 512 * 1024"
definition DEFAULT_MAX_FILE_BYTES :: int where "DEFAULT_MAX_FILE_BYTES = 1024 * 1024"
definition DEFAULT_ROTATIONS :: int where "DEFAULT_ROTATIONS = 3"
definition MAX_LOG_MESSAGE_BYTES :: nat where "MAX_LOG_MESSAGE_BYTES = 4096"
definition MAX_CHATGPT_PROGRESS_BYTES :: nat where "MAX_CHATGPT_PROGRESS_BYTES = 24 * 1024"
definition MAX_CODEX_PROGRESS_BYTES :: nat where "MAX_CODEX_PROGRESS_BYTES = 64 * 1024"
definition MAX_DIAGNOSTICS_BYTES :: nat where "MAX_DIAGNOSTICS_BYTES = 256 * 1024"

section \<open>Redaction\<close>

definition spaces :: re where "spaces = Many (Cls is_space)"

definition some_spaces :: re where "some_spaces = re_at_least 1 (Cls is_space)"

text \<open>\<^verbatim>\<open>(token|secret|credential|password|client_secret|api[_-]?key)\<close>\<close>

definition secret_names :: re where
  "secret_names = Group (re_any
     [re_letters (lit ''token''), re_letters (lit ''secret''), re_letters (lit ''credential''), re_letters (lit ''password''),
      re_letters (lit ''client_secret''),
      re_all [re_letters (lit ''api''), re_optional (Cls (\<lambda>c. c = 95 \<or> c = 45)), re_letters (lit ''key'')]])"

text \<open>\<^verbatim>\<open>[^\s,;]+\<close>\<close>

definition bare_value :: re where
  "bare_value = re_at_least 1 (Cls (\<lambda>c. \<not> is_space c \<and> c \<noteq> 44 \<and> c \<noteq> 59))"

definition quoted_secret :: re where
  "quoted_secret = re_all [re_text [34], secret_names, re_text [34], spaces, re_text (lit '':''), spaces, re_text [34],
     Many (Or (Cls (\<lambda>c. c \<noteq> 34 \<and> c \<noteq> 92)) (Cat (Cls (\<lambda>c. c = 92)) (Cls (\<lambda>c. \<not> is_line_end c)))), re_text [34]]"

definition authorization_header :: re where
  "authorization_header = re_all [Edge, re_letters (lit ''Authorization''), spaces, re_text (lit '':''), spaces,
     re_letters (lit ''Bearer''), some_spaces, bare_value]"

definition bearer_char :: "nat \<Rightarrow> bool" where
  "bearer_char c = (is_alnum c \<or> c \<in> {46, 95, 126, 43, 47, 45})"

definition bearer_token :: re where
  "bearer_token = re_all [Edge, re_letters (lit ''Bearer''), some_spaces, re_at_least 16 (Cls bearer_char)]"

definition assigned_secret :: re where
  "assigned_secret = re_all [Edge, secret_names, spaces, Cls (\<lambda>c. c = 61 \<or> c = 58), spaces, bare_value]"

definition provider_token :: re where
  "provider_token = re_all [Edge, re_any
     [re_all [re_text (lit ''gh''), Cls (\<lambda>c. c \<in> set (lit ''pousr'')), re_text (lit ''_''), re_at_least 20 (Cls is_alnum)],
      re_all [re_text (lit ''github_pat_''), re_at_least 20 (Cls (\<lambda>c. is_alnum c \<or> c = 95))],
      re_all [re_text (lit ''glpat-''), re_at_least 20 (Cls (\<lambda>c. is_alnum c \<or> c = 95 \<or> c = 45))],
      re_all [re_text (lit ''sk-''), re_at_least 20 (Cls (\<lambda>c. is_alnum c \<or> c = 95 \<or> c = 45))]], Edge]"

definition key_label :: re where
  "key_label = Many (Cls (\<lambda>c. is_alnum c \<or> c = 32))"

definition private_key :: re where
  "private_key = re_all [re_letters (lit ''-----BEGIN ''), key_label, re_letters (lit ''PRIVATE KEY-----''), Few (Cls (\<lambda>_. True)),
     re_letters (lit ''-----END ''), key_label, re_letters (lit ''PRIVATE KEY-----'')]"

definition url_credentials :: re where
  "url_credentials = re_all [re_letters (lit ''https://''),
     re_at_least 1 (Cls (\<lambda>c. \<not> is_space c \<and> c \<notin> {47, 64, 58})), re_text (lit '':''),
     re_at_least 1 (Cls (\<lambda>c. \<not> is_space c \<and> c \<notin> {47, 64})), re_text (lit ''@'')]"

text \<open>\<^verbatim>\<open>[A-Za-z0-9._~-]\<close>\<close>

definition web_token_char :: "nat \<Rightarrow> bool" where
  "web_token_char c = (is_alnum c \<or> c \<in> {46, 95, 126, 45})"

definition web_token :: re where
  "web_token = Cat (re_text (lit ''eyJ'')) (re_at_least 20 (Cls web_token_char))"

definition redact_secrets :: "jstr \<Rightarrow> jstr" where
  "redact_secrets s =
     (let s = replace_all quoted_secret (\<lambda>g. [34] @ g @ lit ''\": \"[REDACTED]\"'') s;
          s = replace_all authorization_header (\<lambda>_. lit ''Authorization: Bearer [REDACTED]'') s;
          s = replace_all bearer_token (\<lambda>_. lit ''Bearer [REDACTED]'') s;
          s = replace_all assigned_secret (\<lambda>g. g @ lit ''=[REDACTED]'') s;
          s = replace_all provider_token (\<lambda>_. lit ''[REDACTED]'') s;
          s = replace_all private_key (\<lambda>_. lit ''[REDACTED PRIVATE KEY]'') s;
          s = replace_all url_credentials (\<lambda>_. lit ''https://[REDACTED]@'') s in
      replace_all web_token (\<lambda>_. lit ''[REDACTED]'') s)"

text \<open>\<^verbatim>\<open>result.split(home).join("[HOME]")\<close>: the occurrences from the left that do not overlap.\<close>

definition hide_home :: "jstr option \<Rightarrow> jstr \<Rightarrow> jstr" where
  "hide_home home s = (case home of
       Some h \<Rightarrow> if length h > 1 then replace_all (re_text h) (\<lambda>_. lit ''[HOME]'') s else s
     | None \<Rightarrow> s)"

definition cut_bytes :: "nat \<Rightarrow> jstr \<Rightarrow> jstr" where
  "cut_bytes n s = (if utf8_len s > n then utf8_cut n s else s)"

definition text_or_fallback :: "jstr \<Rightarrow> string \<Rightarrow> jstr" where
  "text_or_fallback s fallback = (if s = [] then lit fallback else s)"

definition sanitize_text :: "jstr \<Rightarrow> jstr option \<Rightarrow> nat \<Rightarrow> string \<Rightarrow> jstr" where
  "sanitize_text value home maxBytes fallback =
     text_or_fallback (trim (cut_bytes maxBytes (hide_home home (redact_secrets (map (\<lambda>c. if c = 13 \<or> c = 0 then 32 else c) value)))))
       fallback"

definition looks_like_diagnostics_bundle :: "jstr \<Rightarrow> bool" where
  "looks_like_diagnostics_bundle value =
     (length value > MAX_LOG_MESSAGE_BYTES \<and> starts_with (lit ''{'') (dropWhile is_space value)
      \<and> str_includes ([34] @ lit ''generatedAt'' @ [34]) value \<and> str_includes ([34] @ lit ''logRetention'' @ [34]) value
      \<and> str_includes ([34] @ lit ''recentLogs'' @ [34]) value)"

definition sanitize_runtime_text :: "jstr \<Rightarrow> jstr option \<Rightarrow> jstr" where
  "sanitize_runtime_text value home =
     (let diagnostics = looks_like_diagnostics_bundle value in
      sanitize_text value home (if diagnostics then MAX_DIAGNOSTICS_BYTES else MAX_LOG_MESSAGE_BYTES)
        (if diagnostics then ''SourceNerve diagnostics unavailable'' else ''Desktop runtime event''))"

definition sanitize_diagnostics_text :: "jstr \<Rightarrow> jstr option \<Rightarrow> jstr" where
  "sanitize_diagnostics_text value home = sanitize_text value home MAX_DIAGNOSTICS_BYTES ''SourceNerve diagnostics unavailable''"

text \<open>\<^verbatim>\<open>/[^A-Za-z0-9._:-]/g\<close> becomes \<^verbatim>\<open>_\<close>.\<close>

definition identifier_char :: "nat \<Rightarrow> bool" where
  "identifier_char c = (is_id_char c \<or> c = 58)"

definition sanitize_identifier :: "jstr \<Rightarrow> jstr" where
  "sanitize_identifier value = text_or_fallback (take 128 (map (\<lambda>c. if identifier_char c then c else 95) value)) ''unknown''"

definition valid_timestamp :: "log_env \<Rightarrow> jstr \<Rightarrow> bool" where
  "valid_timestamp env value = (length value \<le> 64 \<and> lg_date_ok env value)"

text \<open>\<^verbatim>\<open>...(event.x ? { x: f(event.x) } : {})\<close> over \<^verbatim>\<open>{ ...event }\<close>\<close>

definition sanitized :: "(jstr \<Rightarrow> jstr) \<Rightarrow> jstr option \<Rightarrow> jstr option" where
  "sanitized f v = map_option (\<lambda>s. if s = [] then [] else f s) v"

definition sanitize_chatgpt :: "jstr option \<Rightarrow> chatgpt_progress \<Rightarrow> chatgpt_progress" where
  "sanitize_chatgpt home e =
     (let clean = (\<lambda>fallback s. sanitize_text s home MAX_CHATGPT_PROGRESS_BYTES fallback) in
      e\<lparr>gp_task_id := sanitize_identifier (gp_task_id e), gp_run_id := sanitize_identifier (gp_run_id e),
        gp_workspace := sanitize_identifier (gp_workspace e), gp_text := clean ''ChatGPT progress unavailable'' (gp_text e),
        gp_item_id := sanitized sanitize_identifier (gp_item_id e),
        gp_input := sanitized (clean ''ChatGPT tool input unavailable'') (gp_input e),
        gp_parameters := sanitized (clean ''ChatGPT tool parameters unavailable'') (gp_parameters e),
        gp_function_name := sanitized sanitize_identifier (gp_function_name e),
        gp_output := sanitized (clean ''ChatGPT tool output unavailable'') (gp_output e),
        gp_stage := sanitized sanitize_identifier (gp_stage e),
        gp_file_path := sanitized (\<lambda>s. sanitize_text s home MAX_LOG_MESSAGE_BYTES ''Changed file'') (gp_file_path e),
        gp_activity_id := sanitized sanitize_identifier (gp_activity_id e)\<rparr>)"

definition sanitize_codex :: "jstr option \<Rightarrow> codex_progress \<Rightarrow> codex_progress" where
  "sanitize_codex home e =
     (let clean = (\<lambda>fallback s. sanitize_text s home MAX_CODEX_PROGRESS_BYTES fallback) in
      e\<lparr>cp_run_id := sanitize_identifier (cp_run_id e), cp_workspace := sanitize_identifier (cp_workspace e),
        cp_thread_id := sanitized sanitize_identifier (cp_thread_id e), cp_turn_id := sanitize_identifier (cp_turn_id e),
        cp_item_id := sanitize_identifier (cp_item_id e),
        cp_label := sanitize_text (cp_label e) home MAX_LOG_MESSAGE_BYTES ''Codex activity'',
        cp_text := sanitized (clean ''Codex reasoning summary unavailable'') (cp_text e),
        cp_command := sanitized (clean ''Codex command unavailable'') (cp_command e),
        cp_function_name := sanitized sanitize_identifier (cp_function_name e),
        cp_parameters := sanitized (clean ''Codex tool parameters unavailable'') (cp_parameters e),
        cp_output := sanitized (clean ''Codex output unavailable'') (cp_output e),
        cp_diff := sanitized (clean ''Codex diff unavailable'') (cp_diff e),
        cp_file_path := sanitized (\<lambda>s. sanitize_text s home MAX_LOG_MESSAGE_BYTES ''Changed file'') (cp_file_path e),
        cp_status := sanitized sanitize_identifier (cp_status e),
        cp_activity_id := sanitized sanitize_identifier (cp_activity_id e)\<rparr>)"

fun sanitize_host :: "log_env \<Rightarrow> jstr option \<Rightarrow> host_event \<Rightarrow> host_event" where
  "sanitize_host env home (HostLog c l m t) =
     HostLog c l (sanitize_runtime_text m home) (if valid_timestamp env t then t else lg_now env)"
| "sanitize_host env home (HostState c st m) = HostState c st (sanitized (\<lambda>s. sanitize_runtime_text s home) m)"
| "sanitize_host env home (HostProgress op stage current tot) =
     HostProgress (sanitize_identifier op) (sanitize_identifier stage) current tot"

fun sanitize_runtime_event :: "log_env \<Rightarrow> jstr option \<Rightarrow> host_event desktop_event \<Rightarrow> host_event desktop_event" where
  "sanitize_runtime_event env home (Progress (Chatgpt e)) = Progress (Chatgpt (sanitize_chatgpt home e))"
| "sanitize_runtime_event env home (Progress (Codex e)) = Progress (Codex (sanitize_codex home e))"
| "sanitize_runtime_event env home (OtherEvent e) = OtherEvent (sanitize_host env home e)"

section \<open>Entries\<close>

definition state_level :: "jstr \<Rightarrow> log_level" where
  "state_level state =
     (let mentions = list_ex (\<lambda>w. str_includes (lit w) (lower_text state)) in
      if mentions [''error'', ''crashed'', ''incompatible''] then LevelError
      else if mentions [''degraded'', ''offline'', ''expired'', ''needs-attention'', ''revoked''] then LevelWarn
      else LevelInfo)"

definition progress_counts :: "int option \<Rightarrow> int option \<Rightarrow> jstr" where
  "progress_counts current tot = (case current of
       None \<Rightarrow> []
     | Some n \<Rightarrow> lit '' ('' @ show_int n @ (case tot of None \<Rightarrow> [] | Some t \<Rightarrow> lit ''/'' @ show_int t) @ lit '')'')"

definition event_to_log_entry :: "log_env \<Rightarrow> jstr option \<Rightarrow> int \<Rightarrow> host_event desktop_event \<Rightarrow> log_entry option" where
  "event_to_log_entry env home n event = (case sanitize_runtime_event env home event of
       Progress _ \<Rightarrow> None
     | OtherEvent (HostLog c l m t) \<Rightarrow>
         Some \<lparr>le_sequence = n, le_timestamp = t, le_component = c, le_level = l, le_message = m\<rparr>
     | OtherEvent (HostState c st m) \<Rightarrow>
         Some \<lparr>le_sequence = n, le_timestamp = lg_now env, le_component = c, le_level = state_level st,
           le_message = (case m of Some s \<Rightarrow> if s = [] then st else st @ lit '': '' @ s | None \<Rightarrow> st)\<rparr>
     | OtherEvent (HostProgress op stage current tot) \<Rightarrow>
         Some \<lparr>le_sequence = n, le_timestamp = lg_now env, le_component = RcDesktop, le_level = LevelDebug,
           le_message = op @ lit '': '' @ stage @ progress_counts current tot\<rparr>)"

definition entry_bytes :: "log_env \<Rightarrow> log_entry \<Rightarrow> nat" where
  "entry_bytes env e = utf8_len (lg_stringify env e)"

section \<open>The store\<close>

text \<open>\<^verbatim>\<open>boundedInteger\<close>: an option that is not an integer counts as absent.\<close>

definition clamped_integer :: "int option \<Rightarrow> int \<Rightarrow> int \<Rightarrow> int \<Rightarrow> int" where
  "clamped_integer value fallback minimum maximum =
     (case value of None \<Rightarrow> fallback | Some v \<Rightarrow> max minimum (min maximum v))"

record log_store =
  ls_max_entries :: int
  ls_max_memory :: int
  ls_max_file :: int
  ls_rotations :: int
  ls_home :: "jstr option"
  ls_entries :: "log_entry list"
  ls_memory :: nat
  ls_sequence :: int
  ls_dropped :: nat

definition new_log_store :: "int option \<Rightarrow> int option \<Rightarrow> int option \<Rightarrow> int option \<Rightarrow> jstr option \<Rightarrow> log_store" where
  "new_log_store maxEntries maxMemory maxFile rotations home =
     \<lparr>ls_max_entries = clamped_integer maxEntries DEFAULT_MAX_ENTRIES 16 20000,
      ls_max_memory = clamped_integer maxMemory DEFAULT_MAX_MEMORY_BYTES (16 * 1024) (16 * 1024 * 1024),
      ls_max_file = clamped_integer maxFile DEFAULT_MAX_FILE_BYTES 512 (64 * 1024 * 1024),
      ls_rotations = clamped_integer rotations DEFAULT_ROTATIONS 1 10, ls_home = home,
      ls_entries = [], ls_memory = 0, ls_sequence = 0, ls_dropped = 0\<rparr>"

definition over_limit :: "log_store \<Rightarrow> bool" where
  "over_limit s = (int (length (ls_entries s)) > ls_max_entries s
     \<or> (length (ls_entries s) > 1 \<and> int (ls_memory s) > ls_max_memory s))"

text \<open>The eviction loop; a subtraction below 0 stays at 0, as \<^verbatim>\<open>Math.max\<close> makes it.\<close>

fun evict :: "log_env \<Rightarrow> nat \<Rightarrow> log_store \<Rightarrow> log_store" where
  "evict env 0 s = s"
| "evict env (Suc fuel) s =
     (if over_limit s then (case ls_entries s of
          [] \<Rightarrow> s
        | e # es \<Rightarrow> evict env fuel (s\<lparr>ls_entries := es, ls_memory := ls_memory s - entry_bytes env e, ls_dropped := ls_dropped s + 1\<rparr>))
      else s)"

text \<open>\<open>log_record\<close> also gives the line handed to the write queue.\<close>

definition log_record :: "log_env \<Rightarrow> log_store \<Rightarrow> host_event desktop_event \<Rightarrow> (log_entry \<times> jstr) option \<times> log_store" where
  "log_record env s event =
     (let n = ls_sequence s + 1; s = s\<lparr>ls_sequence := n\<rparr> in
      case event_to_log_entry env (ls_home s) n event of
        None \<Rightarrow> (None, s)
      | Some e \<Rightarrow>
          let s = s\<lparr>ls_entries := ls_entries s @ [e], ls_memory := ls_memory s + entry_bytes env e\<rparr>
          in (Some (e, lg_stringify env e @ [10]), evict env (length (ls_entries s)) s))"

record log_snapshot =
  lsn_entries :: "log_entry list"
  lsn_dropped :: nat
  lsn_max_entries :: int
  lsn_max_bytes :: int

definition log_snapshot_of :: "log_store \<Rightarrow> log_snapshot" where
  "log_snapshot_of s = \<lparr>lsn_entries = ls_entries s, lsn_dropped = ls_dropped s, lsn_max_entries = ls_max_entries s,
     lsn_max_bytes = ls_max_memory s\<rparr>"

section \<open>The file\<close>

text \<open>File 0 is \<^verbatim>\<open>desktop-runtime.log\<close>, file \<open>n\<close> is \<^verbatim>\<open>desktop-runtime.log.n\<close>.\<close>

type_synonym log_files = "nat \<rightharpoonup> jstr"

definition rename_file :: "nat \<Rightarrow> nat \<Rightarrow> log_files \<Rightarrow> log_files" where
  "rename_file a b fs = (case fs a of None \<Rightarrow> fs | Some t \<Rightarrow> fs(a := None, b := Some t))"

text \<open>\<^verbatim>\<open>for (let index = rotations - 1; index >= 1; index -= 1)\<close>\<close>

fun shift_files :: "nat \<Rightarrow> log_files \<Rightarrow> log_files" where
  "shift_files 0 fs = fs"
| "shift_files (Suc n) fs = shift_files n (rename_file (Suc n) (Suc (Suc n)) fs)"

definition rotate_files :: "nat \<Rightarrow> log_files \<Rightarrow> log_files" where
  "rotate_files rotations fs = rename_file 0 1 (shift_files (rotations - 1) (fs(rotations := None)))"

definition append_serialized :: "log_store \<Rightarrow> jstr \<Rightarrow> log_files \<Rightarrow> log_files" where
  "append_serialized s line fs =
     (let currentSize = (case fs 0 of None \<Rightarrow> 0 | Some t \<Rightarrow> utf8_len t);
          fs = (if currentSize > 0 \<and> int (currentSize + utf8_len line) > ls_max_file s then rotate_files (nat (ls_rotations s)) fs else fs)
      in fs(0 \<mapsto> (case fs 0 of None \<Rightarrow> line | Some t \<Rightarrow> t @ line)))"

text \<open>\<^verbatim>\<open>currentFileTail\<close>, on a file of whole characters cut at a byte.\<close>

definition tail_limit :: "int option \<Rightarrow> int" where
  "tail_limit maxBytes = clamped_integer maxBytes (128 * 1024) (4 * 1024) (512 * 1024)"

section \<open>Properties of the redaction\<close>

text \<open>A JSON web token: \<^verbatim>\<open>eyJ\<close> and at least twenty characters of its alphabet.\<close>

definition is_web_token :: "jstr \<Rightarrow> bool" where
  "is_web_token w \<longleftrightarrow> (\<exists>t. w = lit ''eyJ'' @ t \<and> 20 \<le> length t \<and> list_all web_token_char t)"

lemma web_token_takes:
  assumes "is_web_token w" "prefix w s"
  shows "takes web_token b s"
proof -
  from assms obtain t u where s: "s = lit ''eyJ'' @ t @ u" "20 \<le> length t" "list_all web_token_char t"
    by (auto simp: is_web_token_def prefix_def)
  define t1 where "t1 = take 20 t"
  have s1: "s = lit ''eyJ'' @ t1 @ (drop 20 t @ u)" "length t1 = 20" "list_all web_token_char t1"
    using s by (auto simp: t1_def list_all_iff dest: in_set_takeD)
  let ?x = "(rev (lit ''eyJ'') @ b, t1 @ (drop 20 t @ u), []) :: re_pos"
  have o: "outcomes web_token (b, s, []) = outcomes (re_at_least 20 (Cls web_token_char)) ?x"
    unfolding web_token_def s1(1) by (simp add: outcomes_text del: append_assoc)
  with outcomes_at_least [OF s1(3,2)] have "outcomes web_token (b, s, []) \<noteq> []" by metis
  then obtain y ys where y: "outcomes web_token (b, s, []) = y # ys" by (meson neq_Nil_conv)
  have "advances ?x y" using outcomes_advance o y by (metis list.set_intros(1))
  then have "length (rest_of y) \<le> length (rest_of ?x)" by (metis advances_def le_add2 length_append)
  then show ?thesis using y s1(1) by (simp add: takes_def)
qed

lemma redacted_scrubs: "scrubs is_web_token web_token_char (\<lambda>_. lit ''[REDACTED]'')"
proof -
  have "\<not> sublist w (lit ''REDACTED'')" if "is_web_token w" for w
    using that sublist_length_le [of w "lit ''REDACTED''"] by (auto simp: is_web_token_def)
  moreover have "lit ''[REDACTED]'' = 91 # lit ''REDACTED'' @ [93]" by (simp add: lit_def)
  moreover have "\<not> web_token_char 91" "\<not> web_token_char 93" "list_all web_token_char (lit ''eyJ'')"
    by (simp_all add: web_token_char_def lit_def char_classes)
  ultimately show ?thesis unfolding scrubs_def by (auto simp: is_web_token_def)
qed

lemma home_scrubs: "scrubs is_web_token web_token_char (\<lambda>_. lit ''[HOME]'')"
proof -
  have "\<not> sublist w (lit ''HOME'')" if "is_web_token w" for w
    using that sublist_length_le [of w "lit ''HOME''"] by (auto simp: is_web_token_def)
  moreover have "lit ''[HOME]'' = 91 # lit ''HOME'' @ [93]" by (simp add: lit_def)
  moreover have "\<not> web_token_char 91" "\<not> web_token_char 93" "list_all web_token_char (lit ''eyJ'')"
    by (simp_all add: web_token_char_def lit_def char_classes)
  ultimately show ?thesis unfolding scrubs_def by (auto simp: is_web_token_def)
qed

lemma redact_secrets_clean: "\<not> has_bad is_web_token (redact_secrets s)"
  unfolding redact_secrets_def Let_def replace_all_def
  by (rule replaced_clean [OF redacted_scrubs]) (rule web_token_takes)

lemma hide_home_clean: "\<not> has_bad is_web_token s \<Longrightarrow> \<not> has_bad is_web_token (hide_home home s)"
  using replaced_stays_clean [OF home_scrubs] by (simp add: hide_home_def replace_all_def split: option.split)

lemma cut_prefix: "list_all (\<lambda>c. c < 128) v \<Longrightarrow> prefix v (utf8_cut n s) \<Longrightarrow> prefix v s"
proof (induction n s arbitrary: v rule: utf8_cut.induct)
  case (2 n c)
  then show ?case by (cases v) (auto simp: split_char_def decoded_def replacement_def split: if_splits)
next
  case (3 n c d cs)
  have v: "v = [] \<or> (\<exists>a u. v = a # u \<and> a < 128)" using 3(3) by (cases v) auto
  show ?case
  proof (cases "is_high c \<and> is_low d")
    case True
    with v 3(4) show ?thesis
      by (auto simp: split_char_def replacement_def is_high_def between_def split: if_splits)
  next
    case False
    with v 3 show ?thesis
      by (auto simp: split_char_def decoded_def replacement_def split: if_splits)
  qed
qed (simp add: prefix_def)

lemma split_char_no_text: "list_all (\<lambda>c. c < 128) v \<Longrightarrow> v \<noteq> [] \<Longrightarrow> \<not> sublist v (split_char n)"
  by (cases v) (auto simp: split_char_def replacement_def sublist_Cons_right)

lemma cut_sublist: "list_all (\<lambda>c. c < 128) v \<Longrightarrow> v \<noteq> [] \<Longrightarrow> sublist v (utf8_cut n s) \<Longrightarrow> sublist v s"
proof (induction n s rule: utf8_cut.induct)
  case (2 n c)
  show ?case
  proof (cases "unit_bytes c \<le> n")
    case True
    with 2 cut_prefix [of v n "[c]"] show ?thesis by (auto simp: sublist_Cons_right)
  next
    case False
    with 2 split_char_no_text show ?thesis by auto
  qed
next
  case (3 n c d cs)
  have "utf8_cut n (c # d # cs) = split_char n
    \<or> (is_high c \<and> is_low d) \<and> 4 \<le> n \<and> utf8_cut n (c # d # cs) = c # d # utf8_cut (n - 4) cs
    \<or> \<not> (is_high c \<and> is_low d) \<and> unit_bytes c \<le> n
        \<and> utf8_cut n (c # d # cs) = decoded c # utf8_cut (n - unit_bytes c) (d # cs)"
    by (simp only: utf8_cut.simps(3) split: if_split) blast
  then consider (prefix) "prefix v (utf8_cut n (c # d # cs))" | (split) "utf8_cut n (c # d # cs) = split_char n"
    | (pair) "is_high c \<and> is_low d" "4 \<le> n" "utf8_cut n (c # d # cs) = c # d # utf8_cut (n - 4) cs" "\<not> prefix v (utf8_cut n (c # d # cs))"
    | (one) "\<not> (is_high c \<and> is_low d)" "unit_bytes c \<le> n" "utf8_cut n (c # d # cs) = decoded c # utf8_cut (n - unit_bytes c) (d # cs)"
        "\<not> prefix v (utf8_cut n (c # d # cs))"
    by blast
  then show ?case
  proof cases
    case prefix
    then show ?thesis using cut_prefix 3(3) prefix_imp_sublist by blast
  next
    case split
    then show ?thesis using split_char_no_text 3(3-5) by simp
  next
    case pair
    have "\<not> prefix v (d # u)" for u
      using 3(3,4) pair(1) by (cases v) (auto simp: is_low_def between_def)
    with pair(3,4) 3(5) have "sublist v (utf8_cut (n - 4) cs)" by (simp add: sublist_Cons_right)
    with 3(1) [OF pair(1,2)] 3(3,4) show ?thesis by (simp add: sublist_Cons_right)
  next
    case one
    with 3(5) have "sublist v (utf8_cut (n - unit_bytes c) (d # cs))" by (simp add: sublist_Cons_right)
    with 3(2) [OF one(1,2)] 3(3,4) show ?thesis by (simp add: sublist_Cons_right)
  qed
qed simp

lemma web_token_ascii: "is_web_token w \<Longrightarrow> list_all (\<lambda>c. c < 128) w"
  by (fastforce simp: is_web_token_def list_all_iff web_token_char_def char_classes lit_def)

lemma web_token_head: "has_bad is_web_token s \<Longrightarrow> str_includes (lit ''eyJ'') s"
  unfolding includes_sublist has_bad_def is_web_token_def
  by (metis prefixI prefix_imp_sublist sublist_order.order.trans)

lemma sanitize_text_clean:
  assumes "\<not> str_includes (lit ''eyJ'') (lit fallback)"
  shows "\<not> has_bad is_web_token (sanitize_text v home n fallback)"
proof -
  define t where "t = hide_home home (redact_secrets (map (\<lambda>c. if c = 13 \<or> c = 0 then 32 else c) v))"
  have "\<not> has_bad is_web_token t" unfolding t_def by (intro hide_home_clean redact_secrets_clean)
  then have "\<not> has_bad is_web_token (cut_bytes n t)"
    using cut_sublist [OF web_token_ascii] redacted_scrubs by (auto simp: cut_bytes_def has_bad_def scrubs_def)
  then have "\<not> has_bad is_web_token (trim (cut_bytes n t))"
    unfolding has_bad_def using sublist_trim sublist_order.order.trans by blast
  with assms web_token_head [of "lit fallback"] show ?thesis
    by (auto simp: sanitize_text_def text_or_fallback_def t_def [symmetric])
qed

lemma length_utf8_cut: "length (utf8_cut n s) \<le> n"
proof (induction n s rule: utf8_cut.induct)
  case (2 n c)
  then show ?case using unit_bytes_bounds(1) [of c] by (auto simp: split_char_def)
next
  case (3 n c d cs)
  then show ?case using unit_bytes_bounds(1) [of c] by (auto simp: split_char_def)
qed simp

lemma length_sanitize_text: "length (sanitize_text v home n fallback) \<le> max n (length fallback)"
proof -
  have "length (cut_bytes n t) \<le> n" for t
    using length_utf8_cut [of n t] length_le_utf8_len [of t] by (simp add: cut_bytes_def)
  moreover have "length (trim t) \<le> length t" for t using sublist_length_le [OF sublist_trim] .
  ultimately have "length (trim (cut_bytes n t)) \<le> n" for t by (meson le_trans)
  then show ?thesis by (simp add: sanitize_text_def text_or_fallback_def le_max_iff_disj)
qed

section \<open>Properties of the log\<close>

type_synonym log_call = "jstr \<times> host_event desktop_event"

definition log_step :: "log_env \<Rightarrow> log_store \<Rightarrow> log_call \<Rightarrow> log_store" where
  "log_step env s call = snd (log_record (env\<lparr>lg_now := fst call\<rparr>) s (snd call))"

text \<open>Every entry that a list of calls has recorded, with the sequence numbers after \<open>n\<close>.\<close>

fun entries_of :: "log_env \<Rightarrow> jstr option \<Rightarrow> int \<Rightarrow> log_call list \<Rightarrow> log_entry list" where
  "entries_of env home n [] = []"
| "entries_of env home n (call # calls) =
     (case event_to_log_entry (env\<lparr>lg_now := fst call\<rparr>) home (n + 1) (snd call) of
        None \<Rightarrow> entries_of env home (n + 1) calls
      | Some e \<Rightarrow> e # entries_of env home (n + 1) calls)"

definition log_ok :: "log_env \<Rightarrow> log_store \<Rightarrow> bool" where
  "log_ok env s \<longleftrightarrow> 1 \<le> ls_max_entries s \<and> ls_memory s = sum_list (map (entry_bytes env) (ls_entries s)) \<and> \<not> over_limit s"

lemma entry_bytes_now [simp]: "entry_bytes (env\<lparr>lg_now := t\<rparr>) = entry_bytes env"
  by (rule ext) (simp add: entry_bytes_def)

text \<open>What the eviction loop keeps: the newest entries, with as many rounds as there are entries.\<close>

definition evicted_to :: "log_env \<Rightarrow> log_store \<Rightarrow> log_store \<Rightarrow> bool" where
  "evicted_to env s r \<longleftrightarrow> log_ok env r \<and> (\<exists>k \<le> length (ls_entries s). ls_entries r = drop k (ls_entries s) \<and> ls_dropped r = ls_dropped s + k)
     \<and> ls_home r = ls_home s \<and> ls_sequence r = ls_sequence s \<and> ls_max_entries r = ls_max_entries s
     \<and> ls_max_memory r = ls_max_memory s \<and> ls_max_file r = ls_max_file s \<and> ls_rotations r = ls_rotations s"

lemma evict_keeps_newest:
  assumes "1 \<le> ls_max_entries s" "ls_memory s = sum_list (map (entry_bytes env) (ls_entries s))" "length (ls_entries s) \<le> fuel"
  shows "evicted_to env s (evict env fuel s)"
  using assms
proof (induction fuel arbitrary: s)
  case 0
  then show ?case by (simp add: evicted_to_def log_ok_def over_limit_def)
next
  case (Suc fuel)
  show ?case
  proof (cases "over_limit s")
    case False
    with Suc.prems show ?thesis by (auto simp: evicted_to_def log_ok_def intro!: exI [of _ 0])
  next
    case True
    with Suc.prems obtain e es where e: "ls_entries s = e # es" by (cases "ls_entries s") (auto simp: over_limit_def)
    let ?s = "s\<lparr>ls_entries := es, ls_memory := ls_memory s - entry_bytes env e, ls_dropped := ls_dropped s + 1\<rparr>"
    have "evicted_to env ?s (evict env fuel ?s)" using Suc.prems e by (intro Suc.IH) auto
    then obtain k where "k \<le> length es" "ls_entries (evict env fuel ?s) = drop k es" "ls_dropped (evict env fuel ?s) = ls_dropped s + 1 + k"
      "evicted_to env ?s (evict env fuel ?s)"
      by (auto simp: evicted_to_def)
    then show ?thesis using True e by (auto simp: evicted_to_def intro!: exI [of _ "Suc k"])
  qed
qed

lemma log_step_ok: "log_ok env s \<Longrightarrow> log_ok env (log_step env s call)"
proof -
  assume ok: "log_ok env s"
  show ?thesis
  proof (cases "event_to_log_entry (env\<lparr>lg_now := fst call\<rparr>) (ls_home s) (ls_sequence s + 1) (snd call)")
    case None
    with ok show ?thesis by (auto simp: log_step_def log_record_def log_ok_def over_limit_def Let_def)
  next
    case (Some e)
    let ?s = "s\<lparr>ls_sequence := ls_sequence s + 1, ls_entries := ls_entries s @ [e], ls_memory := ls_memory s + entry_bytes env e\<rparr>"
    have "evicted_to (env\<lparr>lg_now := fst call\<rparr>) ?s (evict (env\<lparr>lg_now := fst call\<rparr>) (Suc (length (ls_entries s))) ?s)"
      using ok by (intro evict_keeps_newest) (simp_all add: log_ok_def)
    with Some show ?thesis by (simp add: log_step_def log_record_def Let_def evicted_to_def log_ok_def del: evict.simps)
  qed
qed

lemma max_entries_bounds:
  "16 \<le> ls_max_entries (new_log_store a b c d h)" "ls_max_entries (new_log_store a b c d h) \<le> 20000"
  by (simp_all add: new_log_store_def clamped_integer_def DEFAULT_MAX_ENTRIES_def split: option.split)

lemma log_ok_new: "log_ok env (new_log_store a b c d h)"
  using max_entries_bounds [of a b c d h] by (simp add: log_ok_def over_limit_def new_log_store_def)

interpretation runtime_log: machine "\<lambda>s. \<exists>a b c d h. s = new_log_store a b c d h" "log_step env" "log_ok env"
  for env :: log_env
  by unfold_locales (auto intro: log_step_ok log_ok_new)

lemma log_step_entries:
  assumes "log_ok env s"
  shows "\<exists>k. k \<le> length (ls_entries s @ entries_of env (ls_home s) (ls_sequence s) [call])
      \<and> ls_entries (log_step env s call) = drop k (ls_entries s @ entries_of env (ls_home s) (ls_sequence s) [call])
      \<and> ls_dropped (log_step env s call) = ls_dropped s + k"
    "ls_home (log_step env s call) = ls_home s" "ls_sequence (log_step env s call) = ls_sequence s + 1"
    "ls_max_entries (log_step env s call) = ls_max_entries s" "ls_max_memory (log_step env s call) = ls_max_memory s"
proof -
  let ?env = "env\<lparr>lg_now := fst call\<rparr>"
  have "(\<exists>k. k \<le> length (ls_entries s @ entries_of env (ls_home s) (ls_sequence s) [call])
      \<and> ls_entries (log_step env s call) = drop k (ls_entries s @ entries_of env (ls_home s) (ls_sequence s) [call])
      \<and> ls_dropped (log_step env s call) = ls_dropped s + k)
    \<and> ls_home (log_step env s call) = ls_home s \<and> ls_sequence (log_step env s call) = ls_sequence s + 1
    \<and> ls_max_entries (log_step env s call) = ls_max_entries s \<and> ls_max_memory (log_step env s call) = ls_max_memory s"
  proof (cases "event_to_log_entry ?env (ls_home s) (ls_sequence s + 1) (snd call)")
    case None
    then show ?thesis by (simp add: log_step_def log_record_def Let_def)
  next
    case (Some e)
    let ?s = "s\<lparr>ls_sequence := ls_sequence s + 1, ls_entries := ls_entries s @ [e], ls_memory := ls_memory s + entry_bytes env e\<rparr>"
    have "evicted_to ?env ?s (evict ?env (Suc (length (ls_entries s))) ?s)"
      using assms by (intro evict_keeps_newest) (simp_all add: log_ok_def)
    with Some show ?thesis
      by (simp add: log_step_def log_record_def Let_def evicted_to_def del: evict.simps drop_append)
  qed
  then show "\<exists>k. k \<le> length (ls_entries s @ entries_of env (ls_home s) (ls_sequence s) [call])
      \<and> ls_entries (log_step env s call) = drop k (ls_entries s @ entries_of env (ls_home s) (ls_sequence s) [call])
      \<and> ls_dropped (log_step env s call) = ls_dropped s + k"
    "ls_home (log_step env s call) = ls_home s" "ls_sequence (log_step env s call) = ls_sequence s + 1"
    "ls_max_entries (log_step env s call) = ls_max_entries s" "ls_max_memory (log_step env s call) = ls_max_memory s"
    by blast+
qed

lemma entries_of_append:
  "entries_of env home n (xs @ ys) = entries_of env home n xs @ entries_of env home (n + int (length xs)) ys"
  by (induction xs arbitrary: n) (auto simp: algebra_simps split: option.splits)

lemma entries_of_sequence:
  "sorted_wrt (<) (map le_sequence (entries_of env home n calls)) \<and> list_all (\<lambda>e. n < le_sequence e) (entries_of env home n calls)"
proof (induction calls arbitrary: n)
  case (Cons call calls)
  have "le_sequence e = n + 1"
    if "event_to_log_entry (env\<lparr>lg_now := fst call\<rparr>) home (n + 1) (snd call) = Some e" for e
    using that by (auto simp: event_to_log_entry_def split: desktop_event.splits host_event.splits)
  with Cons [of "n + 1"] show ?case by (force simp: list_all_iff split: option.split)
qed simp

lemma log_run:
  fixes a b c d h defines "s0 \<equiv> new_log_store a b c d h"
  shows "ls_dropped (foldl (log_step env) s0 calls) \<le> length (entries_of env h 0 calls)
    \<and> ls_entries (foldl (log_step env) s0 calls) = drop (ls_dropped (foldl (log_step env) s0 calls)) (entries_of env h 0 calls)
    \<and> ls_home (foldl (log_step env) s0 calls) = h \<and> ls_sequence (foldl (log_step env) s0 calls) = int (length calls)
    \<and> ls_max_entries (foldl (log_step env) s0 calls) = ls_max_entries s0 \<and> ls_max_memory (foldl (log_step env) s0 calls) = ls_max_memory s0"
proof (induction calls rule: rev_induct)
  case Nil
  then show ?case by (simp add: s0_def new_log_store_def)
next
  case (snoc call calls)
  define s where "s = foldl (log_step env) s0 calls"
  have ok: "log_ok env s" unfolding s_def s0_def by (rule runtime_log.inv_reachable) blast
  let ?old = "entries_of env h 0 calls" and ?new = "entries_of env h (int (length calls)) [call]"
  from snoc have ih: "ls_dropped s \<le> length ?old" "ls_entries s = drop (ls_dropped s) ?old" "ls_home s = h"
      "ls_sequence s = int (length calls)" "ls_max_entries s = ls_max_entries s0" "ls_max_memory s = ls_max_memory s0"
    by (simp_all add: s_def)
  from log_step_entries(1) [OF ok, of call] ih(3,4) obtain k where
    k: "k \<le> length (ls_entries s @ ?new)" "ls_entries (log_step env s call) = drop k (ls_entries s @ ?new)"
      "ls_dropped (log_step env s call) = ls_dropped s + k" by metis
  have "drop k (ls_entries s @ ?new) = drop (ls_dropped s + k) (?old @ ?new)"
    using ih(1,2) by (simp add: add.commute)
  moreover have "ls_dropped s + k \<le> length (?old @ ?new)" using k(1) ih(1,2) by simp
  moreover have "entries_of env h 0 (calls @ [call]) = ?old @ ?new" using entries_of_append [of env h 0 calls "[call]"] by simp
  ultimately show ?case
    using k log_step_entries(2-5) [OF ok, of call] ih unfolding s_def [symmetric] by (simp add: s_def del: entries_of.simps drop_append)
qed

text \<open>
  C15: The log in memory is bounded and forgets only the oldest entries. After any sequence of events it
  holds exactly what was recorded, in order and with increasing sequence numbers, without the first
  \<open>ls_dropped\<close> entries; there are at most \<open>maxEntries\<close> of them, and they take at most
  \<open>maxMemoryBytes\<close> unless a single entry is larger.
\<close>

theorem runtime_log_keeps_latest:
  "let s = foldl (log_step env) (new_log_store maxEntries maxMemory maxFile rotations home) calls in
     ls_entries s = drop (ls_dropped s) (entries_of env home 0 calls)
     \<and> length (ls_entries s) + ls_dropped s = length (entries_of env home 0 calls)
     \<and> sorted_wrt (<) (map le_sequence (ls_entries s))
     \<and> int (length (ls_entries s)) \<le> ls_max_entries s \<and> 16 \<le> ls_max_entries s \<and> ls_max_entries s \<le> 20000
     \<and> (length (ls_entries s) \<le> 1 \<or> int (sum_list (map (entry_bytes env) (ls_entries s))) \<le> ls_max_memory s)"
proof -
  define s0 where "s0 = new_log_store maxEntries maxMemory maxFile rotations home"
  define s where "s = foldl (log_step env) s0 calls"
  have r: "ls_dropped s \<le> length (entries_of env home 0 calls)" "ls_entries s = drop (ls_dropped s) (entries_of env home 0 calls)"
      "ls_max_entries s = ls_max_entries s0"
    using log_run [of env maxEntries maxMemory maxFile rotations home calls] by (simp_all add: s_def s0_def)
  have ok: "log_ok env s" unfolding s_def s0_def by (rule runtime_log.inv_reachable) blast
  have "16 \<le> ls_max_entries s0 \<and> ls_max_entries s0 \<le> 20000"
    using max_entries_bounds by (simp add: s0_def)
  moreover have "sorted_wrt (<) (map le_sequence (ls_entries s))"
    using entries_of_sequence [of env home 0 calls] r(2) by (simp add: drop_map [symmetric] sorted_wrt_drop)
  ultimately show ?thesis
    using r ok by (auto simp: Let_def s_def [symmetric] s0_def [symmetric] log_ok_def over_limit_def not_less)
qed

section \<open>Properties of the file\<close>

lemma shift_files_at:
  "fs (Suc n) = None \<Longrightarrow> shift_files n fs i = (if i = 0 \<or> Suc n < i then fs i else if i = 1 then None else fs (i - 1))"
proof (induction n arbitrary: fs i)
  case 0
  then show ?case by (cases "i = 1") auto
next
  case (Suc n)
  have "rename_file (Suc n) (Suc (Suc n)) fs (Suc n) = None"
    by (simp add: rename_file_def split: option.split)
  from Suc.IH [of "rename_file (Suc n) (Suc (Suc n)) fs" i, OF this] Suc.prems show ?case
    by (cases "i = Suc (Suc n)") (auto simp: rename_file_def split: option.split)
qed

lemma rotate_files_at:
  assumes "1 \<le> r"
  shows "rotate_files r fs i = (if i = 0 then None else if i \<le> r then fs (i - 1) else fs i)"
proof -
  obtain n where r: "r = Suc n" using assms by (cases r) auto
  define gs where "gs = shift_files n (fs(Suc n := None))"
  have gs: "gs i = (if i = 0 \<or> Suc n < i then (fs(Suc n := None)) i else if i = 1 then None else (fs(Suc n := None)) (i - 1))" for i
    unfolding gs_def by (rule shift_files_at) simp
  have g0: "gs 0 = fs 0" and g1: "gs 1 = None" using gs [of 0] gs [of 1] by auto
  have "rotate_files r fs i = rename_file 0 1 gs i" by (simp add: rotate_files_def r gs_def)
  also have "\<dots> = (if i = 0 then None else if i = 1 then fs 0 else gs i)"
    using g0 g1 by (simp add: rename_file_def split: option.split)
  also have "\<dots> = (if i = 0 then None else if i \<le> r then fs (i - 1) else fs i)"
    using gs [of i] r by (cases "i = 0"; cases "i = 1"; cases "i \<le> r") auto
  finally show ?thesis .
qed

text \<open>Files whose content is the list of the lines in them, the newest file first.\<close>

definition files_of :: "jstr list list \<Rightarrow> log_files" where
  "files_of gs i = (if i < length gs then Some (concat (gs ! i)) else None)"

lemma rotate_files_of:
  assumes "1 \<le> r" "length gs \<le> r + 1"
  shows "(rotate_files r (files_of gs))(0 \<mapsto> line) = files_of ([line] # take r gs)"
proof
  fix i
  show "((rotate_files r (files_of gs))(0 \<mapsto> line)) i = files_of ([line] # take r gs) i"
  proof (cases i)
    case 0
    then show ?thesis by (simp add: files_of_def)
  next
    case (Suc j)
    then have "((rotate_files r (files_of gs))(0 \<mapsto> line)) i = (if j < r then files_of gs j else files_of gs i)"
      using rotate_files_at [OF assms(1)] by (simp add: Suc_le_eq)
    also have "\<dots> = files_of ([line] # take r gs) i"
      using Suc assms(2) by (simp add: files_of_def)
    finally show ?thesis .
  qed
qed

lemma utf8_len_append_le: "utf8_len (a @ b) \<le> utf8_len a + utf8_len b"
proof (induction a rule: utf8_len.induct)
  case (2 c)
  have "utf8_len (c # b) \<le> unit_bytes c + utf8_len b" for b
  proof (cases b)
    case (Cons d ds)
    have "4 + utf8_len ds \<le> unit_bytes c + utf8_len (d # ds)" if "is_high c" "is_low d"
    proof -
      have "utf8_len (d # ds) = 3 + utf8_len ds"
        using that(2) by (cases ds) (auto simp: is_low_def is_high_def between_def unit_bytes_def)
      with unit_bytes_surrogate [of c] that(1) show ?thesis by simp
    qed
    with Cons show ?thesis by auto
  qed simp
  then show ?case by simp
next
  case (3 c d cs)
  then show ?case by auto
qed simp

text \<open>The files of a log hold its last lines: whole ones, in order, and no more bytes than allowed.\<close>

definition holds_tail :: "log_store \<Rightarrow> jstr list \<Rightarrow> jstr list list \<Rightarrow> bool" where
  "holds_tail s lines gs \<longleftrightarrow> (\<exists>k. concat (rev gs) = drop k lines) \<and> (lines \<noteq> [] \<longrightarrow> gs \<noteq> []) \<and> length gs \<le> nat (ls_rotations s) + 1
     \<and> list_all (\<lambda>g. length g = 1 \<or> g \<noteq> [] \<and> int (utf8_len (concat g)) \<le> ls_max_file s) gs"

lemma drop_snoc_exists: "\<exists>m. drop k xs @ [x] = drop m (xs @ [x])"
proof (cases "k \<le> length xs")
  case True
  then have "drop k (xs @ [x]) = drop k xs @ [x]" by simp
  then show ?thesis by metis
next
  case False
  then have "drop k xs @ [x] = drop (length xs) (xs @ [x])" by simp
  then show ?thesis by blast
qed

lemma concat_rev_take: "\<exists>k. concat (rev (take r gs)) = drop k (concat (rev gs))"
proof -
  have "concat (rev gs) = concat (rev (drop r gs)) @ concat (rev (take r gs))"
    by (metis append_take_drop_id concat_append rev_append)
  then show ?thesis by (metis append_eq_conv_conj)
qed

lemma append_to_file:
  assumes "\<not> (case fs 0 of None \<Rightarrow> False | Some t \<Rightarrow> utf8_len t > 0 \<and> int (utf8_len t + utf8_len line) > ls_max_file s)"
  shows "append_serialized s line fs = fs(0 \<mapsto> (case fs 0 of None \<Rightarrow> line | Some t \<Rightarrow> t @ line))"
  using assms by (auto simp: append_serialized_def Let_def split: option.splits)

lemma append_holds_tail:
  assumes tail: "holds_tail s lines gs" and r: "1 \<le> ls_rotations s" and ne: "[] \<notin> set lines"
  shows "\<exists>gs'. append_serialized s line (files_of gs) = files_of gs' \<and> holds_tail s (lines @ [line]) gs'"
proof (cases gs)
  case Nil
  have e: "append_serialized s line (files_of gs) = files_of [[line]]"
    using Nil by (subst append_to_file) (auto simp: files_of_def fun_eq_iff)
  have "concat (rev [[line]]) = drop (length lines) (lines @ [line])" by simp
  then have "\<exists>k. concat (rev [[line]]) = drop k (lines @ [line])" by blast
  then have "holds_tail s (lines @ [line]) [[line]]" unfolding holds_tail_def by (intro conjI) simp_all
  with e show ?thesis by blast
next
  case (Cons g hs)
  let ?R = "nat (ls_rotations s)"
  from tail obtain k where k: "concat (rev gs) = drop k lines" by (auto simp: holds_tail_def)
  have f0: "files_of gs 0 = Some (concat g)" using Cons by (simp add: files_of_def)
  have "g \<noteq> []" using tail Cons by (auto simp: holds_tail_def)
  moreover have "set g \<subseteq> set lines"
  proof -
    have "concat (rev hs) @ g = drop k lines" using k Cons by simp
    then have "set g \<subseteq> set (drop k lines)" by (metis Un_upper2 set_append)
    then show ?thesis using set_drop_subset [of k lines] by blast
  qed
  ultimately have "concat g \<noteq> []" using ne by (cases g) auto
  then have pos: "utf8_len (concat g) > 0" using utf8_len_0 [of "concat g"] by linarith
  show ?thesis
  proof (cases "int (utf8_len (concat g) + utf8_len line) > ls_max_file s")
    case True
    have rot: "append_serialized s line (files_of gs) = (rotate_files ?R (files_of gs))(0 \<mapsto> line)"
      using True f0 pos r by (simp add: append_serialized_def Let_def rotate_files_at)
    have e: "append_serialized s line (files_of gs) = files_of ([line] # take ?R gs)"
      unfolding rot using r tail by (intro rotate_files_of) (auto simp: holds_tail_def)
    obtain j where "concat (rev (take ?R gs)) = drop j (drop k lines)" using concat_rev_take k by metis
    then obtain m where "concat (rev ([line] # take ?R gs)) = drop m (lines @ [line])"
      using drop_snoc_exists [of "j + k" lines line] by (auto simp: add.commute)
    then have "holds_tail s (lines @ [line]) ([line] # take ?R gs)"
      using tail r unfolding holds_tail_def by (auto simp: list_all_iff dest: in_set_takeD)
    with e show ?thesis by blast
  next
    case False
    have e: "append_serialized s line (files_of gs) = files_of ((g @ [line]) # hs)"
      using False f0 pos by (subst append_to_file) (auto simp: files_of_def Cons fun_eq_iff less_Suc_eq_0_disj)
    have "utf8_len (concat (g @ [line])) \<le> utf8_len (concat g) + utf8_len line"
      using utf8_len_append_le [of "concat g" line] by simp
    then have "int (utf8_len (concat (g @ [line]))) \<le> ls_max_file s" using False by linarith
    moreover have "concat (rev ((g @ [line]) # hs)) = drop k lines @ [line]"
      using k Cons by (simp flip: append_assoc)
    then obtain m where "concat (rev ((g @ [line]) # hs)) = drop m (lines @ [line])"
      using drop_snoc_exists [of k lines line] by metis
    ultimately have "holds_tail s (lines @ [line]) ((g @ [line]) # hs)"
      using tail Cons unfolding holds_tail_def by auto
    with e show ?thesis by blast
  qed
qed

text \<open>
  C16: The rotated file loses only old lines. Whatever lines are appended to an empty log directory,
  the files, read from the oldest to the newest, hold exactly the last of the lines, whole and in
  order; there are at most \<open>rotations + 1\<close> files, and one that holds more than a single line has at
  most \<open>maxFileBytes\<close>.
\<close>

theorem rotated_log_is_tail:
  assumes "s = new_log_store maxEntries maxMemory maxFile rotations home" "[] \<notin> set lines"
  shows "\<exists>gs k. foldl (\<lambda>fs line. append_serialized s line fs) Map.empty lines = files_of gs
     \<and> concat (rev gs) = drop k lines \<and> (lines \<noteq> [] \<longrightarrow> k < length lines)
     \<and> int (length gs) \<le> ls_rotations s + 1 \<and> ls_rotations s \<le> 10
     \<and> (\<forall>g \<in> set gs. length g = 1 \<or> int (utf8_len (concat g)) \<le> ls_max_file s)"
proof -
  have r: "1 \<le> ls_rotations s \<and> ls_rotations s \<le> 10"
    using assms(1) by (simp add: new_log_store_def clamped_integer_def DEFAULT_ROTATIONS_def split: option.split)
  have "\<exists>gs. foldl (\<lambda>fs line. append_serialized s line fs) Map.empty lines = files_of gs \<and> holds_tail s lines gs"
    using assms(2)
  proof (induction lines rule: rev_induct)
    case Nil
    have "files_of [] = Map.empty" by (simp add: files_of_def fun_eq_iff)
    then show ?case by (auto simp: holds_tail_def intro!: exI [of _ "[]"])
  next
    case (snoc line lines)
    then obtain gs where "foldl (\<lambda>fs line. append_serialized s line fs) Map.empty lines = files_of gs" "holds_tail s lines gs"
      by auto
    with append_holds_tail [of s lines gs line] r snoc.prems show ?case by auto
  qed
  then obtain gs k where gs: "foldl (\<lambda>fs line. append_serialized s line fs) Map.empty lines = files_of gs"
      "concat (rev gs) = drop k lines" "holds_tail s lines gs"
    by (auto simp: holds_tail_def)
  have "k < length lines" if "lines \<noteq> []"
  proof (rule ccontr)
    assume "\<not> k < length lines"
    with gs(2) have "concat (rev gs) = []" by simp
    with gs(3) that show False unfolding holds_tail_def by (cases gs) (auto simp: list_all_iff)
  qed
  moreover have "int (length gs) \<le> ls_rotations s + 1" "\<forall>g \<in> set gs. length g = 1 \<or> int (utf8_len (concat g)) \<le> ls_max_file s"
    using gs(3) r by (auto simp: holds_tail_def list_all_iff)
  ultimately show ?thesis using gs(1,2) r by blast
qed

theorem rotated_log_is_tail_witness:
  "\<exists>gs k. foldl (\<lambda>fs line. append_serialized (new_log_store None None (Some 600) None None) line fs) Map.empty [lit ''a'', lit ''b'', lit ''c''] = files_of gs
     \<and> concat (rev gs) = drop k [lit ''a'', lit ''b'', lit ''c''] \<and> k < 3"
proof -
  have "[] \<notin> set [lit ''a'', lit ''b'', lit ''c'']" by (simp add: lit_def)
  from rotated_log_is_tail [OF refl this, of None None "Some 600" None None]
  show ?thesis by (simp only: list.size One_nat_def numeral_3_eq_3 plus_nat.simps) blast
qed

end
