(* ===== verification/Crash_Marker.thy ===== *)
theory Crash_Marker
  imports Runtime_Log
begin

text \<open>
  The marker of the last exit (\<^verbatim>\<open>crash-marker-store.ts\<close>): a file that tells the next session whether
  the desktop was closed cleanly and how the daemon ended last. The session id, the clock,
  \<^verbatim>\<open>Date.parse\<close> and \<^verbatim>\<open>JSON\<close> are parameters. The file holds the last payload of the write queue; the
  summary of a daemon exit that was read is kept as the value it is.
\<close>

datatype daemon_state = DsCrashed | DsStopped | DsOther jstr

text \<open>A snapshot of the daemon manager; the exit code can be absent, \<^verbatim>\<open>null\<close> or a number.\<close>

record daemon_snapshot =
  dn_state :: daemon_state
  dn_exit_code :: "int option option"
  dn_signal :: "jstr option"
  dn_message :: "jstr option"

record main_exit =
  mx_clean :: bool
  mx_started_at :: jstr
  mx_ended_at :: "js option"

record marker_store =
  mk_session :: jstr
  mk_started_at :: jstr
  mk_home :: "jstr option"
  mk_previous :: "main_exit option"
  mk_daemon :: "js option"
  mk_file :: "js option"

definition new_marker_store :: "jstr \<Rightarrow> jstr \<Rightarrow> jstr option \<Rightarrow> marker_store" where
  "new_marker_store sessionId startedAt home =
     \<lparr>mk_session = sessionId, mk_started_at = startedAt, mk_home = home, mk_previous = None, mk_daemon = None, mk_file = None\<rparr>"

section \<open>Reading\<close>

definition is_daemon_exit_summary :: "(js \<Rightarrow> bool) \<Rightarrow> js \<Rightarrow> bool" where
  "is_daemon_exit_summary date_ok v =
     (is_record v
      \<and> (\<exists>s. jget v ''timestamp'' = JStr s) \<and> date_ok (jget v ''timestamp'')
      \<and> (jget v ''state'' = jtext ''crashed'' \<or> jget v ''state'' = jtext ''stopped'')
      \<and> (is_nullish (jget v ''exitCode'') \<or> safe_int (jget v ''exitCode'') \<noteq> None)
      \<and> opt_sat (str_sat (\<lambda>s. length s \<le> 512)) (jget v ''signal'')
      \<and> opt_sat (str_sat (\<lambda>s. length s \<le> 4096)) (jget v ''message''))"

definition is_exit_marker :: "(js \<Rightarrow> bool) \<Rightarrow> js \<Rightarrow> bool" where
  "is_exit_marker date_ok v =
     (jget v ''schemaVersion'' = jint 1
      \<and> str_sat (\<lambda>s. length s \<le> 128) (jget v ''sessionId'')
      \<and> str_sat (\<lambda>_. True) (jget v ''startedAt'')
      \<and> (jget v ''status'' = jtext ''running'' \<or> jget v ''status'' = jtext ''clean'')
      \<and> date_ok (jget v ''startedAt'')
      \<and> opt_sat date_ok (jget v ''endedAt'')
      \<and> opt_sat (is_daemon_exit_summary date_ok) (jget v ''lastDaemonExit''))"

definition MAX_MARKER_BYTES :: nat where "MAX_MARKER_BYTES = 64 * 1024"

definition read_marker :: "(jstr \<Rightarrow> js option) \<Rightarrow> (js \<Rightarrow> bool) \<Rightarrow> file_read \<Rightarrow> js option" where
  "read_marker json date_ok file = (case file of
       FileText raw \<Rightarrow>
         if utf8_len raw > MAX_MARKER_BYTES then None
         else (case json raw of Some v \<Rightarrow> if is_exit_marker date_ok v then Some v else None | None \<Rightarrow> None)
     | _ \<Rightarrow> None)"

section \<open>Operations\<close>

definition marker_payload :: "marker_store \<Rightarrow> string \<Rightarrow> jstr option \<Rightarrow> js" where
  "marker_payload s status endedAt =
     JObj ([(lit ''schemaVersion'', jint 1), (lit ''sessionId'', JStr (mk_session s)), (lit ''startedAt'', JStr (mk_started_at s)),
        (lit ''status'', jtext status)]
       @ (case truthy_text endedAt of Some t \<Rightarrow> [(lit ''endedAt'', JStr t)] | None \<Rightarrow> [])
       @ (case mk_daemon s of Some d \<Rightarrow> [(lit ''lastDaemonExit'', d)] | None \<Rightarrow> []))"

definition enqueue_marker :: "string \<Rightarrow> jstr option \<Rightarrow> marker_store \<Rightarrow> marker_store" where
  "enqueue_marker status endedAt s = s\<lparr>mk_file := Some (marker_payload s status endedAt)\<rparr>"

text \<open>A value that JavaScript takes for true, for the optional members of a marker.\<close>

definition truthy_member :: "js \<Rightarrow> js option" where
  "truthy_member v = (if v \<in> {JUndef, JNull, JBool False, JStr [], jint 0} then None else Some v)"

definition marker_initialize :: "(jstr \<Rightarrow> js option) \<Rightarrow> (js \<Rightarrow> bool) \<Rightarrow> file_read \<Rightarrow> marker_store \<Rightarrow> marker_store" where
  "marker_initialize json date_ok file s =
     enqueue_marker ''running'' None (case read_marker json date_ok file of
         None \<Rightarrow> s
       | Some v \<Rightarrow>
           s\<lparr>mk_previous := Some \<lparr>mx_clean = (jget v ''status'' = jtext ''clean''),
                mx_started_at = (case jget v ''startedAt'' of JStr t \<Rightarrow> t | _ \<Rightarrow> []),
                mx_ended_at = truthy_member (jget v ''endedAt'')\<rparr>,
             mk_daemon := (if jget v ''lastDaemonExit'' = JUndef then None else Some (jget v ''lastDaemonExit''))\<rparr>)"

definition daemon_exit_summary :: "jstr \<Rightarrow> jstr option \<Rightarrow> daemon_snapshot \<Rightarrow> string \<Rightarrow> js" where
  "daemon_exit_summary now home d state =
     JObj ([(lit ''timestamp'', JStr now), (lit ''state'', jtext state)]
       @ (case dn_exit_code d of None \<Rightarrow> [] | Some None \<Rightarrow> [(lit ''exitCode'', JNull)] | Some (Some c) \<Rightarrow> [(lit ''exitCode'', jint c)])
       @ (case truthy_text (dn_signal d) of Some t \<Rightarrow> [(lit ''signal'', JStr (sanitize_runtime_text t home))] | None \<Rightarrow> [])
       @ (case truthy_text (dn_message d) of Some t \<Rightarrow> [(lit ''message'', JStr (sanitize_runtime_text t home))] | None \<Rightarrow> []))"

definition record_daemon_snapshot :: "jstr \<Rightarrow> daemon_snapshot \<Rightarrow> marker_store \<Rightarrow> marker_store" where
  "record_daemon_snapshot now d s = (case dn_state d of
       DsCrashed \<Rightarrow> enqueue_marker ''running'' None (s\<lparr>mk_daemon := Some (daemon_exit_summary now (mk_home s) d ''crashed'')\<rparr>)
     | DsStopped \<Rightarrow> enqueue_marker ''running'' None (s\<lparr>mk_daemon := Some (daemon_exit_summary now (mk_home s) d ''stopped'')\<rparr>)
     | DsOther _ \<Rightarrow> s)"

definition mark_clean :: "jstr \<Rightarrow> marker_store \<Rightarrow> marker_store" where
  "mark_clean now s = enqueue_marker ''clean'' (Some now) s"

section \<open>Properties\<close>

datatype marker_call = MarkDaemon jstr daemon_snapshot | MarkClean jstr

fun marker_step :: "marker_store \<Rightarrow> marker_call \<Rightarrow> marker_store" where
  "marker_step s (MarkDaemon now d) = record_daemon_snapshot now d s"
| "marker_step s (MarkClean now) = mark_clean now s"

text \<open>The calls of one session after it was initialized without a file to read.\<close>

definition marker_session :: "jstr \<Rightarrow> jstr \<Rightarrow> jstr option \<Rightarrow> marker_call list \<Rightarrow> marker_store" where
  "marker_session sessionId startedAt home calls =
     foldl marker_step (marker_initialize (\<lambda>_. None) (\<lambda>_. True) FileMissing (new_marker_store sessionId startedAt home)) calls"

text \<open>Whether the last call that wrote was the clean exit.\<close>

fun ends_clean :: "bool \<Rightarrow> marker_call list \<Rightarrow> bool" where
  "ends_clean c [] = c"
| "ends_clean c (MarkClean now # calls) = ends_clean True calls"
| "ends_clean c (MarkDaemon now d # calls) = ends_clean (case dn_state d of DsOther _ \<Rightarrow> c | _ \<Rightarrow> False) calls"

lemma marker_payload_members:
  "jget (marker_payload s status endedAt) ''schemaVersion'' = jint 1"
  "jget (marker_payload s status endedAt) ''sessionId'' = JStr (mk_session s)"
  "jget (marker_payload s status endedAt) ''startedAt'' = JStr (mk_started_at s)"
  "jget (marker_payload s status endedAt) ''status'' = jtext status"
  "jget (marker_payload s status endedAt) ''endedAt'' = (case truthy_text endedAt of Some t \<Rightarrow> JStr t | None \<Rightarrow> JUndef)"
  "mk_daemon s \<noteq> Some JUndef \<Longrightarrow>
     jget (marker_payload s status endedAt) ''lastDaemonExit'' = (case mk_daemon s of Some d \<Rightarrow> d | None \<Rightarrow> JUndef)"
  by (auto simp: marker_payload_def jget_def split: option.split)

text \<open>The clock gives dates, and what the daemon reports is within the bounds of the reader.\<close>

definition reportable :: "(js \<Rightarrow> bool) \<Rightarrow> jstr option \<Rightarrow> marker_call \<Rightarrow> bool" where
  "reportable date_ok home call = (case call of
      MarkDaemon now d \<Rightarrow> date_ok (JStr now)
        \<and> (case truthy_text (dn_signal d) of Some t \<Rightarrow> length (sanitize_runtime_text t home) \<le> 512 | None \<Rightarrow> True)
        \<and> (case truthy_text (dn_message d) of Some t \<Rightarrow> length t \<le> MAX_LOG_MESSAGE_BYTES | None \<Rightarrow> True)
        \<and> (case dn_exit_code d of Some (Some c) \<Rightarrow> \<bar>c\<bar> \<le> max_safe | _ \<Rightarrow> True)
    | MarkClean now \<Rightarrow> date_ok (JStr now) \<and> now \<noteq> [])"

lemma summary_ok:
  assumes "reportable date_ok home (MarkDaemon now d)" "state = ''crashed'' \<or> state = ''stopped''"
  shows "is_daemon_exit_summary date_ok (daemon_exit_summary now home d state)"
proof -
  let ?v = "daemon_exit_summary now home d state"
  have m: "jget ?v ''timestamp'' = JStr now" "jget ?v ''state'' = jtext state"
    "jget ?v ''exitCode'' = (case dn_exit_code d of None \<Rightarrow> JUndef | Some None \<Rightarrow> JNull | Some (Some c) \<Rightarrow> jint c)"
    "jget ?v ''signal'' = (case truthy_text (dn_signal d) of Some t \<Rightarrow> JStr (sanitize_runtime_text t home) | None \<Rightarrow> JUndef)"
    "jget ?v ''message'' = (case truthy_text (dn_message d) of Some t \<Rightarrow> JStr (sanitize_runtime_text t home) | None \<Rightarrow> JUndef)"
    "is_record ?v"
    by (auto simp: daemon_exit_summary_def jget_def split: option.split)
  have msg: "length (sanitize_runtime_text t home) \<le> 4096" if "length t \<le> MAX_LOG_MESSAGE_BYTES" for t
    using that length_sanitize_text [of t home MAX_LOG_MESSAGE_BYTES "''Desktop runtime event''"]
    by (simp add: sanitize_runtime_text_def looks_like_diagnostics_bundle_def MAX_LOG_MESSAGE_BYTES_def Let_def)
  show ?thesis
    using assms msg unfolding is_daemon_exit_summary_def m reportable_def
    by (auto simp: m(6) is_nullish_def opt_sat_def str_sat_def safe_int_Some split: option.splits)
qed

text \<open>What the file of a session says about it.\<close>

definition tells :: "(js \<Rightarrow> bool) \<Rightarrow> marker_store \<Rightarrow> marker_store \<Rightarrow> bool \<Rightarrow> bool" where
  "tells date_ok s0 s clean \<longleftrightarrow> mk_session s = mk_session s0 \<and> mk_started_at s = mk_started_at s0 \<and> mk_home s = mk_home s0
     \<and> (\<forall>d. mk_daemon s = Some d \<longrightarrow> is_daemon_exit_summary date_ok d)
     \<and> (if clean then \<exists>t. t \<noteq> [] \<and> date_ok (JStr t) \<and> mk_file s = Some (marker_payload s ''clean'' (Some t))
         else mk_file s = Some (marker_payload s ''running'' None))"

lemma tells_step:
  assumes "tells date_ok s0 s c" "reportable date_ok (mk_home s0) call"
  shows "tells date_ok s0 (marker_step s call) (ends_clean c [call])"
proof (cases call)
  case (MarkClean now)
  with assms show ?thesis
    by (auto simp: tells_def mark_clean_def enqueue_marker_def reportable_def marker_payload_def)
next
  case (MarkDaemon now d)
  with assms(2) have "is_daemon_exit_summary date_ok (daemon_exit_summary now (mk_home s0) d ''crashed'')"
      "is_daemon_exit_summary date_ok (daemon_exit_summary now (mk_home s0) d ''stopped'')"
    by (auto intro: summary_ok)
  with assms MarkDaemon show ?thesis
    by (cases "dn_state d") (auto simp: tells_def record_daemon_snapshot_def enqueue_marker_def marker_payload_def)
qed

lemma ends_clean_snoc: "ends_clean c (xs @ [x]) = ends_clean (ends_clean c xs) [x]"
  by (induction c xs rule: ends_clean.induct) simp_all

lemma tells_session:
  assumes "list_all (reportable date_ok home) calls"
  shows "tells date_ok (new_marker_store sid started home) (marker_session sid started home calls) (ends_clean False calls)"
  using assms
proof (induction calls rule: rev_induct)
  case Nil
  show ?case
    by (simp add: marker_session_def marker_initialize_def read_marker_def enqueue_marker_def new_marker_store_def tells_def marker_payload_def)
next
  case (snoc call calls)
  then show ?case
    using tells_step [of date_ok "new_marker_store sid started home" "marker_session sid started home calls" "ends_clean False calls" call]
    unfolding ends_clean_snoc [of False calls call] by (simp add: marker_session_def new_marker_store_def del: ends_clean.simps)
qed

lemma payload_is_marker:
  assumes "tells date_ok s0 s c" "mk_file s = Some v" "length (mk_session s0) \<le> 128" "date_ok (JStr (mk_started_at s0))"
  shows "is_exit_marker date_ok v \<and> jget v ''status'' = (if c then jtext ''clean'' else jtext ''running'')
    \<and> jget v ''startedAt'' = JStr (mk_started_at s0) \<and> (truthy_member (jget v ''endedAt'') \<noteq> None) = c
    \<and> jget v ''lastDaemonExit'' = (case mk_daemon s of Some d \<Rightarrow> d | None \<Rightarrow> JUndef) \<and> mk_daemon s \<noteq> Some JUndef"
proof -
  have d: "mk_daemon s \<noteq> Some JUndef" using assms(1) by (auto simp: tells_def is_daemon_exit_summary_def is_record_def)
  from assms(1,2) obtain status ended where v: "v = marker_payload s status ended" "status = (if c then ''clean'' else ''running'')"
      "if c then \<exists>t. ended = Some t \<and> t \<noteq> [] \<and> date_ok (JStr t) else ended = None"
    by (auto simp: tells_def split: if_splits)
  note m = marker_payload_members(1-5) [of s status ended] marker_payload_members(6) [OF d, of status ended]
  show ?thesis
    using assms v d unfolding v(1) is_exit_marker_def m
    by (auto simp: m tells_def str_sat_def opt_sat_def truthy_text_def truthy_member_def split: option.split if_splits)
qed



end
