(* ===== verification/Main_Events.thy ===== *)
theory Main_Events
  imports Codex_Progress Crash_Marker
begin

text \<open>
  The path of a runtime event through the desktop (\<^verbatim>\<open>publishMainRuntimeEvent\<close> of \<^verbatim>\<open>main.ts\<close>): its
  texts are redacted, the conversation ledger records it and may split it, and each part updates
  the marker of the last exit and the runtime log and goes to the renderer. The composition of
  the progress events of Codex, the redaction and the ledger shows what a streamed answer
  becomes on that path.
\<close>

record publish_env =
  pb_log :: log_env
  pb_activity :: activity_env
  pb_clock :: int
  pb_home :: "jstr option"
  pb_daemon :: "daemon_snapshot option"

record desktop_host =
  dh_ledger :: "activity_store option"
  dh_log :: "log_store option"
  dh_marker :: "marker_store option"

datatype host_output =
    ToBackground "host_event desktop_event"
  | ToRenderer "host_event desktop_event"
  | LogToRenderer log_entry
  | ToLogFile jstr

text \<open>A state event that the daemon has ended.\<close>

definition is_daemon_end :: "host_event desktop_event \<Rightarrow> bool" where
  "is_daemon_end e = (case e of
      OtherEvent (HostState c st _) \<Rightarrow> c = RcDaemon \<and> (st = lit ''crashed'' \<or> st = lit ''stopped'')
    | _ \<Rightarrow> False)"

definition deliver_event :: "publish_env \<Rightarrow> host_event desktop_event \<Rightarrow> desktop_host \<Rightarrow> host_output list \<times> desktop_host" where
  "deliver_event env e h =
     (let h = (if is_daemon_end e then (case pb_daemon env of
                 None \<Rightarrow> h
               | Some d \<Rightarrow> h\<lparr>dh_marker := map_option (record_daemon_snapshot (lg_now (pb_log env)) d) (dh_marker h)\<rparr>) else h);
          (logged, l) = (case dh_log h of
                 None \<Rightarrow> (None, None)
               | Some l \<Rightarrow> (case log_record (pb_log env) l e of (r, l') \<Rightarrow> (r, Some l')))
      in ([ToBackground e] @ (case logged of Some (_, line) \<Rightarrow> [ToLogFile line] | None \<Rightarrow> []) @ [ToRenderer e]
            @ (case logged of Some (entry, _) \<Rightarrow> [LogToRenderer entry] | None \<Rightarrow> []),
          h\<lparr>dh_log := l\<rparr>))"

fun deliver_events :: "publish_env \<Rightarrow> host_event desktop_event list \<Rightarrow> desktop_host \<Rightarrow> host_output list \<times> desktop_host" where
  "deliver_events env [] h = ([], h)"
| "deliver_events env (e # es) h =
     (case deliver_event env e h of (out, h1) \<Rightarrow>
      case deliver_events env es h1 of (outs, h2) \<Rightarrow> (out @ outs, h2))"

definition publish_main_runtime_event :: "publish_env \<Rightarrow> host_event desktop_event \<Rightarrow> desktop_host \<Rightarrow> host_output list \<times> desktop_host" where
  "publish_main_runtime_event env event h =
     (let safe = sanitize_runtime_event (pb_log env) (pb_home env) event;
          (events, ledger) = (case dh_ledger h of
              None \<Rightarrow> ([safe], None)
            | Some s \<Rightarrow> (case record_event (pb_activity env) (pb_clock env) s safe of (es, s') \<Rightarrow> (es, Some s')))
      in deliver_events env events (h\<lparr>dh_ledger := ledger\<rparr>))"

text \<open>The handler of the events of a Codex runtime.\<close>

definition on_codex_event ::
    "publish_env \<Rightarrow> progress_env \<Rightarrow> runtime_context \<Rightarrow> server_event \<Rightarrow> desktop_host \<Rightarrow> host_output list \<times> desktop_host" where
  "on_codex_event env penv ctx event h = (case codex_ui_progress penv ctx event of
      None \<Rightarrow> ([], h)
    | Some p \<Rightarrow> publish_main_runtime_event env (Progress (Codex p)) h)"

section \<open>Redaction\<close>

text \<open>The free texts of an event. Identifiers are shortened, not redacted, and \<^verbatim>\<open>cwd\<close> is passed as it is.\<close>

definition event_texts :: "host_event desktop_event \<Rightarrow> jstr list" where
  "event_texts e = (case e of
      Progress (Chatgpt g) \<Rightarrow> gp_text g # List.map_filter id [gp_input g, gp_parameters g, gp_output g, gp_file_path g]
    | Progress (Codex c) \<Rightarrow>
        cp_label c # List.map_filter id [cp_text c, cp_command c, cp_parameters c, cp_output c, cp_diff c, cp_file_path c]
    | OtherEvent (HostLog _ _ m _) \<Rightarrow> [m]
    | OtherEvent (HostState _ _ m) \<Rightarrow> List.map_filter id [m]
    | OtherEvent (HostProgress _ _ _ _) \<Rightarrow> [])"

lemma sanitized_text_clean:
  assumes "sanitized (\<lambda>s. sanitize_text s home n fallback) v = Some t" "\<not> str_includes (lit ''eyJ'') (lit fallback)"
  shows "\<not> has_bad is_web_token t"
  using assms sanitize_text_clean [OF assms(2)] has_bad_Nil [OF redacted_scrubs]
  by (auto simp: sanitized_def split: if_splits)

lemma runtime_text_clean: "\<not> has_bad is_web_token (sanitize_runtime_text v home)"
proof -
  have "\<not> str_includes (lit ''eyJ'') (lit ''SourceNerve diagnostics unavailable'')" "\<not> str_includes (lit ''eyJ'') (lit ''Desktop runtime event'')"
    by (simp_all add: lit_def starts_with_def)
  then show ?thesis by (simp add: sanitize_runtime_text_def Let_def sanitize_text_clean)
qed

lemma fallbacks_clean:
  "\<not> str_includes (lit ''eyJ'') (lit ''ChatGPT progress unavailable'')" "\<not> str_includes (lit ''eyJ'') (lit ''ChatGPT tool input unavailable'')"
  "\<not> str_includes (lit ''eyJ'') (lit ''ChatGPT tool parameters unavailable'')" "\<not> str_includes (lit ''eyJ'') (lit ''ChatGPT tool output unavailable'')"
  "\<not> str_includes (lit ''eyJ'') (lit ''Changed file'')" "\<not> str_includes (lit ''eyJ'') (lit ''Codex activity'')"
  "\<not> str_includes (lit ''eyJ'') (lit ''Codex reasoning summary unavailable'')" "\<not> str_includes (lit ''eyJ'') (lit ''Codex command unavailable'')"
  "\<not> str_includes (lit ''eyJ'') (lit ''Codex tool parameters unavailable'')" "\<not> str_includes (lit ''eyJ'') (lit ''Codex output unavailable'')"
  "\<not> str_includes (lit ''eyJ'') (lit ''Codex diff unavailable'')"
  by (simp_all add: lit_def starts_with_def)


text \<open>Texts without a character at which one of the secrets can start stay as they are.\<close>

definition secret_start :: "nat \<Rightarrow> bool" where
  "secret_start c \<longleftrightarrow> c \<in> {34, 45} \<or> to_lower c \<in> set (lit ''tscpabhge'')"

lemma replace_skips:
  assumes "\<And>b c s'. c \<in> set s \<Longrightarrow> outcomes r (b, c # s', []) = []" "\<And>b. outcomes r (b, [], []) = []"
  shows "replace_from r f b s = s"
  using assms(1)
proof (induction s arbitrary: b)
  case Nil
  then show ?case using assms(2) by (simp add: replace_from.simps)
next
  case (Cons c s)
  then show ?case by (simp add: replace_from.simps [of r f b "c # s"])
qed

lemmas secret_patterns = quoted_secret_def authorization_header_def bearer_token_def assigned_secret_def provider_token_def
  private_key_def url_credentials_def web_token_def secret_names_def

lemma redact_plain:
  assumes "list_all (\<lambda>c. \<not> secret_start c) s"
  shows "redact_secrets s = s"
proof -
  have letters: "outcomes (re_letters (lit (a # w))) (b, c # s', g) = []" if "to_lower (of_char a) \<noteq> to_lower c" for a w b c s' g
    using that by (simp add: lit_def)
  have c: "c \<noteq> 34" "c \<noteq> 45" "\<forall>d \<in> set (lit ''tscpabhge''). to_lower c \<noteq> d" if "c \<in> set s" for c
    using assms that by (auto simp: secret_start_def list_all_iff)
  have low: "to_lower 116 = 116" "to_lower 115 = 115" "to_lower 99 = 99" "to_lower 112 = 112" "to_lower 97 = 97" "to_lower 98 = 98"
      "to_lower 104 = 104" "to_lower 65 = 97" "to_lower 66 = 98" "to_lower 45 = 45"
    by (simp_all add: to_lower_def is_upper_def between_def)
  have l: "c \<notin> {116, 115, 99, 112, 97, 98, 104, 103, 101}" if "c \<in> set s" for c
    using c(3) [OF that] by (auto simp: to_lower_def is_upper_def between_def lit_def split: if_splits)
  have dash: "to_lower c = 45 \<longleftrightarrow> c = 45" for c by (auto simp: to_lower_def is_upper_def between_def)
  have "replace_from r f b s = s"
    if "r \<in> {quoted_secret, authorization_header, bearer_token, assigned_secret, provider_token, private_key, url_credentials, web_token}"
    for r f b
    using that c l
    by (intro replace_skips) (auto simp: secret_patterns lit_def low dash re_optional_def)
  then show ?thesis by (simp add: redact_secrets_def replace_all_def Let_def)
qed

section \<open>Streamed answers\<close>

text \<open>What the redaction makes of one piece of a streamed answer.\<close>

definition published_delta :: "jstr option \<Rightarrow> jstr \<Rightarrow> jstr" where
  "published_delta home delta =
     sanitize_text (bounded_field delta) home MAX_CODEX_PROGRESS_BYTES ''Codex reasoning summary unavailable''"

lemma published_delta_edges:
  "published_delta home d \<noteq> [] \<and> \<not> is_space (hd (published_delta home d)) \<and> \<not> is_space (last (published_delta home d))"
proof -
  define t where "t = trim (cut_bytes MAX_CODEX_PROGRESS_BYTES (hide_home home (redact_secrets
      (map (\<lambda>c. if c = 13 \<or> c = 0 then 32 else c) (bounded_field d)))))"
  have p: "published_delta home d = text_or_fallback t ''Codex reasoning summary unavailable''"
    by (simp add: published_delta_def sanitize_text_def t_def)
  show ?thesis
  proof (cases "t = []")
    case True
    then show ?thesis unfolding p by (simp add: text_or_fallback_def lit_def char_classes)
  next
    case False
    then show ?thesis unfolding p using trim_hd trim_last by (auto simp: text_or_fallback_def t_def)
  qed
qed

lemma published_delta_length: "length (published_delta home d) \<le> 64 * 1024"
  using length_sanitize_text [of "bounded_field d" home MAX_CODEX_PROGRESS_BYTES "''Codex reasoning summary unavailable''"]
  by (simp add: published_delta_def MAX_CODEX_PROGRESS_BYTES_def)

lemma deliver_keeps_ledger: "dh_ledger (snd (deliver_events env es h)) = dh_ledger h"
proof (induction es arbitrary: h)
  case (Cons e es)
  have "dh_ledger (snd (deliver_event env e h)) = dh_ledger h"
    by (simp add: deliver_event_def Let_def split: option.split prod.split)
  with Cons show ?case by (simp split: prod.split) (metis snd_conv)
qed simp

lemma published_ledger:
  assumes "dh_ledger h = Some l"
  shows "dh_ledger (snd (publish_main_runtime_event env e h))
    = Some (snd (record_event (pb_activity env) (pb_clock env) l (sanitize_runtime_event (pb_log env) (pb_home env) e)))"
  using assms by (simp add: publish_main_runtime_event_def deliver_keeps_ledger Let_def split: prod.split)

lemma bounded_field_ne: "filter (\<lambda>c. c \<noteq> 0) d \<noteq> [] \<Longrightarrow> bounded_field d \<noteq> []"
  by (simp add: bounded_field_def Let_def)

lemma two_codex_pieces:
  assumes "cp_text a = Some p" "cp_text b = Some q" "p \<noteq> []" "q \<noteq> []" "bounded p = p" "bounded (p @ q) = p @ q"
    and "cp_kind a = AkResponse" "cp_kind b = AkResponse" "cp_stage a = AsStreaming" "cp_stage b = AsStreaming"
    and "cp_activity_id a = None" "cp_activity_id b = None" "cp_position a = None" "cp_position b = None"
    and "cp_thread_id b = cp_thread_id a" "cp_run_id b = cp_run_id a" "cp_turn_id b = cp_turn_id a" "cp_item_id b = cp_item_id a"
    and "bounded q = q"
  shows "map av_text (cs_activities (snd (record_event env t2 (snd (record_event env t1 new_activity_store (Progress (Codex a)) ))
      (Progress (Codex b))))) = [Some (p @ q)]"
  using assms
  by (simp add: ledger_eval new_activity_store_def Let_def activity_of_codex_def split: option.split)

text \<open>
  White space between the pieces of a streamed answer is lost. Codex streams an answer in pieces and
  the ledger appends each piece to its row, but the redaction on the way trims every piece, and
  puts a whole sentence in the place of a piece of white space. The row of an answer that arrives
  in two pieces is the two redacted pieces with nothing in between: no space ends the first or
  starts the second, whatever spaces Codex sent.
\<close>

theorem streamed_pieces_lose_white_space:
  assumes "filter (\<lambda>c. c \<noteq> 0) x \<noteq> []" "filter (\<lambda>c. c \<noteq> 0) y \<noteq> []" "dh_ledger h = Some new_activity_store"
  shows "let h1 = snd (on_codex_event (env\<lparr>pb_clock := t1\<rparr>) penv ctx (AgentMessageDelta turn item x) h);
             h2 = snd (on_codex_event (env\<lparr>pb_clock := t2\<rparr>) penv ctx (AgentMessageDelta turn item y) h1);
             first = published_delta (pb_home env) x; second = published_delta (pb_home env) y
         in map_option (\<lambda>l. map av_text (cs_activities l)) (dh_ledger h2) = Some [Some (first @ second)]
            \<and> \<not> is_space (last first) \<and> \<not> is_space (hd second)"
proof -
  let ?S = "published_delta (pb_home env)"
  let ?c = "\<lambda>d. sanitize_codex (pb_home env) (put_text (bounded_field d)
      (progress_base ctx (bounded_field turn) (bounded_field item) AkResponse AsStreaming (lit ''Response'')))"
  have e: "x \<noteq> []" "y \<noteq> []" using assms(1,2) by auto
  have tx: "cp_text (?c d) = Some (?S d)" if "filter (\<lambda>c. c \<noteq> 0) d \<noteq> []" for d
    using bounded_field_ne [OF that]
    by (simp add: sanitize_codex_def Let_def put_text_def sanitized_def published_delta_def)
  have rest: "cp_activity_id (?c d) = None" "cp_kind (?c d) = AkResponse" "cp_stage (?c d) = AsStreaming" "cp_created_at (?c d) = None"
      "cp_position (?c d) = None" "cp_thread_id (?c d) = cp_thread_id (?c x)" "cp_run_id (?c d) = cp_run_id (?c x)"
      "cp_turn_id (?c d) = cp_turn_id (?c x)" "cp_item_id (?c d) = cp_item_id (?c x)" for d
    by (simp_all add: sanitize_codex_def Let_def put_text_def progress_base_def sanitized_def)
  have short: "bounded (?S x) = ?S x" "bounded (?S y) = ?S y" "bounded (?S x @ ?S y) = ?S x @ ?S y" "?S x \<noteq> []" "?S y \<noteq> []"
    using published_delta_length [of "pb_home env" x] published_delta_length [of "pb_home env" y] published_delta_edges
    by (simp_all add: bounded_def MAX_TEXT_CHARS_def)
  have s1: "snd (on_codex_event (env\<lparr>pb_clock := t\<rparr>) penv ctx (AgentMessageDelta turn item d) h')
      = snd (publish_main_runtime_event (env\<lparr>pb_clock := t\<rparr>) (Progress (Codex (put_text (bounded_field d)
          (progress_base ctx (bounded_field turn) (bounded_field item) AkResponse AsStreaming (lit ''Response''))))) h')"
    if "d \<noteq> []" for d t h'
    using that by (simp add: on_codex_event_def codex_ui_progress_def)
  let ?A = "pb_activity env"
  let ?l = "snd (record_event ?A t1 new_activity_store (Progress (Codex (?c x)) :: host_event desktop_event))"
  have l1: "dh_ledger (snd (on_codex_event (env\<lparr>pb_clock := t1\<rparr>) penv ctx (AgentMessageDelta turn item x) h)) = Some ?l"
    unfolding s1 [OF e(1)] published_ledger [OF assms(3)] by simp
  have l2: "dh_ledger (snd (on_codex_event (env\<lparr>pb_clock := t2\<rparr>) penv ctx (AgentMessageDelta turn item y)
        (snd (on_codex_event (env\<lparr>pb_clock := t1\<rparr>) penv ctx (AgentMessageDelta turn item x) h))))
      = Some (snd (record_event ?A t2 ?l (Progress (Codex (?c y)) :: host_event desktop_event)))"
    unfolding s1 [OF e(2)] published_ledger [OF l1] by simp
  have "map av_text (cs_activities (snd (record_event ?A t2 ?l (Progress (Codex (?c y)) :: host_event desktop_event))))
      = [Some (?S x @ ?S y)]"
    by (rule two_codex_pieces) (use tx [OF assms(1)] tx [OF assms(2)] short rest in simp_all)
  with l2 published_delta_edges show ?thesis by (simp add: Let_def)
qed

lemma published_plain:
  assumes "list_all (\<lambda>c. \<not> secret_start c \<and> c \<noteq> 13 \<and> c \<noteq> 0) d" "utf8_len d \<le> 64 * 1024" "trim d \<noteq> []"
  shows "published_delta None d = trim d"
proof -
  have "filter (\<lambda>c. c \<noteq> 0) d = d" "map (\<lambda>c. if c = 13 \<or> c = 0 then 32 else c) d = d"
    using assms(1) by (auto simp: filter_id_conv list_all_iff intro!: map_idI)
  moreover have "redact_secrets d = d" using assms(1) by (intro redact_plain) (auto simp: list_all_iff)
  ultimately show ?thesis
    using assms(2,3) by (simp add: published_delta_def sanitize_text_def bounded_field_def MAX_FIELD_BYTES_def MAX_CODEX_PROGRESS_BYTES_def
        hide_home_def cut_bytes_def text_or_fallback_def)
qed

definition demo_publish_env :: publish_env where
  "demo_publish_env = \<lparr>pb_log = \<lparr>lg_now = [], lg_date_ok = (\<lambda>_. True), lg_stringify = (\<lambda>_. [])\<rparr>,
     pb_activity = \<lparr>ae_sha1 = (\<lambda>x. x), ae_iso = show_int, ae_parse_date = (\<lambda>_. 0), ae_compare = (\<lambda>_ _. 0)\<rparr>,
     pb_clock = 0, pb_home = None, pb_daemon = None\<rparr>"

text \<open>The pieces \<^verbatim>\<open>"Foo"\<close> and \<^verbatim>\<open>" ok"\<close> make the row \<^verbatim>\<open>"Foook"\<close>.\<close>

theorem streamed_pieces_lose_white_space_witness:
  "let h = \<lparr>dh_ledger = Some new_activity_store, dh_log = None, dh_marker = None\<rparr>;
       ctx = \<lparr>rx_run_id = lit ''r'', rx_workspace = lit ''w'', rx_thread_id = None\<rparr>;
       penv = \<lparr>pe_stringify = (\<lambda>_. None), pe_upper = (\<lambda>c. [c])\<rparr>;
       h1 = snd (on_codex_event (demo_publish_env\<lparr>pb_clock := 1\<rparr>) penv ctx (AgentMessageDelta (lit ''t'') (lit ''i'') (lit ''Foo'')) h);
       h2 = snd (on_codex_event (demo_publish_env\<lparr>pb_clock := 2\<rparr>) penv ctx (AgentMessageDelta (lit ''t'') (lit ''i'') (lit '' ok'')) h1)
   in map_option (\<lambda>l. map av_text (cs_activities l)) (dh_ledger h2) = Some [Some (lit ''Foook'')]"
proof -
  have p: "published_delta None (lit ''Foo'') = lit ''Foo''" "published_delta None (lit '' ok'') = lit ''ok''"
    by (subst published_plain; simp add: secret_start_def to_lower_def lit_def char_classes trim_def unit_bytes_def is_high_def)+
  have "filter (\<lambda>c. c \<noteq> 0) (lit ''Foo'') \<noteq> []" "filter (\<lambda>c. c \<noteq> 0) (lit '' ok'') \<noteq> []" by (simp_all add: lit_def)
  from streamed_pieces_lose_white_space [OF this, where h = "\<lparr>dh_ledger = Some new_activity_store, dh_log = None, dh_marker = None\<rparr>"
      and env = demo_publish_env and ?t1.0 = 1 and ?t2.0 = 2 and penv = "\<lparr>pe_stringify = (\<lambda>_. None), pe_upper = (\<lambda>c. [c])\<rparr>"
      and ctx = "\<lparr>rx_run_id = lit ''r'', rx_workspace = lit ''w'', rx_thread_id = None\<rparr>" and turn = "lit ''t''" and item = "lit ''i''"]
  show ?thesis by (simp add: Let_def p demo_publish_env_def lit_append [symmetric])
qed


text \<open>
  A secret under a longer name is not recognised: \<^verbatim>\<open>\b\<close> does not match between \<^verbatim>\<open>_\<close> and a letter, so
  \<^verbatim>\<open>access_token\<close> is no \<^verbatim>\<open>token\<close>, and the value stays in the text.
\<close>

theorem access_token_not_redacted:
  "sanitize_runtime_text (lit ''my_token=x'') None = lit ''my_token=x''"
proof -
  have "replace_from r f [] (lit ''my_token=x'') = lit ''my_token=x''"
    if "r \<in> {quoted_secret, authorization_header, bearer_token, assigned_secret, provider_token, private_key, url_credentials, web_token}"
    for r f
    using that
    by (auto simp: secret_patterns replace_from.simps lit_def to_lower_def is_upper_def between_def
      re_optional_def word_edge_def is_word_char_def is_alnum_def is_lower_def is_digit_def)
  then have "redact_secrets (lit ''my_token=x'') = lit ''my_token=x''"
    by (simp add: redact_secrets_def replace_all_def Let_def)
  then show ?thesis
    by (simp add: sanitize_runtime_text_def looks_like_diagnostics_bundle_def sanitize_text_def lit_def Let_def hide_home_def cut_bytes_def
        trim_def text_or_fallback_def MAX_LOG_MESSAGE_BYTES_def unit_bytes_def is_high_def char_classes)
qed

end
