(* ===== verification/Skill_Policy.thy ===== *)
theory Skill_Policy
  imports Contracts
begin

text \<open>
  Which skills are active in a workspace (\<^verbatim>\<open>workspace-skill-policy.ts\<close>): the persistent store of the
  policies, the technologies that a workspace or a prompt shows, and the decision about a skill.
  The file system, \<^verbatim>\<open>path\<close>, \<^verbatim>\<open>JSON\<close>, \<^verbatim>\<open>localeCompare\<close>, \<^verbatim>\<open>toLocaleLowerCase\<close> and the Unicode classes of
  letters and digits are parameters. Signals are names of the table below, as everywhere in the
  code; the members that every object inherits are not among them.
\<close>

definition MAX_STORE_BYTES :: nat where "MAX_STORE_BYTES = 1024 * 1024"
definition MAX_POLICIES :: nat where "MAX_POLICIES = 256"
definition MAX_SKILL_OVERRIDES :: nat where "MAX_SKILL_OVERRIDES = 256"
definition MAX_DISCOVERY_ENTRIES :: nat where "MAX_DISCOVERY_ENTRIES = 768"
definition MAX_DISCOVERY_DEPTH :: nat where "MAX_DISCOVERY_DEPTH = 3"
definition MAX_MANIFEST_BYTES :: nat where "MAX_MANIFEST_BYTES = 256 * 1024"

definition SIGNAL_ALIASES :: "(string \<times> string list) list" where
  "SIGNAL_ALIASES = [
    (''angular'', [''angular'', ''@angular'']),
    (''aws'', [''aws'', ''amazon web services'']),
    (''azure'', [''azure'']),
    (''cargo'', [''cargo'', ''cargo.toml'']),
    (''confluence'', [''confluence'']),
    (''django'', [''django'']),
    (''docker'', [''docker'', ''dockerfile'', ''compose.yaml'', ''docker-compose'']),
    (''electron'', [''electron'']),
    (''fastapi'', [''fastapi'']),
    (''figma'', [''figma'']),
    (''gcp'', [''gcp'', ''google cloud'']),
    (''go'', [''golang'', ''go.mod'', ''go.sum'']),
    (''java'', [''java'', ''maven'', ''pom.xml'']),
    (''jira'', [''jira'', ''atlassian'']),
    (''jest'', [''jest'']),
    (''kotlin'', [''kotlin'', ''gradle.kts'']),
    (''kubernetes'', [''kubernetes'', ''k8s'', ''helm'']),
    (''mysql'', [''mysql'']),
    (''next'', [''next'', ''nextjs'', ''next.js'']),
    (''node'', [''node'', ''nodejs'', ''package.json'', ''npm'', ''pnpm'', ''yarn'']),
    (''playwright'', [''playwright'']),
    (''postgres'', [''postgres'', ''postgresql'']),
    (''prisma'', [''prisma'']),
    (''python'', [''python'', ''pyproject.toml'', ''requirements.txt'', ''pip'']),
    (''react'', [''react'', ''react-dom'']),
    (''redis'', [''redis'']),
    (''rust'', [''rust'', ''cargo'', ''cargo.toml'']),
    (''svelte'', [''svelte'', ''sveltekit'']),
    (''tailwind'', [''tailwind'', ''tailwindcss'']),
    (''terraform'', [''terraform'', ''.tf'']),
    (''typescript'', [''typescript'', ''tsconfig'', ''.ts'', ''.tsx'']),
    (''vite'', [''vite'', ''vitest'']),
    (''vitest'', [''vitest'']),
    (''vue'', [''vue'', ''nuxt''])]"

definition SKIPPED_DIRECTORIES :: "string list" where
  "SKIPPED_DIRECTORIES = [''.git'', ''.hg'', ''.svn'', ''.venv'', ''build'', ''coverage'', ''dist'', ''node_modules'', ''target'', ''vendor'']"

definition GENERIC_SKILL_TOKENS :: "string list" where
  "GENERIC_SKILL_TOKENS = [''coding'', ''debug'', ''debugging'', ''documentation'', ''git'', ''guidelines'', ''karpathy'', ''repository'', ''review'', ''testing'', ''workflow'']"

definition PROMPT_ONLY_SIGNALS :: "string list" where
  "PROMPT_ONLY_SIGNALS = [''aws'', ''azure'', ''confluence'', ''docker'', ''figma'', ''gcp'', ''jira'', ''kubernetes'', ''terraform'']"

definition AUTOMATIC_SKILL_TASK_TERMS :: "jstr list" where
  "AUTOMATIC_SKILL_TASK_TERMS = map lit [''add'', ''build'', ''change'', ''check'', ''create'', ''debug'', ''delete'', ''edit'', ''fix'', ''implement'', ''inspect'', ''investigate'', ''migrate'', ''optimize'', ''redesign'', ''refactor'', ''remove'', ''repair'', ''resolve'', ''review'', ''test'', ''update'', ''verify'']
     @ [[99, 224, 105], [99, 7853, 112, 32, 110, 104, 7853, 116], [99, 104, 7881, 110, 104], [273, 7893, 105], [103, 7905], [107, 105, 7875, 109, 32, 116, 114, 97], [108, 7895, 105], [115, 7917, 97], [116, 7841, 111], [116, 104, 234, 109], [116, 104, 105, 7871, 116, 32, 107, 7871], [120, 243, 97], [120, 111, 225]]"

definition CONVERSATIONAL_ONLY_PROMPTS :: "jstr list" where
  "CONVERSATIONAL_ONLY_PROMPTS = map lit [''hi'', ''hello'', ''hey'', ''yo'', ''ok'', ''okay'', ''thanks'', ''thank you'', ''yes'', ''no'', ''continue'']
     @ [[116, 105, 7871, 112, 32, 116, 7909, 99], [99, 104, 224, 111]]"

section \<open>Texts\<close>

text \<open>\<^verbatim>\<open>/^[A-Za-z0-9][A-Za-z0-9._-]{0,63}$/\<close>\<close>

definition skill_identifier :: "js \<Rightarrow> string \<Rightarrow> jstr res" where
  "skill_identifier v label = (case v of
      JStr (c # cs) \<Rightarrow> if is_alnum c \<and> length cs \<le> 63 \<and> list_all is_id_char cs then Inr (c # cs) else throw (label @ '' is invalid'')
    | _ \<Rightarrow> throw (label @ '' is invalid''))"

text \<open>\<^verbatim>\<open>value.toLowerCase().replace(/[^a-z0-9@.+_-]+/g, " ").replace(/\s+/g, " ").trim()\<close>\<close>

definition signal_char :: "nat \<Rightarrow> bool" where
  "signal_char c = (is_lower c \<or> is_digit c \<or> c \<in> set (lit ''@.+_-''))"

function blank_runs :: "jstr \<Rightarrow> jstr" where
  "blank_runs [] = []"
| "blank_runs (c # cs) =
     (if signal_char c then c # blank_runs cs else 32 # blank_runs (dropWhile (\<lambda>d. \<not> signal_char d) cs))"
  by pat_completeness auto
termination by (relation "measure length") (auto simp: less_Suc_eq_le length_dropWhile_le)

definition normalize_text :: "jstr \<Rightarrow> jstr" where
  "normalize_text value = trim (collapse_spaces (blank_runs (lower_text value)))"

definition aliases_of :: "jstr \<Rightarrow> jstr list" where
  "aliases_of signal = (case named SIGNAL_ALIASES signal of Some as \<Rightarrow> map lit as | None \<Rightarrow> [signal])"

text \<open>The signals of the table that some alias shows in a normalised text.\<close>

definition signals_in :: "jstr \<Rightarrow> jstr list" where
  "signals_in normalized =
     map (\<lambda>(signal, _). lit signal)
       (filter (\<lambda>(_, aliases). list_ex (\<lambda>alias. str_includes (normalize_text (lit alias)) normalized) aliases) SIGNAL_ALIASES)"

definition workspace_skill_key :: "js \<Rightarrow> js \<Rightarrow> jstr res" where
  "workspace_skill_key pluginId skillId =
     and_then (skill_identifier pluginId ''plugin id'') (\<lambda>p. and_then (skill_identifier skillId ''skill id'') (\<lambda>s. Inr (p @ [47] @ s)))"

section \<open>Policies\<close>

datatype skill_mode = ModeAutomatic | ModeManual

datatype install_mode = InstallManual | InstallSkillsOnly

record skill_policy =
  kp_workspace :: jstr
  kp_discovery :: skill_mode
  kp_use :: skill_mode
  kp_install :: install_mode
  kp_include :: "jstr list"
  kp_exclude :: "jstr list"
  kp_updated_at :: int

definition skill_modes :: "(string \<times> skill_mode) list" where
  "skill_modes = [(''automatic'', ModeAutomatic), (''manual'', ModeManual)]"

definition install_modes :: "(string \<times> install_mode) list" where
  "install_modes = [(''manual'', InstallManual), (''skills-only'', InstallSkillsOnly)]"

definition member_of :: "(string \<times> 'a) list \<Rightarrow> js \<Rightarrow> string \<Rightarrow> 'a res" where
  "member_of table v message = (case v of
      JStr s \<Rightarrow> (case named table s of Some x \<Rightarrow> Inr x | None \<Rightarrow> throw message)
    | _ \<Rightarrow> throw message)"

definition validate_skill_key :: "string \<Rightarrow> js \<Rightarrow> jstr res" where
  "validate_skill_key label v = (case v of
      JStr s \<Rightarrow> (case split_on 47 s of
          [p, k] \<Rightarrow> workspace_skill_key (JStr p) (JStr k)
        | _ \<Rightarrow> throw (''Workspace skill '' @ label @ '' entry is invalid''))
    | _ \<Rightarrow> throw (''Workspace skill '' @ label @ '' entry is invalid''))"

definition validate_overrides :: "js \<Rightarrow> string \<Rightarrow> jstr list res" where
  "validate_overrides v label = (case v of
      JArr items \<Rightarrow>
        if length items > MAX_SKILL_OVERRIDES then throw (''Workspace skill '' @ label @ '' list is invalid'')
        else and_then (map_res (validate_skill_key label) items) (\<lambda>keys. Inr (sorted_unique keys))
    | _ \<Rightarrow> throw (''Workspace skill '' @ label @ '' list is invalid''))"

definition validate_policy_input :: "js \<Rightarrow> int \<Rightarrow> skill_policy res" where
  "validate_policy_input input updatedAt =
     (if \<not> is_record input then throw ''Workspace skill policy input is invalid''
      else and_then (skill_identifier (jget input ''workspaceId'') ''workspace id'') (\<lambda>workspaceId.
        and_then (member_of skill_modes (jget input ''discovery'') ''Workspace skill discovery policy is invalid'') (\<lambda>discovery.
        and_then (member_of skill_modes (jget input ''use'') ''Workspace skill use policy is invalid'') (\<lambda>use.
        and_then (member_of install_modes (jget input ''install'') ''Workspace skill install policy is invalid'') (\<lambda>install.
        and_then (validate_overrides (jget input ''include'') ''include'') (\<lambda>inc.
        and_then (validate_overrides (jget input ''exclude'') ''exclude'') (\<lambda>exc.
          if list_ex (\<lambda>key. key \<in> set exc) inc then throw ''Workspace skill policy cannot include and exclude the same skill''
          else Inr \<lparr>kp_workspace = workspaceId, kp_discovery = discovery, kp_use = use, kp_install = install,
            kp_include = inc, kp_exclude = exc, kp_updated_at = updatedAt\<rparr>)))))))"

definition validate_stored_policy :: "js \<Rightarrow> skill_policy res" where
  "validate_stored_policy v =
     (case safe_int (jget v ''updatedAt'') of
        Some t \<Rightarrow> if \<not> is_record v \<or> t < 0 then throw ''Workspace skill policy record is invalid'' else validate_policy_input v t
      | None \<Rightarrow> throw ''Workspace skill policy record is invalid'')"

definition default_workspace_skill_policy :: "jstr \<Rightarrow> skill_policy res" where
  "default_workspace_skill_policy workspaceId =
     and_then (skill_identifier (JStr workspaceId) ''workspace id'') (\<lambda>w.
       Inr \<lparr>kp_workspace = w, kp_discovery = ModeAutomatic, kp_use = ModeAutomatic, kp_install = InstallSkillsOnly,
         kp_include = [], kp_exclude = [], kp_updated_at = 0\<rparr>)"

section \<open>The store\<close>

text \<open>The map of the policies iterates in insertion order; setting a key keeps its place.\<close>

record policy_store =
  kp_policies :: "skill_policy list"
  kp_initialized :: bool

definition new_policy_store :: policy_store where
  "new_policy_store = \<lparr>kp_policies = [], kp_initialized = False\<rparr>"

definition find_policy :: "skill_policy list \<Rightarrow> jstr \<Rightarrow> skill_policy option" where
  "find_policy ps w = find (\<lambda>p. kp_workspace p = w) ps"

definition put_policy :: "skill_policy \<Rightarrow> skill_policy list \<Rightarrow> skill_policy list" where
  "put_policy p ps =
     (if find_policy ps (kp_workspace p) = None then ps @ [p]
      else map (\<lambda>q. if kp_workspace q = kp_workspace p then p else q) ps)"

fun load_policies :: "skill_policy list \<Rightarrow> js list \<Rightarrow> unit res \<times> skill_policy list" where
  "load_policies ps [] = (Inr (), ps)"
| "load_policies ps (v # vs) = (case validate_stored_policy v of
      Inl e \<Rightarrow> (Inl e, ps)
    | Inr p \<Rightarrow>
        if find_policy ps (kp_workspace p) \<noteq> None
        then (Inl (lit ''Workspace skill policy store contains duplicate workspace '' @ kp_workspace p), ps)
        else load_policies (put_policy p ps) vs)"

text \<open>Policies that were loaded before an error stay in the map.\<close>

definition policy_initialize :: "(jstr \<Rightarrow> js option) \<Rightarrow> file_read \<Rightarrow> policy_store \<Rightarrow> unit res \<times> policy_store" where
  "policy_initialize json file s =
     (if kp_initialized s then (Inr (), s)
      else case file of
        FileMissing \<Rightarrow> (Inr (), s\<lparr>kp_initialized := True\<rparr>)
      | FileError \<Rightarrow> (throw ''read failed'', s)
      | FileText raw \<Rightarrow>
          if utf8_len raw > MAX_STORE_BYTES then (throw ''Workspace skill policy store exceeds the Desktop size limit'', s)
          else case json raw of
            None \<Rightarrow> (throw ''JSON.parse'', s)
          | Some v \<Rightarrow> (case jget v ''policies'' of
              JArr items \<Rightarrow>
                if \<not> is_record v \<or> jget v ''schemaVersion'' \<noteq> jint 1 then (throw ''Workspace skill policy store has invalid schema'', s)
                else if length items > MAX_POLICIES then (throw ''Workspace skill policy store exceeds the workspace limit'', s)
                else (case load_policies (kp_policies s) items of
                    (Inl e, ps) \<Rightarrow> (Inl e, s\<lparr>kp_policies := ps\<rparr>)
                  | (Inr _, ps) \<Rightarrow> (Inr (), s\<lparr>kp_policies := ps, kp_initialized := True\<rparr>))
            | _ \<Rightarrow> (throw ''Workspace skill policy store has invalid schema'', s)))"

definition policy_get :: "(jstr \<Rightarrow> js option) \<Rightarrow> file_read \<Rightarrow> jstr \<Rightarrow> policy_store \<Rightarrow> skill_policy res \<times> policy_store" where
  "policy_get json file workspaceId s =
     (case policy_initialize json file s of
        (Inl e, s1) \<Rightarrow> (Inl e, s1)
      | (Inr _, s1) \<Rightarrow>
          (and_then (skill_identifier (JStr workspaceId) ''workspace id'') (\<lambda>w.
             case find_policy (kp_policies s1) w of Some p \<Rightarrow> Inr p | None \<Rightarrow> default_workspace_skill_policy w), s1))"

definition mode_name :: "skill_mode \<Rightarrow> string" where
  "mode_name m = (case m of ModeAutomatic \<Rightarrow> ''automatic'' | ModeManual \<Rightarrow> ''manual'')"

definition policy_js :: "skill_policy \<Rightarrow> js" where
  "policy_js p = JObj [(lit ''workspaceId'', JStr (kp_workspace p)), (lit ''discovery'', jtext (mode_name (kp_discovery p))),
     (lit ''use'', jtext (mode_name (kp_use p))),
     (lit ''install'', jtext (case kp_install p of InstallManual \<Rightarrow> ''manual'' | InstallSkillsOnly \<Rightarrow> ''skills-only'')),
     (lit ''include'', JArr (map JStr (kp_include p))), (lit ''exclude'', JArr (map JStr (kp_exclude p))),
     (lit ''updatedAt'', jint (kp_updated_at p))]"

definition policies_js :: "(jstr \<Rightarrow> jstr \<Rightarrow> int) \<Rightarrow> skill_policy list \<Rightarrow> js" where
  "policies_js compare ps = JObj [(lit ''schemaVersion'', jint 1),
     (lit ''policies'', JArr (map policy_js (sort_by (\<lambda>a b. compare (kp_workspace a) (kp_workspace b) \<le> 0) ps)))]"

text \<open>\<open>write_ok\<close> tells whether the file operations succeed.\<close>

definition policy_persist ::
    "(js \<Rightarrow> jstr) \<Rightarrow> (jstr \<Rightarrow> jstr \<Rightarrow> int) \<Rightarrow> bool \<Rightarrow> skill_policy list \<Rightarrow> file_read \<Rightarrow> unit res \<times> file_read" where
  "policy_persist stringify compare write_ok ps file =
     (let encoded = stringify (policies_js compare ps) @ [10] in
      if utf8_len encoded > MAX_STORE_BYTES then (throw ''Workspace skill policy store exceeds the Desktop size limit'', file)
      else if write_ok then (Inr (), FileText encoded) else (throw ''write failed'', file))"

record policy_env =
  ke_json :: "jstr \<Rightarrow> js option"
  ke_stringify :: "js \<Rightarrow> jstr"
  ke_compare :: "jstr \<Rightarrow> jstr \<Rightarrow> int"

definition policy_set ::
    "policy_env \<Rightarrow> bool \<Rightarrow> int \<Rightarrow> js \<Rightarrow> policy_store \<times> file_read \<Rightarrow> skill_policy res \<times> policy_store \<times> file_read" where
  "policy_set env write_ok now input sf =
     (case policy_initialize (ke_json env) (snd sf) (fst sf) of
        (Inl e, s) \<Rightarrow> (Inl e, s, snd sf)
      | (Inr _, s) \<Rightarrow> (case validate_policy_input input now of
          Inl e \<Rightarrow> (Inl e, s, snd sf)
        | Inr p \<Rightarrow>
            let before = find_policy (kp_policies s) (kp_workspace p); ps = put_policy p (kp_policies s) in
            (case policy_persist (ke_stringify env) (ke_compare env) write_ok ps (snd sf) of
               (Inr _, file) \<Rightarrow> (Inr p, s\<lparr>kp_policies := ps\<rparr>, file)
             | (Inl e, file) \<Rightarrow>
                 (Inl e, s\<lparr>kp_policies := (case before of
                     Some b \<Rightarrow> put_policy b ps | None \<Rightarrow> filter (\<lambda>q. kp_workspace q \<noteq> kp_workspace p) ps)\<rparr>, file))))"

section \<open>Signals\<close>

definition discover_prompt_skill_signals :: "jstr \<Rightarrow> jstr list" where
  "discover_prompt_skill_signals prompt =
     (let normalized = normalize_text prompt in if normalized = [] then [] else sorted_unique (signals_in normalized))"

definition prompt_scoped_skill_signals :: "jstr list \<Rightarrow> jstr list \<Rightarrow> jstr list" where
  "prompt_scoped_skill_signals workspaceSignals promptSignals =
     sorted_unique (filter (\<lambda>x. x \<notin> set (map lit PROMPT_ONLY_SIGNALS) \<or> x \<in> set promptSignals) workspaceSignals @ promptSignals)"

text \<open>\<open>lower\<close> is \<^verbatim>\<open>toLocaleLowerCase\<close>, \<open>blank\<close> is \<^verbatim>\<open>replace(/[^\p{L}\p{N}_+-]+/gu, " ")\<close>.\<close>

definition prompt_needs_automatic_skills :: "(jstr \<Rightarrow> jstr) \<Rightarrow> (jstr \<Rightarrow> jstr) \<Rightarrow> jstr \<Rightarrow> jstr list \<Rightarrow> bool" where
  "prompt_needs_automatic_skills lower blank prompt promptSignals =
     (if promptSignals \<noteq> [] then True
      else let lowered = lower (trim prompt);
               conversational = collapse_spaces (rev (dropWhile (\<lambda>c. c \<in> set (lit ''.!?'')) (rev lowered))) in
        if conversational = [] \<or> conversational \<in> set CONVERSATIONAL_ONLY_PROMPTS then False
        else let tokenized = [32] @ trim (collapse_spaces (blank conversational)) @ [32]
          in list_ex (\<lambda>term. str_includes ([32] @ term @ [32]) tokenized) AUTOMATIC_SKILL_TASK_TERMS)"

record skill_view =
  kv_id :: jstr
  kv_name :: jstr
  kv_description :: "jstr option"

definition skill_text :: "skill_view \<Rightarrow> jstr" where
  "skill_text skill = normalize_text (kv_id skill @ [32] @ kv_name skill @ [32] @ (case kv_description skill of Some d \<Rightarrow> d | None \<Rightarrow> []))"

definition shows_signal :: "jstr \<Rightarrow> jstr \<Rightarrow> bool" where
  "shows_signal haystack signal = list_ex (\<lambda>alias. str_includes (normalize_text alias) haystack) (aliases_of signal)"

definition skill_signal_matches :: "skill_view \<Rightarrow> jstr list \<Rightarrow> jstr list" where
  "skill_signal_matches skill signals = sorted_unique (filter (shows_signal (skill_text skill)) signals)"

definition catalog_id_matches_signals :: "jstr \<Rightarrow> jstr list \<Rightarrow> bool" where
  "catalog_id_matches_signals catalogId signals = list_ex (shows_signal (normalize_text catalogId)) signals"

definition META_SKILLS :: "string list" where
  "META_SKILLS = [''manage-skills'', ''skill-optimizer'', ''skill-scanner'', ''skill-check'', ''skill-creator'']"

definition is_generic_workspace_skill :: "skill_view \<Rightarrow> bool" where
  "is_generic_workspace_skill skill =
     (let t = skill_text skill; tokens = split_on 32 t in
      if list_ex (\<lambda>w. lit w \<in> set tokens) META_SKILLS then True
      else if list_ex (\<lambda>(_, aliases). list_ex (\<lambda>alias. str_includes (normalize_text (lit alias)) t) aliases) SIGNAL_ALIASES then False
      else list_ex (\<lambda>token. token \<noteq> [] \<and> token \<in> set (map lit GENERIC_SKILL_TOKENS)) tokens)"

record skill_decision =
  kd_active :: bool
  kd_generic :: bool
  kd_matched :: "jstr list"
  kd_reason :: jstr

definition workspace_skill_is_active :: "skill_policy \<Rightarrow> js \<Rightarrow> skill_view \<Rightarrow> jstr list \<Rightarrow> skill_decision res" where
  "workspace_skill_is_active policy pluginId skill signals =
     and_then (workspace_skill_key pluginId (JStr (kv_id skill))) (\<lambda>key.
       let generic = is_generic_workspace_skill skill;
           matched = skill_signal_matches skill signals;
           decide = (\<lambda>active reason. Inr \<lparr>kd_active = active, kd_generic = generic, kd_matched = matched, kd_reason = reason\<rparr>) in
       if key \<in> set (kp_exclude policy) then decide False (lit ''Excluded for this workspace'')
       else if key \<in> set (kp_include policy) then decide True (lit ''Explicitly enabled for this workspace'')
       else if kp_discovery policy = ModeManual then decide False (lit ''Automatic discovery is disabled'')
       else if kp_use policy = ModeManual then decide False (lit ''Automatic skill use is disabled'')
       else if generic then decide True (lit ''General repository skill'')
       else if matched \<noteq> [] then decide True (lit ''Matched workspace signal: '' @ join (lit '', '') matched)
       else decide False (lit ''No matching workspace signal''))"

section \<open>Discovery\<close>

datatype entry_kind = EntryLink | EntryDirectory | EntryFile | EntryOther

record scan_env =
  fs_list :: "jstr \<Rightarrow> (jstr \<times> entry_kind) list option"
  fs_text :: "jstr \<Rightarrow> jstr option"
  fs_join :: "jstr \<Rightarrow> jstr \<Rightarrow> jstr"
  fs_compare :: "jstr \<Rightarrow> jstr \<Rightarrow> int"

text \<open>The set of signals is the list of those added; \<open>sc_read\<close> keeps the manifests that were opened.\<close>

record scan =
  sc_queue :: "(jstr \<times> nat) list"
  sc_visited :: nat
  sc_signals :: "jstr list"
  sc_read :: "jstr list"

definition names_file :: "string list \<Rightarrow> jstr \<Rightarrow> bool" where
  "names_file names file = (file \<in> set (map lit names))"

definition file_name_signals :: "jstr \<Rightarrow> jstr list" where
  "file_name_signals file = map (\<lambda>x. lit (snd x)) (filter fst
     [(names_file [''package.json'', ''package-lock.json'', ''pnpm-lock.yaml'', ''yarn.lock''] file, ''node''),
      (names_file [''tsconfig.json''] file \<or> ends_with (lit ''.ts'') file \<or> ends_with (lit ''.tsx'') file, ''typescript''),
      (names_file [''cargo.toml'', ''cargo.lock''] file, ''cargo''),
      (names_file [''pyproject.toml''] file \<or> starts_with (lit ''requirements'') file \<or> ends_with (lit ''.py'') file, ''python''),
      (names_file [''go.mod'', ''go.sum''] file \<or> ends_with (lit ''.go'') file, ''go''),
      (names_file [''pom.xml'', ''build.gradle''] file, ''java''),
      (names_file [''build.gradle.kts''] file \<or> ends_with (lit ''.kt'') file, ''kotlin''),
      (names_file [''dockerfile''] file \<or> starts_with (lit ''dockerfile.'') file \<or> names_file [''compose.yaml'', ''compose.yml''] file
         \<or> starts_with (lit ''docker-compose'') file, ''docker''),
      (ends_with (lit ''.tf'') file, ''terraform''),
      (str_includes (lit ''playwright'') file, ''playwright''),
      (str_includes (lit ''vitest'') file, ''vitest'')])"

definition is_manifest_file :: "jstr \<Rightarrow> bool" where
  "is_manifest_file file =
     (names_file [''package.json'', ''cargo.toml'', ''pyproject.toml''] file \<or> starts_with (lit ''requirements'') file
      \<or> names_file [''go.mod'', ''pom.xml'', ''build.gradle'', ''build.gradle.kts''] file \<or> ends_with (lit ''.tf'') file)"

definition manifest_signals :: "scan_env \<Rightarrow> jstr \<Rightarrow> jstr \<Rightarrow> jstr list" where
  "manifest_signals env path file = (case fs_text env path of
      None \<Rightarrow> []
    | Some raw \<Rightarrow> if utf8_len raw > MAX_MANIFEST_BYTES then [] else signals_in (normalize_text (file @ [32] @ raw)))"

definition scan_file :: "scan_env \<Rightarrow> jstr \<Rightarrow> jstr \<Rightarrow> scan \<Rightarrow> scan" where
  "scan_file env path lower s =
     (let s = s\<lparr>sc_signals := sc_signals s @ file_name_signals lower\<rparr> in
      if is_manifest_file lower then s\<lparr>sc_signals := sc_signals s @ manifest_signals env path lower, sc_read := sc_read s @ [path]\<rparr>
      else s)"

fun scan_entry :: "scan_env \<Rightarrow> jstr \<times> nat \<Rightarrow> scan \<Rightarrow> jstr \<times> entry_kind \<Rightarrow> scan" where
  "scan_entry env (directory, depth) s (name, kind) =
     (if sc_visited s \<ge> MAX_DISCOVERY_ENTRIES then s
      else let s = s\<lparr>sc_visited := sc_visited s + 1\<rparr>; lower = lower_text name; path = fs_join env directory name in
        case kind of
          EntryLink \<Rightarrow> s
        | EntryDirectory \<Rightarrow>
            if depth < MAX_DISCOVERY_DEPTH \<and> lower \<notin> set (map lit SKIPPED_DIRECTORIES)
            then s\<lparr>sc_queue := sc_queue s @ [(path, depth + 1)]\<rparr> else s
        | EntryFile \<Rightarrow> scan_file env path lower s
        | EntryOther \<Rightarrow> s)"

definition scan_directory :: "scan_env \<Rightarrow> jstr \<times> nat \<Rightarrow> scan \<Rightarrow> scan" where
  "scan_directory env current s = (case fs_list env (fst current) of
      None \<Rightarrow> s
    | Some entries \<Rightarrow> foldl (scan_entry env current) s (sort_by (\<lambda>a b. fs_compare env (fst a) (fst b) \<le> 0) entries))"

text \<open>A directory leaves the queue, and each entry that is visited adds at most one to it.\<close>

definition scan_measure :: "scan \<Rightarrow> nat" where
  "scan_measure s = length (sc_queue s) + (MAX_DISCOVERY_ENTRIES - sc_visited s)"

lemma scan_entry_measure: "scan_measure (scan_entry env cur s e) \<le> scan_measure s"
  by (cases cur; cases e) (auto simp: scan_measure_def scan_file_def Let_def split: entry_kind.split)

lemma scan_directory_measure: "scan_measure (scan_directory env cur s) \<le> scan_measure s"
proof -
  have "scan_measure (foldl (scan_entry env cur) s es) \<le> scan_measure s" for es
    by (induction es arbitrary: s) (auto intro: le_trans scan_entry_measure)
  then show ?thesis by (simp add: scan_directory_def split: option.split)
qed

function scan_loop :: "scan_env \<Rightarrow> scan \<Rightarrow> scan" where
  "scan_loop env s = (case sc_queue s of
      [] \<Rightarrow> s
    | current # queue \<Rightarrow>
        if sc_visited s \<ge> MAX_DISCOVERY_ENTRIES then s else scan_loop env (scan_directory env current (s\<lparr>sc_queue := queue\<rparr>)))"
  by pat_completeness auto
termination
proof (relation "measure (\<lambda>(env, s). scan_measure s)")
  fix env current queue and s :: scan
  assume "sc_queue s = current # queue"
  then have "scan_measure (s\<lparr>sc_queue := queue\<rparr>) < scan_measure s" by (simp add: scan_measure_def)
  with scan_directory_measure [of env current "s\<lparr>sc_queue := queue\<rparr>"]
  show "((env, scan_directory env current (s\<lparr>sc_queue := queue\<rparr>)), env, s) \<in> measure (\<lambda>(env, s). scan_measure s)" by simp
qed simp

declare scan_loop.simps [simp del]

definition scan_workspace :: "scan_env \<Rightarrow> jstr \<Rightarrow> scan" where
  "scan_workspace env base = scan_loop env \<lparr>sc_queue = [(base, 0)], sc_visited = 0, sc_signals = [], sc_read = []\<rparr>"

definition implied_signals :: "jstr list \<Rightarrow> jstr list" where
  "implied_signals signals =
     (let s1 = signals @ (if lit ''cargo'' \<in> set signals then [lit ''rust''] else []) in
      s1 @ (if lit ''react'' \<in> set s1 \<or> lit ''next'' \<in> set s1 \<or> lit ''vite'' \<in> set s1 \<or> lit ''electron'' \<in> set s1
            then [lit ''node''] else []))"

text \<open>\<open>base\<close> is \<^verbatim>\<open>path.resolve(root)\<close>.\<close>

definition discover_workspace_skill_signals :: "scan_env \<Rightarrow> jstr \<Rightarrow> jstr list" where
  "discover_workspace_skill_signals env base = sorted_unique (implied_signals (sc_signals (scan_workspace env base)))"

section \<open>Properties of the discovery\<close>

text \<open>A path below the base over at most \<open>n\<close> directories, none of them skipped.\<close>

definition below :: "scan_env \<Rightarrow> jstr \<Rightarrow> nat \<Rightarrow> jstr \<Rightarrow> bool" where
  "below env base n path \<longleftrightarrow> (\<exists>ds. path = foldl (fs_join env) base ds \<and> length ds \<le> n
     \<and> list_all (\<lambda>d. lower_text d \<notin> set (map lit SKIPPED_DIRECTORIES)) ds)"

definition scan_ok :: "scan_env \<Rightarrow> jstr \<Rightarrow> scan \<Rightarrow> bool" where
  "scan_ok env base s \<longleftrightarrow> sc_visited s \<le> MAX_DISCOVERY_ENTRIES
     \<and> list_all (\<lambda>(d, n). n \<le> MAX_DISCOVERY_DEPTH \<and> below env base n d) (sc_queue s)
     \<and> list_all (\<lambda>p. \<exists>d f. p = fs_join env d f \<and> below env base MAX_DISCOVERY_DEPTH d \<and> is_manifest_file (lower_text f)) (sc_read s)
     \<and> length (sc_read s) \<le> sc_visited s
     \<and> set (sc_signals s) \<subseteq> lit ` fst ` set SIGNAL_ALIASES"

lemma below_step:
  assumes "below env base n d" "lower_text name \<notin> set (map lit SKIPPED_DIRECTORIES)"
  shows "below env base (Suc n) (fs_join env d name)"
proof -
  from assms(1) obtain ds where "d = foldl (fs_join env) base ds" "length ds \<le> n"
      "list_all (\<lambda>d. lower_text d \<notin> set (map lit SKIPPED_DIRECTORIES)) ds"
    by (auto simp: below_def)
  with assms(2) show ?thesis unfolding below_def by (intro exI [of _ "ds @ [name]"]) simp
qed

lemma below_mono: "below env base n d \<Longrightarrow> n \<le> m \<Longrightarrow> below env base m d"
  by (auto simp: below_def)

lemma signals_in_known: "set (signals_in t) \<subseteq> lit ` fst ` set SIGNAL_ALIASES"
  by (force simp: signals_in_def image_iff)

lemma file_signals_known: "set (file_name_signals f) \<subseteq> lit ` fst ` set SIGNAL_ALIASES"
proof -
  have sub: "set (map (\<lambda>x. lit (snd x)) (filter fst xs)) \<subseteq> lit ` set (map snd xs)" for xs :: "(bool \<times> string) list"
    by auto
  have "list_all (\<lambda>x. x \<in> set (map fst SIGNAL_ALIASES))
      [''node'', ''typescript'', ''cargo'', ''python'', ''go'', ''java'', ''kotlin'', ''docker'', ''terraform'', ''playwright'', ''vitest'']"
    by code_simp
  then have "lit ` set [''node'', ''typescript'', ''cargo'', ''python'', ''go'', ''java'', ''kotlin'', ''docker'', ''terraform'', ''playwright'', ''vitest'']
      \<subseteq> lit ` set (map fst SIGNAL_ALIASES)"
    unfolding list_all_iff by blast
  then show ?thesis
    unfolding file_name_signals_def by (intro order_trans [OF sub]) (simp only: list.map snd_conv set_map)
qed

lemma scan_file_ok:
  assumes "scan_ok env base s" "below env base MAX_DISCOVERY_DEPTH d" "length (sc_read s) < sc_visited s"
  shows "scan_ok env base (scan_file env (fs_join env d name) (lower_text name) s)"
proof -
  have "set (manifest_signals env path f) \<subseteq> lit ` fst ` set SIGNAL_ALIASES" for path f
    using signals_in_known by (auto simp: manifest_signals_def split: option.split)
  with assms file_signals_known [of "lower_text name"] show ?thesis
    by (auto simp: scan_ok_def scan_file_def Let_def)
qed

lemma scan_entry_ok:
  assumes s: "scan_ok env base s" and d: "below env base n d" "n \<le> MAX_DISCOVERY_DEPTH"
  shows "scan_ok env base (scan_entry env (d, n) s (name, kind))"
proof (cases "sc_visited s \<ge> MAX_DISCOVERY_ENTRIES")
  case True
  with s show ?thesis by simp
next
  case False
  let ?s = "s\<lparr>sc_visited := sc_visited s + 1\<rparr>"
  have s1: "scan_ok env base ?s" "length (sc_read ?s) < sc_visited ?s" using s False by (auto simp: scan_ok_def)
  show ?thesis
  proof (cases kind)
    case EntryDirectory
    show ?thesis
    proof (cases "n < MAX_DISCOVERY_DEPTH \<and> lower_text name \<notin> set (map lit SKIPPED_DIRECTORIES)")
      case True
      then have "below env base (n + 1) (fs_join env d name)" using below_step [OF d(1)] by simp
      with True False EntryDirectory s1(1) show ?thesis by (simp add: scan_ok_def Let_def del: set_map)
    next
      case no: False
      from no have "scan_entry env (d, n) s (name, kind) = ?s" using False EntryDirectory by (simp add: Let_def del: set_map)
      with s1(1) show ?thesis by simp
    qed
  next
    case EntryFile
    have "scan_entry env (d, n) s (name, kind) = scan_file env (fs_join env d name) (lower_text name) ?s"
      using False EntryFile by (simp add: Let_def)
    with scan_file_ok [OF s1(1) below_mono [OF d] s1(2)] show ?thesis by simp
  qed (use False s1(1) in \<open>simp_all add: Let_def\<close>)
qed

lemma scan_directory_ok:
  assumes "scan_ok env base s" "below env base n d" "n \<le> MAX_DISCOVERY_DEPTH"
  shows "scan_ok env base (scan_directory env (d, n) s)"
proof -
  have "scan_ok env base (foldl (scan_entry env (d, n)) s es)" for es
    using assms(1)
  proof (induction es arbitrary: s)
    case (Cons e es)
    then show ?case using scan_entry_ok [OF _ assms(2,3), of s "fst e" "snd e"] by (simp del: scan_entry.simps)
  qed simp
  with assms(1) show ?thesis by (simp add: scan_directory_def split: option.split)
qed

lemma scan_loop_ok: "scan_ok env base s \<Longrightarrow> scan_ok env base (scan_loop env s)"
proof (induction env s rule: scan_loop.induct)
  case (1 env s)
  show ?case
  proof (cases "sc_queue s")
    case Nil
    with 1 show ?thesis by (simp add: scan_loop.simps [of env s])
  next
    case (Cons current queue)
    obtain d n where c: "current = (d, n)" by (cases current)
    let ?s = "s\<lparr>sc_queue := queue\<rparr>"
    have "scan_ok env base ?s" "n \<le> MAX_DISCOVERY_DEPTH" "below env base n d"
      using 1(2) Cons c by (auto simp: scan_ok_def)
    then have "scan_ok env base (scan_directory env current ?s)" using scan_directory_ok c by simp
    with 1 Cons show ?thesis by (auto simp: scan_loop.simps [of env s])
  qed
qed


section \<open>Properties of the decision\<close>

text \<open>
  What makes a skill active. A skill with a valid key is active exactly if the policy of the workspace
  does not exclude it and either includes it or leaves both discovery and use automatic, and the
  skill is general or matches a signal; nothing else overrides an exclusion, and nothing is
  reported as a match that is not among the signals.
\<close>

theorem skill_activation_decision:
  "workspace_skill_is_active policy pluginId skill signals = Inr d \<Longrightarrow>
     \<exists>key. workspace_skill_key pluginId (JStr (kv_id skill)) = Inr key
       \<and> kd_active d = (key \<notin> set (kp_exclude policy)
           \<and> (key \<in> set (kp_include policy)
              \<or> kp_discovery policy = ModeAutomatic \<and> kp_use policy = ModeAutomatic \<and> (kd_generic d \<or> kd_matched d \<noteq> [])))
       \<and> kd_generic d = is_generic_workspace_skill skill \<and> set (kd_matched d) \<subseteq> set signals \<and> sorted_wrt code_unit_le (kd_matched d)"
proof -
  assume r: "workspace_skill_is_active policy pluginId skill signals = Inr d"
  then obtain key where key: "workspace_skill_key pluginId (JStr (kv_id skill)) = Inr key"
    by (cases "workspace_skill_key pluginId (JStr (kv_id skill))") (auto simp: workspace_skill_is_active_def)
  define g where "g = is_generic_workspace_skill skill"
  define m where "m = skill_signal_matches skill signals"
  have e: "Inr d = workspace_skill_is_active policy pluginId skill signals" using r by simp
  note e = e [unfolded workspace_skill_is_active_def key and_then.simps Let_def, folded g_def m_def]
  have "kd_generic d = g \<and> kd_matched d = m \<and> (kd_active d \<longleftrightarrow> key \<notin> set (kp_exclude policy) \<and> (key \<in> set (kp_include policy)
      \<or> kp_discovery policy = ModeAutomatic \<and> kp_use policy = ModeAutomatic \<and> (g \<or> m \<noteq> [])))"
  proof (cases "key \<in> set (kp_exclude policy) \<or> key \<in> set (kp_include policy)")
    case True
    with e show ?thesis by (cases "key \<in> set (kp_exclude policy)") simp_all
  next
    case False
    show ?thesis
    proof (cases "kp_discovery policy = ModeManual \<or> kp_use policy = ModeManual")
      case True
      with e False show ?thesis by (cases "kp_discovery policy = ModeManual") simp_all
    next
      case auto: False
      then have "kp_discovery policy = ModeAutomatic" "kp_use policy = ModeAutomatic"
        by (metis skill_mode.exhaust)+
      with e False show ?thesis by (cases g; cases "m = []") simp_all
    qed
  qed
  moreover have "set m \<subseteq> set signals" "sorted_wrt code_unit_le m" by (auto simp: m_def skill_signal_matches_def)
  ultimately show ?thesis using key g_def by auto
qed

section \<open>Properties of the store\<close>

lemma sorted_unique_id: "distinct xs \<Longrightarrow> sorted_wrt code_unit_le xs \<Longrightarrow> sorted_unique xs = xs"
  by (simp add: sorted_unique_def unique_distinct_id sort_by_sorted)

lemma skill_identifier_Inr: "skill_identifier v label = Inr s \<Longrightarrow> v = JStr s \<and> (\<forall>l. skill_identifier (JStr s) l = Inr s)"
  by (auto simp: skill_identifier_def split: js.splits list.splits if_splits)

lemma skill_key_Inr:
  assumes "validate_skill_key label v = Inr k" shows "v = JStr k \<and> (\<forall>l. validate_skill_key l (JStr k) = Inr k)"
proof -
  from assms obtain t where v: "v = JStr t" by (cases v) (auto simp: validate_skill_key_def)
  with assms obtain p q where pq: "split_on 47 t = [p, q]" "workspace_skill_key (JStr p) (JStr q) = Inr k"
    by (auto simp: validate_skill_key_def split: list.splits)
  from pq(2) have "k = p @ [47] @ q" by (auto simp: workspace_skill_key_def dest!: skill_identifier_Inr)
  also have "\<dots> = t" using join_split_on [of 47 t] pq(1) by simp
  finally show ?thesis using v pq by (simp add: validate_skill_key_def)
qed

definition overrides_ok :: "jstr list \<Rightarrow> bool" where
  "overrides_ok ks \<longleftrightarrow> length ks \<le> MAX_SKILL_OVERRIDES \<and> distinct ks \<and> sorted_wrt code_unit_le ks
     \<and> list_all (\<lambda>k. \<forall>l. validate_skill_key l (JStr k) = Inr k) ks"

definition policy_ok :: "skill_policy \<Rightarrow> bool" where
  "policy_ok p \<longleftrightarrow> (\<forall>l. skill_identifier (JStr (kp_workspace p)) l = Inr (kp_workspace p))
     \<and> overrides_ok (kp_include p) \<and> overrides_ok (kp_exclude p) \<and> set (kp_include p) \<inter> set (kp_exclude p) = {}
     \<and> 0 \<le> kp_updated_at p \<and> kp_updated_at p \<le> max_safe"

definition policies_ok :: "skill_policy list \<Rightarrow> bool" where
  "policies_ok ps \<longleftrightarrow> distinct (map kp_workspace ps) \<and> list_all policy_ok ps"

lemma overrides_valid: "validate_overrides v label = Inr ks \<Longrightarrow> overrides_ok ks"
proof -
  assume "validate_overrides v label = Inr ks"
  then obtain items where v: "v = JArr items" and len: "length items \<le> MAX_SKILL_OVERRIDES"
    and r: "and_then (map_res (validate_skill_key label) items) (\<lambda>keys. Inr (sorted_unique keys)) = Inr ks"
    by (cases v) (simp_all add: validate_overrides_def split: if_splits)
  from r obtain keys where "map_res (validate_skill_key label) items = Inr keys" "ks = sorted_unique keys"
    by (cases "map_res (validate_skill_key label) items") simp_all
  note k = len this
  have "length ks \<le> length keys" using length_unique_le [of keys] by (simp add: k(3) sorted_unique_def)
  moreover have "\<forall>l. validate_skill_key l (JStr x) = Inr x" if "x \<in> set ks" for x
    using map_res_in [OF k(2), of x] that k(3) skill_key_Inr by auto
  ultimately show ?thesis using k map_res_length [OF k(2)] by (auto simp: overrides_ok_def list_all_iff)
qed

lemma policy_valid: "validate_policy_input v t = Inr p \<Longrightarrow> 0 \<le> t \<Longrightarrow> t \<le> max_safe \<Longrightarrow> policy_ok p"
  by (auto simp: validate_policy_input_def policy_ok_def list_ex_iff dest: skill_identifier_Inr overrides_valid split: if_splits)

lemma stored_policy_valid: "validate_stored_policy v = Inr p \<Longrightarrow> policy_ok p"
  by (auto simp: validate_stored_policy_def safe_int_Some split: option.splits if_splits intro!: policy_valid)

lemma overrides_read_back: "overrides_ok ks \<Longrightarrow> validate_overrides (JArr (map JStr ks)) label = Inr ks"
proof -
  assume ok: "overrides_ok ks"
  have "map_res (validate_skill_key label) (map JStr ks) = Inr ks"
    using ok unfolding overrides_ok_def by (induction ks) simp_all
  with ok show ?thesis by (simp add: validate_overrides_def overrides_ok_def sorted_unique_id)
qed

lemma policy_js_members:
  "is_record (policy_js p)" "jget (policy_js p) ''workspaceId'' = JStr (kp_workspace p)"
  "jget (policy_js p) ''discovery'' = jtext (mode_name (kp_discovery p))" "jget (policy_js p) ''use'' = jtext (mode_name (kp_use p))"
  "jget (policy_js p) ''install'' = jtext (case kp_install p of InstallManual \<Rightarrow> ''manual'' | InstallSkillsOnly \<Rightarrow> ''skills-only'')"
  "jget (policy_js p) ''include'' = JArr (map JStr (kp_include p))" "jget (policy_js p) ''exclude'' = JArr (map JStr (kp_exclude p))"
  "jget (policy_js p) ''updatedAt'' = jint (kp_updated_at p)"
  by (simp_all add: policy_js_def jget_def)

lemma policy_read_back: "policy_ok p \<Longrightarrow> validate_stored_policy (policy_js p) = Inr p"
proof -
  assume ok: "policy_ok p"
  have mode: "member_of skill_modes (jtext (mode_name m)) e = Inr m" for m e
    by (cases m) (simp_all add: member_of_def skill_modes_def mode_name_def named_def)
  have inst: "member_of install_modes (jtext (case i of InstallManual \<Rightarrow> ''manual'' | InstallSkillsOnly \<Rightarrow> ''skills-only'')) e = Inr i" for i e
    by (cases i) (simp_all add: member_of_def install_modes_def named_def)
  have "safe_int (jint (kp_updated_at p)) = Some (kp_updated_at p)" using ok by (simp add: safe_int_Some policy_ok_def)
  moreover have "\<not> list_ex (\<lambda>key. key \<in> set (kp_exclude p)) (kp_include p)" using ok by (auto simp: policy_ok_def list_ex_iff)
  ultimately show ?thesis
    using ok by (simp add: validate_stored_policy_def validate_policy_input_def policy_js_members mode inst policy_ok_def overrides_read_back)
qed

lemma find_policy_None: "find_policy ps w = None \<longleftrightarrow> w \<notin> kp_workspace ` set ps"
  by (auto simp: find_policy_def find_None_iff)

lemma find_policy_in: "distinct (map kp_workspace ps) \<Longrightarrow> find_policy ps w = Some p \<longleftrightarrow> p \<in> set ps \<and> kp_workspace p = w"
  by (induction ps) (auto simp: find_policy_def)

lemma put_policy_keys:
  "map kp_workspace (put_policy p ps) = (if find_policy ps (kp_workspace p) = None then map kp_workspace ps @ [kp_workspace p] else map kp_workspace ps)"
  by (auto simp: put_policy_def)

lemma put_policies_ok: "policies_ok ps \<Longrightarrow> policy_ok p \<Longrightarrow> policies_ok (put_policy p ps)"
  unfolding policies_ok_def put_policy_keys by (auto simp: put_policy_def list_all_iff find_policy_None)

interpretation skill_policies: keyed_store "\<lambda>ps. ps" kp_workspace put_policy
proof unfold_locales
  fix v :: skill_policy and s
  show "v \<in> set (put_policy v s)" by (fastforce simp: put_policy_def find_policy_None)
next
  fix x v :: skill_policy and s
  assume "x \<in> set (put_policy v s)"
  then show "x = v \<or> x \<in> set s \<and> kp_workspace x \<noteq> kp_workspace v"
    unfolding put_policy_def find_policy_None
    by (cases "kp_workspace v \<in> kp_workspace ` set s") (auto split: if_splits simp: rev_image_eqI [of x])
next
  fix s :: "skill_policy list" and v
  assume "distinct (map kp_workspace s)"
  then show "distinct (map kp_workspace (put_policy v s))" unfolding put_policy_keys by (auto simp: find_policy_None)
qed

lemma load_policies_ok: "policies_ok ps \<Longrightarrow> policies_ok (snd (load_policies ps vs))"
  by (induction ps vs rule: load_policies.induct) (auto split: sum.splits intro: put_policies_ok stored_policy_valid)

lemma policy_initialize_ok: "policies_ok (kp_policies s) \<Longrightarrow> policies_ok (kp_policies (snd (policy_initialize json file s)))"
  using load_policies_ok [of "kp_policies s"]
  by (auto simp: policy_initialize_def split: file_read.splits option.splits js.splits prod.splits sum.splits) (metis snd_conv)+

lemma rollback:
  assumes "distinct (map kp_workspace ps)"
  shows "(case find_policy ps (kp_workspace p) of Some b \<Rightarrow> put_policy b (put_policy p ps)
    | None \<Rightarrow> filter (\<lambda>q. kp_workspace q \<noteq> kp_workspace p) (put_policy p ps)) = ps"
proof (cases "find_policy ps (kp_workspace p)")
  case None
  then have "\<forall>q \<in> set ps. kp_workspace q \<noteq> kp_workspace p" unfolding find_policy_None by (metis imageI)
  with None show ?thesis by (simp add: put_policy_def filter_id_conv)
next
  case (Some b)
  then have b: "kp_workspace b = kp_workspace p" "b \<in> set ps" using find_policy_in [OF assms] by auto
  have same: "q = b" if "q \<in> set ps" "kp_workspace q = kp_workspace b" for q
    using assms b(2) that by (auto simp: distinct_map inj_on_def)
  have "find_policy (put_policy p ps) (kp_workspace b) \<noteq> None"
    unfolding find_policy_None b(1) using imageI [OF skill_policies.put_mem [of p ps]] by blast
  then have "put_policy b (put_policy p ps) = ps"
    unfolding put_policy_def [of b] using Some b(1) same by (simp add: put_policy_def map_idI)
  with Some show ?thesis by simp
qed


definition demo_policy_env :: policy_env where
  "demo_policy_env = \<lparr>ke_json = (\<lambda>raw. None), ke_stringify = (\<lambda>v. lit ''{}''), ke_compare = (\<lambda>a b. 0)\<rparr>"

definition demo_policy_input :: js where
  "demo_policy_input = JObj [(lit ''workspaceId'', jtext ''ws1''), (lit ''discovery'', jtext ''automatic''), (lit ''use'', jtext ''manual''),
     (lit ''install'', jtext ''manual''), (lit ''include'', JArr [jtext ''p/b'', jtext ''p/a'']), (lit ''exclude'', JArr [])]"

definition demo_policy :: skill_policy where
  "demo_policy = \<lparr>kp_workspace = lit ''ws1'', kp_discovery = ModeAutomatic, kp_use = ModeManual, kp_install = InstallManual,
     kp_include = [lit ''p/a'', lit ''p/b''], kp_exclude = [], kp_updated_at = 7\<rparr>"

lemma demo_policy_input_valid: "validate_policy_input demo_policy_input 7 = Inr demo_policy"
  by (simp add: validate_policy_input_def demo_policy_input_def demo_policy_def jget_def lit_def js_eval skill_identifier_def
      member_of_def named_def skill_modes_def install_modes_def validate_overrides_def MAX_SKILL_OVERRIDES_def
      validate_skill_key_def workspace_skill_key_def sorted_unique_def)

lemma demo_policy_set:
  "ke_stringify env = (\<lambda>v. lit ''{}'') \<Longrightarrow> policy_set env True 7 demo_policy_input (\<lparr>kp_policies = [], kp_initialized = True\<rparr>, FileMissing)
    = (Inr demo_policy, \<lparr>kp_policies = [demo_policy], kp_initialized = True\<rparr>, FileText (lit ''{}'' @ [10]))"
proof -
  have "utf8_len (lit ''{}'' @ [10]) = 3" by (simp add: lit_def js_eval is_high_def unit_bytes_def)
  then show "ke_stringify env = (\<lambda>v. lit ''{}'') \<Longrightarrow> ?thesis"
    by (simp add: policy_set_def policy_initialize_def demo_policy_input_valid put_policy_def find_policy_def policy_persist_def
        MAX_STORE_BYTES_def Let_def)
qed


definition demo_skill :: skill_view where
  "demo_skill = \<lparr>kv_id = lit ''react-forms'', kv_name = lit ''Forms'', kv_description = Some (lit ''Next.js too'')\<rparr>"

lemma demo_skill_matches: "skill_signal_matches demo_skill [lit ''vue'', lit ''react''] = [lit ''react'']"
proof -
  note eval = lit_def js_eval normalize_text_def lower_text_def lower_units_def signal_char_def trim_def
  have t: "skill_text demo_skill = lit ''react-forms forms next.js too''" by (simp add: skill_text_def demo_skill_def eval)
  have a: "aliases_of (lit ''vue'') = [lit ''vue'', lit ''nuxt'']" "aliases_of (lit ''react'') = [lit ''react'', lit ''react-dom'']"
    by (simp_all add: aliases_of_def named_def SIGNAL_ALIASES_def)
  have n: "normalize_text (lit ''vue'') = lit ''vue''" "normalize_text (lit ''nuxt'') = lit ''nuxt''" "normalize_text (lit ''react'') = lit ''react''"
    by (simp_all add: eval)
  have "\<not> str_includes (lit ''vue'') (lit ''react-forms forms next.js too'')" "\<not> str_includes (lit ''nuxt'') (lit ''react-forms forms next.js too'')"
    "str_includes (lit ''react'') (lit ''react-forms forms next.js too'')" by code_simp+
  then show ?thesis by (simp add: skill_signal_matches_def shows_signal_def t a n sorted_unique_def)
qed

lemma skill_activation_decision_witness:
  "\<exists>d. workspace_skill_is_active (demo_policy\<lparr>kp_use := ModeAutomatic\<rparr>) (jtext ''p'') demo_skill [lit ''vue'', lit ''react''] = Inr d
     \<and> kd_active d \<and> kd_matched d = [lit ''react'']"
proof -
  have key: "workspace_skill_key (jtext ''p'') (JStr (kv_id demo_skill)) = Inr (lit ''p/react-forms'')" by code_simp
  have "\<exists>d. workspace_skill_is_active (demo_policy\<lparr>kp_use := ModeAutomatic\<rparr>) (jtext ''p'') demo_skill [lit ''vue'', lit ''react''] = Inr d
      \<and> kd_matched d = [lit ''react'']"
    by (cases "is_generic_workspace_skill demo_skill") (simp_all add: workspace_skill_is_active_def key demo_skill_matches demo_policy_def Let_def)
  then obtain d where d: "workspace_skill_is_active (demo_policy\<lparr>kp_use := ModeAutomatic\<rparr>) (jtext ''p'') demo_skill [lit ''vue'', lit ''react''] = Inr d"
    "kd_matched d = [lit ''react'']" by blast
  from skill_activation_decision [OF d(1)] d show ?thesis by (auto simp: key demo_policy_def)
qed

section \<open>Reading the store back\<close>

lemma load_stored_policies: "policies_ok (ps @ qs) \<Longrightarrow> load_policies ps (map policy_js qs) = (Inr (), ps @ qs)"
proof (induction qs arbitrary: ps)
  case (Cons q qs)
  have q: "policy_ok q" "find_policy ps (kp_workspace q) = None" "policies_ok ((ps @ [q]) @ qs)"
    using Cons.prems unfolding policies_ok_def find_policy_None by auto
  show ?case using Cons.IH [OF q(3)] by (simp add: policy_read_back q put_policy_def)
qed simp

lemma find_policy_same:
  assumes "distinct (map kp_workspace ps)" "distinct (map kp_workspace qs)" "set ps = set qs"
  shows "find_policy ps w = find_policy qs w"
proof (cases "find_policy qs w")
  case None
  then have "find_policy ps w = None" using assms(3) unfolding find_policy_None by simp
  with None show ?thesis by simp
next
  case (Some p)
  then have "p \<in> set ps \<and> kp_workspace p = w" using assms by (simp add: find_policy_in)
  then have "find_policy ps w = Some p" using assms(1) by (simp add: find_policy_in)
  with Some show ?thesis by simp
qed

text \<open>
  C20: What a file holds after a successful call is what a new process reads: every workspace has the policy
  it had. This needs at most 256 workspaces; the operation itself does not check that, and once
  a 257th workspace is stored no process can read the file again.
\<close>

theorem stored_policies_reload:
  assumes "policies_ok (kp_policies s)" "kp_initialized s" "0 \<le> now" "now \<le> max_safe"
    and set: "policy_set env write_ok now input (s, file) = (Inr p, s', file')"
    and json: "ke_json env (ke_stringify env (policies_js (ke_compare env) (kp_policies s')) @ [10]) = Some (policies_js (ke_compare env) (kp_policies s'))"
  shows "case policy_initialize (ke_json env) file' new_policy_store of
      (Inr _, t) \<Rightarrow> length (kp_policies s') \<le> 256 \<and> kp_initialized t \<and> (\<forall>w. find_policy (kp_policies t) w = find_policy (kp_policies s') w)
    | (Inl e, t) \<Rightarrow> length (kp_policies s') > 256 \<and> e = lit ''Workspace skill policy store exceeds the workspace limit''"
proof -
  obtain q where q: "validate_policy_input input now = Inr q"
    using set by (cases "validate_policy_input input now") (simp_all add: policy_set_def policy_initialize_def assms(2))
  define ps where "ps = put_policy q (kp_policies s)"
  obtain pr f where pe: "policy_persist (ke_stringify env) (ke_compare env) write_ok ps file = (pr, f)" by (metis prod.exhaust)
  have "kp_policies s' = ps \<and> pr = Inr () \<and> file' = f"
    using set q pe by (cases pr; auto simp: policy_set_def policy_initialize_def assms(2) ps_def [symmetric] Let_def)
  then have r: "kp_policies s' = ps" "pr = Inr ()" "file' = f" by simp_all
  define v where "v = policies_js (ke_compare env) ps"
  have f: "f = FileText (ke_stringify env v @ [10])" "utf8_len (ke_stringify env v @ [10]) \<le> MAX_STORE_BYTES"
    using pe r(2) by (auto simp: policy_persist_def v_def Let_def split: if_splits)
  have js: "ke_json env (ke_stringify env v @ [10]) = Some v" using json unfolding r v_def .
  define qs where "qs = sort_by (\<lambda>a b. ke_compare env (kp_workspace a) (kp_workspace b) \<le> 0) ps"
  have ok: "policies_ok ps" using put_policies_ok assms(1) policy_valid [OF q assms(3,4)] by (simp add: ps_def)
  then have "policies_ok qs" by (simp add: policies_ok_def qs_def list_all_iff)
  then have load: "load_policies [] (map policy_js qs) = (Inr (), qs)" using load_stored_policies [of "[]"] by simp
  have mem: "is_record v" "jget v ''schemaVersion'' = jint 1" "jget v ''policies'' = JArr (map policy_js qs)"
    by (simp_all add: v_def policies_js_def qs_def jget_def)
  have len: "length qs = length ps" by (simp add: qs_def)
  have same: "find_policy qs w = find_policy ps w" for w
    using ok \<open>policies_ok qs\<close> by (intro find_policy_same) (auto simp: policies_ok_def qs_def)
  have "policy_initialize (ke_json env) file' new_policy_store =
      (if length ps > 256 then (throw ''Workspace skill policy store exceeds the workspace limit'', new_policy_store)
       else (Inr (), new_policy_store\<lparr>kp_policies := qs, kp_initialized := True\<rparr>))"
    using f(2) load by (simp add: policy_initialize_def r(3) f(1) js mem len MAX_POLICIES_def new_policy_store_def)
  then show ?thesis using same by (simp add: r throw_def)
qed

lemma stored_policies_reload_witness:
  "\<exists>t. policy_initialize (\<lambda>raw. Some (policies_js (\<lambda>a b. 0) [demo_policy])) (FileText (lit ''{}'' @ [10])) new_policy_store = (Inr (), t)
     \<and> find_policy (kp_policies t) (lit ''ws1'') = Some demo_policy"
proof -
  define env where "env = demo_policy_env\<lparr>ke_json := (\<lambda>raw. Some (policies_js (\<lambda>a b. 0) [demo_policy]))\<rparr>"
  define s where "s = \<lparr>kp_policies = [], kp_initialized = True\<rparr>"
  have "policy_set env True 7 demo_policy_input (s, FileMissing) = (Inr demo_policy, s\<lparr>kp_policies := [demo_policy]\<rparr>, FileText (lit ''{}'' @ [10]))"
    unfolding s_def using demo_policy_set [of env] by (simp add: env_def demo_policy_env_def)
  note r = stored_policies_reload [OF _ _ _ _ this]
  have e: "ke_json env = (\<lambda>raw. Some (policies_js (\<lambda>a b. 0) [demo_policy]))" "ke_compare env = (\<lambda>a b. 0)"
    by (simp_all add: env_def demo_policy_env_def)
  show ?thesis
    using r unfolding e
    by (cases "policy_initialize (\<lambda>raw. Some (policies_js (\<lambda>a b. 0) [demo_policy])) (FileText (lit ''{}'' @ [10])) new_policy_store")
      (simp add: demo_policy_def s_def policies_ok_def max_safe_def find_policy_def split: sum.splits)
qed

end
