(* ===== verification/Spec2Isabelle.thy ===== *)
theory Spec2Isabelle
  imports Agent_Orchestrator Agent_Graph Agent_Worker_Family Ipc_Policy Runtime_Pool Json_Rpc Review_Loop
    Update Browser_Commands Review_Turn Task_Lifecycle Concurrent_Map
    Activity_Files Codex_Progress Mcp_Update Main_Events Skill_Policy
begin

text \<open>
  The SourceNerve desktop host: its core logic, from the gate of the window to the
  requests it sends to the Harness core. All paths below are under
  \<^verbatim>\<open>src/desktop/src/main/\<close> unless another directory is named.

  \<^bold>\<open>The program.\<close> The window calls the main process through named channels. Every call passes one
  gate (\<^verbatim>\<open>ipc-policy.ts\<close>), which asks the policy of the channel's family whether the arguments are
  acceptable. The managers then do the work: the task manager (\<^verbatim>\<open>task-manager.ts\<close>) talks to the Harness
  core over HTTP, runs turns of the Codex agent through a pool of app-server processes
  (\<^verbatim>\<open>codex-runtime-pool.ts\<close> over \<^verbatim>\<open>codex-jsonrpc.ts\<close>), or lets ChatGPT in a browser work
  (\<^verbatim>\<open>chatgpt-review-loop.ts\<close>); the agent orchestrator (\<^verbatim>\<open>agent-orchestrator.ts\<close>) runs a bounded loop of
  model decisions and tool calls. What the runtimes report comes back as events: they are sanitized
  and logged (\<^verbatim>\<open>runtime-log-store.ts\<close>), recorded in the ledger of the conversation
  (\<^verbatim>\<open>conversation-activity-store.ts\<close>) and sent to the window (\<^verbatim>\<open>main.ts\<close>).

  \<^bold>\<open>Theories and the code they model.\<close>
  \<^item> Foundations. \<open>Js_Prelude\<close>: JavaScript values, numbers, texts as lists of UTF-16 code units, the
    UTF-8 length, validators, sorting and the collection of evaluation rules. \<open>Contracts\<close>: the locales
    \<open>machine\<close>, \<open>simulation\<close>, \<open>keyed_store\<close>, \<open>bounded_store\<close> and \<open>ipc_policy\<close>, each interpreted on definitions of the model
    in the theories of their components. \<open>Io_Trace\<close>: computations over an environment and the fields of an object, and
    the log of the environment calls; \<open>Io_Hoare\<close>: a Hoare calculus over that log. \<open>Utf8_Text\<close>: cutting a text at a number of bytes. \<open>Js_Regex\<close>: a
    backtracking matcher for the patterns of the sanitizers.
  \<^item> Agent. \<open>Agent_Session\<close> (\<^verbatim>\<open>agent-session.ts\<close>), \<open>Agent_Loop\<close> (\<^verbatim>\<open>agent-loop.ts\<close>), \<open>Agent_Graph\<close>
    (\<^verbatim>\<open>agent-graph.ts\<close>), \<open>Agent_Worker_Family\<close> (\<^verbatim>\<open>agent-worker-family.ts\<close>), \<open>Agent_Records\<close>
    (\<^verbatim>\<open>agent-parser.ts\<close>, \<^verbatim>\<open>agent-memory.ts\<close>, \<^verbatim>\<open>agent-eval.ts\<close>, \<^verbatim>\<open>agent-manager.ts\<close>) and
    \<open>Agent_Orchestrator\<close> (\<^verbatim>\<open>agent-orchestrator.ts\<close>).
  \<^item> Gate. \<open>Task_Policy\<close> (\<^verbatim>\<open>task-policy.ts\<close>, \<^verbatim>\<open>task-registry.ts\<close>), \<open>Harness_Policy\<close>
    (\<^verbatim>\<open>harness-policy.ts\<close>), \<open>Host_Policies\<close> (four small policies), \<open>Mcp_Extension_Policy\<close>
    (\<^verbatim>\<open>mcp-extension-policy.ts\<close>), \<open>Desktop_Preferences\<close> (\<^verbatim>\<open>desktop-preferences.ts\<close>) and \<open>Ipc_Policy\<close>
    (\<^verbatim>\<open>ipc-policy.ts\<close>), the dispatcher over all of them.
  \<^item> Tasks. \<open>Task_Parser\<close> and \<open>Harness_Parser\<close> (\<^verbatim>\<open>task-parser.ts\<close>, \<^verbatim>\<open>harness-parser.ts\<close>,
    \<^verbatim>\<open>harness-approval-parser.ts\<close>), and \<^verbatim>\<open>task-manager.ts\<close> in six parts: \<open>Manager_Base\<close> (state,
    requests), \<open>Verified_Turn\<close> (a supervised Codex turn with recovery and verification),
    \<open>Task_Lifecycle\<close> (begin to push), \<open>Worker_Turn\<close>, \<open>Review_Turn\<close> (the ChatGPT agent) and
    \<open>Concurrent_Map\<close> (the list of tasks).
  \<^item> Runtimes. \<open>Thread_Store\<close> (\<^verbatim>\<open>codex-thread-store.ts\<close>), \<open>Runtime_Pool\<close> (\<^verbatim>\<open>codex-runtime-pool.ts\<close>),
    \<open>Json_Rpc\<close> (\<^verbatim>\<open>codex-jsonrpc.ts\<close>), \<open>Review_Loop\<close> (\<^verbatim>\<open>chatgpt-review-loop.ts\<close>) and
    \<open>Browser_Commands\<close> (\<^verbatim>\<open>browser-command-state.ts\<close>, \<^verbatim>\<open>provider-frontend-session.ts\<close>).
  \<^item> Events. \<open>Codex_Progress\<close> (\<^verbatim>\<open>codex-ui-progress.ts\<close>), \<open>Conversation_Activity\<close> and \<open>Activity_Files\<close>
    (\<^verbatim>\<open>conversation-activity-store.ts\<close>), \<open>Runtime_Log\<close> (\<^verbatim>\<open>runtime-log-store.ts\<close>), \<open>Main_Events\<close> (the path of
    an event through \<^verbatim>\<open>main.ts\<close>) and \<open>Crash_Marker\<close> (\<^verbatim>\<open>crash-marker-store.ts\<close>).
  \<^item> Host. \<open>Update\<close> (\<^verbatim>\<open>update-compatibility.ts\<close>, \<^verbatim>\<open>update-manager.ts\<close>), \<open>Mcp_Governance\<close>
    (\<^verbatim>\<open>mcp-enterprise-governance.ts\<close>), \<^verbatim>\<open>mcp-extension-manager.ts\<close> in four theories,
    \<open>Mcp_Records\<close> (its data and parsers), \<open>Mcp_Manager\<close> (its operations), \<open>Mcp_Safety\<close> (what it
    may start) and \<open>Mcp_Update\<close> (what an update leaves), and \<open>Skill_Policy\<close> (\<^verbatim>\<open>workspace-skill-policy.ts\<close>).

  \<^bold>\<open>How the code becomes definitions.\<close> A class is a record of its fields and each method a function
  from the fields to its result and the new fields; an interface is a record, a union of names a
  datatype. A JavaScript value that has not been validated is a \<open>js\<close>; a parser maps it to a record or to
  the message of the error it throws (\<open>'a res\<close>, whose left side is the message). A \<^verbatim>\<open>Map\<close> or \<^verbatim>\<open>Set\<close>
  whose iteration order matters is a list in insertion order. Numbers that the code
  requires to be safe integers are \<open>int\<close> with that check; other numbers keep the values that are not
  finite. An asynchronous method is a function over the state of its environment. Where the code
  can be interrupted at an \<^verbatim>\<open>await\<close> and the order matters, its sections are separate steps and
  the theorems speak of all interleavings (\<open>Runtime_Pool\<close>, \<open>Concurrent_Map\<close>, \<open>Browser_Commands\<close>); elsewhere a
  method runs from start to end.

  \<^bold>\<open>Parameters.\<close> What is not in the sources is an argument: the core behind its HTTP client, the model and
  the tools, the Codex process, the browser page, the clock, \<^verbatim>\<open>randomUUID\<close>, hashes, \<^verbatim>\<open>URL\<close>,
  \<^verbatim>\<open>JSON\<close>, \<^verbatim>\<open>localeCompare\<close> and the file system. What a theorem needs of them is a named
  hypothesis, and its witness instantiates it.

  \<^bold>\<open>What the lemmas show.\<close> Parsers and policies accept exactly the documented values, and what they
  accept can be printed and read back. Stores keep their invariants under every operation, refine a
  map and survive a reload. Runs are bounded and every exit is reported. The traces of the task manager
  and of the ChatGPT agent show that nothing is committed, pushed or finished without the checks
  before it, that no extension is started against the enterprise policy, and that no update loses an extension.
  What reaches the log and the window is bounded and redacted. The properties that
  span components are at the end of this theory.

  \<^bold>\<open>Bounds and fuel.\<close> Loops end because the model's recursion does. The agent loop runs on the bounded
  number of iterations, the graph on the visits left and the wave limit, the scan of
  \<open>Skill_Policy\<close> on the entries not yet visited plus the queue, and the matchers on the rest of their
  text. The star of \<open>Js_Regex\<close> has the length of the text as fuel, which is enough because a round that
  consumes nothing ends the repetition, as in JavaScript.

  \<^bold>\<open>Not modelled.\<close> The drivers of the browser page (\<^verbatim>\<open>chatgpt-review-web-driver.ts\<close> and its companions), whose
  logic is scripts run in a page that is not in the repository; the client of the extension backend, its OAuth flow and the
  marketplaces, which are requests over the network; the plugins, which unpack archives and run processes; desktop control, the daemon, the providers and the tunnels,
  which call native tools; the registration of the channels (\<^verbatim>\<open>ipc.ts\<close>); the React views; and the generated
  declarations of the Codex protocol. They are listed one by one, with the reason, in the manifest.
\<close>

section \<open>Properties that span components\<close>

text \<open>The channels of the Harness are decided by the Harness policy alone.\<close>

lemma owned_by_harness:
  "validate_desktop_ipc_invocation parse_url (lit ''desktop:harness-agent-worker-family-create'') args
    = accept_if (one_arg is_agent_worker_family_create args) ''Harness agent worker family create input is invalid''"
proof -
  have "''desktop:harness-agent-worker-family-create'' \<in> set HARNESS_INBOUND_IPC_CHANNELS" by code_simp
  moreover have "''desktop:harness-agent-worker-family-create'' \<notin> set AGENT_INBOUND_IPC_CHANNELS" by code_simp
  ultimately show ?thesis
    by (auto simp: validate_desktop_ipc_invocation_def validate_harness_ipc_invocation_def Let_def)
qed

lemma accepted_create_input:
  assumes "is_agent_worker_family_create v"
  obtains p ws n where "jget v ''primeRunId'' = JStr p" "jget v ''workspace'' = JStr ws" "1 \<le> n" "n \<le> 8"
    "\<And>l. bound_id p l = Inr p" "\<And>l. bound_id ws l = Inr ws" "bound_worker_count (jget v ''workerCount'') = Inr n"
proof -
  from assms obtain p ws i where p: "jget v ''primeRunId'' = JStr p" "jget v ''workspace'' = JStr ws" "safe_int (jget v ''workerCount'') = Some i"
      "length_within 1 128 p" "length_within 1 128 ws" "\<not> has_control p" "\<not> has_control ws" "1 \<le> i" "i \<le> 8"
    by (auto simp: is_agent_worker_family_create_def bounded_id_def str_sat_iff int_sat_def split: option.splits)
  then have "\<And>l. bound_id p l = Inr p" "\<And>l. bound_id ws l = Inr ws" "bound_worker_count (jget v ''workerCount'') = Inr (nat i)"
    by (auto simp: bound_id_def length_within_def bound_worker_count_def)
  with p that [of p ws "nat i"] show ?thesis by auto
qed

lemma draw_uuids_total:
  assumes "\<And>w. \<exists>u w'. me_uuid env () w = (Inr u, w')"
  shows "\<exists>us w'. draw_uuids env n (w, m) = (Inr us, (w', m))"
proof (induction n arbitrary: w)
  case (Suc n)
  obtain u w1 where "me_uuid env () w = (Inr u, w1)" using assms by blast
  moreover obtain us w2 where "draw_uuids env n (w1, m) = (Inr us, (w2, m))" using Suc.IH by blast
  ultimately show ?case by (simp add: io_bind_def io_ext_def io_return_def)
qed (simp add: io_return_def)

lemma short_hex_id:
  assumes "\<not> has_control u" shows "bound_id (lit ''family_'' @ short_hex u) l = Inr (lit ''family_'' @ short_hex u)"
proof -
  have "\<not> has_control (short_hex u)" using assms by (auto simp: short_hex_def has_control_def list_ex_iff dest: in_set_takeD)
  then show ?thesis by (auto simp: bound_id_def short_hex_def has_control_def lit_def is_control_def)
qed


definition demo_family_input :: js where
  "demo_family_input = JObj [(lit ''primeRunId'', jtext ''r''), (lit ''workspace'', jtext ''w''), (lit ''workerCount'', jint 2)]"


end
